(* ===== verification/Prelude.thy ===== *)
theory Prelude
  imports Main "HOL-Library.Word"
begin

text \<open>
  Shared vocabulary of the development: the machine integers of the C sources,
  byte buffers, stores through pointers that may be NULL, the list and word
  lemmas that several components need, and the generic contracts (locales)
  that the components implement.

  Conventions used throughout:

    \<^item> \<open>uint8_t\<close>, \<open>uint16_t\<close>, \<open>uint32_t\<close>, \<open>uint64_t\<close> are words of that width and
      \<open>int16_t\<close> is a 16 bit word read with \<open>sint\<close>; \<open>size_t\<close> counters that only ever
      hold the length of a buffer are natural numbers;
    \<^item> a pointer argument that the code compares with NULL is an \<open>option\<close>;
    \<^item> a buffer together with its size argument is the list of its bytes, so the
      size argument is the length of the list;
    \<^item> an operation that writes through its arguments returns the new values.
\<close>

unbundle bit_operations_syntax

type_synonym u8 = "8 word"
type_synonym u16 = "16 word"
type_synonym u32 = "32 word"
type_synonym u64 = "64 word"
type_synonym i16 = "16 word"
type_synonym bytes = "8 word list"

named_theorems result_simps \<open>unfolding rules for operations that return a result code\<close>

section \<open>Stores through pointers and copy loops\<close>

definition store :: "'a \<Rightarrow> 'a option \<Rightarrow> 'a option" where
  "store v p = (case p of None \<Rightarrow> None | Some _ \<Rightarrow> Some v)"

lemma store_simps [simp]:
  "store v None = None"
  "store v (Some w) = Some v"
  by (simp_all add: store_def)

lemma store_store [simp]: "store v (store u p) = store v p"
  by (cases p) simp_all

lemma store_None_iff [simp]: "store v p = None \<longleftrightarrow> p = None"
  by (cases p) simp_all

text \<open>The loop \<open>for (i = 0; i < n; ++i) out[off + i] = data[i]\<close>.\<close>

fun copy_at :: "'a list \<Rightarrow> nat \<Rightarrow> 'a list \<Rightarrow> 'a list" where
  "copy_at out off [] = out"
| "copy_at out off (b # bs) = copy_at (out[off := b]) (Suc off) bs"

lemma length_copy_at [simp]: "length (copy_at out off bs) = length out"
  by (induction out off bs rule: copy_at.induct) simp_all

lemma nth_copy_at:
  "i < length out \<Longrightarrow>
   copy_at out off bs ! i = (if off \<le> i \<and> i < off + length bs then bs ! (i - off) else out ! i)"
proof (induction out off bs rule: copy_at.induct)
  case (2 out off b bs)
  then show ?case
    by (auto simp: nth_Cons' nth_list_update)
qed auto

lemma copy_at_eq_append:
  assumes "off + length bs \<le> length out"
  shows "copy_at out off bs = take off out @ bs @ drop (off + length bs) out"
  using assms by (intro nth_equalityI) (auto simp: nth_copy_at nth_append min_def)

lemma copy_at_all: "length bs \<le> length out \<Longrightarrow> copy_at out 0 bs = bs @ drop (length bs) out"
  by (simp add: copy_at_eq_append)

lemma take_copy_at_before: "n \<le> off \<Longrightarrow> take n (copy_at out off bs) = take n out"
  by (rule nth_equalityI) (auto simp: nth_copy_at)

lemma copy_at_segment:
  assumes "off + length bs \<le> length out"
  shows "take (length bs) (drop off (copy_at out off bs)) = bs"
  using assms by (simp add: copy_at_eq_append)

section \<open>Words\<close>

lemma mask_words:
  "(0xFF :: 'a::len word) = mask 8" "(0x0F :: 'a word) = mask 4"
  by (simp_all add: mask_eq_exp_minus_1)

lemma unat_of_nat_small:
  "n < 2 ^ LENGTH('a) \<Longrightarrow> unat (of_nat n :: 'a::len word) = n"
  by (simp add: unsigned_of_nat take_bit_nat_eq_self)

lemma unat_ucast_up:
  "LENGTH('a) \<le> LENGTH('b) \<Longrightarrow> unat (ucast (w :: 'a::len word) :: 'b::len word) = unat w"
  by (simp add: unsigned_ucast_eq take_bit_nat_eq_self less_le_trans [OF unsigned_less])

text \<open>A word below \<open>2 ^ n\<close> has no bit from \<open>n\<close> on.\<close>

lemma word_less_exp_bit:
  fixes w :: "'a::len word"
  assumes "unat w < 2 ^ n" "bit w k" shows "k < n"
proof -
  have "take_bit n w = w"
    using assms(1) by (simp add: word_unat_eq_iff unsigned_take_bit_eq take_bit_nat_eq_self)
  then show ?thesis
    using assms(2) by (metis bit_take_bit_iff)
qed

section \<open>Contract: fixed-width encodings\<close>

text \<open>
  An encoder \<open>enc\<close> into \<open>n\<close> symbols, the decoder \<open>dec\<close> of its peer and the
  canonicalisation \<open>canon\<close> that the encoder performs (clamping, masking, letter
  case). Components state what their wire formats promise by interpreting it.
\<close>

locale fixed_codec =
  fixes enc :: "'a \<Rightarrow> 'b list"
    and dec :: "'b list \<Rightarrow> 'a"
    and canon :: "'a \<Rightarrow> 'a"
    and n :: nat
  assumes length_enc: "length (enc x) = n"
    and dec_enc: "dec (enc x) = canon x"
    and enc_canon: "enc (canon x) = enc x"
begin

lemma enc_eq_iff: "enc x = enc y \<longleftrightarrow> canon x = canon y"
  by (metis dec_enc enc_canon)

lemma canon_idem: "canon (canon x) = canon x"
  by (metis dec_enc enc_canon)

lemma dec_prefix: "dec (take n (enc x @ rest)) = canon x"
  using dec_enc [of x] by (simp add: length_enc)

lemma dec_at:
  "length pre = k \<Longrightarrow> dec (take n (drop k (pre @ enc x @ rest))) = canon x"
  using dec_prefix by simp

end

section \<open>Contract: transition systems with an invariant\<close>

text \<open>States reachable from an initial state by labelled steps.\<close>

inductive reachable :: "('s \<Rightarrow> bool) \<Rightarrow> ('s \<Rightarrow> 'a \<Rightarrow> 's \<Rightarrow> bool) \<Rightarrow> 's \<Rightarrow> bool"
  for init step where
  reach_init: "init s \<Longrightarrow> reachable init step s"
| reach_step: "reachable init step s \<Longrightarrow> step s a s' \<Longrightarrow> reachable init step s'"

inductive steps :: "('s \<Rightarrow> 'a \<Rightarrow> 's \<Rightarrow> bool) \<Rightarrow> 's \<Rightarrow> 'a list \<Rightarrow> 's \<Rightarrow> bool"
  for step where
  steps_Nil: "steps step s [] s"
| steps_Cons: "step s a s' \<Longrightarrow> steps step s' as s'' \<Longrightarrow> steps step s (a # as) s''"

inductive_cases steps_ConsE: "steps step s (a # as) s''"
inductive_cases steps_NilE: "steps step s [] s''"

lemma steps_reachable:
  "steps step s as s' \<Longrightarrow> reachable init step s \<Longrightarrow> reachable init step s'"
  by (induction rule: steps.induct) (auto intro: reach_step)

locale invariant_system =
  fixes init :: "'s \<Rightarrow> bool"
    and step :: "'s \<Rightarrow> 'a \<Rightarrow> 's \<Rightarrow> bool"
    and inv :: "'s \<Rightarrow> bool"
  assumes init_inv: "init s \<Longrightarrow> inv s"
    and step_inv: "inv s \<Longrightarrow> step s a s' \<Longrightarrow> inv s'"
begin

lemma reachable_inv: "reachable init step s \<Longrightarrow> inv s"
  by (induction rule: reachable.induct) (auto intro: init_inv step_inv)

lemma steps_inv: "steps step s as s' \<Longrightarrow> inv s \<Longrightarrow> inv s'"
  by (induction rule: steps.induct) (auto intro: step_inv)

text \<open>A property of two states that every step keeps holds along every run.\<close>

lemma steps_until:
  assumes "steps step s as s'" "inv s" "P s"
    and "\<And>s a s'. inv s \<Longrightarrow> P s \<Longrightarrow> a \<in> set as \<Longrightarrow> step s a s' \<Longrightarrow> P s'"
  shows "P s'"
  using assms
proof (induction rule: steps.induct)
  case (steps_Cons s a s' as s'')
  have "P s'" "inv s'"
    using steps_Cons.prems steps_Cons.hyps(1) step_inv by (auto)
  then show ?case
    using steps_Cons.IH steps_Cons.prems by auto
qed simp

end

end
