(* ===== verification/SwitchReport.thy ===== *)
theory SwitchReport
  imports Prelude
begin

text \<open>
  The controller state of \<open>switch/switch_controller_state\<close>, the standard full
  input report (report id \<open>0x30\<close>) of \<open>switch/switch_report.c\<close> and the subcommand
  reply report (report id \<open>0x21\<close>) of \<open>switch/switch_subcommand_reply.c\<close>.
\<close>

section \<open>Controller state\<close>

record swbt_state_t =
  buttons :: u32
  lx :: u16
  ly :: u16
  rx :: u16
  ry :: u16
  accel_x :: i16
  accel_y :: i16
  accel_z :: i16
  gyro_x :: i16
  gyro_y :: i16
  gyro_z :: i16

definition swbt_state_neutral :: swbt_state_t where
  "swbt_state_neutral = \<lparr>buttons = 0, lx = 2048, ly = 2048, rx = 2048, ry = 2048,
     accel_x = 0, accel_y = 0, accel_z = 0, gyro_x = 0, gyro_y = 0, gyro_z = 0\<rparr>"

section \<open>The standard full report\<close>

datatype swbt_switch_report_result_t =
    SWBT_SWITCH_REPORT_OK
  | SWBT_SWITCH_REPORT_ERROR_INVALID_ARGUMENT
  | SWBT_SWITCH_REPORT_ERROR_BUFFER_TOO_SMALL

record swbt_switch_report_options_t =
  opt_timer :: u8
  opt_battery_connection :: u8
  opt_vibrator_report :: u8

definition SWBT_SWITCH_INPUT_REPORT_STANDARD_FULL :: u8 where
  "SWBT_SWITCH_INPUT_REPORT_STANDARD_FULL = 0x30"

definition SWBT_SWITCH_STANDARD_FULL_REPORT_SIZE :: nat where
  "SWBT_SWITCH_STANDARD_FULL_REPORT_SIZE = 49"

definition swbt_clamp_stick_12bit :: "u16 \<Rightarrow> u16" where
  "swbt_clamp_stick_12bit v = (if v > 0x0FFF then 0x0FFF else v)"

definition swbt_zero_report :: "bytes \<Rightarrow> bytes" where
  "swbt_zero_report out = copy_at out 0 (replicate SWBT_SWITCH_STANDARD_FULL_REPORT_SIZE 0)"

definition swbt_write_stick :: "bytes \<Rightarrow> nat \<Rightarrow> u16 \<Rightarrow> u16 \<Rightarrow> bytes" where
  "swbt_write_stick out off x y =
     (let clamped_x = swbt_clamp_stick_12bit x;
          clamped_y = swbt_clamp_stick_12bit y;
          out = out[off := ucast (clamped_x AND 0xFF)];
          out = out[off + 1 := ucast ((drop_bit 8 clamped_x AND 0x0F) OR push_bit 4 (clamped_y AND 0x0F))]
      in out[off + 2 := ucast (drop_bit 4 clamped_y AND 0xFF)])"

definition swbt_write_i16_le :: "bytes \<Rightarrow> nat \<Rightarrow> i16 \<Rightarrow> bytes" where
  "swbt_write_i16_le out off v =
     out[off := ucast (v AND 0xFF), off + 1 := ucast (drop_bit 8 v AND 0xFF)]"

definition swbt_write_imu_frame :: "bytes \<Rightarrow> nat \<Rightarrow> swbt_state_t \<Rightarrow> bytes" where
  "swbt_write_imu_frame out off s =
     (let out = swbt_write_i16_le out off (accel_x s);
          out = swbt_write_i16_le out (off + 2) (accel_y s);
          out = swbt_write_i16_le out (off + 4) (accel_z s);
          out = swbt_write_i16_le out (off + 6) (gyro_x s);
          out = swbt_write_i16_le out (off + 8) (gyro_y s)
      in swbt_write_i16_le out (off + 10) (gyro_z s))"

fun swbt_write_imu_frames :: "bytes \<Rightarrow> swbt_state_t \<Rightarrow> nat list \<Rightarrow> bytes" where
  "swbt_write_imu_frames out s [] = out"
| "swbt_write_imu_frames out s (frame # frames) =
     swbt_write_imu_frames (swbt_write_imu_frame out (13 + frame * 12) s) s frames"

definition swbt_switch_build_standard_full_report ::
  "swbt_state_t option \<Rightarrow> swbt_switch_report_options_t option \<Rightarrow> bytes option \<Rightarrow> nat option
   \<Rightarrow> swbt_switch_report_result_t \<times> bytes option \<times> nat option" where
  "swbt_switch_build_standard_full_report state options out_report out_written =
     (let out_written = store 0 out_written in
      case (state, options, out_report) of
        (Some s, Some opts, Some out) \<Rightarrow>
          if length out < SWBT_SWITCH_STANDARD_FULL_REPORT_SIZE
          then (SWBT_SWITCH_REPORT_ERROR_BUFFER_TOO_SMALL, Some out,
                store SWBT_SWITCH_STANDARD_FULL_REPORT_SIZE out_written)
          else
            let out = swbt_zero_report out;
                out = out[0 := SWBT_SWITCH_INPUT_REPORT_STANDARD_FULL];
                out = out[1 := opt_timer opts];
                out = out[2 := opt_battery_connection opts];
                out = out[3 := ucast (buttons s AND 0xFF)];
                out = out[4 := ucast (drop_bit 8 (buttons s) AND 0xFF)];
                out = out[5 := ucast (drop_bit 16 (buttons s) AND 0xFF)];
                out = swbt_write_stick out 6 (lx s) (ly s);
                out = swbt_write_stick out 9 (rx s) (ry s);
                out = out[12 := opt_vibrator_report opts];
                out = swbt_write_imu_frames out s [0, 1, 2]
            in (SWBT_SWITCH_REPORT_OK, Some out,
                store SWBT_SWITCH_STANDARD_FULL_REPORT_SIZE out_written)
      | _ \<Rightarrow> (SWBT_SWITCH_REPORT_ERROR_INVALID_ARGUMENT, out_report, out_written))"

section \<open>Byte layouts and their decoders\<close>

text \<open>
  The layout the Switch reads: a stick is two 12 bit numbers in three bytes, an
  axis of the motion sensors a little endian 16 bit number, and the buttons 24
  bits. The definitions here are the specification the writers above refine.
\<close>

definition stick_bytes :: "u16 \<times> u16 \<Rightarrow> bytes" where
  "stick_bytes = (\<lambda>(x, y). swbt_write_stick [0, 0, 0] 0 x y)"

definition stick_decode :: "bytes \<Rightarrow> u16 \<times> u16" where
  "stick_decode bs =
     (ucast (bs ! 0) OR push_bit 8 (ucast (bs ! 1) AND 0x0F),
      drop_bit 4 (ucast (bs ! 1)) OR push_bit 4 (ucast (bs ! 2)))"

definition stick_clamp :: "u16 \<times> u16 \<Rightarrow> u16 \<times> u16" where
  "stick_clamp = (\<lambda>(x, y). (swbt_clamp_stick_12bit x, swbt_clamp_stick_12bit y))"

definition i16_bytes :: "i16 \<Rightarrow> bytes" where
  "i16_bytes v = [ucast v, ucast (drop_bit 8 v)]"

definition i16_decode :: "bytes \<Rightarrow> i16" where
  "i16_decode bs = ucast (bs ! 0) OR push_bit 8 (ucast (bs ! 1))"

definition button_bytes :: "u32 \<Rightarrow> bytes" where
  "button_bytes b = [ucast b, ucast (drop_bit 8 b), ucast (drop_bit 16 b)]"

definition button_decode :: "bytes \<Rightarrow> u32" where
  "button_decode bs = ucast (bs ! 0) OR push_bit 8 (ucast (bs ! 1)) OR push_bit 16 (ucast (bs ! 2))"

lemma clamp_le: "swbt_clamp_stick_12bit v \<le> 0xFFF"
  by (simp add: swbt_clamp_stick_12bit_def not_less)

lemma clamp_id: "v \<le> 0xFFF \<Longrightarrow> swbt_clamp_stick_12bit v = v"
  by (simp add: swbt_clamp_stick_12bit_def linorder_not_le [symmetric])

lemma clamp_idem [simp]:
  "swbt_clamp_stick_12bit (swbt_clamp_stick_12bit v) = swbt_clamp_stick_12bit v"
  by (simp add: clamp_id clamp_le)

lemma stick_bytes_eq:
  "stick_bytes (x, y) =
     [ucast (swbt_clamp_stick_12bit x AND 0xFF),
      ucast ((drop_bit 8 (swbt_clamp_stick_12bit x) AND 0x0F)
        OR push_bit 4 (swbt_clamp_stick_12bit y AND 0x0F)),
      ucast (drop_bit 4 (swbt_clamp_stick_12bit y) AND 0xFF)]"
  by (simp add: stick_bytes_def swbt_write_stick_def Let_def numeral_2_eq_2)

lemma stick_decode_bytes: "stick_decode (stick_bytes p) = stick_clamp p"
proof (cases p)
  case (Pair x y)
  let ?x = "swbt_clamp_stick_12bit x" and ?y = "swbt_clamp_stick_12bit y"
  have bits: "bit (swbt_clamp_stick_12bit v) k \<Longrightarrow> k < 12" for v k
    using word_less_exp_bit [of "swbt_clamp_stick_12bit v" 12 k] clamp_le [of v]
    by (simp add: word_le_nat_alt)
  have "fst (stick_decode (stick_bytes (x, y))) = ?x"
    unfolding stick_decode_def stick_bytes_eq mask_words
    by (rule bit_word_eqI) (auto simp: bit_simps dest: bits)
  moreover have "snd (stick_decode (stick_bytes (x, y))) = ?y"
    unfolding stick_decode_def stick_bytes_eq mask_words
    by (rule bit_word_eqI)
       (auto simp: bit_simps dest: bits, metis le_add_diff_inverse not_less)
  ultimately show ?thesis
    by (simp add: Pair stick_clamp_def prod_eq_iff)
qed

text \<open>The three wire formats as instances of the codec contract.\<close>

interpretation stick: fixed_codec stick_bytes stick_decode stick_clamp 3
proof unfold_locales
  fix p show "length (stick_bytes p) = 3"
    by (cases p) (simp add: stick_bytes_eq)
  show "stick_decode (stick_bytes p) = stick_clamp p"
    by (rule stick_decode_bytes)
  show "stick_bytes (stick_clamp p) = stick_bytes p"
    by (cases p) (simp add: stick_clamp_def stick_bytes_eq)
qed

interpretation axis: fixed_codec i16_bytes i16_decode id 2
  by unfold_locales
     (auto simp: i16_bytes_def i16_decode_def bit_simps not_less intro!: bit_word_eqI)

interpretation keys: fixed_codec button_bytes button_decode "take_bit 24" 3
proof unfold_locales
  fix b :: u32
  show "button_decode (button_bytes b) = take_bit 24 b"
  proof (rule bit_word_eqI)
    fix k :: nat
    consider "k < 8" | "8 \<le> k" "k < 16" | "16 \<le> k" by linarith
    then show "bit (button_decode (button_bytes b)) k \<longleftrightarrow> bit (take_bit 24 b) k"
      by cases (auto simp: button_bytes_def button_decode_def bit_simps)
  qed
  show "button_bytes (take_bit 24 b) = button_bytes b"
    by (auto simp: button_bytes_def bit_simps intro!: bit_word_eqI)
qed (simp add: button_bytes_def)

text \<open>The bytes the report writers produce, as one list.\<close>

definition prefix_bytes :: "u8 \<Rightarrow> swbt_state_t \<Rightarrow> swbt_switch_report_options_t \<Rightarrow> bytes" where
  "prefix_bytes rid s opts =
     [rid, opt_timer opts, opt_battery_connection opts] @ button_bytes (buttons s)
     @ stick_bytes (lx s, ly s) @ stick_bytes (rx s, ry s) @ [opt_vibrator_report opts]"

definition imu_bytes :: "swbt_state_t \<Rightarrow> bytes" where
  "imu_bytes s = i16_bytes (accel_x s) @ i16_bytes (accel_y s) @ i16_bytes (accel_z s)
     @ i16_bytes (gyro_x s) @ i16_bytes (gyro_y s) @ i16_bytes (gyro_z s)"

definition standard_full_bytes :: "swbt_state_t \<Rightarrow> swbt_switch_report_options_t \<Rightarrow> bytes" where
  "standard_full_bytes s opts =
     prefix_bytes SWBT_SWITCH_INPUT_REPORT_STANDARD_FULL s opts @ imu_bytes s @ imu_bytes s @ imu_bytes s"

lemma ucast_mask_byte [simp]: "(ucast ((w :: 'a::len word) AND 0xFF) :: u8) = ucast w"
  by (rule bit_word_eqI) (auto simp: mask_words bit_simps dest: bit_imp_le_length)

lemma length_prefix_bytes [simp]: "length (prefix_bytes rid s opts) = 13"
  by (simp add: prefix_bytes_def stick.length_enc keys.length_enc)

lemma length_imu_bytes [simp]: "length (imu_bytes s) = 12"
  by (simp add: imu_bytes_def axis.length_enc)

lemma length_standard_full_bytes [simp]: "length (standard_full_bytes s opts) = 49"
  by (simp add: standard_full_bytes_def)

lemma list_update_append_at:
  "length pre = k \<Longrightarrow> (pre @ x # rest)[k := y] = pre @ y # rest"
  by (simp add: list_update_append)

text \<open>Each writer overwrites exactly its window of the buffer.\<close>

lemma write_stick_copy: "swbt_write_stick out off x y = copy_at out off (stick_bytes (x, y))"
  by (simp add: swbt_write_stick_def stick_bytes_eq Let_def)

lemma write_i16_copy: "swbt_write_i16_le out off v = copy_at out off (i16_bytes v)"
  by (simp add: swbt_write_i16_le_def i16_bytes_def)

lemma copy_at_append: "copy_at (copy_at out off xs) (off + length xs) ys = copy_at out off (xs @ ys)"
  by (induction out off xs rule: copy_at.induct) simp_all

lemma write_imu_copy: "swbt_write_imu_frame out off s = copy_at out off (imu_bytes s)"
  by (simp add: swbt_write_imu_frame_def imu_bytes_def write_i16_copy Let_def i16_bytes_def numeral_eq_Suc)

lemma build_standard_full_ok:
  assumes "49 \<le> length out"
  shows "swbt_switch_build_standard_full_report (Some s) (Some opts) (Some out) w =
    (SWBT_SWITCH_REPORT_OK, Some (standard_full_bytes s opts @ drop 49 out), store 49 w)"
proof -
  let ?z = "swbt_zero_report out"
  have len: "length ?z = length out"
    by (simp add: swbt_zero_report_def)
  have drop: "drop 49 ?z = drop 49 out"
    using assms by (simp add: swbt_zero_report_def SWBT_SWITCH_STANDARD_FULL_REPORT_SIZE_def copy_at_all)
  have "fst (snd (swbt_switch_build_standard_full_report (Some s) (Some opts) (Some out) w)) =
    Some (copy_at ?z 0 (standard_full_bytes s opts))"
    using assms
    by (simp add: swbt_switch_build_standard_full_report_def standard_full_bytes_def prefix_bytes_def
        write_stick_copy write_imu_copy imu_bytes_def i16_bytes_def stick_bytes_eq button_bytes_def
        SWBT_SWITCH_STANDARD_FULL_REPORT_SIZE_def Let_def numeral_eq_Suc)
  then show ?thesis
    using assms drop len
    by (simp add: copy_at_all swbt_switch_build_standard_full_report_def
        SWBT_SWITCH_STANDARD_FULL_REPORT_SIZE_def Let_def split: option.splits)
qed

section \<open>The subcommand reply report\<close>

datatype swbt_switch_subcommand_reply_result_t =
    SWBT_SWITCH_SUBCOMMAND_REPLY_OK
  | SWBT_SWITCH_SUBCOMMAND_REPLY_ERROR_INVALID_ARGUMENT
  | SWBT_SWITCH_SUBCOMMAND_REPLY_ERROR_BUFFER_TOO_SMALL
  | SWBT_SWITCH_SUBCOMMAND_REPLY_ERROR_DATA_TOO_LARGE

text \<open>
  The \<open>data\<close> pointer may be NULL, and \<open>data_len\<close> is a separate field: the reply
  builder reads \<open>data_len\<close> bytes of the array the pointer names.
\<close>

record swbt_switch_subcommand_reply_t =
  reply_ack :: u8
  reply_subcommand_id :: u8
  reply_data :: "bytes option"
  reply_data_len :: nat

definition SWBT_SWITCH_INPUT_REPORT_SUBCOMMAND_REPLY :: u8 where
  "SWBT_SWITCH_INPUT_REPORT_SUBCOMMAND_REPLY = 0x21"

definition SWBT_SWITCH_SUBCOMMAND_REPLY_REPORT_SIZE :: nat where
  "SWBT_SWITCH_SUBCOMMAND_REPLY_REPORT_SIZE = 50"

definition SWBT_SWITCH_SUBCOMMAND_REPLY_MAX_DATA_SIZE :: nat where
  "SWBT_SWITCH_SUBCOMMAND_REPLY_MAX_DATA_SIZE = 35"

definition swbt_zero_reply_report :: "bytes \<Rightarrow> bytes" where
  "swbt_zero_reply_report out = copy_at out 0 (replicate SWBT_SWITCH_SUBCOMMAND_REPLY_REPORT_SIZE 0)"

definition swbt_write_standard_prefix ::
  "bytes \<Rightarrow> swbt_state_t \<Rightarrow> swbt_switch_report_options_t \<Rightarrow> bytes" where
  "swbt_write_standard_prefix out s opts =
     (let out = out[0 := SWBT_SWITCH_INPUT_REPORT_SUBCOMMAND_REPLY];
          out = out[1 := opt_timer opts];
          out = out[2 := opt_battery_connection opts];
          out = out[3 := ucast (buttons s AND 0xFF)];
          out = out[4 := ucast (drop_bit 8 (buttons s) AND 0xFF)];
          out = out[5 := ucast (drop_bit 16 (buttons s) AND 0xFF)];
          out = swbt_write_stick out 6 (lx s) (ly s);
          out = swbt_write_stick out 9 (rx s) (ry s)
      in out[12 := opt_vibrator_report opts])"

definition swbt_switch_build_subcommand_reply ::
  "swbt_state_t option \<Rightarrow> swbt_switch_report_options_t option \<Rightarrow> swbt_switch_subcommand_reply_t option
   \<Rightarrow> bytes option \<Rightarrow> nat option
   \<Rightarrow> swbt_switch_subcommand_reply_result_t \<times> bytes option \<times> nat option" where
  "swbt_switch_build_subcommand_reply state report_options reply out_report out_written =
     (let out_written = store 0 out_written in
      case (state, report_options, reply, out_report) of
        (Some s, Some opts, Some r, Some out) \<Rightarrow>
          if reply_data_len r > 0 \<and> reply_data r = None
          then (SWBT_SWITCH_SUBCOMMAND_REPLY_ERROR_INVALID_ARGUMENT, Some out, out_written)
          else if reply_data_len r > SWBT_SWITCH_SUBCOMMAND_REPLY_MAX_DATA_SIZE
          then (SWBT_SWITCH_SUBCOMMAND_REPLY_ERROR_DATA_TOO_LARGE, Some out, out_written)
          else if length out < SWBT_SWITCH_SUBCOMMAND_REPLY_REPORT_SIZE
          then (SWBT_SWITCH_SUBCOMMAND_REPLY_ERROR_BUFFER_TOO_SMALL, Some out,
                store SWBT_SWITCH_SUBCOMMAND_REPLY_REPORT_SIZE out_written)
          else
            let out = swbt_zero_reply_report out;
                out = swbt_write_standard_prefix out s opts;
                out = out[13 := reply_ack r];
                out = out[14 := reply_subcommand_id r];
                out = copy_at out 15 (case reply_data r of None \<Rightarrow> []
                                      | Some data \<Rightarrow> take (reply_data_len r) data)
            in (SWBT_SWITCH_SUBCOMMAND_REPLY_OK, Some out,
                store SWBT_SWITCH_SUBCOMMAND_REPLY_REPORT_SIZE out_written)
      | _ \<Rightarrow> (SWBT_SWITCH_SUBCOMMAND_REPLY_ERROR_INVALID_ARGUMENT, out_report, out_written))"

text \<open>The bytes of a reply whose data array has exactly the announced length.\<close>

definition pad_to :: "nat \<Rightarrow> bytes \<Rightarrow> bytes" where
  "pad_to n bs = bs @ replicate (n - length bs) 0"

definition reply_bytes ::
  "swbt_state_t \<Rightarrow> swbt_switch_report_options_t \<Rightarrow> u8 \<Rightarrow> u8 \<Rightarrow> bytes \<Rightarrow> bytes" where
  "reply_bytes s opts ack sid data =
     prefix_bytes SWBT_SWITCH_INPUT_REPORT_SUBCOMMAND_REPLY s opts @ [ack, sid] @ pad_to 35 data"

lemma length_reply_bytes [simp]:
  "length data \<le> 35 \<Longrightarrow> length (reply_bytes s opts ack sid data) = 50"
  by (simp add: reply_bytes_def pad_to_def)

lemma write_prefix_copy:
  "swbt_write_standard_prefix out s opts =
     copy_at out 0 (prefix_bytes SWBT_SWITCH_INPUT_REPORT_SUBCOMMAND_REPLY s opts)"
  by (simp add: swbt_write_standard_prefix_def prefix_bytes_def write_stick_copy stick_bytes_eq
      button_bytes_def Let_def numeral_eq_Suc)

lemma zero_reply_report_append:
  "50 \<le> length out \<Longrightarrow> swbt_zero_reply_report out = replicate 50 0 @ drop 50 out"
  by (simp add: swbt_zero_reply_report_def SWBT_SWITCH_SUBCOMMAND_REPLY_REPORT_SIZE_def copy_at_all)

lemma build_reply_window:
  assumes "50 \<le> length out" "length data \<le> 35"
  shows "copy_at ((swbt_write_standard_prefix (swbt_zero_reply_report out) s opts)[13 := ack, 14 := sid])
      15 data = reply_bytes s opts ack sid data @ drop 50 out"
proof -
  let ?p = "prefix_bytes SWBT_SWITCH_INPUT_REPORT_SUBCOMMAND_REPLY s opts"
  have "(swbt_write_standard_prefix (swbt_zero_reply_report out) s opts)[13 := ack, 14 := sid] =
      ?p @ [ack, sid] @ replicate 35 0 @ drop 50 out"
    using assms(1)
    by (simp add: write_prefix_copy zero_reply_report_append copy_at_all list_update_append
        numeral_eq_Suc)
  then show ?thesis
    using assms(2)
    by (simp add: copy_at_eq_append reply_bytes_def pad_to_def)
qed

lemma build_reply_ok:
  assumes "50 \<le> length out" "length data \<le> 35"
    and "reply_data r = Some data" "reply_data_len r = length data"
  shows "swbt_switch_build_subcommand_reply (Some s) (Some opts) (Some r) (Some out) w =
    (SWBT_SWITCH_SUBCOMMAND_REPLY_OK,
     Some (reply_bytes s opts (reply_ack r) (reply_subcommand_id r) data @ drop 50 out), store 50 w)"
  using assms build_reply_window [of out data]
  by (cases w) (simp_all add: swbt_switch_build_subcommand_reply_def Let_def
      SWBT_SWITCH_SUBCOMMAND_REPLY_MAX_DATA_SIZE_def SWBT_SWITCH_SUBCOMMAND_REPLY_REPORT_SIZE_def)

lemma build_reply_ok_empty:
  assumes "50 \<le> length out" "reply_data r = None" "reply_data_len r = 0"
  shows "swbt_switch_build_subcommand_reply (Some s) (Some opts) (Some r) (Some out) w =
    (SWBT_SWITCH_SUBCOMMAND_REPLY_OK,
     Some (reply_bytes s opts (reply_ack r) (reply_subcommand_id r) [] @ drop 50 out), store 50 w)"
  using assms build_reply_window [of out "[]"]
  by (cases w) (simp_all add: swbt_switch_build_subcommand_reply_def Let_def
      SWBT_SWITCH_SUBCOMMAND_REPLY_MAX_DATA_SIZE_def SWBT_SWITCH_SUBCOMMAND_REPLY_REPORT_SIZE_def)

section \<open>Reading a report back\<close>

definition report_options_of :: "bytes \<Rightarrow> swbt_switch_report_options_t" where
  "report_options_of bs =
     \<lparr>opt_timer = bs ! 1, opt_battery_connection = bs ! 2, opt_vibrator_report = bs ! 12\<rparr>"

definition report_state_of :: "nat \<Rightarrow> bytes \<Rightarrow> swbt_state_t" where
  "report_state_of frame bs =
     (let axis = (\<lambda>i. i16_decode (take 2 (drop (13 + 12 * frame + 2 * i) bs)));
          l = stick_decode (take 3 (drop 6 bs)); r = stick_decode (take 3 (drop 9 bs))
      in \<lparr>buttons = button_decode (take 3 (drop 3 bs)),
          lx = fst l, ly = snd l, rx = fst r, ry = snd r,
          accel_x = axis 0, accel_y = axis 1, accel_z = axis 2,
          gyro_x = axis 3, gyro_y = axis 4, gyro_z = axis 5\<rparr>)"

definition report_canon :: "swbt_state_t \<Rightarrow> swbt_state_t" where
  "report_canon s = s\<lparr>buttons := take_bit 24 (buttons s),
     lx := swbt_clamp_stick_12bit (lx s), ly := swbt_clamp_stick_12bit (ly s),
     rx := swbt_clamp_stick_12bit (rx s), ry := swbt_clamp_stick_12bit (ry s)\<rparr>"

lemma options_of_prefix:
  "report_options_of (prefix_bytes rid s opts @ rest) = opts"
  by (simp add: report_options_of_def prefix_bytes_def button_bytes_def stick_bytes_eq)

lemma state_of_prefix:
  "button_decode (take 3 (drop 3 (prefix_bytes rid s opts))) = take_bit 24 (buttons s)"
  "stick_decode (take 3 (drop 6 (prefix_bytes rid s opts))) = stick_clamp (lx s, ly s)"
  "stick_decode (take 3 (drop 9 (prefix_bytes rid s opts))) = stick_clamp (rx s, ry s)"
  by (simp_all add: prefix_bytes_def keys.length_enc stick.length_enc keys.dec_enc stick.dec_enc)

lemma axes_of_imu:
  "i16_decode (take 2 (imu_bytes s)) = accel_x s"
  "i16_decode (take 2 (drop 2 (imu_bytes s))) = accel_y s"
  "i16_decode (take 2 (drop 4 (imu_bytes s))) = accel_z s"
  "i16_decode (take 2 (drop 6 (imu_bytes s))) = gyro_x s"
  "i16_decode (take 2 (drop 8 (imu_bytes s))) = gyro_y s"
  "i16_decode (drop 10 (imu_bytes s)) = gyro_z s"
  by (simp_all add: imu_bytes_def axis.length_enc axis.dec_enc)

lemma drop_imu_frames:
  assumes "frame < 3"
  shows "\<exists>r. drop (13 + 12 * frame) (standard_full_bytes s opts @ rest) = imu_bytes s @ r"
proof -
  have "frame = 0 \<or> frame = 1 \<or> frame = 2"
    using assms by linarith
  then show ?thesis
    by (elim disjE) (simp_all add: standard_full_bytes_def)
qed

lemma state_of_standard_full:
  assumes "frame < 3"
  shows "report_state_of frame (standard_full_bytes s opts @ rest) = report_canon s"
proof -
  let ?bs = "standard_full_bytes s opts @ rest"
  obtain r where r: "drop (13 + 12 * frame) ?bs = imu_bytes s @ r"
    using drop_imu_frames [OF assms] by blast
  have axis: "drop (13 + 12 * frame + k) ?bs = drop k (imu_bytes s @ r)" for k
    by (metis drop_drop add.commute r)
  have pre: "?bs = prefix_bytes SWBT_SWITCH_INPUT_REPORT_STANDARD_FULL s opts
      @ (imu_bytes s @ imu_bytes s @ imu_bytes s @ rest)"
    by (simp add: standard_full_bytes_def)
  show ?thesis
    unfolding report_state_of_def Let_def axis
    by (simp add: pre state_of_prefix axes_of_imu stick_clamp_def report_canon_def)
qed

lemma prefix_of_reply:
  assumes "length data \<le> 35"
  shows "button_decode (take 3 (drop 3 (reply_bytes s opts ack sid data))) = take_bit 24 (buttons s)"
    and "stick_decode (take 3 (drop 6 (reply_bytes s opts ack sid data))) = stick_clamp (lx s, ly s)"
    and "stick_decode (take 3 (drop 9 (reply_bytes s opts ack sid data))) = stick_clamp (rx s, ry s)"
    and "report_options_of (reply_bytes s opts ack sid data) = opts"
  by (simp_all add: reply_bytes_def state_of_prefix options_of_prefix)

section \<open>Properties\<close>

text \<open>C16: Building a standard full report into a buffer of at least 49 bytes succeeds, reports 49
  bytes written and leaves the rest of the buffer alone; the Switch reads back from it the report id
  0x30, the options, and in each of the three motion frames the controller state itself, up to the
  clamping of the sticks to 12 bits and the 24 bits of the button field.\<close>

theorem standard_full_report_roundtrip:
  assumes "49 \<le> length out" and "frame < 3"
  shows "\<exists>bs. swbt_switch_build_standard_full_report (Some s) (Some opts) (Some out) (Some w) =
      (SWBT_SWITCH_REPORT_OK, Some bs, Some 49)
    \<and> length bs = length out \<and> drop 49 bs = drop 49 out \<and> bs ! 0 = 0x30
    \<and> report_options_of bs = opts \<and> report_state_of frame bs = report_canon s"
  using assms
  by (simp add: build_standard_full_ok state_of_standard_full)
     (simp add: standard_full_bytes_def prefix_bytes_def options_of_prefix [unfolded prefix_bytes_def append_assoc, simplified]
       SWBT_SWITCH_INPUT_REPORT_STANDARD_FULL_def)

theorem standard_full_report_roundtrip_witness:
  "\<exists>bs. swbt_switch_build_standard_full_report
      (Some (swbt_state_neutral\<lparr>buttons := 0xFF00000F, lx := 0xFFFF, accel_z := 0xFFFE\<rparr>))
      (Some \<lparr>opt_timer = 7, opt_battery_connection = 0x8E, opt_vibrator_report = 0xB0\<rparr>)
      (Some (replicate 64 1)) (Some 0) = (SWBT_SWITCH_REPORT_OK, Some bs, Some 49)
    \<and> length bs = 64 \<and> drop 49 bs = replicate 15 1 \<and> bs ! 0 = 0x30
    \<and> report_options_of bs = \<lparr>opt_timer = 7, opt_battery_connection = 0x8E, opt_vibrator_report = 0xB0\<rparr>
    \<and> report_state_of 2 bs = swbt_state_neutral\<lparr>buttons := 0xF, lx := 0xFFF, accel_z := 0xFFFE\<rparr>"
  using standard_full_report_roundtrip [of "replicate 64 1" 2
      "swbt_state_neutral\<lparr>buttons := 0xFF00000F, lx := 0xFFFF, accel_z := 0xFFFE\<rparr>"
      "\<lparr>opt_timer = 7, opt_battery_connection = 0x8E, opt_vibrator_report = 0xB0\<rparr>" 0]
  by (simp add: report_canon_def swbt_state_neutral_def swbt_clamp_stick_12bit_def)

end
