(* ===== verification/ReplyQueue.thy ===== *)
theory ReplyQueue
  imports SwitchReport
begin

text \<open>
  The queue of pending subcommand replies, \<open>btstack_bridge/subcommand_reply_queue.c\<close>:
  a ring of four items that refines a bounded first-in first-out list.
\<close>

section \<open>Contract: bounded queues\<close>

datatype 'a queue_op = Put 'a | Get

locale bounded_fifo =
  fixes content :: "'q \<Rightarrow> 'a list"
    and ok :: "'q \<Rightarrow> bool"
    and cap :: nat
    and put :: "'q \<Rightarrow> 'a \<Rightarrow> bool \<times> 'q"
    and get :: "'q \<Rightarrow> 'a option \<times> 'q"
    and legal :: "'a \<Rightarrow> bool"
  assumes bounded: "ok q \<Longrightarrow> length (content q) \<le> cap"
    and put_ok: "ok q \<Longrightarrow> ok (snd (put q x))"
    and put_content: "ok q \<Longrightarrow> content (snd (put q x)) =
      (if legal x \<and> length (content q) < cap then content q @ [x] else content q)"
    and put_result: "ok q \<Longrightarrow> fst (put q x) \<longleftrightarrow> legal x \<and> length (content q) < cap"
    and get_ok: "ok q \<Longrightarrow> ok (snd (get q))"
    and get_content: "ok q \<Longrightarrow> content (snd (get q)) = tl (content q)"
    and get_result: "ok q \<Longrightarrow> fst (get q) = (case content q of [] \<Rightarrow> None | x # _ \<Rightarrow> Some x)"
begin

fun run :: "'q \<Rightarrow> 'a queue_op list \<Rightarrow> 'a list \<times> 'a list \<times> 'q" where
  "run q [] = ([], [], q)"
| "run q (Put x # ops) =
     (let (acc, q1) = put q x; (ins, outs, q2) = run q1 ops in (if acc then x # ins else ins, outs, q2))"
| "run q (Get # ops) =
     (let (y, q1) = get q; (ins, outs, q2) = run q1 ops
      in (ins, case y of None \<Rightarrow> outs | Some y \<Rightarrow> y # outs, q2))"

text \<open>What goes in comes out in the same order; nothing is lost, duplicated or invented.\<close>

lemma fifo_order:
  assumes "ok q" "run q ops = (ins, outs, q')"
  shows "ok q' \<and> content q @ ins = outs @ content q'"
  using assms
proof (induction q ops arbitrary: ins outs q' rule: run.induct)
  case (2 q x ops)
  obtain acc q1 where p: "put q x = (acc, q1)"
    by (cases "put q x")
  obtain ins1 outs1 q2 where r: "run q1 ops = (ins1, outs1, q2)"
    by (cases "run q1 ops")
  have "ok q1" "content q1 = (if acc then content q @ [x] else content q)"
    using put_ok [OF "2.prems"(1), of x] put_content [OF "2.prems"(1), of x] put_result [OF "2.prems"(1), of x] p
    by auto
  with "2.IH" [OF p [symmetric] refl _ r] "2.prems"(2) p r show ?case
    by (auto split: if_splits)
next
  case (3 q ops)
  obtain y q1 where g: "get q = (y, q1)"
    by (cases "get q")
  obtain ins1 outs1 q2 where r: "run q1 ops = (ins1, outs1, q2)"
    by (cases "run q1 ops")
  have "ok q1" "content q1 = tl (content q)" "y = (case content q of [] \<Rightarrow> None | x # _ \<Rightarrow> Some x)"
    using get_ok [OF "3.prems"(1)] get_content [OF "3.prems"(1)] get_result [OF "3.prems"(1)] g
    by auto
  with "3.IH" [OF g [symmetric] refl _ r] "3.prems"(2) g r show ?case
    by (cases "content q") auto
qed simp

end

section \<open>Model\<close>

datatype swbt_btstack_subcommand_reply_queue_result_t =
    SWBT_BTSTACK_SUBCOMMAND_REPLY_QUEUE_OK
  | SWBT_BTSTACK_SUBCOMMAND_REPLY_QUEUE_EMPTY
  | SWBT_BTSTACK_SUBCOMMAND_REPLY_QUEUE_ERROR_INVALID_ARGUMENT
  | SWBT_BTSTACK_SUBCOMMAND_REPLY_QUEUE_ERROR_FULL
  | SWBT_BTSTACK_SUBCOMMAND_REPLY_QUEUE_ERROR_INVALID_REPORT_SIZE
  | SWBT_BTSTACK_SUBCOMMAND_REPLY_QUEUE_ERROR_SEND_FAILED

record swbt_btstack_subcommand_reply_queue_item_t =
  item_hid_cid :: u16
  item_report :: bytes
  item_report_size :: nat

record swbt_btstack_subcommand_reply_queue_t =
  rq_items :: "swbt_btstack_subcommand_reply_queue_item_t list"
  rq_head :: nat
  rq_count :: nat

definition SWBT_BTSTACK_SUBCOMMAND_REPLY_QUEUE_CAPACITY :: nat where
  "SWBT_BTSTACK_SUBCOMMAND_REPLY_QUEUE_CAPACITY = 4"

text \<open>A send callback: it takes the channel and the report bytes, changes its own context and returns
  a result code, zero for success.\<close>

type_synonym 'c send_callback = "'c \<Rightarrow> u16 \<Rightarrow> bytes \<Rightarrow> int \<times> 'c"

definition clear_item ::
  "swbt_btstack_subcommand_reply_queue_item_t \<Rightarrow> swbt_btstack_subcommand_reply_queue_item_t" where
  "clear_item item = item\<lparr>item_hid_cid := 0, item_report_size := 0,
     item_report := copy_at (item_report item) 0 (replicate SWBT_SWITCH_SUBCOMMAND_REPLY_REPORT_SIZE 0)\<rparr>"

definition enqueue_index :: "swbt_btstack_subcommand_reply_queue_t \<Rightarrow> nat" where
  "enqueue_index q = (rq_head q + rq_count q) mod SWBT_BTSTACK_SUBCOMMAND_REPLY_QUEUE_CAPACITY"

definition swbt_btstack_subcommand_reply_queue_init ::
  "swbt_btstack_subcommand_reply_queue_t option
   \<Rightarrow> swbt_btstack_subcommand_reply_queue_result_t \<times> swbt_btstack_subcommand_reply_queue_t option" where
  "swbt_btstack_subcommand_reply_queue_init queue = (case queue of
       None \<Rightarrow> (SWBT_BTSTACK_SUBCOMMAND_REPLY_QUEUE_ERROR_INVALID_ARGUMENT, None)
     | Some q \<Rightarrow> (SWBT_BTSTACK_SUBCOMMAND_REPLY_QUEUE_OK,
         Some (q\<lparr>rq_head := 0, rq_count := 0, rq_items := map clear_item (rq_items q)\<rparr>)))"

definition swbt_btstack_subcommand_reply_queue_size ::
  "swbt_btstack_subcommand_reply_queue_t option \<Rightarrow> nat" where
  "swbt_btstack_subcommand_reply_queue_size queue = (case queue of None \<Rightarrow> 0 | Some q \<Rightarrow> rq_count q)"

definition swbt_btstack_subcommand_reply_queue_enqueue ::
  "swbt_btstack_subcommand_reply_queue_t option \<Rightarrow> u16 \<Rightarrow> bytes option
   \<Rightarrow> swbt_btstack_subcommand_reply_queue_result_t \<times> swbt_btstack_subcommand_reply_queue_t option" where
  "swbt_btstack_subcommand_reply_queue_enqueue queue hid_cid report = (case (queue, report) of
       (Some q, Some bs) \<Rightarrow>
         if length bs = 0 \<or> length bs > SWBT_SWITCH_SUBCOMMAND_REPLY_REPORT_SIZE
         then (SWBT_BTSTACK_SUBCOMMAND_REPLY_QUEUE_ERROR_INVALID_REPORT_SIZE, queue)
         else if rq_count q \<ge> SWBT_BTSTACK_SUBCOMMAND_REPLY_QUEUE_CAPACITY
         then (SWBT_BTSTACK_SUBCOMMAND_REPLY_QUEUE_ERROR_FULL, queue)
         else let i = enqueue_index q;
                  item = (rq_items q ! i)\<lparr>item_hid_cid := hid_cid, item_report_size := length bs\<rparr>;
                  item = item\<lparr>item_report := copy_at (item_report item) 0 bs\<rparr>;
                  item = item\<lparr>item_report := copy_at (item_report item) (length bs)
                    (replicate (SWBT_SWITCH_SUBCOMMAND_REPLY_REPORT_SIZE - length bs) 0)\<rparr>
              in (SWBT_BTSTACK_SUBCOMMAND_REPLY_QUEUE_OK,
                  Some (q\<lparr>rq_items := (rq_items q)[i := item], rq_count := rq_count q + 1\<rparr>))
     | _ \<Rightarrow> (SWBT_BTSTACK_SUBCOMMAND_REPLY_QUEUE_ERROR_INVALID_ARGUMENT, queue))"

definition swbt_btstack_subcommand_reply_queue_send_next ::
  "swbt_btstack_subcommand_reply_queue_t option \<Rightarrow> 'c send_callback option \<Rightarrow> 'c
   \<Rightarrow> swbt_btstack_subcommand_reply_queue_result_t \<times> swbt_btstack_subcommand_reply_queue_t option \<times> 'c" where
  "swbt_btstack_subcommand_reply_queue_send_next queue send_callback send_context =
     (case (queue, send_callback) of
        (Some q, Some send) \<Rightarrow>
          if rq_count q = 0 then (SWBT_BTSTACK_SUBCOMMAND_REPLY_QUEUE_EMPTY, queue, send_context)
          else let item = rq_items q ! rq_head q;
                   (send_result, send_context) = send send_context (item_hid_cid item)
                     (take (item_report_size item) (item_report item))
               in if send_result \<noteq> 0
                  then (SWBT_BTSTACK_SUBCOMMAND_REPLY_QUEUE_ERROR_SEND_FAILED, queue, send_context)
                  else (SWBT_BTSTACK_SUBCOMMAND_REPLY_QUEUE_OK,
                        Some (q\<lparr>rq_items := (rq_items q)[rq_head q := clear_item item],
                          rq_head := (rq_head q + 1) mod SWBT_BTSTACK_SUBCOMMAND_REPLY_QUEUE_CAPACITY,
                          rq_count := rq_count q - 1\<rparr>), send_context)
      | _ \<Rightarrow> (SWBT_BTSTACK_SUBCOMMAND_REPLY_QUEUE_ERROR_INVALID_ARGUMENT, queue, send_context))"

section \<open>The ring denotes a list\<close>

definition queue_ok :: "swbt_btstack_subcommand_reply_queue_t \<Rightarrow> bool" where
  "queue_ok q \<longleftrightarrow> length (rq_items q) = 4 \<and> rq_head q < 4 \<and> rq_count q \<le> 4
     \<and> (\<forall>item \<in> set (rq_items q). length (item_report item) = 50)"

definition item_abs :: "swbt_btstack_subcommand_reply_queue_item_t \<Rightarrow> u16 \<times> bytes" where
  "item_abs item = (item_hid_cid item, take (item_report_size item) (item_report item))"

definition queue_abs :: "swbt_btstack_subcommand_reply_queue_t \<Rightarrow> (u16 \<times> bytes) list" where
  "queue_abs q = map (\<lambda>i. item_abs (rq_items q ! ((rq_head q + i) mod 4))) [0..<rq_count q]"

definition reply_legal :: "u16 \<times> bytes \<Rightarrow> bool" where
  "reply_legal x \<longleftrightarrow> 0 < length (snd x) \<and> length (snd x) \<le> 50"

lemmas queue_constants = SWBT_BTSTACK_SUBCOMMAND_REPLY_QUEUE_CAPACITY_def
  SWBT_SWITCH_SUBCOMMAND_REPLY_REPORT_SIZE_def

lemma length_queue_abs [simp]: "length (queue_abs q) = rq_count q"
  by (simp add: queue_abs_def)

text \<open>Slots of the ring are used one after the other, without collision.\<close>

lemma ring_slot_distinct:
  assumes "i < n" "n < (4 :: nat)"
  shows "(h + i) mod 4 \<noteq> (h + n) mod 4"
proof
  assume "(h + i) mod 4 = (h + n) mod 4"
  then have "4 dvd (h + n) - (h + i)"
    using assms(1) by (metis mod_eq_dvd_iff_nat add_le_mono le_refl less_imp_le)
  then show False
    using assms nat_dvd_not_less [of "n - i" 4] by simp
qed

lemma ring_slot_Suc: "((h + 1) mod 4 + i) mod 4 = (h + Suc i) mod (4 :: nat)"
  by presburger

lemma enqueue_item:
  assumes "length (item_report old) = 50" "bs \<noteq> []" "length bs \<le> 50"
  shows "copy_at (copy_at (item_report old) 0 bs) (length bs) (replicate (50 - length bs) 0) =
    bs @ replicate (50 - length bs) 0"
  using assms by (simp add: copy_at_eq_append)

lemma enqueue_ok:
  assumes "queue_ok q" "reply_legal (cid, bs)" "rq_count q < 4"
  shows "\<exists>q'. swbt_btstack_subcommand_reply_queue_enqueue (Some q) cid (Some bs) =
      (SWBT_BTSTACK_SUBCOMMAND_REPLY_QUEUE_OK, Some q') \<and> queue_ok q' \<and> queue_abs q' = queue_abs q @ [(cid, bs)]"
proof -
  let ?i = "(rq_head q + rq_count q) mod 4"
  let ?item = "(rq_items q ! ?i)\<lparr>item_hid_cid := cid, item_report_size := length bs,
      item_report := bs @ replicate (50 - length bs) 0\<rparr>"
  let ?q = "q\<lparr>rq_items := (rq_items q)[?i := ?item], rq_count := rq_count q + 1\<rparr>"
  have len: "length (item_report (rq_items q ! ?i)) = 50"
    using assms(1) by (simp add: queue_ok_def)
  have bs: "bs \<noteq> []" "length bs \<le> 50"
    using assms(2) by (auto simp: reply_legal_def)
  have eq: "swbt_btstack_subcommand_reply_queue_enqueue (Some q) cid (Some bs) =
      (SWBT_BTSTACK_SUBCOMMAND_REPLY_QUEUE_OK, Some ?q)"
    using assms(3) bs enqueue_item [OF len bs]
    by (simp add: swbt_btstack_subcommand_reply_queue_enqueue_def queue_constants enqueue_index_def Let_def)
  have ok: "queue_ok ?q"
    using assms(1,3) bs set_update_subset_insert [of "rq_items q" ?i ?item]
    by (auto simp: queue_ok_def)
  have old: "item_abs ((rq_items q)[?i := ?item] ! ((rq_head q + j) mod 4)) =
      item_abs (rq_items q ! ((rq_head q + j) mod 4))" if "j < rq_count q" for j
    using ring_slot_distinct [OF that assms(3), of "rq_head q"] by (simp add: nth_list_update_neq [symmetric])
  have new: "item_abs ((rq_items q)[?i := ?item] ! ?i) = (cid, bs)"
    using assms(1) by (simp add: queue_ok_def item_abs_def)
  have "queue_abs ?q = queue_abs q @ [(cid, bs)]"
    using old new by (simp add: queue_abs_def)
  with eq ok show ?thesis
    by blast
qed

lemma enqueue_refused:
  assumes "\<not> (reply_legal (cid, bs) \<and> rq_count q < 4)"
  shows "\<exists>r. swbt_btstack_subcommand_reply_queue_enqueue (Some q) cid (Some bs) = (r, Some q)
    \<and> r \<noteq> SWBT_BTSTACK_SUBCOMMAND_REPLY_QUEUE_OK"
  using assms
  by (auto simp: swbt_btstack_subcommand_reply_queue_enqueue_def queue_constants reply_legal_def not_less)

lemma send_next_front:
  assumes "queue_ok q" "rq_count q \<noteq> 0" "send ctx (fst (hd (queue_abs q))) (snd (hd (queue_abs q))) = (code, ctx')"
  shows "\<exists>q'. swbt_btstack_subcommand_reply_queue_send_next (Some q) (Some send) ctx =
      (if code = 0 then SWBT_BTSTACK_SUBCOMMAND_REPLY_QUEUE_OK
       else SWBT_BTSTACK_SUBCOMMAND_REPLY_QUEUE_ERROR_SEND_FAILED, Some q', ctx')
    \<and> queue_ok q' \<and> queue_abs q' = (if code = 0 then tl (queue_abs q) else queue_abs q)"
proof -
  let ?item = "rq_items q ! rq_head q"
  let ?q = "q\<lparr>rq_items := (rq_items q)[rq_head q := clear_item ?item],
      rq_head := (rq_head q + 1) mod 4, rq_count := rq_count q - 1\<rparr>"
  obtain n where n: "rq_count q = Suc n"
    using assms(2) by (cases "rq_count q") auto
  have head: "rq_head q < 4" "rq_head q mod 4 = rq_head q" "rq_count q \<le> 4"
    using assms(1) by (simp_all add: queue_ok_def)
  have hd: "hd (queue_abs q) = item_abs ?item"
    using head by (simp add: queue_abs_def n upt_rec hd_map)
  have len: "length (item_report (clear_item ?item)) = 50"
    using assms(1) by (simp add: queue_ok_def clear_item_def)
  have ok: "queue_ok ?q"
    using assms(1) len set_update_subset_insert [of "rq_items q" "rq_head q" "clear_item ?item"]
    by (auto simp: queue_ok_def)
  have "item_abs ((rq_items q)[rq_head q := clear_item ?item] ! ((rq_head q + Suc j) mod 4)) =
      item_abs (rq_items q ! ((rq_head q + Suc j) mod 4))" if "j < n" for j
  proof -
    have "(rq_head q + 0) mod 4 \<noteq> (rq_head q + Suc j) mod 4"
      by (rule ring_slot_distinct) (use that head n in simp_all)
    then have "rq_head q \<noteq> (rq_head q + Suc j) mod 4"
      using head by simp
    then show ?thesis
      by (simp add: nth_list_update_neq)
  qed
  then have tl: "queue_abs ?q = tl (queue_abs q)"
    unfolding queue_abs_def
    by (simp add: n ring_slot_Suc [simplified] upt_rec [of 0] map_Suc_upt [symmetric] del: upt_Suc) auto
  have "swbt_btstack_subcommand_reply_queue_send_next (Some q) (Some send) ctx =
      (if code = 0 then (SWBT_BTSTACK_SUBCOMMAND_REPLY_QUEUE_OK, Some ?q, ctx')
       else (SWBT_BTSTACK_SUBCOMMAND_REPLY_QUEUE_ERROR_SEND_FAILED, Some q, ctx'))"
    using assms(2,3) unfolding hd
    by (simp add: swbt_btstack_subcommand_reply_queue_send_next_def queue_constants item_abs_def Let_def)
  with ok tl assms(1) show ?thesis
    by auto
qed

text \<open>Sending with a callback that always succeeds takes the oldest reply out of the queue.\<close>

definition rq_put ::
  "swbt_btstack_subcommand_reply_queue_t \<Rightarrow> u16 \<times> bytes \<Rightarrow> bool \<times> swbt_btstack_subcommand_reply_queue_t" where
  "rq_put q x = (let (r, q') = swbt_btstack_subcommand_reply_queue_enqueue (Some q) (fst x) (Some (snd x))
     in (r = SWBT_BTSTACK_SUBCOMMAND_REPLY_QUEUE_OK, the q'))"

definition rq_get ::
  "swbt_btstack_subcommand_reply_queue_t \<Rightarrow> (u16 \<times> bytes) option \<times> swbt_btstack_subcommand_reply_queue_t" where
  "rq_get q = (let (_, q', sent) = swbt_btstack_subcommand_reply_queue_send_next (Some q)
       (Some (\<lambda>_ cid bs. (0, Some (cid, bs)))) None
     in (sent, the q'))"

lemma rq_put_eq:
  assumes "queue_ok q"
  shows "queue_ok (snd (rq_put q x))"
    and "queue_abs (snd (rq_put q x)) =
      (if reply_legal x \<and> rq_count q < 4 then queue_abs q @ [x] else queue_abs q)"
    and "fst (rq_put q x) \<longleftrightarrow> reply_legal x \<and> rq_count q < 4"
proof -
  obtain cid bs where x: "x = (cid, bs)"
    by (cases x)
  show "queue_ok (snd (rq_put q x))"
    and "queue_abs (snd (rq_put q x)) =
      (if reply_legal x \<and> rq_count q < 4 then queue_abs q @ [x] else queue_abs q)"
    and "fst (rq_put q x) \<longleftrightarrow> reply_legal x \<and> rq_count q < 4"
    using enqueue_ok [OF assms, of cid bs] enqueue_refused [of cid bs q] assms
    by (cases "reply_legal x \<and> rq_count q < 4"; auto simp: x rq_put_def)+
qed

lemma rq_get_eq:
  assumes "queue_ok q"
  shows "queue_ok (snd (rq_get q))" "queue_abs (snd (rq_get q)) = tl (queue_abs q)"
    and "fst (rq_get q) = (case queue_abs q of [] \<Rightarrow> None | x # _ \<Rightarrow> Some x)"
proof -
  let ?send = "\<lambda>(_ :: (u16 \<times> bytes) option) cid bs. (0 :: int, Some (cid, bs))"
  have "queue_ok (snd (rq_get q)) \<and> queue_abs (snd (rq_get q)) = tl (queue_abs q)
    \<and> fst (rq_get q) = (case queue_abs q of [] \<Rightarrow> None | x # _ \<Rightarrow> Some x)"
  proof (cases "rq_count q = 0")
    case True
    then have "queue_abs q = []"
      by (simp add: queue_abs_def)
    then show ?thesis
      using True assms by (simp add: rq_get_def swbt_btstack_subcommand_reply_queue_send_next_def)
  next
    case False
    then obtain x xs where x: "queue_abs q = x # xs"
      by (metis length_queue_abs list.exhaust list.size(3))
    show ?thesis
      using send_next_front [OF assms False, of ?send None 0 "Some (hd (queue_abs q))"] x
      by (auto simp: rq_get_def)
  qed
  then show "queue_ok (snd (rq_get q))" "queue_abs (snd (rq_get q)) = tl (queue_abs q)"
      "fst (rq_get q) = (case queue_abs q of [] \<Rightarrow> None | x # _ \<Rightarrow> Some x)"
    by blast+
qed

interpretation replies: bounded_fifo queue_abs queue_ok 4 rq_put rq_get reply_legal
  by unfold_locales (simp_all add: rq_put_eq rq_get_eq queue_ok_def [THEN iffD1])

lemma queue_init_ok:
  assumes "length (rq_items q) = 4" "\<forall>item \<in> set (rq_items q). length (item_report item) = 50"
  shows "\<exists>q'. swbt_btstack_subcommand_reply_queue_init (Some q) = (SWBT_BTSTACK_SUBCOMMAND_REPLY_QUEUE_OK, Some q')
    \<and> queue_ok q' \<and> queue_abs q' = []"
  using assms
  by (auto simp: swbt_btstack_subcommand_reply_queue_init_def queue_ok_def queue_abs_def clear_item_def)

section \<open>Properties\<close>

text \<open>C14: The reply queue refines a bounded first-in first-out list: starting from an initialised
  queue, over every interleaving of enqueue and successful send operations, the replies sent followed
  by the replies still queued are exactly the accepted replies in order, and at most four wait.\<close>

theorem reply_queue_fifo:
  assumes "length (rq_items mem) = 4" and "\<forall>item \<in> set (rq_items mem). length (item_report item) = 50"
    and "replies.run (the (snd (swbt_btstack_subcommand_reply_queue_init (Some mem)))) ops = (accepted, sent, q)"
  shows "accepted = sent @ queue_abs q \<and> length (queue_abs q) \<le> 4
    \<and> swbt_btstack_subcommand_reply_queue_size (Some q) = length (queue_abs q)"
proof -
  obtain q0 where q0: "swbt_btstack_subcommand_reply_queue_init (Some mem) =
      (SWBT_BTSTACK_SUBCOMMAND_REPLY_QUEUE_OK, Some q0)" "queue_ok q0" "queue_abs q0 = []"
    using queue_init_ok [OF assms(1,2)] by blast
  then have "queue_ok q \<and> queue_abs q0 @ accepted = sent @ queue_abs q"
    using replies.fifo_order [of q0 ops] assms(3) by simp
  then show ?thesis
    using replies.bounded [of q] q0(3) by (simp add: swbt_btstack_subcommand_reply_queue_size_def)
qed

definition blank_queue :: swbt_btstack_subcommand_reply_queue_t where
  "blank_queue = \<lparr>rq_items = replicate 4 \<lparr>item_hid_cid = 9, item_report = replicate 50 7, item_report_size = 3\<rparr>,
     rq_head = 2, rq_count = 3\<rparr>"

theorem reply_queue_fifo_witness:
  "\<exists>accepted sent q. replies.run (the (snd (swbt_btstack_subcommand_reply_queue_init (Some blank_queue))))
      [Put (1, [0x21]), Put (2, [0x22]), Get, Put (3, []), Put (4, [0x24])] = (accepted, sent, q)
    \<and> accepted = sent @ queue_abs q \<and> length (queue_abs q) \<le> 4"
proof -
  obtain accepted sent q where r: "replies.run (the (snd (swbt_btstack_subcommand_reply_queue_init (Some blank_queue))))
      [Put (1, [0x21]), Put (2, [0x22]), Get, Put (3, []), Put (4, [0x24])] = (accepted, sent, q)"
    by (metis prod_cases3)
  show ?thesis
    using reply_queue_fifo [OF _ _ r] r by (auto simp: blank_queue_def)
qed

text \<open>A failed transmission does not lose a reply: when the transport refuses the oldest reply,
  the queue is unchanged and the same reply is offered again by the next attempt; when it accepts,
  exactly that reply leaves the queue.\<close>

theorem reply_queue_send_retry:
  assumes "queue_ok q" and "queue_abs q = (cid, bs) # rest"
  shows "\<exists>q'. swbt_btstack_subcommand_reply_queue_send_next (Some q) (Some send) ctx =
      (if fst (send ctx cid bs) = 0 then SWBT_BTSTACK_SUBCOMMAND_REPLY_QUEUE_OK
       else SWBT_BTSTACK_SUBCOMMAND_REPLY_QUEUE_ERROR_SEND_FAILED, Some q', snd (send ctx cid bs))
    \<and> queue_ok q' \<and> queue_abs q' = (if fst (send ctx cid bs) = 0 then rest else (cid, bs) # rest)"
proof -
  have "rq_count q \<noteq> 0"
    using assms(2) by (metis length_queue_abs list.distinct(1) length_0_conv)
  moreover obtain code ctx' where "send ctx cid bs = (code, ctx')"
    by (cases "send ctx cid bs")
  ultimately show ?thesis
    using send_next_front [OF assms(1), of send ctx code ctx'] by (auto simp: assms(2))
qed

theorem reply_queue_send_retry_witness:
  "\<exists>q q'. queue_abs q = [(1, [0x21])]
    \<and> swbt_btstack_subcommand_reply_queue_send_next (Some q) (Some (\<lambda>n _ _. (1, Suc n))) 0 =
      (SWBT_BTSTACK_SUBCOMMAND_REPLY_QUEUE_ERROR_SEND_FAILED, Some q', 1)
    \<and> queue_abs q' = [(1, [0x21])]"
proof -
  let ?q = "\<lparr>rq_items = replicate 4 \<lparr>item_hid_cid = 1, item_report = 0x21 # replicate 49 0, item_report_size = 1\<rparr>,
     rq_head = 3, rq_count = 1\<rparr>"
  have "queue_ok ?q" "queue_abs ?q = [(1, [0x21])]"
    by (simp_all add: queue_ok_def queue_abs_def item_abs_def)
  moreover from this obtain q' where "swbt_btstack_subcommand_reply_queue_send_next (Some ?q)
      (Some (\<lambda>n _ _. (1, Suc n))) 0 = (SWBT_BTSTACK_SUBCOMMAND_REPLY_QUEUE_ERROR_SEND_FAILED, Some q', 1)"
      "queue_abs q' = [(1, [0x21])]"
    using reply_queue_send_retry [of ?q 1 "[0x21]" "[]" "\<lambda>n _ _. (1, Suc n)" 0] by auto
  ultimately show ?thesis
    by blast
qed

end
