(* ===== verification/Scheduler.thy ===== *)
theory Scheduler
  imports ReplyQueue
begin

text \<open>
  The scheduler of periodic input reports, \<open>btstack_bridge/input_report_scheduler.c\<close>.
  Its send callback receives a context that contains the scheduler itself, so the
  callback may also change the scheduler; it takes and returns both.
\<close>

section \<open>Model\<close>

datatype swbt_btstack_input_report_result_t =
    SWBT_BTSTACK_INPUT_REPORT_OK
  | SWBT_BTSTACK_INPUT_REPORT_NOT_DUE
  | SWBT_BTSTACK_INPUT_REPORT_STOPPED
  | SWBT_BTSTACK_INPUT_REPORT_ERROR_INVALID_ARGUMENT
  | SWBT_BTSTACK_INPUT_REPORT_ERROR_BUILD_FAILED
  | SWBT_BTSTACK_INPUT_REPORT_ERROR_SEND_FAILED

record swbt_btstack_input_report_scheduler_config_t =
  sc_report_period_us :: u32
  sc_report_options :: swbt_switch_report_options_t

record swbt_btstack_input_report_scheduler_start_options_t =
  so_hid_cid :: u16
  so_now_us :: u64

text \<open>\<open>sch_has_callback\<close> says that the callback pointer is not NULL; the callback is an argument of \<open>tick\<close>.\<close>

record swbt_btstack_input_report_scheduler_t =
  sch_has_callback :: bool
  sch_report_period_us :: u32
  sch_report_options :: swbt_switch_report_options_t
  sch_hid_cid :: u16
  sch_running :: bool
  sch_next_deadline_us :: u64
  sch_timer :: u8
  sch_scratch :: bytes

type_synonym scheduler = swbt_btstack_input_report_scheduler_t

type_synonym 'c scheduler_send = "scheduler \<times> 'c \<Rightarrow> u16 \<Rightarrow> bytes \<Rightarrow> int \<times> scheduler \<times> 'c"

definition swbt_btstack_input_report_scheduler_is_valid :: "scheduler option \<Rightarrow> bool" where
  "swbt_btstack_input_report_scheduler_is_valid s =
     (case s of None \<Rightarrow> False | Some sch \<Rightarrow> sch_has_callback sch \<and> sch_report_period_us sch > 0)"

definition swbt_btstack_input_report_scheduler_advance :: "scheduler \<Rightarrow> u64 \<Rightarrow> scheduler" where
  "swbt_btstack_input_report_scheduler_advance sch now_us =
     (let next_deadline = sch_next_deadline_us sch + ucast (sch_report_period_us sch)
      in sch\<lparr>sch_next_deadline_us :=
           (if next_deadline \<le> now_us then now_us + ucast (sch_report_period_us sch) else next_deadline)\<rparr>)"

definition swbt_btstack_input_report_scheduler_init ::
  "scheduler option \<Rightarrow> bool \<Rightarrow> swbt_btstack_input_report_scheduler_config_t option
   \<Rightarrow> swbt_btstack_input_report_result_t \<times> scheduler option" where
  "swbt_btstack_input_report_scheduler_init scheduler has_callback config = (case (scheduler, config) of
       (Some sch, Some cfg) \<Rightarrow>
         if \<not> has_callback \<or> sc_report_period_us cfg = 0
         then (SWBT_BTSTACK_INPUT_REPORT_ERROR_INVALID_ARGUMENT, scheduler)
         else (SWBT_BTSTACK_INPUT_REPORT_OK, Some (sch
           \<lparr>sch_has_callback := True,
            sch_report_period_us := sc_report_period_us cfg,
            sch_report_options := sc_report_options cfg,
            sch_hid_cid := 0,
            sch_running := False,
            sch_next_deadline_us := 0,
            sch_timer := opt_timer (sc_report_options cfg),
            sch_scratch := copy_at (sch_scratch sch) 0 (replicate SWBT_SWITCH_STANDARD_FULL_REPORT_SIZE 0)\<rparr>))
     | _ \<Rightarrow> (SWBT_BTSTACK_INPUT_REPORT_ERROR_INVALID_ARGUMENT, scheduler))"

definition swbt_btstack_input_report_scheduler_start ::
  "scheduler option \<Rightarrow> swbt_btstack_input_report_scheduler_start_options_t
   \<Rightarrow> swbt_btstack_input_report_result_t \<times> scheduler option" where
  "swbt_btstack_input_report_scheduler_start scheduler options =
     (if \<not> swbt_btstack_input_report_scheduler_is_valid scheduler
      then (SWBT_BTSTACK_INPUT_REPORT_ERROR_INVALID_ARGUMENT, scheduler)
      else (SWBT_BTSTACK_INPUT_REPORT_OK, map_option (\<lambda>sch. sch
        \<lparr>sch_hid_cid := so_hid_cid options,
         sch_running := True,
         sch_next_deadline_us := so_now_us options + ucast (sch_report_period_us sch),
         sch_timer := opt_timer (sch_report_options sch)\<rparr>) scheduler))"

definition swbt_btstack_input_report_scheduler_stop :: "scheduler option \<Rightarrow> scheduler option" where
  "swbt_btstack_input_report_scheduler_stop scheduler =
     map_option (\<lambda>sch. sch\<lparr>sch_running := False, sch_hid_cid := 0\<rparr>) scheduler"

definition swbt_btstack_input_report_scheduler_is_running :: "scheduler option \<Rightarrow> bool" where
  "swbt_btstack_input_report_scheduler_is_running scheduler =
     (case scheduler of None \<Rightarrow> False | Some sch \<Rightarrow> sch_running sch)"

definition swbt_btstack_input_report_scheduler_next_deadline_us :: "scheduler option \<Rightarrow> u64" where
  "swbt_btstack_input_report_scheduler_next_deadline_us scheduler =
     (case scheduler of None \<Rightarrow> 0 | Some sch \<Rightarrow> sch_next_deadline_us sch)"

definition swbt_btstack_input_report_scheduler_tick ::
  "scheduler option \<Rightarrow> 'c scheduler_send \<Rightarrow> 'c \<Rightarrow> u64 \<Rightarrow> swbt_state_t option
   \<Rightarrow> swbt_btstack_input_report_result_t \<times> scheduler option \<times> 'c" where
  "swbt_btstack_input_report_scheduler_tick scheduler send_callback ctx now_us state =
     (if \<not> swbt_btstack_input_report_scheduler_is_valid scheduler \<or> state = None
      then (SWBT_BTSTACK_INPUT_REPORT_ERROR_INVALID_ARGUMENT, scheduler, ctx)
      else let sch = the scheduler in
        if \<not> sch_running sch then (SWBT_BTSTACK_INPUT_REPORT_STOPPED, scheduler, ctx)
        else if now_us < sch_next_deadline_us sch
        then (SWBT_BTSTACK_INPUT_REPORT_NOT_DUE, scheduler, ctx)
        else
          let report_options = (sch_report_options sch)\<lparr>opt_timer := sch_timer sch\<rparr>;
              (build_result, scratch, written) = swbt_switch_build_standard_full_report state
                (Some report_options) (Some (sch_scratch sch)) (Some 0);
              sch = sch\<lparr>sch_scratch := the scratch\<rparr> in
          if build_result \<noteq> SWBT_SWITCH_REPORT_OK
          then (SWBT_BTSTACK_INPUT_REPORT_ERROR_BUILD_FAILED, Some sch, ctx)
          else
            let (send_result, sch, ctx) = send_callback (sch, ctx) (sch_hid_cid sch)
                  (take (the written) (sch_scratch sch));
                sch = swbt_btstack_input_report_scheduler_advance sch now_us in
            if send_result \<noteq> 0 then (SWBT_BTSTACK_INPUT_REPORT_ERROR_SEND_FAILED, Some sch, ctx)
            else (SWBT_BTSTACK_INPUT_REPORT_OK, Some (sch\<lparr>sch_timer := sch_timer sch + 1\<rparr>), ctx))"

section \<open>Lemmas\<close>

definition scheduler_ok :: "scheduler \<Rightarrow> bool" where
  "scheduler_ok sch \<longleftrightarrow> sch_has_callback sch \<and> sch_report_period_us sch > 0 \<and> length (sch_scratch sch) = 49"

definition due_report :: "scheduler \<Rightarrow> swbt_state_t \<Rightarrow> bytes" where
  "due_report sch s = standard_full_bytes s ((sch_report_options sch)\<lparr>opt_timer := sch_timer sch\<rparr>)"

lemma due_report_timer: "standard_full_bytes s opts ! 1 = opt_timer opts"
  by (simp add: standard_full_bytes_def prefix_bytes_def)

lemma length_due_report [simp]: "length (due_report sch s) = 49"
  by (simp add: due_report_def)

lemma due_report_id: "due_report sch s ! 0 = 0x30"
  by (simp add: due_report_def standard_full_bytes_def prefix_bytes_def SWBT_SWITCH_INPUT_REPORT_STANDARD_FULL_def)

lemma scheduler_init_ok:
  assumes "sc_report_period_us cfg \<noteq> 0" "length (sch_scratch sch) = 49"
  shows "\<exists>sch'. swbt_btstack_input_report_scheduler_init (Some sch) True (Some cfg) =
      (SWBT_BTSTACK_INPUT_REPORT_OK, Some sch') \<and> scheduler_ok sch' \<and> \<not> sch_running sch'"
  using assms
  by (auto simp: swbt_btstack_input_report_scheduler_init_def scheduler_ok_def word_gt_0)

lemma tick_due:
  assumes "scheduler_ok sch" "sch_running sch" "sch_next_deadline_us sch \<le> now"
    and "send (sch\<lparr>sch_scratch := due_report sch s\<rparr>, ctx) (sch_hid_cid sch) (due_report sch s) = (code, sch', ctx')"
  shows "swbt_btstack_input_report_scheduler_tick (Some sch) send ctx now (Some s) =
    (let adv = swbt_btstack_input_report_scheduler_advance sch' now in
     if code = 0 then (SWBT_BTSTACK_INPUT_REPORT_OK, Some (adv\<lparr>sch_timer := sch_timer adv + 1\<rparr>), ctx')
     else (SWBT_BTSTACK_INPUT_REPORT_ERROR_SEND_FAILED, Some adv, ctx'))"
  using assms
  by (simp add: swbt_btstack_input_report_scheduler_tick_def swbt_btstack_input_report_scheduler_is_valid_def
      scheduler_ok_def build_standard_full_ok due_report_def Let_def leD)

lemma tick_not_due:
  assumes "scheduler_ok sch" "\<not> sch_running sch \<or> now < sch_next_deadline_us sch"
  shows "swbt_btstack_input_report_scheduler_tick (Some sch) send ctx now (Some s) =
    (if sch_running sch then SWBT_BTSTACK_INPUT_REPORT_NOT_DUE else SWBT_BTSTACK_INPUT_REPORT_STOPPED, Some sch, ctx)"
  using assms
  by (simp add: swbt_btstack_input_report_scheduler_tick_def swbt_btstack_input_report_scheduler_is_valid_def
      scheduler_ok_def Let_def)

text \<open>Without overflow of the 64 bit clock, the next deadline is in the future, at most one period away
  from a late tick, and on the old grid when the tick was in time.\<close>

lemma advance_deadline:
  assumes "unat now + unat (sch_report_period_us sch) < 2 ^ 64"
    and "sch_next_deadline_us sch \<le> now" "sch_report_period_us sch > 0"
  shows "unat now < unat (sch_next_deadline_us (swbt_btstack_input_report_scheduler_advance sch now))"
    and "unat (sch_next_deadline_us (swbt_btstack_input_report_scheduler_advance sch now)) \<le>
         unat now + unat (sch_report_period_us sch)"
    and "unat now < unat (sch_next_deadline_us sch) + unat (sch_report_period_us sch) \<Longrightarrow>
         unat (sch_next_deadline_us (swbt_btstack_input_report_scheduler_advance sch now)) =
         unat (sch_next_deadline_us sch) + unat (sch_report_period_us sch)"
proof -
  let ?p = "ucast (sch_report_period_us sch) :: u64" and ?d = "sch_next_deadline_us sch"
  have p: "unat ?p = unat (sch_report_period_us sch)"
    by (simp add: unat_ucast_up)
  have d: "unat ?d \<le> unat now" "0 < unat (sch_report_period_us sch)"
    using assms(2,3) by (simp_all add: word_le_nat_alt word_less_nat_alt)
  have "unat (?d + ?p) = unat ?d + unat ?p" "unat (now + ?p) = unat now + unat ?p"
    using assms(1) d by (simp_all add: unat_word_ariths p)
  then show "unat now < unat (sch_next_deadline_us (swbt_btstack_input_report_scheduler_advance sch now))"
    and "unat (sch_next_deadline_us (swbt_btstack_input_report_scheduler_advance sch now)) \<le>
         unat now + unat (sch_report_period_us sch)"
    and "unat now < unat ?d + unat (sch_report_period_us sch) \<Longrightarrow>
         unat (sch_next_deadline_us (swbt_btstack_input_report_scheduler_advance sch now)) =
         unat ?d + unat (sch_report_period_us sch)"
    using d by (auto simp: swbt_btstack_input_report_scheduler_advance_def word_le_nat_alt p)
qed

section \<open>Properties\<close>

text \<open>C33: A periodic tick that is due sends exactly one standard full report of the given state with
  the current timer byte, whatever the transport answers; then the next deadline lies in the future,
  at most one period away, and exactly one period after the old deadline unless the tick came more
  than a period late. The timer byte advances by one, modulo 256, only when the report was sent.
  The callback may do anything to its own context but leaves the scheduler alone.\<close>

theorem scheduler_tick_correct:
  assumes "scheduler_ok sch" and "sch_running sch" and "sch_next_deadline_us sch \<le> now"
    and "unat now + unat (sch_report_period_us sch) < 2 ^ 64"
  shows "\<exists>sch'. swbt_btstack_input_report_scheduler_tick (Some sch)
        (\<lambda>(x, sent) cid bs. (transport cid bs, x, sent @ [(cid, bs)])) log now (Some s) =
      (if transport (sch_hid_cid sch) (due_report sch s) = 0 then SWBT_BTSTACK_INPUT_REPORT_OK
       else SWBT_BTSTACK_INPUT_REPORT_ERROR_SEND_FAILED,
       Some sch', log @ [(sch_hid_cid sch, due_report sch s)])
    \<and> scheduler_ok sch' \<and> sch_running sch'
    \<and> report_state_of 0 (due_report sch s) = report_canon s \<and> due_report sch s ! 1 = sch_timer sch
    \<and> unat now < unat (sch_next_deadline_us sch')
    \<and> unat (sch_next_deadline_us sch') \<le> unat now + unat (sch_report_period_us sch)
    \<and> (unat now < unat (sch_next_deadline_us sch) + unat (sch_report_period_us sch) \<longrightarrow>
        unat (sch_next_deadline_us sch') = unat (sch_next_deadline_us sch) + unat (sch_report_period_us sch))
    \<and> sch_timer sch' = (if transport (sch_hid_cid sch) (due_report sch s) = 0 then sch_timer sch + 1 else sch_timer sch)"
proof -
  let ?x = "sch\<lparr>sch_scratch := due_report sch s\<rparr>"
  let ?adv = "swbt_btstack_input_report_scheduler_advance ?x now"
  let ?send = "\<lambda>(x :: scheduler, sent) cid bs. (transport cid bs :: int, x, sent @ [(cid, bs)])"
  have period: "sch_report_period_us sch > 0"
    using assms(1) by (simp add: scheduler_ok_def)
  have adv: "scheduler_ok ?adv" "sch_running ?adv" "sch_timer ?adv = sch_timer sch"
    using assms(1,2) by (simp_all add: scheduler_ok_def swbt_btstack_input_report_scheduler_advance_def due_report_def Let_def)
  have bytes: "report_state_of 0 (due_report sch s) = report_canon s" "due_report sch s ! 1 = sch_timer sch"
    using state_of_standard_full [of 0 s _ "[]"] by (simp_all add: due_report_def due_report_timer [simplified])
  note tick = tick_due [OF assms(1-3), of ?send s log "transport (sch_hid_cid sch) (due_report sch s)" ?x
      "log @ [(sch_hid_cid sch, due_report sch s)]"]
  show ?thesis
    using tick adv bytes advance_deadline [of now ?x] assms(3,4) period
    by (cases "transport (sch_hid_cid sch) (due_report sch s) = 0") (auto simp: Let_def scheduler_ok_def)
qed

definition demo_scheduler :: scheduler where
  "demo_scheduler = \<lparr>sch_has_callback = True, sch_report_period_us = 8000,
     sch_report_options = \<lparr>opt_timer = 0, opt_battery_connection = 0x8E, opt_vibrator_report = 0\<rparr>,
     sch_hid_cid = 0x42, sch_running = True, sch_next_deadline_us = 8000, sch_timer = 255,
     sch_scratch = replicate 49 0\<rparr>"

theorem scheduler_tick_correct_witness:
  "\<exists>sch'. swbt_btstack_input_report_scheduler_tick (Some demo_scheduler)
        (\<lambda>(x, sent) cid bs. (0, x, sent @ [(cid, bs)])) [] 9000 (Some swbt_state_neutral) =
      (SWBT_BTSTACK_INPUT_REPORT_OK, Some sch', [(0x42, due_report demo_scheduler swbt_state_neutral)])
    \<and> unat (sch_next_deadline_us sch') = 16000 \<and> sch_timer sch' = 0"
  using scheduler_tick_correct [of demo_scheduler 9000 "\<lambda>_ _. 0" "[]" swbt_state_neutral]
  by (auto simp: demo_scheduler_def scheduler_ok_def)

end
