(* ===== verification/TimerAdapter.thy ===== *)
theory TimerAdapter
  imports Scheduler
begin

text \<open>
  The adapter that drives the periodic reports, the reply queue and the neutral
  report from the run loop, \<open>btstack_bridge/input_report_timer_adapter.c\<close>.

  The run loop, the transport and the observer are outside the adapter. What the
  adapter asks of them is recorded in the ghost field \<open>ta_trace\<close>, in order; what
  they answer during one call (the clock, the result of a transmission, the state
  the provider returns) is the \<open>timer_env\<close> of the call.
\<close>

section \<open>Model\<close>

datatype swbt_btstack_input_report_timer_result_t =
    SWBT_BTSTACK_INPUT_REPORT_TIMER_OK
  | SWBT_BTSTACK_INPUT_REPORT_TIMER_NOT_DUE
  | SWBT_BTSTACK_INPUT_REPORT_TIMER_STOPPED
  | SWBT_BTSTACK_INPUT_REPORT_TIMER_PENDING
  | SWBT_BTSTACK_INPUT_REPORT_TIMER_ERROR_INVALID_ARGUMENT
  | SWBT_BTSTACK_INPUT_REPORT_TIMER_ERROR_SCHEDULER
  | SWBT_BTSTACK_INPUT_REPORT_TIMER_ERROR_REPLY_QUEUE

datatype swbt_btstack_input_report_timer_report_send_result_t =
    SWBT_BTSTACK_INPUT_REPORT_TIMER_REPORT_SEND_OK
  | SWBT_BTSTACK_INPUT_REPORT_TIMER_REPORT_SEND_FAILED

datatype timer_event =
    SetTimerHandler
  | SetTimerContext
  | SetTimer u32
  | AddTimer
  | RemoveTimer
  | RequestCanSendNow u16
  | HidSend u16 bytes int
  | BackendSend u16 bytes int
  | ReportTick u64 swbt_btstack_input_report_timer_report_send_result_t

record timer_env =
  env_time_ms :: u32
  env_hid_send :: "u16 \<Rightarrow> bytes \<Rightarrow> int"
  env_backend_send :: "u16 \<Rightarrow> bytes \<Rightarrow> int"
  env_state :: swbt_state_t

text \<open>Which members of the backend table are set, and the configuration of the adapter.\<close>

record swbt_btstack_input_report_timer_backend_t =
  be_set_timer_handler :: bool
  be_set_timer_context :: bool
  be_set_timer :: bool
  be_add_timer :: bool
  be_remove_timer :: bool
  be_get_time_ms :: bool
  be_request_can_send_now_event :: bool
  be_send_interrupt_message :: bool

record swbt_btstack_input_report_timer_adapter_config_t =
  tc_backend :: "swbt_btstack_input_report_timer_backend_t option"
  tc_hid_sender :: bool
  tc_state_provider :: bool
  tc_report_tick_observer :: bool
  tc_scheduler_config :: swbt_btstack_input_report_scheduler_config_t

record swbt_btstack_input_report_timer_start_options_t =
  start_hid_cid :: u16
  start_now_us :: u64

record swbt_btstack_input_report_timer_adapter_t =
  ta_hid_sender :: bool
  ta_report_tick_observer :: bool
  ta_scheduler :: scheduler
  ta_reply_queue :: swbt_btstack_subcommand_reply_queue_t
  ta_hid_cid :: u16
  ta_initialized :: bool
  ta_running :: bool
  ta_timer_pending :: bool
  ta_can_send_pending :: bool
  ta_neutral_send_pending :: bool
  ta_periodic_holdoff_until_us :: u64
  ta_trace :: "timer_event list"

type_synonym adapter = swbt_btstack_input_report_timer_adapter_t
type_synonym timer_result = swbt_btstack_input_report_timer_result_t

definition emit :: "timer_event \<Rightarrow> adapter \<Rightarrow> adapter" where
  "emit e a = a\<lparr>ta_trace := ta_trace a @ [e]\<rparr>"

definition SWBT_BTSTACK_HIDP_INPUT_REPORT_HEADER :: u8 where
  "SWBT_BTSTACK_HIDP_INPUT_REPORT_HEADER = 0xA1"

definition SWBT_BTSTACK_HIDP_MAX_INPUT_MESSAGE_SIZE :: nat where
  "SWBT_BTSTACK_HIDP_MAX_INPUT_MESSAGE_SIZE = 1 + SWBT_SWITCH_SUBCOMMAND_REPLY_REPORT_SIZE"

definition SWBT_BTSTACK_REPLY_PERIODIC_HOLDOFF_US :: u64 where
  "SWBT_BTSTACK_REPLY_PERIODIC_HOLDOFF_US = 300000"

definition delay_ms_until :: "u64 \<Rightarrow> u64 \<Rightarrow> u32" where
  "delay_ms_until now_us deadline_us =
     (if deadline_us \<le> now_us then 0
      else let delta_us = deadline_us - now_us; delay_ms = (delta_us + 999) div 1000
           in if delay_ms > 0xFFFFFFFF then 0xFFFFFFFF else ucast delay_ms)"

fun map_scheduler_result :: "swbt_btstack_input_report_result_t \<Rightarrow> timer_result" where
  "map_scheduler_result SWBT_BTSTACK_INPUT_REPORT_OK = SWBT_BTSTACK_INPUT_REPORT_TIMER_OK"
| "map_scheduler_result SWBT_BTSTACK_INPUT_REPORT_NOT_DUE = SWBT_BTSTACK_INPUT_REPORT_TIMER_NOT_DUE"
| "map_scheduler_result SWBT_BTSTACK_INPUT_REPORT_STOPPED = SWBT_BTSTACK_INPUT_REPORT_TIMER_STOPPED"
| "map_scheduler_result _ = SWBT_BTSTACK_INPUT_REPORT_TIMER_ERROR_SCHEDULER"

fun map_reply_queue_result :: "swbt_btstack_subcommand_reply_queue_result_t \<Rightarrow> timer_result" where
  "map_reply_queue_result SWBT_BTSTACK_SUBCOMMAND_REPLY_QUEUE_OK = SWBT_BTSTACK_INPUT_REPORT_TIMER_OK"
| "map_reply_queue_result SWBT_BTSTACK_SUBCOMMAND_REPLY_QUEUE_EMPTY = SWBT_BTSTACK_INPUT_REPORT_TIMER_NOT_DUE"
| "map_reply_queue_result _ = SWBT_BTSTACK_INPUT_REPORT_TIMER_ERROR_REPLY_QUEUE"

definition backend_is_valid :: "swbt_btstack_input_report_timer_backend_t option \<Rightarrow> bool" where
  "backend_is_valid backend = (case backend of None \<Rightarrow> False | Some b \<Rightarrow>
     be_set_timer_handler b \<and> be_set_timer_context b \<and> be_set_timer b \<and> be_add_timer b
     \<and> be_remove_timer b \<and> be_get_time_ms b \<and> be_request_can_send_now_event b \<and> be_send_interrupt_message b)"

definition notify_report_tick :: "adapter \<Rightarrow> u64 \<Rightarrow> swbt_btstack_input_report_result_t \<Rightarrow> adapter" where
  "notify_report_tick a now_us tick_result =
     (if \<not> ta_report_tick_observer a then a
      else if tick_result = SWBT_BTSTACK_INPUT_REPORT_OK
      then emit (ReportTick now_us SWBT_BTSTACK_INPUT_REPORT_TIMER_REPORT_SEND_OK) a
      else if tick_result = SWBT_BTSTACK_INPUT_REPORT_ERROR_SEND_FAILED
      then emit (ReportTick now_us SWBT_BTSTACK_INPUT_REPORT_TIMER_REPORT_SEND_FAILED) a
      else a)"

definition schedule_next_timer :: "adapter \<Rightarrow> u64 \<Rightarrow> timer_result \<times> adapter" where
  "schedule_next_timer a now_us =
     (let next_deadline_us = swbt_btstack_input_report_scheduler_next_deadline_us (Some (ta_scheduler a));
          scheduled_deadline_us = (if ta_periodic_holdoff_until_us a > next_deadline_us
                                   then ta_periodic_holdoff_until_us a else next_deadline_us);
          delay_ms = delay_ms_until now_us scheduled_deadline_us;
          a = emit (SetTimer delay_ms) a;
          a = emit AddTimer a
      in (SWBT_BTSTACK_INPUT_REPORT_TIMER_OK, a\<lparr>ta_timer_pending := True\<rparr>))"

definition cancel_pending_timer :: "adapter \<Rightarrow> adapter" where
  "cancel_pending_timer a =
     (if ta_timer_pending a then (emit RemoveTimer a)\<lparr>ta_timer_pending := False\<rparr> else a)"

definition holdoff_periodic_after_reply :: "adapter \<Rightarrow> u64 \<Rightarrow> timer_result \<times> adapter" where
  "holdoff_periodic_after_reply a now_us =
     (let a = a\<lparr>ta_periodic_holdoff_until_us := now_us + SWBT_BTSTACK_REPLY_PERIODIC_HOLDOFF_US,
                ta_can_send_pending := False\<rparr>;
          a = (if ta_timer_pending a then (emit RemoveTimer a)\<lparr>ta_timer_pending := False\<rparr> else a)
      in schedule_next_timer a now_us)"

definition send_interrupt_message :: "timer_env \<Rightarrow> adapter \<Rightarrow> u16 \<Rightarrow> bytes \<Rightarrow> int \<times> adapter" where
  "send_interrupt_message env a hid_cid message =
     (if ta_hid_sender a
      then let code = env_hid_send env hid_cid message in (code, emit (HidSend hid_cid message code) a)
      else if length message > 0xFFFF then (- 1, a)
      else let code = env_backend_send env hid_cid message in (code, emit (BackendSend hid_cid message code) a))"

definition send_hidp_input_report :: "timer_env \<Rightarrow> adapter \<Rightarrow> u16 \<Rightarrow> bytes \<Rightarrow> int \<times> adapter" where
  "send_hidp_input_report env a hid_cid report =
     (if length report = 0 \<or> length report > SWBT_BTSTACK_HIDP_MAX_INPUT_MESSAGE_SIZE - 1 then (- 1, a)
      else
        let message = replicate SWBT_BTSTACK_HIDP_MAX_INPUT_MESSAGE_SIZE 0;
            message = message[0 := SWBT_BTSTACK_HIDP_INPUT_REPORT_HEADER];
            message = copy_at message 1 report;
            uses_shared_timer =
              (length report > 1 \<and> report ! 0 = SWBT_SWITCH_INPUT_REPORT_SUBCOMMAND_REPLY);
            message = (if uses_shared_timer then message[2 := sch_timer (ta_scheduler a)] else message);
            (result, a) = send_interrupt_message env a hid_cid (take (length report + 1) message);
            a = (if result = 0 \<and> uses_shared_timer
                 then a\<lparr>ta_scheduler := (ta_scheduler a)\<lparr>sch_timer := sch_timer (ta_scheduler a) + 1\<rparr>\<rparr> else a)
        in (result, a))"

definition send_neutral_report :: "timer_env \<Rightarrow> adapter \<Rightarrow> timer_result \<times> adapter" where
  "send_neutral_report env a =
     (let sch = ta_scheduler a;
          report_options = (sch_report_options sch)\<lparr>opt_timer := sch_timer sch\<rparr>;
          (build_result, scratch, written) = swbt_switch_build_standard_full_report (Some swbt_state_neutral)
            (Some report_options) (Some (sch_scratch sch)) (Some 0);
          a = a\<lparr>ta_scheduler := sch\<lparr>sch_scratch := the scratch\<rparr>\<rparr>
      in if build_result \<noteq> SWBT_SWITCH_REPORT_OK then (SWBT_BTSTACK_INPUT_REPORT_TIMER_ERROR_SCHEDULER, a)
         else let (code, a) = send_hidp_input_report env a (ta_hid_cid a)
                    (take (the written) (sch_scratch (ta_scheduler a)))
              in if code \<noteq> 0 then (SWBT_BTSTACK_INPUT_REPORT_TIMER_ERROR_SCHEDULER, a)
                 else (SWBT_BTSTACK_INPUT_REPORT_TIMER_OK,
                       a\<lparr>ta_scheduler := (ta_scheduler a)\<lparr>sch_timer := sch_timer (ta_scheduler a) + 1\<rparr>\<rparr>))"

text \<open>The two callbacks; both forward to \<open>send_hidp_input_report\<close> on the adapter their context points
  to. The scheduler the first one runs in is the one inside the adapter.\<close>

definition scheduler_send_callback :: "timer_env \<Rightarrow> adapter scheduler_send" where
  "scheduler_send_callback env = (\<lambda>(sch, a) hid_cid report.
     if length report > 0xFFFF then (- 1, sch, a)
     else let (code, a) = send_hidp_input_report env (a\<lparr>ta_scheduler := sch\<rparr>) hid_cid report
          in (code, ta_scheduler a, a))"

definition reply_queue_send_callback :: "timer_env \<Rightarrow> adapter send_callback" where
  "reply_queue_send_callback env = (\<lambda>a hid_cid report.
     if length report > 0xFFFF then (- 1, a) else send_hidp_input_report env a hid_cid report)"

definition zero_queue :: swbt_btstack_subcommand_reply_queue_t where
  "zero_queue = \<lparr>rq_items = replicate 4 \<lparr>item_hid_cid = 0, item_report = replicate 50 0, item_report_size = 0\<rparr>,
     rq_head = 0, rq_count = 0\<rparr>"

definition zero_scheduler :: scheduler where
  "zero_scheduler = \<lparr>sch_has_callback = False, sch_report_period_us = 0,
     sch_report_options = \<lparr>opt_timer = 0, opt_battery_connection = 0, opt_vibrator_report = 0\<rparr>,
     sch_hid_cid = 0, sch_running = False, sch_next_deadline_us = 0, sch_timer = 0,
     sch_scratch = replicate 49 0\<rparr>"

definition swbt_btstack_input_report_timer_adapter_init ::
  "adapter option \<Rightarrow> swbt_btstack_input_report_timer_adapter_config_t option \<Rightarrow> timer_result \<times> adapter option" where
  "swbt_btstack_input_report_timer_adapter_init adapter config = (case (adapter, config) of
       (Some _, Some cfg) \<Rightarrow>
         if \<not> backend_is_valid (tc_backend cfg) \<or> \<not> tc_state_provider cfg
         then (SWBT_BTSTACK_INPUT_REPORT_TIMER_ERROR_INVALID_ARGUMENT, adapter)
         else
           let a = \<lparr>ta_hid_sender = tc_hid_sender cfg, ta_report_tick_observer = tc_report_tick_observer cfg,
                    ta_scheduler = zero_scheduler, ta_reply_queue = zero_queue, ta_hid_cid = 0,
                    ta_initialized = False, ta_running = False, ta_timer_pending = False,
                    ta_can_send_pending = False, ta_neutral_send_pending = False,
                    ta_periodic_holdoff_until_us = 0, ta_trace = []\<rparr>;
               (qr, q) = swbt_btstack_subcommand_reply_queue_init (Some (ta_reply_queue a));
               a = a\<lparr>ta_reply_queue := the q\<rparr> in
           if qr \<noteq> SWBT_BTSTACK_SUBCOMMAND_REPLY_QUEUE_OK
           then (SWBT_BTSTACK_INPUT_REPORT_TIMER_ERROR_INVALID_ARGUMENT, Some a)
           else
             let (sr, sch) = swbt_btstack_input_report_scheduler_init (Some (ta_scheduler a)) True
                   (Some (tc_scheduler_config cfg));
                 a = a\<lparr>ta_scheduler := the sch\<rparr> in
             if sr \<noteq> SWBT_BTSTACK_INPUT_REPORT_OK
             then (SWBT_BTSTACK_INPUT_REPORT_TIMER_ERROR_INVALID_ARGUMENT, Some a)
             else (SWBT_BTSTACK_INPUT_REPORT_TIMER_OK, Some (a\<lparr>ta_initialized := True\<rparr>))
     | _ \<Rightarrow> (SWBT_BTSTACK_INPUT_REPORT_TIMER_ERROR_INVALID_ARGUMENT, adapter))"

definition swbt_btstack_input_report_timer_adapter_start ::
  "adapter option \<Rightarrow> swbt_btstack_input_report_timer_start_options_t \<Rightarrow> timer_result \<times> adapter option" where
  "swbt_btstack_input_report_timer_adapter_start adapter options = (case adapter of
       None \<Rightarrow> (SWBT_BTSTACK_INPUT_REPORT_TIMER_ERROR_INVALID_ARGUMENT, None)
     | Some a \<Rightarrow>
         if \<not> ta_initialized a then (SWBT_BTSTACK_INPUT_REPORT_TIMER_ERROR_INVALID_ARGUMENT, adapter)
         else
           let (start_result, sch) = swbt_btstack_input_report_scheduler_start (Some (ta_scheduler a))
                 \<lparr>so_hid_cid = start_hid_cid options, so_now_us = start_now_us options\<rparr>;
               a = a\<lparr>ta_scheduler := the sch\<rparr> in
           if start_result \<noteq> SWBT_BTSTACK_INPUT_REPORT_OK then (map_scheduler_result start_result, Some a)
           else
             let a = a\<lparr>ta_hid_cid := start_hid_cid options, ta_running := True, ta_timer_pending := False,
                       ta_can_send_pending := False, ta_periodic_holdoff_until_us := 0,
                       ta_neutral_send_pending := False\<rparr>;
                 a = emit SetTimerHandler a;
                 a = emit SetTimerContext a
             in map_prod id Some (schedule_next_timer a (start_now_us options)))"

definition now_us_of :: "timer_env \<Rightarrow> u64" where
  "now_us_of env = ucast (env_time_ms env) * 1000"

definition swbt_btstack_input_report_timer_adapter_on_timer ::
  "timer_env \<Rightarrow> adapter option \<Rightarrow> timer_result \<times> adapter option" where
  "swbt_btstack_input_report_timer_adapter_on_timer env adapter = (case adapter of
       None \<Rightarrow> (SWBT_BTSTACK_INPUT_REPORT_TIMER_ERROR_INVALID_ARGUMENT, None)
     | Some a \<Rightarrow>
         if \<not> ta_running a then (SWBT_BTSTACK_INPUT_REPORT_TIMER_STOPPED, adapter)
         else let now_us = now_us_of env in
           if now_us < ta_periodic_holdoff_until_us a
           then map_prod id Some (schedule_next_timer (a\<lparr>ta_timer_pending := False\<rparr>) now_us)
           else let a = a\<lparr>ta_timer_pending := False, ta_can_send_pending := True\<rparr>
                in (SWBT_BTSTACK_INPUT_REPORT_TIMER_OK, Some (emit (RequestCanSendNow (ta_hid_cid a)) a)))"

definition swbt_btstack_input_report_timer_adapter_on_can_send_now ::
  "timer_env \<Rightarrow> adapter option \<Rightarrow> timer_result \<times> adapter option" where
  "swbt_btstack_input_report_timer_adapter_on_can_send_now env adapter = (case adapter of
       None \<Rightarrow> (SWBT_BTSTACK_INPUT_REPORT_TIMER_ERROR_INVALID_ARGUMENT, None)
     | Some a \<Rightarrow>
         if \<not> ta_running a then (SWBT_BTSTACK_INPUT_REPORT_TIMER_STOPPED, adapter)
         else if ta_neutral_send_pending a then
           let (neutral_result, a) = send_neutral_report env a in
           if neutral_result \<noteq> SWBT_BTSTACK_INPUT_REPORT_TIMER_OK
           then (neutral_result, Some (emit (RequestCanSendNow (ta_hid_cid a)) a))
           else let now_us = now_us_of env;
                    a = a\<lparr>ta_neutral_send_pending := False, ta_can_send_pending := False,
                          ta_periodic_holdoff_until_us := 0\<rparr>;
                    a = cancel_pending_timer a
                in map_prod id Some (schedule_next_timer a now_us)
         else if swbt_btstack_subcommand_reply_queue_size (Some (ta_reply_queue a)) > 0 then
           let (reply_result, q, a) = swbt_btstack_subcommand_reply_queue_send_next (Some (ta_reply_queue a))
                 (Some (reply_queue_send_callback env)) a;
               a = a\<lparr>ta_reply_queue := the q\<rparr> in
           if reply_result \<noteq> SWBT_BTSTACK_SUBCOMMAND_REPLY_QUEUE_OK
           then (map_reply_queue_result reply_result, Some a)
           else let now_us = now_us_of env;
                    (holdoff_result, a) = holdoff_periodic_after_reply a now_us in
             if holdoff_result \<noteq> SWBT_BTSTACK_INPUT_REPORT_TIMER_OK then (holdoff_result, Some a)
             else let a = (if swbt_btstack_subcommand_reply_queue_size (Some (ta_reply_queue a)) > 0
                              \<or> ta_can_send_pending a
                           then emit (RequestCanSendNow (ta_hid_cid a)) a else a)
                  in (SWBT_BTSTACK_INPUT_REPORT_TIMER_OK, Some a)
         else if \<not> ta_can_send_pending a then (SWBT_BTSTACK_INPUT_REPORT_TIMER_NOT_DUE, Some a)
         else let now_us = now_us_of env in
           if now_us < ta_periodic_holdoff_until_us a
           then map_prod id Some (schedule_next_timer (a\<lparr>ta_can_send_pending := False\<rparr>) now_us)
           else
             let state = env_state env;
                 (tick_result, sch, a) = swbt_btstack_input_report_scheduler_tick (Some (ta_scheduler a))
                   (scheduler_send_callback env) a now_us (Some state);
                 a = a\<lparr>ta_scheduler := the sch\<rparr>;
                 a = notify_report_tick a now_us tick_result;
                 result = map_scheduler_result tick_result;
                 a = a\<lparr>ta_can_send_pending := False\<rparr> in
             if result \<noteq> SWBT_BTSTACK_INPUT_REPORT_TIMER_OK then (result, Some a)
             else map_prod id Some (schedule_next_timer (a\<lparr>ta_periodic_holdoff_until_us := 0\<rparr>) now_us))"

definition swbt_btstack_input_report_timer_adapter_enqueue_subcommand_reply ::
  "adapter option \<Rightarrow> u16 \<Rightarrow> bytes option \<Rightarrow> timer_result \<times> adapter option" where
  "swbt_btstack_input_report_timer_adapter_enqueue_subcommand_reply adapter hid_cid report = (case adapter of
       None \<Rightarrow> (SWBT_BTSTACK_INPUT_REPORT_TIMER_ERROR_INVALID_ARGUMENT, None)
     | Some a \<Rightarrow>
         if \<not> ta_initialized a then (SWBT_BTSTACK_INPUT_REPORT_TIMER_ERROR_INVALID_ARGUMENT, adapter)
         else if \<not> ta_running a then (SWBT_BTSTACK_INPUT_REPORT_TIMER_STOPPED, adapter)
         else let (enqueue_result, q) = swbt_btstack_subcommand_reply_queue_enqueue (Some (ta_reply_queue a))
                    hid_cid report;
                  a = a\<lparr>ta_reply_queue := the q\<rparr> in
           if enqueue_result \<noteq> SWBT_BTSTACK_SUBCOMMAND_REPLY_QUEUE_OK
           then (map_reply_queue_result enqueue_result, Some a)
           else (SWBT_BTSTACK_INPUT_REPORT_TIMER_OK, Some (emit (RequestCanSendNow hid_cid) a)))"

definition swbt_btstack_input_report_timer_adapter_send_neutral_now ::
  "timer_env \<Rightarrow> adapter option \<Rightarrow> timer_result \<times> adapter option" where
  "swbt_btstack_input_report_timer_adapter_send_neutral_now env adapter = (case adapter of
       None \<Rightarrow> (SWBT_BTSTACK_INPUT_REPORT_TIMER_ERROR_INVALID_ARGUMENT, None)
     | Some a \<Rightarrow>
         if \<not> ta_running a then (SWBT_BTSTACK_INPUT_REPORT_TIMER_STOPPED, adapter)
         else let (result, a) = send_neutral_report env a in
           if result \<noteq> SWBT_BTSTACK_INPUT_REPORT_TIMER_OK
           then (SWBT_BTSTACK_INPUT_REPORT_TIMER_PENDING,
                 Some (emit (RequestCanSendNow (ta_hid_cid a)) (a\<lparr>ta_neutral_send_pending := True\<rparr>)))
           else (SWBT_BTSTACK_INPUT_REPORT_TIMER_OK, Some (a\<lparr>ta_neutral_send_pending := False\<rparr>)))"

definition swbt_btstack_input_report_timer_adapter_stop :: "adapter option \<Rightarrow> adapter option" where
  "swbt_btstack_input_report_timer_adapter_stop adapter = (case adapter of
       None \<Rightarrow> None
     | Some a \<Rightarrow>
         let a = (if ta_timer_pending a then (emit RemoveTimer a)\<lparr>ta_timer_pending := False\<rparr> else a);
             a = a\<lparr>ta_can_send_pending := False, ta_neutral_send_pending := False,
                   ta_periodic_holdoff_until_us := 0, ta_running := False\<rparr>;
             a = a\<lparr>ta_reply_queue := the (snd (swbt_btstack_subcommand_reply_queue_init (Some (ta_reply_queue a))))\<rparr>
         in Some (a\<lparr>ta_scheduler := the (swbt_btstack_input_report_scheduler_stop (Some (ta_scheduler a)))\<rparr>))"

section \<open>Effects of the helpers\<close>

lemma emit_simps [simp]:
  "ta_hid_sender (emit e a) = ta_hid_sender a" "ta_report_tick_observer (emit e a) = ta_report_tick_observer a"
  "ta_scheduler (emit e a) = ta_scheduler a" "ta_reply_queue (emit e a) = ta_reply_queue a"
  "ta_hid_cid (emit e a) = ta_hid_cid a" "ta_initialized (emit e a) = ta_initialized a"
  "ta_running (emit e a) = ta_running a" "ta_timer_pending (emit e a) = ta_timer_pending a"
  "ta_can_send_pending (emit e a) = ta_can_send_pending a"
  "ta_neutral_send_pending (emit e a) = ta_neutral_send_pending a"
  "ta_periodic_holdoff_until_us (emit e a) = ta_periodic_holdoff_until_us a"
  "ta_trace (emit e a) = ta_trace a @ [e]"
  by (simp_all add: emit_def)

definition scheduled_deadline :: "adapter \<Rightarrow> u64" where
  "scheduled_deadline a = max (ta_periodic_holdoff_until_us a) (sch_next_deadline_us (ta_scheduler a))"

lemma schedule_next_timer_eq:
  "schedule_next_timer a now = (SWBT_BTSTACK_INPUT_REPORT_TIMER_OK,
     a\<lparr>ta_timer_pending := True,
       ta_trace := ta_trace a @ [SetTimer (delay_ms_until now (scheduled_deadline a)), AddTimer]\<rparr>)"
  by (auto simp: schedule_next_timer_def swbt_btstack_input_report_scheduler_next_deadline_us_def
      scheduled_deadline_def max_def emit_def Let_def not_less)

text \<open>The HIDP message that carries a report: the header, and in a reply the shared timer byte.\<close>

definition shares_timer :: "bytes \<Rightarrow> bool" where
  "shares_timer report \<longleftrightarrow> 1 < length report \<and> report ! 0 = 0x21"

definition hidp_message :: "u8 \<Rightarrow> bytes \<Rightarrow> bytes" where
  "hidp_message t report = 0xA1 # (if shares_timer report then report[1 := t] else report)"

definition transport :: "timer_env \<Rightarrow> adapter \<Rightarrow> u16 \<Rightarrow> bytes \<Rightarrow> int" where
  "transport env a = (if ta_hid_sender a then env_hid_send env else env_backend_send env)"

definition send_event :: "adapter \<Rightarrow> u16 \<Rightarrow> bytes \<Rightarrow> int \<Rightarrow> timer_event" where
  "send_event a = (if ta_hid_sender a then HidSend else BackendSend)"

definition bump_timer :: "adapter \<Rightarrow> adapter" where
  "bump_timer a = a\<lparr>ta_scheduler := (ta_scheduler a)\<lparr>sch_timer := sch_timer (ta_scheduler a) + 1\<rparr>\<rparr>"

lemma message_buffer:
  assumes "report \<noteq> []" "length report \<le> 50"
  shows "take (length report + 1) (copy_at ((replicate 51 0)[0 := h]) 1 report) = h # report"
proof -
  have "replicate 51 (0 :: 'a) = 0 # replicate 50 0"
    by (simp add: numeral_eq_Suc)
  then have "(replicate 51 (0 :: 'a))[0 := h] = h # replicate 50 0"
    by (simp only: list_update_code)
  then show ?thesis
    using assms by (simp add: copy_at_eq_append)
qed

lemma send_interrupt_eq:
  "length msg \<le> 0xFFFF \<Longrightarrow> send_interrupt_message env a cid msg =
     (transport env a cid msg, emit (send_event a cid msg (transport env a cid msg)) a)"
  by (simp add: send_interrupt_message_def transport_def send_event_def Let_def)

lemma patched_message:
  assumes "report \<noteq> []" "length report \<le> 50"
  shows "take (length report + 1)
      (if shares_timer report then (copy_at ((replicate 51 0)[0 := 0xA1]) 1 report)[2 := t]
       else copy_at ((replicate 51 0)[0 := 0xA1]) 1 report) = hidp_message t report"
proof -
  let ?m = "copy_at ((replicate 51 0)[0 := 0xA1 :: u8]) 1 report"
  have "take (length report + 1) (?m[2 := t]) = (0xA1 # report)[2 := t]"
    unfolding take_update_swap [symmetric] by (simp add: message_buffer [OF assms, simplified] take_update_swap)
  then show ?thesis
    using message_buffer [OF assms, of "0xA1"] assms
    by (auto simp: hidp_message_def shares_timer_def numeral_2_eq_2)
qed

lemma send_hidp_eq:
  assumes "report \<noteq> []" "length report \<le> 50"
  shows "send_hidp_input_report env a cid report =
    (let msg = hidp_message (sch_timer (ta_scheduler a)) report; code = transport env a cid msg;
         a = emit (send_event a cid msg code) a
     in (code, if code = 0 \<and> shares_timer report then bump_timer a else a))"
proof -
  let ?t = "sch_timer (ta_scheduler a)"
  have len: "length (hidp_message ?t report) \<le> 0xFFFF"
    using assms(2) by (simp add: hidp_message_def)
  have shares: "(length report > 1 \<and> report ! 0 = SWBT_SWITCH_INPUT_REPORT_SUBCOMMAND_REPLY) = shares_timer report"
    by (simp add: shares_timer_def SWBT_SWITCH_INPUT_REPORT_SUBCOMMAND_REPLY_def)
  have size: "SWBT_BTSTACK_HIDP_MAX_INPUT_MESSAGE_SIZE = 51"
    by (simp add: SWBT_BTSTACK_HIDP_MAX_INPUT_MESSAGE_SIZE_def SWBT_SWITCH_SUBCOMMAND_REPLY_REPORT_SIZE_def)
  have guard: "(length report = 0 \<or> length report > 51 - 1) = False"
    using assms by simp
  show ?thesis
    unfolding send_hidp_input_report_def Let_def shares size SWBT_BTSTACK_HIDP_INPUT_REPORT_HEADER_def guard
      patched_message [OF assms] send_interrupt_eq [OF len] if_False prod.case bump_timer_def ..
qed

lemma hidp_full [simp]: "hidp_message t (due_report sch s) = 0xA1 # due_report sch s"
  by (simp add: hidp_message_def shares_timer_def due_report_id)

lemma not_shares_full [simp]: "\<not> shares_timer (due_report sch s)"
  by (simp add: shares_timer_def due_report_id)

text \<open>Sending a full report of a state: the transport is asked once; on success the timer advances.\<close>

definition full_code :: "timer_env \<Rightarrow> adapter \<Rightarrow> u16 \<Rightarrow> swbt_state_t \<Rightarrow> int" where
  "full_code env a cid s = transport env a cid (0xA1 # due_report (ta_scheduler a) s)"

definition full_sent :: "timer_env \<Rightarrow> adapter \<Rightarrow> u16 \<Rightarrow> swbt_state_t \<Rightarrow> adapter" where
  "full_sent env a cid s = a\<lparr>ta_scheduler := (ta_scheduler a)\<lparr>sch_scratch := due_report (ta_scheduler a) s\<rparr>,
     ta_trace := ta_trace a @ [send_event a cid (0xA1 # due_report (ta_scheduler a) s) (full_code env a cid s)]\<rparr>"

lemma transport_scheduler [simp]: "transport env (a\<lparr>ta_scheduler := x\<rparr>) = transport env a"
    "send_event (a\<lparr>ta_scheduler := x\<rparr>) = send_event a"
  by (simp_all add: transport_def send_event_def fun_eq_iff)

lemma send_full_eq:
  "send_hidp_input_report env (a\<lparr>ta_scheduler := (ta_scheduler a)\<lparr>sch_scratch := due_report (ta_scheduler a) s\<rparr>\<rparr>)
      cid (due_report (ta_scheduler a) s) = (full_code env a cid s, full_sent env a cid s)"
proof -
  have "due_report (ta_scheduler a) s \<noteq> []" "length (due_report (ta_scheduler a) s) \<le> 50"
    by (simp_all flip: length_greater_0_conv)
  then show ?thesis
    by (simp add: send_hidp_eq full_code_def full_sent_def emit_def Let_def)
qed

lemma send_neutral_eq:
  assumes "scheduler_ok (ta_scheduler a)"
  shows "send_neutral_report env a =
    (if full_code env a (ta_hid_cid a) swbt_state_neutral = 0
     then (SWBT_BTSTACK_INPUT_REPORT_TIMER_OK, bump_timer (full_sent env a (ta_hid_cid a) swbt_state_neutral))
     else (SWBT_BTSTACK_INPUT_REPORT_TIMER_ERROR_SCHEDULER, full_sent env a (ta_hid_cid a) swbt_state_neutral))"
  using assms send_full_eq [of env a swbt_state_neutral "ta_hid_cid a"]
  by (simp add: send_neutral_report_def scheduler_ok_def build_standard_full_ok due_report_def bump_timer_def Let_def)

lemma tick_adapter_due:
  assumes "scheduler_ok (ta_scheduler a)" "sch_running (ta_scheduler a)" "sch_next_deadline_us (ta_scheduler a) \<le> now"
  shows "swbt_btstack_input_report_scheduler_tick (Some (ta_scheduler a)) (scheduler_send_callback env) a now (Some s) =
    (let cid = sch_hid_cid (ta_scheduler a); b = full_sent env a cid s;
         adv = swbt_btstack_input_report_scheduler_advance (ta_scheduler b) now in
     if full_code env a cid s = 0
     then (SWBT_BTSTACK_INPUT_REPORT_OK, Some (adv\<lparr>sch_timer := sch_timer adv + 1\<rparr>), b)
     else (SWBT_BTSTACK_INPUT_REPORT_ERROR_SEND_FAILED, Some adv, b))"
proof -
  let ?cid = "sch_hid_cid (ta_scheduler a)"
  have "scheduler_send_callback env ((ta_scheduler a)\<lparr>sch_scratch := due_report (ta_scheduler a) s\<rparr>, a) ?cid
      (due_report (ta_scheduler a) s) =
    (full_code env a ?cid s, ta_scheduler (full_sent env a ?cid s), full_sent env a ?cid s)"
    by (simp add: scheduler_send_callback_def send_full_eq)
  then show ?thesis
    using tick_due [OF assms, of "scheduler_send_callback env" s a] by (simp add: Let_def)
qed

text \<open>Sending the oldest queued reply.\<close>

definition replies_ok :: "adapter \<Rightarrow> bool" where
  "replies_ok a \<longleftrightarrow> queue_ok (ta_reply_queue a)
     \<and> (\<forall>(cid, bs) \<in> set (queue_abs (ta_reply_queue a)). shares_timer bs \<and> length bs \<le> 50)"

definition reply_sent :: "timer_env \<Rightarrow> adapter \<Rightarrow> u16 \<Rightarrow> bytes \<Rightarrow> int \<times> adapter" where
  "reply_sent env a cid bs =
     (let msg = hidp_message (sch_timer (ta_scheduler a)) bs; code = transport env a cid msg;
          b = emit (send_event a cid msg code) a
      in (code, if code = 0 then bump_timer b else b))"

lemma reply_callback_eq:
  assumes "shares_timer bs" "length bs \<le> 50"
  shows "reply_queue_send_callback env a cid bs = reply_sent env a cid bs"
proof -
  have "bs \<noteq> []"
    using assms(1) by (auto simp: shares_timer_def)
  then show ?thesis
    using assms by (simp add: reply_queue_send_callback_def reply_sent_def send_hidp_eq Let_def)
qed

lemma send_next_adapter:
  assumes "replies_ok a" "queue_abs (ta_reply_queue a) = (cid, bs) # rest"
  shows "\<exists>q. swbt_btstack_subcommand_reply_queue_send_next (Some (ta_reply_queue a))
        (Some (reply_queue_send_callback env)) a =
      (if fst (reply_sent env a cid bs) = 0 then SWBT_BTSTACK_SUBCOMMAND_REPLY_QUEUE_OK
       else SWBT_BTSTACK_SUBCOMMAND_REPLY_QUEUE_ERROR_SEND_FAILED, Some q, snd (reply_sent env a cid bs))
    \<and> queue_ok q
    \<and> queue_abs q = (if fst (reply_sent env a cid bs) = 0 then rest else queue_abs (ta_reply_queue a))"
proof -
  have "shares_timer bs" "length bs \<le> 50" and ok: "queue_ok (ta_reply_queue a)"
    using assms by (auto simp: replies_ok_def)
  moreover obtain code b where r: "reply_sent env a cid bs = (code, b)"
    by (cases "reply_sent env a cid bs")
  ultimately have "reply_queue_send_callback env a cid bs = (code, b)"
    by (simp add: reply_callback_eq)
  moreover have "rq_count (ta_reply_queue a) \<noteq> 0"
    using assms(2) by (metis length_queue_abs length_0_conv list.distinct(1))
  ultimately show ?thesis
    using send_next_front [OF ok, of "reply_queue_send_callback env" a code b] assms(2)
    by (auto simp: r)
qed

section \<open>The adapter as a transition system\<close>

datatype adapter_op =
    StartAdapter swbt_btstack_input_report_timer_start_options_t
  | OnTimer timer_env
  | OnCanSendNow timer_env
  | EnqueueReply u16 bytes
  | SendNeutralNow timer_env
  | StopAdapter

fun adapter_exec :: "adapter_op \<Rightarrow> adapter option \<Rightarrow> timer_result \<times> adapter option" where
  "adapter_exec (StartAdapter opts) a = swbt_btstack_input_report_timer_adapter_start a opts"
| "adapter_exec (OnTimer env) a = swbt_btstack_input_report_timer_adapter_on_timer env a"
| "adapter_exec (OnCanSendNow env) a = swbt_btstack_input_report_timer_adapter_on_can_send_now env a"
| "adapter_exec (EnqueueReply cid bs) a =
     swbt_btstack_input_report_timer_adapter_enqueue_subcommand_reply a cid (Some bs)"
| "adapter_exec (SendNeutralNow env) a = swbt_btstack_input_report_timer_adapter_send_neutral_now env a"
| "adapter_exec StopAdapter a =
     (SWBT_BTSTACK_INPUT_REPORT_TIMER_OK, swbt_btstack_input_report_timer_adapter_stop a)"

text \<open>
  The surroundings of the adapter: the run loop fires the timer only while it is
  armed, and the replies that are enqueued are reply reports of the dispatcher.
\<close>

fun op_allowed :: "adapter \<Rightarrow> adapter_op \<Rightarrow> bool" where
  "op_allowed a (OnTimer _) = (ta_running a \<longrightarrow> ta_timer_pending a)"
| "op_allowed a (EnqueueReply _ bs) = shares_timer bs"
| "op_allowed a _ = True"

definition adapter_step :: "adapter \<Rightarrow> adapter_op \<Rightarrow> adapter \<Rightarrow> bool" where
  "adapter_step a op a' \<longleftrightarrow> op_allowed a op \<and> snd (adapter_exec op (Some a)) = Some a'"

definition adapter_initial :: "adapter \<Rightarrow> bool" where
  "adapter_initial a \<longleftrightarrow> (\<exists>mem cfg. swbt_btstack_input_report_timer_adapter_init (Some mem) (Some cfg) =
     (SWBT_BTSTACK_INPUT_REPORT_TIMER_OK, Some a))"

definition adapter_inv :: "adapter \<Rightarrow> bool" where
  "adapter_inv a \<longleftrightarrow> ta_initialized a \<and> scheduler_ok (ta_scheduler a) \<and> replies_ok a
     \<and> ta_running a = sch_running (ta_scheduler a)
     \<and> \<not> (ta_timer_pending a \<and> ta_can_send_pending a)
     \<and> (if ta_running a then sch_hid_cid (ta_scheduler a) = ta_hid_cid a
        else \<not> ta_timer_pending a \<and> \<not> ta_can_send_pending a \<and> \<not> ta_neutral_send_pending a
          \<and> ta_periodic_holdoff_until_us a = 0 \<and> queue_abs (ta_reply_queue a) = [])"

lemma queue_init_any:
  assumes "queue_ok q"
  shows "\<exists>q'. swbt_btstack_subcommand_reply_queue_init (Some q) = (SWBT_BTSTACK_SUBCOMMAND_REPLY_QUEUE_OK, Some q')
    \<and> queue_ok q' \<and> queue_abs q' = []"
  using assms by (intro queue_init_ok) (simp_all add: queue_ok_def)

lemma zero_queue_ok: "queue_ok zero_queue"
  by (simp add: queue_ok_def zero_queue_def)

lemma adapter_init_inv:
  assumes "adapter_initial a"
  shows "adapter_inv a" "ta_trace a = []" "\<not> ta_running a"
proof -
  obtain mem cfg where init: "swbt_btstack_input_report_timer_adapter_init (Some mem) (Some cfg) =
      (SWBT_BTSTACK_INPUT_REPORT_TIMER_OK, Some a)"
    using assms by (auto simp: adapter_initial_def)
  obtain q where q: "swbt_btstack_subcommand_reply_queue_init (Some zero_queue) =
      (SWBT_BTSTACK_SUBCOMMAND_REPLY_QUEUE_OK, Some q)" "queue_ok q" "queue_abs q = []"
    using queue_init_any [OF zero_queue_ok] by blast
  have cfg: "sc_report_period_us (tc_scheduler_config cfg) \<noteq> 0"
    using init q(1)
    by (auto simp: swbt_btstack_input_report_timer_adapter_init_def swbt_btstack_input_report_scheduler_init_def
        Let_def split: if_splits)
  obtain sch where sch: "swbt_btstack_input_report_scheduler_init (Some zero_scheduler) True
      (Some (tc_scheduler_config cfg)) = (SWBT_BTSTACK_INPUT_REPORT_OK, Some sch)"
      "scheduler_ok sch" "\<not> sch_running sch"
    using scheduler_init_ok [OF cfg, of zero_scheduler] by (auto simp: zero_scheduler_def)
  show "adapter_inv a" "ta_trace a = []" "\<not> ta_running a"
    using init q sch
    by (auto simp: swbt_btstack_input_report_timer_adapter_init_def adapter_inv_def replies_ok_def Let_def
        split: if_splits)
qed

section \<open>What each handler does\<close>

definition armed :: "adapter \<Rightarrow> u64 \<Rightarrow> adapter" where
  "armed a now = snd (schedule_next_timer a now)"

lemma schedule_armed: "schedule_next_timer a now = (SWBT_BTSTACK_INPUT_REPORT_TIMER_OK, armed a now)"
  by (simp add: armed_def schedule_next_timer_eq)

lemma armed_simps [simp]:
  "ta_hid_sender (armed a now) = ta_hid_sender a" "ta_scheduler (armed a now) = ta_scheduler a"
  "ta_reply_queue (armed a now) = ta_reply_queue a" "ta_hid_cid (armed a now) = ta_hid_cid a"
  "ta_initialized (armed a now) = ta_initialized a" "ta_running (armed a now) = ta_running a"
  "ta_timer_pending (armed a now)" "ta_can_send_pending (armed a now) = ta_can_send_pending a"
  "ta_neutral_send_pending (armed a now) = ta_neutral_send_pending a"
  "ta_periodic_holdoff_until_us (armed a now) = ta_periodic_holdoff_until_us a"
  "ta_trace (armed a now) = ta_trace a @ [SetTimer (delay_ms_until now (scheduled_deadline a)), AddTimer]"
  by (simp_all add: armed_def schedule_next_timer_eq)

lemma full_sent_simps [simp]:
  "ta_hid_sender (full_sent env a cid s) = ta_hid_sender a"
  "ta_report_tick_observer (full_sent env a cid s) = ta_report_tick_observer a"
  "ta_reply_queue (full_sent env a cid s) = ta_reply_queue a" "ta_hid_cid (full_sent env a cid s) = ta_hid_cid a"
  "ta_initialized (full_sent env a cid s) = ta_initialized a" "ta_running (full_sent env a cid s) = ta_running a"
  "ta_timer_pending (full_sent env a cid s) = ta_timer_pending a"
  "ta_can_send_pending (full_sent env a cid s) = ta_can_send_pending a"
  "ta_neutral_send_pending (full_sent env a cid s) = ta_neutral_send_pending a"
  "ta_periodic_holdoff_until_us (full_sent env a cid s) = ta_periodic_holdoff_until_us a"
  "ta_scheduler (full_sent env a cid s) = (ta_scheduler a)\<lparr>sch_scratch := due_report (ta_scheduler a) s\<rparr>"
  by (simp_all add: full_sent_def)

lemma bump_simps [simp]:
  "ta_hid_sender (bump_timer a) = ta_hid_sender a" "ta_reply_queue (bump_timer a) = ta_reply_queue a"
  "ta_hid_cid (bump_timer a) = ta_hid_cid a" "ta_initialized (bump_timer a) = ta_initialized a"
  "ta_running (bump_timer a) = ta_running a" "ta_timer_pending (bump_timer a) = ta_timer_pending a"
  "ta_can_send_pending (bump_timer a) = ta_can_send_pending a"
  "ta_neutral_send_pending (bump_timer a) = ta_neutral_send_pending a"
  "ta_periodic_holdoff_until_us (bump_timer a) = ta_periodic_holdoff_until_us a"
  "ta_trace (bump_timer a) = ta_trace a"
  "ta_scheduler (bump_timer a) = (ta_scheduler a)\<lparr>sch_timer := sch_timer (ta_scheduler a) + 1\<rparr>"
  by (simp_all add: bump_timer_def)

lemma cancel_simps [simp]:
  "ta_scheduler (cancel_pending_timer a) = ta_scheduler a" "ta_reply_queue (cancel_pending_timer a) = ta_reply_queue a"
  "ta_hid_cid (cancel_pending_timer a) = ta_hid_cid a" "ta_initialized (cancel_pending_timer a) = ta_initialized a"
  "ta_running (cancel_pending_timer a) = ta_running a" "\<not> ta_timer_pending (cancel_pending_timer a)"
  "ta_can_send_pending (cancel_pending_timer a) = ta_can_send_pending a"
  "ta_neutral_send_pending (cancel_pending_timer a) = ta_neutral_send_pending a"
  "ta_periodic_holdoff_until_us (cancel_pending_timer a) = ta_periodic_holdoff_until_us a"
  "ta_trace (cancel_pending_timer a) = ta_trace a @ (if ta_timer_pending a then [RemoveTimer] else [])"
  by (simp_all add: cancel_pending_timer_def)

lemma on_can_send_neutral:
  assumes "ta_running a" "ta_neutral_send_pending a" "scheduler_ok (ta_scheduler a)"
  shows "swbt_btstack_input_report_timer_adapter_on_can_send_now env (Some a) =
    (let b = full_sent env a (ta_hid_cid a) swbt_state_neutral in
     if full_code env a (ta_hid_cid a) swbt_state_neutral = 0
     then (SWBT_BTSTACK_INPUT_REPORT_TIMER_OK, Some (armed (cancel_pending_timer ((bump_timer b)
            \<lparr>ta_neutral_send_pending := False, ta_can_send_pending := False, ta_periodic_holdoff_until_us := 0\<rparr>))
            (now_us_of env)))
     else (SWBT_BTSTACK_INPUT_REPORT_TIMER_ERROR_SCHEDULER, Some (emit (RequestCanSendNow (ta_hid_cid a)) b)))"
  using assms
  by (simp add: swbt_btstack_input_report_timer_adapter_on_can_send_now_def send_neutral_eq schedule_armed Let_def)

lemma on_can_send_reply:
  assumes "ta_running a" "\<not> ta_neutral_send_pending a" "replies_ok a"
    and "queue_abs (ta_reply_queue a) = (cid, bs) # rest"
  shows "\<exists>q. queue_ok q
    \<and> queue_abs q = (if fst (reply_sent env a cid bs) = 0 then rest else queue_abs (ta_reply_queue a))
    \<and> swbt_btstack_input_report_timer_adapter_on_can_send_now env (Some a) =
    (let b = (snd (reply_sent env a cid bs))\<lparr>ta_reply_queue := q\<rparr>;
         c = armed (cancel_pending_timer (b\<lparr>ta_periodic_holdoff_until_us := now_us_of env + 300000,
               ta_can_send_pending := False\<rparr>)) (now_us_of env) in
     if fst (reply_sent env a cid bs) = 0
     then (SWBT_BTSTACK_INPUT_REPORT_TIMER_OK,
           Some (if rest = [] then c else emit (RequestCanSendNow (ta_hid_cid c)) c))
     else (SWBT_BTSTACK_INPUT_REPORT_TIMER_ERROR_REPLY_QUEUE, Some b))"
proof -
  have count: "rq_count q = length (queue_abs q)" for q
    by simp
  have pos: "0 < rq_count (ta_reply_queue a)"
    using assms(4) by (simp add: count del: length_queue_abs)
  obtain q where q: "swbt_btstack_subcommand_reply_queue_send_next (Some (ta_reply_queue a))
        (Some (reply_queue_send_callback env)) a =
      (if fst (reply_sent env a cid bs) = 0 then SWBT_BTSTACK_SUBCOMMAND_REPLY_QUEUE_OK
       else SWBT_BTSTACK_SUBCOMMAND_REPLY_QUEUE_ERROR_SEND_FAILED, Some q, snd (reply_sent env a cid bs))"
      "queue_ok q"
      "queue_abs q = (if fst (reply_sent env a cid bs) = 0 then rest else queue_abs (ta_reply_queue a))"
    using send_next_adapter [OF assms(3,4)] by blast
  have rest: "fst (reply_sent env a cid bs) = 0 \<Longrightarrow> (0 < rq_count q) = (rest \<noteq> [])"
    using q(3) by (simp add: count del: length_queue_abs)
  show ?thesis
    using assms(1,2) pos q rest
    by (intro exI [of _ q])
       (auto simp: swbt_btstack_input_report_timer_adapter_on_can_send_now_def
        swbt_btstack_subcommand_reply_queue_size_def holdoff_periodic_after_reply_def
        SWBT_BTSTACK_REPLY_PERIODIC_HOLDOFF_US_def schedule_armed cancel_pending_timer_def Let_def)
qed

lemma notify_simps [simp]:
  "ta_scheduler (notify_report_tick a now r) = ta_scheduler a"
  "ta_reply_queue (notify_report_tick a now r) = ta_reply_queue a"
  "ta_hid_cid (notify_report_tick a now r) = ta_hid_cid a"
  "ta_initialized (notify_report_tick a now r) = ta_initialized a"
  "ta_running (notify_report_tick a now r) = ta_running a"
  "ta_timer_pending (notify_report_tick a now r) = ta_timer_pending a"
  "ta_can_send_pending (notify_report_tick a now r) = ta_can_send_pending a"
  "ta_neutral_send_pending (notify_report_tick a now r) = ta_neutral_send_pending a"
  "ta_periodic_holdoff_until_us (notify_report_tick a now r) = ta_periodic_holdoff_until_us a"
  by (simp_all add: notify_report_tick_def)

definition idle_for_periodic :: "adapter \<Rightarrow> bool" where
  "idle_for_periodic a \<longleftrightarrow> ta_running a \<and> \<not> ta_neutral_send_pending a \<and> queue_abs (ta_reply_queue a) = []"

lemma on_can_send_periodic:
  assumes "adapter_inv a" "idle_for_periodic a"
  shows "swbt_btstack_input_report_timer_adapter_on_can_send_now env (Some a) =
    (let now = now_us_of env; b = full_sent env a (ta_hid_cid a) (env_state env);
         adv = swbt_btstack_input_report_scheduler_advance (ta_scheduler b) now in
     if \<not> ta_can_send_pending a then (SWBT_BTSTACK_INPUT_REPORT_TIMER_NOT_DUE, Some a)
     else if now < ta_periodic_holdoff_until_us a
     then (SWBT_BTSTACK_INPUT_REPORT_TIMER_OK, Some (armed (a\<lparr>ta_can_send_pending := False\<rparr>) now))
     else if now < sch_next_deadline_us (ta_scheduler a)
     then (SWBT_BTSTACK_INPUT_REPORT_TIMER_NOT_DUE, Some (a\<lparr>ta_can_send_pending := False\<rparr>))
     else if full_code env a (ta_hid_cid a) (env_state env) = 0
     then (SWBT_BTSTACK_INPUT_REPORT_TIMER_OK, Some (armed ((notify_report_tick
            (b\<lparr>ta_scheduler := adv\<lparr>sch_timer := sch_timer adv + 1\<rparr>\<rparr>) now SWBT_BTSTACK_INPUT_REPORT_OK)
            \<lparr>ta_can_send_pending := False, ta_periodic_holdoff_until_us := 0\<rparr>) now))
     else (SWBT_BTSTACK_INPUT_REPORT_TIMER_ERROR_SCHEDULER, Some ((notify_report_tick
            (b\<lparr>ta_scheduler := adv\<rparr>) now SWBT_BTSTACK_INPUT_REPORT_ERROR_SEND_FAILED)
            \<lparr>ta_can_send_pending := False\<rparr>)))"
proof -
  have sch: "scheduler_ok (ta_scheduler a)" "sch_running (ta_scheduler a)" "sch_hid_cid (ta_scheduler a) = ta_hid_cid a"
    and run: "ta_running a" "\<not> ta_neutral_send_pending a" "rq_count (ta_reply_queue a) = 0"
    using assms unfolding adapter_inv_def idle_for_periodic_def by (auto simp flip: length_queue_abs)
  have same: "a\<lparr>ta_scheduler := ta_scheduler a\<rparr> = a" "notify_report_tick a now SWBT_BTSTACK_INPUT_REPORT_NOT_DUE = a" for now
    by (simp_all add: notify_report_tick_def)
  show ?thesis
  proof (cases "now_us_of env < sch_next_deadline_us (ta_scheduler a)")
    case True
    then show ?thesis
      using run sch same
      by (simp add: swbt_btstack_input_report_timer_adapter_on_can_send_now_def schedule_armed Let_def
          swbt_btstack_subcommand_reply_queue_size_def tick_not_due)
  next
    case False
    then have "sch_next_deadline_us (ta_scheduler a) \<le> now_us_of env"
      by simp
    note tick = tick_adapter_due [OF sch(1,2) this, of env "env_state env"]
    show ?thesis
      using run sch(3) False
      by (simp add: swbt_btstack_input_report_timer_adapter_on_can_send_now_def schedule_armed Let_def
          swbt_btstack_subcommand_reply_queue_size_def tick)
  qed
qed

section \<open>Invariant and timer bytes\<close>

fun sent_timer :: "timer_event \<Rightarrow> u8 list" where
  "sent_timer (HidSend _ msg code) = (if code = 0 then [msg ! 2] else [])"
| "sent_timer (BackendSend _ msg code) = (if code = 0 then [msg ! 2] else [])"
| "sent_timer _ = []"

definition sent_timers :: "timer_event list \<Rightarrow> u8 list" where
  "sent_timers es = concat (map sent_timer es)"

lemma sent_timers_simps [simp]:
  "sent_timers [] = []" "sent_timers (es @ fs) = sent_timers es @ sent_timers fs"
  "sent_timers (e # es) = sent_timer e @ sent_timers es"
  by (simp_all add: sent_timers_def)

definition shared_timer :: "adapter \<Rightarrow> u8" where
  "shared_timer a = sch_timer (ta_scheduler a)"

definition timer_effect :: "adapter \<Rightarrow> adapter \<Rightarrow> bool" where
  "timer_effect a a' \<longleftrightarrow> (\<exists>new k. ta_trace a' = ta_trace a @ new
     \<and> sent_timers new = map (\<lambda>i. shared_timer a + of_nat i) [0..<k] \<and> shared_timer a' = shared_timer a + of_nat k)"

lemma timer_effect_none:
  "ta_trace a' = ta_trace a @ new \<Longrightarrow> sent_timers new = [] \<Longrightarrow> shared_timer a' = shared_timer a \<Longrightarrow> timer_effect a a'"
  unfolding timer_effect_def by (intro exI [of _ new] exI [of _ 0]) simp

lemma timer_effect_one:
  "ta_trace a' = ta_trace a @ new \<Longrightarrow> sent_timers new = [shared_timer a] \<Longrightarrow>
   shared_timer a' = shared_timer a + 1 \<Longrightarrow> timer_effect a a'"
  unfolding timer_effect_def by (intro exI [of _ new] exI [of _ 1]) simp

lemma timer_effect_trans:
  assumes "timer_effect a b" "timer_effect b c"
  shows "timer_effect a c"
proof -
  obtain new k new' k' where
      1: "ta_trace b = ta_trace a @ new" "sent_timers new = map (\<lambda>i. shared_timer a + of_nat i) [0..<k]"
        "shared_timer b = shared_timer a + of_nat k"
    and 2: "ta_trace c = ta_trace b @ new'" "sent_timers new' = map (\<lambda>i. shared_timer b + of_nat i) [0..<k']"
        "shared_timer c = shared_timer b + of_nat k'"
    using assms by (auto simp: timer_effect_def)
  have "map (\<lambda>i. shared_timer a + of_nat i) [0..<k] @ map (\<lambda>i. shared_timer b + of_nat i) [0..<k'] =
      map (\<lambda>i. shared_timer a + of_nat i) [0..<k + k']"
    by (rule nth_equalityI) (auto simp: 1(3) nth_append)
  with 1 2 show ?thesis
    unfolding timer_effect_def by (intro exI [of _ "new @ new'"] exI [of _ "k + k'"]) (simp add: add.assoc)
qed

lemma sent_full_event:
  "sent_timer (send_event a cid (0xA1 # due_report sch s) code) = (if code = 0 then [sch_timer sch] else [])"
  by (simp add: send_event_def due_report_def due_report_timer [simplified])

lemma sent_reply_event:
  "shares_timer bs \<Longrightarrow> sent_timer (send_event a cid (hidp_message t bs) code) = (if code = 0 then [t] else [])"
  by (cases bs; cases "tl bs") (auto simp: send_event_def hidp_message_def shares_timer_def numeral_2_eq_2)

lemma full_sent_trace:
  "ta_trace (full_sent env a cid s) =
    ta_trace a @ [send_event a cid (0xA1 # due_report (ta_scheduler a) s) (full_code env a cid s)]"
  by (simp add: full_sent_def)

lemma scheduler_ok_simps [simp]:
  "scheduler_ok (sch\<lparr>sch_scratch := due_report sch' s\<rparr>) = (sch_has_callback sch \<and> sch_report_period_us sch > 0)"
  "scheduler_ok (sch\<lparr>sch_timer := t\<rparr>) = scheduler_ok sch"
  "scheduler_ok (swbt_btstack_input_report_scheduler_advance sch now) = scheduler_ok sch"
  by (simp_all add: scheduler_ok_def swbt_btstack_input_report_scheduler_advance_def Let_def)

lemma advance_simps [simp]:
  "sch_timer (swbt_btstack_input_report_scheduler_advance sch now) = sch_timer sch"
  "sch_running (swbt_btstack_input_report_scheduler_advance sch now) = sch_running sch"
  "sch_hid_cid (swbt_btstack_input_report_scheduler_advance sch now) = sch_hid_cid sch"
  "sch_has_callback (swbt_btstack_input_report_scheduler_advance sch now) = sch_has_callback sch"
  "sch_report_period_us (swbt_btstack_input_report_scheduler_advance sch now) = sch_report_period_us sch"
  "sch_scratch (swbt_btstack_input_report_scheduler_advance sch now) = sch_scratch sch"
  by (simp_all add: swbt_btstack_input_report_scheduler_advance_def Let_def)

lemma can_send_step_neutral:
  assumes "adapter_inv a" "ta_running a" "ta_neutral_send_pending a"
    and "snd (swbt_btstack_input_report_timer_adapter_on_can_send_now env (Some a)) = Some a'"
  shows "adapter_inv a' \<and> timer_effect a a'"
proof -
  have sch: "scheduler_ok (ta_scheduler a)"
    using assms(1) by (simp add: adapter_inv_def)
  have eq: "a' = (if full_code env a (ta_hid_cid a) swbt_state_neutral = 0
      then armed (cancel_pending_timer ((bump_timer (full_sent env a (ta_hid_cid a) swbt_state_neutral))
            \<lparr>ta_neutral_send_pending := False, ta_can_send_pending := False, ta_periodic_holdoff_until_us := 0\<rparr>))
            (now_us_of env)
      else emit (RequestCanSendNow (ta_hid_cid a)) (full_sent env a (ta_hid_cid a) swbt_state_neutral))"
    using assms(4) on_can_send_neutral [OF assms(2,3) sch, of env] by (simp add: Let_def split: if_splits)
  have inv: "adapter_inv a'"
    using assms(1,2) eq by (auto simp: adapter_inv_def replies_ok_def scheduler_ok_def)
  have "timer_effect a a'"
  proof (cases "full_code env a (ta_hid_cid a) swbt_state_neutral = 0")
    case True
    with eq show ?thesis
      by (intro timer_effect_one [where new = "drop (length (ta_trace a)) (ta_trace a')"])
         (auto simp: full_sent_trace sent_full_event shared_timer_def)
  next
    case False
    with eq show ?thesis
      by (intro timer_effect_none [where new = "drop (length (ta_trace a)) (ta_trace a')"])
         (auto simp: full_sent_trace sent_full_event shared_timer_def)
  qed
  with inv show ?thesis ..
qed

lemma reply_sent_simps [simp]:
  "ta_reply_queue (snd (reply_sent env a cid bs)) = ta_reply_queue a"
  "ta_hid_cid (snd (reply_sent env a cid bs)) = ta_hid_cid a"
  "ta_initialized (snd (reply_sent env a cid bs)) = ta_initialized a"
  "ta_running (snd (reply_sent env a cid bs)) = ta_running a"
  "ta_timer_pending (snd (reply_sent env a cid bs)) = ta_timer_pending a"
  "ta_can_send_pending (snd (reply_sent env a cid bs)) = ta_can_send_pending a"
  "ta_neutral_send_pending (snd (reply_sent env a cid bs)) = ta_neutral_send_pending a"
  "ta_periodic_holdoff_until_us (snd (reply_sent env a cid bs)) = ta_periodic_holdoff_until_us a"
  "ta_scheduler (snd (reply_sent env a cid bs)) = (if fst (reply_sent env a cid bs) = 0
     then (ta_scheduler a)\<lparr>sch_timer := sch_timer (ta_scheduler a) + 1\<rparr> else ta_scheduler a)"
  "ta_trace (snd (reply_sent env a cid bs)) = ta_trace a
     @ [send_event a cid (hidp_message (sch_timer (ta_scheduler a)) bs) (fst (reply_sent env a cid bs))]"
  by (simp_all add: reply_sent_def Let_def)

lemma can_send_step_reply:
  assumes "adapter_inv a" "ta_running a" "\<not> ta_neutral_send_pending a" "queue_abs (ta_reply_queue a) \<noteq> []"
    and "snd (swbt_btstack_input_report_timer_adapter_on_can_send_now env (Some a)) = Some a'"
  shows "adapter_inv a' \<and> timer_effect a a'"
proof -
  obtain cid bs rest where q0: "queue_abs (ta_reply_queue a) = (cid, bs) # rest"
    using assms(4) by (metis list.exhaust surj_pair)
  have rep: "replies_ok a"
    using assms(1) by (simp add: adapter_inv_def)
  then have shares: "shares_timer bs"
    using q0 by (simp add: replies_ok_def)
  obtain q where q: "queue_ok q"
      "queue_abs q = (if fst (reply_sent env a cid bs) = 0 then rest else queue_abs (ta_reply_queue a))"
      "swbt_btstack_input_report_timer_adapter_on_can_send_now env (Some a) =
    (let b = (snd (reply_sent env a cid bs))\<lparr>ta_reply_queue := q\<rparr>;
         c = armed (cancel_pending_timer (b\<lparr>ta_periodic_holdoff_until_us := now_us_of env + 300000,
               ta_can_send_pending := False\<rparr>)) (now_us_of env) in
     if fst (reply_sent env a cid bs) = 0
     then (SWBT_BTSTACK_INPUT_REPORT_TIMER_OK,
           Some (if rest = [] then c else emit (RequestCanSendNow (ta_hid_cid c)) c))
     else (SWBT_BTSTACK_INPUT_REPORT_TIMER_ERROR_REPLY_QUEUE, Some b))"
    using on_can_send_reply [OF assms(2,3) rep q0] by blast
  have all: "\<forall>(cid, bs) \<in> set (queue_abs q). shares_timer bs \<and> length bs \<le> 50"
    using q(2) q0 rep by (auto simp: replies_ok_def)
  show ?thesis
  proof (cases "fst (reply_sent env a cid bs) = 0")
    case True
    have "adapter_inv a'"
      using assms(1,2,5) q all True by (auto simp: adapter_inv_def replies_ok_def Let_def split: if_splits)
    moreover have "timer_effect a a'"
      using assms(5) q True sent_reply_event [OF shares]
      by (intro timer_effect_one [where new = "drop (length (ta_trace a)) (ta_trace a')"])
         (auto simp: Let_def shared_timer_def split: if_splits)
    ultimately show ?thesis ..
  next
    case False
    have "adapter_inv a'"
      using assms(1,2,5) q all False by (auto simp: adapter_inv_def replies_ok_def Let_def split: if_splits)
    moreover have "timer_effect a a'"
      using assms(5) q False sent_reply_event [OF shares]
      by (intro timer_effect_none [where new = "drop (length (ta_trace a)) (ta_trace a')"])
         (auto simp: Let_def shared_timer_def split: if_splits)
    ultimately show ?thesis ..
  qed
qed


lemma notify_trace: "\<exists>es. ta_trace (notify_report_tick a now r) = ta_trace a @ es \<and> sent_timers es = []"
  by (auto simp: notify_report_tick_def)

lemma five_way:
  assumes "y = (if c1 then x1 else if c2 then x2 else if c3 then x3 else if c4 then x4 else x5)"
  obtains "y = x1" | "y = x2" | "y = x3" | "c4" "y = x4" | "\<not> c4" "y = x5"
  using assms by (auto split: if_splits)

lemma can_send_step_periodic:
  assumes "adapter_inv a" "idle_for_periodic a"
    and "snd (swbt_btstack_input_report_timer_adapter_on_can_send_now env (Some a)) = Some a'"
  shows "adapter_inv a' \<and> timer_effect a a'"
proof -
  let ?now = "now_us_of env" and ?b = "full_sent env a (ta_hid_cid a) (env_state env)"
  let ?adv = "swbt_btstack_input_report_scheduler_advance (ta_scheduler ?b) ?now"
  let ?ok = "notify_report_tick (?b\<lparr>ta_scheduler := ?adv\<lparr>sch_timer := sch_timer ?adv + 1\<rparr>\<rparr>) ?now SWBT_BTSTACK_INPUT_REPORT_OK"
  let ?bad = "notify_report_tick (?b\<lparr>ta_scheduler := ?adv\<rparr>) ?now SWBT_BTSTACK_INPUT_REPORT_ERROR_SEND_FAILED"
  have inv: "adapter_inv a" and run: "ta_running a"
    using assms by (simp_all add: idle_for_periodic_def)
  obtain es where es: "ta_trace ?ok = ta_trace ?b @ es" "sent_timers es = []"
    using notify_trace [of "?b\<lparr>ta_scheduler := ?adv\<lparr>sch_timer := sch_timer ?adv + 1\<rparr>\<rparr>"] by fastforce
  obtain fs where fs: "ta_trace ?bad = ta_trace ?b @ fs" "sent_timers fs = []"
    using notify_trace [of "?b\<lparr>ta_scheduler := ?adv\<rparr>"] by fastforce
  have eq: "snd (swbt_btstack_input_report_timer_adapter_on_can_send_now env (Some a)) = Some
     (if \<not> ta_can_send_pending a then a
      else if ?now < ta_periodic_holdoff_until_us a then armed (a\<lparr>ta_can_send_pending := False\<rparr>) ?now
      else if ?now < sch_next_deadline_us (ta_scheduler a) then a\<lparr>ta_can_send_pending := False\<rparr>
      else if full_code env a (ta_hid_cid a) (env_state env) = 0
      then armed (?ok\<lparr>ta_can_send_pending := False, ta_periodic_holdoff_until_us := 0\<rparr>) ?now
      else ?bad\<lparr>ta_can_send_pending := False\<rparr>)"
    using on_can_send_periodic [OF assms(1,2), of env] by (simp add: Let_def)
  consider "a' = a" | "a' = armed (a\<lparr>ta_can_send_pending := False\<rparr>) ?now" | "a' = a\<lparr>ta_can_send_pending := False\<rparr>"
    | "full_code env a (ta_hid_cid a) (env_state env) = 0"
      "a' = armed (?ok\<lparr>ta_can_send_pending := False, ta_periodic_holdoff_until_us := 0\<rparr>) ?now"
    | "full_code env a (ta_hid_cid a) (env_state env) \<noteq> 0" "a' = ?bad\<lparr>ta_can_send_pending := False\<rparr>"
    by (rule five_way [OF assms(3) [unfolded eq option.inject, symmetric]])
  then show ?thesis
  proof cases
    case 4
    have "adapter_inv a'"
      using inv run 4(2) by (simp add: adapter_inv_def replies_ok_def scheduler_ok_def)
    moreover have "timer_effect a a'"
      using 4 es by (intro timer_effect_one [where new = "drop (length (ta_trace a)) (ta_trace a')"])
        (simp_all add: full_sent_trace sent_full_event shared_timer_def)
    ultimately show ?thesis ..
  next
    case 5
    have "adapter_inv a'"
      using inv run 5(2) by (simp add: adapter_inv_def replies_ok_def scheduler_ok_def)
    moreover have "timer_effect a a'"
      using 5 fs by (intro timer_effect_none [where new = "drop (length (ta_trace a)) (ta_trace a')"])
        (simp_all add: full_sent_trace sent_full_event shared_timer_def)
    ultimately show ?thesis ..
  next
    case 1
    then show ?thesis
      using inv by (simp add: timer_effect_none)
  next
    case 2
    then show ?thesis
      using inv run by (simp add: adapter_inv_def replies_ok_def timer_effect_none shared_timer_def)
  next
    case 3
    then show ?thesis
      using inv run by (simp add: adapter_inv_def replies_ok_def timer_effect_none shared_timer_def)
  qed
qed

lemma on_can_send_step:
  assumes "adapter_inv a" "snd (swbt_btstack_input_report_timer_adapter_on_can_send_now env (Some a)) = Some a'"
  shows "adapter_inv a' \<and> timer_effect a a'"
proof (cases "ta_running a")
  case False
  then show ?thesis
    using assms by (simp add: swbt_btstack_input_report_timer_adapter_on_can_send_now_def timer_effect_none)
next
  case True
  then show ?thesis
    using assms can_send_step_neutral can_send_step_reply can_send_step_periodic
    unfolding idle_for_periodic_def by blast
qed

lemma on_timer_step:
  assumes "adapter_inv a" "op_allowed a (OnTimer env)"
    and "snd (swbt_btstack_input_report_timer_adapter_on_timer env (Some a)) = Some a'"
  shows "adapter_inv a' \<and> timer_effect a a'"
proof -
  have "adapter_inv a'"
    using assms
    by (auto simp: swbt_btstack_input_report_timer_adapter_on_timer_def schedule_armed adapter_inv_def replies_ok_def Let_def
        split: if_splits)
  moreover have "timer_effect a a'"
    using assms(3)
    by (intro timer_effect_none [where new = "drop (length (ta_trace a)) (ta_trace a')"])
       (auto simp: swbt_btstack_input_report_timer_adapter_on_timer_def schedule_armed shared_timer_def Let_def split: if_splits)
  ultimately show ?thesis ..
qed

lemma enqueue_step:
  assumes "adapter_inv a" "shares_timer bs"
    and "snd (swbt_btstack_input_report_timer_adapter_enqueue_subcommand_reply (Some a) cid (Some bs)) = Some a'"
  shows "adapter_inv a' \<and> timer_effect a a'"
proof -
  have ok: "queue_ok (ta_reply_queue a)" and rep: "replies_ok a" and init: "ta_initialized a"
    using assms(1) by (simp_all add: adapter_inv_def replies_ok_def)
  consider "a' = a" | q where "ta_running a" "reply_legal (cid, bs)" "queue_ok q"
      "queue_abs q = queue_abs (ta_reply_queue a) @ [(cid, bs)]" "a' = emit (RequestCanSendNow cid) (a\<lparr>ta_reply_queue := q\<rparr>)"
  proof (cases "ta_running a \<and> reply_legal (cid, bs) \<and> rq_count (ta_reply_queue a) < 4")
    case True
    then show ?thesis
      using enqueue_ok [OF ok, of cid bs] assms(3) init that(2)
      by (fastforce simp: swbt_btstack_input_report_timer_adapter_enqueue_subcommand_reply_def Let_def)
  next
    case False
    then show ?thesis
      using enqueue_refused [of cid bs "ta_reply_queue a"] assms(3) init that(1)
      by (fastforce simp: swbt_btstack_input_report_timer_adapter_enqueue_subcommand_reply_def Let_def split: if_splits)
  qed
  then show ?thesis
  proof cases
    case 1
    then show ?thesis
      using assms(1) by (simp add: timer_effect_none)
  next
    case 2
    have "adapter_inv a'"
      using assms(1,2) 2 rep by (auto simp: adapter_inv_def replies_ok_def reply_legal_def)
    then show ?thesis
      using 2 by (auto intro!: timer_effect_none simp: shared_timer_def)
  qed
qed

lemma send_neutral_step:
  assumes "adapter_inv a"
    and "snd (swbt_btstack_input_report_timer_adapter_send_neutral_now env (Some a)) = Some a'"
  shows "adapter_inv a' \<and> timer_effect a a'"
proof (cases "ta_running a")
  case False
  then show ?thesis
    using assms by (simp add: swbt_btstack_input_report_timer_adapter_send_neutral_now_def timer_effect_none)
next
  case True
  let ?b = "full_sent env a (ta_hid_cid a) swbt_state_neutral" and ?code = "full_code env a (ta_hid_cid a) swbt_state_neutral"
  have sch: "scheduler_ok (ta_scheduler a)"
    using assms(1) by (simp add: adapter_inv_def)
  have eq: "a' = (if ?code = 0 then (bump_timer ?b)\<lparr>ta_neutral_send_pending := False\<rparr>
      else emit (RequestCanSendNow (ta_hid_cid a)) (?b\<lparr>ta_neutral_send_pending := True\<rparr>))"
    using assms(2) True
    by (simp add: swbt_btstack_input_report_timer_adapter_send_neutral_now_def send_neutral_eq [OF sch] Let_def
        split: if_splits)
  then have "adapter_inv a'"
    using assms(1) True by (simp add: adapter_inv_def replies_ok_def scheduler_ok_def)
  moreover have "timer_effect a a'"
  proof (cases "?code = 0")
    case True
    with eq show ?thesis
      by (intro timer_effect_one [where new = "drop (length (ta_trace a)) (ta_trace a')"])
         (simp_all add: full_sent_trace sent_full_event shared_timer_def)
  next
    case False
    with eq show ?thesis
      by (intro timer_effect_none [where new = "drop (length (ta_trace a)) (ta_trace a')"])
         (simp_all add: full_sent_trace sent_full_event shared_timer_def)
  qed
  ultimately show ?thesis ..
qed

lemma stop_step:
  assumes "adapter_inv a" "swbt_btstack_input_report_timer_adapter_stop (Some a) = Some a'"
  shows "adapter_inv a' \<and> timer_effect a a' \<and> \<not> ta_running a'
    \<and> ta_trace a' = ta_trace a @ (if ta_timer_pending a then [RemoveTimer] else [])"
proof -
  obtain q where q: "swbt_btstack_subcommand_reply_queue_init (Some (ta_reply_queue a)) =
      (SWBT_BTSTACK_SUBCOMMAND_REPLY_QUEUE_OK, Some q)" "queue_ok q" "queue_abs q = []"
    using queue_init_any [of "ta_reply_queue a"] assms(1) by (auto simp: adapter_inv_def replies_ok_def)
  have "adapter_inv a' \<and> \<not> ta_running a' \<and> shared_timer a' = shared_timer a
    \<and> ta_trace a' = ta_trace a @ (if ta_timer_pending a then [RemoveTimer] else [])"
    using assms q
    by (auto simp: swbt_btstack_input_report_timer_adapter_stop_def swbt_btstack_input_report_scheduler_stop_def
        adapter_inv_def replies_ok_def scheduler_ok_def shared_timer_def Let_def)
  then show ?thesis
    by (auto intro!: timer_effect_none)
qed

lemma start_running:
  assumes "adapter_inv a"
  shows "swbt_btstack_input_report_timer_adapter_start (Some a) opts = (SWBT_BTSTACK_INPUT_REPORT_TIMER_OK,
    Some (armed (emit SetTimerContext (emit SetTimerHandler (a
      \<lparr>ta_scheduler := (ta_scheduler a)\<lparr>sch_hid_cid := start_hid_cid opts, sch_running := True,
         sch_next_deadline_us := start_now_us opts + ucast (sch_report_period_us (ta_scheduler a)),
         sch_timer := opt_timer (sch_report_options (ta_scheduler a))\<rparr>,
       ta_hid_cid := start_hid_cid opts, ta_running := True, ta_timer_pending := False,
       ta_can_send_pending := False, ta_periodic_holdoff_until_us := 0, ta_neutral_send_pending := False\<rparr>)))
     (start_now_us opts)))"
  using assms
  by (simp add: swbt_btstack_input_report_timer_adapter_start_def swbt_btstack_input_report_scheduler_start_def
      swbt_btstack_input_report_scheduler_is_valid_def adapter_inv_def scheduler_ok_def schedule_armed Let_def)

lemma start_step:
  assumes "adapter_inv a" "snd (swbt_btstack_input_report_timer_adapter_start (Some a) opts) = Some a'"
  shows "adapter_inv a'"
proof -
  let ?sch = "(ta_scheduler a)\<lparr>sch_hid_cid := start_hid_cid opts, sch_running := True,
         sch_next_deadline_us := start_now_us opts + ucast (sch_report_period_us (ta_scheduler a)),
         sch_timer := opt_timer (sch_report_options (ta_scheduler a))\<rparr>"
  have "scheduler_ok ?sch" "sch_running ?sch" "sch_hid_cid ?sch = start_hid_cid opts"
    using assms(1) by (simp_all add: adapter_inv_def scheduler_ok_def)
  moreover have "ta_scheduler a' = ?sch" "ta_hid_cid a' = start_hid_cid opts" "ta_running a'" "\<not> ta_can_send_pending a'"
      "ta_reply_queue a' = ta_reply_queue a" "ta_initialized a' = ta_initialized a"
    using assms(2) unfolding start_running [OF assms(1)] by auto
  ultimately show ?thesis
    using assms(1) unfolding adapter_inv_def replies_ok_def by simp
qed

lemma adapter_step_effect:
  assumes "adapter_inv a" "adapter_step a op a'"
  shows "adapter_inv a' \<and> ((\<forall>opts. op \<noteq> StartAdapter opts) \<longrightarrow> timer_effect a a')"
proof -
  have step: "op_allowed a op" "snd (adapter_exec op (Some a)) = Some a'"
    using assms(2) by (simp_all add: adapter_step_def)
  show ?thesis
  proof (cases op)
    case (StartAdapter opts)
    then show ?thesis
      using start_step [OF assms(1)] step by simp
  next
    case (OnTimer env)
    then show ?thesis
      using on_timer_step [OF assms(1)] step by simp
  next
    case (OnCanSendNow env)
    then show ?thesis
      using on_can_send_step [OF assms(1)] step by simp
  next
    case (EnqueueReply cid bs)
    then show ?thesis
      using enqueue_step [OF assms(1)] step by simp
  next
    case (SendNeutralNow env)
    then show ?thesis
      using send_neutral_step [OF assms(1)] step by simp
  next
    case StopAdapter
    then show ?thesis
      using stop_step [OF assms(1)] step by simp
  qed
qed

interpretation adapter: invariant_system adapter_initial adapter_step adapter_inv
  by unfold_locales (use adapter_init_inv adapter_step_effect in blast)+


section \<open>Runs\<close>

lemma adapter_run_timers:
  assumes "steps adapter_step a ops a'" "adapter_inv a" "\<forall>op \<in> set ops. \<forall>opts. op \<noteq> StartAdapter opts"
  shows "timer_effect a a'"
  using assms
proof (induction rule: steps.induct)
  case (steps_Nil a)
  then show ?case by (simp add: timer_effect_none)
next
  case (steps_Cons a op b ops c)
  then have "adapter_inv b" "timer_effect a b"
    using adapter_step_effect [OF steps_Cons.prems(1) steps_Cons.hyps(1)] by auto
  then show ?case
    using steps_Cons timer_effect_trans by simp
qed

lemma stopped_step:
  assumes "adapter_inv a" "\<not> ta_running a" "adapter_step a op a'" "\<And>opts. op \<noteq> StartAdapter opts"
  shows "\<not> ta_running a' \<and> ta_trace a' = ta_trace a"
proof (cases op)
  case StopAdapter
  then have "swbt_btstack_input_report_timer_adapter_stop (Some a) = Some a'"
    using assms(3) by (simp add: adapter_step_def)
  moreover have "\<not> ta_timer_pending a"
    using assms(1,2) by (simp add: adapter_inv_def)
  ultimately show ?thesis
    using stop_step [OF assms(1)] by auto
qed (use assms in \<open>auto simp: adapter_step_def adapter_inv_def
    swbt_btstack_input_report_timer_adapter_on_timer_def swbt_btstack_input_report_timer_adapter_on_can_send_now_def
    swbt_btstack_input_report_timer_adapter_enqueue_subcommand_reply_def
    swbt_btstack_input_report_timer_adapter_send_neutral_now_def\<close>)

lemma stopped_run:
  assumes "steps adapter_step a ops a'" "adapter_inv a" "\<not> ta_running a" "\<forall>op \<in> set ops. \<forall>opts. op \<noteq> StartAdapter opts"
  shows "\<not> ta_running a' \<and> ta_trace a' = ta_trace a"
proof (rule adapter.steps_until [OF assms(1,2), where P = "\<lambda>s. \<not> ta_running s \<and> ta_trace s = ta_trace a"])
  show "\<not> ta_running s' \<and> ta_trace s' = ta_trace a"
    if "adapter_inv s" "\<not> ta_running s \<and> ta_trace s = ta_trace a" "op \<in> set ops" "adapter_step s op s'" for s op s'
    using stopped_step [OF that(1) _ that(4)] that(2,3) assms(4) by auto
qed (use assms(3) in simp)

text \<open>Run loop events, and runs in which the clock stays below a bound.\<close>

fun is_send :: "timer_event \<Rightarrow> bool" where
  "is_send (HidSend _ _ _) = True"
| "is_send (BackendSend _ _ _) = True"
| "is_send _ = False"

fun loop_event_before :: "u64 \<Rightarrow> adapter_op \<Rightarrow> bool" where
  "loop_event_before h (OnTimer env) = (now_us_of env < h)"
| "loop_event_before h (OnCanSendNow env) = (now_us_of env < h)"
| "loop_event_before h _ = False"

definition held_off :: "u64 \<Rightarrow> nat \<Rightarrow> adapter \<Rightarrow> bool" where
  "held_off h n a \<longleftrightarrow> idle_for_periodic a \<and> ta_periodic_holdoff_until_us a = h
     \<and> filter is_send (drop n (ta_trace a)) = [] \<and> n \<le> length (ta_trace a)"

lemma held_off_step:
  assumes "adapter_inv a" "held_off h n a" "loop_event_before h op" "adapter_step a op a'"
  shows "held_off h n a'"
proof (cases op)
  case (OnTimer env)
  then show ?thesis
    using assms
    by (auto simp: adapter_step_def held_off_def idle_for_periodic_def schedule_armed Let_def
        swbt_btstack_input_report_timer_adapter_on_timer_def split: if_splits)
next
  case (OnCanSendNow env)
  then have "snd (swbt_btstack_input_report_timer_adapter_on_can_send_now env (Some a)) = Some a'"
    using assms(4) by (simp add: adapter_step_def)
  moreover have "now_us_of env < ta_periodic_holdoff_until_us a" "idle_for_periodic a"
    using assms(2,3) OnCanSendNow by (simp_all add: held_off_def)
  ultimately have "a' = (if ta_can_send_pending a then armed (a\<lparr>ta_can_send_pending := False\<rparr>) (now_us_of env) else a)"
    using on_can_send_periodic [OF assms(1), of env] by (simp add: Let_def split: if_splits)
  then show ?thesis
    using assms(2) by (simp add: held_off_def idle_for_periodic_def)
qed (use assms(3) in simp_all)

lemma held_off_run:
  assumes "steps adapter_step a ops a'" "adapter_inv a" "held_off h n a" "\<forall>op \<in> set ops. loop_event_before h op"
  shows "held_off h n a'"
  by (rule adapter.steps_until [OF assms(1,2), where P = "held_off h n", OF assms(3)]) (use held_off_step assms(4) in blast)

lemma quiet_step:
  assumes "adapter_inv a" "idle_for_periodic a" "\<not> ta_timer_pending a" "\<not> ta_can_send_pending a"
    and "op = OnTimer env \<or> op = OnCanSendNow env" "adapter_step a op a'"
  shows "a' = a"
  using assms on_can_send_periodic [OF assms(1,2), of env]
  by (auto simp: adapter_step_def idle_for_periodic_def)

lemma round_up_bounds:
  fixes n :: nat
  shows "n \<le> 1000 * ((n + 999) div 1000)" "1000 * ((n + 999) div 1000) < n + 1000"
  using mult_div_mod_eq [of 1000 "n + 999"] mod_less_divisor [of 1000 "n + 999"] by linarith+

lemma now_us_no_overflow:
  "unat (now_us_of env) = unat (env_time_ms env) * 1000"
  "unat (now_us_of env + 300000) = unat (env_time_ms env) * 1000 + 300000"
proof -
  have t: "unat (env_time_ms env) < 2 ^ 32" and u: "unat (ucast (env_time_ms env) :: u64) = unat (env_time_ms env)"
    using unsigned_less [of "env_time_ms env"] by (simp_all add: unat_ucast_up)
  then show n: "unat (now_us_of env) = unat (env_time_ms env) * 1000"
    by (simp add: now_us_of_def unat_word_ariths)
  show "unat (now_us_of env + 300000) = unat (env_time_ms env) * 1000 + 300000"
    using t n by (simp add: unat_word_ariths)
qed

section \<open>A concrete adapter\<close>

definition demo_backend :: swbt_btstack_input_report_timer_backend_t where
  "demo_backend = \<lparr>be_set_timer_handler = True, be_set_timer_context = True, be_set_timer = True, be_add_timer = True,
     be_remove_timer = True, be_get_time_ms = True, be_request_can_send_now_event = True, be_send_interrupt_message = True\<rparr>"

definition demo_adapter_config :: swbt_btstack_input_report_timer_adapter_config_t where
  "demo_adapter_config = \<lparr>tc_backend = Some demo_backend, tc_hid_sender = True, tc_state_provider = True,
     tc_report_tick_observer = True, tc_scheduler_config = \<lparr>sc_report_period_us = 8000,
       sc_report_options = \<lparr>opt_timer = 0, opt_battery_connection = 0x8E, opt_vibrator_report = 0\<rparr>\<rparr>\<rparr>"

definition demo_memory :: adapter where
  "demo_memory = \<lparr>ta_hid_sender = False, ta_report_tick_observer = False, ta_scheduler = zero_scheduler,
     ta_reply_queue = zero_queue, ta_hid_cid = 0, ta_initialized = False, ta_running = False, ta_timer_pending = False,
     ta_can_send_pending = False, ta_neutral_send_pending = False, ta_periodic_holdoff_until_us = 0, ta_trace = []\<rparr>"

definition demo_env :: "u32 \<Rightarrow> int \<Rightarrow> timer_env" where
  "demo_env ms code = \<lparr>env_time_ms = ms, env_hid_send = (\<lambda>_ _. code), env_backend_send = (\<lambda>_ _. code),
     env_state = swbt_state_neutral\<rparr>"

definition demo_reply :: bytes where
  "demo_reply = [0x21, 0, 0x8E]"

fun demo_run :: "adapter_op list \<Rightarrow> adapter" where
  "demo_run [] = the (snd (swbt_btstack_input_report_timer_adapter_init (Some demo_memory) (Some demo_adapter_config)))"
| "demo_run (op # ops) = the (snd (adapter_exec op (Some (demo_run ops))))"

definition demo_running :: adapter where
  "demo_running = demo_run [StartAdapter \<lparr>start_hid_cid = 0x42, start_now_us = 0\<rparr>]"

lemma demo_run_initial: "adapter_initial (demo_run [])"
  unfolding adapter_initial_def
  by (intro exI [of _ demo_memory] exI [of _ demo_adapter_config]) code_simp

lemma demo_step:
  "op_allowed (demo_run ops) op \<Longrightarrow> snd (adapter_exec op (Some (demo_run ops))) \<noteq> None \<Longrightarrow>
   adapter_step (demo_run ops) op (demo_run (op # ops))"
  by (auto simp: adapter_step_def)

lemma demo_running_reachable: "reachable adapter_initial adapter_step demo_running"
proof (rule reach_step [where s = "demo_run []"])
  show "reachable adapter_initial adapter_step (demo_run [])"
    by (rule reach_init [of adapter_initial, OF demo_run_initial])
  show "adapter_step (demo_run []) (StartAdapter \<lparr>start_hid_cid = 0x42, start_now_us = 0\<rparr>) demo_running"
    unfolding demo_running_def by (rule demo_step) (simp, code_simp)
qed

lemma steps_one: "adapter_step a op b \<Longrightarrow> steps adapter_step a [op] b"
  by (rule steps_Cons [of adapter_step, OF _ steps_Nil [of adapter_step]])

section \<open>Properties\<close>

text \<open>C13: The timer byte is shared by everything the adapter sends: in any run of the adapter that does
  not restart it, whatever mixture of periodic reports, replies and neutral reports is sent and
  whatever transmissions fail, the timer bytes of the transmitted messages are consecutive modulo
  256, starting at the current timer; a failed transmission uses up no value.\<close>

theorem adapter_timer_bytes_consecutive:
  assumes "reachable adapter_initial adapter_step a" and "steps adapter_step a ops a'"
    and "\<forall>op \<in> set ops. \<forall>opts. op \<noteq> StartAdapter opts"
  shows "\<exists>new k. ta_trace a' = ta_trace a @ new
    \<and> sent_timers new = map (\<lambda>i. sch_timer (ta_scheduler a) + of_nat i) [0..<k]
    \<and> sch_timer (ta_scheduler a') = sch_timer (ta_scheduler a) + of_nat k"
  using adapter_run_timers [OF assms(2) adapter.reachable_inv [OF assms(1)] assms(3)]
  by (simp add: timer_effect_def shared_timer_def)

theorem adapter_timer_bytes_consecutive_witness:
  "\<exists>a' new k. steps adapter_step demo_running [SendNeutralNow (demo_env 1 0)] a'
    \<and> ta_trace a' = ta_trace demo_running @ new
    \<and> sent_timers new = map (\<lambda>i. sch_timer (ta_scheduler demo_running) + of_nat i) [0..<k]
    \<and> sch_timer (ta_scheduler a') = sch_timer (ta_scheduler demo_running) + of_nat k"
proof -
  obtain r a' where "send_neutral_report (demo_env 1 0) demo_running = (r, a')"
    by fastforce
  then obtain b where "adapter_step demo_running (SendNeutralNow (demo_env 1 0)) b"
    by (fastforce simp: adapter_step_def swbt_btstack_input_report_timer_adapter_send_neutral_now_def)
  then have run: "steps adapter_step demo_running [SendNeutralNow (demo_env 1 0)] b"
    by (rule steps_one)
  show ?thesis
    using run adapter_timer_bytes_consecutive [OF demo_running_reachable run] by fastforce
qed

text \<open>C30: Stopping the adapter removes its timer and silences it: whatever run loop events, replies and
  neutral requests follow, it asks nothing more of the run loop or the transport until it is started
  again.\<close>

theorem adapter_stop_silent:
  assumes "reachable adapter_initial adapter_step a" and "swbt_btstack_input_report_timer_adapter_stop (Some a) = Some b"
    and "steps adapter_step b ops c" and "\<forall>op \<in> set ops. \<forall>opts. op \<noteq> StartAdapter opts"
  shows "ta_trace c = ta_trace a @ (if ta_timer_pending a then [RemoveTimer] else []) \<and> \<not> ta_running c
    \<and> swbt_btstack_input_report_timer_adapter_on_can_send_now env (Some c) = (SWBT_BTSTACK_INPUT_REPORT_TIMER_STOPPED, Some c)
    \<and> swbt_btstack_input_report_timer_adapter_send_neutral_now env (Some c) = (SWBT_BTSTACK_INPUT_REPORT_TIMER_STOPPED, Some c)"
proof -
  note b = stop_step [OF adapter.reachable_inv [OF assms(1)] assms(2)]
  have "\<not> ta_running c \<and> ta_trace c = ta_trace b"
    using stopped_run [OF assms(3) _ _ assms(4)] b by blast
  then show ?thesis
    using b by (simp add: swbt_btstack_input_report_timer_adapter_on_can_send_now_def
        swbt_btstack_input_report_timer_adapter_send_neutral_now_def)
qed

theorem adapter_stop_silent_witness:
  "\<exists>b. swbt_btstack_input_report_timer_adapter_stop (Some demo_running) = Some b
    \<and> ta_trace b = ta_trace demo_running @ [RemoveTimer] \<and> \<not> ta_running b"
proof -
  obtain b where b: "swbt_btstack_input_report_timer_adapter_stop (Some demo_running) = Some b"
    by (simp add: swbt_btstack_input_report_timer_adapter_stop_def Let_def)
  have "ta_timer_pending demo_running"
    by code_simp
  then show ?thesis
    using b adapter_stop_silent [OF demo_running_reachable b steps_Nil] by auto
qed

text \<open>C31: After the last queued reply has been sent, periodic reports are held off for 300 ms as long as only the run
  loop acts: if all that happens are timer and send opportunity events whose clock is less than 300 ms after the reply, the
  adapter sends nothing, and the queue stays empty. Other operations are outside of this statement: a further reply that is queued is sent, and a neutral
  report that is asked for ends the hold off.\<close>

theorem adapter_reply_holdoff:
  assumes "reachable adapter_initial adapter_step a" and "ta_running a" and "\<not> ta_neutral_send_pending a"
    and "queue_abs (ta_reply_queue a) = [(cid, bs)]"
    and "swbt_btstack_input_report_timer_adapter_on_can_send_now env (Some a) = (SWBT_BTSTACK_INPUT_REPORT_TIMER_OK, Some b)"
    and "steps adapter_step b ops c" and "\<forall>op \<in> set ops. loop_event_before (now_us_of env + 300000) op"
  shows "unat (now_us_of env + 300000) = unat (env_time_ms env) * 1000 + 300000
    \<and> queue_abs (ta_reply_queue c) = [] \<and> filter is_send (drop (length (ta_trace b)) (ta_trace c)) = []"
proof -
  have inv: "adapter_inv a" "adapter_inv b"
    using adapter.reachable_inv [OF assms(1)] on_can_send_step [of a env b] assms(5) by auto
  then have "replies_ok a"
    by (simp add: adapter_inv_def)
  then obtain q where "queue_abs q = (if fst (reply_sent env a cid bs) = 0 then [] else queue_abs (ta_reply_queue a))"
    "swbt_btstack_input_report_timer_adapter_on_can_send_now env (Some a) =
    (let b = (snd (reply_sent env a cid bs))\<lparr>ta_reply_queue := q\<rparr>;
         c = armed (cancel_pending_timer (b\<lparr>ta_periodic_holdoff_until_us := now_us_of env + 300000,
               ta_can_send_pending := False\<rparr>)) (now_us_of env) in
     if fst (reply_sent env a cid bs) = 0
     then (SWBT_BTSTACK_INPUT_REPORT_TIMER_OK, Some c)
     else (SWBT_BTSTACK_INPUT_REPORT_TIMER_ERROR_REPLY_QUEUE, Some b))"
    using on_can_send_reply [OF assms(2,3) _ assms(4), of env] by (auto simp: Let_def)
  then have "held_off (now_us_of env + 300000) (length (ta_trace b)) b"
    using assms(2,3,5) by (auto simp: held_off_def idle_for_periodic_def Let_def split: if_splits)
  then have "held_off (now_us_of env + 300000) (length (ta_trace b)) c"
    using held_off_run [OF assms(6) inv(2) _ assms(7)] by simp
  then show ?thesis
    by (simp add: held_off_def idle_for_periodic_def now_us_no_overflow)
qed

definition demo_reply_queued :: adapter where
  "demo_reply_queued = demo_run [EnqueueReply 0x42 demo_reply, StartAdapter \<lparr>start_hid_cid = 0x42, start_now_us = 0\<rparr>]"

definition demo_reply_sent :: adapter where
  "demo_reply_sent = demo_run [OnCanSendNow (demo_env 4 0), EnqueueReply 0x42 demo_reply,
     StartAdapter \<lparr>start_hid_cid = 0x42, start_now_us = 0\<rparr>]"

lemma demo_reply_queued_reachable: "reachable adapter_initial adapter_step demo_reply_queued"
proof -
  have "adapter_step demo_running (EnqueueReply 0x42 demo_reply) demo_reply_queued"
    unfolding demo_running_def demo_reply_queued_def by (rule demo_step) code_simp+
  then show ?thesis
    using demo_running_reachable by (rule reach_step [rotated])
qed

theorem adapter_reply_holdoff_witness:
  "\<exists>b c. swbt_btstack_input_report_timer_adapter_on_can_send_now (demo_env 4 0) (Some demo_reply_queued) =
      (SWBT_BTSTACK_INPUT_REPORT_TIMER_OK, Some b)
    \<and> steps adapter_step b [OnTimer (demo_env 8 0)] c \<and> filter is_send (drop (length (ta_trace b)) (ta_trace c)) = []"
proof -
  have q: "ta_running demo_reply_queued" "\<not> ta_neutral_send_pending demo_reply_queued"
      "queue_abs (ta_reply_queue demo_reply_queued) = [(0x42, demo_reply)]"
    by code_simp+
  have "replies_ok demo_reply_queued"
    using adapter.reachable_inv [OF demo_reply_queued_reachable] by (simp add: adapter_inv_def)
  moreover have "fst (reply_sent (demo_env 4 0) demo_reply_queued 0x42 demo_reply) = 0"
    by (simp add: reply_sent_def transport_def demo_env_def Let_def)
  ultimately obtain b where sent: "swbt_btstack_input_report_timer_adapter_on_can_send_now (demo_env 4 0)
      (Some demo_reply_queued) = (SWBT_BTSTACK_INPUT_REPORT_TIMER_OK, Some b)"
    and pending: "ta_running b" "ta_timer_pending b"
    using on_can_send_reply [OF q(1,2) _ q(3), of "demo_env 4 0"] q(1) by (auto simp: Let_def)
  have "snd (adapter_exec (OnTimer (demo_env 8 0)) (Some b)) \<noteq> None"
    by (simp add: swbt_btstack_input_report_timer_adapter_on_timer_def schedule_armed Let_def)
  then obtain c where "adapter_step b (OnTimer (demo_env 8 0)) c"
    using pending by (auto simp: adapter_step_def)
  then have c: "steps adapter_step b [OnTimer (demo_env 8 0)] c"
    by (rule steps_one)
  have "loop_event_before (now_us_of (demo_env 4 0) + 300000) (OnTimer (demo_env 8 0))"
    by code_simp
  then show ?thesis
    using sent c adapter_reply_holdoff [OF demo_reply_queued_reachable q sent c] by auto
qed

text \<open>C29: A neutral report that could not be sent is not forgotten: the caller is told that it is pending,
  a send opportunity is requested, and at the next opportunity the neutral report is sent before any
  queued reply or periodic report. If that fails too, it stays pending and is requested again.\<close>

theorem adapter_neutral_retry:
  assumes "reachable adapter_initial adapter_step a"
    and "swbt_btstack_input_report_timer_adapter_send_neutral_now env (Some a) = (SWBT_BTSTACK_INPUT_REPORT_TIMER_PENDING, Some b)"
  shows "last (ta_trace b) = RequestCanSendNow (ta_hid_cid a)
    \<and> (\<exists>r c es. swbt_btstack_input_report_timer_adapter_on_can_send_now env' (Some b) = (r, Some c)
        \<and> ta_trace c = ta_trace b @ send_event a (ta_hid_cid a) (0xA1 # due_report (ta_scheduler a) swbt_state_neutral)
            (transport env' a (ta_hid_cid a) (0xA1 # due_report (ta_scheduler a) swbt_state_neutral)) # es
        \<and> ta_reply_queue c = ta_reply_queue a \<and> filter is_send es = []
        \<and> (if transport env' a (ta_hid_cid a) (0xA1 # due_report (ta_scheduler a) swbt_state_neutral) = 0
           then r = SWBT_BTSTACK_INPUT_REPORT_TIMER_OK \<and> \<not> ta_neutral_send_pending c \<and> ta_timer_pending c
           else r = SWBT_BTSTACK_INPUT_REPORT_TIMER_ERROR_SCHEDULER \<and> ta_neutral_send_pending c
             \<and> es = [RequestCanSendNow (ta_hid_cid a)]))"
proof -
  have sch: "scheduler_ok (ta_scheduler a)"
    using adapter.reachable_inv [OF assms(1)] by (simp add: adapter_inv_def)
  have run: "ta_running a"
    and b: "b = emit (RequestCanSendNow (ta_hid_cid a)) ((full_sent env a (ta_hid_cid a) swbt_state_neutral)\<lparr>ta_neutral_send_pending := True\<rparr>)"
    using assms(2)
    by (auto simp: swbt_btstack_input_report_timer_adapter_send_neutral_now_def send_neutral_eq [OF sch] Let_def
        split: if_splits)
  have same: "due_report (ta_scheduler b) swbt_state_neutral = due_report (ta_scheduler a) swbt_state_neutral"
      "transport env' b = transport env' a" "send_event b = send_event a" "scheduler_ok (ta_scheduler b)"
    using sch by (simp_all add: b due_report_def transport_def send_event_def scheduler_ok_def fun_eq_iff)
  have fields: "ta_running b" "ta_neutral_send_pending b" "ta_hid_cid b = ta_hid_cid a" "ta_reply_queue b = ta_reply_queue a"
      "last (ta_trace b) = RequestCanSendNow (ta_hid_cid a)"
    using run by (simp_all add: b)
  show ?thesis
    using on_can_send_neutral [OF fields(1,2) same(4), of env'] fields same
    by (auto simp: Let_def full_sent_trace full_code_def)
qed

theorem adapter_neutral_retry_witness:
  "\<exists>b. swbt_btstack_input_report_timer_adapter_send_neutral_now (demo_env 1 (- 1)) (Some demo_running) =
      (SWBT_BTSTACK_INPUT_REPORT_TIMER_PENDING, Some b)
    \<and> last (ta_trace b) = RequestCanSendNow 0x42"
proof -
  have d: "ta_running demo_running" "ta_hid_cid demo_running = 0x42" "scheduler_ok (ta_scheduler demo_running)"
    using adapter.reachable_inv [OF demo_running_reachable] by (code_simp, code_simp, simp add: adapter_inv_def)
  have "full_code (demo_env 1 (- 1)) demo_running 0x42 swbt_state_neutral = - 1"
    by (simp add: full_code_def transport_def demo_env_def)
  then obtain b where "swbt_btstack_input_report_timer_adapter_send_neutral_now (demo_env 1 (- 1)) (Some demo_running) =
      (SWBT_BTSTACK_INPUT_REPORT_TIMER_PENDING, Some b)"
    using d by (simp add: swbt_btstack_input_report_timer_adapter_send_neutral_now_def send_neutral_eq Let_def)
  then show ?thesis
    using adapter_neutral_retry [OF demo_running_reachable, of "demo_env 1 (- 1)" b] d(2) by auto
qed

text \<open>The delay given to the run loop never lets the timer fire before its deadline, and rounds up by
  less than a millisecond; a deadline that has passed gives no delay, and one too far away for 32 bits
  of milliseconds the longest delay.\<close>

theorem delay_ms_until_bounds:
  assumes "unat deadline < unat now + 2 ^ 64 - 999"
  shows "if unat deadline \<le> unat now then delay_ms_until now deadline = 0
    else if unat deadline - unat now \<le> 1000 * (2 ^ 32 - 1)
    then unat deadline \<le> unat now + 1000 * unat (delay_ms_until now deadline)
      \<and> unat now + 1000 * unat (delay_ms_until now deadline) < unat deadline + 1000
    else unat (delay_ms_until now deadline) = 2 ^ 32 - 1"
proof (cases "deadline \<le> now")
  case True
  then show ?thesis
    by (simp add: delay_ms_until_def word_le_nat_alt)
next
  case False
  let ?d = "unat deadline - unat now" and ?q = "(deadline - now + 999) div 1000"
  have lt: "unat now < unat deadline"
    using False by (simp add: word_le_nat_alt)
  then have "unat (deadline - now) = ?d"
    by (simp add: unat_sub_if')
  then have "unat (deadline - now + 999) = ?d + 999"
    using assms lt by (simp add: unat_word_ariths)
  then have q: "unat ?q = (?d + 999) div 1000"
    by (simp add: unat_div)
  show ?thesis
  proof (cases "?d \<le> 1000 * (2 ^ 32 - 1)")
    case True
    then have "unat ?q \<le> 2 ^ 32 - 1"
      using q by simp
    then have "delay_ms_until now deadline = ucast ?q" "unat (ucast ?q :: u32) = unat ?q"
      using False by (simp_all add: delay_ms_until_def Let_def word_less_nat_alt unsigned_ucast_eq take_bit_nat_eq_self)
    then have "unat (delay_ms_until now deadline) = (?d + 999) div 1000"
      using q by simp
    moreover have "?d \<le> 1000 * ((?d + 999) div 1000)" "1000 * ((?d + 999) div 1000) < ?d + 1000"
      by (rule round_up_bounds)+
    ultimately have "unat deadline \<le> unat now + 1000 * unat (delay_ms_until now deadline)
        \<and> unat now + 1000 * unat (delay_ms_until now deadline) < unat deadline + 1000"
      using lt by linarith
    then show ?thesis
      using True lt by simp
  next
    case too_far: False
    then have "unat ?q > 2 ^ 32 - 1"
      using q by simp
    then have "delay_ms_until now deadline = 0xFFFFFFFF"
      using False by (simp add: delay_ms_until_def Let_def word_less_nat_alt)
    then show ?thesis
      using too_far lt by simp
  qed
qed

theorem delay_ms_until_bounds_witness:
  "delay_ms_until 1000 9500 = 9 \<and> unat (9500 :: u64) \<le> unat (1000 :: u64) + 1000 * unat (delay_ms_until 1000 9500)"
  using delay_ms_until_bounds [of 9500 1000] by (simp add: delay_ms_until_def)

text \<open>C32: When the transport refuses a periodic report, the adapter reports the error but neither arms its
  timer nor asks for another send opportunity: it stays running, and from then on no run loop event
  makes it do anything at all, so periodic reports have ended until a reply or a neutral report is
  sent or the adapter is started again.\<close>

theorem adapter_failed_report_stalls:
  assumes "reachable adapter_initial adapter_step a" and "idle_for_periodic a" and "ta_can_send_pending a"
    and "ta_periodic_holdoff_until_us a \<le> now_us_of env" and "sch_next_deadline_us (ta_scheduler a) \<le> now_us_of env"
    and "transport env a (ta_hid_cid a) (0xA1 # due_report (ta_scheduler a) (env_state env)) \<noteq> 0"
  shows "\<exists>b. swbt_btstack_input_report_timer_adapter_on_can_send_now env (Some a) =
      (SWBT_BTSTACK_INPUT_REPORT_TIMER_ERROR_SCHEDULER, Some b)
    \<and> ta_running b \<and> \<not> ta_timer_pending b \<and> \<not> ta_can_send_pending b
    \<and> filter (\<lambda>e. e = AddTimer \<or> (\<exists>cid. e = RequestCanSendNow cid)) (drop (length (ta_trace a)) (ta_trace b)) = []
    \<and> (\<forall>ops c. (\<forall>op \<in> set ops. \<exists>env. op = OnTimer env \<or> op = OnCanSendNow env) \<longrightarrow> steps adapter_step b ops c \<longrightarrow> c = b)"
proof -
  let ?now = "now_us_of env" and ?f = "full_sent env a (ta_hid_cid a) (env_state env)"
  let ?adv = "swbt_btstack_input_report_scheduler_advance (ta_scheduler ?f) ?now"
  let ?b = "(notify_report_tick (?f\<lparr>ta_scheduler := ?adv\<rparr>) ?now SWBT_BTSTACK_INPUT_REPORT_ERROR_SEND_FAILED)\<lparr>ta_can_send_pending := False\<rparr>"
  have inv: "adapter_inv a"
    by (rule adapter.reachable_inv [OF assms(1)])
  have result: "swbt_btstack_input_report_timer_adapter_on_can_send_now env (Some a) =
      (SWBT_BTSTACK_INPUT_REPORT_TIMER_ERROR_SCHEDULER, Some ?b)"
    using on_can_send_periodic [OF inv assms(2), of env] assms(3-6)
    by (simp add: Let_def full_code_def not_less [symmetric])
  have idle: "idle_for_periodic ?b" "\<not> ta_timer_pending ?b" "\<not> ta_can_send_pending ?b"
    using inv assms(2,3) by (simp_all add: adapter_inv_def idle_for_periodic_def)
  have quiet: "filter (\<lambda>e. e = AddTimer \<or> (\<exists>cid. e = RequestCanSendNow cid)) (drop (length (ta_trace a)) (ta_trace ?b)) = []"
    by (simp add: notify_report_tick_def full_sent_trace send_event_def)
  have inv_b: "adapter_inv ?b"
    using on_can_send_step [OF inv, of env ?b] result by simp
  have "c = ?b" if "\<forall>op \<in> set ops. \<exists>env. op = OnTimer env \<or> op = OnCanSendNow env" "steps adapter_step ?b ops c" for ops c
    by (rule adapter.steps_until [OF that(2) inv_b, where P = "\<lambda>s. s = ?b"]) (use that(1) idle quiet_step in blast)+
  then show ?thesis
    using result idle quiet by (intro exI [of _ ?b]) (simp add: idle_for_periodic_def)
qed

definition demo_due :: adapter where
  "demo_due = demo_run [OnTimer (demo_env 8 0), StartAdapter \<lparr>start_hid_cid = 0x42, start_now_us = 0\<rparr>]"

theorem adapter_failed_report_stalls_witness:
  "\<exists>b. swbt_btstack_input_report_timer_adapter_on_can_send_now (demo_env 8 (- 1)) (Some demo_due) =
      (SWBT_BTSTACK_INPUT_REPORT_TIMER_ERROR_SCHEDULER, Some b) \<and> ta_running b \<and> \<not> ta_timer_pending b"
proof -
  have "adapter_step demo_running (OnTimer (demo_env 8 0)) demo_due"
    unfolding demo_running_def demo_due_def by (rule demo_step) code_simp+
  then have reach: "reachable adapter_initial adapter_step demo_due"
    using demo_running_reachable by (rule reach_step [rotated])
  have "idle_for_periodic demo_due" "ta_can_send_pending demo_due"
      "ta_periodic_holdoff_until_us demo_due \<le> now_us_of (demo_env 8 (- 1))"
      "sch_next_deadline_us (ta_scheduler demo_due) \<le> now_us_of (demo_env 8 (- 1))"
    by code_simp+
  moreover have "transport (demo_env 8 (- 1)) a cid msg \<noteq> 0" for a cid msg
    by (simp add: transport_def demo_env_def)
  ultimately show ?thesis
    using adapter_failed_report_stalls [OF reach, of "demo_env 8 (- 1)"] by blast
qed

end
