(* ===== verification/Spi.thy ===== *)
theory Spi
  imports Prelude
begin

text \<open>
  The emulated SPI flash of \<open>switch/switch_spi.c\<close> and its seeding from a profile,
  \<open>switch/switch_spi_seed.c\<close>. The 64 KiB array is a function from indices to bytes;
  that no operation touches an index beyond the array is proved, not assumed.
\<close>

section \<open>The flash\<close>

datatype swbt_switch_spi_result_t =
    SWBT_SWITCH_SPI_OK
  | SWBT_SWITCH_SPI_ERROR_INVALID_ARGUMENT
  | SWBT_SWITCH_SPI_ERROR_ADDRESS_OUT_OF_RANGE
  | SWBT_SWITCH_SPI_ERROR_READ_TOO_LARGE
  | SWBT_SWITCH_SPI_ERROR_BUFFER_TOO_SMALL

record swbt_switch_spi_t =
  spi_data :: "nat \<Rightarrow> u8"
  spi_default_value :: u8

record swbt_switch_spi_read_request_t =
  request_address :: u32
  request_size :: u8

definition SWBT_SWITCH_SPI_ADDRESS_LIMIT :: u32 where
  "SWBT_SWITCH_SPI_ADDRESS_LIMIT = 0x80000"

definition SWBT_SWITCH_SPI_STORAGE_SIZE :: u32 where
  "SWBT_SWITCH_SPI_STORAGE_SIZE = 0x10000"

definition SWBT_SWITCH_SPI_MAX_READ_SIZE :: u8 where
  "SWBT_SWITCH_SPI_MAX_READ_SIZE = 0x1D"

lemmas spi_limits =
  SWBT_SWITCH_SPI_ADDRESS_LIMIT_def SWBT_SWITCH_SPI_STORAGE_SIZE_def SWBT_SWITCH_SPI_MAX_READ_SIZE_def

text \<open>The store loop \<open>spi->data[base + i] = data[i]\<close>.\<close>

fun spi_copy :: "(nat \<Rightarrow> u8) \<Rightarrow> nat \<Rightarrow> bytes \<Rightarrow> (nat \<Rightarrow> u8)" where
  "spi_copy mem base [] = mem"
| "spi_copy mem base (b # bs) = spi_copy (mem(base := b)) (Suc base) bs"

definition swbt_switch_spi_init ::
  "swbt_switch_spi_t option \<Rightarrow> swbt_switch_spi_result_t \<times> swbt_switch_spi_t option" where
  "swbt_switch_spi_init spi = (case spi of
       None \<Rightarrow> (SWBT_SWITCH_SPI_ERROR_INVALID_ARGUMENT, None)
     | Some m \<Rightarrow> (SWBT_SWITCH_SPI_OK,
         Some (m\<lparr>spi_default_value := 0xFF,
           spi_data := (\<lambda>i. if i < unat SWBT_SWITCH_SPI_STORAGE_SIZE then 0xFF else spi_data m i)\<rparr>)))"

definition swbt_switch_spi_write ::
  "swbt_switch_spi_t option \<Rightarrow> u32 \<Rightarrow> bytes option
   \<Rightarrow> swbt_switch_spi_result_t \<times> swbt_switch_spi_t option" where
  "swbt_switch_spi_write spi address data = (case (spi, data) of
       (Some m, Some bs) \<Rightarrow>
         if length bs > unat SWBT_SWITCH_SPI_STORAGE_SIZE
         then (SWBT_SWITCH_SPI_ERROR_ADDRESS_OUT_OF_RANGE, spi)
         else let span = (of_nat (length bs) :: u32) in
           if address > SWBT_SWITCH_SPI_STORAGE_SIZE - span
           then (SWBT_SWITCH_SPI_ERROR_ADDRESS_OUT_OF_RANGE, spi)
           else (SWBT_SWITCH_SPI_OK, Some (m\<lparr>spi_data := spi_copy (spi_data m) (unat address) bs\<rparr>))
     | _ \<Rightarrow> (SWBT_SWITCH_SPI_ERROR_INVALID_ARGUMENT, spi))"

definition spi_read_byte :: "swbt_switch_spi_t \<Rightarrow> u32 \<Rightarrow> nat \<Rightarrow> u8" where
  "spi_read_byte m address index =
     (let absolute_address = address + of_nat index in
      if absolute_address < SWBT_SWITCH_SPI_STORAGE_SIZE then spi_data m (unat absolute_address)
      else spi_default_value m)"

definition swbt_switch_spi_read ::
  "swbt_switch_spi_t option \<Rightarrow> swbt_switch_spi_read_request_t \<Rightarrow> bytes option \<Rightarrow> nat option
   \<Rightarrow> swbt_switch_spi_result_t \<times> bytes option \<times> nat option" where
  "swbt_switch_spi_read spi request out_buf out_written =
     (let span = (ucast (request_size request) :: u32);
          out_written = store 0 out_written in
      case (spi, out_buf) of
        (Some m, Some out) \<Rightarrow>
          if request_size request > SWBT_SWITCH_SPI_MAX_READ_SIZE
          then (SWBT_SWITCH_SPI_ERROR_READ_TOO_LARGE, out_buf, out_written)
          else if request_address request > SWBT_SWITCH_SPI_ADDRESS_LIMIT - span
          then (SWBT_SWITCH_SPI_ERROR_ADDRESS_OUT_OF_RANGE, out_buf, out_written)
          else if length out < unat (request_size request)
          then (SWBT_SWITCH_SPI_ERROR_BUFFER_TOO_SMALL, out_buf,
                store (unat (request_size request)) out_written)
          else (SWBT_SWITCH_SPI_OK,
                Some (copy_at out 0 (map (spi_read_byte m (request_address request))
                                         [0..<unat (request_size request)])),
                store (unat (request_size request)) out_written)
      | _ \<Rightarrow> (SWBT_SWITCH_SPI_ERROR_INVALID_ARGUMENT, out_buf, out_written))"

section \<open>Byte memories\<close>

text \<open>
  What a client of the flash relies on: a write replaces exactly its window. From
  this law alone follows that writes to pairwise disjoint windows can all be read
  back, whatever their order.
\<close>

definition window :: "nat \<times> bytes \<Rightarrow> nat set" where
  "window e = {fst e ..< fst e + length (snd e)}"

locale byte_memory =
  fixes peek :: "'s \<Rightarrow> nat \<Rightarrow> u8"
    and poke :: "'s \<Rightarrow> nat \<Rightarrow> bytes \<Rightarrow> 's"
    and cap :: nat
  assumes peek_poke: "a + length bs \<le> cap \<Longrightarrow>
    peek (poke s a bs) i = (if i \<in> window (a, bs) then bs ! (i - a) else peek s i)"
begin

definition poke_all :: "(nat \<times> bytes) list \<Rightarrow> 's \<Rightarrow> 's" where
  "poke_all es s = fold (\<lambda>(a, bs) s. poke s a bs) es s"

lemma poke_all_simps [simp]:
  "poke_all [] s = s"
  "poke_all ((a, bs) # es) s = poke_all es (poke s a bs)"
  "poke_all (es @ fs) s = poke_all fs (poke_all es s)"
  by (simp_all add: poke_all_def)

lemma poke_all_outside:
  assumes "\<forall>e \<in> set es. fst e + length (snd e) \<le> cap" "\<forall>e \<in> set es. i \<notin> window e"
  shows "peek (poke_all es s) i = peek s i"
  using assms by (induction es arbitrary: s) (auto simp: peek_poke)

lemma poke_all_inside:
  assumes "\<forall>e \<in> set es. fst e + length (snd e) \<le> cap"
    and "sorted_wrt (\<lambda>e f. disjnt (window e) (window f)) es"
    and "(a, bs) \<in> set es" "i \<in> window (a, bs)"
  shows "peek (poke_all es s) i = bs ! (i - a)"
  using assms
proof (induction es arbitrary: s)
  case (Cons e es)
  show ?case
  proof (cases "(a, bs) \<in> set es")
    case True
    then show ?thesis
      using Cons by (cases e) auto
  next
    case False
    then have e: "e = (a, bs)" "\<forall>f \<in> set es. i \<notin> window f"
      using Cons.prems by (auto simp: disjnt_iff)
    then show ?thesis
      using Cons.prems by (simp add: poke_all_outside peek_poke)
  qed
qed simp

end

lemma spi_copy_nth:
  "spi_copy mem base bs i = (if i \<in> window (base, bs) then bs ! (i - base) else mem i)"
proof (induction mem base bs rule: spi_copy.induct)
  case (2 mem base b bs)
  show ?case
    unfolding spi_copy.simps "2.IH" by (cases "i = base") (auto simp: window_def nth_Cons')
qed (simp add: window_def)

definition spi_peek :: "swbt_switch_spi_t \<Rightarrow> nat \<Rightarrow> u8" where
  "spi_peek m i = (if i < 0x10000 then spi_data m i else spi_default_value m)"

definition spi_poke :: "swbt_switch_spi_t \<Rightarrow> nat \<Rightarrow> bytes \<Rightarrow> swbt_switch_spi_t" where
  "spi_poke m a bs = m\<lparr>spi_data := spi_copy (spi_data m) a bs\<rparr>"

interpretation flash: byte_memory spi_peek spi_poke "0x10000"
  by unfold_locales (auto simp: spi_peek_def spi_poke_def spi_copy_nth window_def)

lemma spi_write_guard:
  assumes "n \<le> 0x10000"
  shows "address > SWBT_SWITCH_SPI_STORAGE_SIZE - of_nat n \<longleftrightarrow> unat address + n > 0x10000"
proof -
  have "unat (SWBT_SWITCH_SPI_STORAGE_SIZE - of_nat n) = 0x10000 - n"
    using assms by (simp add: spi_limits unat_sub word_le_nat_alt unat_of_nat_small)
  then show ?thesis
    using assms by (auto simp: word_less_nat_alt)
qed

lemma spi_write_eq:
  "swbt_switch_spi_write (Some m) address (Some bs) =
    (if unat address + length bs \<le> 0x10000 then (SWBT_SWITCH_SPI_OK, Some (spi_poke m (unat address) bs))
     else (SWBT_SWITCH_SPI_ERROR_ADDRESS_OUT_OF_RANGE, Some m))"
proof (cases "length bs \<le> 0x10000")
  case True
  then show ?thesis
    by (simp add: swbt_switch_spi_write_def Let_def spi_write_guard spi_poke_def)
       (simp add: spi_limits)
qed (auto simp: swbt_switch_spi_write_def spi_limits)

lemma spi_read_guard:
  fixes n :: u8 and address :: u32
  assumes "unat n \<le> 0x1D"
  shows "address > SWBT_SWITCH_SPI_ADDRESS_LIMIT - ucast n \<longleftrightarrow> unat address + unat n > 0x80000"
proof -
  have "unat (SWBT_SWITCH_SPI_ADDRESS_LIMIT - ucast n) = 0x80000 - unat n" "unat n \<le> 0x80000"
    using assms by (simp_all add: spi_limits unat_sub word_le_nat_alt unat_ucast_up)
  then show ?thesis
    by (auto simp: word_less_nat_alt)
qed

lemma spi_read_byte_peek:
  assumes "unat address + i < 2 ^ 32"
  shows "spi_read_byte m address i = spi_peek m (unat address + i)"
proof -
  have "unat (address + of_nat i) = unat address + i"
    using assms by (simp add: unat_word_ariths unat_of_nat take_bit_eq_mod)
  then show ?thesis
    by (simp add: spi_read_byte_def spi_peek_def spi_limits word_less_nat_alt Let_def)
qed

lemma spi_read_eq:
  "swbt_switch_spi_read (Some m) \<lparr>request_address = a, request_size = n\<rparr> (Some out) w =
    (if unat n > 0x1D then (SWBT_SWITCH_SPI_ERROR_READ_TOO_LARGE, Some out, store 0 w)
     else if unat a + unat n > 0x80000 then (SWBT_SWITCH_SPI_ERROR_ADDRESS_OUT_OF_RANGE, Some out, store 0 w)
     else if length out < unat n then (SWBT_SWITCH_SPI_ERROR_BUFFER_TOO_SMALL, Some out, store (unat n) w)
     else (SWBT_SWITCH_SPI_OK,
       Some (map (\<lambda>i. spi_peek m (unat a + i)) [0..<unat n] @ drop (unat n) out), store (unat n) w))"
proof -
  have 1: "n > SWBT_SWITCH_SPI_MAX_READ_SIZE \<longleftrightarrow> unat n > 0x1D"
    by (simp add: spi_limits word_less_nat_alt)
  have 2: "map (spi_read_byte m a) [0..<unat n] = map (\<lambda>i. spi_peek m (unat a + i)) [0..<unat n]"
    if "unat a + unat n \<le> 0x80000"
    using that by (auto simp: spi_read_byte_peek)
  show ?thesis
    by (auto simp: swbt_switch_spi_read_def Let_def 1 2 spi_read_guard copy_at_all not_less)
qed

section \<open>Seeding the flash\<close>

record swbt_switch_spi_seed_entry_t =
  entry_address :: u32
  entry_data :: "bytes option"

text \<open>Each data pointer of the profile with its length is one optional byte list.\<close>

record swbt_switch_spi_seed_profile_t =
  device_type :: "bytes option"
  controller_colors :: "bytes option"
  factory_imu_calibration :: "bytes option"
  left_stick_calibration :: "bytes option"
  right_stick_calibration :: "bytes option"
  user_left_stick_magic :: "bytes option"
  user_right_stick_magic :: "bytes option"
  user_imu_magic :: "bytes option"
  extra_entries :: "swbt_switch_spi_seed_entry_t list option"
  extra_entry_count :: nat

record seed_range_t =
  range_address :: u32
  range_data_len :: nat

definition dev_device_type :: bytes where
  "dev_device_type = [0x03]"

definition dev_controller_colors :: bytes where
  "dev_controller_colors = [0x0D, 0x0D, 0x0D, 0xFF, 0xFF, 0xFF]"

definition dev_factory_imu_calibration :: bytes where
  "dev_factory_imu_calibration =
     [0xB0, 0xFF, 0xB9, 0xFE, 0xE0, 0x00, 0x00, 0x40, 0x00, 0x40, 0x00, 0x40,
      0x0E, 0x00, 0xDF, 0xFF, 0xD0, 0xFF, 0x3B, 0x34, 0x3B, 0x34, 0x3B, 0x34]"

definition dev_left_stick_calibration :: bytes where
  "dev_left_stick_calibration = [0xB2, 0xA1, 0x20, 0x80, 0xF0, 0x7F, 0x10, 0x80, 0x00]"

definition dev_right_stick_calibration :: bytes where
  "dev_right_stick_calibration = [0xB2, 0xA1, 0x30, 0x80, 0xE0, 0x7F, 0x20, 0x80, 0x00]"

definition dev_user_magic :: bytes where
  "dev_user_magic = [0xB2, 0xA1]"

definition validate_required_field :: "bytes option \<Rightarrow> nat \<Rightarrow> swbt_switch_spi_result_t" where
  "validate_required_field data expected_len = (case data of
       None \<Rightarrow> SWBT_SWITCH_SPI_ERROR_INVALID_ARGUMENT
     | Some bs \<Rightarrow> if length bs \<noteq> expected_len then SWBT_SWITCH_SPI_ERROR_INVALID_ARGUMENT
                  else SWBT_SWITCH_SPI_OK)"

definition validate_entry_boundary :: "swbt_switch_spi_seed_entry_t \<Rightarrow> swbt_switch_spi_result_t" where
  "validate_entry_boundary entry = (case entry_data entry of
       None \<Rightarrow> SWBT_SWITCH_SPI_ERROR_INVALID_ARGUMENT
     | Some bs \<Rightarrow>
         if length bs = 0 then SWBT_SWITCH_SPI_ERROR_INVALID_ARGUMENT
         else if length bs > unat SWBT_SWITCH_SPI_STORAGE_SIZE
         then SWBT_SWITCH_SPI_ERROR_ADDRESS_OUT_OF_RANGE
         else if entry_address entry > SWBT_SWITCH_SPI_STORAGE_SIZE - of_nat (length bs)
         then SWBT_SWITCH_SPI_ERROR_ADDRESS_OUT_OF_RANGE
         else SWBT_SWITCH_SPI_OK)"

definition ranges_overlap :: "seed_range_t \<Rightarrow> seed_range_t \<Rightarrow> bool" where
  "ranges_overlap lhs rhs =
     (let lhs_end = range_address lhs + of_nat (range_data_len lhs);
          rhs_end = range_address rhs + of_nat (range_data_len rhs)
      in range_address lhs < rhs_end \<and> range_address rhs < lhs_end)"

definition fixed_ranges :: "seed_range_t list" where
  "fixed_ranges =
     [\<lparr>range_address = 0x6012, range_data_len = 1\<rparr>,
      \<lparr>range_address = 0x6050, range_data_len = 6\<rparr>,
      \<lparr>range_address = 0x6020, range_data_len = 24\<rparr>,
      \<lparr>range_address = 0x603D, range_data_len = 9\<rparr>,
      \<lparr>range_address = 0x6046, range_data_len = 9\<rparr>,
      \<lparr>range_address = 0x8010, range_data_len = 2\<rparr>,
      \<lparr>range_address = 0x801B, range_data_len = 2\<rparr>,
      \<lparr>range_address = 0x8026, range_data_len = 2\<rparr>]"

definition entry_range :: "swbt_switch_spi_seed_entry_t \<Rightarrow> seed_range_t" where
  "entry_range entry = \<lparr>range_address = entry_address entry,
     range_data_len = (case entry_data entry of None \<Rightarrow> 0 | Some bs \<Rightarrow> length bs)\<rparr>"

text \<open>The loop over the extra entries; \<open>previous\<close> holds the entries already validated.\<close>

fun validate_extra_loop ::
  "swbt_switch_spi_seed_entry_t list \<Rightarrow> swbt_switch_spi_seed_entry_t list \<Rightarrow> swbt_switch_spi_result_t" where
  "validate_extra_loop previous [] = SWBT_SWITCH_SPI_OK"
| "validate_extra_loop previous (entry # entries) =
     (case validate_entry_boundary entry of
        SWBT_SWITCH_SPI_OK \<Rightarrow>
          if list_ex (ranges_overlap (entry_range entry)) fixed_ranges
          then SWBT_SWITCH_SPI_ERROR_INVALID_ARGUMENT
          else if list_ex (\<lambda>p. ranges_overlap (entry_range entry) (entry_range p)) previous
          then SWBT_SWITCH_SPI_ERROR_INVALID_ARGUMENT
          else validate_extra_loop (previous @ [entry]) entries
      | result \<Rightarrow> result)"

definition validate_extra_entries :: "swbt_switch_spi_seed_profile_t \<Rightarrow> swbt_switch_spi_result_t" where
  "validate_extra_entries profile =
     (if extra_entry_count profile = 0 then SWBT_SWITCH_SPI_OK
      else case extra_entries profile of
          None \<Rightarrow> SWBT_SWITCH_SPI_ERROR_INVALID_ARGUMENT
        | Some es \<Rightarrow> validate_extra_loop [] (take (extra_entry_count profile) es))"

text \<open>A sequence of checks or writes that stops at the first result that is not OK.\<close>

fun first_failure :: "swbt_switch_spi_result_t list \<Rightarrow> swbt_switch_spi_result_t" where
  "first_failure [] = SWBT_SWITCH_SPI_OK"
| "first_failure (r # rs) = (if r \<noteq> SWBT_SWITCH_SPI_OK then r else first_failure rs)"

definition validate_profile :: "swbt_switch_spi_seed_profile_t option \<Rightarrow> swbt_switch_spi_result_t" where
  "validate_profile profile = (case profile of
       None \<Rightarrow> SWBT_SWITCH_SPI_ERROR_INVALID_ARGUMENT
     | Some p \<Rightarrow> first_failure
         [validate_required_field (device_type p) 1,
          validate_required_field (controller_colors p) 6,
          validate_required_field (factory_imu_calibration p) 24,
          validate_required_field (left_stick_calibration p) 9,
          validate_required_field (right_stick_calibration p) 9,
          validate_required_field (user_left_stick_magic p) 2,
          validate_required_field (user_right_stick_magic p) 2,
          validate_required_field (user_imu_magic p) 2,
          validate_extra_entries p])"

definition swbt_switch_spi_seed_dev_profile :: swbt_switch_spi_seed_profile_t where
  "swbt_switch_spi_seed_dev_profile =
     \<lparr>device_type = Some dev_device_type,
      controller_colors = Some dev_controller_colors,
      factory_imu_calibration = Some dev_factory_imu_calibration,
      left_stick_calibration = Some dev_left_stick_calibration,
      right_stick_calibration = Some dev_right_stick_calibration,
      user_left_stick_magic = Some dev_user_magic,
      user_right_stick_magic = Some dev_user_magic,
      user_imu_magic = Some dev_user_magic,
      extra_entries = None,
      extra_entry_count = 0\<rparr>"

fun write_entries ::
  "swbt_switch_spi_t option \<Rightarrow> (u32 \<times> bytes option) list
   \<Rightarrow> swbt_switch_spi_result_t \<times> swbt_switch_spi_t option" where
  "write_entries spi [] = (SWBT_SWITCH_SPI_OK, spi)"
| "write_entries spi ((address, data) # es) =
     (let (result, spi) = swbt_switch_spi_write spi address data in
      if result \<noteq> SWBT_SWITCH_SPI_OK then (result, spi) else write_entries spi es)"

definition fixed_entries :: "swbt_switch_spi_seed_profile_t \<Rightarrow> (u32 \<times> bytes option) list" where
  "fixed_entries p =
     [(0x6012, device_type p), (0x6050, controller_colors p), (0x6020, factory_imu_calibration p),
      (0x603D, left_stick_calibration p), (0x6046, right_stick_calibration p),
      (0x8010, user_left_stick_magic p), (0x801B, user_right_stick_magic p),
      (0x8026, user_imu_magic p)]"

definition extra_seed_entries :: "swbt_switch_spi_seed_profile_t \<Rightarrow> (u32 \<times> bytes option) list" where
  "extra_seed_entries p = (case extra_entries p of
       None \<Rightarrow> []
     | Some es \<Rightarrow> map (\<lambda>e. (entry_address e, entry_data e)) (take (extra_entry_count p) es))"

definition swbt_switch_spi_seed_apply ::
  "swbt_switch_spi_t option \<Rightarrow> swbt_switch_spi_seed_profile_t option
   \<Rightarrow> swbt_switch_spi_result_t \<times> swbt_switch_spi_t option" where
  "swbt_switch_spi_seed_apply spi profile = (case (spi, profile) of
       (None, _) \<Rightarrow> (SWBT_SWITCH_SPI_ERROR_INVALID_ARGUMENT, None)
     | (Some m, _) \<Rightarrow>
         (let result = validate_profile profile in
          if result \<noteq> SWBT_SWITCH_SPI_OK then (result, spi)
          else case profile of
              None \<Rightarrow> (SWBT_SWITCH_SPI_ERROR_INVALID_ARGUMENT, spi)
            | Some p \<Rightarrow> write_entries spi (fixed_entries p @ extra_seed_entries p)))"

section \<open>What seeding guarantees\<close>

text \<open>The windows a profile writes.\<close>

definition seed_entry :: "u32 \<times> bytes option \<Rightarrow> nat \<times> bytes" where
  "seed_entry e = (unat (fst e), case snd e of None \<Rightarrow> [] | Some bs \<Rightarrow> bs)"

definition seed_entries :: "swbt_switch_spi_seed_profile_t \<Rightarrow> (nat \<times> bytes) list" where
  "seed_entries p = map seed_entry (fixed_entries p @ extra_seed_entries p)"

lemma write_entries_ok:
  assumes "\<forall>e \<in> set es. snd e \<noteq> None \<and> fst (seed_entry e) + length (snd (seed_entry e)) \<le> 0x10000"
  shows "write_entries (Some m) es = (SWBT_SWITCH_SPI_OK, Some (flash.poke_all (map seed_entry es) m))"
  using assms by (induction es arbitrary: m) (auto simp: spi_write_eq seed_entry_def)

lemma first_failure_ok: "first_failure rs = SWBT_SWITCH_SPI_OK \<longleftrightarrow> (\<forall>r \<in> set rs. r = SWBT_SWITCH_SPI_OK)"
  by (induction rs) auto

lemma required_field_ok:
  "validate_required_field d n = SWBT_SWITCH_SPI_OK \<longleftrightarrow> (\<exists>bs. d = Some bs \<and> length bs = n)"
  by (simp add: validate_required_field_def split: option.splits)

lemma entry_boundary_ok:
  "validate_entry_boundary e = SWBT_SWITCH_SPI_OK \<longleftrightarrow>
    (\<exists>bs. entry_data e = Some bs \<and> bs \<noteq> [] \<and> unat (entry_address e) + length bs \<le> 0x10000)"
  by (auto simp: validate_entry_boundary_def spi_write_guard split: option.splits)
     (auto simp: spi_limits spi_write_guard [unfolded spi_limits])

definition range_of :: "seed_range_t \<Rightarrow> nat set" where
  "range_of r = {unat (range_address r) ..< unat (range_address r) + range_data_len r}"

lemma not_overlap_disjnt:
  assumes "\<not> ranges_overlap l r"
    and "unat (range_address l) + range_data_len l \<le> 0x10000" "unat (range_address r) + range_data_len r \<le> 0x10000"
  shows "disjnt (range_of l) (range_of r)" "disjnt (range_of r) (range_of l)"
proof -
  have "unat (range_address x + of_nat (range_data_len x)) = unat (range_address x) + range_data_len x"
    if "unat (range_address x) + range_data_len x \<le> 0x10000" for x :: seed_range_t
    using that by (simp add: unat_word_ariths unat_of_nat take_bit_eq_mod)
  then show "disjnt (range_of l) (range_of r)" "disjnt (range_of r) (range_of l)"
    using assms by (auto simp: ranges_overlap_def word_less_nat_alt disjnt_iff range_of_def)
qed

lemma extra_loop_ok:
  "validate_extra_loop prev es = SWBT_SWITCH_SPI_OK \<longleftrightarrow>
    (\<forall>e \<in> set es. validate_entry_boundary e = SWBT_SWITCH_SPI_OK
      \<and> (\<forall>r \<in> set fixed_ranges. \<not> ranges_overlap (entry_range e) r)
      \<and> (\<forall>p \<in> set prev. \<not> ranges_overlap (entry_range e) (entry_range p)))
    \<and> sorted_wrt (\<lambda>p e. \<not> ranges_overlap (entry_range e) (entry_range p)) es"
proof (induction prev es rule: validate_extra_loop.induct)
  case (2 previous entry entries)
  then show ?case
    by (cases "validate_entry_boundary entry") (auto simp: list_ex_iff)
qed simp

lemma fixed_ranges_disjoint:
  "sorted_wrt (\<lambda>l r. disjnt (range_of l) (range_of r)) fixed_ranges"
  by (simp add: fixed_ranges_def range_of_def disjnt_iff)

lemma fixed_ranges_bounded: "r \<in> set fixed_ranges \<Longrightarrow> unat (range_address r) + range_data_len r \<le> 0x10000"
  by (auto simp: fixed_ranges_def)

lemma validate_profile_ok:
  assumes "validate_profile (Some p) = SWBT_SWITCH_SPI_OK"
  shows "map (window \<circ> seed_entry) (fixed_entries p) = map range_of fixed_ranges"
    and "\<forall>e \<in> set (fixed_entries p). snd e \<noteq> None"
    and "validate_extra_entries p = SWBT_SWITCH_SPI_OK"
  using assms
  by (auto simp: validate_profile_def first_failure_ok required_field_ok fixed_entries_def
      fixed_ranges_def window_def range_of_def seed_entry_def simp del: first_failure.simps)

lemma extra_entries_ok:
  assumes "validate_extra_entries p = SWBT_SWITCH_SPI_OK"
  obtains es where "validate_extra_loop [] es = SWBT_SWITCH_SPI_OK"
    and "extra_seed_entries p = map (\<lambda>e. (entry_address e, entry_data e)) es"
proof (cases "extra_entry_count p = 0 \<or> extra_entries p = None")
  case True
  then show ?thesis
    using assms that [of "[]"]
    by (auto simp: validate_extra_entries_def extra_seed_entries_def split: option.splits if_splits)
next
  case False
  then show ?thesis
    using assms that by (auto simp: validate_extra_entries_def extra_seed_entries_def)
qed

lemma entry_window:
  assumes "validate_entry_boundary e = SWBT_SWITCH_SPI_OK"
  shows "window (seed_entry (entry_address e, entry_data e)) = range_of (entry_range e)"
    and "unat (range_address (entry_range e)) + range_data_len (entry_range e) \<le> 0x10000"
  using assms
  by (auto simp: entry_boundary_ok seed_entry_def window_def range_of_def entry_range_def)

lemma seed_entries_disjoint:
  assumes "validate_profile (Some p) = SWBT_SWITCH_SPI_OK"
  shows "sorted_wrt (\<lambda>e f. disjnt (window e) (window f)) (seed_entries p)"
proof -
  let ?D = "\<lambda>e f. disjnt (window e) (window f)"
  obtain es where es: "validate_extra_loop [] es = SWBT_SWITCH_SPI_OK"
      "extra_seed_entries p = map (\<lambda>e. (entry_address e, entry_data e)) es"
    using validate_profile_ok(3) [OF assms] extra_entries_ok by blast
  note ok = es(1) [unfolded extra_loop_ok]
  have ranges: "sorted_wrt (\<lambda>A B. disjnt A B) (map range_of fixed_ranges)"
    using fixed_ranges_disjoint by (simp add: sorted_wrt_map)
  have fixed: "sorted_wrt ?D (map seed_entry (fixed_entries p))"
    using ranges [folded validate_profile_ok(1) [OF assms]] by (simp add: sorted_wrt_map)
  have extra: "sorted_wrt ?D (map seed_entry (extra_seed_entries p))"
    unfolding es(2) sorted_wrt_map
    by (rule sorted_wrt_mono_rel [OF _ conjunct2 [OF ok]])
       (use ok in \<open>auto simp: entry_window intro!: not_overlap_disjnt(2)\<close>)
  have "disjnt (window (seed_entry f)) (window (seed_entry e))"
    if f: "f \<in> set (fixed_entries p)" and e: "e \<in> set (extra_seed_entries p)" for f e
  proof -
    have "window (seed_entry f) \<in> range_of ` set fixed_ranges"
      using f arg_cong [OF validate_profile_ok(1) [OF assms], of set] by auto
    then obtain r where r: "r \<in> set fixed_ranges" "window (seed_entry f) = range_of r"
      by blast
    obtain e' where e': "e' \<in> set es" "e = (entry_address e', entry_data e')"
      using e es(2) by auto
    then have b: "validate_entry_boundary e' = SWBT_SWITCH_SPI_OK"
        "\<not> ranges_overlap (entry_range e') r"
      using ok r(1) by auto
    show ?thesis
      using not_overlap_disjnt(2) [OF b(2) entry_window(2) [OF b(1)] fixed_ranges_bounded [OF r(1)]]
      by (simp add: r(2) e'(2) entry_window(1) [OF b(1)])
  qed
  with fixed extra show ?thesis
    by (auto simp: seed_entries_def sorted_wrt_append)
qed

lemma seed_entries_bounded:
  assumes "validate_profile (Some p) = SWBT_SWITCH_SPI_OK"
  shows "\<forall>e \<in> set (fixed_entries p @ extra_seed_entries p).
    snd e \<noteq> None \<and> fst (seed_entry e) + length (snd (seed_entry e)) \<le> 0x10000"
proof -
  have "validate_extra_entries p = SWBT_SWITCH_SPI_OK"
    by (rule validate_profile_ok(3) [OF assms])
  then obtain es where "validate_extra_loop [] es = SWBT_SWITCH_SPI_OK"
      "extra_seed_entries p = map (\<lambda>e. (entry_address e, entry_data e)) es"
    by (rule extra_entries_ok)
  then have "\<forall>e \<in> set (extra_seed_entries p).
      snd e \<noteq> None \<and> fst (seed_entry e) + length (snd (seed_entry e)) \<le> 0x10000"
    by (auto simp: extra_loop_ok entry_boundary_ok seed_entry_def)
  moreover have "\<forall>e \<in> set (fixed_entries p).
      snd e \<noteq> None \<and> fst (seed_entry e) + length (snd (seed_entry e)) \<le> 0x10000"
    using assms
    by (auto simp: validate_profile_def first_failure_ok required_field_ok fixed_entries_def
        seed_entry_def simp del: first_failure.simps)
  ultimately show ?thesis
    by auto
qed

lemma seed_apply_valid:
  assumes "validate_profile (Some p) = SWBT_SWITCH_SPI_OK"
  shows "swbt_switch_spi_seed_apply (Some m) (Some p) =
    (SWBT_SWITCH_SPI_OK, Some (flash.poke_all (seed_entries p) m))"
  using assms write_entries_ok [OF seed_entries_bounded [OF assms], of m]
  by (simp add: swbt_switch_spi_seed_apply_def seed_entries_def)

lemma seed_entries_in_cap:
  assumes "validate_profile (Some p) = SWBT_SWITCH_SPI_OK"
  shows "\<forall>e \<in> set (seed_entries p). fst e + length (snd e) \<le> 0x10000"
  using seed_entries_bounded [OF assms] by (auto simp: seed_entries_def)

section \<open>Properties\<close>

text \<open>A write to the flash either changes exactly the bytes of its window, so that they can be
  read back, or, when the window does not fit into the 64 KiB storage, is refused with
  ADDRESS_OUT_OF_RANGE and changes nothing. No byte outside the storage array is ever written.\<close>

theorem spi_write_read_back:
  "swbt_switch_spi_write (Some m) address (Some bs) =
     (if unat address + length bs \<le> 0x10000
      then (SWBT_SWITCH_SPI_OK, Some (spi_poke m (unat address) bs))
      else (SWBT_SWITCH_SPI_ERROR_ADDRESS_OUT_OF_RANGE, Some m))
   \<and> spi_data (spi_poke m (unat address) bs) i =
     (if unat address \<le> i \<and> i < unat address + length bs then bs ! (i - unat address)
      else spi_data m i)"
  by (auto simp: spi_write_eq spi_poke_def spi_copy_nth window_def)

text \<open>A read of the flash succeeds exactly when it asks for at most 29 bytes, stays below the
  512 KiB address limit and fits the output buffer. Then it returns the stored bytes, 0xFF or the
  configured default beyond the 64 KiB of storage, and leaves the rest of the buffer alone; otherwise
  the output buffer is unchanged.\<close>

theorem spi_read_functional:
  "swbt_switch_spi_read (Some m) \<lparr>request_address = a, request_size = n\<rparr> (Some out) (Some w) =
    (if unat n > 29 then (SWBT_SWITCH_SPI_ERROR_READ_TOO_LARGE, Some out, Some 0)
     else if unat a + unat n > 0x80000 then (SWBT_SWITCH_SPI_ERROR_ADDRESS_OUT_OF_RANGE, Some out, Some 0)
     else if length out < unat n then (SWBT_SWITCH_SPI_ERROR_BUFFER_TOO_SMALL, Some out, Some (unat n))
     else (SWBT_SWITCH_SPI_OK,
       Some (map (\<lambda>i. if unat a + i < 0x10000 then spi_data m (unat a + i) else spi_default_value m)
               [0..<unat n] @ drop (unat n) out), Some (unat n)))"
  by (simp add: spi_read_eq spi_peek_def)

text \<open>C27: Seeding with a profile that passes validation always succeeds; afterwards every fixed field
  and every extra entry of the profile can be read back in full, and every other byte is as before.
  Validation thus guarantees that no field overwrites another.\<close>

theorem seed_apply_correct:
  assumes "validate_profile (Some p) = SWBT_SWITCH_SPI_OK"
  shows "\<exists>m'. swbt_switch_spi_seed_apply (Some m) (Some p) = (SWBT_SWITCH_SPI_OK, Some m')
    \<and> (\<forall>(address, data) \<in> set (fixed_entries p @ extra_seed_entries p). \<exists>bs. data = Some bs
        \<and> (\<forall>i < length bs. spi_data m' (unat address + i) = bs ! i))
    \<and> (\<forall>i. (\<forall>e \<in> set (seed_entries p). i \<notin> window e) \<longrightarrow> spi_peek m' i = spi_peek m i)"
proof (intro exI conjI)
  let ?m = "flash.poke_all (seed_entries p) m"
  show "swbt_switch_spi_seed_apply (Some m) (Some p) = (SWBT_SWITCH_SPI_OK, Some ?m)"
    by (rule seed_apply_valid [OF assms])
  show "\<forall>i. (\<forall>e \<in> set (seed_entries p). i \<notin> window e) \<longrightarrow> spi_peek ?m i = spi_peek m i"
    using flash.poke_all_outside seed_entries_in_cap [OF assms] by blast
  have "spi_data ?m (unat address + i) = bs ! i"
    if "(address, Some bs) \<in> set (fixed_entries p @ extra_seed_entries p)" "i < length bs" for address bs i
  proof -
    have e: "(unat address, bs) \<in> set (seed_entries p)"
      using that(1) unfolding seed_entries_def set_map by (force simp: seed_entry_def)
    then have "spi_peek ?m (unat address + i) = bs ! i"
      using flash.poke_all_inside [OF seed_entries_in_cap seed_entries_disjoint e, OF assms assms] that(2)
      by (simp add: window_def)
    moreover have "unat address + i < 0x10000"
      using seed_entries_in_cap [OF assms] e that(2) by fastforce
    ultimately show ?thesis
      by (simp add: spi_peek_def)
  qed
  then show "\<forall>(address, data) \<in> set (fixed_entries p @ extra_seed_entries p). \<exists>bs. data = Some bs
      \<and> (\<forall>i < length bs. spi_data ?m (unat address + i) = bs ! i)"
    using seed_entries_bounded [OF assms] by fastforce
qed

definition blank_spi :: swbt_switch_spi_t where
  "blank_spi = \<lparr>spi_data = (\<lambda>_. 0xFF), spi_default_value = 0xFF\<rparr>"

definition serial_profile :: swbt_switch_spi_seed_profile_t where
  "serial_profile = swbt_switch_spi_seed_dev_profile
     \<lparr>extra_entries := Some [\<lparr>entry_address = 0x6000, entry_data = Some [0x58, 0x42]\<rparr>], extra_entry_count := 1\<rparr>"

lemmas seed_profiles = serial_profile_def swbt_switch_spi_seed_dev_profile_def
  dev_device_type_def dev_controller_colors_def dev_factory_imu_calibration_def
  dev_left_stick_calibration_def dev_right_stick_calibration_def dev_user_magic_def

theorem seed_apply_correct_witness:
  "\<exists>m'. swbt_switch_spi_seed_apply (Some blank_spi) (Some serial_profile) = (SWBT_SWITCH_SPI_OK, Some m')
    \<and> spi_data m' 0x6001 = 0x42 \<and> spi_data m' 0x6050 = 0x0D \<and> spi_data m' 0x8027 = 0xA1
    \<and> spi_peek m' 0x6002 = 0xFF"
proof -
  have "validate_profile (Some serial_profile) = SWBT_SWITCH_SPI_OK"
    by (simp add: validate_profile_def validate_required_field_def validate_extra_entries_def
        validate_entry_boundary_def ranges_overlap_def fixed_ranges_def entry_range_def spi_limits
        seed_profiles)
  from seed_apply_correct [OF this, of blank_spi] obtain m' where
    ok: "swbt_switch_spi_seed_apply (Some blank_spi) (Some serial_profile) = (SWBT_SWITCH_SPI_OK, Some m')"
    and rd: "\<forall>(address, data) \<in> set (fixed_entries serial_profile @ extra_seed_entries serial_profile).
        \<exists>bs. data = Some bs \<and> (\<forall>i < length bs. spi_data m' (unat address + i) = bs ! i)"
    and out: "\<forall>i. (\<forall>e \<in> set (seed_entries serial_profile). i \<notin> window e) \<longrightarrow>
        spi_peek m' i = spi_peek blank_spi i"
    by blast
  have "spi_data m' (unat (0x6000 :: u32) + 1) = 0x42" "spi_data m' (unat (0x6050 :: u32) + 0) = 0x0D"
    "spi_data m' (unat (0x8026 :: u32) + 1) = 0xA1"
    using rd by (auto simp: fixed_entries_def extra_seed_entries_def seed_profiles)
  moreover have "spi_peek m' 0x6002 = spi_peek blank_spi 0x6002"
    by (rule out [rule_format])
       (auto simp: seed_entries_def seed_entry_def window_def fixed_entries_def
        extra_seed_entries_def seed_profiles)
  ultimately show ?thesis
    using ok by (simp add: spi_peek_def blank_spi_def)
qed

end
