(* ===== verification/Peripherals.thy ===== *)
theory Peripherals
  imports Prelude
begin

text \<open>
  The small stateful parts of the emulated controller: rumble
  (\<open>switch/switch_rumble.c\<close>), player lights (\<open>switch/switch_player_lights.c\<close>) and
  the device information block (\<open>switch/switch_device_info.c\<close>).
\<close>

section \<open>Rumble\<close>

datatype swbt_switch_rumble_result_t =
    SWBT_SWITCH_RUMBLE_OK
  | SWBT_SWITCH_RUMBLE_ERROR_INVALID_ARGUMENT

record swbt_switch_rumble_state_t =
  rumble_raw :: bytes
  rumble_updated_at_ms :: u64
  rumble_updated :: bool

definition SWBT_SWITCH_RUMBLE_DATA_SIZE :: nat where
  "SWBT_SWITCH_RUMBLE_DATA_SIZE = 8"

definition SWBT_SWITCH_RUMBLE_NEUTRAL_PAYLOAD :: bytes where
  "SWBT_SWITCH_RUMBLE_NEUTRAL_PAYLOAD = [0x00, 0x01, 0x40, 0x40, 0x00, 0x01, 0x40, 0x40]"

definition swbt_switch_rumble_copy :: "bytes \<Rightarrow> bytes \<Rightarrow> bytes" where
  "swbt_switch_rumble_copy out payload = copy_at out 0 (take SWBT_SWITCH_RUMBLE_DATA_SIZE payload)"

definition swbt_switch_rumble_init ::
  "swbt_switch_rumble_state_t option
   \<Rightarrow> swbt_switch_rumble_result_t \<times> swbt_switch_rumble_state_t option" where
  "swbt_switch_rumble_init state = (case state of
       None \<Rightarrow> (SWBT_SWITCH_RUMBLE_ERROR_INVALID_ARGUMENT, None)
     | Some s \<Rightarrow> (SWBT_SWITCH_RUMBLE_OK,
         Some (s\<lparr>rumble_raw := swbt_switch_rumble_copy (rumble_raw s) SWBT_SWITCH_RUMBLE_NEUTRAL_PAYLOAD,
           rumble_updated_at_ms := 0, rumble_updated := False\<rparr>)))"

definition swbt_switch_rumble_update ::
  "swbt_switch_rumble_state_t option \<Rightarrow> bytes option \<Rightarrow> u64
   \<Rightarrow> swbt_switch_rumble_result_t \<times> swbt_switch_rumble_state_t option" where
  "swbt_switch_rumble_update state payload updated_at_ms = (case (state, payload) of
       (Some s, Some p) \<Rightarrow> (SWBT_SWITCH_RUMBLE_OK,
         Some (s\<lparr>rumble_raw := swbt_switch_rumble_copy (rumble_raw s) p,
           rumble_updated_at_ms := updated_at_ms, rumble_updated := True\<rparr>))
     | _ \<Rightarrow> (SWBT_SWITCH_RUMBLE_ERROR_INVALID_ARGUMENT, state))"

definition swbt_switch_rumble_payload_is_neutral :: "bytes option \<Rightarrow> bool" where
  "swbt_switch_rumble_payload_is_neutral payload = (case payload of
       None \<Rightarrow> False
     | Some p \<Rightarrow> list_all (\<lambda>index. p ! index = SWBT_SWITCH_RUMBLE_NEUTRAL_PAYLOAD ! index)
         [0..<SWBT_SWITCH_RUMBLE_DATA_SIZE])"

definition swbt_switch_rumble_state_is_neutral :: "swbt_switch_rumble_state_t option \<Rightarrow> bool" where
  "swbt_switch_rumble_state_is_neutral state = (case state of
       None \<Rightarrow> False
     | Some s \<Rightarrow> swbt_switch_rumble_payload_is_neutral (Some (rumble_raw s)))"

definition rumble_wf :: "swbt_switch_rumble_state_t \<Rightarrow> bool" where
  "rumble_wf s \<longleftrightarrow> length (rumble_raw s) = 8"

lemma rumble_copy_full:
  "length out = 8 \<Longrightarrow> 8 \<le> length p \<Longrightarrow> swbt_switch_rumble_copy out p = take 8 p"
  by (simp add: swbt_switch_rumble_copy_def SWBT_SWITCH_RUMBLE_DATA_SIZE_def copy_at_all)

lemma payload_is_neutral_iff:
  assumes "8 \<le> length p"
  shows "swbt_switch_rumble_payload_is_neutral (Some p) \<longleftrightarrow> take 8 p = SWBT_SWITCH_RUMBLE_NEUTRAL_PAYLOAD"
  using assms
  by (auto simp: swbt_switch_rumble_payload_is_neutral_def SWBT_SWITCH_RUMBLE_DATA_SIZE_def
      SWBT_SWITCH_RUMBLE_NEUTRAL_PAYLOAD_def list_eq_iff_nth_eq list_all_iff)

lemma rumble_update_eq:
  assumes "rumble_wf s" "length p = 8"
  shows "swbt_switch_rumble_update (Some s) (Some p) t =
    (SWBT_SWITCH_RUMBLE_OK, Some (s\<lparr>rumble_raw := p, rumble_updated_at_ms := t, rumble_updated := True\<rparr>))"
  using assms by (simp add: swbt_switch_rumble_update_def rumble_copy_full rumble_wf_def)

lemma rumble_update_wf:
  "swbt_switch_rumble_update (Some s) p t = (r, Some s') \<Longrightarrow> rumble_wf s' = rumble_wf s"
  by (auto simp: swbt_switch_rumble_update_def rumble_wf_def swbt_switch_rumble_copy_def
      split: option.splits)

section \<open>Player lights\<close>

datatype swbt_switch_player_lights_result_t =
    SWBT_SWITCH_PLAYER_LIGHTS_OK
  | SWBT_SWITCH_PLAYER_LIGHTS_ERROR_INVALID_ARGUMENT
  | SWBT_SWITCH_PLAYER_LIGHTS_ERROR_BUFFER_TOO_SMALL

record swbt_switch_player_lights_state_t =
  lights_raw :: u8
  lights_on_mask :: u8
  lights_flash_mask :: u8
  lights_effective_flash_mask :: u8
  lights_updated :: bool

definition SWBT_SWITCH_PLAYER_LIGHTS_MASK :: u8 where
  "SWBT_SWITCH_PLAYER_LIGHTS_MASK = 0x0F"

definition SWBT_SWITCH_PLAYER_LIGHTS_REPLY_DATA_SIZE :: nat where
  "SWBT_SWITCH_PLAYER_LIGHTS_REPLY_DATA_SIZE = 1"

definition swbt_switch_player_lights_apply_raw ::
  "swbt_switch_player_lights_state_t \<Rightarrow> u8 \<Rightarrow> swbt_switch_player_lights_state_t" where
  "swbt_switch_player_lights_apply_raw s raw =
     (let on_mask = raw AND SWBT_SWITCH_PLAYER_LIGHTS_MASK;
          flash_mask = drop_bit 4 raw AND SWBT_SWITCH_PLAYER_LIGHTS_MASK
      in s\<lparr>lights_raw := raw, lights_on_mask := on_mask, lights_flash_mask := flash_mask,
           lights_effective_flash_mask := flash_mask AND NOT on_mask AND SWBT_SWITCH_PLAYER_LIGHTS_MASK,
           lights_updated := True\<rparr>)"

definition swbt_switch_player_lights_init ::
  "swbt_switch_player_lights_state_t option
   \<Rightarrow> swbt_switch_player_lights_result_t \<times> swbt_switch_player_lights_state_t option" where
  "swbt_switch_player_lights_init state = (case state of
       None \<Rightarrow> (SWBT_SWITCH_PLAYER_LIGHTS_ERROR_INVALID_ARGUMENT, None)
     | Some s \<Rightarrow> (SWBT_SWITCH_PLAYER_LIGHTS_OK,
         Some (s\<lparr>lights_raw := 0, lights_on_mask := 0, lights_flash_mask := 0,
           lights_effective_flash_mask := 0, lights_updated := False\<rparr>)))"

definition swbt_switch_player_lights_apply_set ::
  "swbt_switch_player_lights_state_t option \<Rightarrow> bytes option
   \<Rightarrow> swbt_switch_player_lights_result_t \<times> swbt_switch_player_lights_state_t option" where
  "swbt_switch_player_lights_apply_set state payload = (case (state, payload) of
       (Some s, Some p) \<Rightarrow>
         if length p < SWBT_SWITCH_PLAYER_LIGHTS_REPLY_DATA_SIZE
         then (SWBT_SWITCH_PLAYER_LIGHTS_ERROR_INVALID_ARGUMENT, state)
         else (SWBT_SWITCH_PLAYER_LIGHTS_OK, Some (swbt_switch_player_lights_apply_raw s (p ! 0)))
     | _ \<Rightarrow> (SWBT_SWITCH_PLAYER_LIGHTS_ERROR_INVALID_ARGUMENT, state))"

definition swbt_switch_player_lights_get_reply_data ::
  "swbt_switch_player_lights_state_t option \<Rightarrow> bytes option \<Rightarrow> nat option
   \<Rightarrow> swbt_switch_player_lights_result_t \<times> bytes option \<times> nat option" where
  "swbt_switch_player_lights_get_reply_data state out_data out_written =
     (let out_written = store 0 out_written in
      case (state, out_data, out_written) of
        (Some s, Some out, Some w) \<Rightarrow>
          if length out < SWBT_SWITCH_PLAYER_LIGHTS_REPLY_DATA_SIZE
          then (SWBT_SWITCH_PLAYER_LIGHTS_ERROR_BUFFER_TOO_SMALL, out_data, out_written)
          else (SWBT_SWITCH_PLAYER_LIGHTS_OK, Some (out[0 := lights_raw s]),
                Some SWBT_SWITCH_PLAYER_LIGHTS_REPLY_DATA_SIZE)
      | _ \<Rightarrow> (SWBT_SWITCH_PLAYER_LIGHTS_ERROR_INVALID_ARGUMENT, out_data, out_written))"

text \<open>
  The light state is a function of the raw byte: the masks are its nibbles and
  a light that is switched on does not flash.
\<close>

definition lights_inv :: "swbt_switch_player_lights_state_t \<Rightarrow> bool" where
  "lights_inv s \<longleftrightarrow> lights_on_mask s = take_bit 4 (lights_raw s)
     \<and> lights_flash_mask s = drop_bit 4 (lights_raw s)
     \<and> lights_effective_flash_mask s = lights_flash_mask s AND NOT (lights_on_mask s)"

lemma lights_raw_apply [simp]: "lights_raw (swbt_switch_player_lights_apply_raw s raw) = raw"
  by (simp add: swbt_switch_player_lights_apply_raw_def Let_def)

lemma apply_raw_inv: "lights_inv (swbt_switch_player_lights_apply_raw s raw)"
proof -
  have "n < 4" if "bit raw (4 + n)" for n
    using bit_imp_le_length [OF that] by simp
  then show ?thesis
    unfolding lights_inv_def swbt_switch_player_lights_apply_raw_def SWBT_SWITCH_PLAYER_LIGHTS_MASK_def mask_words
    by (auto simp: Let_def bit_simps intro!: bit_word_eqI)
qed

lemma lights_effective_disjoint:
  "lights_inv s \<Longrightarrow> lights_effective_flash_mask s AND lights_on_mask s = 0"
  by (auto simp: lights_inv_def bit_simps intro!: bit_word_eqI)

lemma lights_init_inv: "swbt_switch_player_lights_init (Some s) = (r, Some s') \<Longrightarrow> lights_inv s'"
  by (auto simp: swbt_switch_player_lights_init_def lights_inv_def)

lemma lights_apply_set_inv:
  "swbt_switch_player_lights_apply_set (Some s) p = (r, Some s') \<Longrightarrow> lights_inv s \<Longrightarrow> lights_inv s'"
  by (auto simp: swbt_switch_player_lights_apply_set_def apply_raw_inv split: option.splits if_splits)

section \<open>Device information\<close>

record swbt_switch_device_info_t =
  firmware_version :: bytes
  controller_type :: u8
  bluetooth_address :: bytes
  tail_unknown :: u8
  color_source :: u8

definition swbt_switch_device_info_swbt_pro :: swbt_switch_device_info_t where
  "swbt_switch_device_info_swbt_pro =
     \<lparr>firmware_version = [0x04, 0x00], controller_type = 0x03, bluetooth_address = replicate 6 0,
      tail_unknown = 0x01, color_source = 0x01\<rparr>"

definition swbt_switch_device_info_default :: swbt_switch_device_info_t where
  "swbt_switch_device_info_default = swbt_switch_device_info_swbt_pro"

definition swbt_switch_device_info_write_reply_data ::
  "swbt_switch_device_info_t option \<Rightarrow> bytes option \<Rightarrow> bytes option" where
  "swbt_switch_device_info_write_reply_data device_info out_data = (case (device_info, out_data) of
       (Some d, Some out) \<Rightarrow>
         (let out = out[0 := firmware_version d ! 0];
              out = out[1 := firmware_version d ! 1];
              out = out[2 := controller_type d];
              out = out[3 := 0x02];
              out = copy_at out 4 (take 6 (bluetooth_address d));
              out = out[10 := tail_unknown d]
          in Some (out[11 := color_source d]))
     | _ \<Rightarrow> out_data)"

definition device_info_wf :: "swbt_switch_device_info_t \<Rightarrow> bool" where
  "device_info_wf d \<longleftrightarrow> length (firmware_version d) = 2 \<and> length (bluetooth_address d) = 6"

definition device_info_bytes :: "swbt_switch_device_info_t \<Rightarrow> bytes" where
  "device_info_bytes d = firmware_version d @ [controller_type d, 0x02] @ bluetooth_address d
     @ [tail_unknown d, color_source d]"

lemma device_info_default_wf [simp]: "device_info_wf swbt_switch_device_info_default"
  by (simp add: device_info_wf_def swbt_switch_device_info_default_def swbt_switch_device_info_swbt_pro_def)

lemma list2: "length xs = 2 \<Longrightarrow> xs = [xs ! 0, xs ! 1]"
  by (auto simp: numeral_2_eq_2 length_Suc_conv)

lemma write_reply_data_eq:
  assumes "device_info_wf d" "length out = 12"
  shows "swbt_switch_device_info_write_reply_data (Some d) (Some out) = Some (device_info_bytes d)"
proof -
  obtain a b where fw: "firmware_version d = [a, b]"
    using assms(1) list2 unfolding device_info_wf_def by blast
  obtain o0 o1 o2 o3 rest where out: "out = o0 # o1 # o2 # o3 # rest" and rest: "length rest = 8"
    using assms(2) by (auto simp: numeral_eq_Suc length_Suc_conv)
  have "copy_at out 4 (bluetooth_address d) = [o0, o1, o2, o3] @ bluetooth_address d @ drop 6 rest"
    using assms rest by (simp add: copy_at_eq_append out device_info_wf_def)
  moreover obtain x y where "drop 6 rest = [x, y]"
    using list2 [of "drop 6 rest"] rest by simp
  moreover obtain m0 m1 m2 m3 m4 m5 where "bluetooth_address d = [m0, m1, m2, m3, m4, m5]"
    using assms(1) by (auto simp: device_info_wf_def numeral_eq_Suc length_Suc_conv)
  ultimately show ?thesis
    by (simp add: swbt_switch_device_info_write_reply_data_def device_info_bytes_def fw out
        numeral_eq_Suc Let_def)
qed

lemma length_device_info_bytes [simp]: "device_info_wf d \<Longrightarrow> length (device_info_bytes d) = 12"
  by (simp add: device_info_bytes_def device_info_wf_def)

end
