(* ===== verification/Subcommand.thy ===== *)
theory Subcommand
  imports SwitchReport Spi Peripherals
begin

text \<open>
  Output reports of the Switch: parsing (\<open>switch/switch_subcommand.c\<close>) and the
  dispatcher that answers subcommands (\<open>switch/switch_subcommand_dispatcher.c\<close>).
\<close>

section \<open>Parsing output reports\<close>

datatype swbt_switch_subcommand_result_t =
    SWBT_SWITCH_SUBCOMMAND_OK
  | SWBT_SWITCH_SUBCOMMAND_ERROR_INVALID_ARGUMENT
  | SWBT_SWITCH_SUBCOMMAND_ERROR_PACKET_TOO_SHORT
  | SWBT_SWITCH_SUBCOMMAND_ERROR_UNSUPPORTED_REPORT_ID

text \<open>\<open>subcommand_data\<close> and \<open>subcommand_data_len\<close> are one optional byte list.\<close>

record swbt_switch_output_report_t =
  output_report_id :: u8
  packet_counter :: u8
  rumble :: bytes
  has_subcommand :: bool
  subcommand_id :: u8
  subcommand_data :: "bytes option"

definition SWBT_SWITCH_OUTPUT_REPORT_RUMBLE_AND_SUBCOMMAND :: u8 where
  "SWBT_SWITCH_OUTPUT_REPORT_RUMBLE_AND_SUBCOMMAND = 0x01"

definition SWBT_SWITCH_OUTPUT_REPORT_RUMBLE_ONLY :: u8 where
  "SWBT_SWITCH_OUTPUT_REPORT_RUMBLE_ONLY = 0x10"

definition SWBT_SWITCH_OUTPUT_RUMBLE_ONLY_SIZE :: nat where
  "SWBT_SWITCH_OUTPUT_RUMBLE_ONLY_SIZE = 10"

definition SWBT_SWITCH_OUTPUT_SUBCOMMAND_HEADER_SIZE :: nat where
  "SWBT_SWITCH_OUTPUT_SUBCOMMAND_HEADER_SIZE = 11"

lemmas output_report_constants =
  SWBT_SWITCH_OUTPUT_REPORT_RUMBLE_AND_SUBCOMMAND_def SWBT_SWITCH_OUTPUT_REPORT_RUMBLE_ONLY_def
  SWBT_SWITCH_OUTPUT_RUMBLE_ONLY_SIZE_def SWBT_SWITCH_OUTPUT_SUBCOMMAND_HEADER_SIZE_def

definition swbt_switch_reset_output_report :: "swbt_switch_output_report_t \<Rightarrow> swbt_switch_output_report_t" where
  "swbt_switch_reset_output_report r = r\<lparr>output_report_id := 0, packet_counter := 0,
     rumble := copy_at (rumble r) 0 (replicate 8 0), has_subcommand := False, subcommand_id := 0,
     subcommand_data := None\<rparr>"

definition swbt_switch_copy_rumble :: "bytes \<Rightarrow> swbt_switch_output_report_t \<Rightarrow> swbt_switch_output_report_t" where
  "swbt_switch_copy_rumble data r = r\<lparr>rumble := copy_at (rumble r) 0 (take 8 (drop 2 data))\<rparr>"

definition swbt_switch_parse_rumble_only ::
  "bytes \<Rightarrow> swbt_switch_output_report_t
   \<Rightarrow> swbt_switch_subcommand_result_t \<times> swbt_switch_output_report_t" where
  "swbt_switch_parse_rumble_only data r =
     (if length data < SWBT_SWITCH_OUTPUT_RUMBLE_ONLY_SIZE
      then (SWBT_SWITCH_SUBCOMMAND_ERROR_PACKET_TOO_SHORT, r)
      else (SWBT_SWITCH_SUBCOMMAND_OK, swbt_switch_copy_rumble data (r\<lparr>packet_counter := data ! 1\<rparr>)))"

definition swbt_switch_parse_rumble_and_subcommand ::
  "bytes \<Rightarrow> swbt_switch_output_report_t
   \<Rightarrow> swbt_switch_subcommand_result_t \<times> swbt_switch_output_report_t" where
  "swbt_switch_parse_rumble_and_subcommand data r =
     (if length data < SWBT_SWITCH_OUTPUT_SUBCOMMAND_HEADER_SIZE
      then (SWBT_SWITCH_SUBCOMMAND_ERROR_PACKET_TOO_SHORT, r)
      else let r = r\<lparr>packet_counter := data ! 1\<rparr>;
               r = swbt_switch_copy_rumble data r;
               r = r\<lparr>has_subcommand := True, subcommand_id := data ! 10\<rparr>;
               subcommand_data_len = length data - SWBT_SWITCH_OUTPUT_SUBCOMMAND_HEADER_SIZE
           in (SWBT_SWITCH_SUBCOMMAND_OK,
               r\<lparr>subcommand_data := (if subcommand_data_len > 0
                   then Some (drop SWBT_SWITCH_OUTPUT_SUBCOMMAND_HEADER_SIZE data) else None)\<rparr>))"

definition swbt_switch_parse_output_report ::
  "bytes option \<Rightarrow> swbt_switch_output_report_t option
   \<Rightarrow> swbt_switch_subcommand_result_t \<times> swbt_switch_output_report_t option" where
  "swbt_switch_parse_output_report data out_report =
     (let out_report = map_option swbt_switch_reset_output_report out_report in
      case (data, out_report) of
        (Some bs, Some r) \<Rightarrow>
          if length bs < 1 then (SWBT_SWITCH_SUBCOMMAND_ERROR_PACKET_TOO_SHORT, Some r)
          else let r = r\<lparr>output_report_id := bs ! 0\<rparr> in
            if bs ! 0 = SWBT_SWITCH_OUTPUT_REPORT_RUMBLE_AND_SUBCOMMAND
            then map_prod id Some (swbt_switch_parse_rumble_and_subcommand bs r)
            else if bs ! 0 = SWBT_SWITCH_OUTPUT_REPORT_RUMBLE_ONLY
            then map_prod id Some (swbt_switch_parse_rumble_only bs r)
            else (SWBT_SWITCH_SUBCOMMAND_ERROR_UNSUPPORTED_REPORT_ID, Some r)
      | _ \<Rightarrow> (SWBT_SWITCH_SUBCOMMAND_ERROR_INVALID_ARGUMENT, out_report))"

definition swbt_switch_subcommand_is_known :: "u8 \<Rightarrow> bool" where
  "swbt_switch_subcommand_is_known sid \<longleftrightarrow>
     sid \<in> set [0x00, 0x01, 0x02, 0x03, 0x04, 0x05, 0x06, 0x07, 0x08, 0x10, 0x11, 0x20, 0x21, 0x22,
       0x30, 0x31, 0x38, 0x40, 0x41, 0x42, 0x43, 0x48, 0x50]"

text \<open>What the Switch sends: the encodings the parser inverts.\<close>

definition rumble_packet :: "u8 \<Rightarrow> bytes \<Rightarrow> bytes" where
  "rumble_packet counter rmb = 0x10 # counter # rmb"

definition subcommand_packet :: "u8 \<Rightarrow> bytes \<Rightarrow> u8 \<Rightarrow> bytes \<Rightarrow> bytes" where
  "subcommand_packet counter rmb sid data = 0x01 # counter # rmb @ sid # data"

definition blank_output_report :: swbt_switch_output_report_t where
  "blank_output_report = \<lparr>output_report_id = 0, packet_counter = 0, rumble = replicate 8 0,
     has_subcommand = False, subcommand_id = 0, subcommand_data = None\<rparr>"

lemma reset_output_report_blank:
  "length (rumble r) = 8 \<Longrightarrow> swbt_switch_reset_output_report r = blank_output_report"
  by (simp add: swbt_switch_reset_output_report_def blank_output_report_def copy_at_all)

lemma parse_subcommand_packet:
  assumes "length (rumble r) = 8" "length rmb = 8"
  shows "swbt_switch_parse_output_report (Some (subcommand_packet counter rmb sid data)) (Some r) =
    (SWBT_SWITCH_SUBCOMMAND_OK,
     Some \<lparr>output_report_id = 0x01, packet_counter = counter, rumble = rmb, has_subcommand = True,
       subcommand_id = sid, subcommand_data = (if data = [] then None else Some data)\<rparr>)"
  using assms
  by (simp add: swbt_switch_parse_output_report_def reset_output_report_blank blank_output_report_def
      subcommand_packet_def swbt_switch_parse_rumble_and_subcommand_def output_report_constants
      swbt_switch_copy_rumble_def copy_at_all Let_def nth_append)

lemma parse_rumble_packet:
  assumes "length (rumble r) = 8" "length rmb = 8"
  shows "swbt_switch_parse_output_report (Some (rumble_packet counter rmb @ pad)) (Some r) =
    (SWBT_SWITCH_SUBCOMMAND_OK,
     Some (blank_output_report\<lparr>output_report_id := 0x10, packet_counter := counter, rumble := rmb\<rparr>))"
  using assms
  by (simp add: swbt_switch_parse_output_report_def reset_output_report_blank blank_output_report_def
      rumble_packet_def swbt_switch_parse_rumble_only_def output_report_constants
      swbt_switch_copy_rumble_def copy_at_all Let_def)

end
