(* ===== verification/Dispatcher.thy ===== *)
theory Dispatcher
  imports Subcommand
begin

text \<open>
  The subcommand dispatcher of \<open>switch/switch_subcommand_dispatcher.c\<close>. The only
  state it may change is the player light state its configuration points to, so
  every handler returns the result code, the response and the lights.
\<close>

datatype swbt_switch_subcommand_dispatch_result_t =
    SWBT_SWITCH_SUBCOMMAND_DISPATCH_OK
  | SWBT_SWITCH_SUBCOMMAND_DISPATCH_NO_REPLY
  | SWBT_SWITCH_SUBCOMMAND_DISPATCH_UNSUPPORTED
  | SWBT_SWITCH_SUBCOMMAND_DISPATCH_ERROR_INVALID_ARGUMENT
  | SWBT_SWITCH_SUBCOMMAND_DISPATCH_ERROR_MALFORMED_SUBCOMMAND
  | SWBT_SWITCH_SUBCOMMAND_DISPATCH_ERROR_SPI_READ_FAILED
  | SWBT_SWITCH_SUBCOMMAND_DISPATCH_ERROR_REPLY_BUILD_FAILED
  | SWBT_SWITCH_SUBCOMMAND_DISPATCH_ERROR_PLAYER_LIGHTS_FAILED

datatype swbt_switch_subcommand_dispatch_action_t =
    SWBT_SWITCH_SUBCOMMAND_DISPATCH_ACTION_NONE
  | SWBT_SWITCH_SUBCOMMAND_DISPATCH_ACTION_REPLY

record swbt_switch_subcommand_dispatcher_config_t =
  cfg_state :: "swbt_state_t option"
  cfg_report_options :: "swbt_switch_report_options_t option"
  cfg_spi :: "swbt_switch_spi_t option"
  cfg_player_lights :: "swbt_switch_player_lights_state_t option"
  cfg_device_info :: "swbt_switch_device_info_t option"

record swbt_switch_subcommand_dispatcher_response_t =
  resp_action :: swbt_switch_subcommand_dispatch_action_t
  resp_report :: bytes
  resp_report_size :: nat

type_synonym lights = swbt_switch_player_lights_state_t
type_synonym response = swbt_switch_subcommand_dispatcher_response_t

definition swbt_switch_subcommand_dispatcher_reset_response :: "response \<Rightarrow> response" where
  "swbt_switch_subcommand_dispatcher_reset_response r =
     r\<lparr>resp_action := SWBT_SWITCH_SUBCOMMAND_DISPATCH_ACTION_NONE, resp_report_size := 0,
       resp_report := copy_at (resp_report r) 0 (replicate SWBT_SWITCH_SUBCOMMAND_REPLY_REPORT_SIZE 0)\<rparr>"

definition swbt_switch_subcommand_dispatcher_build_reply ::
  "swbt_switch_subcommand_dispatcher_config_t \<Rightarrow> response \<Rightarrow> u8 \<Rightarrow> u8 \<Rightarrow> bytes option \<Rightarrow> nat
   \<Rightarrow> swbt_switch_subcommand_dispatch_result_t \<times> response" where
  "swbt_switch_subcommand_dispatcher_build_reply config response ack sid data data_len =
     (let reply = \<lparr>reply_ack = ack, reply_subcommand_id = sid, reply_data = data,
                    reply_data_len = data_len\<rparr>;
          (result, report, written) = swbt_switch_build_subcommand_reply (cfg_state config)
            (cfg_report_options config) (Some reply) (Some (resp_report response)) (Some 0);
          response = response\<lparr>resp_report := the report\<rparr>
      in if result \<noteq> SWBT_SWITCH_SUBCOMMAND_REPLY_OK
         then (SWBT_SWITCH_SUBCOMMAND_DISPATCH_ERROR_REPLY_BUILD_FAILED,
               swbt_switch_subcommand_dispatcher_reset_response response)
         else (SWBT_SWITCH_SUBCOMMAND_DISPATCH_OK,
               response\<lparr>resp_action := SWBT_SWITCH_SUBCOMMAND_DISPATCH_ACTION_REPLY,
                 resp_report_size := the written\<rparr>))"

definition swbt_switch_subcommand_dispatcher_simple_ack ::
  "swbt_switch_subcommand_dispatcher_config_t \<Rightarrow> swbt_switch_output_report_t \<Rightarrow> response
   \<Rightarrow> swbt_switch_subcommand_dispatch_result_t \<times> response" where
  "swbt_switch_subcommand_dispatcher_simple_ack config orep response =
     swbt_switch_subcommand_dispatcher_build_reply config response 0x80 (subcommand_id orep) None 0"

text \<open>The local arrays of the handlers are built up in the order of the code; the array of the SPI
  handler is not initialised there, and its bytes that are not written are not read either.\<close>

definition swbt_switch_subcommand_dispatcher_request_device_info ::
  "swbt_switch_subcommand_dispatcher_config_t \<Rightarrow> swbt_switch_output_report_t \<Rightarrow> response
   \<Rightarrow> swbt_switch_subcommand_dispatch_result_t \<times> response" where
  "swbt_switch_subcommand_dispatcher_request_device_info config orep response =
     (case cfg_device_info config of
        None \<Rightarrow> (SWBT_SWITCH_SUBCOMMAND_DISPATCH_ERROR_INVALID_ARGUMENT, response)
      | Some d \<Rightarrow>
          (let reply_data = swbt_switch_device_info_write_reply_data (Some d) (Some (replicate 12 0))
           in swbt_switch_subcommand_dispatcher_build_reply config response 0x82 (subcommand_id orep)
                reply_data 12))"

definition swbt_switch_subcommand_dispatcher_write_u16_le :: "bytes \<Rightarrow> nat \<Rightarrow> u16 \<Rightarrow> bytes" where
  "swbt_switch_subcommand_dispatcher_write_u16_le data offset v =
     data[offset := ucast (v AND 0xFF), offset + 1 := ucast (drop_bit 8 v AND 0xFF)]"

definition swbt_switch_subcommand_dispatcher_trigger_buttons_elapsed ::
  "swbt_switch_subcommand_dispatcher_config_t \<Rightarrow> swbt_switch_output_report_t \<Rightarrow> response
   \<Rightarrow> swbt_switch_subcommand_dispatch_result_t \<times> response" where
  "swbt_switch_subcommand_dispatcher_trigger_buttons_elapsed config orep response =
     (let reply_data = replicate 14 0;
          reply_data = swbt_switch_subcommand_dispatcher_write_u16_le reply_data 0 300;
          reply_data = swbt_switch_subcommand_dispatcher_write_u16_le reply_data 2 300
      in swbt_switch_subcommand_dispatcher_build_reply config response 0x83 (subcommand_id orep)
           (Some reply_data) 14)"

definition mcu_config_reply_data :: bytes where
  "mcu_config_reply_data =
     [0x01, 0x00, 0xFF, 0x00, 0x08, 0x00, 0x1B, 0x01, 0x00, 0x00, 0x00, 0x00,
      0x00, 0x00, 0x00, 0x00, 0x00, 0x00, 0x00, 0x00, 0x00, 0x00, 0x00, 0x00,
      0x00, 0x00, 0x00, 0x00, 0x00, 0x00, 0x00, 0x00, 0x00, 0xC8]"

definition swbt_switch_subcommand_dispatcher_set_mcu_config ::
  "swbt_switch_subcommand_dispatcher_config_t \<Rightarrow> swbt_switch_output_report_t \<Rightarrow> response
   \<Rightarrow> swbt_switch_subcommand_dispatch_result_t \<times> response" where
  "swbt_switch_subcommand_dispatcher_set_mcu_config config orep response =
     swbt_switch_subcommand_dispatcher_build_reply config response 0xA0 (subcommand_id orep)
       (Some mcu_config_reply_data) 34"

definition swbt_switch_subcommand_dispatcher_read_u32_le :: "bytes \<Rightarrow> u32" where
  "swbt_switch_subcommand_dispatcher_read_u32_le data =
     ucast (data ! 0) OR push_bit 8 (ucast (data ! 1)) OR push_bit 16 (ucast (data ! 2))
     OR push_bit 24 (ucast (data ! 3))"

definition swbt_switch_subcommand_dispatcher_spi_read ::
  "swbt_switch_subcommand_dispatcher_config_t \<Rightarrow> swbt_switch_output_report_t \<Rightarrow> response
   \<Rightarrow> swbt_switch_subcommand_dispatch_result_t \<times> response" where
  "swbt_switch_subcommand_dispatcher_spi_read config orep response =
     (case cfg_spi config of
        None \<Rightarrow> (SWBT_SWITCH_SUBCOMMAND_DISPATCH_ERROR_INVALID_ARGUMENT, response)
      | Some spi \<Rightarrow>
          (case subcommand_data orep of
             None \<Rightarrow> (SWBT_SWITCH_SUBCOMMAND_DISPATCH_ERROR_MALFORMED_SUBCOMMAND, response)
           | Some data \<Rightarrow>
               if length data < 5
               then (SWBT_SWITCH_SUBCOMMAND_DISPATCH_ERROR_MALFORMED_SUBCOMMAND, response)
               else let request = \<lparr>request_address = swbt_switch_subcommand_dispatcher_read_u32_le data,
                                    request_size = data ! 4\<rparr>;
                        (spi_result, bytes, read_size) =
                          swbt_switch_spi_read (Some spi) request (Some (replicate 29 0)) (Some 0)
                    in if spi_result \<noteq> SWBT_SWITCH_SPI_OK
                       then (SWBT_SWITCH_SUBCOMMAND_DISPATCH_ERROR_SPI_READ_FAILED, response)
                       else swbt_switch_subcommand_dispatcher_build_reply config response 0x90
                              (subcommand_id orep) (Some (take 5 data @ the bytes)) (5 + the read_size)))"

definition swbt_switch_subcommand_dispatcher_set_player_lights ::
  "swbt_switch_subcommand_dispatcher_config_t \<Rightarrow> swbt_switch_output_report_t \<Rightarrow> response
   \<Rightarrow> swbt_switch_subcommand_dispatch_result_t \<times> response \<times> lights option" where
  "swbt_switch_subcommand_dispatcher_set_player_lights config orep response =
     (case cfg_player_lights config of
        None \<Rightarrow> (SWBT_SWITCH_SUBCOMMAND_DISPATCH_ERROR_INVALID_ARGUMENT, response, None)
      | Some l \<Rightarrow>
          (let (player_lights_result, lights) =
                 swbt_switch_player_lights_apply_set (Some l) (subcommand_data orep)
           in if player_lights_result \<noteq> SWBT_SWITCH_PLAYER_LIGHTS_OK
              then (SWBT_SWITCH_SUBCOMMAND_DISPATCH_ERROR_MALFORMED_SUBCOMMAND, response, lights)
              else let (result, response) =
                         swbt_switch_subcommand_dispatcher_simple_ack config orep response
                   in (result, response, lights)))"

definition swbt_switch_subcommand_dispatcher_get_player_lights ::
  "swbt_switch_subcommand_dispatcher_config_t \<Rightarrow> swbt_switch_output_report_t \<Rightarrow> response
   \<Rightarrow> swbt_switch_subcommand_dispatch_result_t \<times> response" where
  "swbt_switch_subcommand_dispatcher_get_player_lights config orep response =
     (case cfg_player_lights config of
        None \<Rightarrow> (SWBT_SWITCH_SUBCOMMAND_DISPATCH_ERROR_INVALID_ARGUMENT, response)
      | Some l \<Rightarrow>
          (let (player_lights_result, reply_data, reply_data_len) =
                 swbt_switch_player_lights_get_reply_data (Some l) (Some (replicate 1 0)) (Some 0)
           in if player_lights_result \<noteq> SWBT_SWITCH_PLAYER_LIGHTS_OK
              then (SWBT_SWITCH_SUBCOMMAND_DISPATCH_ERROR_PLAYER_LIGHTS_FAILED, response)
              else swbt_switch_subcommand_dispatcher_build_reply config response 0xB0
                     (subcommand_id orep) reply_data (the reply_data_len)))"

text \<open>The whole dispatcher: result, response and player lights after the call.\<close>

definition swbt_switch_subcommand_dispatch ::
  "swbt_switch_subcommand_dispatcher_config_t option \<Rightarrow> swbt_switch_output_report_t option
   \<Rightarrow> response option
   \<Rightarrow> swbt_switch_subcommand_dispatch_result_t \<times> response option \<times> lights option" where
  "swbt_switch_subcommand_dispatch config output_report response =
     (let response = map_option swbt_switch_subcommand_dispatcher_reset_response response;
          lights = Option.bind config cfg_player_lights in
      case (config, output_report, response) of
        (Some cfg, Some orep, Some resp) \<Rightarrow>
          if cfg_state cfg = None \<or> cfg_report_options cfg = None
          then (SWBT_SWITCH_SUBCOMMAND_DISPATCH_ERROR_INVALID_ARGUMENT, response, lights)
          else if \<not> has_subcommand orep
          then (SWBT_SWITCH_SUBCOMMAND_DISPATCH_NO_REPLY, response, lights)
          else
            let keep = (\<lambda>(result, r). (result, Some r, lights)); sid = subcommand_id orep in
            if sid = 0x02 then keep (swbt_switch_subcommand_dispatcher_request_device_info cfg orep resp)
            else if sid = 0x04 then keep (swbt_switch_subcommand_dispatcher_trigger_buttons_elapsed cfg orep resp)
            else if sid = 0x21 then keep (swbt_switch_subcommand_dispatcher_set_mcu_config cfg orep resp)
            else if sid = 0x08 \<or> sid = 0x03 \<or> sid = 0x40 \<or> sid = 0x48
            then keep (swbt_switch_subcommand_dispatcher_simple_ack cfg orep resp)
            else if sid = 0x10 then keep (swbt_switch_subcommand_dispatcher_spi_read cfg orep resp)
            else if sid = 0x30
            then let (result, r, lights) = swbt_switch_subcommand_dispatcher_set_player_lights cfg orep resp
                 in (result, Some r, lights)
            else if sid = 0x31 then keep (swbt_switch_subcommand_dispatcher_get_player_lights cfg orep resp)
            else (SWBT_SWITCH_SUBCOMMAND_DISPATCH_UNSUPPORTED, response, lights)
      | _ \<Rightarrow> (SWBT_SWITCH_SUBCOMMAND_DISPATCH_ERROR_INVALID_ARGUMENT, response, lights))"

section \<open>What a reply contains\<close>

definition u32_bytes :: "u32 \<Rightarrow> bytes" where
  "u32_bytes a = [ucast a, ucast (drop_bit 8 a), ucast (drop_bit 16 a), ucast (drop_bit 24 a)]"

interpretation le32: fixed_codec u32_bytes swbt_switch_subcommand_dispatcher_read_u32_le id 4
proof unfold_locales
  fix a :: u32
  show "swbt_switch_subcommand_dispatcher_read_u32_le (u32_bytes a) = id a"
  proof (rule bit_word_eqI)
    fix k :: nat
    assume "k < LENGTH(32)"
    then consider "k < 8" | "8 \<le> k" "k < 16" | "16 \<le> k" "k < 24" | "24 \<le> k" "k < 32"
      by fastforce
    then show "bit (swbt_switch_subcommand_dispatcher_read_u32_le (u32_bytes a)) k \<longleftrightarrow> bit (id a) k"
      by cases (auto simp: u32_bytes_def swbt_switch_subcommand_dispatcher_read_u32_le_def bit_simps)
  qed
qed (simp_all add: u32_bytes_def)

lemma read_u32_le_prefix:
  "swbt_switch_subcommand_dispatcher_read_u32_le (u32_bytes a @ rest) = a"
  using le32.dec_enc [of a]
  by (simp add: u32_bytes_def swbt_switch_subcommand_dispatcher_read_u32_le_def)

text \<open>
  The abstract answer to a subcommand: the acknowledge byte and the data, if the
  subcommand is supported and well formed.
\<close>

definition spi_answer :: "swbt_switch_spi_t \<Rightarrow> bytes \<Rightarrow> (u8 \<times> bytes) option" where
  "spi_answer m data =
     (let a = unat (swbt_switch_subcommand_dispatcher_read_u32_le data); n = unat (data ! 4) in
      if 5 \<le> length data \<and> n \<le> 29 \<and> a + n \<le> 0x80000
      then Some (0x90, take 5 data @ map (\<lambda>i. spi_peek m (a + i)) [0..<n]) else None)"

definition answer ::
  "swbt_switch_spi_t \<Rightarrow> lights \<Rightarrow> swbt_switch_device_info_t \<Rightarrow> u8 \<Rightarrow> bytes \<Rightarrow> (u8 \<times> bytes) option" where
  "answer m l d sid data =
     (if sid \<in> {0x03, 0x08, 0x40, 0x48} then Some (0x80, [])
      else if sid = 0x02 then Some (0x82, device_info_bytes d)
      else if sid = 0x04 then Some (0x83, [0x2C, 0x01, 0x2C, 0x01] @ replicate 10 0)
      else if sid = 0x10 then spi_answer m data
      else if sid = 0x21 then Some (0xA0, mcu_config_reply_data)
      else if sid = 0x30 then if data = [] then None else Some (0x80, [])
      else if sid = 0x31 then Some (0xB0, [lights_raw l])
      else None)"

definition lights_after :: "lights \<Rightarrow> u8 \<Rightarrow> bytes \<Rightarrow> lights" where
  "lights_after l sid data =
     (if sid = 0x30 \<and> data \<noteq> [] then swbt_switch_player_lights_apply_raw l (data ! 0) else l)"

definition empty_response :: response where
  "empty_response = \<lparr>resp_action = SWBT_SWITCH_SUBCOMMAND_DISPATCH_ACTION_NONE,
     resp_report = replicate 50 0, resp_report_size = 0\<rparr>"

definition full_config ::
  "swbt_state_t \<Rightarrow> swbt_switch_report_options_t \<Rightarrow> swbt_switch_spi_t \<Rightarrow> lights \<Rightarrow> swbt_switch_device_info_t
   \<Rightarrow> swbt_switch_subcommand_dispatcher_config_t" where
  "full_config s opts m l d = \<lparr>cfg_state = Some s, cfg_report_options = Some opts, cfg_spi = Some m,
     cfg_player_lights = Some l, cfg_device_info = Some d\<rparr>"

lemma full_config_simps [simp]:
  "cfg_state (full_config s opts m l d) = Some s"
  "cfg_report_options (full_config s opts m l d) = Some opts"
  "cfg_spi (full_config s opts m l d) = Some m"
  "cfg_player_lights (full_config s opts m l d) = Some l"
  "cfg_device_info (full_config s opts m l d) = Some d"
  by (simp_all add: full_config_def)

definition reply_response ::
  "swbt_state_t \<Rightarrow> swbt_switch_report_options_t \<Rightarrow> u8 \<Rightarrow> u8 \<Rightarrow> bytes \<Rightarrow> response" where
  "reply_response s opts ack sid data = \<lparr>resp_action = SWBT_SWITCH_SUBCOMMAND_DISPATCH_ACTION_REPLY,
     resp_report = reply_bytes s opts ack sid data, resp_report_size = 50\<rparr>"

lemma reset_response_empty:
  "length (resp_report r) = 50 \<Longrightarrow>
   swbt_switch_subcommand_dispatcher_reset_response r = empty_response"
  by (simp add: swbt_switch_subcommand_dispatcher_reset_response_def empty_response_def copy_at_all
      SWBT_SWITCH_SUBCOMMAND_REPLY_REPORT_SIZE_def)

lemma dispatcher_build_reply_some:
  assumes "length data = n" "n \<le> 35"
  shows "swbt_switch_subcommand_dispatcher_build_reply (full_config s opts m l d) empty_response ack sid
      (Some data) n = (SWBT_SWITCH_SUBCOMMAND_DISPATCH_OK, reply_response s opts ack sid data)"
  using assms
  by (simp add: swbt_switch_subcommand_dispatcher_build_reply_def build_reply_ok [where data = data] empty_response_def
      reply_response_def)

lemma dispatcher_build_reply_none:
  "swbt_switch_subcommand_dispatcher_build_reply (full_config s opts m l d) empty_response ack sid
      None 0 = (SWBT_SWITCH_SUBCOMMAND_DISPATCH_OK, reply_response s opts ack sid [])"
  by (simp add: swbt_switch_subcommand_dispatcher_build_reply_def build_reply_ok_empty empty_response_def
      reply_response_def)

lemma build_reply_take:
  "reply_data_len r \<le> length data \<Longrightarrow> reply_data r = Some data \<Longrightarrow>
   swbt_switch_build_subcommand_reply s opts (Some r) out w =
   swbt_switch_build_subcommand_reply s opts
     (Some (r\<lparr>reply_data := Some (take (reply_data_len r) data)\<rparr>)) out w"
  by (simp add: swbt_switch_build_subcommand_reply_def Let_def split: option.splits)

text \<open>Only the first \<open>data_len\<close> bytes of a handler's array reach the reply.\<close>

lemma dispatcher_build_reply_prefix:
  assumes "length data = n" "n \<le> 35"
  shows "swbt_switch_subcommand_dispatcher_build_reply (full_config s opts m l d) empty_response ack sid
      (Some (data @ junk)) n = (SWBT_SWITCH_SUBCOMMAND_DISPATCH_OK, reply_response s opts ack sid data)"
  using assms dispatcher_build_reply_some [OF assms, of s opts m l d ack sid]
  by (simp add: swbt_switch_subcommand_dispatcher_build_reply_def
      build_reply_take [of _ "data @ junk"])

lemma spi_read_handler:
  assumes "subcommand_data orep = (if data = [] then None else Some data)"
  shows "swbt_switch_subcommand_dispatcher_spi_read (full_config s opts m l d) orep empty_response =
    (case spi_answer m data of
       Some (ack, bs) \<Rightarrow> (SWBT_SWITCH_SUBCOMMAND_DISPATCH_OK,
         reply_response s opts ack (subcommand_id orep) bs)
     | None \<Rightarrow> (if length data < 5 then SWBT_SWITCH_SUBCOMMAND_DISPATCH_ERROR_MALFORMED_SUBCOMMAND
              else SWBT_SWITCH_SUBCOMMAND_DISPATCH_ERROR_SPI_READ_FAILED, empty_response))"
proof (cases "length data < 5")
  case True
  then show ?thesis
    using assms
    by (simp add: swbt_switch_subcommand_dispatcher_spi_read_def spi_answer_def)
next
  case False
  then show ?thesis
    using assms
      dispatcher_build_reply_prefix [of "take 5 data @ map (\<lambda>i. spi_peek m
          (unat (swbt_switch_subcommand_dispatcher_read_u32_le data) + i)) [0..<unat (data ! 4)]"
        "5 + unat (data ! 4)" s opts m l d "0x90" "subcommand_id orep"]
    by (auto simp: swbt_switch_subcommand_dispatcher_spi_read_def spi_answer_def spi_read_eq Let_def)
qed

definition subcommand_report :: "u8 \<Rightarrow> bytes \<Rightarrow> swbt_switch_output_report_t \<Rightarrow> bool" where
  "subcommand_report sid data orep \<longleftrightarrow> has_subcommand orep \<and> subcommand_id orep = sid
     \<and> subcommand_data orep = (if data = [] then None else Some data)"

definition refusal :: "u8 \<Rightarrow> bytes \<Rightarrow> swbt_switch_subcommand_dispatch_result_t" where
  "refusal sid data =
     (if sid = 0x30 \<or> sid = 0x10 \<and> length data < 5
      then SWBT_SWITCH_SUBCOMMAND_DISPATCH_ERROR_MALFORMED_SUBCOMMAND
      else if sid = 0x10 then SWBT_SWITCH_SUBCOMMAND_DISPATCH_ERROR_SPI_READ_FAILED
      else SWBT_SWITCH_SUBCOMMAND_DISPATCH_UNSUPPORTED)"

lemma trigger_reply_data:
  "swbt_switch_subcommand_dispatcher_write_u16_le
     (swbt_switch_subcommand_dispatcher_write_u16_le (replicate 14 0) 0 300) 2 300 =
   [0x2C, 0x01, 0x2C, 0x01] @ replicate 10 0"
  by code_simp

text \<open>The handlers, one by one, on a complete configuration.\<close>

lemma handler_simple_ack:
  "swbt_switch_subcommand_dispatcher_simple_ack (full_config s opts m l d) orep empty_response =
   (SWBT_SWITCH_SUBCOMMAND_DISPATCH_OK, reply_response s opts 0x80 (subcommand_id orep) [])"
  by (simp add: swbt_switch_subcommand_dispatcher_simple_ack_def dispatcher_build_reply_none)

lemma handler_device_info:
  "device_info_wf d \<Longrightarrow>
   swbt_switch_subcommand_dispatcher_request_device_info (full_config s opts m l d) orep empty_response =
   (SWBT_SWITCH_SUBCOMMAND_DISPATCH_OK,
    reply_response s opts 0x82 (subcommand_id orep) (device_info_bytes d))"
  by (simp add: swbt_switch_subcommand_dispatcher_request_device_info_def write_reply_data_eq
      dispatcher_build_reply_some)

lemma handler_trigger:
  "swbt_switch_subcommand_dispatcher_trigger_buttons_elapsed (full_config s opts m l d) orep empty_response =
   (SWBT_SWITCH_SUBCOMMAND_DISPATCH_OK,
    reply_response s opts 0x83 (subcommand_id orep) ([0x2C, 0x01, 0x2C, 0x01] @ replicate 10 0))"
  unfolding swbt_switch_subcommand_dispatcher_trigger_buttons_elapsed_def Let_def trigger_reply_data
  by (rule dispatcher_build_reply_some) simp_all

lemma handler_mcu:
  "swbt_switch_subcommand_dispatcher_set_mcu_config (full_config s opts m l d) orep empty_response =
   (SWBT_SWITCH_SUBCOMMAND_DISPATCH_OK,
    reply_response s opts 0xA0 (subcommand_id orep) mcu_config_reply_data)"
  by (simp add: swbt_switch_subcommand_dispatcher_set_mcu_config_def dispatcher_build_reply_some
      mcu_config_reply_data_def)

lemma handler_get_lights:
  "swbt_switch_subcommand_dispatcher_get_player_lights (full_config s opts m l d) orep empty_response =
   (SWBT_SWITCH_SUBCOMMAND_DISPATCH_OK, reply_response s opts 0xB0 (subcommand_id orep) [lights_raw l])"
  by (simp add: swbt_switch_subcommand_dispatcher_get_player_lights_def dispatcher_build_reply_some
      swbt_switch_player_lights_get_reply_data_def SWBT_SWITCH_PLAYER_LIGHTS_REPLY_DATA_SIZE_def)

lemma handler_set_lights:
  "subcommand_data orep = (if data = [] then None else Some data) \<Longrightarrow>
   swbt_switch_subcommand_dispatcher_set_player_lights (full_config s opts m l d) orep empty_response =
   (if data = [] then (SWBT_SWITCH_SUBCOMMAND_DISPATCH_ERROR_MALFORMED_SUBCOMMAND, empty_response, Some l)
    else (SWBT_SWITCH_SUBCOMMAND_DISPATCH_OK, reply_response s opts 0x80 (subcommand_id orep) [],
          Some (swbt_switch_player_lights_apply_raw l (data ! 0))))"
  by (cases data)
     (simp_all add: swbt_switch_subcommand_dispatcher_set_player_lights_def handler_simple_ack
      swbt_switch_player_lights_apply_set_def SWBT_SWITCH_PLAYER_LIGHTS_REPLY_DATA_SIZE_def)

lemmas dispatch_handlers = handler_simple_ack handler_device_info handler_trigger handler_mcu
  handler_get_lights handler_set_lights spi_read_handler

lemma dispatch_refines_answer:
  assumes "subcommand_report sid data orep" "device_info_wf d" "length (resp_report resp) = 50"
  shows "swbt_switch_subcommand_dispatch (Some (full_config s opts m l d)) (Some orep) (Some resp) =
    (case answer m l d sid data of
       Some (ack, bs) \<Rightarrow> (SWBT_SWITCH_SUBCOMMAND_DISPATCH_OK, Some (reply_response s opts ack sid bs),
         Some (lights_after l sid data))
     | None \<Rightarrow> (refusal sid data, Some empty_response, Some l))"
  using assms
  by (simp add: swbt_switch_subcommand_dispatch_def subcommand_report_def Let_def reset_response_empty
      dispatch_handlers answer_def refusal_def lights_after_def split: option.splits)

text \<open>Whatever the dispatcher is given, the lights it leaves are the old ones or those of a raw byte.\<close>

lemma dispatch_lights:
  assumes "cfg_player_lights cfg = Some l"
  shows "\<exists>l'. snd (snd (swbt_switch_subcommand_dispatch (Some cfg) orep resp)) = Some l'
    \<and> (l' = l \<or> (\<exists>b. l' = swbt_switch_player_lights_apply_raw l b))"
proof -
  have "\<exists>l'. snd (snd (swbt_switch_subcommand_dispatcher_set_player_lights cfg o' r)) = Some l'
    \<and> (l' = l \<or> (\<exists>b. l' = swbt_switch_player_lights_apply_raw l b))" for o' r
    using assms
    by (auto simp: swbt_switch_subcommand_dispatcher_set_player_lights_def Let_def
        swbt_switch_player_lights_apply_set_def split: prod.splits option.splits)
  then show ?thesis
    using assms
    by (simp add: swbt_switch_subcommand_dispatch_def Let_def case_prod_beta split: option.splits)
qed

section \<open>Reading replies\<close>

lemma reply_bytes_nth:
  assumes "length data \<le> 35"
  shows "reply_bytes s opts ack sid data ! 0 = 0x21"
    and "reply_bytes s opts ack sid data ! 13 = ack"
    and "reply_bytes s opts ack sid data ! 14 = sid"
    and "i < length data \<Longrightarrow> reply_bytes s opts ack sid data ! (15 + i) = data ! i"
  using assms
  by (simp_all add: reply_bytes_def pad_to_def nth_append)
     (simp add: prefix_bytes_def SWBT_SWITCH_INPUT_REPORT_SUBCOMMAND_REPLY_def)

lemma length_answer:
  assumes "answer m l d sid data = Some (ack, bs)" "device_info_wf d"
  shows "length bs \<le> 35"
  using assms
  by (auto simp: answer_def spi_answer_def mcu_config_reply_data_def Let_def split: if_splits)

lemma parse_report_subcommand:
  assumes "length (rumble r) = 8" "length rmb = 8"
  obtains orep where
    "swbt_switch_parse_output_report (Some (subcommand_packet counter rmb sid data)) (Some r) =
      (SWBT_SWITCH_SUBCOMMAND_OK, Some orep)"
    and "subcommand_report sid data orep"
  using parse_subcommand_packet [OF assms, of counter sid data] that
  by (simp add: subcommand_report_def)

section \<open>Properties\<close>

text \<open>C28: Parsing accepts exactly the output reports 0x01 of at least 11 bytes and 0x10 of at least
  10 bytes, and on the packets the Switch sends it recovers the packet counter, the eight rumble
  bytes, the subcommand id and the subcommand data.\<close>

theorem parse_output_report_roundtrip:
  assumes "length (rumble r) = 8" and "length rmb = 8"
  shows "swbt_switch_parse_output_report (Some (subcommand_packet counter rmb sid data)) (Some r) =
      (SWBT_SWITCH_SUBCOMMAND_OK, Some \<lparr>output_report_id = 0x01, packet_counter = counter, rumble = rmb,
        has_subcommand = True, subcommand_id = sid,
        subcommand_data = (if data = [] then None else Some data)\<rparr>)
    \<and> swbt_switch_parse_output_report (Some (rumble_packet counter rmb @ data)) (Some r) =
      (SWBT_SWITCH_SUBCOMMAND_OK, Some \<lparr>output_report_id = 0x10, packet_counter = counter, rumble = rmb,
        has_subcommand = False, subcommand_id = 0, subcommand_data = None\<rparr>)
    \<and> (fst (swbt_switch_parse_output_report (Some bs) (Some r)) = SWBT_SWITCH_SUBCOMMAND_OK \<longleftrightarrow>
        length bs \<ge> 11 \<and> bs ! 0 = 0x01 \<or> length bs \<ge> 10 \<and> bs ! 0 = 0x10)"
proof (intro conjI)
  show "fst (swbt_switch_parse_output_report (Some bs) (Some r)) = SWBT_SWITCH_SUBCOMMAND_OK \<longleftrightarrow>
      length bs \<ge> 11 \<and> bs ! 0 = 0x01 \<or> length bs \<ge> 10 \<and> bs ! 0 = 0x10"
    by (auto simp: swbt_switch_parse_output_report_def output_report_constants Let_def
        swbt_switch_parse_rumble_and_subcommand_def swbt_switch_parse_rumble_only_def)
qed (simp_all add: parse_subcommand_packet parse_rumble_packet assms blank_output_report_def)

theorem parse_output_report_roundtrip_witness:
  "swbt_switch_parse_output_report (Some (subcommand_packet 3 [0, 1, 64, 64, 0, 1, 64, 64] 0x30 [0xF1]))
      (Some blank_output_report) =
    (SWBT_SWITCH_SUBCOMMAND_OK, Some \<lparr>output_report_id = 0x01, packet_counter = 3,
       rumble = [0, 1, 64, 64, 0, 1, 64, 64], has_subcommand = True, subcommand_id = 0x30,
       subcommand_data = Some [0xF1]\<rparr>)"
  using parse_output_report_roundtrip
    [of blank_output_report "[0, 1, 64, 64, 0, 1, 64, 64]" 3 "0x30" "[0xF1]"]
  by (simp add: blank_output_report_def)

text \<open>C15: The dispatcher answers by the table of the protocol. For every subcommand that the table answers, with every
  data, the reply is one 50 byte report 0x21 that carries the acknowledge byte and the data of this
  subcommand, padded with zeros, the id of the subcommand and the current controller state and options; player lights change
  by subcommand 0x30 only. For every other subcommand, and for malformed data, nothing is sent: the response is
  empty, the lights are kept and the result says whether the subcommand is malformed, cannot be read or
  is not supported.\<close>

theorem dispatch_reply_or_nothing:
  assumes "subcommand_report sid data orep" and "device_info_wf d" and "length (resp_report resp) = 50"
  shows "\<exists>result response lights.
     swbt_switch_subcommand_dispatch (Some (full_config s opts m l d)) (Some orep) (Some resp) =
       (result, Some response, Some lights) \<and>
     (case answer m l d sid data of
        Some (ack, bs) \<Rightarrow>
          result = SWBT_SWITCH_SUBCOMMAND_DISPATCH_OK
          \<and> resp_action response = SWBT_SWITCH_SUBCOMMAND_DISPATCH_ACTION_REPLY
          \<and> resp_report_size response = 50 \<and> length (resp_report response) = 50
          \<and> resp_report response ! 0 = 0x21 \<and> resp_report response ! 13 = ack \<and> resp_report response ! 14 = sid
          \<and> drop 15 (resp_report response) = bs @ replicate (35 - length bs) 0
          \<and> report_options_of (resp_report response) = opts
          \<and> button_decode (take 3 (drop 3 (resp_report response))) = take_bit 24 (buttons s)
          \<and> stick_decode (take 3 (drop 6 (resp_report response))) = stick_clamp (lx s, ly s)
          \<and> stick_decode (take 3 (drop 9 (resp_report response))) = stick_clamp (rx s, ry s)
          \<and> lights = lights_after l sid data
      | None \<Rightarrow> result = refusal sid data \<and> result \<noteq> SWBT_SWITCH_SUBCOMMAND_DISPATCH_OK \<and> response = empty_response \<and> lights = l)"
proof (cases "answer m l d sid data")
  case None
  then show ?thesis
    by (simp add: dispatch_refines_answer [OF assms] refusal_def)
next
  case (Some a)
  obtain ack bs where a: "a = (ack, bs)"
    by (cases a)
  then have "length bs \<le> 35"
    using Some length_answer assms(2) by blast
  moreover have "drop 15 (reply_bytes s opts ack sid bs) = pad_to 35 bs"
    by (simp add: reply_bytes_def)
  ultimately show ?thesis
    by (simp add: dispatch_refines_answer [OF assms] Some a reply_response_def reply_bytes_nth prefix_of_reply pad_to_def)
qed

text \<open>The SPI read subcommand, from the bytes of the output report to the bytes of the reply:
  for every address and size within the limits the reply acknowledges with 0x90, echoes the five
  bytes of the request and then holds the flash bytes at that address, and the lights are kept.\<close>

theorem spi_read_end_to_end:
  assumes "length (rumble r) = 8" and "length rmb = 8" and "device_info_wf d"
    and "length (resp_report resp) = 50"
    and "unat n \<le> 29" and "unat a + unat n \<le> 0x80000" and "i < unat n"
  shows "\<exists>orep response.
      swbt_switch_parse_output_report
        (Some (subcommand_packet counter rmb 0x10 (u32_bytes a @ n # rest))) (Some r) =
        (SWBT_SWITCH_SUBCOMMAND_OK, Some orep)
    \<and> swbt_switch_subcommand_dispatch (Some (full_config s opts m l d)) (Some orep) (Some resp) =
        (SWBT_SWITCH_SUBCOMMAND_DISPATCH_OK, Some response, Some l)
    \<and> resp_report response ! 13 = 0x90 \<and> resp_report response ! 14 = 0x10
    \<and> (\<forall>j < 5. resp_report response ! (15 + j) = (u32_bytes a @ [n]) ! j)
    \<and> resp_report response ! (20 + i) = spi_peek m (unat a + i)"
proof -
  let ?data = "u32_bytes a @ n # rest"
  let ?bs = "(u32_bytes a @ [n]) @ map (\<lambda>i. spi_peek m (unat a + i)) [0..<unat n]"
  obtain orep where parse: "swbt_switch_parse_output_report
        (Some (subcommand_packet counter rmb 0x10 ?data)) (Some r) = (SWBT_SWITCH_SUBCOMMAND_OK, Some orep)"
    and rep: "subcommand_report 0x10 ?data orep"
    using parse_report_subcommand [OF assms(1,2)] .
  have len4: "length (u32_bytes a) = 4"
    by (rule le32.length_enc)
  then have ans: "answer m l d 0x10 ?data = Some (0x90, ?bs)"
    using assms(5,6) by (simp add: answer_def spi_answer_def read_u32_le_prefix nth_append)
  have "resp_report (reply_response s opts 0x90 0x10 ?bs) ! (15 + (5 + i)) = ?bs ! (5 + i)"
    unfolding reply_response_def swbt_switch_subcommand_dispatcher_response_t.select_convs
    by (rule reply_bytes_nth(4)) (use assms(5,7) len4 in simp_all)
  also have "?bs ! (5 + i) = spi_peek m (unat a + i)"
    using assms(7) len4 by (simp add: nth_append)
  finally have "resp_report (reply_response s opts 0x90 0x10 ?bs) ! (20 + i) = spi_peek m (unat a + i)"
    by (simp add: add.assoc)
  moreover have "resp_report (reply_response s opts 0x90 0x10 ?bs) ! (15 + j) = (u32_bytes a @ [n]) ! j"
    if "j < 5" for j
    using assms(5) len4 that by (simp add: reply_response_def reply_bytes_nth nth_append)
  ultimately show ?thesis
    using parse dispatch_refines_answer [OF rep assms(3,4), of s opts m l] assms(5) len4
    by (simp add: ans lights_after_def) (simp add: reply_response_def reply_bytes_nth)
qed

definition demo_options :: swbt_switch_report_options_t where
  "demo_options = \<lparr>opt_timer = 1, opt_battery_connection = 0x8E, opt_vibrator_report = 0\<rparr>"

definition demo_lights :: lights where
  "demo_lights = \<lparr>lights_raw = 0, lights_on_mask = 0, lights_flash_mask = 0,
     lights_effective_flash_mask = 0, lights_updated = False\<rparr>"

definition demo_flash :: swbt_switch_spi_t where
  "demo_flash = spi_poke blank_spi 0x6050 dev_controller_colors"

theorem spi_read_end_to_end_witness:
  "\<exists>orep response.
      swbt_switch_parse_output_report
        (Some (subcommand_packet 0 (replicate 8 0) 0x10 (u32_bytes 0x6050 @ [6]))) (Some blank_output_report) =
        (SWBT_SWITCH_SUBCOMMAND_OK, Some orep)
    \<and> swbt_switch_subcommand_dispatch (Some (full_config swbt_state_neutral demo_options demo_flash demo_lights
          swbt_switch_device_info_default)) (Some orep) (Some empty_response) =
        (SWBT_SWITCH_SUBCOMMAND_DISPATCH_OK, Some response, Some demo_lights)
    \<and> resp_report response ! 13 = 0x90 \<and> resp_report response ! 22 = 0x0D"
  using spi_read_end_to_end [of blank_output_report "replicate 8 0" swbt_switch_device_info_default
      empty_response 6 "0x6050" 2 0 "[]" swbt_state_neutral demo_options demo_flash demo_lights]
  by (fastforce simp: blank_output_report_def empty_response_def demo_flash_def spi_peek_def spi_poke_def
      spi_copy_nth window_def dev_controller_colors_def)

theorem dispatch_reply_or_nothing_witness:
  "\<exists>response.
     swbt_switch_subcommand_dispatch
       (Some (full_config swbt_state_neutral demo_options demo_flash demo_lights swbt_switch_device_info_default))
       (Some (blank_output_report\<lparr>has_subcommand := True, subcommand_id := 0x02\<rparr>)) (Some empty_response) =
       (SWBT_SWITCH_SUBCOMMAND_DISPATCH_OK, Some response, Some demo_lights)
     \<and> resp_report response ! 13 = 0x82 \<and> resp_report response ! 14 = 0x02
     \<and> drop 15 (resp_report response) = device_info_bytes swbt_switch_device_info_default @ replicate 23 0
     \<and> report_options_of (resp_report response) = demo_options"
proof -
  have "subcommand_report 0x02 [] (blank_output_report\<lparr>has_subcommand := True, subcommand_id := 0x02\<rparr>)"
    and "length (resp_report empty_response) = 50"
    by (simp_all add: subcommand_report_def blank_output_report_def empty_response_def)
  moreover have "answer demo_flash demo_lights swbt_switch_device_info_default 0x02 [] = Some (0x82, device_info_bytes swbt_switch_device_info_default)"
    "lights_after demo_lights 0x02 [] = demo_lights" "length (device_info_bytes swbt_switch_device_info_default) = 12"
    using device_info_default_wf by (simp_all add: answer_def lights_after_def)
  ultimately show ?thesis
    using dispatch_reply_or_nothing [of "0x02" "[]" _ swbt_switch_device_info_default empty_response
      swbt_state_neutral demo_options demo_flash demo_lights, OF _ device_info_default_wf] by fastforce
qed

text \<open>The player lights keep their invariant over every dispatched report: the masks are the
  nibbles of the raw byte and a light that is on does not flash. Only subcommand 0x30 with data
  changes them, and a following subcommand 0x31 reports exactly the byte that was set.\<close>

theorem player_lights_dispatch:
  assumes "subcommand_report sid data orep" and "device_info_wf d" and "length (resp_report resp) = 50"
    and "lights_inv l"
  shows "\<exists>result response l'.
      swbt_switch_subcommand_dispatch (Some (full_config s opts m l d)) (Some orep) (Some resp) =
        (result, Some response, Some l')
    \<and> lights_inv l' \<and> lights_effective_flash_mask l' AND lights_on_mask l' = 0
    \<and> (l' \<noteq> l \<longrightarrow> sid = 0x30 \<and> data \<noteq> [])
    \<and> (sid = 0x30 \<and> data \<noteq> [] \<longrightarrow> result = SWBT_SWITCH_SUBCOMMAND_DISPATCH_OK \<and> lights_raw l' = data ! 0)
    \<and> (subcommand_report 0x31 query orep' \<longrightarrow> (\<exists>response'.
        swbt_switch_subcommand_dispatch (Some (full_config s opts m l' d)) (Some orep') (Some resp) =
          (SWBT_SWITCH_SUBCOMMAND_DISPATCH_OK, Some response', Some l')
        \<and> resp_report response' ! 15 = lights_raw l'))"
proof -
  have get: "\<exists>response'.
        swbt_switch_subcommand_dispatch (Some (full_config s opts m l' d)) (Some orep') (Some resp) =
          (SWBT_SWITCH_SUBCOMMAND_DISPATCH_OK, Some response', Some l')
        \<and> resp_report response' ! 15 = lights_raw l'" if "subcommand_report 0x31 query orep'" for l'
    using reply_bytes_nth(4) [of "[lights_raw l']" 0 s opts "0xB0" "0x31"]
    by (simp add: dispatch_refines_answer [OF that assms(2,3)] answer_def lights_after_def reply_response_def)
  have inv: "lights_inv (lights_after l sid data)"
    and raw: "sid = 0x30 \<and> data \<noteq> [] \<longrightarrow> lights_raw (lights_after l sid data) = data ! 0"
    and frame: "lights_after l sid data \<noteq> l \<longrightarrow> sid = 0x30 \<and> data \<noteq> []"
    using assms(4)
    by (simp_all add: lights_after_def apply_raw_inv)
  show ?thesis
  proof (cases "answer m l d sid data")
    case None
    then have "\<not> (sid = 0x30 \<and> data \<noteq> [])"
      by (auto simp: answer_def split: if_splits)
    moreover have "swbt_switch_subcommand_dispatch (Some (full_config s opts m l d)) (Some orep) (Some resp) =
        (refusal sid data, Some empty_response, Some l)"
      by (simp add: dispatch_refines_answer [OF assms(1-3)] None)
    ultimately show ?thesis
      using assms(4) lights_effective_disjoint [OF assms(4)] get [of l] by blast
  next
    case (Some a)
    then have "swbt_switch_subcommand_dispatch (Some (full_config s opts m l d)) (Some orep) (Some resp) =
        (SWBT_SWITCH_SUBCOMMAND_DISPATCH_OK, Some (reply_response s opts (fst a) sid (snd a)),
         Some (lights_after l sid data))"
      by (simp add: dispatch_refines_answer [OF assms(1-3)] split: prod.splits)
    then show ?thesis
      using inv raw frame lights_effective_disjoint [OF inv] get [of "lights_after l sid data"] by blast
  qed
qed

theorem player_lights_dispatch_witness:
  "\<exists>result response l'.
      swbt_switch_subcommand_dispatch
        (Some (full_config swbt_state_neutral demo_options demo_flash demo_lights swbt_switch_device_info_default))
        (Some (blank_output_report\<lparr>has_subcommand := True, subcommand_id := 0x30, subcommand_data := Some [0xF1]\<rparr>))
        (Some empty_response) = (result, Some response, Some l')
    \<and> lights_inv l' \<and> result = SWBT_SWITCH_SUBCOMMAND_DISPATCH_OK \<and> lights_raw l' = 0xF1"
proof -
  have "subcommand_report 0x30 [0xF1]
      (blank_output_report\<lparr>has_subcommand := True, subcommand_id := 0x30, subcommand_data := Some [0xF1]\<rparr>)"
    and "length (resp_report empty_response) = 50" and "lights_inv demo_lights"
    by (simp_all add: subcommand_report_def empty_response_def demo_lights_def lights_inv_def)
  from player_lights_dispatch [OF this(1) device_info_default_wf this(2,3),
      of swbt_state_neutral demo_options demo_flash "[]" blank_output_report]
  show ?thesis
    by auto
qed

end
