(* ===== verification/Lease.thy ===== *)
theory Lease
  imports Prelude
begin

text \<open>
  The ownership lease of \<open>domain/lease.c\<close>: at most one client may drive the
  controller, and the lease remembers the last sequence number it accepted.
\<close>

section \<open>Model\<close>

datatype swbt_domain_lease_result_t =
    SWBT_DOMAIN_LEASE_OK
  | SWBT_DOMAIN_LEASE_ERROR_OWNER_BUSY
  | SWBT_DOMAIN_LEASE_ERROR_NOT_OWNER

record swbt_domain_lease_snapshot_t =
  snap_has_owner :: bool
  snap_owner_client_id :: u32
  snap_last_sequence :: u64

record swbt_domain_lease_t =
  has_owner :: bool
  owner_client_id :: u32
  last_sequence :: u64

record swbt_domain_lease_accept_sequence_options_t =
  accept_client_id :: u32
  accept_sequence :: u64

definition swbt_domain_lease_init :: "swbt_domain_lease_t option \<Rightarrow> swbt_domain_lease_t option" where
  "swbt_domain_lease_init lease =
     map_option (\<lambda>l. l\<lparr>has_owner := False, owner_client_id := 0, last_sequence := 0\<rparr>) lease"

definition swbt_domain_lease_snapshot :: "swbt_domain_lease_t option \<Rightarrow> swbt_domain_lease_snapshot_t" where
  "swbt_domain_lease_snapshot lease = (case lease of
       None \<Rightarrow> \<lparr>snap_has_owner = False, snap_owner_client_id = 0, snap_last_sequence = 0\<rparr>
     | Some l \<Rightarrow> \<lparr>snap_has_owner = has_owner l, snap_owner_client_id = owner_client_id l,
                  snap_last_sequence = last_sequence l\<rparr>)"

definition swbt_domain_lease_acquire ::
  "swbt_domain_lease_t option \<Rightarrow> u32 \<Rightarrow> swbt_domain_lease_result_t \<times> swbt_domain_lease_t option" where
  "swbt_domain_lease_acquire lease client_id = (case lease of
       None \<Rightarrow> (SWBT_DOMAIN_LEASE_ERROR_NOT_OWNER, None)
     | Some l \<Rightarrow>
         if has_owner l \<and> owner_client_id l \<noteq> client_id then (SWBT_DOMAIN_LEASE_ERROR_OWNER_BUSY, Some l)
         else (SWBT_DOMAIN_LEASE_OK, Some (l\<lparr>has_owner := True, owner_client_id := client_id\<rparr>)))"

definition swbt_domain_lease_accept_sequence ::
  "swbt_domain_lease_t option \<Rightarrow> swbt_domain_lease_accept_sequence_options_t
   \<Rightarrow> swbt_domain_lease_result_t \<times> swbt_domain_lease_t option" where
  "swbt_domain_lease_accept_sequence lease options = (case lease of
       None \<Rightarrow> (SWBT_DOMAIN_LEASE_ERROR_NOT_OWNER, None)
     | Some l \<Rightarrow>
         if \<not> has_owner l \<or> owner_client_id l \<noteq> accept_client_id options
         then (SWBT_DOMAIN_LEASE_ERROR_NOT_OWNER, Some l)
         else (SWBT_DOMAIN_LEASE_OK, Some (l\<lparr>last_sequence := accept_sequence options\<rparr>)))"

definition swbt_domain_lease_revoke :: "swbt_domain_lease_t option \<Rightarrow> swbt_domain_lease_t option" where
  "swbt_domain_lease_revoke lease =
     map_option (\<lambda>l. l\<lparr>has_owner := False, owner_client_id := 0, last_sequence := 0\<rparr>) lease"

definition swbt_domain_lease_release ::
  "swbt_domain_lease_t option \<Rightarrow> u32 \<Rightarrow> swbt_domain_lease_result_t \<times> swbt_domain_lease_t option" where
  "swbt_domain_lease_release lease client_id = (case lease of
       None \<Rightarrow> (SWBT_DOMAIN_LEASE_ERROR_NOT_OWNER, None)
     | Some l \<Rightarrow>
         if \<not> has_owner l \<or> owner_client_id l \<noteq> client_id
         then (SWBT_DOMAIN_LEASE_ERROR_NOT_OWNER, Some l)
         else (SWBT_DOMAIN_LEASE_OK, swbt_domain_lease_revoke lease))"

definition swbt_domain_lease_revoke_if_owner ::
  "swbt_domain_lease_t option \<Rightarrow> u32 \<Rightarrow> bool \<times> swbt_domain_lease_t option" where
  "swbt_domain_lease_revoke_if_owner lease client_id = (case lease of
       None \<Rightarrow> (False, None)
     | Some l \<Rightarrow>
         if \<not> has_owner l \<or> owner_client_id l \<noteq> client_id then (False, Some l)
         else (True, swbt_domain_lease_revoke lease))"

text \<open>The owner the lease denotes, and the shape of a lease nobody holds.\<close>

definition lease_owner :: "swbt_domain_lease_t \<Rightarrow> u32 option" where
  "lease_owner l = (if has_owner l then Some (owner_client_id l) else None)"

definition lease_inv :: "swbt_domain_lease_t \<Rightarrow> bool" where
  "lease_inv l \<longleftrightarrow> (\<not> has_owner l \<longrightarrow> owner_client_id l = 0 \<and> last_sequence l = 0)"

lemmas lease_defs = swbt_domain_lease_init_def swbt_domain_lease_snapshot_def
  swbt_domain_lease_acquire_def swbt_domain_lease_accept_sequence_def swbt_domain_lease_revoke_def
  swbt_domain_lease_release_def swbt_domain_lease_revoke_if_owner_def

section \<open>Contract: exclusive ownership\<close>

text \<open>
  The operations of a lease as a client sees them: an attempt to take it, and an
  operation that gives it back. The laws say who can succeed; that ownership is
  exclusive over every interleaving of clients follows from them alone.
\<close>

datatype 'c lease_op = Take 'c | Give 'c

locale exclusive_lease =
  fixes owner :: "'s \<Rightarrow> 'c option"
    and take_lease :: "'s \<Rightarrow> 'c \<Rightarrow> bool \<times> 's"
    and give_lease :: "'s \<Rightarrow> 'c \<Rightarrow> bool \<times> 's"
  assumes take_free: "owner s = None \<or> owner s = Some c \<Longrightarrow>
      fst (take_lease s c) \<and> owner (snd (take_lease s c)) = Some c"
    and take_busy: "owner s = Some c' \<Longrightarrow> c' \<noteq> c \<Longrightarrow>
      \<not> fst (take_lease s c) \<and> owner (snd (take_lease s c)) = Some c'"
    and give_own: "owner s = Some c \<Longrightarrow>
      fst (give_lease s c) \<and> owner (snd (give_lease s c)) = None"
    and give_other: "owner s \<noteq> Some c \<Longrightarrow> owner (snd (give_lease s c)) = owner s"
begin

fun perform :: "'s \<Rightarrow> 'c lease_op \<Rightarrow> bool \<times> 's" where
  "perform s (Take c) = take_lease s c"
| "perform s (Give c) = give_lease s c"

fun perform_all :: "'s \<Rightarrow> 'c lease_op list \<Rightarrow> bool list \<times> 's" where
  "perform_all s [] = ([], s)"
| "perform_all s (a # as) =
     (let (ok, s1) = perform s a; (oks, s2) = perform_all s1 as in (ok # oks, s2))"

lemma take_iff: "fst (take_lease s c) \<longleftrightarrow> owner s \<in> {None, Some c}"
proof (cases "owner s \<in> {None, Some c}")
  case False
  then obtain c' where "owner s = Some c'" "c' \<noteq> c"
    by auto
  then show ?thesis
    by (simp add: take_busy)
qed (use take_free [of s c] in auto)

lemma perform_keeps_owner:
  assumes "owner s = Some c" "a \<noteq> Give c"
  shows "owner (snd (perform s a)) = Some c"
  using assms take_free [of s c] take_busy [of s c] give_other [of s]
  by (cases a) (metis perform.simps snd_conv option.inject)+

lemma length_perform_all: "length (fst (perform_all s as)) = length as"
  by (induction s as rule: perform_all.induct) (auto simp: Let_def split: prod.splits)

theorem exclusive:
  assumes "owner s = Some c" "Give c \<notin> set as"
  shows "owner (snd (perform_all s as)) = Some c"
    and "\<forall>i < length as. \<forall>c'. as ! i = Take c' \<longrightarrow> fst (perform_all s as) ! i = (c' = c)"
proof -
  have "owner (snd (perform_all s as)) = Some c \<and>
    (\<forall>i < length as. \<forall>c'. as ! i = Take c' \<longrightarrow> fst (perform_all s as) ! i = (c' = c))"
    using assms
  proof (induction as arbitrary: s)
    case (Cons a as)
    obtain ok s1 where a: "perform s a = (ok, s1)"
      by (cases "perform s a")
    have own: "owner s1 = Some c"
      using perform_keeps_owner [of s c a] Cons.prems a by auto
    have "ok = (c' = c)" if "a = Take c'" for c'
      using take_iff [of s c'] Cons.prems(1) a that by auto
    with Cons.IH [OF own] Cons.prems(2) a show ?case
      by (auto simp: nth_Cons' less_Suc_eq_0_disj split: prod.splits nat.splits)
  qed simp
  then show "owner (snd (perform_all s as)) = Some c"
    and "\<forall>i < length as. \<forall>c'. as ! i = Take c' \<longrightarrow> fst (perform_all s as) ! i = (c' = c)"
    by auto
qed

end

definition lease_take :: "swbt_domain_lease_t \<Rightarrow> u32 \<Rightarrow> bool \<times> swbt_domain_lease_t" where
  "lease_take l c = (let (r, l') = swbt_domain_lease_acquire (Some l) c in (r = SWBT_DOMAIN_LEASE_OK, the l'))"

definition lease_give :: "swbt_domain_lease_t \<Rightarrow> u32 \<Rightarrow> bool \<times> swbt_domain_lease_t" where
  "lease_give l c = (let (r, l') = swbt_domain_lease_release (Some l) c in (r = SWBT_DOMAIN_LEASE_OK, the l'))"

interpretation lease: exclusive_lease lease_owner lease_take lease_give
  by unfold_locales
     (auto simp: lease_owner_def lease_take_def lease_give_def lease_defs split: if_splits)

end
