(* ===== verification/Metrics.thy ===== *)
theory Metrics
  imports Prelude
begin

text \<open>
  The counters of \<open>support/metrics.c\<close>: report ticks with their send results and
  intervals, and accepted and rejected state updates.
\<close>

section \<open>Model\<close>

datatype swbt_metrics_result_t = SWBT_METRICS_OK | SWBT_METRICS_ERROR_INVALID_ARGUMENT

datatype swbt_metrics_report_send_result_t =
  SWBT_METRICS_REPORT_SEND_OK | SWBT_METRICS_REPORT_SEND_FAILED

datatype swbt_metrics_hardware_status_t =
  SWBT_METRICS_HARDWARE_UNAVAILABLE | SWBT_METRICS_HARDWARE_OBSERVED

record swbt_metrics_snapshot_t =
  report_ticks :: u64
  report_send_ok :: u64
  report_send_failed :: u64
  report_interval_count :: u64
  report_interval_average_us :: u64
  report_interval_max_us :: u64
  ipc_state_accepted :: u64
  ipc_state_rejected :: u64
  ipc_state_coalesced :: u64
  hardware_status :: swbt_metrics_hardware_status_t
  actual_report_rate_hz :: u32
  jitter_max_us :: u64

record swbt_metrics_t =
  snapshot :: swbt_metrics_snapshot_t
  report_interval_total_us :: u64
  last_report_tick_us :: u64
  has_last_report_tick :: bool

record swbt_metrics_report_tick_options_t =
  tick_now_us :: u64
  tick_send_result :: swbt_metrics_report_send_result_t

definition swbt_metrics_send_result_is_valid :: "swbt_metrics_report_send_result_t \<Rightarrow> bool" where
  "swbt_metrics_send_result_is_valid r \<longleftrightarrow>
     r = SWBT_METRICS_REPORT_SEND_OK \<or> r = SWBT_METRICS_REPORT_SEND_FAILED"

definition zero_metrics :: swbt_metrics_t where
  "zero_metrics =
     \<lparr>snapshot = \<lparr>report_ticks = 0, report_send_ok = 0, report_send_failed = 0,
        report_interval_count = 0, report_interval_average_us = 0, report_interval_max_us = 0,
        ipc_state_accepted = 0, ipc_state_rejected = 0, ipc_state_coalesced = 0,
        hardware_status = SWBT_METRICS_HARDWARE_UNAVAILABLE, actual_report_rate_hz = 0,
        jitter_max_us = 0\<rparr>,
      report_interval_total_us = 0, last_report_tick_us = 0, has_last_report_tick = False\<rparr>"

definition swbt_metrics_init :: "swbt_metrics_t option \<Rightarrow> swbt_metrics_result_t \<times> swbt_metrics_t option" where
  "swbt_metrics_init metrics = (case metrics of
       None \<Rightarrow> (SWBT_METRICS_ERROR_INVALID_ARGUMENT, None)
     | Some _ \<Rightarrow> (SWBT_METRICS_OK, Some zero_metrics))"

definition record_interval :: "swbt_metrics_t \<Rightarrow> u64 \<Rightarrow> swbt_metrics_t" where
  "record_interval m now_us =
     (let interval_us = now_us - last_report_tick_us m;
          count = report_interval_count (snapshot m) + 1;
          total = report_interval_total_us m + interval_us;
          snap = (snapshot m)\<lparr>report_interval_count := count, report_interval_average_us := total div count\<rparr>;
          snap = (if interval_us > report_interval_max_us snap
                  then snap\<lparr>report_interval_max_us := interval_us\<rparr> else snap)
      in m\<lparr>report_interval_total_us := total, snapshot := snap\<rparr>)"

definition swbt_metrics_record_report_tick ::
  "swbt_metrics_t option \<Rightarrow> swbt_metrics_report_tick_options_t
   \<Rightarrow> swbt_metrics_result_t \<times> swbt_metrics_t option" where
  "swbt_metrics_record_report_tick metrics options =
     (let now_us = tick_now_us options; send_result = tick_send_result options in
      case metrics of
        None \<Rightarrow> (SWBT_METRICS_ERROR_INVALID_ARGUMENT, None)
      | Some m \<Rightarrow>
          if \<not> swbt_metrics_send_result_is_valid send_result
          then (SWBT_METRICS_ERROR_INVALID_ARGUMENT, Some m)
          else if has_last_report_tick m \<and> now_us < last_report_tick_us m
          then (SWBT_METRICS_ERROR_INVALID_ARGUMENT, Some m)
          else
            let snap = (snapshot m)\<lparr>report_ticks := report_ticks (snapshot m) + 1\<rparr>;
                snap = (if send_result = SWBT_METRICS_REPORT_SEND_OK
                        then snap\<lparr>report_send_ok := report_send_ok snap + 1\<rparr>
                        else snap\<lparr>report_send_failed := report_send_failed snap + 1\<rparr>);
                m = m\<lparr>snapshot := snap\<rparr>;
                m = (if has_last_report_tick m then record_interval m now_us else m)
            in (SWBT_METRICS_OK, Some (m\<lparr>last_report_tick_us := now_us, has_last_report_tick := True\<rparr>)))"

definition swbt_metrics_record_state_update_accepted ::
  "swbt_metrics_t option \<Rightarrow> u64 \<Rightarrow> swbt_metrics_result_t \<times> swbt_metrics_t option" where
  "swbt_metrics_record_state_update_accepted metrics coalesced_updates = (case metrics of
       None \<Rightarrow> (SWBT_METRICS_ERROR_INVALID_ARGUMENT, None)
     | Some m \<Rightarrow> (SWBT_METRICS_OK,
         Some (m\<lparr>snapshot := (snapshot m)\<lparr>ipc_state_accepted := ipc_state_accepted (snapshot m) + 1,
           ipc_state_coalesced := ipc_state_coalesced (snapshot m) + coalesced_updates\<rparr>\<rparr>)))"

definition swbt_metrics_record_state_update_rejected ::
  "swbt_metrics_t option \<Rightarrow> swbt_metrics_result_t \<times> swbt_metrics_t option" where
  "swbt_metrics_record_state_update_rejected metrics = (case metrics of
       None \<Rightarrow> (SWBT_METRICS_ERROR_INVALID_ARGUMENT, None)
     | Some m \<Rightarrow> (SWBT_METRICS_OK,
         Some (m\<lparr>snapshot := (snapshot m)\<lparr>ipc_state_rejected := ipc_state_rejected (snapshot m) + 1\<rparr>\<rparr>)))"

definition swbt_metrics_snapshot ::
  "swbt_metrics_t option \<Rightarrow> swbt_metrics_snapshot_t option
   \<Rightarrow> swbt_metrics_result_t \<times> swbt_metrics_snapshot_t option" where
  "swbt_metrics_snapshot metrics out_snapshot = (case (metrics, out_snapshot) of
       (Some m, Some _) \<Rightarrow> (SWBT_METRICS_OK, Some (snapshot m))
     | _ \<Rightarrow> (SWBT_METRICS_ERROR_INVALID_ARGUMENT, out_snapshot))"

section \<open>A sequence of report ticks\<close>

type_synonym tick = "u64 \<times> swbt_metrics_report_send_result_t"

definition tick_options :: "tick \<Rightarrow> swbt_metrics_report_tick_options_t" where
  "tick_options t = \<lparr>tick_now_us = fst t, tick_send_result = snd t\<rparr>"

definition record_ticks :: "tick list \<Rightarrow> swbt_metrics_t option \<Rightarrow> swbt_metrics_t option" where
  "record_ticks ts m = fold (\<lambda>t m. snd (swbt_metrics_record_report_tick m (tick_options t))) ts m"

definition is_ok :: "tick \<Rightarrow> bool" where
  "is_ok t \<longleftrightarrow> snd t = SWBT_METRICS_REPORT_SEND_OK"

definition intervals :: "tick list \<Rightarrow> nat list" where
  "intervals ts = map (\<lambda>i. unat (fst (ts ! Suc i)) - unat (fst (ts ! i))) [0..<length ts - 1]"

text \<open>What the counters say after the ticks \<open>ts\<close>.\<close>

definition ticks_recorded :: "tick list \<Rightarrow> swbt_metrics_t \<Rightarrow> bool" where
  "ticks_recorded ts m \<longleftrightarrow>
     report_ticks (snapshot m) = of_nat (length ts)
   \<and> report_send_ok (snapshot m) = of_nat (length (filter is_ok ts))
   \<and> report_send_failed (snapshot m) = of_nat (length (filter (Not \<circ> is_ok) ts))
   \<and> has_last_report_tick m = (ts \<noteq> [])
   \<and> (ts \<noteq> [] \<longrightarrow> last_report_tick_us m = fst (last ts)
      \<and> report_interval_count (snapshot m) = of_nat (length ts - 1)
      \<and> report_interval_total_us m = fst (last ts) - fst (hd ts))
   \<and> (ts = [] \<longrightarrow> report_interval_count (snapshot m) = 0 \<and> report_interval_total_us m = 0)
   \<and> (1 < length ts \<longrightarrow> report_interval_average_us (snapshot m) =
        (fst (last ts) - fst (hd ts)) div of_nat (length ts - 1))
   \<and> unat (report_interval_max_us (snapshot m)) = Max (insert 0 (set (intervals ts)))"

lemma intervals_snoc:
  "ts \<noteq> [] \<Longrightarrow> intervals (ts @ [t]) = intervals ts @ [unat (fst t) - unat (fst (last ts))]"
  by (cases ts rule: rev_cases) (auto simp: intervals_def nth_append less_Suc_eq)

lemma record_tick_fields:
  assumes "has_last_report_tick m" "last_report_tick_us m \<le> fst t"
  obtains m' where "swbt_metrics_record_report_tick (Some m) (tick_options t) = (SWBT_METRICS_OK, Some m')"
    and "report_ticks (snapshot m') = report_ticks (snapshot m) + 1"
    and "report_send_ok (snapshot m') = report_send_ok (snapshot m) + (if is_ok t then 1 else 0)"
    and "report_send_failed (snapshot m') = report_send_failed (snapshot m) + (if is_ok t then 0 else 1)"
    and "has_last_report_tick m'" and "last_report_tick_us m' = fst t"
    and "report_interval_count (snapshot m') = report_interval_count (snapshot m) + 1"
    and "report_interval_total_us m' = report_interval_total_us m + (fst t - last_report_tick_us m)"
    and "report_interval_average_us (snapshot m') =
           (report_interval_total_us m + (fst t - last_report_tick_us m)) div (report_interval_count (snapshot m) + 1)"
    and "report_interval_max_us (snapshot m') =
           max (report_interval_max_us (snapshot m)) (fst t - last_report_tick_us m)"
  by (rule that [of "the (snd (swbt_metrics_record_report_tick (Some m) (tick_options t)))"];
      cases "snd t")
     (use assms in \<open>simp_all add: swbt_metrics_record_report_tick_def tick_options_def record_interval_def
      is_ok_def swbt_metrics_send_result_is_valid_def Let_def max_def leD not_less\<close>)

lemma unat_max: "unat (max a b) = max (unat a) (unat (b :: 'a::len word))"
  by (simp add: max_def word_le_nat_alt)

lemma record_tick_step:
  assumes "ticks_recorded ts m" "ts \<noteq> [] \<Longrightarrow> fst (last ts) \<le> fst t"
  shows "\<exists>m'. swbt_metrics_record_report_tick (Some m) (tick_options t) = (SWBT_METRICS_OK, Some m')
    \<and> ticks_recorded (ts @ [t]) m'"
proof (cases "ts = []")
  case True
  with assms show ?thesis
    by (cases "snd t") (auto simp: swbt_metrics_record_report_tick_def tick_options_def ticks_recorded_def
        is_ok_def swbt_metrics_send_result_is_valid_def intervals_def Let_def)
next
  case False
  have m: "has_last_report_tick m" "last_report_tick_us m = fst (last ts)"
      "report_interval_count (snapshot m) = of_nat (length ts - 1)"
      "report_interval_total_us m = fst (last ts) - fst (hd ts)"
      "unat (report_interval_max_us (snapshot m)) = Max (insert 0 (set (intervals ts)))"
      "report_ticks (snapshot m) = of_nat (length ts)"
      "report_send_ok (snapshot m) = of_nat (length (filter is_ok ts))"
      "report_send_failed (snapshot m) = of_nat (length (filter (Not \<circ> is_ok) ts))"
    using assms(1) False by (simp_all add: ticks_recorded_def)
  have le: "last_report_tick_us m \<le> fst t"
    using assms(2) False m(2) by simp
  have len: "of_nat (length ts - 1) + 1 = (of_nat (length ts) :: u64)"
    using False by (cases ts) simp_all
  have sub: "unat (fst t - fst (last ts)) = unat (fst t) - unat (fst (last ts))"
    using assms(2) False by (simp add: unat_sub)
  have max: "Max (insert 0 (set (intervals (ts @ [t])))) =
      max (Max (insert 0 (set (intervals ts)))) (unat (fst t - fst (last ts)))"
    using False by (simp add: intervals_snoc sub insert_commute [of 0] max.commute)
  obtain m' where m': "swbt_metrics_record_report_tick (Some m) (tick_options t) = (SWBT_METRICS_OK, Some m')"
      "report_ticks (snapshot m') = report_ticks (snapshot m) + 1"
      "report_send_ok (snapshot m') = report_send_ok (snapshot m) + (if is_ok t then 1 else 0)"
      "report_send_failed (snapshot m') = report_send_failed (snapshot m) + (if is_ok t then 0 else 1)"
      "has_last_report_tick m'" "last_report_tick_us m' = fst t"
      "report_interval_count (snapshot m') = report_interval_count (snapshot m) + 1"
      "report_interval_total_us m' = report_interval_total_us m + (fst t - last_report_tick_us m)"
      "report_interval_average_us (snapshot m') =
         (report_interval_total_us m + (fst t - last_report_tick_us m)) div (report_interval_count (snapshot m) + 1)"
      "report_interval_max_us (snapshot m') =
         max (report_interval_max_us (snapshot m)) (fst t - last_report_tick_us m)"
    by (rule record_tick_fields [OF m(1) le])
  have "ticks_recorded (ts @ [t]) m'"
    unfolding ticks_recorded_def max m' m len
    by (simp add: False unat_max m(5) m'(5) add.commute)
  with m'(1) show ?thesis
    by blast
qed

lemma record_ticks_snoc:
  "record_ticks (ts @ [t]) m = snd (swbt_metrics_record_report_tick (record_ticks ts m) (tick_options t))"
  by (simp add: record_ticks_def)

lemma ticks_recorded_zero: "ticks_recorded [] zero_metrics"
  by (simp add: ticks_recorded_def zero_metrics_def intervals_def)

section \<open>Properties\<close>

text \<open>After any sequence of report ticks with non-decreasing times, starting from initialised
  metrics, the tick, success and failure counters count exactly (modulo 2^64) the ticks of each kind,
  the average interval is the time between the first and the last tick divided by the number of
  intervals, and the maximum is the longest interval.\<close>

theorem report_ticks_recorded:
  assumes "sorted (map fst ts)"
  shows "\<exists>m. record_ticks ts (snd (swbt_metrics_init (Some old))) = Some m \<and> ticks_recorded ts m"
  using assms
proof (induction ts rule: rev_induct)
  case Nil
  show ?case
    by (simp add: record_ticks_def swbt_metrics_init_def ticks_recorded_zero)
next
  case (snoc t ts)
  have "sorted (map fst ts)" and le: "fst (last ts) \<le> fst t" if "ts \<noteq> []"
    using snoc.prems that by (simp_all add: sorted_append)
  then obtain m where m: "record_ticks ts (snd (swbt_metrics_init (Some old))) = Some m" "ticks_recorded ts m"
    using snoc by (cases "ts = []") auto
  obtain m' where "swbt_metrics_record_report_tick (Some m) (tick_options t) = (SWBT_METRICS_OK, Some m')"
      "ticks_recorded (ts @ [t]) m'"
    using record_tick_step [OF m(2) le] by blast
  then show ?case
    using m(1) by (simp add: record_ticks_snoc)
qed

theorem report_ticks_recorded_witness:
  "\<exists>m. record_ticks [(1000, SWBT_METRICS_REPORT_SEND_OK), (9000, SWBT_METRICS_REPORT_SEND_FAILED),
         (25000, SWBT_METRICS_REPORT_SEND_OK)] (snd (swbt_metrics_init (Some zero_metrics))) = Some m
     \<and> report_ticks (snapshot m) = 3 \<and> report_send_ok (snapshot m) = 2
     \<and> report_interval_average_us (snapshot m) = 12000"
  using report_ticks_recorded [of "[(1000, SWBT_METRICS_REPORT_SEND_OK), (9000, SWBT_METRICS_REPORT_SEND_FAILED),
         (25000, SWBT_METRICS_REPORT_SEND_OK)]" zero_metrics]
  by (auto simp: ticks_recorded_def is_ok_def)

end
