(* ===== verification/Domain.thy ===== *)
theory Domain
  imports Dispatcher Lease Metrics
begin

text \<open>
  The domain of \<open>domain/domain.c\<close>: the controller state, the ownership lease, the
  metrics and the emulated peripherals, behind one spin lock. Every operation
  runs between \<open>swbt_spin_lock_acquire\<close> and \<open>swbt_spin_lock_release\<close>, so it is one
  atomic step; the lock flag is part of the state, which lets the invariant say
  that every path of every operation releases it.
\<close>

section \<open>Types\<close>

datatype swbt_domain_daemon_backend_t =
    SWBT_DOMAIN_DAEMON_BACKEND_UNKNOWN
  | SWBT_DOMAIN_DAEMON_BACKEND_NOOP
  | SWBT_DOMAIN_DAEMON_BACKEND_PRODUCTION

datatype swbt_domain_daemon_lifecycle_state_t =
    SWBT_DOMAIN_DAEMON_LIFECYCLE_UNAVAILABLE
  | SWBT_DOMAIN_DAEMON_LIFECYCLE_STOPPED
  | SWBT_DOMAIN_DAEMON_LIFECYCLE_RUNNING

datatype swbt_domain_hardware_approval_t =
    SWBT_DOMAIN_HARDWARE_APPROVAL_UNAVAILABLE
  | SWBT_DOMAIN_HARDWARE_APPROVAL_APPROVED

datatype swbt_domain_hardware_channel_state_t =
    SWBT_DOMAIN_HARDWARE_CHANNEL_UNAVAILABLE
  | SWBT_DOMAIN_HARDWARE_CHANNEL_FAILED

record swbt_domain_daemon_status_t =
  backend :: swbt_domain_daemon_backend_t
  lifecycle_state :: swbt_domain_daemon_lifecycle_state_t
  hardware_approval :: swbt_domain_hardware_approval_t

record swbt_domain_hardware_status_t =
  adapter_state :: swbt_domain_hardware_channel_state_t
  switch_connection_state :: swbt_domain_hardware_channel_state_t
  hid_channel_state :: swbt_domain_hardware_channel_state_t

datatype swbt_domain_result_t =
    SWBT_DOMAIN_OK
  | SWBT_DOMAIN_ERROR_INVALID_ARGUMENT
  | SWBT_DOMAIN_ERROR_OWNER_BUSY
  | SWBT_DOMAIN_ERROR_NOT_OWNER
  | SWBT_DOMAIN_ERROR_STALE_SEQUENCE

datatype swbt_domain_revoke_reason_t =
    SWBT_DOMAIN_REVOKE_RELEASE
  | SWBT_DOMAIN_REVOKE_DISCONNECT
  | SWBT_DOMAIN_REVOKE_HEARTBEAT_TIMEOUT
  | SWBT_DOMAIN_REVOKE_SHUTDOWN

record swbt_domain_status_snapshot_t =
  st_has_owner :: bool
  st_owner_client_id :: u32
  st_last_sequence :: u64
  st_state :: swbt_state_t
  st_rumble :: swbt_switch_rumble_state_t
  st_metrics :: swbt_metrics_snapshot_t
  st_daemon :: swbt_domain_daemon_status_t
  st_hardware :: swbt_domain_hardware_status_t

record swbt_domain_set_state_options_t =
  set_client_id :: u32
  set_state :: "swbt_state_t option"
  set_sequence :: u64

record swbt_domain_revoke_options_t =
  revoke_reason :: swbt_domain_revoke_reason_t
  revoke_client_id :: u32

record swbt_domain =
  dom_lock :: bool
  dom_lease :: swbt_domain_lease_t
  dom_state :: swbt_state_t
  dom_metrics :: swbt_metrics_t
  dom_daemon :: swbt_domain_daemon_status_t
  dom_hardware :: swbt_domain_hardware_status_t
  dom_rumble :: swbt_switch_rumble_state_t
  dom_spi :: swbt_switch_spi_t
  dom_player_lights :: swbt_switch_player_lights_state_t

section \<open>Internal helpers\<close>

definition swbt_spin_lock_init :: "swbt_domain \<Rightarrow> swbt_domain" where
  "swbt_spin_lock_init app = app\<lparr>dom_lock := False\<rparr>"

definition swbt_spin_lock_acquire :: "swbt_domain \<Rightarrow> swbt_domain" where
  "swbt_spin_lock_acquire app = app\<lparr>dom_lock := True\<rparr>"

definition swbt_spin_lock_release :: "swbt_domain \<Rightarrow> swbt_domain" where
  "swbt_spin_lock_release app = app\<lparr>dom_lock := False\<rparr>"

fun swbt_domain_map_lease_result :: "swbt_domain_lease_result_t \<Rightarrow> swbt_domain_result_t" where
  "swbt_domain_map_lease_result SWBT_DOMAIN_LEASE_OK = SWBT_DOMAIN_OK"
| "swbt_domain_map_lease_result SWBT_DOMAIN_LEASE_ERROR_OWNER_BUSY = SWBT_DOMAIN_ERROR_OWNER_BUSY"
| "swbt_domain_map_lease_result SWBT_DOMAIN_LEASE_ERROR_NOT_OWNER = SWBT_DOMAIN_ERROR_NOT_OWNER"

definition swbt_domain_daemon_status_default :: swbt_domain_daemon_status_t where
  "swbt_domain_daemon_status_default = \<lparr>backend = SWBT_DOMAIN_DAEMON_BACKEND_UNKNOWN,
     lifecycle_state = SWBT_DOMAIN_DAEMON_LIFECYCLE_STOPPED,
     hardware_approval = SWBT_DOMAIN_HARDWARE_APPROVAL_UNAVAILABLE\<rparr>"

definition swbt_domain_hardware_status_default :: swbt_domain_hardware_status_t where
  "swbt_domain_hardware_status_default = \<lparr>adapter_state = SWBT_DOMAIN_HARDWARE_CHANNEL_UNAVAILABLE,
     switch_connection_state = SWBT_DOMAIN_HARDWARE_CHANNEL_UNAVAILABLE,
     hid_channel_state = SWBT_DOMAIN_HARDWARE_CHANNEL_UNAVAILABLE\<rparr>"

definition swbt_domain_apply_neutral :: "swbt_domain \<Rightarrow> swbt_domain" where
  "swbt_domain_apply_neutral app = app\<lparr>dom_state := swbt_state_neutral\<rparr>"

definition swbt_domain_revoke_all :: "swbt_domain \<Rightarrow> swbt_domain" where
  "swbt_domain_revoke_all app =
     swbt_domain_apply_neutral (app\<lparr>dom_lease := the (swbt_domain_lease_revoke (Some (dom_lease app)))\<rparr>)"

definition swbt_domain_record_state_update_rejected_locked :: "swbt_domain \<Rightarrow> swbt_domain" where
  "swbt_domain_record_state_update_rejected_locked app =
     app\<lparr>dom_metrics := the (snd (swbt_metrics_record_state_update_rejected (Some (dom_metrics app))))\<rparr>"

section \<open>Creation\<close>

text \<open>The value of \<open>(swbt_domain_t){0}\<close>.\<close>

definition zero_domain :: swbt_domain where
  "zero_domain =
     \<lparr>dom_lock = False,
      dom_lease = \<lparr>has_owner = False, owner_client_id = 0, last_sequence = 0\<rparr>,
      dom_state = \<lparr>buttons = 0, lx = 0, ly = 0, rx = 0, ry = 0, accel_x = 0, accel_y = 0, accel_z = 0,
        gyro_x = 0, gyro_y = 0, gyro_z = 0\<rparr>,
      dom_metrics = zero_metrics,
      dom_daemon = \<lparr>backend = SWBT_DOMAIN_DAEMON_BACKEND_UNKNOWN,
        lifecycle_state = SWBT_DOMAIN_DAEMON_LIFECYCLE_UNAVAILABLE,
        hardware_approval = SWBT_DOMAIN_HARDWARE_APPROVAL_UNAVAILABLE\<rparr>,
      dom_hardware = swbt_domain_hardware_status_default,
      dom_rumble = \<lparr>rumble_raw = replicate 8 0, rumble_updated_at_ms = 0, rumble_updated = False\<rparr>,
      dom_spi = \<lparr>spi_data = (\<lambda>_. 0), spi_default_value = 0\<rparr>,
      dom_player_lights = \<lparr>lights_raw = 0, lights_on_mask = 0, lights_flash_mask = 0,
        lights_effective_flash_mask = 0, lights_updated = False\<rparr>\<rparr>"

definition swbt_domain_init :: "swbt_domain option \<Rightarrow> swbt_domain_result_t \<times> swbt_domain option" where
  "swbt_domain_init app = (case app of
       None \<Rightarrow> (SWBT_DOMAIN_ERROR_INVALID_ARGUMENT, None)
     | Some _ \<Rightarrow>
         let a = swbt_spin_lock_init zero_domain;
             a = a\<lparr>dom_lease := the (swbt_domain_lease_init (Some (dom_lease a))),
                   dom_daemon := swbt_domain_daemon_status_default,
                   dom_hardware := swbt_domain_hardware_status_default\<rparr>;
             a = swbt_domain_apply_neutral a;
             (mr, m) = swbt_metrics_init (Some (dom_metrics a));
             a = a\<lparr>dom_metrics := the m\<rparr> in
         if mr \<noteq> SWBT_METRICS_OK then (SWBT_DOMAIN_ERROR_INVALID_ARGUMENT, Some a) else
         let (rr, r) = swbt_switch_rumble_init (Some (dom_rumble a)); a = a\<lparr>dom_rumble := the r\<rparr> in
         if rr \<noteq> SWBT_SWITCH_RUMBLE_OK then (SWBT_DOMAIN_ERROR_INVALID_ARGUMENT, Some a) else
         let (sr, s) = swbt_switch_spi_init (Some (dom_spi a)); a = a\<lparr>dom_spi := the s\<rparr> in
         if sr \<noteq> SWBT_SWITCH_SPI_OK then (SWBT_DOMAIN_ERROR_INVALID_ARGUMENT, Some a) else
         let (er, s) = swbt_switch_spi_seed_apply (Some (dom_spi a)) (Some swbt_switch_spi_seed_dev_profile);
             a = a\<lparr>dom_spi := the s\<rparr> in
         if er \<noteq> SWBT_SWITCH_SPI_OK then (SWBT_DOMAIN_ERROR_INVALID_ARGUMENT, Some a) else
         let (lr, l) = swbt_switch_player_lights_init (Some (dom_player_lights a));
             a = a\<lparr>dom_player_lights := the l\<rparr> in
         if lr \<noteq> SWBT_SWITCH_PLAYER_LIGHTS_OK then (SWBT_DOMAIN_ERROR_INVALID_ARGUMENT, Some a)
         else (SWBT_DOMAIN_OK, Some a))"

text \<open>The argument is the memory that \<open>malloc\<close> returned.\<close>

definition swbt_domain_create :: "swbt_domain option \<Rightarrow> swbt_domain option" where
  "swbt_domain_create mem = (case mem of
       None \<Rightarrow> None
     | Some m \<Rightarrow> (let (result, app) = swbt_domain_init (Some m) in
                 if result \<noteq> SWBT_DOMAIN_OK then None else app))"

section \<open>Operations\<close>

definition swbt_domain_acquire ::
  "swbt_domain option \<Rightarrow> u32 \<Rightarrow> swbt_domain_result_t \<times> swbt_domain option" where
  "swbt_domain_acquire app client_id = (case app of
       None \<Rightarrow> (SWBT_DOMAIN_ERROR_INVALID_ARGUMENT, None)
     | Some a \<Rightarrow>
         let a = swbt_spin_lock_acquire a;
             (lr, l) = swbt_domain_lease_acquire (Some (dom_lease a)) client_id;
             a = a\<lparr>dom_lease := the l\<rparr>
         in (swbt_domain_map_lease_result lr, Some (swbt_spin_lock_release a)))"

definition swbt_domain_set_state ::
  "swbt_domain option \<Rightarrow> swbt_domain_set_state_options_t \<Rightarrow> swbt_domain_result_t \<times> swbt_domain option" where
  "swbt_domain_set_state app options =
     (let client_id = set_client_id options; sequence = set_sequence options in
      case (app, set_state options) of
        (Some a, Some new_state) \<Rightarrow>
          let a = swbt_spin_lock_acquire a;
              lease = swbt_domain_lease_snapshot (Some (dom_lease a)) in
          if \<not> snap_has_owner lease \<or> snap_owner_client_id lease \<noteq> client_id
          then (SWBT_DOMAIN_ERROR_NOT_OWNER,
                Some (swbt_spin_lock_release (swbt_domain_record_state_update_rejected_locked a)))
          else if sequence < snap_last_sequence lease
          then (SWBT_DOMAIN_ERROR_STALE_SEQUENCE,
                Some (swbt_spin_lock_release (swbt_domain_record_state_update_rejected_locked a)))
          else
            let (lr, l) = swbt_domain_lease_accept_sequence (Some (dom_lease a))
                  \<lparr>accept_client_id = client_id, accept_sequence = sequence\<rparr>;
                a = a\<lparr>dom_lease := the l\<rparr>;
                sequence_result = swbt_domain_map_lease_result lr in
            if sequence_result \<noteq> SWBT_DOMAIN_OK
            then (sequence_result,
                  Some (swbt_spin_lock_release (swbt_domain_record_state_update_rejected_locked a)))
            else
              let a = a\<lparr>dom_state := new_state\<rparr>;
                  a = a\<lparr>dom_metrics :=
                    the (snd (swbt_metrics_record_state_update_accepted (Some (dom_metrics a)) 0))\<rparr>
              in (SWBT_DOMAIN_OK, Some (swbt_spin_lock_release a))
      | _ \<Rightarrow> (SWBT_DOMAIN_ERROR_INVALID_ARGUMENT, app))"

definition swbt_domain_revoke ::
  "swbt_domain option \<Rightarrow> swbt_domain_revoke_options_t \<Rightarrow> swbt_domain_result_t \<times> swbt_domain option" where
  "swbt_domain_revoke app options =
     (let client_id = revoke_client_id options in
      case app of
        None \<Rightarrow> (SWBT_DOMAIN_ERROR_INVALID_ARGUMENT, None)
      | Some a \<Rightarrow>
          let a = swbt_spin_lock_acquire a;
              if_owner = (let (revoked, l) = swbt_domain_lease_revoke_if_owner (Some (dom_lease a)) client_id;
                              a = a\<lparr>dom_lease := the l\<rparr>;
                              a = (if revoked then swbt_domain_apply_neutral a else a)
                          in (SWBT_DOMAIN_OK, Some (swbt_spin_lock_release a)))
          in (case revoke_reason options of
                SWBT_DOMAIN_REVOKE_RELEASE \<Rightarrow>
                  (let (lr, l) = swbt_domain_lease_release (Some (dom_lease a)) client_id;
                       a = a\<lparr>dom_lease := the l\<rparr>
                   in if lr \<noteq> SWBT_DOMAIN_LEASE_OK
                      then (SWBT_DOMAIN_ERROR_NOT_OWNER, Some (swbt_spin_lock_release a))
                      else (SWBT_DOMAIN_OK, Some (swbt_spin_lock_release (swbt_domain_apply_neutral a))))
              | SWBT_DOMAIN_REVOKE_DISCONNECT \<Rightarrow> if_owner
              | SWBT_DOMAIN_REVOKE_HEARTBEAT_TIMEOUT \<Rightarrow> if_owner
              | SWBT_DOMAIN_REVOKE_SHUTDOWN \<Rightarrow>
                  (SWBT_DOMAIN_OK, Some (swbt_spin_lock_release (swbt_domain_revoke_all a)))))"

definition swbt_domain_read_controller_state ::
  "swbt_domain option \<Rightarrow> swbt_state_t option \<Rightarrow> swbt_domain_result_t \<times> swbt_state_t option" where
  "swbt_domain_read_controller_state app out_state = (case (app, out_state) of
       (Some a, Some _) \<Rightarrow> (SWBT_DOMAIN_OK, Some (dom_state a))
     | _ \<Rightarrow> (SWBT_DOMAIN_ERROR_INVALID_ARGUMENT, out_state))"

definition swbt_domain_read_status ::
  "swbt_domain option \<Rightarrow> swbt_domain_status_snapshot_t option
   \<Rightarrow> swbt_domain_result_t \<times> swbt_domain_status_snapshot_t option" where
  "swbt_domain_read_status app out_status = (case (app, out_status) of
       (Some a, Some out) \<Rightarrow>
         let lease = swbt_domain_lease_snapshot (Some (dom_lease a));
             out = out\<lparr>st_has_owner := snap_has_owner lease, st_owner_client_id := snap_owner_client_id lease,
               st_last_sequence := snap_last_sequence lease, st_state := dom_state a, st_rumble := dom_rumble a\<rparr>;
             (mr, ms) = swbt_metrics_snapshot (Some (dom_metrics a)) (Some (st_metrics out));
             out = out\<lparr>st_metrics := the ms\<rparr> in
         if mr \<noteq> SWBT_METRICS_OK then (SWBT_DOMAIN_ERROR_INVALID_ARGUMENT, Some out)
         else (SWBT_DOMAIN_OK, Some (out\<lparr>st_daemon := dom_daemon a, st_hardware := dom_hardware a\<rparr>))
     | _ \<Rightarrow> (SWBT_DOMAIN_ERROR_INVALID_ARGUMENT, out_status))"

definition swbt_domain_set_daemon_status ::
  "swbt_domain option \<Rightarrow> swbt_domain_daemon_status_t option \<Rightarrow> swbt_domain_result_t \<times> swbt_domain option" where
  "swbt_domain_set_daemon_status app daemon_status = (case (app, daemon_status) of
       (Some a, Some d) \<Rightarrow>
         (SWBT_DOMAIN_OK, Some (swbt_spin_lock_release ((swbt_spin_lock_acquire a)\<lparr>dom_daemon := d\<rparr>)))
     | _ \<Rightarrow> (SWBT_DOMAIN_ERROR_INVALID_ARGUMENT, app))"

definition swbt_domain_set_daemon_lifecycle ::
  "swbt_domain option \<Rightarrow> swbt_domain_daemon_lifecycle_state_t \<Rightarrow> swbt_domain_result_t \<times> swbt_domain option" where
  "swbt_domain_set_daemon_lifecycle app ls = (case app of
       None \<Rightarrow> (SWBT_DOMAIN_ERROR_INVALID_ARGUMENT, None)
     | Some a \<Rightarrow>
         let a = swbt_spin_lock_acquire a; a = a\<lparr>dom_daemon := (dom_daemon a)\<lparr>lifecycle_state := ls\<rparr>\<rparr>
         in (SWBT_DOMAIN_OK, Some (swbt_spin_lock_release a)))"

definition swbt_domain_set_hardware_approval ::
  "swbt_domain option \<Rightarrow> swbt_domain_hardware_approval_t \<Rightarrow> swbt_domain_result_t \<times> swbt_domain option" where
  "swbt_domain_set_hardware_approval app ha = (case app of
       None \<Rightarrow> (SWBT_DOMAIN_ERROR_INVALID_ARGUMENT, None)
     | Some a \<Rightarrow>
         let a = swbt_spin_lock_acquire a; a = a\<lparr>dom_daemon := (dom_daemon a)\<lparr>hardware_approval := ha\<rparr>\<rparr>
         in (SWBT_DOMAIN_OK, Some (swbt_spin_lock_release a)))"

definition swbt_domain_set_hardware_status ::
  "swbt_domain option \<Rightarrow> swbt_domain_hardware_status_t option \<Rightarrow> swbt_domain_result_t \<times> swbt_domain option" where
  "swbt_domain_set_hardware_status app hs = (case (app, hs) of
       (Some a, Some h) \<Rightarrow>
         (SWBT_DOMAIN_OK, Some (swbt_spin_lock_release ((swbt_spin_lock_acquire a)\<lparr>dom_hardware := h\<rparr>)))
     | _ \<Rightarrow> (SWBT_DOMAIN_ERROR_INVALID_ARGUMENT, app))"

definition swbt_domain_record_report_tick ::
  "swbt_domain option \<Rightarrow> u64 \<Rightarrow> swbt_metrics_report_send_result_t \<Rightarrow> swbt_domain_result_t \<times> swbt_domain option" where
  "swbt_domain_record_report_tick app now_us send_result = (case app of
       None \<Rightarrow> (SWBT_DOMAIN_ERROR_INVALID_ARGUMENT, None)
     | Some a \<Rightarrow>
         let a = swbt_spin_lock_acquire a;
             (result, m) = swbt_metrics_record_report_tick (Some (dom_metrics a))
               \<lparr>tick_now_us = now_us, tick_send_result = send_result\<rparr>;
             a = a\<lparr>dom_metrics := the m\<rparr>
         in (if result = SWBT_METRICS_OK then SWBT_DOMAIN_OK else SWBT_DOMAIN_ERROR_INVALID_ARGUMENT,
             Some (swbt_spin_lock_release a)))"

definition swbt_domain_record_state_update_rejected ::
  "swbt_domain option \<Rightarrow> swbt_domain_result_t \<times> swbt_domain option" where
  "swbt_domain_record_state_update_rejected app = (case app of
       None \<Rightarrow> (SWBT_DOMAIN_ERROR_INVALID_ARGUMENT, None)
     | Some a \<Rightarrow> (SWBT_DOMAIN_OK, Some (swbt_spin_lock_release
         (swbt_domain_record_state_update_rejected_locked (swbt_spin_lock_acquire a)))))"

definition swbt_domain_record_rumble ::
  "swbt_domain option \<Rightarrow> bytes option \<Rightarrow> u64 \<Rightarrow> swbt_domain_result_t \<times> swbt_domain option" where
  "swbt_domain_record_rumble app payload updated_at_ms = (case (app, payload) of
       (Some a, Some p) \<Rightarrow>
         let a = swbt_spin_lock_acquire a;
             (result, r) = swbt_switch_rumble_update (Some (dom_rumble a)) (Some p) updated_at_ms;
             a = a\<lparr>dom_rumble := the r\<rparr>
         in (if result = SWBT_SWITCH_RUMBLE_OK then SWBT_DOMAIN_OK else SWBT_DOMAIN_ERROR_INVALID_ARGUMENT,
             Some (swbt_spin_lock_release a))
     | _ \<Rightarrow> (SWBT_DOMAIN_ERROR_INVALID_ARGUMENT, app))"

definition swbt_domain_handle_output_report ::
  "swbt_domain option \<Rightarrow> swbt_switch_output_report_t option \<Rightarrow> swbt_switch_report_options_t option
   \<Rightarrow> swbt_switch_device_info_t option \<Rightarrow> u64 \<Rightarrow> response option
   \<Rightarrow> swbt_domain_result_t \<times> swbt_domain option \<times> response option" where
  "swbt_domain_handle_output_report app output_report report_options device_info updated_at_ms out_response =
     (case (app, output_report, report_options, device_info, out_response) of
        (Some a, Some orep, Some opts, Some d, Some resp) \<Rightarrow>
          let a = swbt_spin_lock_acquire a;
              (rr, r) = swbt_switch_rumble_update (Some (dom_rumble a)) (Some (rumble orep)) updated_at_ms;
              a = a\<lparr>dom_rumble := the r\<rparr> in
          if rr \<noteq> SWBT_SWITCH_RUMBLE_OK
          then (SWBT_DOMAIN_ERROR_INVALID_ARGUMENT, Some (swbt_spin_lock_release a), out_response)
          else
            let dispatch_config = \<lparr>cfg_state = Some (dom_state a), cfg_report_options = Some opts,
                  cfg_spi = Some (dom_spi a), cfg_player_lights = Some (dom_player_lights a),
                  cfg_device_info = Some d\<rparr>;
                (dispatch_result, response, lights) =
                  swbt_switch_subcommand_dispatch (Some dispatch_config) (Some orep) (Some resp);
                a = swbt_spin_lock_release (a\<lparr>dom_player_lights := the lights\<rparr>)
            in (if dispatch_result = SWBT_SWITCH_SUBCOMMAND_DISPATCH_OK then SWBT_DOMAIN_OK
                else SWBT_DOMAIN_ERROR_INVALID_ARGUMENT, Some a, response)
      | _ \<Rightarrow> (SWBT_DOMAIN_ERROR_INVALID_ARGUMENT, app, out_response))"

section \<open>The operations as steps\<close>

datatype domain_op =
    Acquire u32
  | SetState swbt_domain_set_state_options_t
  | Revoke swbt_domain_revoke_options_t
  | SetDaemonStatus "swbt_domain_daemon_status_t option"
  | SetDaemonLifecycle swbt_domain_daemon_lifecycle_state_t
  | SetHardwareApproval swbt_domain_hardware_approval_t
  | SetHardwareStatus "swbt_domain_hardware_status_t option"
  | RecordReportTick u64 swbt_metrics_report_send_result_t
  | RecordRejected
  | RecordRumble "bytes option" u64
  | HandleOutputReport "swbt_switch_output_report_t option" "swbt_switch_report_options_t option"
      "swbt_switch_device_info_t option" u64 "response option"

fun domain_exec :: "domain_op \<Rightarrow> swbt_domain option \<Rightarrow> swbt_domain_result_t \<times> swbt_domain option" where
  "domain_exec (Acquire c) app = swbt_domain_acquire app c"
| "domain_exec (SetState opts) app = swbt_domain_set_state app opts"
| "domain_exec (Revoke opts) app = swbt_domain_revoke app opts"
| "domain_exec (SetDaemonStatus d) app = swbt_domain_set_daemon_status app d"
| "domain_exec (SetDaemonLifecycle l) app = swbt_domain_set_daemon_lifecycle app l"
| "domain_exec (SetHardwareApproval h) app = swbt_domain_set_hardware_approval app h"
| "domain_exec (SetHardwareStatus h) app = swbt_domain_set_hardware_status app h"
| "domain_exec (RecordReportTick t r) app = swbt_domain_record_report_tick app t r"
| "domain_exec RecordRejected app = swbt_domain_record_state_update_rejected app"
| "domain_exec (RecordRumble p t) app = swbt_domain_record_rumble app p t"
| "domain_exec (HandleOutputReport orep opts d t resp) app =
     (let (r, a, _) = swbt_domain_handle_output_report app orep opts d t resp in (r, a))"

definition domain_initial :: "swbt_domain \<Rightarrow> bool" where
  "domain_initial a \<longleftrightarrow> (\<exists>mem. swbt_domain_create (Some mem) = Some a)"

definition domain_step :: "swbt_domain \<Rightarrow> domain_op \<Rightarrow> swbt_domain \<Rightarrow> bool" where
  "domain_step a op a' \<longleftrightarrow> snd (domain_exec op (Some a)) = Some a'"

text \<open>
  The domain invariant. Its heart is the fail-safe condition: while nobody owns
  the controller, the state that is sent to the Switch is the neutral one.
\<close>

definition seeded_flash :: swbt_switch_spi_t where
  "seeded_flash = flash.poke_all (seed_entries swbt_switch_spi_seed_dev_profile)
     \<lparr>spi_data = (\<lambda>i. if i < 0x10000 then 0xFF else 0), spi_default_value = 0xFF\<rparr>"

definition domain_inv :: "swbt_domain \<Rightarrow> bool" where
  "domain_inv a \<longleftrightarrow> \<not> dom_lock a
     \<and> lease_inv (dom_lease a)
     \<and> (\<not> has_owner (dom_lease a) \<longrightarrow> dom_state a = swbt_state_neutral)
     \<and> rumble_wf (dom_rumble a)
     \<and> lights_inv (dom_player_lights a)
     \<and> dom_spi a = seeded_flash"

lemma dev_profile_valid: "validate_profile (Some swbt_switch_spi_seed_dev_profile) = SWBT_SWITCH_SPI_OK"
  by (simp add: validate_profile_def validate_required_field_def validate_extra_entries_def seed_profiles)

lemma domain_create_inv:
  "\<exists>a. swbt_domain_create (Some mem) = Some a \<and> domain_inv a"
  by (simp add: swbt_domain_create_def swbt_domain_init_def Let_def swbt_metrics_init_def
      swbt_switch_rumble_init_def swbt_switch_spi_init_def seed_apply_valid [OF dev_profile_valid]
      swbt_switch_player_lights_init_def domain_inv_def swbt_spin_lock_init_def swbt_domain_apply_neutral_def
      swbt_domain_lease_init_def lease_inv_def rumble_wf_def swbt_switch_rumble_copy_def lights_inv_def
      seeded_flash_def zero_domain_def spi_limits cong: if_cong)

section \<open>Every operation keeps the invariant\<close>

lemmas domain_op_defs = swbt_domain_acquire_def swbt_domain_set_state_def swbt_domain_revoke_def
  swbt_domain_set_daemon_status_def swbt_domain_set_daemon_lifecycle_def
  swbt_domain_set_hardware_approval_def swbt_domain_set_hardware_status_def
  swbt_domain_record_report_tick_def swbt_domain_record_state_update_rejected_def
  swbt_domain_record_rumble_def

lemmas domain_helper_defs = swbt_spin_lock_acquire_def swbt_spin_lock_release_def
  swbt_domain_apply_neutral_def swbt_domain_revoke_all_def
  swbt_domain_record_state_update_rejected_locked_def lease_defs

lemma domain_acquire_eq:
  "swbt_domain_acquire (Some a) c =
    (if has_owner (dom_lease a) \<and> owner_client_id (dom_lease a) \<noteq> c
     then (SWBT_DOMAIN_ERROR_OWNER_BUSY, Some (a\<lparr>dom_lock := False\<rparr>))
     else (SWBT_DOMAIN_OK, Some (a\<lparr>dom_lock := False,
       dom_lease := (dom_lease a)\<lparr>has_owner := True, owner_client_id := c\<rparr>\<rparr>)))"
  by (simp add: swbt_domain_acquire_def domain_helper_defs Let_def)

definition count_rejected :: "swbt_metrics_t \<Rightarrow> swbt_metrics_t" where
  "count_rejected m = the (snd (swbt_metrics_record_state_update_rejected (Some m)))"

definition count_accepted :: "swbt_metrics_t \<Rightarrow> swbt_metrics_t" where
  "count_accepted m = the (snd (swbt_metrics_record_state_update_accepted (Some m) 0))"

lemma domain_set_state_eq:
  "swbt_domain_set_state (Some a) \<lparr>set_client_id = c, set_state = Some s, set_sequence = n\<rparr> =
    (if \<not> has_owner (dom_lease a) \<or> owner_client_id (dom_lease a) \<noteq> c
     then (SWBT_DOMAIN_ERROR_NOT_OWNER,
           Some (a\<lparr>dom_lock := False, dom_metrics := count_rejected (dom_metrics a)\<rparr>))
     else if n < last_sequence (dom_lease a)
     then (SWBT_DOMAIN_ERROR_STALE_SEQUENCE,
           Some (a\<lparr>dom_lock := False, dom_metrics := count_rejected (dom_metrics a)\<rparr>))
     else (SWBT_DOMAIN_OK,
           Some (a\<lparr>dom_lock := False, dom_lease := (dom_lease a)\<lparr>last_sequence := n\<rparr>, dom_state := s,
             dom_metrics := count_accepted (dom_metrics a)\<rparr>)))"
  by (simp add: swbt_domain_set_state_def domain_helper_defs Let_def count_rejected_def count_accepted_def)

lemma domain_set_state_null:
  "swbt_domain_set_state (Some a) \<lparr>set_client_id = c, set_state = None, set_sequence = n\<rparr> =
    (SWBT_DOMAIN_ERROR_INVALID_ARGUMENT, Some a)"
  by (simp add: swbt_domain_set_state_def)

definition free_lease :: swbt_domain_lease_t where
  "free_lease = \<lparr>has_owner = False, owner_client_id = 0, last_sequence = 0\<rparr>"

definition owns :: "swbt_domain \<Rightarrow> u32 \<Rightarrow> bool" where
  "owns a c \<longleftrightarrow> lease_owner (dom_lease a) = Some c"

definition neutralised :: "swbt_domain \<Rightarrow> swbt_domain" where
  "neutralised a = a\<lparr>dom_lock := False, dom_lease := free_lease, dom_state := swbt_state_neutral\<rparr>"

lemma lease_eq_free: "l\<lparr>has_owner := False, owner_client_id := 0, last_sequence := 0\<rparr> = free_lease"
  by (cases l) (simp add: free_lease_def)

lemma domain_revoke_eq:
  "swbt_domain_revoke (Some a) \<lparr>revoke_reason = r, revoke_client_id = c\<rparr> =
    (if r = SWBT_DOMAIN_REVOKE_SHUTDOWN \<or> owns a c then (SWBT_DOMAIN_OK, Some (neutralised a))
     else (if r = SWBT_DOMAIN_REVOKE_RELEASE then SWBT_DOMAIN_ERROR_NOT_OWNER else SWBT_DOMAIN_OK,
           Some (a\<lparr>dom_lock := False\<rparr>)))"
  by (cases r) (auto simp: swbt_domain_revoke_def domain_helper_defs Let_def neutralised_def owns_def
      lease_owner_def lease_eq_free)

lemma handle_output_report_eq:
  "swbt_domain_handle_output_report (Some a) (Some orep) (Some opts) (Some d) t (Some resp) =
    (let out = swbt_switch_subcommand_dispatch
        (Some (full_config (dom_state a) opts (dom_spi a) (dom_player_lights a) d)) (Some orep) (Some resp)
     in (if fst out = SWBT_SWITCH_SUBCOMMAND_DISPATCH_OK then SWBT_DOMAIN_OK
         else SWBT_DOMAIN_ERROR_INVALID_ARGUMENT,
         Some (a\<lparr>dom_lock := False,
           dom_rumble := (dom_rumble a)\<lparr>rumble_raw := swbt_switch_rumble_copy (rumble_raw (dom_rumble a)) (rumble orep),
             rumble_updated_at_ms := t, rumble_updated := True\<rparr>,
           dom_player_lights := the (snd (snd out))\<rparr>),
         fst (snd out)))"
  by (simp add: swbt_domain_handle_output_report_def swbt_switch_rumble_update_def full_config_def Let_def
      domain_helper_defs case_prod_beta)

lemma handle_output_report_null:
  assumes "orep = None \<or> opts = None \<or> d = None \<or> resp = None"
  shows "swbt_domain_handle_output_report (Some a) orep opts d t resp =
    (SWBT_DOMAIN_ERROR_INVALID_ARGUMENT, Some a, resp)"
  using assms by (auto simp: swbt_domain_handle_output_report_def split: option.splits)

lemma handle_output_report_inv:
  assumes "domain_inv a"
  shows "\<exists>a'. fst (snd (swbt_domain_handle_output_report (Some a) orep opts d t resp)) = Some a'
    \<and> domain_inv a' \<and> dom_lease a' = dom_lease a \<and> dom_state a' = dom_state a"
proof (cases "orep = None \<or> opts = None \<or> d = None \<or> resp = None")
  case True
  then show ?thesis
    using assms by (simp add: handle_output_report_null)
next
  case False
  then obtain o' p d' r where [simp]: "orep = Some o'" "opts = Some p" "d = Some d'" "resp = Some r"
    by auto
  obtain l' where "snd (snd (swbt_switch_subcommand_dispatch
        (Some (full_config (dom_state a) p (dom_spi a) (dom_player_lights a) d')) orep resp)) = Some l'"
      "l' = dom_player_lights a \<or> (\<exists>b. l' = swbt_switch_player_lights_apply_raw (dom_player_lights a) b)"
    using dispatch_lights full_config_simps(4) by blast
  then show ?thesis
    using assms by (auto simp: handle_output_report_eq domain_inv_def Let_def rumble_wf_def
        swbt_switch_rumble_copy_def apply_raw_inv)
qed

text \<open>
  How an operation may change the lease and the state: it keeps both, or the
  current owner sets a state, or the lease is given up and the state is neutral,
  or a client becomes the owner.
\<close>

inductive lease_effect :: "domain_op \<Rightarrow> swbt_domain \<Rightarrow> swbt_domain \<Rightarrow> bool" where
  eff_keep: "dom_lease a' = dom_lease a \<Longrightarrow> dom_state a' = dom_state a \<Longrightarrow> lease_effect op a a'"
| eff_set: "owns a c \<Longrightarrow> last_sequence (dom_lease a) \<le> n \<Longrightarrow>
    dom_lease a' = (dom_lease a)\<lparr>last_sequence := n\<rparr> \<Longrightarrow> dom_state a' = s \<Longrightarrow>
    lease_effect (SetState \<lparr>set_client_id = c, set_state = Some s, set_sequence = n\<rparr>) a a'"
| eff_free: "dom_lease a' = free_lease \<Longrightarrow> dom_state a' = swbt_state_neutral \<Longrightarrow>
    r = SWBT_DOMAIN_REVOKE_SHUTDOWN \<or> owns a c \<Longrightarrow>
    lease_effect (Revoke \<lparr>revoke_reason = r, revoke_client_id = c\<rparr>) a a'"
| eff_acquire: "\<not> has_owner (dom_lease a) \<or> owns a c \<Longrightarrow>
    dom_lease a' = (dom_lease a)\<lparr>has_owner := True, owner_client_id := c\<rparr> \<Longrightarrow>
    dom_state a' = dom_state a \<Longrightarrow> lease_effect (Acquire c) a a'"

lemma domain_step_effect:
  assumes "domain_inv a" "domain_step a op a'"
  shows "lease_effect op a a'"
proof (cases op)
  case (Acquire c)
  with assms(2) show ?thesis
    by (auto simp: domain_step_def domain_acquire_eq owns_def lease_owner_def
        intro: eff_keep eff_acquire split: if_splits)
next
  case (SetState opts)
  obtain c so n where opts: "opts = \<lparr>set_client_id = c, set_state = so, set_sequence = n\<rparr>"
    by (cases opts)
  show ?thesis
    using assms(2) unfolding SetState opts
    by (cases so)
       (auto simp: domain_step_def domain_set_state_eq domain_set_state_null owns_def lease_owner_def
        not_less intro: eff_keep eff_set split: if_splits)
next
  case (Revoke opts)
  obtain r c where opts: "opts = \<lparr>revoke_reason = r, revoke_client_id = c\<rparr>"
    by (cases opts)
  show ?thesis
    using assms(2) unfolding Revoke opts
    by (auto simp: domain_step_def domain_revoke_eq neutralised_def
        intro: eff_keep eff_free split: if_splits)
next
  case (HandleOutputReport orep opts d t resp)
  then show ?thesis
    using assms(2) handle_output_report_inv [OF assms(1), of orep opts d t resp]
    by (auto simp: domain_step_def case_prod_beta intro: eff_keep)
qed (use assms(2) in \<open>auto simp: domain_step_def domain_op_defs domain_helper_defs Let_def
    split: option.splits prod.splits intro: eff_keep\<close>)

lemma lease_effect_inv:
  assumes "lease_effect op a a'" "domain_inv a"
  shows "lease_inv (dom_lease a')" "\<not> has_owner (dom_lease a') \<longrightarrow> dom_state a' = swbt_state_neutral"
  using assms
  by (cases rule: lease_effect.cases; auto simp: domain_inv_def lease_inv_def free_lease_def owns_def
      lease_owner_def split: if_splits)+

definition peripherals_ok :: "swbt_domain \<Rightarrow> bool" where
  "peripherals_ok a \<longleftrightarrow> \<not> dom_lock a \<and> rumble_wf (dom_rumble a) \<and> lights_inv (dom_player_lights a)
     \<and> dom_spi a = seeded_flash"

lemma domain_step_peripherals:
  assumes "domain_inv a" "domain_step a op a'"
  shows "peripherals_ok a'"
proof -
  have ok: "peripherals_ok a"
    using assms(1) by (simp add: domain_inv_def peripherals_ok_def)
  show ?thesis
  proof (cases op)
    case (SetState opts)
    obtain c so n where opts: "opts = \<lparr>set_client_id = c, set_state = so, set_sequence = n\<rparr>"
      by (cases opts)
    show ?thesis
      using assms(2) ok unfolding SetState opts
      by (cases so) (auto simp: domain_step_def domain_set_state_eq domain_set_state_null
          peripherals_ok_def split: if_splits)
  next
    case (Revoke opts)
    obtain r c where opts: "opts = \<lparr>revoke_reason = r, revoke_client_id = c\<rparr>"
      by (cases opts)
    show ?thesis
      using assms(2) ok unfolding Revoke opts
      by (auto simp: domain_step_def domain_revoke_eq neutralised_def peripherals_ok_def split: if_splits)
  next
    case (RecordRumble p t)
    then show ?thesis
      using assms(2) ok
      by (auto simp: domain_step_def swbt_domain_record_rumble_def swbt_switch_rumble_update_def
          domain_helper_defs Let_def peripherals_ok_def rumble_wf_def swbt_switch_rumble_copy_def
          split: option.splits)
  next
    case (HandleOutputReport orep opts d t resp)
    then show ?thesis
      using assms(2) handle_output_report_inv [OF assms(1), of orep opts d t resp]
      by (auto simp: domain_step_def case_prod_beta peripherals_ok_def domain_inv_def)
  qed (use assms(2) ok in \<open>auto simp: domain_step_def domain_op_defs domain_helper_defs Let_def
      peripherals_ok_def split: option.splits prod.splits\<close>)
qed

lemma domain_step_inv:
  assumes "domain_inv a" "domain_step a op a'"
  shows "domain_inv a'"
  using lease_effect_inv [OF domain_step_effect [OF assms] assms(1)] domain_step_peripherals [OF assms]
  by (simp add: domain_inv_def peripherals_ok_def)

interpretation domain: invariant_system domain_initial domain_step domain_inv
proof unfold_locales
  fix a assume "domain_initial a"
  then show "domain_inv a"
    unfolding domain_initial_def by (metis domain_create_inv option.inject)
qed (rule domain_step_inv)

text \<open>The domain is itself an exclusive lease, taken by acquire and given back by release.\<close>

definition domain_owner :: "swbt_domain \<Rightarrow> u32 option" where
  "domain_owner a = lease_owner (dom_lease a)"

definition domain_take :: "swbt_domain \<Rightarrow> u32 \<Rightarrow> bool \<times> swbt_domain" where
  "domain_take a c = (let (r, a') = swbt_domain_acquire (Some a) c in (r = SWBT_DOMAIN_OK, the a'))"

definition domain_give :: "swbt_domain \<Rightarrow> u32 \<Rightarrow> bool \<times> swbt_domain" where
  "domain_give a c = (let (r, a') = swbt_domain_revoke (Some a)
       \<lparr>revoke_reason = SWBT_DOMAIN_REVOKE_RELEASE, revoke_client_id = c\<rparr>
     in (r = SWBT_DOMAIN_OK, the a'))"

interpretation domlease: exclusive_lease domain_owner domain_take domain_give
  by unfold_locales
     (auto simp: domain_owner_def domain_take_def domain_give_def domain_acquire_eq domain_revoke_eq
      lease_owner_def owns_def neutralised_def free_lease_def split: if_splits)

section \<open>Properties\<close>

text \<open>C1: Fail-safe: in every state the domain can reach from its creation by any sequence of its
  operations, in any order and by any clients, the lock is free, and whenever no client owns the
  controller the state that goes to the Switch is neutral and the lease carries no owner id and no
  sequence number.\<close>

theorem domain_failsafe:
  assumes "reachable domain_initial domain_step a"
  shows "\<not> dom_lock a \<and> (\<not> has_owner (dom_lease a) \<longrightarrow>
      dom_state a = swbt_state_neutral \<and> owner_client_id (dom_lease a) = 0 \<and> last_sequence (dom_lease a) = 0)
    \<and> lights_inv (dom_player_lights a) \<and> length (rumble_raw (dom_rumble a)) = 8"
  using domain.reachable_inv [OF assms]
  by (simp add: domain_inv_def lease_inv_def rumble_wf_def)

lemma domain_create_free: "swbt_domain_create (Some mem) = Some a \<Longrightarrow> dom_lease a = free_lease"
  by (auto simp: swbt_domain_create_def swbt_domain_init_def Let_def swbt_metrics_init_def
      swbt_switch_rumble_init_def swbt_switch_spi_init_def seed_apply_valid [OF dev_profile_valid]
      swbt_switch_player_lights_init_def swbt_spin_lock_init_def swbt_domain_apply_neutral_def
      swbt_domain_lease_init_def zero_domain_def free_lease_def)

definition demo_domain :: swbt_domain where
  "demo_domain = the (swbt_domain_create (Some zero_domain))"

lemma demo_domain_initial: "domain_initial demo_domain"
  unfolding domain_initial_def demo_domain_def using domain_create_inv [of zero_domain] by auto

definition demo_driven :: swbt_domain where
  "demo_driven = the (snd (domain_exec (SetState \<lparr>set_client_id = 7,
     set_state = Some (swbt_state_neutral\<lparr>buttons := 8\<rparr>), set_sequence = 5\<rparr>)
     (snd (domain_exec (Acquire 7) (Some demo_domain)))))"

lemma demo_domain_free: "dom_lease demo_domain = free_lease"
  using domain_create_free [of zero_domain] domain_create_inv [of zero_domain]
  by (auto simp: demo_domain_def)

lemma demo_driven_reachable: "reachable domain_initial domain_step demo_driven"
proof -
  let ?a = "the (snd (domain_exec (Acquire 7) (Some demo_domain)))"
  have "domain_step demo_domain (Acquire 7) ?a"
    by (simp add: domain_step_def domain_acquire_eq)
  moreover have "domain_step ?a (SetState \<lparr>set_client_id = 7,
      set_state = Some (swbt_state_neutral\<lparr>buttons := 8\<rparr>), set_sequence = 5\<rparr>) demo_driven"
    by (simp add: domain_step_def demo_driven_def domain_acquire_eq domain_set_state_eq demo_domain_free
        free_lease_def)
  ultimately show ?thesis
    by (blast intro: reach_step reach_init demo_domain_initial)
qed

lemma demo_revoke_step:
  "domain_step demo_driven (Revoke \<lparr>revoke_reason = SWBT_DOMAIN_REVOKE_DISCONNECT, revoke_client_id = 7\<rparr>)
     (neutralised demo_driven)"
  by (simp add: domain_step_def domain_revoke_eq owns_def lease_owner_def demo_driven_def
      domain_acquire_eq domain_set_state_eq demo_domain_free free_lease_def)

theorem domain_failsafe_witness:
  "dom_state demo_driven \<noteq> swbt_state_neutral \<and> \<not> dom_lock demo_driven
    \<and> \<not> has_owner (dom_lease (neutralised demo_driven)) \<and> dom_state (neutralised demo_driven) = swbt_state_neutral"
proof -
  have "\<not> has_owner (dom_lease (neutralised demo_driven))"
    by (simp add: neutralised_def free_lease_def)
  moreover have "dom_state demo_driven \<noteq> swbt_state_neutral"
    by (simp add: demo_driven_def domain_acquire_eq domain_set_state_eq demo_domain_free free_lease_def
        swbt_state_neutral_def)
  ultimately show ?thesis
    using domain_failsafe [OF demo_driven_reachable]
      domain_failsafe [OF reach_step [of domain_initial, OF demo_driven_reachable demo_revoke_step]] by blast
qed

text \<open>C2: Exclusive control: once a client holds the lease, and as long as it does not give it back,
  every attempt of another client to acquire it fails and every attempt of the owner succeeds, over
  any interleaving of acquire and release calls of all clients.\<close>

theorem domain_lease_exclusive:
  assumes "domain_owner a = Some c" and "Give c \<notin> set ops"
  shows "domain_owner (snd (domlease.perform_all a ops)) = Some c
    \<and> (\<forall>i < length ops. \<forall>c'. ops ! i = Take c' \<longrightarrow> fst (domlease.perform_all a ops) ! i = (c' = c))"
  using domlease.exclusive [OF assms] by blast

theorem domain_lease_exclusive_witness:
  "domain_owner (snd (domlease.perform_all demo_driven [Take 3, Give 3, Take 7])) = Some 7
    \<and> \<not> fst (domlease.perform_all demo_driven [Take 3, Give 3, Take 7]) ! 0"
proof -
  have "domain_owner demo_driven = Some 7"
    by (simp add: domain_owner_def lease_owner_def demo_driven_def domain_acquire_eq domain_set_state_eq
        demo_domain_free free_lease_def)
  from domain_lease_exclusive [OF this, of "[Take 3, Give 3, Take 7]"] show ?thesis
    by auto
qed

text \<open>C12: Only the owner drives the controller: whenever a step of a reachable domain changes the
  controller state, either the client that owned the lease before the step set exactly that state with
  a sequence number not below the last accepted one, or the lease was given up and the state is
  neutral.\<close>

theorem only_owner_changes_state:
  assumes "reachable domain_initial domain_step a" and "domain_step a op a'" and "dom_state a' \<noteq> dom_state a"
  shows "(\<exists>c s n. op = SetState \<lparr>set_client_id = c, set_state = Some s, set_sequence = n\<rparr>
        \<and> domain_owner a = Some c \<and> last_sequence (dom_lease a) \<le> n
        \<and> dom_state a' = s \<and> last_sequence (dom_lease a') = n)
    \<or> (\<exists>opts. op = Revoke opts) \<and> domain_owner a' = None \<and> dom_state a' = swbt_state_neutral"
  using domain_step_effect [OF domain.reachable_inv [OF assms(1)] assms(2)] assms(3)
  by (cases rule: lease_effect.cases) (auto simp: owns_def domain_owner_def lease_owner_def free_lease_def)

theorem only_owner_changes_state_witness:
  "\<exists>a'. domain_step demo_driven (Revoke \<lparr>revoke_reason = SWBT_DOMAIN_REVOKE_DISCONNECT, revoke_client_id = 7\<rparr>) a'
    \<and> domain_owner a' = None \<and> dom_state a' = swbt_state_neutral"
proof -
  have "dom_state (neutralised demo_driven) \<noteq> dom_state demo_driven"
    by (simp add: neutralised_def demo_driven_def domain_acquire_eq domain_set_state_eq demo_domain_free
        free_lease_def swbt_state_neutral_def)
  from only_owner_changes_state [OF demo_driven_reachable demo_revoke_step this] demo_revoke_step show ?thesis
    by blast
qed

text \<open>Sequence numbers of an owner never go back: along every run in which neither a shutdown
  nor a revocation of the owner happens, the owner stays the owner and the last accepted sequence
  number does not decrease.\<close>

theorem owner_sequence_monotone:
  assumes "reachable domain_initial domain_step a" and "steps domain_step a ops a'"
    and "domain_owner a = Some c"
    and "\<forall>r c'. Revoke \<lparr>revoke_reason = r, revoke_client_id = c'\<rparr> \<in> set ops \<longrightarrow>
           r \<noteq> SWBT_DOMAIN_REVOKE_SHUTDOWN \<and> c' \<noteq> c"
  shows "domain_owner a' = Some c \<and> last_sequence (dom_lease a) \<le> last_sequence (dom_lease a')"
proof (rule domain.steps_until [OF assms(2) domain.reachable_inv [OF assms(1)]])
  fix b op b'
  assume inv: "domain_inv b" and P: "domain_owner b = Some c \<and> last_sequence (dom_lease a) \<le> last_sequence (dom_lease b)"
    and op: "op \<in> set ops" and step: "domain_step b op b'"
  from domain_step_effect [OF inv step]
  show "domain_owner b' = Some c \<and> last_sequence (dom_lease a) \<le> last_sequence (dom_lease b')"
  proof (cases rule: lease_effect.cases)
    case (eff_free r c')
    then show ?thesis
      using assms(4) op P by (auto simp: owns_def domain_owner_def)
  qed (use P in \<open>auto simp: owns_def domain_owner_def lease_owner_def intro: order_trans split: if_splits\<close>)
qed (use assms(3) in simp)

theorem owner_sequence_monotone_witness:
  "domain_owner (the (snd (domain_exec (Acquire 3) (Some demo_driven)))) = Some 7
    \<and> 5 \<le> last_sequence (dom_lease (the (snd (domain_exec (Acquire 3) (Some demo_driven)))))"
proof -
  have "domain_step demo_driven (Acquire 3) (the (snd (domain_exec (Acquire 3) (Some demo_driven))))"
    by (simp add: domain_step_def domain_acquire_eq)
  then have "steps domain_step demo_driven [Acquire 3] (the (snd (domain_exec (Acquire 3) (Some demo_driven))))"
    by (blast intro: steps_Cons steps_Nil)
  moreover have "domain_owner demo_driven = Some 7" "last_sequence (dom_lease demo_driven) = 5"
    by (simp_all add: domain_owner_def lease_owner_def demo_driven_def domain_acquire_eq domain_set_state_eq
        demo_domain_free free_lease_def)
  ultimately show ?thesis
    using owner_sequence_monotone [OF demo_driven_reachable, of "[Acquire 3]" _ 7] by auto
qed

text \<open>Setting the state, on every branch: a client that is not the owner and a stale sequence
  number are refused with their own result, change neither state nor lease and are counted as one
  rejected update; otherwise state and sequence are stored and one accepted update is counted. A NULL
  state changes nothing.\<close>

theorem set_state_branches:
  "swbt_domain_set_state (Some a) \<lparr>set_client_id = c, set_state = st, set_sequence = n\<rparr> =
    (case st of
       None \<Rightarrow> (SWBT_DOMAIN_ERROR_INVALID_ARGUMENT, Some a)
     | Some s \<Rightarrow>
         if domain_owner a \<noteq> Some c
         then (SWBT_DOMAIN_ERROR_NOT_OWNER,
               Some (a\<lparr>dom_lock := False, dom_metrics := count_rejected (dom_metrics a)\<rparr>))
         else if n < last_sequence (dom_lease a)
         then (SWBT_DOMAIN_ERROR_STALE_SEQUENCE,
               Some (a\<lparr>dom_lock := False, dom_metrics := count_rejected (dom_metrics a)\<rparr>))
         else (SWBT_DOMAIN_OK,
               Some (a\<lparr>dom_lock := False, dom_lease := (dom_lease a)\<lparr>last_sequence := n\<rparr>, dom_state := s,
                 dom_metrics := count_accepted (dom_metrics a)\<rparr>)))
   \<and> ipc_state_rejected (snapshot (count_rejected m)) = ipc_state_rejected (snapshot m) + 1
   \<and> ipc_state_accepted (snapshot (count_rejected m)) = ipc_state_accepted (snapshot m)
   \<and> ipc_state_accepted (snapshot (count_accepted m)) = ipc_state_accepted (snapshot m) + 1
   \<and> ipc_state_rejected (snapshot (count_accepted m)) = ipc_state_rejected (snapshot m)"
  by (auto simp: domain_set_state_eq domain_set_state_null domain_owner_def lease_owner_def
      count_rejected_def count_accepted_def swbt_metrics_record_state_update_rejected_def
      swbt_metrics_record_state_update_accepted_def split: option.splits)

text \<open>In every reachable domain an output report of the Switch, as the parser delivers it, stores
  its rumble bytes and time, leaves the controller state, the lease and the metrics alone, and is
  answered by a 50 byte reply report exactly when the result is OK, by an empty response otherwise.\<close>

theorem handle_output_report_correct:
  assumes "reachable domain_initial domain_step a" and "length (rumble orep) = 8" and "device_info_wf d"
    and "length (resp_report resp) = 50"
    and "\<not> has_subcommand orep \<or> subcommand_report sid data orep"
  shows "\<exists>r a' resp'.
      swbt_domain_handle_output_report (Some a) (Some orep) (Some opts) (Some d) t (Some resp) =
        (r, Some a', Some resp')
    \<and> rumble_raw (dom_rumble a') = rumble orep \<and> rumble_updated_at_ms (dom_rumble a') = t
    \<and> dom_state a' = dom_state a \<and> dom_lease a' = dom_lease a \<and> dom_metrics a' = dom_metrics a
    \<and> (if r = SWBT_DOMAIN_OK then has_subcommand orep \<and> resp_report_size resp' = 50
         \<and> length (resp_report resp') = 50 \<and> resp_report resp' ! 0 = 0x21
         \<and> resp_report resp' ! 14 = subcommand_id orep
       else resp' = empty_response)"
proof -
  have copy: "swbt_switch_rumble_copy (rumble_raw (dom_rumble a)) (rumble orep) = rumble orep"
    using domain.reachable_inv [OF assms(1)] assms(2) by (simp add: domain_inv_def rumble_wf_def rumble_copy_full)
  show ?thesis
  proof (cases "has_subcommand orep")
    case True
    then have rep: "subcommand_report sid data orep"
      using assms(5) by blast
    show ?thesis
    proof (cases "answer (dom_spi a) (dom_player_lights a) d sid data")
      case None
      then show ?thesis
        by (simp add: handle_output_report_eq dispatch_refines_answer [OF rep assms(3,4)] copy refusal_def)
    next
      case (Some x)
      obtain ack bs where x: "x = (ack, bs)"
        by (cases x)
      with Some have "length bs \<le> 35"
        using length_answer assms(3) by blast
      with Some x rep True show ?thesis
        by (simp add: handle_output_report_eq dispatch_refines_answer [OF rep assms(3,4)] copy
            reply_response_def reply_bytes_nth subcommand_report_def)
    qed
  next
    case False
    then show ?thesis
      using assms(4) by (simp add: handle_output_report_eq copy swbt_switch_subcommand_dispatch_def Let_def
          reset_response_empty full_config_def)
  qed
qed

theorem handle_output_report_correct_witness:
  "\<exists>r a' resp'. swbt_domain_handle_output_report (Some demo_driven)
      (Some (blank_output_report\<lparr>has_subcommand := True, subcommand_id := 0x02\<rparr>))
      (Some demo_options) (Some swbt_switch_device_info_default) 99 (Some empty_response) = (r, Some a', Some resp')
    \<and> rumble_updated_at_ms (dom_rumble a') = 99 \<and> dom_state a' = dom_state demo_driven"
proof -
  let ?o = "blank_output_report\<lparr>has_subcommand := True, subcommand_id := 0x02\<rparr>"
  have "subcommand_report 0x02 [] ?o" "length (rumble ?o) = 8" "length (resp_report empty_response) = 50"
    by (simp_all add: subcommand_report_def blank_output_report_def empty_response_def)
  then show ?thesis
    using handle_output_report_correct [OF demo_driven_reachable, of ?o swbt_switch_device_info_default
        empty_response "0x02" "[]" demo_options 99] by auto
qed

end
