(* ===== verification/Control.thy ===== *)
theory Control
  imports Domain
begin

text \<open>
  The control layer of \<open>control/control.c\<close>, through which the IPC server, the C API
  and the runtime reach the domain, and the C API of \<open>api/swbt_c_api.c\<close>.

  A control object only points to the domain it shares with the runtime, so the
  operations take the domain the pointer refers to as a second argument (None
  when it is NULL) and return it updated.
\<close>

section \<open>Control\<close>

datatype swbt_control_result_t =
    SWBT_CONTROL_OK
  | SWBT_CONTROL_ERROR_INVALID_ARGUMENT
  | SWBT_CONTROL_ERROR_OWNER_BUSY
  | SWBT_CONTROL_ERROR_NOT_OWNER

record swbt_control_runtime_status_t =
  rt_initialized :: bool
  rt_running :: bool
  rt_hid_registered :: bool
  rt_output_handler_started :: bool
  rt_report_timer_started :: bool

record swbt_control_t =
  next_direct_sequence :: u64

record swbt_control_status_t =
  cs_app :: swbt_domain_status_snapshot_t
  cs_has_runtime_status :: bool
  cs_runtime :: swbt_control_runtime_status_t

type_synonym control_state = "swbt_control_t option \<times> swbt_domain option"

definition swbt_control_direct_client_id :: u32 where
  "swbt_control_direct_client_id = 0xFFFFFFFF"

fun swbt_control_map_app_result :: "swbt_domain_result_t \<Rightarrow> swbt_control_result_t" where
  "swbt_control_map_app_result SWBT_DOMAIN_OK = SWBT_CONTROL_OK"
| "swbt_control_map_app_result SWBT_DOMAIN_ERROR_STALE_SEQUENCE = SWBT_CONTROL_OK"
| "swbt_control_map_app_result SWBT_DOMAIN_ERROR_OWNER_BUSY = SWBT_CONTROL_ERROR_OWNER_BUSY"
| "swbt_control_map_app_result SWBT_DOMAIN_ERROR_NOT_OWNER = SWBT_CONTROL_ERROR_NOT_OWNER"
| "swbt_control_map_app_result SWBT_DOMAIN_ERROR_INVALID_ARGUMENT = SWBT_CONTROL_ERROR_INVALID_ARGUMENT"

text \<open>The configuration is the domain pointer; the status reader is an argument of \<open>get_status\<close>.\<close>

definition swbt_control_init ::
  "swbt_control_t option \<Rightarrow> swbt_domain option option \<Rightarrow> swbt_control_result_t \<times> swbt_control_t option" where
  "swbt_control_init control config = (case (control, config) of
       (Some _, Some (Some _)) \<Rightarrow> (SWBT_CONTROL_OK, Some \<lparr>next_direct_sequence = 0\<rparr>)
     | _ \<Rightarrow> (SWBT_CONTROL_ERROR_INVALID_ARGUMENT, control))"

definition swbt_control_acquire_client ::
  "control_state \<Rightarrow> u32 \<Rightarrow> swbt_control_result_t \<times> control_state" where
  "swbt_control_acquire_client cs client_id = (case cs of
       (Some c, Some a) \<Rightarrow> (let (r, app) = swbt_domain_acquire (Some a) client_id
                           in (swbt_control_map_app_result r, Some c, app))
     | _ \<Rightarrow> (SWBT_CONTROL_ERROR_INVALID_ARGUMENT, cs))"

definition swbt_control_release_client ::
  "control_state \<Rightarrow> u32 \<Rightarrow> swbt_control_result_t \<times> control_state" where
  "swbt_control_release_client cs client_id = (case cs of
       (Some c, Some a) \<Rightarrow> (let (r, app) = swbt_domain_revoke (Some a)
                             \<lparr>revoke_reason = SWBT_DOMAIN_REVOKE_RELEASE, revoke_client_id = client_id\<rparr>
                           in (swbt_control_map_app_result r, Some c, app))
     | _ \<Rightarrow> (SWBT_CONTROL_ERROR_INVALID_ARGUMENT, cs))"

definition swbt_control_disconnect_client ::
  "control_state \<Rightarrow> u32 \<Rightarrow> swbt_control_result_t \<times> control_state" where
  "swbt_control_disconnect_client cs client_id = (case cs of
       (Some c, Some a) \<Rightarrow> (let (r, app) = swbt_domain_revoke (Some a)
                             \<lparr>revoke_reason = SWBT_DOMAIN_REVOKE_DISCONNECT, revoke_client_id = client_id\<rparr>
                           in (swbt_control_map_app_result r, Some c, app))
     | _ \<Rightarrow> (SWBT_CONTROL_ERROR_INVALID_ARGUMENT, cs))"

definition swbt_control_heartbeat_timeout_client ::
  "control_state \<Rightarrow> u32 \<Rightarrow> swbt_control_result_t \<times> control_state" where
  "swbt_control_heartbeat_timeout_client cs client_id = (case cs of
       (Some c, Some a) \<Rightarrow> (let (r, app) = swbt_domain_revoke (Some a)
                             \<lparr>revoke_reason = SWBT_DOMAIN_REVOKE_HEARTBEAT_TIMEOUT, revoke_client_id = client_id\<rparr>
                           in (swbt_control_map_app_result r, Some c, app))
     | _ \<Rightarrow> (SWBT_CONTROL_ERROR_INVALID_ARGUMENT, cs))"

definition swbt_control_shutdown :: "control_state \<Rightarrow> swbt_control_result_t \<times> control_state" where
  "swbt_control_shutdown cs = (case cs of
       (Some c, Some a) \<Rightarrow> (let (r, app) = swbt_domain_revoke (Some a)
                             \<lparr>revoke_reason = SWBT_DOMAIN_REVOKE_SHUTDOWN, revoke_client_id = 0\<rparr>
                           in (swbt_control_map_app_result r, Some c, app))
     | _ \<Rightarrow> (SWBT_CONTROL_ERROR_INVALID_ARGUMENT, cs))"

definition swbt_control_record_state_update_rejected ::
  "control_state \<Rightarrow> swbt_control_result_t \<times> control_state" where
  "swbt_control_record_state_update_rejected cs = (case cs of
       (Some c, Some a) \<Rightarrow> (let (r, app) = swbt_domain_record_state_update_rejected (Some a)
                           in (swbt_control_map_app_result r, Some c, app))
     | _ \<Rightarrow> (SWBT_CONTROL_ERROR_INVALID_ARGUMENT, cs))"

definition swbt_control_submit_client_state ::
  "control_state \<Rightarrow> u32 \<Rightarrow> swbt_state_t option \<Rightarrow> u64 \<Rightarrow> swbt_control_result_t \<times> control_state" where
  "swbt_control_submit_client_state cs client_id state sequence = (case (cs, state) of
       ((Some c, Some a), Some s) \<Rightarrow>
         (let (r, app) = swbt_domain_set_state (Some a)
                \<lparr>set_client_id = client_id, set_state = Some s, set_sequence = sequence\<rparr>
          in (swbt_control_map_app_result r, Some c, app))
     | _ \<Rightarrow> (SWBT_CONTROL_ERROR_INVALID_ARGUMENT, cs))"

definition swbt_control_submit_state ::
  "control_state \<Rightarrow> swbt_state_t option \<Rightarrow> swbt_control_result_t \<times> control_state" where
  "swbt_control_submit_state cs state = (case (cs, state) of
       ((Some c, Some a), Some s) \<Rightarrow>
         (let (r, app) = swbt_domain_acquire (Some a) swbt_control_direct_client_id;
              acquire_result = swbt_control_map_app_result r
          in if acquire_result \<noteq> SWBT_CONTROL_OK then (acquire_result, Some c, app)
             else let c = c\<lparr>next_direct_sequence := next_direct_sequence c + 1\<rparr>;
                      (r, app) = swbt_domain_set_state app
                        \<lparr>set_client_id = swbt_control_direct_client_id, set_state = Some s,
                         set_sequence = next_direct_sequence c\<rparr>
                  in (swbt_control_map_app_result r, Some c, app))
     | _ \<Rightarrow> (SWBT_CONTROL_ERROR_INVALID_ARGUMENT, cs))"

definition swbt_control_submit_neutral :: "control_state \<Rightarrow> swbt_control_result_t \<times> control_state" where
  "swbt_control_submit_neutral cs = swbt_control_submit_state cs (Some swbt_state_neutral)"

definition zero_runtime_status :: swbt_control_runtime_status_t where
  "zero_runtime_status = \<lparr>rt_initialized = False, rt_running = False, rt_hid_registered = False,
     rt_output_handler_started = False, rt_report_timer_started = False\<rparr>"

definition zero_status_snapshot :: swbt_domain_status_snapshot_t where
  "zero_status_snapshot = \<lparr>st_has_owner = False, st_owner_client_id = 0, st_last_sequence = 0,
     st_state = dom_state zero_domain, st_rumble = dom_rumble zero_domain,
     st_metrics = snapshot zero_metrics, st_daemon = dom_daemon zero_domain,
     st_hardware = dom_hardware zero_domain\<rparr>"

text \<open>
  \<open>read_runtime_status\<close> is what the reader callback returns when it is called
  now: its result code and the status it stores; None when there is no reader.
\<close>

definition swbt_control_get_status ::
  "control_state \<Rightarrow> (int \<times> swbt_control_runtime_status_t) option \<Rightarrow> swbt_control_status_t option
   \<Rightarrow> swbt_control_result_t \<times> swbt_control_status_t option" where
  "swbt_control_get_status cs read_runtime_status out_status = (case (cs, out_status) of
       ((Some c, Some a), Some _) \<Rightarrow>
         (let out = \<lparr>cs_app = zero_status_snapshot, cs_has_runtime_status = False, cs_runtime = zero_runtime_status\<rparr>;
              (r, app_status) = swbt_domain_read_status (Some a) (Some (cs_app out));
              out = out\<lparr>cs_app := the app_status\<rparr>
          in if r \<noteq> SWBT_DOMAIN_OK then (SWBT_CONTROL_ERROR_INVALID_ARGUMENT, Some out)
             else (case read_runtime_status of
                 None \<Rightarrow> (SWBT_CONTROL_OK, Some out)
               | Some (code, rt) \<Rightarrow>
                   let out = out\<lparr>cs_runtime := rt\<rparr> in
                   if code \<noteq> 0 then (SWBT_CONTROL_ERROR_INVALID_ARGUMENT, Some out)
                   else (SWBT_CONTROL_OK, Some (out\<lparr>cs_has_runtime_status := True\<rparr>))))
     | _ \<Rightarrow> (SWBT_CONTROL_ERROR_INVALID_ARGUMENT, out_status))"

section \<open>The C API\<close>

datatype swbt_result_t =
    SWBT_OK
  | SWBT_ERROR_INVALID_ARGUMENT
  | SWBT_ERROR_OWNER_BUSY
  | SWBT_ERROR_NOT_OWNER
  | SWBT_ERROR_NO_MEMORY

record swbt_controller_state_t =
  c_buttons :: u32
  c_lx :: u16
  c_ly :: u16
  c_rx :: u16
  c_ry :: u16
  c_accel_x :: i16
  c_accel_y :: i16
  c_accel_z :: i16
  c_gyro_x :: i16
  c_gyro_y :: i16
  c_gyro_z :: i16

record swbt_status_t =
  status_state :: swbt_controller_state_t
  status_runtime_available :: bool
  status_runtime_running :: bool

record swbt =
  h_app :: "swbt_domain option"
  h_control :: swbt_control_t

fun swbt_map_control_result :: "swbt_control_result_t \<Rightarrow> swbt_result_t" where
  "swbt_map_control_result SWBT_CONTROL_OK = SWBT_OK"
| "swbt_map_control_result SWBT_CONTROL_ERROR_OWNER_BUSY = SWBT_ERROR_OWNER_BUSY"
| "swbt_map_control_result SWBT_CONTROL_ERROR_NOT_OWNER = SWBT_ERROR_NOT_OWNER"
| "swbt_map_control_result SWBT_CONTROL_ERROR_INVALID_ARGUMENT = SWBT_ERROR_INVALID_ARGUMENT"

definition swbt_to_internal_state :: "swbt_controller_state_t \<Rightarrow> swbt_state_t" where
  "swbt_to_internal_state s = \<lparr>buttons = c_buttons s, lx = c_lx s, ly = c_ly s, rx = c_rx s, ry = c_ry s,
     accel_x = c_accel_x s, accel_y = c_accel_y s, accel_z = c_accel_z s,
     gyro_x = c_gyro_x s, gyro_y = c_gyro_y s, gyro_z = c_gyro_z s\<rparr>"

definition swbt_from_internal_state :: "swbt_state_t \<Rightarrow> swbt_controller_state_t" where
  "swbt_from_internal_state s = \<lparr>c_buttons = buttons s, c_lx = lx s, c_ly = ly s, c_rx = rx s, c_ry = ry s,
     c_accel_x = accel_x s, c_accel_y = accel_y s, c_accel_z = accel_z s,
     c_gyro_x = gyro_x s, c_gyro_y = gyro_y s, c_gyro_z = gyro_z s\<rparr>"

text \<open>
  \<open>swbt_open\<close>: the first argument says whether the caller passed a place for the
  handle, the other two are the memory that the two calls of \<open>malloc\<close> returned.
  The result is the handle stored through the out parameter.
\<close>

definition swbt_open :: "bool \<Rightarrow> swbt option \<Rightarrow> swbt_domain option \<Rightarrow> swbt_result_t \<times> swbt option" where
  "swbt_open has_out handle_mem domain_mem =
     (if \<not> has_out then (SWBT_ERROR_INVALID_ARGUMENT, None)
      else case handle_mem of
          None \<Rightarrow> (SWBT_ERROR_NO_MEMORY, None)
        | Some h \<Rightarrow>
            (case swbt_domain_create domain_mem of
               None \<Rightarrow> (SWBT_ERROR_NO_MEMORY, None)
             | Some a \<Rightarrow>
                 let h = h\<lparr>h_app := Some a\<rparr>;
                     (control_result, c) = swbt_control_init (Some (h_control h)) (Some (h_app h)) in
                 if control_result \<noteq> SWBT_CONTROL_OK then (swbt_map_control_result control_result, None)
                 else (SWBT_OK, Some (h\<lparr>h_control := the c\<rparr>))))"

definition swbt_submit_state ::
  "swbt option \<Rightarrow> swbt_controller_state_t option \<Rightarrow> swbt_result_t \<times> swbt option" where
  "swbt_submit_state handle state = (case (handle, state) of
       (Some h, Some s) \<Rightarrow>
         (let (r, c, app) = swbt_control_submit_state (Some (h_control h), h_app h) (Some (swbt_to_internal_state s))
          in (swbt_map_control_result r, Some (h\<lparr>h_control := the c, h_app := app\<rparr>)))
     | _ \<Rightarrow> (SWBT_ERROR_INVALID_ARGUMENT, handle))"

definition swbt_submit_neutral :: "swbt option \<Rightarrow> swbt_result_t \<times> swbt option" where
  "swbt_submit_neutral handle = (case handle of
       None \<Rightarrow> (SWBT_ERROR_INVALID_ARGUMENT, None)
     | Some h \<Rightarrow>
         (let (r, c, app) = swbt_control_submit_neutral (Some (h_control h), h_app h)
          in (swbt_map_control_result r, Some (h\<lparr>h_control := the c, h_app := app\<rparr>))))"

definition swbt_get_status ::
  "swbt option \<Rightarrow> swbt_status_t option \<Rightarrow> swbt_result_t \<times> swbt_status_t option" where
  "swbt_get_status handle out_status = (case (handle, out_status) of
       (Some h, Some _) \<Rightarrow>
         (let (r, st) = swbt_control_get_status (Some (h_control h), h_app h) None
                (Some \<lparr>cs_app = zero_status_snapshot, cs_has_runtime_status = False, cs_runtime = zero_runtime_status\<rparr>)
          in if r \<noteq> SWBT_CONTROL_OK then (swbt_map_control_result r, out_status)
             else (SWBT_OK, Some
               \<lparr>status_state = swbt_from_internal_state (st_state (cs_app (the st))),
                status_runtime_available = cs_has_runtime_status (the st),
                status_runtime_running = (cs_has_runtime_status (the st) \<and> rt_running (cs_runtime (the st)))\<rparr>))
     | _ \<Rightarrow> (SWBT_ERROR_INVALID_ARGUMENT, out_status))"

section \<open>Control operations are domain steps\<close>

lemma read_status_eq:
  "swbt_domain_read_status (Some a) (Some out) = (SWBT_DOMAIN_OK,
     Some (out\<lparr>st_has_owner := has_owner (dom_lease a), st_owner_client_id := owner_client_id (dom_lease a),
       st_last_sequence := last_sequence (dom_lease a), st_state := dom_state a, st_rumble := dom_rumble a,
       st_metrics := snapshot (dom_metrics a), st_daemon := dom_daemon a, st_hardware := dom_hardware a\<rparr>))"
  by (simp add: swbt_domain_read_status_def swbt_domain_lease_snapshot_def swbt_metrics_snapshot_def Let_def)

lemma set_state_some: "\<exists>r a'. swbt_domain_set_state (Some a) opts = (r, Some a')"
proof -
  obtain c st n where "opts = \<lparr>set_client_id = c, set_state = st, set_sequence = n\<rparr>"
    by (cases opts)
  then show ?thesis
    by (cases st) (simp_all add: domain_set_state_eq domain_set_state_null)
qed

lemma domain_exec_some:
  assumes "domain_inv a"
  shows "\<exists>a'. snd (domain_exec op (Some a)) = Some a'"
proof (cases op)
  case (SetState opts)
  then show ?thesis
    using set_state_some [of a opts] by auto
next
  case (Revoke opts)
  then show ?thesis
    by (cases opts) (simp add: domain_revoke_eq)
next
  case (HandleOutputReport orep opts d t resp)
  then show ?thesis
    using handle_output_report_inv [OF assms, of orep opts d t resp] by (auto simp: case_prod_beta)
qed (auto simp: domain_op_defs Let_def case_prod_beta split: option.splits)

lemma domain_exec_inv:
  assumes "domain_inv a"
  shows "\<exists>a'. snd (domain_exec op (Some a)) = Some a' \<and> domain_inv a'"
proof -
  obtain a' where "snd (domain_exec op (Some a)) = Some a'"
    using domain_exec_some [OF assms] by blast
  then show ?thesis
    using domain_step_inv [OF assms, of op a'] by (simp add: domain_step_def)
qed

lemma neutralised_inv: "domain_inv a \<Longrightarrow> domain_inv (neutralised a)"
  using domain_exec_inv [of a "Revoke \<lparr>revoke_reason = SWBT_DOMAIN_REVOKE_SHUTDOWN, revoke_client_id = 0\<rparr>"]
  by (simp add: domain_revoke_eq)

definition control_step :: "swbt_domain \<Rightarrow> swbt_domain \<Rightarrow> bool" where
  "control_step a a' \<longleftrightarrow> (\<exists>ops. steps domain_step a ops a')"

lemma control_step_inv: "control_step a a' \<Longrightarrow> domain_inv a \<Longrightarrow> domain_inv a'"
  unfolding control_step_def using domain.steps_inv by blast

lemma control_step1: "domain_step a op a' \<Longrightarrow> control_step a a'"
  unfolding control_step_def by (blast intro: steps_Cons steps_Nil)

lemma submit_client_state_eq:
  "swbt_control_submit_client_state (Some c, Some a) cid (Some s) n =
    (let (r, app) = swbt_domain_set_state (Some a) \<lparr>set_client_id = cid, set_state = Some s, set_sequence = n\<rparr>
     in (swbt_control_map_app_result r, Some c, app))"
  by (simp add: swbt_control_submit_client_state_def)

lemma submit_state_direct:
  assumes "domain_owner a = None \<and> last_sequence (dom_lease a) = 0
      \<or> domain_owner a = Some swbt_control_direct_client_id"
    and "last_sequence (dom_lease a) \<le> next_direct_sequence c + 1"
  shows "swbt_control_submit_state (Some c, Some a) (Some s) =
    (SWBT_CONTROL_OK, Some (c\<lparr>next_direct_sequence := next_direct_sequence c + 1\<rparr>),
     Some (a\<lparr>dom_lock := False,
       dom_lease := \<lparr>has_owner = True, owner_client_id = swbt_control_direct_client_id,
         last_sequence = next_direct_sequence c + 1\<rparr>,
       dom_state := s, dom_metrics := count_accepted (dom_metrics a)\<rparr>))"
  using assms
  by (cases "dom_lease a") (auto simp: swbt_control_submit_state_def domain_acquire_eq domain_set_state_eq
      domain_owner_def lease_owner_def Let_def not_less split: if_splits)

lemma submit_state_busy:
  assumes "domain_owner a = Some cid" "cid \<noteq> swbt_control_direct_client_id"
  shows "swbt_control_submit_state (Some c, Some a) (Some s) =
    (SWBT_CONTROL_ERROR_OWNER_BUSY, Some c, Some (a\<lparr>dom_lock := False\<rparr>))"
  using assms by (auto simp: swbt_control_submit_state_def domain_acquire_eq domain_owner_def lease_owner_def
      Let_def split: if_splits)

section \<open>The direct client of the C API\<close>

definition handle_at :: "nat \<Rightarrow> swbt \<Rightarrow> bool" where
  "handle_at n h \<longleftrightarrow> next_direct_sequence (h_control h) = of_nat n \<and>
     (\<exists>a. h_app h = Some a \<and> domain_inv a
       \<and> (domain_owner a = None \<or> domain_owner a = Some swbt_control_direct_client_id)
       \<and> last_sequence (dom_lease a) = (if domain_owner a = None then 0 else of_nat n))"

lemma from_to_internal: "swbt_from_internal_state (swbt_to_internal_state s) = s"
  by (cases s) (simp add: swbt_from_internal_state_def swbt_to_internal_state_def)

lemma open_handle_at:
  "\<exists>h. swbt_open True (Some hm) (Some dm) = (SWBT_OK, Some h) \<and> handle_at 0 h
    \<and> dom_state (the (h_app h)) = swbt_state_neutral"
proof -
  obtain a where a: "swbt_domain_create (Some dm) = Some a" "domain_inv a"
    using domain_create_inv by blast
  have "dom_lease a = free_lease"
    by (rule domain_create_free [OF a(1)])
  then have "domain_owner a = None" "last_sequence (dom_lease a) = 0" "dom_state a = swbt_state_neutral"
    using a(2) by (simp_all add: domain_owner_def lease_owner_def free_lease_def domain_inv_def)
  with a show ?thesis
    by (simp add: swbt_open_def swbt_control_init_def handle_at_def)
qed

lemma submit_handle_at:
  assumes "handle_at n h" "n + 1 < 2 ^ 64"
  shows "\<exists>h'. swbt_submit_state (Some h) (Some s) = (SWBT_OK, Some h') \<and> handle_at (n + 1) h'
    \<and> dom_state (the (h_app h')) = swbt_to_internal_state s"
proof -
  obtain a where a: "h_app h = Some a" "domain_inv a"
      "domain_owner a = None \<or> domain_owner a = Some swbt_control_direct_client_id"
      "last_sequence (dom_lease a) = (if domain_owner a = None then 0 else of_nat n)"
    and c: "next_direct_sequence (h_control h) = of_nat n"
    using assms(1) by (auto simp: handle_at_def)
  have le: "last_sequence (dom_lease a) \<le> next_direct_sequence (h_control h) + 1"
  proof -
    have "unat (1 + of_nat n :: u64) = Suc n"
      using unat_of_nat_small [where 'a = 64, of "Suc n"] assms(2) by simp
    moreover have "unat (of_nat n :: u64) = n"
      using unat_of_nat_small [where 'a = 64, of n] assms(2) by simp
    ultimately show ?thesis
      by (simp add: a(4) c word_le_nat_alt add.commute [of "of_nat n"])
  qed
  let ?lease = "\<lparr>has_owner = True, owner_client_id = swbt_control_direct_client_id,
      last_sequence = next_direct_sequence (h_control h) + 1\<rparr>"
  have sub: "swbt_control_submit_state (Some (h_control h), h_app h) (Some (swbt_to_internal_state s)) =
    (SWBT_CONTROL_OK, Some ((h_control h)\<lparr>next_direct_sequence := next_direct_sequence (h_control h) + 1\<rparr>),
     Some (a\<lparr>dom_lock := False, dom_lease := ?lease, dom_state := swbt_to_internal_state s,
       dom_metrics := count_accepted (dom_metrics a)\<rparr>))"
    unfolding a(1) by (rule submit_state_direct) (use a(3,4) le in auto)
  have inv: "domain_inv (a\<lparr>dom_lock := False, dom_lease := ?lease, dom_state := swbt_to_internal_state s,
      dom_metrics := count_accepted (dom_metrics a)\<rparr>)"
    using a(2) by (simp add: domain_inv_def lease_inv_def)
  show ?thesis
    using inv by (simp add: swbt_submit_state_def sub handle_at_def c domain_owner_def lease_owner_def add.commute)
qed

fun submit_all :: "swbt_controller_state_t list \<Rightarrow> swbt option \<Rightarrow> swbt option" where
  "submit_all [] h = h"
| "submit_all (s # ss) h = submit_all ss (snd (swbt_submit_state h (Some s)))"

lemma submit_all_handle_at:
  "handle_at n h \<Longrightarrow> n + length ss < 2 ^ 64 \<Longrightarrow>
   \<exists>h'. submit_all ss (Some h) = Some h' \<and> handle_at (n + length ss) h'"
proof (induction ss arbitrary: n h)
  case (Cons s ss)
  obtain h1 where "swbt_submit_state (Some h) (Some s) = (SWBT_OK, Some h1)" "handle_at (n + 1) h1"
    using submit_handle_at [of n h s] Cons.prems by auto
  with Cons.IH [of "n + 1" h1] Cons.prems(2) show ?case
    by auto
qed auto

section \<open>Properties\<close>

text \<open>C34: Through the C API, after opening a handle and any number of submissions below 2^64, a
  further submission succeeds and the status read afterwards is exactly the submitted state. The
  sequence numbers the control layer invents for its direct client are never stale.\<close>

theorem c_api_submit_roundtrip:
  assumes "length ss + 1 < 2 ^ 64"
  shows "\<exists>h h' h''. swbt_open True (Some hm) (Some dm) = (SWBT_OK, Some h)
    \<and> submit_all ss (Some h) = Some h'
    \<and> swbt_submit_state (Some h') (Some s) = (SWBT_OK, Some h'')
    \<and> swbt_get_status (Some h'') (Some out) =
        (SWBT_OK, Some \<lparr>status_state = s, status_runtime_available = False, status_runtime_running = False\<rparr>)"
proof -
  obtain h where h: "swbt_open True (Some hm) (Some dm) = (SWBT_OK, Some h)" "handle_at 0 h"
    using open_handle_at by blast
  obtain h' where h': "submit_all ss (Some h) = Some h'" "handle_at (length ss) h'"
    using submit_all_handle_at [OF h(2), of ss] assms by auto
  obtain h'' where h'': "swbt_submit_state (Some h') (Some s) = (SWBT_OK, Some h'')"
      "handle_at (length ss + 1) h''" "dom_state (the (h_app h'')) = swbt_to_internal_state s"
    using submit_handle_at [OF h'(2) assms] by blast
  have "swbt_get_status (Some h'') (Some out) =
      (SWBT_OK, Some \<lparr>status_state = s, status_runtime_available = False, status_runtime_running = False\<rparr>)"
    using h''(2,3) by (auto simp: swbt_get_status_def swbt_control_get_status_def read_status_eq Let_def
        handle_at_def from_to_internal)
  with h h' h'' show ?thesis
    by blast
qed

definition press_a :: swbt_controller_state_t where
  "press_a = swbt_from_internal_state (swbt_state_neutral\<lparr>buttons := 8\<rparr>)"

theorem c_api_submit_roundtrip_witness:
  "\<exists>h h' h''. swbt_open True (Some \<lparr>h_app = None, h_control = \<lparr>next_direct_sequence = 9\<rparr>\<rparr>) (Some zero_domain) =
      (SWBT_OK, Some h)
    \<and> submit_all [press_a, press_a] (Some h) = Some h'
    \<and> swbt_submit_state (Some h') (Some (press_a\<lparr>c_lx := 100\<rparr>)) = (SWBT_OK, Some h'')
    \<and> swbt_get_status (Some h'') (Some \<lparr>status_state = press_a, status_runtime_available = True,
          status_runtime_running = True\<rparr>) =
        (SWBT_OK, Some \<lparr>status_state = press_a\<lparr>c_lx := 100\<rparr>, status_runtime_available = False,
          status_runtime_running = False\<rparr>)"
  by (rule c_api_submit_roundtrip) simp

text \<open>A client's state submission through the control layer: only the owner can change the state;
  everyone else gets NOT_OWNER. A stale sequence number is reported as OK to the client although
  state and sequence stay as they are, the behaviour kept for existing IPC clients. A direct
  submission while another client owns the lease is refused as busy and changes nothing.\<close>

theorem control_submit_outcomes:
  "fst (swbt_control_submit_client_state (Some c, Some a) cid (Some s) n) =
      (if domain_owner a = Some cid then SWBT_CONTROL_OK else SWBT_CONTROL_ERROR_NOT_OWNER)
   \<and> (\<exists>a'. snd (swbt_control_submit_client_state (Some c, Some a) cid (Some s) n) = (Some c, Some a')
       \<and> dom_lease a' = (if domain_owner a = Some cid \<and> last_sequence (dom_lease a) \<le> n
                         then (dom_lease a)\<lparr>last_sequence := n\<rparr> else dom_lease a)
       \<and> dom_state a' = (if domain_owner a = Some cid \<and> last_sequence (dom_lease a) \<le> n
                         then s else dom_state a))
   \<and> (domain_owner a \<notin> {None, Some swbt_control_direct_client_id} \<longrightarrow>
       swbt_control_submit_state (Some c, Some a) (Some s) =
         (SWBT_CONTROL_ERROR_OWNER_BUSY, Some c, Some (a\<lparr>dom_lock := False\<rparr>)))"
proof (intro conjI impI)
  assume "domain_owner a \<notin> {None, Some swbt_control_direct_client_id}"
  then show "swbt_control_submit_state (Some c, Some a) (Some s) =
      (SWBT_CONTROL_ERROR_OWNER_BUSY, Some c, Some (a\<lparr>dom_lock := False\<rparr>))"
    using submit_state_busy by (cases "domain_owner a") auto
qed (auto simp: submit_client_state_eq domain_set_state_eq domain_owner_def lease_owner_def not_less)

theorem control_submit_outcomes_witness:
  "swbt_control_submit_state (Some \<lparr>next_direct_sequence = 0\<rparr>, Some demo_driven) (Some swbt_state_neutral) =
    (SWBT_CONTROL_ERROR_OWNER_BUSY, Some \<lparr>next_direct_sequence = 0\<rparr>, Some (demo_driven\<lparr>dom_lock := False\<rparr>))"
proof -
  have "domain_owner demo_driven \<notin> {None, Some swbt_control_direct_client_id}"
    by (simp add: domain_owner_def lease_owner_def demo_driven_def domain_acquire_eq domain_set_state_eq
        demo_domain_free free_lease_def swbt_control_direct_client_id_def)
  then show ?thesis
    using control_submit_outcomes [of "\<lparr>next_direct_sequence = 0\<rparr>" demo_driven 7 swbt_state_neutral 0] by blast
qed

end
