(* ===== verification/OutputHandler.thy ===== *)
theory OutputHandler
  imports Subcommand
begin

text \<open>
  The entry point of output reports of the console, \<open>btstack_bridge/output_report_handler.c\<close>
  and \<open>btstack_bridge/output_report_callbacks.c\<close>. BTstack delivers the report id either
  inside the data or apart from it; the handler puts it back in front, parses the
  report and calls its callback.

  The callback and its context are arguments of the model; the record says whether
  the callback pointer is set.
\<close>

section \<open>Model\<close>

definition SWBT_BTSTACK_HID_REPORT_TYPE_OUTPUT :: u8 where
  "SWBT_BTSTACK_HID_REPORT_TYPE_OUTPUT = 2"

definition SWBT_BTSTACK_OUTPUT_REPORT_MAX_SIZE :: nat where
  "SWBT_BTSTACK_OUTPUT_REPORT_MAX_SIZE = 64"

datatype swbt_btstack_output_report_result_t =
    SWBT_BTSTACK_OUTPUT_REPORT_OK
  | SWBT_BTSTACK_OUTPUT_REPORT_IGNORED_REPORT_TYPE
  | SWBT_BTSTACK_OUTPUT_REPORT_ERROR_INVALID_ARGUMENT
  | SWBT_BTSTACK_OUTPUT_REPORT_ERROR_REPORT_ID_TOO_LARGE
  | SWBT_BTSTACK_OUTPUT_REPORT_ERROR_BUFFER_TOO_SMALL
  | SWBT_BTSTACK_OUTPUT_REPORT_ERROR_PARSE_FAILED

record swbt_btstack_output_report_handler_t =
  oh_callback :: bool
  oh_scratch :: bytes

record swbt_btstack_output_report_handle_options_t =
  ho_hid_cid :: u16
  ho_report_type :: u8
  ho_report_id :: u16
  ho_report :: "bytes option"

type_synonym 'c output_callback = "'c \<Rightarrow> u16 \<Rightarrow> swbt_switch_output_report_t \<Rightarrow> 'c"

definition swbt_btstack_output_report_handler_init ::
  "swbt_btstack_output_report_handler_t option \<Rightarrow> bool \<Rightarrow> swbt_btstack_output_report_handler_t option" where
  "swbt_btstack_output_report_handler_init handler callback =
     map_option (\<lambda>h. h\<lparr>oh_callback := callback\<rparr>) handler"

definition swbt_btstack_output_report_handler_is_valid ::
  "swbt_btstack_output_report_handler_t option \<Rightarrow> bool" where
  "swbt_btstack_output_report_handler_is_valid handler =
     (case handler of None \<Rightarrow> False | Some h \<Rightarrow> oh_callback h)"

definition swbt_btstack_output_report_rejoin_id ::
  "swbt_btstack_output_report_handler_t \<Rightarrow> u16 \<Rightarrow> bytes
   \<Rightarrow> swbt_btstack_output_report_result_t \<times> swbt_btstack_output_report_handler_t \<times> bytes" where
  "swbt_btstack_output_report_rejoin_id h report_id report =
     (if report_id > 0xFF then (SWBT_BTSTACK_OUTPUT_REPORT_ERROR_REPORT_ID_TOO_LARGE, h, report)
      else if length report \<ge> SWBT_BTSTACK_OUTPUT_REPORT_MAX_SIZE
      then (SWBT_BTSTACK_OUTPUT_REPORT_ERROR_BUFFER_TOO_SMALL, h, report)
      else let scratch = (oh_scratch h)[0 := ucast report_id];
               scratch = copy_at scratch 1 report
           in (SWBT_BTSTACK_OUTPUT_REPORT_OK, h\<lparr>oh_scratch := scratch\<rparr>, take (length report + 1) scratch))"

text \<open>The parser overwrites all of its output, which is an uninitialised local here.\<close>

definition swbt_btstack_output_report_handler_handle ::
  "'c output_callback \<Rightarrow> swbt_btstack_output_report_handler_t option \<Rightarrow> 'c
   \<Rightarrow> swbt_btstack_output_report_handle_options_t
   \<Rightarrow> swbt_btstack_output_report_result_t \<times> swbt_btstack_output_report_handler_t option \<times> 'c" where
  "swbt_btstack_output_report_handler_handle callback handler ctx options =
     (if \<not> swbt_btstack_output_report_handler_is_valid handler \<or> ho_report options = None
      then (SWBT_BTSTACK_OUTPUT_REPORT_ERROR_INVALID_ARGUMENT, handler, ctx)
      else if ho_report_type options \<noteq> SWBT_BTSTACK_HID_REPORT_TYPE_OUTPUT
      then (SWBT_BTSTACK_OUTPUT_REPORT_IGNORED_REPORT_TYPE, handler, ctx)
      else
        let h = the handler; report = the (ho_report options);
            (rejoin_result, h, parser_report) =
              (if ho_report_id options \<noteq> 0
               then swbt_btstack_output_report_rejoin_id h (ho_report_id options) report
               else (SWBT_BTSTACK_OUTPUT_REPORT_OK, h, report)) in
        if rejoin_result \<noteq> SWBT_BTSTACK_OUTPUT_REPORT_OK then (rejoin_result, Some h, ctx)
        else
          let (parse_result, parsed) = swbt_switch_parse_output_report (Some parser_report) (Some blank_output_report) in
          if parse_result \<noteq> SWBT_SWITCH_SUBCOMMAND_OK
          then (SWBT_BTSTACK_OUTPUT_REPORT_ERROR_PARSE_FAILED, Some h, ctx)
          else (SWBT_BTSTACK_OUTPUT_REPORT_OK, Some h, callback ctx (ho_hid_cid options) (the parsed)))"

subsection \<open>The callbacks registered with BTstack\<close>

text \<open>
  \<open>g_output_report_handler\<close> is the first component: None, or the handler the
  pointer refers to. The other two say whether the callbacks are registered.
\<close>

datatype swbt_btstack_output_report_callbacks_result_t =
    SWBT_BTSTACK_OUTPUT_REPORT_CALLBACKS_OK
  | SWBT_BTSTACK_OUTPUT_REPORT_CALLBACKS_ERROR_INVALID_ARGUMENT

record output_callbacks =
  g_output_report_handler :: "swbt_btstack_output_report_handler_t option"
  data_callback_registered :: bool
  set_report_callback_registered :: bool

definition swbt_btstack_output_report_callbacks_dispatch ::
  "'c output_callback \<Rightarrow> output_callbacks \<Rightarrow> 'c \<Rightarrow> u16 \<Rightarrow> u8 \<Rightarrow> u16 \<Rightarrow> int \<Rightarrow> bytes option
   \<Rightarrow> output_callbacks \<times> 'c" where
  "swbt_btstack_output_report_callbacks_dispatch callback g ctx hid_cid report_type report_id report_size report =
     (if g_output_report_handler g = None \<or> report_size < 0 then (g, ctx)
      else let (_, handler, ctx) = swbt_btstack_output_report_handler_handle callback (g_output_report_handler g) ctx
                 \<lparr>ho_hid_cid = hid_cid, ho_report_type = report_type, ho_report_id = report_id,
                  ho_report = map_option (take (nat report_size)) report\<rparr>
           in (g\<lparr>g_output_report_handler := handler\<rparr>, ctx))"

definition swbt_btstack_output_report_data_callback ::
  "'c output_callback \<Rightarrow> output_callbacks \<Rightarrow> 'c \<Rightarrow> u16 \<Rightarrow> u8 \<Rightarrow> u16 \<Rightarrow> int \<Rightarrow> bytes option
   \<Rightarrow> output_callbacks \<times> 'c" where
  "swbt_btstack_output_report_data_callback callback g ctx hid_cid report_type report_id report_size report =
     swbt_btstack_output_report_callbacks_dispatch callback g ctx hid_cid report_type report_id report_size report"

definition swbt_btstack_set_report_callback ::
  "'c output_callback \<Rightarrow> output_callbacks \<Rightarrow> 'c \<Rightarrow> u16 \<Rightarrow> u8 \<Rightarrow> int \<Rightarrow> bytes option
   \<Rightarrow> output_callbacks \<times> 'c" where
  "swbt_btstack_set_report_callback callback g ctx hid_cid report_type report_size report =
     swbt_btstack_output_report_callbacks_dispatch callback g ctx hid_cid report_type 0 report_size report"

definition swbt_btstack_output_report_callbacks_register ::
  "output_callbacks \<Rightarrow> swbt_btstack_output_report_handler_t option
   \<Rightarrow> swbt_btstack_output_report_callbacks_result_t \<times> output_callbacks" where
  "swbt_btstack_output_report_callbacks_register g handler =
     (if handler = None then (SWBT_BTSTACK_OUTPUT_REPORT_CALLBACKS_ERROR_INVALID_ARGUMENT, g)
      else (SWBT_BTSTACK_OUTPUT_REPORT_CALLBACKS_OK,
            g\<lparr>g_output_report_handler := handler, data_callback_registered := True,
              set_report_callback_registered := True\<rparr>))"

definition swbt_btstack_output_report_callbacks_unregister :: "output_callbacks \<Rightarrow> output_callbacks" where
  "swbt_btstack_output_report_callbacks_unregister g =
     g\<lparr>g_output_report_handler := None, data_callback_registered := False, set_report_callback_registered := False\<rparr>"

section \<open>Lemmas\<close>

lemma rejoin_ok:
  assumes "length (oh_scratch h) = 64" "length report < 64"
  shows "\<exists>h'. swbt_btstack_output_report_rejoin_id h (ucast (i :: u8)) report =
      (SWBT_BTSTACK_OUTPUT_REPORT_OK, h', i # report)
    \<and> length (oh_scratch h') = 64 \<and> oh_callback h' = oh_callback h"
proof -
  have small: "\<not> (ucast i :: u16) > 0xFF"
    using unsigned_less [of i, where 'a = nat] by (simp add: word_less_nat_alt unat_ucast_up)
  have narrow: "ucast (ucast i :: u16) = i"
    by (rule bit_word_eqI) (simp add: bit_simps)
  obtain x xs where sc: "oh_scratch h = x # xs" "length xs = 63"
    using assms(1) by (cases "oh_scratch h") auto
  have "copy_at ((oh_scratch h)[0 := i]) 1 report = i # copy_at xs 0 report"
    using sc assms(2) by (simp add: copy_at_eq_append)
  then have "take (length report + 1) (copy_at ((oh_scratch h)[0 := i]) 1 report) = i # report"
    using sc assms(2) by (simp add: copy_at_eq_append)
  then show ?thesis
    using assms small narrow
    by (simp add: swbt_btstack_output_report_rejoin_id_def SWBT_BTSTACK_OUTPUT_REPORT_MAX_SIZE_def Let_def)
qed

lemma handle_parsed:
  assumes "oh_callback h" "report_id = 0 \<and> bs = report \<or> report_id = ucast (i :: u8) \<and> i \<noteq> 0 \<and> bs = i # report"
    and "length (oh_scratch h) = 64" "length report < 64"
    and "swbt_switch_parse_output_report (Some bs) (Some blank_output_report) = (SWBT_SWITCH_SUBCOMMAND_OK, Some parsed)"
  shows "\<exists>h'. swbt_btstack_output_report_handler_handle callback (Some h) ctx
      \<lparr>ho_hid_cid = cid, ho_report_type = 2, ho_report_id = report_id, ho_report = Some report\<rparr> =
      (SWBT_BTSTACK_OUTPUT_REPORT_OK, Some h', callback ctx cid parsed)
    \<and> oh_callback h' \<and> length (oh_scratch h') = 64"
proof -
  have nz: "(ucast i :: u16) \<noteq> 0" if "i \<noteq> 0"
    using that by (simp add: word_unat_eq_iff unat_ucast_up)
  obtain h' where "swbt_btstack_output_report_rejoin_id h (ucast i) report =
      (SWBT_BTSTACK_OUTPUT_REPORT_OK, h', i # report)" "length (oh_scratch h') = 64" "oh_callback h'"
    using rejoin_ok [OF assms(3,4), of i] assms(1) by auto
  then show ?thesis
    using assms nz
    by (auto simp: swbt_btstack_output_report_handler_handle_def swbt_btstack_output_report_handler_is_valid_def
        SWBT_BTSTACK_HID_REPORT_TYPE_OUTPUT_def Let_def)
qed

lemma deliver_packet:
  assumes "oh_callback h" and "length (oh_scratch h) = 64" and "length rmb = 8" and "length data < 52"
    and "delivery = (0, subcommand_packet counter rmb sid data)
       \<or> delivery = (0x01, tl (subcommand_packet counter rmb sid data))"
  shows "\<exists>h'. swbt_btstack_output_report_handler_handle callback (Some h) ctx
      \<lparr>ho_hid_cid = cid, ho_report_type = 2, ho_report_id = fst delivery, ho_report = Some (snd delivery)\<rparr> =
      (SWBT_BTSTACK_OUTPUT_REPORT_OK, Some h', callback ctx cid
        \<lparr>output_report_id = 0x01, packet_counter = counter, rumble = rmb, has_subcommand = True,
         subcommand_id = sid, subcommand_data = (if data = [] then None else Some data)\<rparr>)
    \<and> oh_callback h' \<and> length (oh_scratch h') = 64"
proof -
  let ?p = "subcommand_packet counter rmb sid data"
  have split: "?p = 1 # tl ?p" "length ?p < 64"
    using assms(3,4) by (simp_all add: subcommand_packet_def)
  note parsed = parse_subcommand_packet [of blank_output_report rmb counter sid data,
      simplified blank_output_report_def swbt_switch_output_report_t.simps length_replicate, OF refl assms(3),
      folded blank_output_report_def]
  show ?thesis
    using assms(5)
  proof
    assume "delivery = (0, ?p)"
    then show ?thesis
      using handle_parsed [OF assms(1) _ assms(2) split(2) parsed, where report_id = 0 and i = 1
          and callback = callback and ctx = ctx and cid = cid] by simp
  next
    assume d: "delivery = (1, tl ?p)"
    have "length (tl ?p) < 64"
      using split(2) by simp
    from handle_parsed [OF assms(1) _ assms(2) this parsed, where report_id = 1 and i = 1
        and callback = callback and ctx = ctx and cid = cid] split(1) d show ?thesis
      by simp
  qed
qed

text \<open>The exact outcome of every delivery.\<close>

lemma handle_branches:
  assumes "oh_callback h" and "length (oh_scratch h) = 64"
  shows "swbt_btstack_output_report_handler_handle callback (Some h) ctx options =
    (if ho_report options = None then (SWBT_BTSTACK_OUTPUT_REPORT_ERROR_INVALID_ARGUMENT, Some h, ctx)
     else if ho_report_type options \<noteq> 2 then (SWBT_BTSTACK_OUTPUT_REPORT_IGNORED_REPORT_TYPE, Some h, ctx)
     else if ho_report_id options > 0xFF then (SWBT_BTSTACK_OUTPUT_REPORT_ERROR_REPORT_ID_TOO_LARGE, Some h, ctx)
     else if ho_report_id options \<noteq> 0 \<and> length (the (ho_report options)) \<ge> 64
     then (SWBT_BTSTACK_OUTPUT_REPORT_ERROR_BUFFER_TOO_SMALL, Some h, ctx)
     else let bs = (if ho_report_id options = 0 then [] else [ucast (ho_report_id options)]) @ the (ho_report options);
              (pr, parsed) = swbt_switch_parse_output_report (Some bs) (Some blank_output_report);
              h' = (if ho_report_id options = 0 then h else h\<lparr>oh_scratch := copy_at (oh_scratch h) 0 bs\<rparr>) in
       if pr \<noteq> SWBT_SWITCH_SUBCOMMAND_OK then (SWBT_BTSTACK_OUTPUT_REPORT_ERROR_PARSE_FAILED, Some h', ctx)
       else (SWBT_BTSTACK_OUTPUT_REPORT_OK, Some h', callback ctx (ho_hid_cid options) (the parsed)))"
proof -
  obtain x xs where sc: "oh_scratch h = x # xs" "length xs = 63"
    using assms(2) by (cases "oh_scratch h") auto
  have rejoin: "swbt_btstack_output_report_rejoin_id h i bs =
      (SWBT_BTSTACK_OUTPUT_REPORT_OK, h\<lparr>oh_scratch := copy_at (oh_scratch h) 0 (ucast i # bs)\<rparr>, ucast i # bs)"
    if "\<not> i > 0xFF" "length bs < 64" for i bs
    using that sc
    by (simp add: swbt_btstack_output_report_rejoin_id_def SWBT_BTSTACK_OUTPUT_REPORT_MAX_SIZE_def Let_def copy_at_eq_append)
  have large: "swbt_btstack_output_report_rejoin_id h i bs =
      (if i > 0xFF then SWBT_BTSTACK_OUTPUT_REPORT_ERROR_REPORT_ID_TOO_LARGE
       else SWBT_BTSTACK_OUTPUT_REPORT_ERROR_BUFFER_TOO_SMALL, h, bs)"
    if "i > 0xFF \<or> length bs \<ge> 64" for i bs
    using that by (auto simp: swbt_btstack_output_report_rejoin_id_def SWBT_BTSTACK_OUTPUT_REPORT_MAX_SIZE_def)
  consider "ho_report options = None" | bs where "ho_report options = Some bs" "ho_report_id options > 0xFF \<or> length bs \<ge> 64"
    | bs where "ho_report options = Some bs" "\<not> ho_report_id options > 0xFF" "length bs < 64"
    by (metis not_less option.exhaust)
  then show ?thesis
    using assms(1)
    by cases (auto simp: swbt_btstack_output_report_handler_handle_def swbt_btstack_output_report_handler_is_valid_def
        SWBT_BTSTACK_HID_REPORT_TYPE_OUTPUT_def Let_def rejoin large split: prod.splits)
qed


section \<open>Properties\<close>

text \<open>An output report reaches the callback exactly once and with the same content whichever way
  BTstack delivers it: with the report id inside the data, as the control channel does, or apart from
  it. In both cases the callback gets the counter, the rumble bytes and the subcommand the console sent.\<close>

theorem output_report_delivered:
  assumes "oh_callback h" and "length (oh_scratch h) = 64" and "length rmb = 8" and "length data < 52"
    and "delivery = (0, subcommand_packet counter rmb sid data)
       \<or> delivery = (0x01, tl (subcommand_packet counter rmb sid data))"
  shows "\<exists>h'. swbt_btstack_output_report_handler_handle (\<lambda>log cid r. log @ [(cid, r)]) (Some h) log
      \<lparr>ho_hid_cid = cid, ho_report_type = 2, ho_report_id = fst delivery, ho_report = Some (snd delivery)\<rparr> =
      (SWBT_BTSTACK_OUTPUT_REPORT_OK, Some h', log @ [(cid,
        \<lparr>output_report_id = 0x01, packet_counter = counter, rumble = rmb, has_subcommand = True,
         subcommand_id = sid, subcommand_data = (if data = [] then None else Some data)\<rparr>)])
    \<and> oh_callback h' \<and> length (oh_scratch h') = 64"
  by (rule deliver_packet [OF assms])

theorem output_report_delivered_witness:
  "\<exists>h'. swbt_btstack_output_report_handler_handle (\<lambda>log cid r. log @ [(cid, r)])
      (Some \<lparr>oh_callback = True, oh_scratch = replicate 64 0\<rparr>) []
      \<lparr>ho_hid_cid = 0x42, ho_report_type = 2, ho_report_id = 1, ho_report = Some (7 # replicate 8 0 @ [0x02])\<rparr> =
      (SWBT_BTSTACK_OUTPUT_REPORT_OK, Some h', [(0x42,
        \<lparr>output_report_id = 0x01, packet_counter = 7, rumble = replicate 8 0, has_subcommand = True,
         subcommand_id = 0x02, subcommand_data = None\<rparr>)])"
  using output_report_delivered [of "\<lparr>oh_callback = True, oh_scratch = replicate 64 0\<rparr>" "replicate 8 0" "[]"
      "(1, tl (subcommand_packet 7 (replicate 8 0) 0x02 []))" 7 "0x02" "[]" "0x42"]
  by (simp add: subcommand_packet_def) blast

text \<open>What the handler does with any delivery: the callback is called once, with the parsed report,
  exactly when the report type is output, the id fits in a byte, the rejoined report fits in the
  buffer and the parser accepts it. In every other case it is not called and the result says why.\<close>

theorem output_report_cases:
  assumes "oh_callback h" and "length (oh_scratch h) = 64"
  shows "swbt_btstack_output_report_handler_handle callback (Some h) ctx options =
    (if ho_report options = None then (SWBT_BTSTACK_OUTPUT_REPORT_ERROR_INVALID_ARGUMENT, Some h, ctx)
     else if ho_report_type options \<noteq> 2 then (SWBT_BTSTACK_OUTPUT_REPORT_IGNORED_REPORT_TYPE, Some h, ctx)
     else if ho_report_id options > 0xFF then (SWBT_BTSTACK_OUTPUT_REPORT_ERROR_REPORT_ID_TOO_LARGE, Some h, ctx)
     else if ho_report_id options \<noteq> 0 \<and> length (the (ho_report options)) \<ge> 64
     then (SWBT_BTSTACK_OUTPUT_REPORT_ERROR_BUFFER_TOO_SMALL, Some h, ctx)
     else let bs = (if ho_report_id options = 0 then [] else [ucast (ho_report_id options)]) @ the (ho_report options);
              (pr, parsed) = swbt_switch_parse_output_report (Some bs) (Some blank_output_report);
              h' = (if ho_report_id options = 0 then h else h\<lparr>oh_scratch := copy_at (oh_scratch h) 0 bs\<rparr>) in
       if pr \<noteq> SWBT_SWITCH_SUBCOMMAND_OK then (SWBT_BTSTACK_OUTPUT_REPORT_ERROR_PARSE_FAILED, Some h', ctx)
       else (SWBT_BTSTACK_OUTPUT_REPORT_OK, Some h', callback ctx (ho_hid_cid options) (the parsed)))"
  by (rule handle_branches [OF assms])

theorem output_report_cases_witness:
  "swbt_btstack_output_report_handler_handle (\<lambda>n _ _. Suc n) (Some \<lparr>oh_callback = True, oh_scratch = replicate 64 0\<rparr>) 0
      \<lparr>ho_hid_cid = 0x42, ho_report_type = 2, ho_report_id = 0x101, ho_report = Some [7]\<rparr> =
    (SWBT_BTSTACK_OUTPUT_REPORT_ERROR_REPORT_ID_TOO_LARGE, Some \<lparr>oh_callback = True, oh_scratch = replicate 64 0\<rparr>, 0)"
  using output_report_cases [of "\<lparr>oh_callback = True, oh_scratch = replicate 64 0\<rparr>" "\<lambda>n _ _. Suc n" 0
      "\<lparr>ho_hid_cid = 0x42, ho_report_type = 2, ho_report_id = 0x101, ho_report = Some [7]\<rparr>"]
  by simp

end
