(* ===== verification/Host.thy ===== *)
theory Host
  imports Control OutputHandler
begin

text \<open>
  The runtime host of \<open>runtime/host.c\<close>: it owns the domain, registers the HID
  device, starts the output report handler and the report timer, answers output
  reports and stores a neutral state when it stops.

  What the host asks of its backend is recorded in the ghost field \<open>host_trace\<close>;
  what the backend answers during one call is the \<open>host_env\<close> of the call.
\<close>

section \<open>Model\<close>

datatype swbt_runtime_host_result_t =
    SWBT_RUNTIME_HOST_OK
  | SWBT_RUNTIME_HOST_PENDING
  | SWBT_RUNTIME_HOST_ERROR_INVALID_ARGUMENT
  | SWBT_RUNTIME_HOST_ERROR_BACKEND

datatype host_event =
    HidRegister int
  | HidStop
  | OutputHandlerStart
  | OutputHandlerStop
  | ReportTimerStart int
  | ReportTimerStop
  | ReportTimerSendNeutralNow int
  | SubcommandReplyEnqueue u16 bytes int

text \<open>Which members of the backend table are set.\<close>

record swbt_runtime_host_backend_t =
  hb_hid_register :: bool
  hb_hid_stop :: bool
  hb_output_handler_start :: bool
  hb_output_handler_stop :: bool
  hb_report_timer_start :: bool
  hb_report_timer_stop :: bool
  hb_report_timer_send_neutral_now :: bool
  hb_subcommand_reply_enqueue :: bool
  hb_read_device_info :: bool
  hb_time_ms :: bool

record host_env =
  he_hid_register :: int
  he_report_timer_start :: int
  he_send_neutral_now :: int
  he_subcommand_reply_enqueue :: "u16 \<Rightarrow> bytes \<Rightarrow> int"
  he_read_device_info :: "int \<times> swbt_switch_device_info_t"
  he_time_ms :: u32
  he_response_memory :: response

record swbt_runtime_host_config_t =
  hc_report_options :: swbt_switch_report_options_t
  hc_device_info :: swbt_switch_device_info_t
  hc_daemon_status :: swbt_domain_daemon_status_t

record swbt_runtime_host_status_t =
  hs_initialized :: bool
  hs_running :: bool
  hs_hid_registered :: bool
  hs_output_handler_started :: bool
  hs_report_timer_started :: bool

record swbt_runtime_host_t =
  host_backend :: "swbt_runtime_host_backend_t option"
  host_app :: "swbt_domain option"
  host_control :: swbt_control_t
  host_report_options :: swbt_switch_report_options_t
  host_device_info :: swbt_switch_device_info_t
  host_output_handler :: swbt_btstack_output_report_handler_t
  host_initialized :: bool
  host_running :: bool
  host_hid_registered :: bool
  host_output_handler_started :: bool
  host_report_timer_started :: bool
  host_trace :: "host_event list"

type_synonym host = swbt_runtime_host_t

definition host_emit :: "host_event \<Rightarrow> host \<Rightarrow> host" where
  "host_emit e h = h\<lparr>host_trace := host_trace h @ [e]\<rparr>"

definition swbt_runtime_backend_is_valid :: "swbt_runtime_host_backend_t option \<Rightarrow> bool" where
  "swbt_runtime_backend_is_valid bt = (case bt of None \<Rightarrow> False | Some b \<Rightarrow>
     hb_hid_register b \<and> hb_hid_stop b \<and> hb_output_handler_start b \<and> hb_output_handler_stop b
     \<and> hb_report_timer_start b \<and> hb_report_timer_stop b \<and> hb_report_timer_send_neutral_now b
     \<and> hb_subcommand_reply_enqueue b \<and> hb_time_ms b)"

definition swbt_runtime_host_read_state :: "host option \<Rightarrow> swbt_state_t" where
  "swbt_runtime_host_read_state runtime = (case runtime of
       None \<Rightarrow> swbt_state_neutral
     | Some h \<Rightarrow> (let (r, state) = swbt_domain_read_controller_state (host_app h) (Some swbt_state_neutral)
                 in if r \<noteq> SWBT_DOMAIN_OK then swbt_state_neutral else the state))"

definition swbt_runtime_host_on_output_report ::
  "host_env \<Rightarrow> host option \<Rightarrow> u16 \<Rightarrow> swbt_switch_output_report_t option \<Rightarrow> host option" where
  "swbt_runtime_host_on_output_report env runtime hid_cid report = (case (runtime, report) of
       (Some h, Some r) \<Rightarrow>
         let device_info = (if hb_read_device_info (the (host_backend h)) \<and> fst (he_read_device_info env) = 0
                            then snd (he_read_device_info env) else host_device_info h);
             (result, app, response) = swbt_domain_handle_output_report (host_app h) (Some r)
               (Some (host_report_options h)) (Some device_info) (ucast (he_time_ms env)) (Some (he_response_memory env));
             h = h\<lparr>host_app := app\<rparr> in
         if result \<noteq> SWBT_DOMAIN_OK \<or> resp_action (the response) \<noteq> SWBT_SWITCH_SUBCOMMAND_DISPATCH_ACTION_REPLY
         then Some h
         else let bs = take (resp_report_size (the response)) (resp_report (the response))
              in Some (host_emit (SubcommandReplyEnqueue hid_cid bs (he_subcommand_reply_enqueue env hid_cid bs)) h)
     | _ \<Rightarrow> runtime)"

definition swbt_runtime_host_store_neutral :: "host \<Rightarrow> host" where
  "swbt_runtime_host_store_neutral h = h\<lparr>host_app := snd (swbt_domain_revoke (host_app h)
     \<lparr>revoke_reason = SWBT_DOMAIN_REVOKE_SHUTDOWN, revoke_client_id = 0\<rparr>)\<rparr>"

definition swbt_runtime_host_read_status_for_control ::
  "host option \<Rightarrow> swbt_control_runtime_status_t option \<Rightarrow> int \<times> swbt_control_runtime_status_t option" where
  "swbt_runtime_host_read_status_for_control runtime out_status = (case (runtime, out_status) of
       (Some h, Some _) \<Rightarrow> (0, Some \<lparr>rt_initialized = host_initialized h, rt_running = host_running h,
          rt_hid_registered = host_hid_registered h, rt_output_handler_started = host_output_handler_started h,
          rt_report_timer_started = host_report_timer_started h\<rparr>)
     | _ \<Rightarrow> (- 1, out_status))"

text \<open>The value of \<open>(swbt_runtime_host_t){0}\<close>; the trace is not part of the program.\<close>

definition zero_host :: "host_event list \<Rightarrow> host" where
  "zero_host trace = \<lparr>host_backend = None, host_app = None, host_control = \<lparr>next_direct_sequence = 0\<rparr>,
     host_report_options = \<lparr>opt_timer = 0, opt_battery_connection = 0, opt_vibrator_report = 0\<rparr>,
     host_device_info = \<lparr>firmware_version = replicate 2 0, controller_type = 0,
       bluetooth_address = replicate 6 0, tail_unknown = 0, color_source = 0\<rparr>,
     host_output_handler = \<lparr>oh_callback = False, oh_scratch = replicate 64 0\<rparr>,
     host_initialized = False, host_running = False, host_hid_registered = False,
     host_output_handler_started = False, host_report_timer_started = False, host_trace = trace\<rparr>"

definition swbt_runtime_host_init ::
  "host option \<Rightarrow> swbt_runtime_host_config_t option \<Rightarrow> swbt_runtime_host_backend_t option \<Rightarrow> swbt_domain option
   \<Rightarrow> swbt_runtime_host_result_t \<times> host option" where
  "swbt_runtime_host_init runtime config bt domain_mem = (case (runtime, config) of
       (Some old, Some cfg) \<Rightarrow>
         if \<not> swbt_runtime_backend_is_valid bt then (SWBT_RUNTIME_HOST_ERROR_INVALID_ARGUMENT, runtime)
         else
           let h = (zero_host (host_trace old))\<lparr>host_backend := bt, host_app := swbt_domain_create domain_mem\<rparr> in
           if host_app h = None then (SWBT_RUNTIME_HOST_ERROR_INVALID_ARGUMENT, Some h)
           else
             let (sr, app) = swbt_domain_set_daemon_status (host_app h) (Some (hc_daemon_status cfg));
                 h = h\<lparr>host_app := app\<rparr> in
             if sr \<noteq> SWBT_DOMAIN_OK
             then (SWBT_RUNTIME_HOST_ERROR_INVALID_ARGUMENT, Some (h\<lparr>host_app := None\<rparr>))
             else
               let h = h\<lparr>host_report_options := hc_report_options cfg, host_device_info := hc_device_info cfg,
                         host_output_handler := the (swbt_btstack_output_report_handler_init
                           (Some (host_output_handler h)) True)\<rparr>;
                   (cr, c) = swbt_control_init (Some (host_control h)) (Some (host_app h));
                   h = h\<lparr>host_control := the c\<rparr> in
               if cr \<noteq> SWBT_CONTROL_OK
               then (SWBT_RUNTIME_HOST_ERROR_INVALID_ARGUMENT, Some (h\<lparr>host_app := None\<rparr>))
               else (SWBT_RUNTIME_HOST_OK, Some (h\<lparr>host_initialized := True\<rparr>))
     | _ \<Rightarrow> (SWBT_RUNTIME_HOST_ERROR_INVALID_ARGUMENT, runtime))"

definition swbt_runtime_host_stop :: "host option \<Rightarrow> host option" where
  "swbt_runtime_host_stop runtime = (case runtime of
       None \<Rightarrow> None
     | Some h \<Rightarrow>
         if \<not> host_initialized h then Some h
         else
           let h = swbt_runtime_host_store_neutral h;
               h = (if host_report_timer_started h
                    then (host_emit ReportTimerStop h)\<lparr>host_report_timer_started := False\<rparr> else h);
               h = (if host_output_handler_started h
                    then (host_emit OutputHandlerStop h)\<lparr>host_output_handler_started := False\<rparr> else h);
               h = (if host_hid_registered h
                    then (host_emit HidStop h)\<lparr>host_hid_registered := False\<rparr> else h)
           in Some (h\<lparr>host_running := False\<rparr>))"

definition swbt_runtime_host_start :: "host_env \<Rightarrow> host option \<Rightarrow> swbt_runtime_host_result_t \<times> host option" where
  "swbt_runtime_host_start env runtime = (case runtime of
       None \<Rightarrow> (SWBT_RUNTIME_HOST_ERROR_INVALID_ARGUMENT, None)
     | Some h \<Rightarrow>
         if \<not> host_initialized h then (SWBT_RUNTIME_HOST_ERROR_INVALID_ARGUMENT, Some h)
         else if host_running h then (SWBT_RUNTIME_HOST_OK, Some h)
         else
           let h = host_emit (HidRegister (he_hid_register env)) h in
           if he_hid_register env \<noteq> 0 then (SWBT_RUNTIME_HOST_ERROR_BACKEND, Some h)
           else
             let h = h\<lparr>host_hid_registered := True\<rparr>;
                 h = host_emit OutputHandlerStart h;
                 h = h\<lparr>host_output_handler_started := True\<rparr>;
                 h = host_emit (ReportTimerStart (he_report_timer_start env)) h in
             if he_report_timer_start env \<noteq> 0
             then (SWBT_RUNTIME_HOST_ERROR_BACKEND, swbt_runtime_host_stop (Some h))
             else (SWBT_RUNTIME_HOST_OK, Some (h\<lparr>host_report_timer_started := True, host_running := True\<rparr>)))"

definition swbt_runtime_host_send_neutral_now ::
  "host_env \<Rightarrow> host option \<Rightarrow> swbt_runtime_host_result_t \<times> host option" where
  "swbt_runtime_host_send_neutral_now env runtime = (case runtime of
       None \<Rightarrow> (SWBT_RUNTIME_HOST_ERROR_INVALID_ARGUMENT, None)
     | Some h \<Rightarrow>
         if \<not> host_initialized h then (SWBT_RUNTIME_HOST_ERROR_INVALID_ARGUMENT, Some h)
         else
           let h = swbt_runtime_host_store_neutral h in
           if \<not> host_report_timer_started h then (SWBT_RUNTIME_HOST_OK, Some h)
           else
             let send_result = he_send_neutral_now env; h = host_emit (ReportTimerSendNeutralNow send_result) h in
             if send_result > 0 then (SWBT_RUNTIME_HOST_PENDING, Some h)
             else if send_result \<noteq> 0 then (SWBT_RUNTIME_HOST_ERROR_BACKEND, Some h)
             else (SWBT_RUNTIME_HOST_OK, Some h))"

definition swbt_runtime_host_destroy :: "host option \<Rightarrow> host option" where
  "swbt_runtime_host_destroy runtime = (case runtime of
       None \<Rightarrow> None
     | Some _ \<Rightarrow> map_option (\<lambda>h. zero_host (host_trace h)) (swbt_runtime_host_stop runtime))"

definition swbt_runtime_host_is_running :: "host option \<Rightarrow> bool" where
  "swbt_runtime_host_is_running runtime = (case runtime of None \<Rightarrow> False | Some h \<Rightarrow> host_running h)"

definition swbt_runtime_host_status ::
  "host option \<Rightarrow> swbt_runtime_host_status_t option
   \<Rightarrow> swbt_runtime_host_result_t \<times> swbt_runtime_host_status_t option" where
  "swbt_runtime_host_status runtime out_status = (case (runtime, out_status) of
       (Some h, Some _) \<Rightarrow> (SWBT_RUNTIME_HOST_OK, Some \<lparr>hs_initialized = host_initialized h,
          hs_running = host_running h, hs_hid_registered = host_hid_registered h,
          hs_output_handler_started = host_output_handler_started h,
          hs_report_timer_started = host_report_timer_started h\<rparr>)
     | _ \<Rightarrow> (SWBT_RUNTIME_HOST_ERROR_INVALID_ARGUMENT, out_status))"

text \<open>The accessors, used by the daemon to reach the parts of the host.\<close>

definition swbt_runtime_host_output_handler :: "host option \<Rightarrow> swbt_btstack_output_report_handler_t option" where
  "swbt_runtime_host_output_handler runtime = map_option host_output_handler runtime"

definition swbt_runtime_host_app :: "host option \<Rightarrow> swbt_domain option" where
  "swbt_runtime_host_app runtime = (case runtime of None \<Rightarrow> None | Some h \<Rightarrow> host_app h)"

definition swbt_runtime_host_control :: "host option \<Rightarrow> swbt_control_t option" where
  "swbt_runtime_host_control runtime = map_option host_control runtime"

text \<open>
  An output report as it reaches the host: through its handler, whose callback is
  \<open>swbt_runtime_host_on_output_report\<close> with the host as context.
\<close>

definition host_receive ::
  "host_env \<Rightarrow> host \<Rightarrow> swbt_btstack_output_report_handle_options_t \<Rightarrow> swbt_btstack_output_report_result_t \<times> host" where
  "host_receive env h options =
     (let (result, handler, h') = swbt_btstack_output_report_handler_handle
            (\<lambda>h cid r. the (swbt_runtime_host_on_output_report env (Some h) cid (Some r)))
            (Some (host_output_handler h)) h options
      in (result, h'\<lparr>host_output_handler := the handler\<rparr>))"

section \<open>Backend resources\<close>

text \<open>
  The contract of the backend as an automaton over the calls: the HID
  registration, the output handler and the report timer are taken in this order
  and given back in the opposite one, and none of them twice. None is a misuse.
\<close>

type_synonym resources = "bool \<times> bool \<times> bool"

fun backend_call :: "host_event \<Rightarrow> resources \<Rightarrow> resources option" where
  "backend_call (HidRegister code) (hid, out, tim) =
     (if hid \<or> out \<or> tim then None else Some (code = 0, False, False))"
| "backend_call OutputHandlerStart (hid, out, tim) = (if hid \<and> \<not> out \<and> \<not> tim then Some (True, True, False) else None)"
| "backend_call (ReportTimerStart code) (hid, out, tim) =
     (if hid \<and> out \<and> \<not> tim then Some (True, True, code = 0) else None)"
| "backend_call (ReportTimerSendNeutralNow _) (hid, out, tim) = (if tim then Some (hid, out, tim) else None)"
| "backend_call (SubcommandReplyEnqueue _ _ _) (hid, out, tim) = (if out then Some (hid, out, tim) else None)"
| "backend_call ReportTimerStop (hid, out, tim) = (if tim then Some (hid, out, False) else None)"
| "backend_call OutputHandlerStop (hid, out, tim) = (if out \<and> \<not> tim then Some (hid, False, False) else None)"
| "backend_call HidStop (hid, out, tim) = (if hid \<and> \<not> out \<and> \<not> tim then Some (False, False, False) else None)"

fun backend_calls :: "host_event list \<Rightarrow> resources \<Rightarrow> resources option" where
  "backend_calls [] r = Some r"
| "backend_calls (e # es) r = (case backend_call e r of None \<Rightarrow> None | Some r' \<Rightarrow> backend_calls es r')"

lemma backend_calls_append:
  "backend_calls (es @ fs) r = (case backend_calls es r of None \<Rightarrow> None | Some r' \<Rightarrow> backend_calls fs r')"
  by (induction es r rule: backend_calls.induct) (auto split: option.splits)

definition host_resources :: "host \<Rightarrow> resources" where
  "host_resources h = (host_hid_registered h, host_output_handler_started h, host_report_timer_started h)"

definition host_inv :: "host \<Rightarrow> bool" where
  "host_inv h \<longleftrightarrow> host_initialized h \<and> swbt_runtime_backend_is_valid (host_backend h)
     \<and> (\<exists>a. host_app h = Some a \<and> domain_inv a)
     \<and> host_resources h = (host_running h, host_running h, host_running h)
     \<and> backend_calls (host_trace h) (False, False, False) = Some (host_resources h)
     \<and> oh_callback (host_output_handler h) \<and> length (oh_scratch (host_output_handler h)) = 64
     \<and> device_info_wf (host_device_info h)"

subsection \<open>Operations as steps\<close>

datatype host_op =
    HostStart host_env
  | HostStop
  | HostSendNeutralNow host_env
  | HostReceive host_env swbt_btstack_output_report_handle_options_t
  | HostDomain domain_op

fun host_exec :: "host_op \<Rightarrow> host \<Rightarrow> host" where
  "host_exec (HostStart env) h = the (snd (swbt_runtime_host_start env (Some h)))"
| "host_exec HostStop h = the (swbt_runtime_host_stop (Some h))"
| "host_exec (HostSendNeutralNow env) h = the (snd (swbt_runtime_host_send_neutral_now env (Some h)))"
| "host_exec (HostReceive env options) h = snd (host_receive env h options)"
| "host_exec (HostDomain op) h = h\<lparr>host_app := snd (domain_exec op (host_app h))\<rparr>"

text \<open>
  Output reports arrive only between the start and the stop of the output
  handler, and the device information a backend reports has the lengths of its
  C arrays. Clients, the report loop and the metrics work on the shared domain.
\<close>

fun host_allowed :: "host \<Rightarrow> host_op \<Rightarrow> bool" where
  "host_allowed h (HostReceive env options) = (host_output_handler_started h
     \<and> device_info_wf (snd (he_read_device_info env)) \<and> length (resp_report (he_response_memory env)) = 50)"
| "host_allowed h _ = True"

definition host_step :: "host \<Rightarrow> host_op \<Rightarrow> host \<Rightarrow> bool" where
  "host_step h op h' \<longleftrightarrow> host_allowed h op \<and> h' = host_exec op h"

definition host_initial :: "host \<Rightarrow> bool" where
  "host_initial h \<longleftrightarrow> (\<exists>old cfg bt mem. host_trace old = [] \<and> device_info_wf (hc_device_info cfg)
     \<and> swbt_runtime_host_init (Some old) (Some cfg) bt mem = (SWBT_RUNTIME_HOST_OK, Some h))"

section \<open>Lemmas\<close>

lemma host_emit_simps [simp]:
  "host_backend (host_emit e h) = host_backend h" "host_app (host_emit e h) = host_app h"
  "host_report_options (host_emit e h) = host_report_options h"
  "host_device_info (host_emit e h) = host_device_info h" "host_output_handler (host_emit e h) = host_output_handler h"
  "host_initialized (host_emit e h) = host_initialized h" "host_running (host_emit e h) = host_running h"
  "host_hid_registered (host_emit e h) = host_hid_registered h"
  "host_output_handler_started (host_emit e h) = host_output_handler_started h"
  "host_report_timer_started (host_emit e h) = host_report_timer_started h"
  "host_trace (host_emit e h) = host_trace h @ [e]"
  by (simp_all add: host_emit_def)

lemma store_neutral:
  assumes "host_app h = Some a"
  shows "swbt_runtime_host_store_neutral h = h\<lparr>host_app := Some (neutralised a)\<rparr>"
  using assms by (simp add: swbt_runtime_host_store_neutral_def domain_revoke_eq)


lemma host_init_inv:
  assumes "host_initial h"
  shows "host_inv h" "\<not> host_running h" "host_trace h = []"
proof -
  obtain old cfg bt mem where init: "swbt_runtime_host_init (Some old) (Some cfg) bt mem = (SWBT_RUNTIME_HOST_OK, Some h)"
    and old: "host_trace old = []" "device_info_wf (hc_device_info cfg)"
    using assms by (auto simp: host_initial_def)
  have bt: "swbt_runtime_backend_is_valid bt"
    using init by (auto simp: swbt_runtime_host_init_def split: if_splits)
  then obtain m where mem: "mem = Some m"
    using init by (cases mem) (auto simp: swbt_runtime_host_init_def swbt_domain_create_def)
  obtain a where a: "swbt_domain_create (Some m) = Some a" "domain_inv a"
    using domain_create_inv by blast
  obtain a' where "swbt_domain_set_daemon_status (Some a) (Some (hc_daemon_status cfg)) = (SWBT_DOMAIN_OK, Some a')"
    and a': "domain_inv a'"
    using domain_exec_inv [OF a(2), of "SetDaemonStatus (Some (hc_daemon_status cfg))"]
    by (auto simp: swbt_domain_set_daemon_status_def Let_def)
  then show "host_inv h" "\<not> host_running h" "host_trace h = []"
    using init old bt mem a(1)
    by (auto simp: swbt_runtime_host_init_def host_inv_def host_resources_def zero_host_def swbt_control_init_def
        swbt_btstack_output_report_handler_init_def Let_def)
qed

lemma stop_eq:
  assumes "host_initialized h" "host_app h = Some a"
  shows "swbt_runtime_host_stop (Some h) = Some (h
    \<lparr>host_app := Some (neutralised a), host_running := False, host_hid_registered := False,
     host_output_handler_started := False, host_report_timer_started := False,
     host_trace := host_trace h @ (if host_report_timer_started h then [ReportTimerStop] else [])
       @ (if host_output_handler_started h then [OutputHandlerStop] else [])
       @ (if host_hid_registered h then [HidStop] else [])\<rparr>)"
  using assms by (simp add: swbt_runtime_host_stop_def store_neutral host_emit_def Let_def)

lemma host_stop_step:
  assumes "host_inv h" "swbt_runtime_host_stop (Some h) = Some h'"
  shows "host_inv h' \<and> \<not> host_running h' \<and> host_resources h' = (False, False, False)"
proof -
  obtain a where a: "host_app h = Some a" "domain_inv a" and i: "host_initialized h"
    using assms(1) by (auto simp: host_inv_def)
  then show ?thesis
    using assms stop_eq [OF i a(1)] neutralised_inv [OF a(2)]
    by (auto simp: host_inv_def host_resources_def backend_calls_append)
qed

lemma host_start_step:
  assumes "host_inv h" "snd (swbt_runtime_host_start env (Some h)) = Some h'"
  shows "host_inv h'"
proof (cases "host_running h \<or> he_hid_register env \<noteq> 0")
  case True
  then show ?thesis
    using assms
    by (auto simp: swbt_runtime_host_start_def host_inv_def host_resources_def backend_calls_append Let_def)
next
  case False
  obtain a where a: "host_app h = Some a" "domain_inv a" and i: "host_initialized h"
    using assms(1) by (auto simp: host_inv_def)
  let ?h = "(host_emit (ReportTimerStart (he_report_timer_start env)) ((host_emit OutputHandlerStart
     ((host_emit (HidRegister 0) h)\<lparr>host_hid_registered := True\<rparr>))\<lparr>host_output_handler_started := True\<rparr>))"
  have "h' = (if he_report_timer_start env \<noteq> 0 then the (swbt_runtime_host_stop (Some ?h))
      else ?h\<lparr>host_report_timer_started := True, host_running := True\<rparr>)"
    using assms(2) i False stop_eq [of ?h a] a(1) by (auto simp: swbt_runtime_host_start_def Let_def)
  then show ?thesis
    using assms(1) False a neutralised_inv [OF a(2)] stop_eq [of ?h a]
    by (auto simp: host_inv_def host_resources_def backend_calls_append)
qed

lemma start_some:
  assumes "host_inv h"
  shows "\<exists>h'. snd (swbt_runtime_host_start env (Some h)) = Some h'"
proof -
  obtain a where "host_app h = Some a" "host_initialized h"
    using assms by (auto simp: host_inv_def)
  then show ?thesis
    by (simp add: swbt_runtime_host_start_def swbt_runtime_host_stop_def Let_def)
qed

lemma neutral_step:
  assumes "host_inv h" "snd (swbt_runtime_host_send_neutral_now env (Some h)) = Some h'"
  shows "host_inv h'"
proof -
  obtain a where "host_app h = Some a" "domain_inv a"
    using assms(1) by (auto simp: host_inv_def)
  then show ?thesis
    using assms neutralised_inv [of a]
    by (auto simp: swbt_runtime_host_send_neutral_now_def host_inv_def host_resources_def backend_calls_append
        store_neutral [of h a] Let_def split: if_splits)
qed

lemma on_output_report_eq:
  assumes "host_app h = Some a"
  shows "swbt_runtime_host_on_output_report env (Some h) cid (Some r) = Some
    (let d = (if hb_read_device_info (the (host_backend h)) \<and> fst (he_read_device_info env) = 0
              then snd (he_read_device_info env) else host_device_info h);
         (result, app, response) = swbt_domain_handle_output_report (Some a) (Some r)
           (Some (host_report_options h)) (Some d) (ucast (he_time_ms env)) (Some (he_response_memory env));
         bs = take (resp_report_size (the response)) (resp_report (the response));
         h = h\<lparr>host_app := app\<rparr>
     in if result \<noteq> SWBT_DOMAIN_OK \<or> resp_action (the response) \<noteq> SWBT_SWITCH_SUBCOMMAND_DISPATCH_ACTION_REPLY
        then h else host_emit (SubcommandReplyEnqueue cid bs (he_subcommand_reply_enqueue env cid bs)) h)"
  using assms by (simp add: swbt_runtime_host_on_output_report_def Let_def case_prod_beta)

lemma on_output_report_step:
  assumes "host_inv h" "host_output_handler_started h"
  shows "host_inv (the (swbt_runtime_host_on_output_report env (Some h) cid (Some r)))"
    and "host_output_handler (the (swbt_runtime_host_on_output_report env (Some h) cid (Some r))) = host_output_handler h"
proof -
  obtain a where a: "host_app h = Some a" "domain_inv a"
    using assms(1) by (auto simp: host_inv_def)
  let ?out = "swbt_domain_handle_output_report (Some a) (Some r) (Some (host_report_options h))
      (Some (if hb_read_device_info (the (host_backend h)) \<and> fst (he_read_device_info env) = 0
              then snd (he_read_device_info env) else host_device_info h))
      (ucast (he_time_ms env)) (Some (he_response_memory env))"
  obtain a' where "fst (snd ?out) = Some a'" "domain_inv a'"
    using handle_output_report_inv [OF a(2)] by blast
  then show "host_inv (the (swbt_runtime_host_on_output_report env (Some h) cid (Some r)))"
    and "host_output_handler (the (swbt_runtime_host_on_output_report env (Some h) cid (Some r))) = host_output_handler h"
    using assms a
    by (auto simp: on_output_report_eq [OF a(1)] Let_def case_prod_beta host_inv_def host_resources_def backend_calls_append)
qed

lemma handle_ctx:
  assumes "oh_callback h" "length (oh_scratch h) = 64"
  shows "\<exists>r h' c. swbt_btstack_output_report_handler_handle callback (Some h) ctx options = (r, Some h', c)
    \<and> oh_callback h' \<and> length (oh_scratch h') = 64 \<and> (c = ctx \<or> (\<exists>cid rep. c = callback ctx cid rep))"
  using assms handle_branches [OF assms, of callback ctx options]
  by (auto simp: Let_def case_prod_beta)

lemma receive_step:
  assumes "host_inv h" "host_output_handler_started h"
  shows "host_inv (snd (host_receive env h options))"
proof -
  let ?cb = "\<lambda>h cid r. the (swbt_runtime_host_on_output_report env (Some h) cid (Some r))"
  have "oh_callback (host_output_handler h)" "length (oh_scratch (host_output_handler h)) = 64"
    using assms(1) by (simp_all add: host_inv_def)
  then obtain r oh c where out: "swbt_btstack_output_report_handler_handle ?cb (Some (host_output_handler h)) h options = (r, Some oh, c)"
    and oh: "oh_callback oh" "length (oh_scratch oh) = 64" and c: "c = h \<or> (\<exists>cid rep. c = ?cb h cid rep)"
    using handle_ctx [of "host_output_handler h" ?cb h options] by blast
  have "host_inv c"
    using c on_output_report_step [OF assms] assms(1) by auto
  then show ?thesis
    using oh by (simp add: host_receive_def out host_inv_def host_resources_def)
qed

lemma host_step_inv:
  assumes "host_inv h" "host_step h op h'"
  shows "host_inv h'"
proof (cases op)
  case (HostStart env)
  then show ?thesis
    using assms host_start_step [OF assms(1), of env] start_some [OF assms(1), of env] by (auto simp: host_step_def)
next
  case HostStop
  obtain a where "host_app h = Some a" "host_initialized h"
    using assms(1) by (auto simp: host_inv_def)
  then show ?thesis
    using assms HostStop host_stop_step [OF assms(1)] stop_eq [of h a] by (auto simp: host_step_def)
next
  case (HostSendNeutralNow env)
  then show ?thesis
    using assms neutral_step [OF assms(1), of env]
    by (auto simp: host_step_def swbt_runtime_host_send_neutral_now_def host_inv_def Let_def)
next
  case (HostReceive env options)
  then show ?thesis
    using assms receive_step by (auto simp: host_step_def)
next
  case (HostDomain op)
  obtain a where a: "host_app h = Some a" "domain_inv a"
    using assms(1) by (auto simp: host_inv_def)
  then show ?thesis
    using assms HostDomain domain_exec_inv [OF a(2), of op] by (auto simp: host_step_def host_inv_def host_resources_def)
qed

interpretation host: invariant_system host_initial host_step host_inv
  by unfold_locales (rule host_init_inv(1) host_step_inv; assumption)+


lemma response_none: "resp_action empty_response \<noteq> SWBT_SWITCH_SUBCOMMAND_DISPATCH_ACTION_REPLY"
  by (simp add: empty_response_def)

lemma on_output_report_answer:
  assumes "host_app h = Some a" "subcommand_report sid data r" "length (resp_report (he_response_memory env)) = 50"
    and "d = (if hb_read_device_info (the (host_backend h)) \<and> fst (he_read_device_info env) = 0
              then snd (he_read_device_info env) else host_device_info h)" "device_info_wf d"
  shows "\<exists>a'. dom_state a' = dom_state a \<and> dom_lease a' = dom_lease a \<and> rumble_raw (dom_rumble a') =
      swbt_switch_rumble_copy (rumble_raw (dom_rumble a)) (rumble r)
    \<and> swbt_runtime_host_on_output_report env (Some h) cid (Some r) = Some (h\<lparr>host_app := Some a',
        host_trace := host_trace h @ (case answer (dom_spi a) (dom_player_lights a) d sid data of
            None \<Rightarrow> []
          | Some (ack, bs) \<Rightarrow> (let reply = reply_bytes (dom_state a) (host_report_options h) ack sid bs
              in [SubcommandReplyEnqueue cid reply (he_subcommand_reply_enqueue env cid reply)]))\<rparr>)"
proof -
  let ?a = "\<lambda>L. a\<lparr>dom_lock := False, dom_rumble := (dom_rumble a)\<lparr>rumble_raw :=
      swbt_switch_rumble_copy (rumble_raw (dom_rumble a)) (rumble r), rumble_updated_at_ms := ucast (he_time_ms env),
      rumble_updated := True\<rparr>, dom_player_lights := L\<rparr>"
  note eq = on_output_report_eq [OF assms(1), where env = env and cid = cid and r = r, folded assms(4)]
  note handle = handle_output_report_eq dispatch_refines_answer [OF assms(2,5,3)]
  have same: "h\<lparr>host_app := x\<rparr> = h\<lparr>host_app := x, host_trace := host_trace h\<rparr>" for x
    by (cases h) simp
  show ?thesis
  proof (cases "answer (dom_spi a) (dom_player_lights a) d sid data")
    case None
    then show ?thesis
      by (intro exI [of _ "?a (dom_player_lights a)"])
         (simp add: eq handle refusal_def response_none Let_def same [symmetric])
  next
    case (Some x)
    obtain ack bs where x: "x = (ack, bs)"
      by (cases x)
    have "length bs \<le> 35"
      using length_answer [of "dom_spi a" "dom_player_lights a" d sid data ack bs] Some x assms(5) by simp
    then show ?thesis
      by (intro exI [of _ "?a (lights_after (dom_player_lights a) sid data)"])
         (simp add: Some x eq handle reply_response_def host_emit_def Let_def)
  qed
qed

section \<open>Properties\<close>

text \<open>C36: Backend discipline: in every state the host can reach, by any sequence of starts, stops, neutral
  requests, output reports and client operations and whatever the backend answers, its calls have kept
  the order HID registration, output handler, report timer, have given back in the opposite order what
  was taken and never twice, and the status flags say exactly what is held. A running host holds all
  three, a host that is not running holds none.\<close>

theorem host_backend_discipline:
  assumes "reachable host_initial host_step h"
  shows "backend_calls (host_trace h) (False, False, False) =
      Some (host_hid_registered h, host_output_handler_started h, host_report_timer_started h)
    \<and> host_hid_registered h = host_running h \<and> host_output_handler_started h = host_running h
    \<and> host_report_timer_started h = host_running h"
  using host.reachable_inv [OF assms] by (simp add: host_inv_def host_resources_def)

text \<open>C37: Stopping the host, from any state it can reach, gives back everything, revokes every owner and
  leaves the neutral state for the report loop; stopping again changes nothing but the neutral state.\<close>

theorem host_stop_neutral:
  assumes "reachable host_initial host_step h"
  shows "\<exists>h' a. swbt_runtime_host_stop (Some h) = Some h'
    \<and> host_trace h' = host_trace h @ (if host_running h then [ReportTimerStop, OutputHandlerStop, HidStop] else [])
    \<and> \<not> swbt_runtime_host_is_running (Some h') \<and> host_app h' = Some a \<and> domain_owner a = None
    \<and> swbt_runtime_host_read_state (Some h') = swbt_state_neutral
    \<and> swbt_runtime_host_stop (Some h') = Some h'"
proof -
  obtain a where a: "host_app h = Some a" and i: "host_initialized h"
    and f: "host_report_timer_started h = host_running h" "host_output_handler_started h = host_running h"
      "host_hid_registered h = host_running h"
    using host.reachable_inv [OF assms] by (auto simp: host_inv_def host_resources_def)
  have twice: "neutralised (neutralised a) = neutralised a"
    by (simp add: neutralised_def)
  show ?thesis
    using stop_eq [OF i a] f i stop_eq [of "the (swbt_runtime_host_stop (Some h))" "neutralised a"]
    by (auto simp: swbt_runtime_host_is_running_def swbt_runtime_host_read_state_def twice
        swbt_domain_read_controller_state_def neutralised_def domain_owner_def lease_owner_def free_lease_def)
qed

text \<open>Starting the host succeeds exactly when both the HID registration and the report timer start;
  otherwise the error is reported and everything that was taken has been given back. Starting a
  running host does nothing.\<close>

theorem host_start_outcomes:
  assumes "reachable host_initial host_step h"
  shows "\<exists>h'. swbt_runtime_host_start env (Some h) =
      (if host_running h \<or> he_hid_register env = 0 \<and> he_report_timer_start env = 0 then SWBT_RUNTIME_HOST_OK
       else SWBT_RUNTIME_HOST_ERROR_BACKEND, Some h')
    \<and> host_running h' = (host_running h \<or> he_hid_register env = 0 \<and> he_report_timer_start env = 0)
    \<and> host_trace h' = host_trace h @
        (if host_running h then []
         else if he_hid_register env \<noteq> 0 then [HidRegister (he_hid_register env)]
         else if he_report_timer_start env = 0 then [HidRegister 0, OutputHandlerStart, ReportTimerStart 0]
         else [HidRegister 0, OutputHandlerStart, ReportTimerStart (he_report_timer_start env), OutputHandlerStop, HidStop])"
proof -
  obtain a where a: "host_app h = Some a" and i: "host_initialized h" and f: "host_resources h = (host_running h, host_running h, host_running h)"
    using host.reachable_inv [OF assms] by (auto simp: host_inv_def)
  show ?thesis
    using a i f by (simp add: swbt_runtime_host_start_def stop_eq host_resources_def Let_def)
qed

text \<open>C35: A subcommand of the console, end to end: the packet that arrives at a started host, in either
  form of delivery, makes the host enqueue exactly one reply on the same connection, with the answer of
  the protocol and the controller state of the domain, or nothing when there is no answer. The
  controller state and the lease are untouched, and the rumble bytes of the packet are recorded.\<close>

theorem host_answers_console:
  assumes "reachable host_initial host_step h" and "host_running h" and "length rmb = 8" and "length data < 52"
    and "delivery = (0, subcommand_packet counter rmb sid data)
       \<or> delivery = (0x01, tl (subcommand_packet counter rmb sid data))"
    and "device_info_wf (snd (he_read_device_info env))" and "length (resp_report (he_response_memory env)) = 50"
  shows "\<exists>a a' h'. host_app h = Some a
    \<and> host_receive env h \<lparr>ho_hid_cid = cid, ho_report_type = 2, ho_report_id = fst delivery, ho_report = Some (snd delivery)\<rparr> =
        (SWBT_BTSTACK_OUTPUT_REPORT_OK, h')
    \<and> host_app h' = Some a' \<and> dom_state a' = dom_state a \<and> dom_lease a' = dom_lease a \<and> rumble_raw (dom_rumble a') = rmb
    \<and> host_trace h' = host_trace h @
        (case answer (dom_spi a) (dom_player_lights a)
            (if hb_read_device_info (the (host_backend h)) \<and> fst (he_read_device_info env) = 0
             then snd (he_read_device_info env) else host_device_info h) sid data of
           None \<Rightarrow> []
         | Some (ack, bs) \<Rightarrow> (let reply = reply_bytes (dom_state a) (host_report_options h) ack sid bs
             in [SubcommandReplyEnqueue cid reply (he_subcommand_reply_enqueue env cid reply)]))"
proof -
  obtain a where a: "host_app h = Some a" "domain_inv a" and oh: "oh_callback (host_output_handler h)"
      "length (oh_scratch (host_output_handler h)) = 64" and wf: "device_info_wf (host_device_info h)"
    using host.reachable_inv [OF assms(1)] by (auto simp: host_inv_def)
  let ?d = "if hb_read_device_info (the (host_backend h)) \<and> fst (he_read_device_info env) = 0
             then snd (he_read_device_info env) else host_device_info h"
  let ?r = "\<lparr>output_report_id = 0x01, packet_counter = counter, rumble = rmb, has_subcommand = True,
         subcommand_id = sid, subcommand_data = (if data = [] then None else Some data)\<rparr>"
  let ?cb = "\<lambda>h cid r. the (swbt_runtime_host_on_output_report env (Some h) cid (Some r))"
  have "subcommand_report sid data ?r" "device_info_wf ?d"
    using wf assms(6) by (simp_all add: subcommand_report_def)
  then obtain a' where a': "dom_state a' = dom_state a" "dom_lease a' = dom_lease a"
      "rumble_raw (dom_rumble a') = swbt_switch_rumble_copy (rumble_raw (dom_rumble a)) rmb"
      "swbt_runtime_host_on_output_report env (Some h) cid (Some ?r) = Some (h\<lparr>host_app := Some a',
        host_trace := host_trace h @ (case answer (dom_spi a) (dom_player_lights a) ?d sid data of
            None \<Rightarrow> []
          | Some (ack, bs) \<Rightarrow> (let reply = reply_bytes (dom_state a) (host_report_options h) ack sid bs
              in [SubcommandReplyEnqueue cid reply (he_subcommand_reply_enqueue env cid reply)]))\<rparr>)"
    using on_output_report_answer [OF a(1) _ assms(7) refl, of sid data ?r cid] by auto
  have "rumble_raw (dom_rumble a') = rmb"
    using a'(3) a(2) assms(3) by (simp add: domain_inv_def rumble_wf_def rumble_copy_full)
  then show ?thesis
    using deliver_packet [OF oh assms(3,4,5), of ?cb h cid] a' a(1)
    by (auto simp: host_receive_def)
qed


section \<open>A concrete host\<close>

definition demo_host_backend :: swbt_runtime_host_backend_t where
  "demo_host_backend = \<lparr>hb_hid_register = True, hb_hid_stop = True, hb_output_handler_start = True,
     hb_output_handler_stop = True, hb_report_timer_start = True, hb_report_timer_stop = True,
     hb_report_timer_send_neutral_now = True, hb_subcommand_reply_enqueue = True, hb_read_device_info = False,
     hb_time_ms = True\<rparr>"

definition demo_host_config :: swbt_runtime_host_config_t where
  "demo_host_config = \<lparr>hc_report_options = demo_options, hc_device_info = swbt_switch_device_info_default,
     hc_daemon_status = swbt_domain_daemon_status_default\<rparr>"

definition demo_host_env :: host_env where
  "demo_host_env = \<lparr>he_hid_register = 0, he_report_timer_start = 0, he_send_neutral_now = 0,
     he_subcommand_reply_enqueue = (\<lambda>_ _. 0), he_read_device_info = (- 1, swbt_switch_device_info_default),
     he_time_ms = 12, he_response_memory = empty_response\<rparr>"

definition demo_host :: host where
  "demo_host = the (snd (swbt_runtime_host_init (Some (zero_host [])) (Some demo_host_config)
     (Some demo_host_backend) (Some zero_domain)))"

definition demo_host_running :: host where
  "demo_host_running = host_exec (HostStart demo_host_env) demo_host"

lemma demo_host_initial: "host_initial demo_host"
proof -
  obtain a where "swbt_domain_create (Some zero_domain) = Some a" "domain_inv a"
    using domain_create_inv by blast
  then have "swbt_runtime_host_init (Some (zero_host [])) (Some demo_host_config) (Some demo_host_backend)
      (Some zero_domain) = (SWBT_RUNTIME_HOST_OK, Some demo_host)"
    by (simp add: demo_host_def swbt_runtime_host_init_def swbt_runtime_backend_is_valid_def demo_host_backend_def
        swbt_domain_set_daemon_status_def swbt_control_init_def Let_def)
  then show ?thesis
    unfolding host_initial_def
    by (intro exI [of _ "zero_host []"] exI [of _ demo_host_config] exI [of _ "Some demo_host_backend"]
        exI [of _ "Some zero_domain"]) (simp add: zero_host_def demo_host_config_def)
qed

lemma demo_host_reachable: "reachable host_initial host_step demo_host"
  by (rule reach_init [of host_initial, OF demo_host_initial])

lemma demo_host_step: "host_step demo_host (HostStart demo_host_env) demo_host_running"
  by (simp add: host_step_def demo_host_running_def)

lemma demo_host_running_reachable: "reachable host_initial host_step demo_host_running"
  by (rule reach_step [of host_initial host_step, OF demo_host_reachable demo_host_step])

lemma demo_host_idle: "\<not> host_running demo_host" "host_initialized demo_host" "host_trace demo_host = []"
  using host_init_inv [OF demo_host_initial] by (simp_all add: host_inv_def)

lemma demo_host_runs: "host_running demo_host_running"
  using demo_host_idle
  by (simp add: demo_host_running_def swbt_runtime_host_start_def demo_host_env_def Let_def)

theorem host_backend_discipline_witness:
  "backend_calls (host_trace demo_host_running) (False, False, False) = Some (True, True, True)"
  using host_backend_discipline [OF demo_host_running_reachable] demo_host_runs by simp

theorem host_stop_neutral_witness:
  "\<exists>h'. swbt_runtime_host_stop (Some demo_host_running) = Some h' \<and> \<not> host_running h'
    \<and> host_trace h' = host_trace demo_host_running @ [ReportTimerStop, OutputHandlerStop, HidStop]"
  using host_stop_neutral [OF demo_host_running_reachable] demo_host_runs
  by (auto simp: swbt_runtime_host_is_running_def)

theorem host_start_outcomes_witness:
  "\<exists>h'. swbt_runtime_host_start (demo_host_env\<lparr>he_report_timer_start := - 1\<rparr>) (Some demo_host) =
      (SWBT_RUNTIME_HOST_ERROR_BACKEND, Some h') \<and> \<not> host_running h'
    \<and> host_trace h' = [HidRegister 0, OutputHandlerStart, ReportTimerStart (- 1), OutputHandlerStop, HidStop]"
  using host_start_outcomes [OF demo_host_reachable, of "demo_host_env\<lparr>he_report_timer_start := - 1\<rparr>"] demo_host_idle
  by (auto simp: demo_host_env_def)

theorem host_answers_console_witness:
  "\<exists>a h'. host_app demo_host_running = Some a
    \<and> host_receive demo_host_env demo_host_running \<lparr>ho_hid_cid = 0x42, ho_report_type = 2, ho_report_id = 0,
        ho_report = Some (subcommand_packet 3 (replicate 8 0) 0x03 [0x30])\<rparr> = (SWBT_BTSTACK_OUTPUT_REPORT_OK, h')
    \<and> host_trace h' = host_trace demo_host_running @
        [SubcommandReplyEnqueue 0x42 (reply_bytes (dom_state a) (host_report_options demo_host_running) 0x80 0x03 []) 0]"
proof -
  have "device_info_wf (snd (he_read_device_info demo_host_env))" "length (resp_report (he_response_memory demo_host_env)) = 50"
    by (simp_all add: demo_host_env_def empty_response_def)
  then show ?thesis
    using host_answers_console [OF demo_host_running_reachable demo_host_runs, of "replicate 8 0" "[0x30]"
        "(0, subcommand_packet 3 (replicate 8 0) 0x03 [0x30])" 3 "0x03" demo_host_env "0x42"]
    by (auto simp: answer_def demo_host_env_def Let_def)
qed

end
