(* ===== verification/CString.thy ===== *)
theory CString
  imports Prelude "HOL-Library.Monad_Syntax"
begin

text \<open>
  C strings and character classes. A \<open>const char *\<close> that points to a terminated
  string is the list of its characters without the terminator. \<open>c_char s i\<close> is
  the read \<open>s[i]\<close>: the terminator may be read, anything behind it is outside of
  the string and the read is None, so that a function that returns Some on all
  strings never reads out of bounds.
\<close>

definition NUL :: char where
  "NUL = CHR 0x00"

definition c_char :: "string \<Rightarrow> nat \<Rightarrow> char option" where
  "c_char s i = (if i < length s then Some (s ! i) else if i = length s then Some NUL else None)"

definition c_string :: "string \<Rightarrow> bool" where
  "c_string s \<longleftrightarrow> NUL \<notin> set s"

text \<open>The string in a character buffer: everything before the first terminator.\<close>

definition c_str_of :: "char list \<Rightarrow> string" where
  "c_str_of buf = takeWhile (\<lambda>c. c \<noteq> NUL) buf"

text \<open>A cursor into a C string is the rest of the string; at its end it reads the terminator.\<close>

definition at_cursor :: "string \<Rightarrow> char" where
  "at_cursor cursor = (case cursor of [] \<Rightarrow> NUL | c # _ \<Rightarrow> c)"

definition ccode :: "char \<Rightarrow> nat" where
  "ccode c = of_char c"

definition in_range :: "char \<Rightarrow> char \<Rightarrow> char \<Rightarrow> bool" where
  "in_range lo hi c \<longleftrightarrow> ccode lo \<le> ccode c \<and> ccode c \<le> ccode hi"

lemma c_char_simps [simp]:
  "i < length s \<Longrightarrow> c_char s i = Some (s ! i)" "c_char s (length s) = Some NUL"
  by (simp_all add: c_char_def)

lemma c_char_eq_Some: "c_char s i = Some c \<longleftrightarrow> (i < length s \<and> c = s ! i \<or> i = length s \<and> c = NUL)"
  by (auto simp: c_char_def)

lemma c_string_nth: "c_string s \<Longrightarrow> i < length s \<Longrightarrow> s ! i \<noteq> NUL"
  by (auto simp: c_string_def in_set_conv_nth)

lemma ccode_inject: "ccode c = ccode d \<longleftrightarrow> c = d"
  by (simp add: ccode_def)

lemma ccode_less: "ccode c < 256"
  by (cases c) (simp add: ccode_def of_char_def horner_sum_simps)

lemma char_of_ccode [simp]: "char_of (ccode c) = c"
  by (simp add: ccode_def)

lemma ccode_char_of: "n < 256 \<Longrightarrow> ccode (char_of n) = n"
  by (simp add: ccode_def)

lemma c_str_of_terminated: "c_string s \<Longrightarrow> c_str_of (s @ NUL # rest) = s"
  by (auto simp: c_str_of_def c_string_def takeWhile_append)

lemma ccode_literals [simp]:
  "ccode (CHR ''0'') = 48" "ccode (CHR ''9'') = 57" "ccode (CHR ''a'') = 97" "ccode (CHR ''f'') = 102"
  "ccode (CHR ''A'') = 65" "ccode (CHR ''F'') = 70" "ccode NUL = 0" "ccode (CHR '':'') = 58" "ccode (CHR ''.'') = 46"
  by (simp_all add: ccode_def NUL_def)

text \<open>The decimal digits that \<open>%u\<close> and \<open>%llu\<close> print for a number.\<close>

fun decimal :: "nat \<Rightarrow> string" where
  "decimal n = (if n < 10 then [char_of (48 + n)] else decimal (n div 10) @ [char_of (48 + n mod 10)])"

declare decimal.simps [simp del]

end
