(* ===== verification/CNumber.thy ===== *)
theory CNumber
  imports CString
begin

text \<open>
  Numbers in text: the C library's \<open>isspace\<close> and \<open>isdigit\<close> in the "C" locale, the
  \<open>strtol\<close> family, and the digits that \<open>printf\<close> conversions print. The conversions
  return the value, the end pointer (the rest of the string, the whole string
  when nothing was converted) and whether \<open>errno\<close> was set to \<open>ERANGE\<close>.
\<close>

section \<open>Definitions\<close>

definition isspace :: "char \<Rightarrow> bool" where
  "isspace c \<longleftrightarrow> c \<in> set [CHR 0x09, CHR 0x0A, CHR 0x0B, CHR 0x0C, CHR 0x0D, CHR 0x20]"

definition digit_value :: "char \<Rightarrow> nat option" where
  "digit_value c =
     (if in_range (CHR ''0'') (CHR ''9'') c then Some (ccode c - 48)
      else if in_range (CHR ''a'') (CHR ''z'') c then Some (ccode c - 87)
      else if in_range (CHR ''A'') (CHR ''Z'') c then Some (ccode c - 55)
      else None)"

definition base_digit :: "nat \<Rightarrow> char \<Rightarrow> bool" where
  "base_digit base c = (case digit_value c of None \<Rightarrow> False | Some d \<Rightarrow> d < base)"

definition digits_value :: "nat \<Rightarrow> string \<Rightarrow> nat" where
  "digits_value base ds = foldl (\<lambda>v c. v * base + the (digit_value c)) 0 ds"

definition sign_prefix :: "string \<Rightarrow> bool \<times> string" where
  "sign_prefix s = (case s of
       c # r \<Rightarrow> if c = CHR ''-'' then (True, r) else if c = CHR ''+'' then (False, r) else (False, s)
     | [] \<Rightarrow> (False, s))"

definition hex_prefix :: "string \<Rightarrow> bool" where
  "hex_prefix s = (case s of
       z # x # d # _ \<Rightarrow> z = CHR ''0'' \<and> (x = CHR ''x'' \<or> x = CHR ''X'') \<and> base_digit 16 d
     | _ \<Rightarrow> False)"

definition base_prefix :: "nat \<Rightarrow> string \<Rightarrow> nat \<times> string" where
  "base_prefix base s =
     (if (base = 0 \<or> base = 16) \<and> hex_prefix s then (16, drop 2 s)
      else if base = 0 then (if at_cursor s = CHR ''0'' then 8 else 10, s)
      else (base, s))"

text \<open>Sign, magnitude and rest of the longest number at the start of a string.\<close>

definition c_integer :: "nat \<Rightarrow> string \<Rightarrow> (bool \<times> nat \<times> string) option" where
  "c_integer base s =
     (let (neg, s) = sign_prefix (dropWhile isspace s);
          (base, s) = base_prefix base s;
          ds = takeWhile (base_digit base) s
      in if ds = [] then None else Some (neg, digits_value base ds, dropWhile (base_digit base) s))"

definition strtoll :: "nat \<Rightarrow> string \<Rightarrow> int \<times> string \<times> bool" where
  "strtoll base s = (case c_integer base s of
       None \<Rightarrow> (0, s, False)
     | Some (neg, m, rest) \<Rightarrow>
         (let v = (if neg then - int m else int m)
          in if v < - (2 ^ 63) then (- (2 ^ 63), rest, True)
             else if v > 2 ^ 63 - 1 then (2 ^ 63 - 1, rest, True)
             else (v, rest, False)))"

text \<open>\<open>strtoul\<close> and \<open>strtoull\<close>, where \<open>w\<close> is the number of bits of the result type. A minus sign
  negates the value in that type.\<close>

definition strtou :: "nat \<Rightarrow> nat \<Rightarrow> string \<Rightarrow> nat \<times> string \<times> bool" where
  "strtou w base s = (case c_integer base s of
       None \<Rightarrow> (0, s, False)
     | Some (neg, m, rest) \<Rightarrow>
         (if m > 2 ^ w - 1 then (2 ^ w - 1, rest, True)
          else if neg then ((2 ^ w - m) mod 2 ^ w, rest, False)
          else (m, rest, False)))"

text \<open>What \<open>%d\<close> prints, and the lower case hexadecimal digit of a nibble.\<close>

definition int_text :: "int \<Rightarrow> string" where
  "int_text i = (if i < 0 then CHR ''-'' # decimal (nat (- i)) else decimal (nat i))"

definition hex_lower :: "nat \<Rightarrow> char" where
  "hex_lower d = ''0123456789abcdef'' ! d"

section \<open>Digits and white space\<close>

lemma isspace_NUL [simp]: "\<not> isspace NUL"
  by (simp add: isspace_def NUL_def)

lemma at_cursor_simps [simp]: "at_cursor [] = NUL" "at_cursor (c # cs) = c"
  by (simp_all add: at_cursor_def)

lemma at_cursor_append: "at_cursor (s @ t) = (if s = [] then at_cursor t else at_cursor s)"
  by (cases s) simp_all

lemma digit_value_decimal:
  "n < 10 \<Longrightarrow> digit_value (char_of (48 + n)) = Some n"
  by (simp add: digit_value_def in_range_def ccode_char_of)

lemma base_digit_ten: "base_digit 10 c \<longleftrightarrow> 48 \<le> ccode c \<and> ccode c \<le> 57"
proof -
  have "ccode (CHR ''Z'') = 90" "ccode (CHR ''z'') = 122"
    by (simp_all add: ccode_def)
  then show ?thesis
    by (auto simp: base_digit_def digit_value_def in_range_def)
qed

lemma isspace_ccode: "isspace c \<longleftrightarrow> ccode c \<in> {9, 10, 11, 12, 13, 32}"
proof -
  have "ccode (CHR 0x09) = 9" "ccode (CHR 0x0A) = 10" "ccode (CHR 0x0B) = 11" "ccode (CHR 0x0C) = 12"
    "ccode (CHR 0x0D) = 13" "ccode (CHR 0x20) = 32"
    by (simp_all add: ccode_def)
  then show ?thesis
    by (auto simp: isspace_def ccode_inject [symmetric])
qed

lemma decimal_not_Nil [simp]: "decimal n \<noteq> []"
  by (subst decimal.simps) simp

lemma decimal_digits: "c \<in> set (decimal n) \<Longrightarrow> 48 \<le> ccode c \<and> ccode c \<le> 57"
proof (induction n rule: decimal.induct)
  case (1 n)
  from 1(2) have "c \<in> set (if n < 10 then [char_of (48 + n)] else decimal (n div 10) @ [char_of (48 + n mod 10)])"
    by (subst (asm) decimal.simps)
  then show ?case
    using 1(1) by (auto simp: ccode_char_of split: if_splits)
qed

lemma digits_value_snoc: "digits_value b (ds @ [c]) = digits_value b ds * b + the (digit_value c)"
  by (simp add: digits_value_def)

lemma digits_value_decimal [simp]: "digits_value 10 (decimal n) = n"
proof (induction n rule: decimal.induct)
  case (1 n)
  show ?case
  proof (cases "n < 10")
    case True
    then show ?thesis
      using digit_value_decimal [OF True] by (subst decimal.simps) (simp add: digits_value_def)
  next
    case False
    then show ?thesis
      using 1 [OF False] digit_value_decimal [of "n mod 10"]
      by (subst decimal.simps) (simp add: digits_value_snoc)
  qed
qed

lemma takeWhile_until:
  "\<forall>c \<in> set s. P c \<Longrightarrow> \<not> P (at_cursor t) \<or> t = [] \<Longrightarrow> takeWhile P (s @ t) = s \<and> dropWhile P (s @ t) = t"
  by (cases t) (auto simp: takeWhile_append2 dropWhile_append2)

lemma decimal_length: "0 < k \<Longrightarrow> n < 10 ^ k \<Longrightarrow> length (decimal n) \<le> k"
proof (induction k arbitrary: n)
  case (Suc k)
  show ?case
  proof (cases "n < 10")
    case True
    then show ?thesis by (subst decimal.simps) simp
  next
    case False
    then have "0 < k" "n div 10 < 10 ^ k"
      using Suc.prems by (cases k; auto)+
    then show ?thesis
      using Suc.IH [of "n div 10"] False by (subst decimal.simps) simp
  qed
qed simp

section \<open>Reading back what was printed\<close>

lemma decimal_head: "decimal n = c # cs \<Longrightarrow> 48 \<le> ccode c \<and> ccode c \<le> 57"
  using decimal_digits [of c n] by simp

lemma sign_prefix_int_text:
  "sign_prefix (dropWhile isspace (int_text i @ rest)) = (i < 0, decimal (nat \<bar>i\<bar>) @ rest)"
proof -
  obtain c cs where d: "decimal (nat i) = c # cs"
    by (cases "decimal (nat i)") auto
  have "ccode (CHR ''-'') = 45" "ccode (CHR ''+'') = 43"
    by (simp_all add: ccode_def)
  with decimal_head [OF d] have c: "\<not> isspace c" "c \<noteq> CHR ''-''" "c \<noteq> CHR ''+''"
    by (auto simp: isspace_ccode)
  have m: "\<not> isspace (CHR ''-'')"
    by (simp add: isspace_ccode ccode_def)
  show ?thesis
    using c m d by (auto simp: int_text_def sign_prefix_def)
qed

lemma c_integer_int_text:
  assumes "\<not> base_digit 10 (at_cursor rest)"
  shows "c_integer 10 (int_text i @ rest) = Some (i < 0, nat \<bar>i\<bar>, rest)"
proof -
  have "takeWhile (base_digit 10) (decimal (nat \<bar>i\<bar>) @ rest) = decimal (nat \<bar>i\<bar>)
    \<and> dropWhile (base_digit 10) (decimal (nat \<bar>i\<bar>) @ rest) = rest"
    by (rule takeWhile_until) (use assms decimal_digits base_digit_ten in auto)
  then show ?thesis
    by (simp add: c_integer_def sign_prefix_int_text base_prefix_def)
qed

lemma strtoll_int_text:
  assumes "\<not> base_digit 10 (at_cursor rest)"
  shows "strtoll 10 (int_text i @ rest) =
    (if i < - (2 ^ 63) then (- (2 ^ 63), rest, True)
     else if i > 2 ^ 63 - 1 then (2 ^ 63 - 1, rest, True) else (i, rest, False))"
  by (simp add: strtoll_def c_integer_int_text [OF assms])

text \<open>Text that does not start with a sign, a digit or white space converts to nothing.\<close>

lemma strtoll_none:
  assumes "\<not> isspace c" "c \<noteq> CHR ''-''" "c \<noteq> CHR ''+''" "\<not> base_digit 10 c"
  shows "strtoll 10 (c # s) = (0, c # s, False)"
  using assms by (simp add: strtoll_def c_integer_def sign_prefix_def base_prefix_def)

text \<open>A conversion that converts something ends behind where it started.\<close>

lemma c_integer_shorter: "c_integer base s = Some (neg, m, rest) \<Longrightarrow> length rest < length s"
proof -
  assume a: "c_integer base s = Some (neg, m, rest)"
  obtain neg' s1 where s1: "sign_prefix (dropWhile isspace s) = (neg', s1)"
    by fastforce
  obtain b s2 where s2: "base_prefix base s1 = (b, s2)"
    by fastforce
  have "length s1 \<le> length t" if "sign_prefix t = (neg', s1)" for t
    using that by (cases t) (auto simp: sign_prefix_def split: if_splits)
  from this [OF s1] have "length s1 \<le> length (dropWhile isspace s)"
    .
  also have "\<dots> \<le> length s"
    by (rule length_dropWhile_le)
  finally have "length s2 \<le> length s"
    using s2 by (auto simp: base_prefix_def split: if_splits)
  moreover have "length rest < length s2"
  proof -
    have "takeWhile (base_digit b) s2 \<noteq> []" "rest = dropWhile (base_digit b) s2"
      using a by (auto simp: c_integer_def s1 s2 Let_def split: if_splits)
    moreover have "length (takeWhile (base_digit b) s2) + length (dropWhile (base_digit b) s2) = length s2"
      by (metis length_append takeWhile_dropWhile_id)
    ultimately show ?thesis
      by (cases "takeWhile (base_digit b) s2") auto
  qed
  ultimately show ?thesis
    by simp
qed

lemma strtoll_range: "strtoll base s = (v, e, er) \<Longrightarrow> - (2 ^ 63) \<le> v \<and> v \<le> 2 ^ 63 - 1"
  by (auto simp: strtoll_def Let_def split: option.splits if_splits)

section \<open>Hexadecimal\<close>

lemma hex_lower_value: "d < 16 \<Longrightarrow> digit_value (hex_lower d) = Some d"
proof -
  assume "d < 16"
  moreover have "\<forall>d \<in> {0..<16}. digit_value (hex_lower d) = Some d"
    by (simp add: numeral_eq_Suc atLeast0_lessThan_Suc hex_lower_def digit_value_def in_range_def ccode_def)
  ultimately show ?thesis
    by simp
qed

lemma ccode_char_range: "c \<in> set ''0123456789abcdef'' \<Longrightarrow> 48 \<le> ccode c \<and> ccode c \<le> 57 \<or> 97 \<le> ccode c \<and> ccode c \<le> 102"
  by (auto simp: ccode_def)

lemma hex_lower_range:
  assumes "d < 16"
  shows "48 \<le> ccode (hex_lower d) \<and> ccode (hex_lower d) \<le> 57 \<or> 97 \<le> ccode (hex_lower d) \<and> ccode (hex_lower d) \<le> 102"
  using assms by (intro ccode_char_range) (simp add: hex_lower_def del: set_simps)

lemma hex_lower_digit: "d < 16 \<Longrightarrow> base_digit 16 (hex_lower d)"
  by (simp add: base_digit_def hex_lower_value)

definition nibbles :: "nat \<Rightarrow> nat \<Rightarrow> nat list" where
  "nibbles k n = map (\<lambda>i. (n div 16 ^ (k - 1 - i)) mod 16) [0..<k]"

lemma nibbles_Suc: "nibbles (Suc k) n = nibbles k (n div 16) @ [n mod 16]"
proof -
  have "(n div 16 ^ (k - i)) mod 16 = (n div 16 div 16 ^ (k - 1 - i)) mod 16" if "i < k" for i
  proof -
    have "k - i = Suc (k - 1 - i)"
      using that by simp
    then show ?thesis
      by (simp add: div_mult2_eq)
  qed
  then show ?thesis
    by (simp add: nibbles_def)
qed

lemma nibbles_less: "d \<in> set (nibbles k n) \<Longrightarrow> d < 16"
  by (auto simp: nibbles_def)

lemma length_nibbles [simp]: "length (nibbles k n) = k"
  by (simp add: nibbles_def)

lemma digits_value_nibbles: "digits_value 16 (map hex_lower (nibbles k n)) = n mod 16 ^ k"
proof (induction k arbitrary: n)
  case (Suc k)
  have "n div 16 mod 16 ^ k * 16 + n mod 16 = n mod (16 * 16 ^ k)"
    by (simp add: mod_mult2_eq mult.commute)
  then show ?case
    using Suc by (simp add: nibbles_Suc digits_value_snoc hex_lower_value)
qed (simp add: nibbles_def digits_value_def)

text \<open>\<open>strtoul\<close> reads back a fixed-width hexadecimal number that fits the result type.\<close>

lemma strtou_nibbles:
  assumes "2 \<le> k" "n < 16 ^ k" "n < 2 ^ w"
  shows "strtou w 16 (map hex_lower (nibbles k n)) = (n, [], False)"
proof -
  obtain d e ds where ds: "nibbles k n = d # e # ds" "d < 16" "e < 16"
    using assms(1) nibbles_less [of _ k n] length_nibbles [of k n]
    by (metis Suc_le_length_iff insertCI list.set(2) numeral_2_eq_2)
  have nosign: "\<not> isspace (hex_lower d)" "hex_lower d \<noteq> CHR ''-''" "hex_lower d \<noteq> CHR ''+''"
    "hex_lower e \<noteq> CHR ''x''" "hex_lower e \<noteq> CHR ''X''"
    using hex_lower_range [OF ds(2)] hex_lower_range [OF ds(3)] by (auto simp: isspace_ccode ccode_def)
  have sp: "sign_prefix (dropWhile isspace (map hex_lower (nibbles k n))) = (False, map hex_lower (nibbles k n))"
    using nosign by (simp add: ds(1) sign_prefix_def)
  have bp: "base_prefix 16 (map hex_lower (nibbles k n)) = (16, map hex_lower (nibbles k n))"
    using nosign by (simp add: ds(1) base_prefix_def hex_prefix_def split: list.splits)
  have tw: "takeWhile (base_digit 16) (map hex_lower (nibbles k n)) = map hex_lower (nibbles k n)"
    "dropWhile (base_digit 16) (map hex_lower (nibbles k n)) = []"
    using nibbles_less hex_lower_digit by (auto simp: takeWhile_eq_all_conv dropWhile_eq_Nil_conv)
  have "nibbles k n \<noteq> []"
    by (simp add: ds(1))
  then have "c_integer 16 (map hex_lower (nibbles k n)) = Some (False, n, [])"
    using assms(2) by (simp add: c_integer_def sp bp tw digits_value_nibbles)
  then show ?thesis
    using assms(3) by (simp add: strtou_def)
qed

end
