(* ===== verification/JsonScan.thy ===== *)
theory JsonScan
  imports CNumber
begin

text \<open>
  The JSON scanner of \<open>ipc/ipc_json.c\<close>: is a line one complete object, where is the
  value of a key, and what string or integer is that value.

  A text pointer is the rest of the string it points into; it can only be
  advanced where a character is left, which is the check of the source for the
  terminator. The readers that return 0, -1 or 1 (no member, malformed, found)
  return a value of type \<open>json_get\<close>, with the stored value when it was found; what
  a reader leaves in its buffer on the other two results is never read.

  The second half relates the scanner to JSON. \<open>json_text v t\<close> says that \<open>t\<close> is a text of
  the JSON value \<open>v\<close> in any layout, without escape sequences in its strings, and the
  lemmas show what the scanner finds in the text of an object in terms of the
  members of the value.
\<close>

definition SWBT_IPC_JSON_LINE_MAX :: nat where
  "SWBT_IPC_JSON_LINE_MAX = 8192"

datatype 'a json_get = Missing | Malformed | Found 'a

section \<open>The scanner\<close>

fun swbt_json_skip_ws :: "string \<Rightarrow> string" where
  "swbt_json_skip_ws [] = []"
| "swbt_json_skip_ws (c # cursor) = (if isspace c then swbt_json_skip_ws cursor else c # cursor)"

text \<open>
  The loop of \<open>swbt_json_is_complete_object\<close>: None for a \<open>return false\<close> inside of it, otherwise
  the cursor, \<open>depth\<close>, \<open>in_string\<close> and \<open>saw_object_end\<close> behind it.
\<close>

primrec complete_loop ::
  "string \<Rightarrow> nat \<Rightarrow> int \<Rightarrow> bool \<Rightarrow> bool \<Rightarrow> char \<Rightarrow> (string \<times> int \<times> bool \<times> bool) option" where
  "complete_loop [] len depth in_string escaped last_significant = Some ([], depth, in_string, False)"
| "complete_loop (c # cursor) len depth in_string escaped last_significant =
     (if len \<ge> SWBT_IPC_JSON_LINE_MAX then None
      else let len = len + 1 in
      if in_string then
        (if escaped then complete_loop cursor len depth True False last_significant
         else if c = CHR 0x5C then complete_loop cursor len depth True True last_significant
         else if c = CHR 0x22 then complete_loop cursor len depth False False last_significant
         else complete_loop cursor len depth True False last_significant)
      else if c = CHR 0x22 then complete_loop cursor len depth True escaped (CHR 0x22)
      else if c = CHR ''{'' then complete_loop cursor len (depth + 1) False escaped (CHR ''{'')
      else if c = CHR ''}'' then
        (if last_significant = CHR '','' then None
         else let depth = depth - 1 in
           if depth < 0 then None
           else if depth = 0 then Some (cursor, depth, False, True)
           else complete_loop cursor len depth False escaped (CHR ''}''))
      else if c = CHR '','' then
        (if last_significant = CHR '','' \<or> last_significant = CHR ''{'' then None
         else complete_loop cursor len depth False escaped (CHR '',''))
      else if \<not> isspace c then complete_loop cursor len depth False escaped c
      else complete_loop cursor len depth False escaped last_significant)"

definition swbt_json_is_complete_object :: "string \<Rightarrow> bool" where
  "swbt_json_is_complete_object line =
     (let cursor = swbt_json_skip_ws line in
      if at_cursor cursor \<noteq> CHR ''{'' then False
      else case complete_loop cursor 0 0 False False NUL of
          None \<Rightarrow> False
        | Some (cursor, depth, in_string, saw_object_end) \<Rightarrow>
            if \<not> saw_object_end \<or> in_string \<or> depth \<noteq> 0 then False
            else at_cursor (swbt_json_skip_ws cursor) = NUL)"

definition swbt_json_key_matches :: "string \<Rightarrow> nat \<Rightarrow> string \<Rightarrow> bool" where
  "swbt_json_key_matches start len key \<longleftrightarrow> length key = len \<and> take len start = take len key"

definition key_char :: "char \<Rightarrow> bool" where
  "key_char c \<longleftrightarrow> c \<noteq> CHR 0x22 \<and> c \<noteq> CHR 0x5C"

text \<open>The loop of \<open>swbt_json_find_key_value\<close>; the inner loop moves \<open>key_end\<close> over \<open>key_char\<close>s.\<close>

function find_loop :: "string \<Rightarrow> string \<Rightarrow> bool \<Rightarrow> bool \<Rightarrow> bool \<Rightarrow> int \<Rightarrow> string option" where
  "find_loop [] key in_string escaped saw_root depth = None"
| "find_loop (c # cursor) key in_string escaped saw_root depth =
     (if in_string then
        (if escaped then find_loop cursor key True False saw_root depth
         else if c = CHR 0x5C then find_loop cursor key True True saw_root depth
         else if c = CHR 0x22 then find_loop cursor key False False saw_root depth
         else find_loop cursor key True False saw_root depth)
      else if c = CHR ''{'' then find_loop cursor key False escaped True (depth + 1)
      else if c = CHR ''}'' then
        (let depth = (if depth > 0 then depth - 1 else depth)
         in if saw_root \<and> depth = 0 then None else find_loop cursor key False escaped saw_root depth)
      else if c \<noteq> CHR 0x22 then find_loop cursor key False escaped saw_root depth
      else if depth \<noteq> 1 then find_loop cursor key True escaped saw_root depth
      else
        (case dropWhile key_char cursor of
           [] \<Rightarrow> None
         | k # behind \<Rightarrow>
             if k \<noteq> CHR 0x22 then None
             else let after_key = swbt_json_skip_ws behind in
               if at_cursor after_key = CHR '':''
                  \<and> swbt_json_key_matches cursor (length cursor - length (k # behind)) key
               then Some (swbt_json_skip_ws (tl after_key))
               else find_loop behind key False escaped saw_root depth))"
  by pat_completeness auto

termination
proof (relation "measure (\<lambda>(s, _). length s)", simp_all)
  fix cursor k behind
  assume "dropWhile key_char cursor = k # behind"
  then show "length behind < Suc (length cursor)"
    by (metis length_Cons length_dropWhile_le Suc_le_lessD less_Suc_eq)
qed

definition swbt_json_find_key_value :: "string \<Rightarrow> string \<Rightarrow> string option" where
  "swbt_json_find_key_value json key = find_loop json key False False False 0"

definition value_end :: "string \<Rightarrow> bool" where
  "value_end s \<longleftrightarrow> (let c = at_cursor (swbt_json_skip_ws s)
     in c = CHR '','' \<or> c = CHR ''}'' \<or> c = CHR '']'' \<or> c = NUL)"

text \<open>The loop of \<open>swbt_json_read_string\<close>: \<open>out\<close> holds the characters stored so far.\<close>

primrec read_string_loop :: "string \<Rightarrow> string \<Rightarrow> nat \<Rightarrow> (string \<times> string) option" where
  "read_string_loop [] out out_size = Some ([], out)"
| "read_string_loop (c # v) out out_size =
     (if c = CHR 0x22 then Some (c # v, out)
      else if c = CHR 0x5C \<or> ccode c < 0x20 then None
      else if length out + 1 \<ge> out_size then None
      else read_string_loop v (out @ [c]) out_size)"

definition swbt_json_read_string :: "string option \<Rightarrow> nat \<Rightarrow> string json_get" where
  "swbt_json_read_string v out_size = (case v of
       None \<Rightarrow> Missing
     | Some v \<Rightarrow>
         (if at_cursor v \<noteq> CHR 0x22 then Malformed
          else case read_string_loop (tl v) [] out_size of
              None \<Rightarrow> Malformed
            | Some (v, out) \<Rightarrow>
                if at_cursor v \<noteq> CHR 0x22 then Malformed
                else if \<not> value_end (tl v) then Malformed else Found out))"

definition swbt_json_read_i64 :: "string option \<Rightarrow> int json_get" where
  "swbt_json_read_i64 v = (case v of
       None \<Rightarrow> Missing
     | Some v \<Rightarrow>
         (let (parsed, end_ptr, range_error) = strtoll 10 v in
          if v = end_ptr \<or> range_error then Malformed
          else if \<not> value_end end_ptr then Malformed else Found parsed))"

definition swbt_json_get_string :: "string \<Rightarrow> string \<Rightarrow> nat \<Rightarrow> string json_get" where
  "swbt_json_get_string json key out_size = swbt_json_read_string (swbt_json_find_key_value json key) out_size"

definition swbt_json_get_i64 :: "string \<Rightarrow> string \<Rightarrow> int json_get" where
  "swbt_json_get_i64 json key = swbt_json_read_i64 (swbt_json_find_key_value json key)"

section \<open>JSON texts\<close>

datatype json =
    JNull
  | JBool bool
  | JInt int
  | JString string
  | JArray "json list"
  | JObject "(string \<times> json) list"

definition plain :: "string \<Rightarrow> bool" where
  "plain s \<longleftrightarrow> (\<forall>c \<in> set s. key_char c \<and> c \<noteq> NUL)"

definition blank :: "string \<Rightarrow> bool" where
  "blank w \<longleftrightarrow> (\<forall>c \<in> set w. isspace c)"

definition quoted :: "string \<Rightarrow> string" where
  "quoted s = CHR 0x22 # s @ [CHR 0x22]"

inductive json_text :: "json \<Rightarrow> string \<Rightarrow> bool"
  and items_text :: "json list \<Rightarrow> string \<Rightarrow> bool"
  and members_text :: "(string \<times> json) list \<Rightarrow> string \<Rightarrow> bool"
where
  json_null: "json_text JNull ''null''"
| json_bool: "json_text (JBool b) (if b then ''true'' else ''false'')"
| json_int: "json_text (JInt i) (int_text i)"
| json_string: "plain s \<Longrightarrow> json_text (JString s) (quoted s)"
| json_array_nil: "blank w \<Longrightarrow> json_text (JArray []) (CHR ''['' # w @ '']'')"
| json_array: "items_text vs t \<Longrightarrow> json_text (JArray vs) (CHR ''['' # t @ '']'')"
| json_object_nil: "blank w \<Longrightarrow> json_text (JObject []) (CHR ''{'' # w @ ''}'')"
| json_object: "members_text ms t \<Longrightarrow> json_text (JObject ms) (CHR ''{'' # t @ ''}'')"
| items_one: "blank w \<Longrightarrow> json_text v t \<Longrightarrow> blank w' \<Longrightarrow> items_text [v] (w @ t @ w')"
| items_more: "blank w \<Longrightarrow> json_text v t \<Longrightarrow> blank w' \<Longrightarrow> items_text vs u
    \<Longrightarrow> items_text (v # vs) (w @ t @ w' @ CHR '','' # u)"
| members_one: "blank w1 \<Longrightarrow> plain k \<Longrightarrow> blank w2 \<Longrightarrow> blank w3 \<Longrightarrow> json_text v t \<Longrightarrow> blank w4
    \<Longrightarrow> members_text [(k, v)] (w1 @ quoted k @ w2 @ CHR '':'' # w3 @ t @ w4)"
| members_more: "blank w1 \<Longrightarrow> plain k \<Longrightarrow> blank w2 \<Longrightarrow> blank w3 \<Longrightarrow> json_text v t \<Longrightarrow> blank w4
    \<Longrightarrow> members_text ms u
    \<Longrightarrow> members_text ((k, v) # ms) (w1 @ quoted k @ w2 @ CHR '':'' # w3 @ t @ w4 @ CHR '','' # u)"

section \<open>Finding a member\<close>

lemma skip_ws_blank: "blank w \<Longrightarrow> swbt_json_skip_ws (w @ s) = swbt_json_skip_ws s"
  by (induction w) (auto simp: blank_def)

lemma skip_ws_nonspace: "\<not> isspace (at_cursor s) \<Longrightarrow> swbt_json_skip_ws s = s"
  by (cases s) auto

lemma separators_nonspace [simp]:
  "\<not> isspace (CHR '','')" "\<not> isspace (CHR '':'')" "\<not> isspace (CHR ''{'')" "\<not> isspace (CHR ''}'')"
  "\<not> isspace (CHR ''['')" "\<not> isspace (CHR '']'')" "\<not> isspace (CHR 0x22)"
  by (simp_all add: isspace_def)

definition quiet :: "char \<Rightarrow> bool" where
  "quiet c \<longleftrightarrow> c \<noteq> CHR 0x22 \<and> c \<noteq> CHR ''{'' \<and> c \<noteq> CHR ''}'' \<and> c \<noteq> CHR '',''"

lemma find_quiet:
  "\<forall>c \<in> set t. quiet c \<Longrightarrow> find_loop (t @ r) key False False True d = find_loop r key False False True d"
  by (induction t) (auto simp: quiet_def)

lemma find_separator: "find_loop (CHR '','' # r) key False False True d = find_loop r key False False True d"
  by simp

lemma blank_quiet: "blank w \<Longrightarrow> \<forall>c \<in> set w. quiet c"
  by (auto simp: blank_def quiet_def)

lemma find_blank: "blank w \<Longrightarrow> find_loop (w @ r) key False False True d = find_loop r key False False True d"
  by (rule find_quiet) (rule blank_quiet)

lemma find_in_string:
  "plain s \<Longrightarrow> find_loop (s @ CHR 0x22 # r) key True False True d = find_loop r key False False True d"
  by (induction s) (auto simp: plain_def key_char_def)

lemma find_string_deep:
  "plain s \<Longrightarrow> d \<noteq> 1 \<Longrightarrow> find_loop (quoted s @ r) key False False True d = find_loop r key False False True d"
  by (simp add: quoted_def find_in_string)

lemma dropWhile_key: "plain s \<Longrightarrow> dropWhile key_char (s @ CHR 0x22 # r) = CHR 0x22 # r"
  by (induction s) (auto simp: plain_def key_char_def)

lemma find_string_top:
  assumes "plain s"
  shows "find_loop (quoted s @ r) key False False True 1 =
    (if at_cursor (swbt_json_skip_ws r) = CHR '':'' \<and> s = key
     then Some (swbt_json_skip_ws (tl (swbt_json_skip_ws r)))
     else find_loop r key False False True 1)"
proof -
  have "swbt_json_key_matches (s @ CHR 0x22 # r) (length s) key \<longleftrightarrow> s = key"
    by (auto simp: swbt_json_key_matches_def)
  then show ?thesis
    by (simp add: quoted_def dropWhile_key [OF assms] Let_def)
qed

lemma find_string_value:
  "plain s \<Longrightarrow> at_cursor (swbt_json_skip_ws r) \<noteq> CHR '':'' \<Longrightarrow>
   find_loop (quoted s @ r) key False False True d = find_loop r key False False True d"
  by (cases "d = 1") (simp_all add: find_string_top find_string_deep)

lemma decimal_quiet: "c \<in> set (decimal n) \<Longrightarrow> quiet c"
  using decimal_digits [of c n] by (auto simp: quiet_def ccode_def)

lemma int_text_quiet: "c \<in> set (int_text i) \<Longrightarrow> quiet c"
  using decimal_quiet by (auto simp: int_text_def quiet_def split: if_splits)

lemma skip_ws_follow: "blank w \<Longrightarrow> \<not> isspace c \<Longrightarrow> at_cursor (swbt_json_skip_ws (w @ c # r)) = c"
  by (simp add: skip_ws_blank)

lemmas find_steps = find_blank find_string_value find_string_deep skip_ws_follow skip_ws_blank

text \<open>The text of a value is passed over, whatever its value contains.\<close>

lemma find_value:
  "json_text v t \<Longrightarrow> (\<And>d r. 1 \<le> d \<Longrightarrow> at_cursor (swbt_json_skip_ws r) \<noteq> CHR '':'' \<Longrightarrow>
      find_loop (t @ r) key False False True d = find_loop r key False False True d)"
  "items_text vs t \<Longrightarrow> (\<And>d r. 1 \<le> d \<Longrightarrow> at_cursor (swbt_json_skip_ws r) \<noteq> CHR '':'' \<Longrightarrow>
      find_loop (t @ r) key False False True d = find_loop r key False False True d)"
  "members_text ms t \<Longrightarrow> (\<And>d r. 2 \<le> d \<Longrightarrow> at_cursor (swbt_json_skip_ws r) \<noteq> CHR '':'' \<Longrightarrow>
      find_loop (t @ r) key False False True d = find_loop r key False False True d)"
proof (induction rule: json_text_items_text_members_text.inducts)
  case json_null
  show ?case by (rule find_quiet) (simp add: quiet_def)
next
  case (json_bool b)
  show ?case by (rule find_quiet) (simp add: quiet_def)
next
  case (json_int i)
  show ?case by (rule find_quiet) (simp add: int_text_quiet)
qed (simp_all add: find_steps)


text \<open>Nothing but the end of a value may follow the text of a member.\<close>

lemma json_text_head: "json_text v t \<Longrightarrow> t \<noteq> [] \<and> \<not> isspace (hd t)"
proof (induction rule: json_text_items_text_members_text.inducts(1)
    [where ?P2.0 = "\<lambda>_ _. True" and ?P3.0 = "\<lambda>_ _. True"])
  case (json_int i)
  obtain c cs where "decimal (nat i) = c # cs"
    by (cases "decimal (nat i)") auto
  with decimal_head [OF this] show ?case
    by (auto simp: int_text_def isspace_ccode ccode_def)
qed (simp_all add: isspace_def quoted_def)

lemma skip_ws_value: "json_text v t \<Longrightarrow> swbt_json_skip_ws (t @ r) = t @ r"
  using json_text_head [of v t] by (cases t) auto

lemma find_members:
  "members_text ms t \<Longrightarrow> (case map_of ms key of
       None \<Rightarrow> find_loop (t @ CHR ''}'' # r) key False False True 1 = None
     | Some v \<Rightarrow> \<exists>tv r'. find_loop (t @ CHR ''}'' # r) key False False True 1 = Some (tv @ r')
         \<and> json_text v tv \<and> value_end r')"
proof (induction rule: json_text_items_text_members_text.inducts(3)
    [where ?P1.0 = "\<lambda>_ _. True" and ?P2.0 = "\<lambda>_ _. True"])
  case (members_one w1 k w2 w3 v t w4)
  have "find_loop (t @ w4 @ CHR ''}'' # r) key False False True 1 = None"
    using members_one by (simp add: find_value(1) find_steps)
  moreover have "value_end (w4 @ CHR ''}'' # r)"
    using members_one by (simp add: value_end_def find_steps)
  ultimately show ?case
    using members_one
    by (auto simp: find_blank find_string_top skip_ws_blank skip_ws_value [OF members_one(5)])
next
  case (members_more w1 k w2 w3 v t w4 ms u)
  have "find_loop (t @ w4 @ CHR '','' # u @ CHR ''}'' # r) key False False True 1 =
      find_loop (u @ CHR ''}'' # r) key False False True 1"
    using members_more by (simp add: find_value(1) find_steps)
  moreover have "value_end (w4 @ CHR '','' # u @ CHR ''}'' # r)"
    using members_more by (simp add: value_end_def find_steps)
  ultimately show ?case
    using members_more
    by (auto simp: find_blank find_string_top skip_ws_blank skip_ws_value [OF members_more(5)] split: option.splits)
qed simp_all

lemma find_before_root: "blank w \<Longrightarrow> find_loop (w @ r) key False False False 0 = find_loop r key False False False 0"
  by (induction w) (auto simp: blank_def)

lemma find_key_value_object:
  assumes "json_text (JObject ms) t" "blank w"
  shows "case map_of ms key of
       None \<Rightarrow> swbt_json_find_key_value (w @ t @ r) key = None
     | Some v \<Rightarrow> \<exists>tv r'. swbt_json_find_key_value (w @ t @ r) key = Some (tv @ r')
         \<and> json_text v tv \<and> value_end r'"
  using assms(1)
proof (cases rule: json_text.cases)
  case (json_object_nil w')
  then show ?thesis
    using assms(2) by (simp add: swbt_json_find_key_value_def find_before_root find_blank)
next
  case (json_object t')
  then show ?thesis
    using assms(2) find_members [OF json_object(2), where key = key and r = r]
    by (cases "map_of ms key") (simp_all add: swbt_json_find_key_value_def find_before_root)
qed

section \<open>Reading a member\<close>

definition string_ok :: "nat \<Rightarrow> string \<Rightarrow> bool" where
  "string_ok out_size s \<longleftrightarrow> length s < out_size \<and> (\<forall>c \<in> set s. ccode c \<ge> 0x20)"

fun json_string_of :: "nat \<Rightarrow> json option \<Rightarrow> string json_get" where
  "json_string_of out_size None = Missing"
| "json_string_of out_size (Some (JString s)) = (if string_ok out_size s then Found s else Malformed)"
| "json_string_of out_size (Some v) = Malformed"

fun json_i64_of :: "json option \<Rightarrow> int json_get" where
  "json_i64_of None = Missing"
| "json_i64_of (Some (JInt i)) = (if - (2 ^ 63) \<le> i \<and> i \<le> 2 ^ 63 - 1 then Found i else Malformed)"
| "json_i64_of (Some v) = Malformed"

lemma read_string_loop_plain:
  assumes "plain s" "length out < n"
  shows "read_string_loop (s @ CHR 0x22 # r) out n =
    (if length out + length s < n \<and> (\<forall>c \<in> set s. ccode c \<ge> 0x20) then Some (CHR 0x22 # r, out @ s) else None)"
  using assms
proof (induction s arbitrary: out)
  case (Cons c s)
  have c: "c \<noteq> CHR 0x22" "c \<noteq> CHR 0x5C" "plain s"
    using Cons.prems by (auto simp: plain_def key_char_def)
  then show ?case
    using Cons.IH [of "out @ [c]"] by auto
qed simp

lemma json_text_not_string:
  assumes "json_text v t" "\<And>s. v \<noteq> JString s"
  shows "at_cursor (t @ r) \<noteq> CHR 0x22"
  using assms(1)
proof (cases rule: json_text.cases)
  case (json_int i)
  obtain c cs where "decimal (nat i) = c # cs"
    by (cases "decimal (nat i)") auto
  with decimal_head [OF this] show ?thesis
    by (auto simp: json_int int_text_def ccode_def)
qed (use assms(2) in auto)

lemma read_string_value:
  assumes "json_text v t" "value_end r" "0 < n"
  shows "swbt_json_read_string (Some (t @ r)) n = json_string_of n (Some v)"
proof (cases "\<exists>s. v = JString s")
  case True
  then obtain s where s: "v = JString s" "plain s" "t = quoted s"
    using assms(1) by (auto elim: json_text.cases)
  then show ?thesis
    using assms(2,3) read_string_loop_plain [OF s(2), of "[]" n r]
    by (simp add: swbt_json_read_string_def quoted_def string_ok_def)
next
  case False
  then have "json_string_of n (Some v) = Malformed"
    by (cases v) auto
  then show ?thesis
    using False json_text_not_string [OF assms(1), of r] by (simp add: swbt_json_read_string_def)
qed

lemma value_end_not_digit: "value_end r \<Longrightarrow> \<not> base_digit 10 (at_cursor r)"
proof (cases r)
  case (Cons c s)
  assume v: "value_end r"
  show ?thesis
  proof (cases "isspace c")
    case True
    then show ?thesis using Cons by (auto simp: isspace_ccode base_digit_ten)
  next
    case False
    then show ?thesis
      using v Cons by (auto simp: value_end_def Let_def base_digit_ten NUL_def ccode_def)
  qed
qed (simp add: base_digit_ten)

lemma read_i64_value:
  assumes "json_text v t" "value_end r"
  shows "swbt_json_read_i64 (Some (t @ r)) = json_i64_of (Some v)"
  using assms(1)
proof (cases rule: json_text.cases)
  case (json_int i)
  have "int_text i @ r \<noteq> r"
    by (simp add: int_text_def)
  then show ?thesis
    using assms(2) json_int
    by (auto simp: swbt_json_read_i64_def strtoll_int_text [OF value_end_not_digit [OF assms(2)]])
qed (auto simp: swbt_json_read_i64_def quoted_def strtoll_none isspace_def base_digit_ten ccode_def)

lemma get_string_object:
  assumes "json_text (JObject ms) t" "blank w" "0 < n"
  shows "swbt_json_get_string (w @ t @ r) key n = json_string_of n (map_of ms key)"
proof (cases "map_of ms key")
  case None
  then show ?thesis
    using find_key_value_object [OF assms(1,2), where key = key and r = r]
    by (simp add: swbt_json_get_string_def swbt_json_read_string_def)
next
  case (Some v)
  then obtain tv r' where "swbt_json_find_key_value (w @ t @ r) key = Some (tv @ r')" "json_text v tv" "value_end r'"
    using find_key_value_object [OF assms(1,2), where key = key and r = r] by auto
  then show ?thesis
    using read_string_value [OF _ _ assms(3)] Some by (simp add: swbt_json_get_string_def)
qed

lemma get_i64_object:
  assumes "json_text (JObject ms) t" "blank w"
  shows "swbt_json_get_i64 (w @ t @ r) key = json_i64_of (map_of ms key)"
proof (cases "map_of ms key")
  case None
  then show ?thesis
    using find_key_value_object [OF assms, where key = key and r = r]
    by (simp add: swbt_json_get_i64_def swbt_json_read_i64_def)
next
  case (Some v)
  then obtain tv r' where "swbt_json_find_key_value (w @ t @ r) key = Some (tv @ r')" "json_text v tv" "value_end r'"
    using find_key_value_object [OF assms, where key = key and r = r] by auto
  then show ?thesis
    using read_i64_value Some by (simp add: swbt_json_get_i64_def)
qed

section \<open>Complete objects\<close>

definition significant :: "char \<Rightarrow> bool" where
  "significant c \<longleftrightarrow> c \<noteq> CHR '','' \<and> c \<noteq> CHR ''{''"

lemma complete_char:
  assumes "quiet c" "n < SWBT_IPC_JSON_LINE_MAX"
  shows "complete_loop (c # r) n d False False l = complete_loop r (Suc n) d False False (if isspace c then l else c)"
  using assms by (simp add: quiet_def)

lemma complete_quiet:
  assumes "\<forall>c \<in> set t. quiet c" "n + length t \<le> SWBT_IPC_JSON_LINE_MAX"
  shows "\<exists>l'. complete_loop (t @ r) n d False False l = complete_loop r (n + length t) d False False l'
    \<and> (significant l \<or> (\<exists>c \<in> set t. \<not> isspace c) \<longrightarrow> significant l') \<and> (blank t \<longrightarrow> l' = l)"
  using assms
proof (induction t arbitrary: n l)
  case (Cons c t)
  have s: "significant c"
    using Cons.prems by (auto simp: quiet_def significant_def)
  have "complete_loop ((c # t) @ r) n d False False l =
      complete_loop (t @ r) (Suc n) d False False (if isspace c then l else c)"
    using complete_char [of c n "t @ r"] Cons.prems by simp
  moreover obtain l' where "complete_loop (t @ r) (Suc n) d False False (if isspace c then l else c) =
      complete_loop r (Suc n + length t) d False False l'"
    "significant (if isspace c then l else c) \<or> (\<exists>c \<in> set t. \<not> isspace c) \<longrightarrow> significant l'"
    "blank t \<longrightarrow> l' = (if isspace c then l else c)"
    using Cons.IH [of "Suc n" "if isspace c then l else c"] Cons.prems by auto
  ultimately show ?case
    using s by (intro exI [of _ l']) (auto simp: blank_def simp del: complete_loop.simps split: if_splits)
qed auto

lemma complete_in_string:
  "plain s \<Longrightarrow> n + length s < SWBT_IPC_JSON_LINE_MAX \<Longrightarrow>
   complete_loop (s @ CHR 0x22 # r) n d True False l = complete_loop r (n + length s + 1) d False False l"
  by (induction s arbitrary: n) (auto simp: plain_def key_char_def)

lemma complete_string:
  "plain s \<Longrightarrow> n + length (quoted s) \<le> SWBT_IPC_JSON_LINE_MAX \<Longrightarrow>
   complete_loop (quoted s @ r) n d False False l =
     complete_loop r (n + length (quoted s)) d False False (CHR 0x22)"
  by (simp add: quoted_def complete_in_string)

lemma complete_blank:
  "blank w \<Longrightarrow> n + length w \<le> SWBT_IPC_JSON_LINE_MAX \<Longrightarrow>
   complete_loop (w @ r) n d False False l = complete_loop r (n + length w) d False False l"
  using complete_quiet [OF blank_quiet, of w n r d l] by auto


declare complete_loop.simps(2) [simp del]

lemma complete_separators:
  assumes "n < SWBT_IPC_JSON_LINE_MAX"
  shows "complete_loop (CHR '':'' # r) n d False False l = complete_loop r (Suc n) d False False (CHR '':'')"
    and "significant l \<Longrightarrow>
      complete_loop (CHR '','' # r) n d False False l = complete_loop r (Suc n) d False False (CHR '','')"
    and "complete_loop (CHR ''['' # r) n d False False l = complete_loop r (Suc n) d False False (CHR ''['')"
    and "complete_loop (CHR '']'' # r) n d False False l = complete_loop r (Suc n) d False False (CHR '']'')"
    and "complete_loop (CHR ''{'' # r) n d False False l = complete_loop r (Suc n) (d + 1) False False (CHR ''{'')"
    and "l \<noteq> CHR '','' \<Longrightarrow> 1 < d \<Longrightarrow>
      complete_loop (CHR ''}'' # r) n d False False l = complete_loop r (Suc n) (d - 1) False False (CHR ''}'')"
    and "l \<noteq> CHR '','' \<Longrightarrow> complete_loop (CHR ''}'' # r) n 1 False False l = Some (r, 0, False, True)"
  using assms by (simp_all add: complete_loop.simps(2) significant_def)

lemma significant_simps [simp]:
  "significant (CHR '']'')" "significant (CHR ''}'')" "significant (CHR 0x22)" "significant l \<Longrightarrow> l \<noteq> CHR '',''"
  by (simp_all add: significant_def)

lemmas complete_steps = complete_separators complete_blank complete_string

lemma complete_token:
  assumes "\<forall>c \<in> set t. quiet c" "\<exists>c \<in> set t. \<not> isspace c" "n + length t \<le> SWBT_IPC_JSON_LINE_MAX"
  shows "\<exists>l'. significant l' \<and>
    complete_loop (t @ r) n d False False l = complete_loop r (n + length t) d False False l'"
  using complete_quiet [OF assms(1,3), of r d l] assms(2) by blast

lemma complete_value:
  "json_text v t \<Longrightarrow> (\<And>n d l r. 1 \<le> d \<Longrightarrow> n + length t \<le> SWBT_IPC_JSON_LINE_MAX \<Longrightarrow> \<exists>l'. significant l' \<and>
      complete_loop (t @ r) n d False False l = complete_loop r (n + length t) d False False l')"
  "items_text vs t \<Longrightarrow> (\<And>n d l r. 1 \<le> d \<Longrightarrow> n + length t \<le> SWBT_IPC_JSON_LINE_MAX \<Longrightarrow> \<exists>l'. significant l' \<and>
      complete_loop (t @ r) n d False False l = complete_loop r (n + length t) d False False l')"
  "members_text ms t \<Longrightarrow> (\<And>n d l r. 1 \<le> d \<Longrightarrow> n + length t \<le> SWBT_IPC_JSON_LINE_MAX \<Longrightarrow> \<exists>l'. significant l' \<and>
      complete_loop (t @ r) n d False False l = complete_loop r (n + length t) d False False l')"
proof (induction rule: json_text_items_text_members_text.inducts)
  case json_null
  show ?case by (rule complete_token [OF _ _ json_null(2)]) (simp_all add: quiet_def isspace_def)
next
  case (json_bool b)
  show ?case by (rule complete_token [OF _ _ json_bool(2)]) (simp_all add: quiet_def isspace_def)
next
  case (json_int i)
  have "int_text i \<noteq> []" "\<not> isspace (hd (int_text i))"
    using json_text_head [OF json_text_items_text_members_text.json_int] by auto
  then show ?case
    by (intro complete_token [OF _ _ json_int(2)]) (auto simp: int_text_quiet intro!: bexI [of _ "hd (int_text i)"])
next
  case (json_string s)
  then show ?case by (intro exI [of _ "CHR 0x22"]) (simp add: complete_steps)
next
  case (json_array_nil w)
  then show ?case by (intro exI [of _ "CHR '']''"]) (simp add: complete_steps)
next
  case (json_array vs t)
  obtain l' where "significant l'" "complete_loop (t @ '']'' @ r) (Suc n) d False False (CHR ''['') =
      complete_loop ('']'' @ r) (Suc n + length t) d False False l'"
    using json_array.IH [of d "Suc n" "'']'' @ r"] json_array.prems by auto
  then show ?case
    using json_array.prems by (intro exI [of _ "CHR '']''"]) (simp add: complete_steps)
next
  case (json_object_nil w)
  then show ?case by (intro exI [of _ "CHR ''}''"]) (simp add: complete_steps)
next
  case (json_object ms t)
  obtain l' where "significant l'" "complete_loop (t @ ''}'' @ r) (Suc n) (d + 1) False False (CHR ''{'') =
      complete_loop (''}'' @ r) (Suc n + length t) (d + 1) False False l'"
    using json_object.IH [of "d + 1" "Suc n" "''}'' @ r"] json_object.prems by auto
  then show ?case
    using json_object.prems by (intro exI [of _ "CHR ''}''"]) (simp add: complete_steps)
next
  case (items_one w v t w')
  obtain l' where "significant l'" "complete_loop (t @ w' @ r) (n + length w) d False False l =
      complete_loop (w' @ r) (n + length w + length t) d False False l'"
    using items_one.IH [of d "n + length w" "w' @ r"] items_one.prems by auto
  then show ?case
    using items_one by (intro exI [of _ l']) (simp add: complete_steps add.assoc)
next
  case (items_more w v t w' vs u)
  let ?r = "w' @ CHR '','' # u @ r"
  obtain l' where l': "significant l'" "complete_loop (t @ ?r) (n + length w) d False False l =
      complete_loop ?r (n + length w + length t) d False False l'"
    using items_more.IH(1) [of d "n + length w" ?r] items_more.prems by auto
  obtain l'' where "significant l''"
    "complete_loop (u @ r) (Suc (n + length w + length t + length w')) d False False (CHR '','') =
      complete_loop r (Suc (n + length w + length t + length w') + length u) d False False l''"
    using items_more.IH(2) [of d "Suc (n + length w + length t + length w')" r] items_more.prems by auto
  with l' show ?case
    using items_more by (intro exI [of _ l'']) (simp add: complete_steps add.assoc)
next
  case (members_one w1 k w2 w3 v t w4)
  let ?n = "n + length (w1 @ quoted k @ w2 @ '':'' @ w3)"
  obtain l' where "significant l'" "complete_loop (t @ w4 @ r) ?n d False False (CHR '':'') =
      complete_loop (w4 @ r) (?n + length t) d False False l'"
    using members_one.IH [of d ?n "w4 @ r"] members_one.prems by auto
  then show ?case
    using members_one by (intro exI [of _ l']) (simp add: complete_steps add.assoc)
next
  case (members_more w1 k w2 w3 v t w4 ms u)
  let ?n = "n + length (w1 @ quoted k @ w2 @ '':'' @ w3)"
  let ?r = "w4 @ CHR '','' # u @ r"
  obtain l' where l': "significant l'" "complete_loop (t @ ?r) ?n d False False (CHR '':'') =
      complete_loop ?r (?n + length t) d False False l'"
    using members_more.IH(1) [of d ?n ?r] members_more.prems by auto
  obtain l'' where "significant l''"
    "complete_loop (u @ r) (Suc (?n + length t + length w4)) d False False (CHR '','') =
      complete_loop r (Suc (?n + length t + length w4) + length u) d False False l''"
    using members_more.IH(2) [of d "Suc (?n + length t + length w4)" r] members_more.prems by auto
  with l' show ?case
    using members_more by (intro exI [of _ l'']) (simp add: complete_steps add.assoc)
qed

lemma skip_ws_all: "blank w \<Longrightarrow> swbt_json_skip_ws w = []"
  using skip_ws_blank [of w "[]"] by simp

lemma complete_object:
  assumes "json_text (JObject ms) t" "blank w" "blank w'" "length t \<le> SWBT_IPC_JSON_LINE_MAX"
  shows "swbt_json_is_complete_object (w @ t @ w')"
proof -
  have "complete_loop (t @ w') 0 0 False False NUL = Some (w', 0, False, True)"
    using assms(1)
  proof (cases rule: json_text.cases)
    case (json_object_nil u)
    then show ?thesis
      using assms(4) by (simp add: complete_steps)
  next
    case (json_object u)
    obtain l' where "significant l'" "complete_loop (u @ ''}'' @ w') 1 1 False False (CHR ''{'') =
        complete_loop (''}'' @ w') (1 + length u) 1 False False l'"
      using complete_value(3) [OF json_object(2), of 1 1 "''}'' @ w'" "CHR ''{''"] assms(4) json_object(1) by auto
    then show ?thesis
      using json_object(1) assms(4) by (simp add: complete_steps)
  qed
  moreover have "at_cursor (t @ w') = CHR ''{''"
    using assms(1) by (cases rule: json_text.cases) auto
  ultimately show ?thesis
    using assms(2,3)
    by (simp add: swbt_json_is_complete_object_def skip_ws_blank skip_ws_value [OF assms(1)] skip_ws_all)
qed

section \<open>Printing\<close>

text \<open>The compact text of a value, the layout that the encoders of the program write.\<close>

fun render :: "json \<Rightarrow> string"
  and render_items :: "json list \<Rightarrow> string"
  and render_members :: "(string \<times> json) list \<Rightarrow> string" where
  "render JNull = ''null''"
| "render (JBool b) = (if b then ''true'' else ''false'')"
| "render (JInt i) = int_text i"
| "render (JString s) = quoted s"
| "render (JArray vs) = CHR ''['' # render_items vs @ '']''"
| "render (JObject ms) = CHR ''{'' # render_members ms @ ''}''"
| "render_items [] = []"
| "render_items (v # vs) = render v @ (if vs = [] then [] else CHR '','' # render_items vs)"
| "render_members [] = []"
| "render_members ((k, v) # ms) =
     quoted k @ CHR '':'' # render v @ (if ms = [] then [] else CHR '','' # render_members ms)"

fun json_plain :: "json \<Rightarrow> bool"
  and items_plain :: "json list \<Rightarrow> bool"
  and members_plain :: "(string \<times> json) list \<Rightarrow> bool" where
  "json_plain (JString s) = plain s"
| "json_plain (JArray vs) = items_plain vs"
| "json_plain (JObject ms) = members_plain ms"
| "json_plain v = True"
| "items_plain [] = True"
| "items_plain (v # vs) = (json_plain v \<and> items_plain vs)"
| "members_plain [] = True"
| "members_plain ((k, v) # ms) = (plain k \<and> json_plain v \<and> members_plain ms)"

lemma blank_Nil [simp]: "blank []"
  by (simp add: blank_def)

lemma json_text_render:
  "json_plain v \<Longrightarrow> json_text v (render v)"
  "items_plain vs \<Longrightarrow> vs \<noteq> [] \<Longrightarrow> items_text vs (render_items vs)"
  "members_plain ms \<Longrightarrow> ms \<noteq> [] \<Longrightarrow> members_text ms (render_members ms)"
proof (induction v and vs and ms rule: render_render_items_render_members.induct)
  case (5 vs)
  then show ?case
    using json_array_nil [of "[]"] by (cases "vs = []") (auto intro: json_array)
next
  case (6 ms)
  then show ?case
    using json_object_nil [of "[]"] by (cases "ms = []") (auto intro: json_object)
next
  case (8 v vs)
  then show ?case
    using items_one [of "[]" v "render v" "[]"] items_more [of "[]" v "render v" "[]"]
    by (cases "vs = []") auto
next
  case (10 k v ms)
  then show ?case
    using members_one [of "[]" k "[]" "[]" v "render v" "[]"] members_more [of "[]" k "[]" "[]" v "render v" "[]"]
    by (cases "ms = []") auto
next
  case (2 b)
  show ?case
    using json_bool [of b] by simp
qed (auto intro: json_text_items_text_members_text.intros)

end
