(* ===== verification/IpcJson.thy ===== *)
theory IpcJson
  imports JsonScan Domain
begin

text \<open>
  The codec of the IPC protocol, \<open>ipc/ipc_json.c\<close>, on top of its JSON scanner: the
  decoder of command lines and the encoder of response lines. A character array
  that receives a string is the string it holds afterwards.

  Two things come from the build: the number of bits of \<open>unsigned long\<close> (32 or 64)
  and the version string; they are the fields of \<open>ipc_build\<close>.
\<close>

section \<open>Types\<close>

definition SWBT_IPC_JSON_RESPONSE_MAX :: nat where
  "SWBT_IPC_JSON_RESPONSE_MAX = 2048"

definition SWBT_IPC_JSON_STRING_MAX :: nat where
  "SWBT_IPC_JSON_STRING_MAX = 96"

definition SWBT_IPC_OWNER_ID_HEX_SIZE :: nat where
  "SWBT_IPC_OWNER_ID_HEX_SIZE = 8"

definition SWBT_DEFINED_BUTTON_MASK :: u32 where
  "SWBT_DEFINED_BUTTON_MASK = 0x00FF3FFF"

datatype swbt_ipc_json_result_t =
    SWBT_IPC_JSON_OK
  | SWBT_IPC_JSON_ERROR_INVALID_ARGUMENT
  | SWBT_IPC_JSON_ERROR_RESPONSE_TOO_SMALL

datatype swbt_ipc_command_type_t =
    SWBT_IPC_COMMAND_NONE
  | SWBT_IPC_COMMAND_HELLO
  | SWBT_IPC_COMMAND_ACQUIRE
  | SWBT_IPC_COMMAND_RELEASE
  | SWBT_IPC_COMMAND_SET_STATE
  | SWBT_IPC_COMMAND_GET_STATUS

datatype swbt_ipc_response_type_t =
    SWBT_IPC_RESPONSE_NONE
  | SWBT_IPC_RESPONSE_HELLO_OK
  | SWBT_IPC_RESPONSE_ACQUIRED
  | SWBT_IPC_RESPONSE_RELEASED
  | SWBT_IPC_RESPONSE_STATE_ACCEPTED
  | SWBT_IPC_RESPONSE_STATUS
  | SWBT_IPC_RESPONSE_ERROR

datatype swbt_ipc_error_code_t =
    SWBT_IPC_ERROR_CODE_INVALID_JSON
  | SWBT_IPC_ERROR_CODE_INVALID_VERSION
  | SWBT_IPC_ERROR_CODE_UNSUPPORTED_COMMAND
  | SWBT_IPC_ERROR_CODE_OWNER_BUSY
  | SWBT_IPC_ERROR_CODE_NOT_OWNER
  | SWBT_IPC_ERROR_CODE_INVALID_STATE
  | SWBT_IPC_ERROR_CODE_INTERNAL_ERROR

record swbt_ipc_command_t =
  cmd_type :: swbt_ipc_command_type_t
  cmd_has_request_id :: bool
  cmd_request_id :: string
  cmd_has_owner_id :: bool
  cmd_owner_client_id :: u32
  cmd_sequence :: u64
  cmd_state :: swbt_state_t

record swbt_ipc_response_status_t =
  rs_has_owner :: bool
  rs_owner_client_id :: u32
  rs_last_sequence :: u64
  rs_state :: swbt_state_t
  rs_rumble :: swbt_switch_rumble_state_t
  rs_metrics :: swbt_metrics_snapshot_t
  rs_daemon :: swbt_domain_daemon_status_t
  rs_hardware :: swbt_domain_hardware_status_t

record swbt_ipc_response_t =
  resp_type :: swbt_ipc_response_type_t
  resp_has_request_id :: bool
  resp_request_id :: string
  resp_client_id :: u32
  resp_owner_client_id :: u32
  resp_sequence :: u64
  resp_status :: swbt_ipc_response_status_t
  resp_error_code :: swbt_ipc_error_code_t
  resp_error_message :: string

record ipc_build =
  ulong_bits :: nat
  version_string :: string

section \<open>Formatting\<close>

definition swbt_get_version_string :: "ipc_build \<Rightarrow> string" where
  "swbt_get_version_string build = version_string build"

text \<open>
  \<open>swbt_json_write\<close> gets the text that \<open>vsnprintf\<close> would print with unlimited space; the result is
  the code and the string in the response buffer.
\<close>

definition swbt_json_write :: "nat \<Rightarrow> string \<Rightarrow> swbt_ipc_json_result_t \<times> string" where
  "swbt_json_write response_size text =
     (if length text \<ge> response_size then (SWBT_IPC_JSON_ERROR_RESPONSE_TOO_SMALL, [])
      else (SWBT_IPC_JSON_OK, text))"

definition swbt_ipc_format_owner_id :: "u32 \<Rightarrow> string" where
  "swbt_ipc_format_owner_id client_id =
     map (\<lambda>index. hex_lower (unat (drop_bit ((SWBT_IPC_OWNER_ID_HEX_SIZE - 1 - index) * 4) client_id AND 0x0F)))
       [0..<SWBT_IPC_OWNER_ID_HEX_SIZE]"

definition swbt_ipc_format_rumble_raw :: "bytes \<Rightarrow> string" where
  "swbt_ipc_format_rumble_raw raw =
     concat (map (\<lambda>index. [hex_lower (unat (drop_bit 4 (raw ! index) AND 0x0F)), hex_lower (unat (raw ! index AND 0x0F))])
       [0..<SWBT_SWITCH_RUMBLE_DATA_SIZE])"

definition swbt_ipc_parse_owner_id :: "ipc_build \<Rightarrow> string option \<Rightarrow> u32 option" where
  "swbt_ipc_parse_owner_id build owner_id = (case owner_id of
       None \<Rightarrow> None
     | Some s \<Rightarrow>
         (if length s \<noteq> SWBT_IPC_OWNER_ID_HEX_SIZE then None
          else let (parsed, end_ptr, range_error) = strtou (ulong_bits build) 16 s in
            if range_error \<or> at_cursor end_ptr \<noteq> NUL \<or> parsed > 2 ^ 32 - 1 then None
            else Some (of_nat parsed)))"

definition swbt_ipc_write_error ::
  "nat \<Rightarrow> bool \<Rightarrow> string \<Rightarrow> string \<Rightarrow> string \<Rightarrow> swbt_ipc_json_result_t \<times> string" where
  \<open>swbt_ipc_write_error response_size has_request_id request_id code message =
     (if has_request_id
      then swbt_json_write response_size (''{"v":1,"type":"error","request_id":"'' @ request_id
        @ ''","code":"'' @ code @ ''","message":"'' @ message @ ''"}'' @ [CHR 0x0A])
      else swbt_json_write response_size (''{"v":1,"type":"error","code":"'' @ code
        @ ''","message":"'' @ message @ ''"}'' @ [CHR 0x0A]))\<close>

section \<open>Decoding\<close>

text \<open>None for \<open>false\<close>; otherwise whether there is a request id, and the string.\<close>

definition swbt_ipc_parse_request_id :: "string \<Rightarrow> (bool \<times> string) option" where
  "swbt_ipc_parse_request_id line = (case swbt_json_get_string line ''request_id'' SWBT_IPC_JSON_STRING_MAX of
       Malformed \<Rightarrow> None
     | Missing \<Rightarrow> Some (False, [])
     | Found request_id \<Rightarrow> Some (True, request_id))"

definition swbt_ipc_parse_required_i64 :: "string \<Rightarrow> string \<Rightarrow> int option" where
  "swbt_ipc_parse_required_i64 line key = (case swbt_json_get_i64 line key of Found v \<Rightarrow> Some v | _ \<Rightarrow> None)"

definition swbt_ipc_parse_i16_field :: "string \<Rightarrow> string \<Rightarrow> i16 option" where
  "swbt_ipc_parse_i16_field line key = do {
     v \<leftarrow> swbt_ipc_parse_required_i64 line key;
     if v < - 32768 \<or> v > 32767 then None else Some (of_int v)
   }"

definition swbt_ipc_parse_stick_field :: "string \<Rightarrow> string \<Rightarrow> u16 option" where
  "swbt_ipc_parse_stick_field line key = do {
     v \<leftarrow> swbt_ipc_parse_required_i64 line key;
     if v < 0 \<or> v > 4095 then None else Some (of_int v)
   }"

definition swbt_ipc_parse_state :: "string \<Rightarrow> (swbt_state_t \<times> u64) option" where
  "swbt_ipc_parse_state line = do {
     state_json \<leftarrow> swbt_json_find_key_value line ''state'';
     if at_cursor state_json \<noteq> CHR ''{'' then None else do {
       bs \<leftarrow> swbt_ipc_parse_required_i64 state_json ''buttons'';
       if bs < 0 \<or> bs > 2 ^ 32 - 1 \<or> (of_int bs :: u32) AND NOT SWBT_DEFINED_BUTTON_MASK \<noteq> 0 then None else do {
         v_lx \<leftarrow> swbt_ipc_parse_stick_field state_json ''lx'';
         v_ly \<leftarrow> swbt_ipc_parse_stick_field state_json ''ly'';
         v_rx \<leftarrow> swbt_ipc_parse_stick_field state_json ''rx'';
         v_ry \<leftarrow> swbt_ipc_parse_stick_field state_json ''ry'';
         v_ax \<leftarrow> swbt_ipc_parse_i16_field state_json ''accel_x'';
         v_ay \<leftarrow> swbt_ipc_parse_i16_field state_json ''accel_y'';
         v_az \<leftarrow> swbt_ipc_parse_i16_field state_json ''accel_z'';
         v_gx \<leftarrow> swbt_ipc_parse_i16_field state_json ''gyro_x'';
         v_gy \<leftarrow> swbt_ipc_parse_i16_field state_json ''gyro_y'';
         v_gz \<leftarrow> swbt_ipc_parse_i16_field state_json ''gyro_z'';
         seq \<leftarrow> (case swbt_json_get_i64 line ''seq'' of Malformed \<Rightarrow> None | Missing \<Rightarrow> Some 0 | Found n \<Rightarrow> Some n);
         if seq < 0 then None
         else Some (swbt_state_neutral\<lparr>buttons := of_int bs, lx := v_lx, ly := v_ly, rx := v_rx, ry := v_ry,
                      accel_x := v_ax, accel_y := v_ay, accel_z := v_az,
                      gyro_x := v_gx, gyro_y := v_gy, gyro_z := v_gz\<rparr>, of_int seq)
       }
     }
   }"

definition swbt_ipc_json_init_command :: swbt_ipc_command_t where
  "swbt_ipc_json_init_command = \<lparr>cmd_type = SWBT_IPC_COMMAND_NONE, cmd_has_request_id = False, cmd_request_id = [],
     cmd_has_owner_id = False, cmd_owner_client_id = 0, cmd_sequence = 0, cmd_state = swbt_state_neutral\<rparr>"

definition swbt_ipc_json_init_response :: swbt_ipc_response_t where
  "swbt_ipc_json_init_response = \<lparr>resp_type = SWBT_IPC_RESPONSE_NONE, resp_has_request_id = False,
     resp_request_id = [], resp_client_id = 0, resp_owner_client_id = 0, resp_sequence = 0,
     resp_status = \<lparr>rs_has_owner = False, rs_owner_client_id = 0, rs_last_sequence = 0,
       rs_state = swbt_state_neutral, rs_rumble = dom_rumble zero_domain, rs_metrics = snapshot zero_metrics,
       rs_daemon = dom_daemon zero_domain, rs_hardware = dom_hardware zero_domain\<rparr>,
     resp_error_code = SWBT_IPC_ERROR_CODE_INVALID_JSON, resp_error_message = []\<rparr>"

definition swbt_ipc_json_copy_text :: "string \<Rightarrow> nat \<Rightarrow> string \<Rightarrow> string" where
  "swbt_ipc_json_copy_text out out_size text = (if out_size = 0 then out else take (out_size - 1) text)"

definition swbt_ipc_json_text_can_be_written_raw :: "string option \<Rightarrow> bool" where
  "swbt_ipc_json_text_can_be_written_raw text = (case text of
       None \<Rightarrow> False
     | Some s \<Rightarrow> list_all (\<lambda>c. \<not> (c = CHR 0x22 \<or> c = CHR 0x5C \<or> ccode c < 0x20)) s)"

definition swbt_ipc_json_set_error ::
  "swbt_ipc_response_t \<Rightarrow> bool \<Rightarrow> string \<Rightarrow> swbt_ipc_error_code_t \<Rightarrow> string \<Rightarrow> swbt_ipc_response_t" where
  "swbt_ipc_json_set_error response has_request_id request_id error_code message =
     response\<lparr>resp_type := SWBT_IPC_RESPONSE_ERROR,
       resp_has_request_id := has_request_id,
       resp_request_id := (if has_request_id
         then swbt_ipc_json_copy_text (resp_request_id response) SWBT_IPC_JSON_STRING_MAX request_id else []),
       resp_error_code := error_code,
       resp_error_message :=
         swbt_ipc_json_copy_text (resp_error_message response) SWBT_IPC_JSON_STRING_MAX message\<rparr>"

definition swbt_ipc_json_copy_request_id ::
  "swbt_ipc_command_t \<Rightarrow> bool \<Rightarrow> string \<Rightarrow> swbt_ipc_command_t" where
  "swbt_ipc_json_copy_request_id command has_request_id request_id =
     command\<lparr>cmd_has_request_id := has_request_id,
       cmd_request_id := (if has_request_id
         then swbt_ipc_json_copy_text (cmd_request_id command) SWBT_IPC_JSON_STRING_MAX request_id else [])\<rparr>"

text \<open>The member \<open>owner_id\<close> of release and set_state commands.\<close>

definition decode_owner_id :: "ipc_build \<Rightarrow> string \<Rightarrow> swbt_ipc_command_t \<Rightarrow> swbt_ipc_command_t" where
  "decode_owner_id build line command =
     (case swbt_json_get_string line ''owner_id'' SWBT_IPC_JSON_STRING_MAX of
        Found owner_id \<Rightarrow>
          (case swbt_ipc_parse_owner_id build (Some owner_id) of
             Some client_id \<Rightarrow> command\<lparr>cmd_has_owner_id := True, cmd_owner_client_id := client_id\<rparr>
           | None \<Rightarrow> command\<lparr>cmd_has_owner_id := False\<rparr>)
      | _ \<Rightarrow> command)"

definition swbt_ipc_json_decode_command ::
  "ipc_build \<Rightarrow> string option \<Rightarrow> swbt_ipc_command_t option \<Rightarrow> swbt_ipc_response_t option
   \<Rightarrow> swbt_ipc_json_result_t \<times> swbt_ipc_command_t option \<times> swbt_ipc_response_t option" where
  "swbt_ipc_json_decode_command build line out_command out_error_response =
     (case (line, out_command, out_error_response) of
        (Some line, Some _, Some _) \<Rightarrow>
          (let command = swbt_ipc_json_init_command; error_response = swbt_ipc_json_init_response in
           if \<not> swbt_json_is_complete_object line then
             (SWBT_IPC_JSON_OK, Some command, Some (swbt_ipc_json_set_error error_response False []
               SWBT_IPC_ERROR_CODE_INVALID_JSON ''message is not a complete JSON object''))
           else case swbt_ipc_parse_request_id line of
             None \<Rightarrow>
               (SWBT_IPC_JSON_OK, Some command, Some (swbt_ipc_json_set_error error_response False []
                 SWBT_IPC_ERROR_CODE_INVALID_JSON ''request_id is invalid''))
           | Some (has_request_id, request_id) \<Rightarrow>
               let set_error = swbt_ipc_json_set_error error_response has_request_id request_id in
               if swbt_json_get_i64 line ''v'' \<noteq> Found 1 then
                 (SWBT_IPC_JSON_OK, Some command,
                  Some (set_error SWBT_IPC_ERROR_CODE_INVALID_VERSION ''unsupported protocol version''))
               else case swbt_json_get_string line ''type'' SWBT_IPC_JSON_STRING_MAX of
                 Malformed \<Rightarrow>
                   (SWBT_IPC_JSON_OK, Some command,
                    Some (set_error SWBT_IPC_ERROR_CODE_INVALID_JSON ''type is invalid''))
               | Missing \<Rightarrow>
                   (SWBT_IPC_JSON_OK, Some command,
                    Some (set_error SWBT_IPC_ERROR_CODE_UNSUPPORTED_COMMAND ''missing command type''))
               | Found type \<Rightarrow>
                   let command = swbt_ipc_json_copy_request_id command has_request_id request_id in
                   if type = ''hello'' then
                     (SWBT_IPC_JSON_OK, Some (command\<lparr>cmd_type := SWBT_IPC_COMMAND_HELLO\<rparr>), Some error_response)
                   else if type = ''acquire'' then
                     (SWBT_IPC_JSON_OK, Some (command\<lparr>cmd_type := SWBT_IPC_COMMAND_ACQUIRE\<rparr>), Some error_response)
                   else if type = ''release'' then
                     (SWBT_IPC_JSON_OK,
                      Some (decode_owner_id build line (command\<lparr>cmd_type := SWBT_IPC_COMMAND_RELEASE\<rparr>)),
                      Some error_response)
                   else if type = ''set_state'' then
                     (let command = decode_owner_id build line (command\<lparr>cmd_type := SWBT_IPC_COMMAND_SET_STATE\<rparr>)
                      in case swbt_ipc_parse_state line of
                           None \<Rightarrow> (SWBT_IPC_JSON_OK, Some swbt_ipc_json_init_command,
                             Some (set_error SWBT_IPC_ERROR_CODE_INVALID_STATE ''state field is invalid''))
                         | Some (state, sequence) \<Rightarrow>
                             (SWBT_IPC_JSON_OK, Some (command\<lparr>cmd_state := state, cmd_sequence := sequence\<rparr>),
                              Some error_response))
                   else if type = ''get_status'' then
                     (SWBT_IPC_JSON_OK, Some (command\<lparr>cmd_type := SWBT_IPC_COMMAND_GET_STATUS\<rparr>), Some error_response)
                   else
                     (SWBT_IPC_JSON_OK, Some command,
                      Some (set_error SWBT_IPC_ERROR_CODE_UNSUPPORTED_COMMAND ''unsupported command type'')))
      | _ \<Rightarrow> (SWBT_IPC_JSON_ERROR_INVALID_ARGUMENT, out_command, out_error_response))"

section \<open>Encoding\<close>

fun swbt_ipc_json_error_code_text :: "swbt_ipc_error_code_t \<Rightarrow> string" where
  "swbt_ipc_json_error_code_text SWBT_IPC_ERROR_CODE_INVALID_JSON = ''invalid_json''"
| "swbt_ipc_json_error_code_text SWBT_IPC_ERROR_CODE_INVALID_VERSION = ''invalid_version''"
| "swbt_ipc_json_error_code_text SWBT_IPC_ERROR_CODE_UNSUPPORTED_COMMAND = ''unsupported_command''"
| "swbt_ipc_json_error_code_text SWBT_IPC_ERROR_CODE_OWNER_BUSY = ''owner_busy''"
| "swbt_ipc_json_error_code_text SWBT_IPC_ERROR_CODE_NOT_OWNER = ''not_owner''"
| "swbt_ipc_json_error_code_text SWBT_IPC_ERROR_CODE_INVALID_STATE = ''invalid_state''"
| "swbt_ipc_json_error_code_text SWBT_IPC_ERROR_CODE_INTERNAL_ERROR = ''internal_error''"

fun swbt_ipc_json_hardware_status_text :: "swbt_metrics_hardware_status_t \<Rightarrow> string" where
  "swbt_ipc_json_hardware_status_text SWBT_METRICS_HARDWARE_UNAVAILABLE = ''unavailable''"
| "swbt_ipc_json_hardware_status_text SWBT_METRICS_HARDWARE_OBSERVED = ''observed''"

fun swbt_ipc_json_daemon_backend_text :: "swbt_domain_daemon_backend_t \<Rightarrow> string" where
  "swbt_ipc_json_daemon_backend_text SWBT_DOMAIN_DAEMON_BACKEND_UNKNOWN = ''unknown''"
| "swbt_ipc_json_daemon_backend_text SWBT_DOMAIN_DAEMON_BACKEND_NOOP = ''noop''"
| "swbt_ipc_json_daemon_backend_text SWBT_DOMAIN_DAEMON_BACKEND_PRODUCTION = ''production''"

fun swbt_ipc_json_daemon_lifecycle_text :: "swbt_domain_daemon_lifecycle_state_t \<Rightarrow> string" where
  "swbt_ipc_json_daemon_lifecycle_text SWBT_DOMAIN_DAEMON_LIFECYCLE_UNAVAILABLE = ''unavailable''"
| "swbt_ipc_json_daemon_lifecycle_text SWBT_DOMAIN_DAEMON_LIFECYCLE_STOPPED = ''stopped''"
| "swbt_ipc_json_daemon_lifecycle_text SWBT_DOMAIN_DAEMON_LIFECYCLE_RUNNING = ''running''"

fun swbt_ipc_json_hardware_approval_text :: "swbt_domain_hardware_approval_t \<Rightarrow> string" where
  "swbt_ipc_json_hardware_approval_text SWBT_DOMAIN_HARDWARE_APPROVAL_UNAVAILABLE = ''unavailable''"
| "swbt_ipc_json_hardware_approval_text SWBT_DOMAIN_HARDWARE_APPROVAL_APPROVED = ''approved''"

fun swbt_ipc_json_hardware_channel_text :: "swbt_domain_hardware_channel_state_t \<Rightarrow> string" where
  "swbt_ipc_json_hardware_channel_text SWBT_DOMAIN_HARDWARE_CHANNEL_UNAVAILABLE = ''unavailable''"
| "swbt_ipc_json_hardware_channel_text SWBT_DOMAIN_HARDWARE_CHANNEL_FAILED = ''failed''"

text \<open>The conversions \<open>%u\<close> and \<open>%llu\<close> of an unsigned and \<open>%d\<close> of a signed argument.\<close>

definition print_u :: "'a::len word \<Rightarrow> string" where
  "print_u w = decimal (unat w)"

definition print_d :: "i16 \<Rightarrow> string" where
  "print_d w = int_text (sint w)"

text \<open>The state object, as the format strings of the status response print it.\<close>

definition state_text :: "swbt_state_t \<Rightarrow> string" where
  \<open>state_text st =
     ''"state":{"buttons":'' @ print_u (buttons st)
     @ '',"lx":'' @ print_u (lx st) @ '',"ly":'' @ print_u (ly st)
     @ '',"rx":'' @ print_u (rx st) @ '',"ry":'' @ print_u (ry st)
     @ '',"accel_x":'' @ print_d (accel_x st) @ '',"accel_y":'' @ print_d (accel_y st)
     @ '',"accel_z":'' @ print_d (accel_z st) @ '',"gyro_x":'' @ print_d (gyro_x st)
     @ '',"gyro_y":'' @ print_d (gyro_y st) @ '',"gyro_z":'' @ print_d (gyro_z st) @ ''}''\<close>

text \<open>
  What the two format strings of the status response have in common: everything
  from the member \<open>daemon\<close> on, in one definition for each of its objects.
\<close>

definition daemon_text :: "ipc_build \<Rightarrow> swbt_domain_daemon_status_t \<Rightarrow> string" where
  \<open>daemon_text build d =
     ''"daemon":{"protocol_version":'' @ decimal 1
     @ '',"daemon_version":"'' @ swbt_get_version_string build
     @ ''","backend":"'' @ swbt_ipc_json_daemon_backend_text (backend d)
     @ ''","lifecycle_state":"'' @ swbt_ipc_json_daemon_lifecycle_text (lifecycle_state d)
     @ ''","hardware_approval":"'' @ swbt_ipc_json_hardware_approval_text (hardware_approval d) @ ''"}''\<close>

definition metrics_text :: "swbt_metrics_snapshot_t \<Rightarrow> string" where
  \<open>metrics_text m =
     ''"metrics":{"hardware_status":"'' @ swbt_ipc_json_hardware_status_text (hardware_status m)
     @ ''","report_ticks_total":'' @ print_u (report_ticks m)
     @ '',"reports_sent_total":'' @ print_u (report_send_ok m)
     @ '',"send_failures_total":'' @ print_u (report_send_failed m)
     @ '',"report_interval_average_us":'' @ print_u (report_interval_average_us m)
     @ '',"report_interval_max_us":'' @ print_u (report_interval_max_us m)
     @ '',"ipc_state_accepted_total":'' @ print_u (ipc_state_accepted m)
     @ '',"ipc_state_rejected_total":'' @ print_u (ipc_state_rejected m)
     @ '',"ipc_state_coalesced_total":'' @ print_u (ipc_state_coalesced m)
     @ '',"actual_report_rate_hz":'' @ print_u (actual_report_rate_hz m)
     @ '',"jitter_max_us":'' @ print_u (jitter_max_us m) @ ''}''\<close>

definition hardware_text :: "swbt_domain_hardware_status_t \<Rightarrow> string" where
  \<open>hardware_text h =
     ''"hardware":{"adapter_state":"'' @ swbt_ipc_json_hardware_channel_text (adapter_state h)
     @ ''","switch_connection_state":"'' @ swbt_ipc_json_hardware_channel_text (switch_connection_state h)
     @ ''","hid_channel_state":"'' @ swbt_ipc_json_hardware_channel_text (hid_channel_state h) @ ''"}''\<close>

definition owner_text :: "swbt_ipc_response_status_t \<Rightarrow> string" where
  \<open>owner_text st =
     ''"owner":{"present":'' @ (if rs_has_owner st then ''true'' else ''false'')
     @ '',"owner_id":"'' @ swbt_ipc_format_owner_id (if rs_has_owner st then rs_owner_client_id st else 0)
     @ ''","last_seq":'' @ print_u (rs_last_sequence st) @ ''}''\<close>

definition rumble_text :: "swbt_switch_rumble_state_t \<Rightarrow> string" where
  \<open>rumble_text r =
     ''"rumble":{"updated":'' @ (if rumble_updated r then ''true'' else ''false'')
     @ '',"last_update_ms":'' @ print_u (rumble_updated_at_ms r)
     @ '',"raw":"'' @ swbt_ipc_format_rumble_raw (rumble_raw r) @ ''"}''\<close>

definition status_text :: "ipc_build \<Rightarrow> swbt_ipc_response_status_t \<Rightarrow> string" where
  "status_text build st = daemon_text build (rs_daemon st) @ '','' @ metrics_text (rs_metrics st) @ '',''
     @ hardware_text (rs_hardware st) @ '','' @ owner_text st @ '','' @ state_text (rs_state st) @ '',''
     @ rumble_text (rs_rumble st) @ ''}'' @ [CHR 0x0A]"

definition swbt_ipc_json_encode_response ::
  "ipc_build \<Rightarrow> swbt_ipc_response_t option \<Rightarrow> string option \<Rightarrow> nat \<Rightarrow> swbt_ipc_json_result_t \<times> string option" where
  \<open>swbt_ipc_json_encode_response build typed_response response response_size =
     (case (typed_response, response) of
        (Some tr, Some _) \<Rightarrow>
          if response_size = 0 then (SWBT_IPC_JSON_ERROR_INVALID_ARGUMENT, response)
          else if resp_has_request_id tr \<and> \<not> swbt_ipc_json_text_can_be_written_raw (Some (resp_request_id tr))
          then (SWBT_IPC_JSON_ERROR_INVALID_ARGUMENT, Some [])
          else if resp_type tr = SWBT_IPC_RESPONSE_ERROR
            \<and> \<not> swbt_ipc_json_text_can_be_written_raw (Some (resp_error_message tr))
          then (SWBT_IPC_JSON_ERROR_INVALID_ARGUMENT, Some [])
          else
            (let write = (\<lambda>text. map_prod id Some (swbt_json_write response_size text)) in
             case resp_type tr of
               SWBT_IPC_RESPONSE_NONE \<Rightarrow> (SWBT_IPC_JSON_OK, Some [])
             | SWBT_IPC_RESPONSE_HELLO_OK \<Rightarrow>
                 if resp_has_request_id tr
                 then write (''{"v":1,"type":"hello_ok","request_id":"'' @ resp_request_id tr
                   @ ''","client_id":"'' @ swbt_ipc_format_owner_id (resp_client_id tr) @ ''"}'' @ [CHR 0x0A])
                 else write (''{"v":1,"type":"hello_ok","client_id":"''
                   @ swbt_ipc_format_owner_id (resp_client_id tr) @ ''"}'' @ [CHR 0x0A])
             | SWBT_IPC_RESPONSE_ACQUIRED \<Rightarrow>
                 if resp_has_request_id tr
                 then write (''{"v":1,"type":"acquired","request_id":"'' @ resp_request_id tr
                   @ ''","owner_id":"'' @ swbt_ipc_format_owner_id (resp_owner_client_id tr) @ ''"}'' @ [CHR 0x0A])
                 else write (''{"v":1,"type":"acquired","owner_id":"''
                   @ swbt_ipc_format_owner_id (resp_owner_client_id tr) @ ''"}'' @ [CHR 0x0A])
             | SWBT_IPC_RESPONSE_RELEASED \<Rightarrow>
                 if resp_has_request_id tr
                 then write (''{"v":1,"type":"released","request_id":"'' @ resp_request_id tr @ ''"}'' @ [CHR 0x0A])
                 else write (''{"v":1,"type":"released"}'' @ [CHR 0x0A])
             | SWBT_IPC_RESPONSE_STATE_ACCEPTED \<Rightarrow>
                 if resp_has_request_id tr
                 then write (''{"v":1,"type":"state_accepted","request_id":"'' @ resp_request_id tr
                   @ ''","seq":'' @ print_u (resp_sequence tr) @ ''}'' @ [CHR 0x0A])
                 else (SWBT_IPC_JSON_OK, Some [])
             | SWBT_IPC_RESPONSE_STATUS \<Rightarrow>
                 if resp_has_request_id tr
                 then write (''{"v":1,"type":"status","request_id":"'' @ resp_request_id tr @ ''",''
                   @ status_text build (resp_status tr))
                 else write (''{"v":1,"type":"status",'' @ status_text build (resp_status tr))
             | SWBT_IPC_RESPONSE_ERROR \<Rightarrow>
                 map_prod id Some (swbt_ipc_write_error response_size (resp_has_request_id tr) (resp_request_id tr)
                   (swbt_ipc_json_error_code_text (resp_error_code tr)) (resp_error_message tr)))
      | _ \<Rightarrow> (SWBT_IPC_JSON_ERROR_INVALID_ARGUMENT, response))\<close>

section \<open>Owner ids\<close>

lemma nibble_of: "unat (drop_bit m (w :: u32) AND 0x0F) = (unat w div 2 ^ m) mod 16"
proof -
  have "drop_bit m w AND 0x0F = take_bit 4 (drop_bit m w)"
    by (simp add: take_bit_eq_mask mask_words)
  then have "unat (drop_bit m w AND 0x0F) = take_bit 4 (drop_bit m (unat w))"
    by (simp only: unsigned_take_bit_eq unsigned_drop_bit_eq)
      (simp add: take_bit_nat_eq_self less_le_trans [OF unsigned_less])
  then show ?thesis
    by (simp only: take_bit_eq_mod drop_bit_eq_div) simp
qed

lemma format_owner_id_nibbles: "swbt_ipc_format_owner_id cid = map hex_lower (nibbles 8 (unat cid))"
proof -
  have "(2 :: nat) ^ ((7 - i) * 4) = 16 ^ (8 - 1 - i)" for i
    by (simp add: power_mult mult.commute [of _ 4])
  then show ?thesis
    by (simp add: swbt_ipc_format_owner_id_def nibbles_def SWBT_IPC_OWNER_ID_HEX_SIZE_def nibble_of)
qed

lemma length_format_owner_id [simp]: "length (swbt_ipc_format_owner_id cid) = 8"
  by (simp add: format_owner_id_nibbles)

lemma format_owner_id_chars:
  "c \<in> set (swbt_ipc_format_owner_id cid) \<Longrightarrow> 48 \<le> ccode c \<and> ccode c \<le> 57 \<or> 97 \<le> ccode c \<and> ccode c \<le> 102"
  using nibbles_less hex_lower_range by (auto simp: format_owner_id_nibbles)

lemma parse_format_owner_id:
  assumes "32 \<le> ulong_bits build"
  shows "swbt_ipc_parse_owner_id build (Some (swbt_ipc_format_owner_id cid)) = Some cid"
proof -
  have n: "unat cid < 2 ^ 32"
    using unsigned_less [of cid, where 'a = nat] by simp
  also have "(2 :: nat) ^ 32 \<le> 2 ^ ulong_bits build"
    using assms by (rule power_increasing) simp
  finally have "unat cid < 2 ^ ulong_bits build" .
  moreover have "unat cid < 16 ^ 8"
    using n by simp
  ultimately have "strtou (ulong_bits build) 16 (map hex_lower (nibbles 8 (unat cid))) = (unat cid, [], False)"
    by (intro strtou_nibbles) simp_all
  then show ?thesis
    using n by (simp add: swbt_ipc_parse_owner_id_def format_owner_id_nibbles SWBT_IPC_OWNER_ID_HEX_SIZE_def)
qed

section \<open>Commands as JSON objects\<close>

text \<open>
  What a command line means in terms of the members of its JSON object. The
  request id, the type and the owner id are strings of fewer than 96 characters
  without control characters; numbers are in the range of their field.
\<close>

definition json_range :: "int \<Rightarrow> int \<Rightarrow> json option \<Rightarrow> int option" where
  "json_range lo hi v = (case v of Some (JInt i) \<Rightarrow> if lo \<le> i \<and> i \<le> hi then Some i else None | _ \<Rightarrow> None)"

definition json_state :: "(string \<times> json) list \<Rightarrow> swbt_state_t option" where
  "json_state ms = do {
     bs \<leftarrow> json_range 0 0xFFFFFFFF (map_of ms ''buttons'');
     if (of_int bs :: u32) AND NOT SWBT_DEFINED_BUTTON_MASK \<noteq> 0 then None else do {
       a \<leftarrow> json_range 0 4095 (map_of ms ''lx'');
       b \<leftarrow> json_range 0 4095 (map_of ms ''ly'');
       c \<leftarrow> json_range 0 4095 (map_of ms ''rx'');
       d \<leftarrow> json_range 0 4095 (map_of ms ''ry'');
       e \<leftarrow> json_range (- 32768) 32767 (map_of ms ''accel_x'');
       f \<leftarrow> json_range (- 32768) 32767 (map_of ms ''accel_y'');
       g \<leftarrow> json_range (- 32768) 32767 (map_of ms ''accel_z'');
       h \<leftarrow> json_range (- 32768) 32767 (map_of ms ''gyro_x'');
       i \<leftarrow> json_range (- 32768) 32767 (map_of ms ''gyro_y'');
       j \<leftarrow> json_range (- 32768) 32767 (map_of ms ''gyro_z'');
       Some \<lparr>buttons = of_int bs, lx = of_int a, ly = of_int b, rx = of_int c, ry = of_int d,
         accel_x = of_int e, accel_y = of_int f, accel_z = of_int g,
         gyro_x = of_int h, gyro_y = of_int i, gyro_z = of_int j\<rparr>
     }
   }"

definition json_sequence :: "(string \<times> json) list \<Rightarrow> u64 option" where
  "json_sequence ms = (if map_of ms ''seq'' = None then Some 0
     else map_option of_int (json_range 0 (2 ^ 63 - 1) (map_of ms ''seq'')))"

definition json_set_state :: "(string \<times> json) list \<Rightarrow> (swbt_state_t \<times> u64) option" where
  "json_set_state ms = (case map_of ms ''state'' of
       Some (JObject sm) \<Rightarrow> do { st \<leftarrow> json_state sm; n \<leftarrow> json_sequence ms; Some (st, n) }
     | _ \<Rightarrow> None)"

definition json_owner :: "ipc_build \<Rightarrow> (string \<times> json) list \<Rightarrow> u32 option" where
  "json_owner build ms = (case json_string_of SWBT_IPC_JSON_STRING_MAX (map_of ms ''owner_id'') of
       Found s \<Rightarrow> swbt_ipc_parse_owner_id build (Some s) | _ \<Rightarrow> None)"

text \<open>The command and the error response that a decoded object leaves in the two out parameters.\<close>

definition json_decode :: "ipc_build \<Rightarrow> (string \<times> json) list \<Rightarrow> swbt_ipc_command_t \<times> swbt_ipc_response_t" where
  "json_decode build ms =
     (let refuse = (\<lambda>(has_id, id) code message. (swbt_ipc_json_init_command,
            swbt_ipc_json_set_error swbt_ipc_json_init_response has_id id code message));
          accept = (\<lambda>(has_id, id) type owner (st, n). (swbt_ipc_json_init_command
            \<lparr>cmd_type := type, cmd_has_request_id := has_id, cmd_request_id := id,
             cmd_has_owner_id := owner \<noteq> None, cmd_owner_client_id := (case owner of None \<Rightarrow> 0 | Some cid \<Rightarrow> cid),
             cmd_state := st, cmd_sequence := n\<rparr>, swbt_ipc_json_init_response));
          request_id = (case json_string_of SWBT_IPC_JSON_STRING_MAX (map_of ms ''request_id'') of
            Found s \<Rightarrow> (True, s) | _ \<Rightarrow> (False, []));
          nothing = (swbt_state_neutral, 0)
      in if json_string_of SWBT_IPC_JSON_STRING_MAX (map_of ms ''request_id'') = Malformed
         then refuse (False, []) SWBT_IPC_ERROR_CODE_INVALID_JSON ''request_id is invalid''
         else if map_of ms ''v'' \<noteq> Some (JInt 1)
         then refuse request_id SWBT_IPC_ERROR_CODE_INVALID_VERSION ''unsupported protocol version''
         else case json_string_of SWBT_IPC_JSON_STRING_MAX (map_of ms ''type'') of
           Malformed \<Rightarrow> refuse request_id SWBT_IPC_ERROR_CODE_INVALID_JSON ''type is invalid''
         | Missing \<Rightarrow> refuse request_id SWBT_IPC_ERROR_CODE_UNSUPPORTED_COMMAND ''missing command type''
         | Found type \<Rightarrow>
             if type = ''hello'' then accept request_id SWBT_IPC_COMMAND_HELLO None nothing
             else if type = ''acquire'' then accept request_id SWBT_IPC_COMMAND_ACQUIRE None nothing
             else if type = ''release'' then accept request_id SWBT_IPC_COMMAND_RELEASE (json_owner build ms) nothing
             else if type = ''set_state'' then
               (case json_set_state ms of
                  None \<Rightarrow> refuse request_id SWBT_IPC_ERROR_CODE_INVALID_STATE ''state field is invalid''
                | Some update \<Rightarrow> accept request_id SWBT_IPC_COMMAND_SET_STATE (json_owner build ms) update)
             else if type = ''get_status'' then accept request_id SWBT_IPC_COMMAND_GET_STATUS None nothing
             else (fst (accept request_id SWBT_IPC_COMMAND_NONE None nothing),
                   snd (refuse request_id SWBT_IPC_ERROR_CODE_UNSUPPORTED_COMMAND ''unsupported command type'')))"

section \<open>The decoder on JSON objects\<close>

lemma json_text_brace:
  assumes "json_text v t"
  shows "at_cursor (t @ r) = CHR ''{'' \<longleftrightarrow> (\<exists>ms. v = JObject ms)"
  using assms
proof (cases rule: json_text.cases)
  case (json_int i)
  obtain c cs where "decimal (nat i) = c # cs"
    by (cases "decimal (nat i)") auto
  with decimal_head [OF this] json_int show ?thesis
    by (auto simp: int_text_def ccode_def)
qed (auto simp: quoted_def)

lemma required_i64_object:
  assumes "json_text (JObject ms) t" "blank w"
  shows "swbt_ipc_parse_required_i64 (w @ t @ r) key =
    json_range (- 9223372036854775808) 9223372036854775807 (map_of ms key)"
  by (simp add: swbt_ipc_parse_required_i64_def get_i64_object [OF assms] json_range_def
      split: option.splits json.splits)

lemma json_range_narrow:
  assumes "- 9223372036854775808 \<le> lo" "hi \<le> 9223372036854775807"
  shows "Option.bind (json_range (- 9223372036854775808) 9223372036854775807 v)
      (\<lambda>i. if i < lo \<or> hi < i then None else f i) = Option.bind (json_range lo hi v) f"
    and "Option.bind (json_range (- 9223372036854775808) 9223372036854775807 v)
      (\<lambda>i. if i < lo \<or> hi < i \<or> P i then None else f i) =
      Option.bind (json_range lo hi v) (\<lambda>i. if P i then None else f i)"
  using assms by (auto simp: json_range_def split: option.splits json.splits)

lemma field_object:
  assumes "json_text (JObject ms) t" "blank w"
  shows "swbt_ipc_parse_i16_field (w @ t @ r) key = map_option of_int (json_range (- 32768) 32767 (map_of ms key))"
    and "swbt_ipc_parse_stick_field (w @ t @ r) key = map_option of_int (json_range 0 4095 (map_of ms key))"
  by (simp_all add: swbt_ipc_parse_i16_field_def swbt_ipc_parse_stick_field_def required_i64_object [OF assms]
      json_range_narrow map_conv_bind_option o_def)

lemma sequence_object:
  assumes "json_text (JObject ms) t" "blank w"
  shows "Option.bind (case swbt_json_get_i64 (w @ t @ r) ''seq'' of Malformed \<Rightarrow> None | Missing \<Rightarrow> Some 0 | Found n \<Rightarrow> Some n)
      (\<lambda>seq. if seq < 0 then None else Some (x, of_int seq)) =
    Option.bind (json_sequence ms) (\<lambda>n. Some (x, n))"
  by (auto simp: get_i64_object [OF assms] json_sequence_def json_range_def split: option.splits json.splits)

lemma parse_state_object:
  assumes "json_text (JObject ms) t" "blank w"
  shows "swbt_ipc_parse_state (w @ t @ r) = json_set_state ms"
proof (cases "map_of ms ''state''")
  case None
  then show ?thesis
    using find_key_value_object [OF assms, where key = "''state''" and r = r]
    by (simp add: swbt_ipc_parse_state_def json_set_state_def)
next
  case (Some v)
  then obtain tv r' where tv: "swbt_json_find_key_value (w @ t @ r) ''state'' = Some (tv @ r')" "json_text v tv" "value_end r'"
    using find_key_value_object [OF assms, where key = "''state''" and r = r] by auto
  show ?thesis
  proof (cases "\<exists>sm. v = JObject sm")
    case True
    then obtain sm where sm: "v = JObject sm" by blast
    note t = tv(2) [unfolded sm]
    note fields = required_i64_object [OF t blank_Nil, simplified] field_object [OF t blank_Nil, simplified]
    show ?thesis
      using json_text_brace [OF t, of r'] Some sm
      by (simp add: swbt_ipc_parse_state_def json_set_state_def tv(1) fields sequence_object [OF assms]
        json_range_narrow bind_map_option o_def swbt_state_neutral_def json_state_def bind_assoc if_distrib [of "\<lambda>x. Option.bind x _"]
        cong del: if_weak_cong)
  next
    case False
    then show ?thesis
      using json_text_brace [OF tv(2), of r'] Some
      by (auto simp: swbt_ipc_parse_state_def json_set_state_def tv(1) split: json.splits)
  qed
qed

lemma json_i64_one: "json_i64_of v = Found 1 \<longleftrightarrow> v = Some (JInt 1)"
  by (cases v rule: json_i64_of.cases) auto

lemma json_string_short: "json_string_of n v = Found s \<Longrightarrow> length s < n \<and> (\<forall>c \<in> set s. ccode c \<ge> 0x20)"
  by (cases "(n, v)" rule: json_string_of.cases) (auto simp: string_ok_def split: if_splits)

lemma copy_text_short:
  "length s < SWBT_IPC_JSON_STRING_MAX \<Longrightarrow> swbt_ipc_json_copy_text out SWBT_IPC_JSON_STRING_MAX s = s"
  by (simp add: swbt_ipc_json_copy_text_def SWBT_IPC_JSON_STRING_MAX_def)

lemma decode_owner_object:
  assumes "json_text (JObject ms) t" "blank w" "cmd_has_owner_id c = False" "cmd_owner_client_id c = 0"
  shows "decode_owner_id build (w @ t @ r) c = c\<lparr>cmd_has_owner_id := json_owner build ms \<noteq> None,
    cmd_owner_client_id := (case json_owner build ms of None \<Rightarrow> 0 | Some cid \<Rightarrow> cid)\<rparr>"
  using assms(3,4)
  by (cases c) (auto simp: decode_owner_id_def json_owner_def get_string_object [OF assms(1,2)] SWBT_IPC_JSON_STRING_MAX_def
      split: option.splits json_get.splits)

lemma decode_object:
  assumes "json_text (JObject ms) t" "blank w" "blank w'" "length t \<le> SWBT_IPC_JSON_LINE_MAX"
  shows "swbt_ipc_json_decode_command build (Some (w @ t @ w')) (Some c) (Some e) =
    (SWBT_IPC_JSON_OK, Some (fst (json_decode build ms)), Some (snd (json_decode build ms)))"
proof -
  have pos: "0 < SWBT_IPC_JSON_STRING_MAX"
    by (simp add: SWBT_IPC_JSON_STRING_MAX_def)
  note strings = get_string_object [OF assms(1,2) pos] get_i64_object [OF assms(1,2)] json_i64_one
    parse_state_object [OF assms(1,2)]
  note init = swbt_ipc_json_init_command_def swbt_ipc_json_copy_request_id_def
  have owner: "decode_owner_id build (w @ t @ w') c = c\<lparr>cmd_has_owner_id := json_owner build ms \<noteq> None,
      cmd_owner_client_id := (case json_owner build ms of None \<Rightarrow> 0 | Some cid \<Rightarrow> cid)\<rparr>"
    if "\<not> cmd_has_owner_id c" "cmd_owner_client_id c = 0" for c
    using decode_owner_object [OF assms(1,2)] that by simp
  note defs = swbt_ipc_json_decode_command_def complete_object [OF assms] swbt_ipc_parse_request_id_def
    strings json_decode_def init Let_def
  show ?thesis
  proof (cases "json_string_of SWBT_IPC_JSON_STRING_MAX (map_of ms ''request_id'')")
    case Malformed
    then show ?thesis
      by (simp add: defs)
  next
    case Missing
    then show ?thesis
      by (cases "json_string_of SWBT_IPC_JSON_STRING_MAX (map_of ms ''type'')")
        (simp_all add: defs owner split: option.split)
  next
    case (Found s)
    note s = copy_text_short [OF conjunct1 [OF json_string_short [OF Found]]]
    show ?thesis
      using Found by (cases "json_string_of SWBT_IPC_JSON_STRING_MAX (map_of ms ''type'')")
        (simp_all add: defs owner s split: option.split)
  qed
qed

section \<open>What the decoder lets through\<close>

abbreviation raw_text :: "string \<Rightarrow> bool" where
  "raw_text s \<equiv> swbt_ipc_json_text_can_be_written_raw (Some s)"

definition state_in_range :: "swbt_state_t \<Rightarrow> bool" where
  "state_in_range st \<longleftrightarrow> buttons st AND NOT SWBT_DEFINED_BUTTON_MASK = 0
     \<and> lx st \<le> 4095 \<and> ly st \<le> 4095 \<and> rx st \<le> 4095 \<and> ry st \<le> 4095"

definition command_wf :: "swbt_ipc_command_t \<Rightarrow> bool" where
  "command_wf c \<longleftrightarrow> raw_text (cmd_request_id c) \<and> length (cmd_request_id c) < SWBT_IPC_JSON_STRING_MAX
     \<and> state_in_range (cmd_state c) \<and> cmd_sequence c < 2 ^ 63"

definition response_wf :: "swbt_ipc_response_t \<Rightarrow> bool" where
  "response_wf r \<longleftrightarrow> raw_text (resp_request_id r) \<and> length (resp_request_id r) < SWBT_IPC_JSON_STRING_MAX
     \<and> raw_text (resp_error_message r) \<and> length (resp_error_message r) < SWBT_IPC_JSON_STRING_MAX
     \<and> length (rumble_raw (rs_rumble (resp_status r))) = SWBT_SWITCH_RUMBLE_DATA_SIZE"

definition decoded_ok :: "swbt_ipc_command_t \<Rightarrow> swbt_ipc_response_t \<Rightarrow> bool" where
  "decoded_ok c e \<longleftrightarrow> command_wf c \<and> response_wf e \<and>
     (if resp_type e = SWBT_IPC_RESPONSE_NONE then cmd_type c \<noteq> SWBT_IPC_COMMAND_NONE
      else resp_type e = SWBT_IPC_RESPONSE_ERROR)"

lemma read_string_loop_raw:
  "read_string_loop v out n = Some (v', out') \<Longrightarrow> length out < n \<Longrightarrow> raw_text out \<Longrightarrow> length out' < n \<and> raw_text out'"
  by (induction v arbitrary: out) (auto simp: swbt_ipc_json_text_can_be_written_raw_def split: if_splits)

lemma get_string_raw:
  "swbt_json_get_string line key n = Found s \<Longrightarrow> 0 < n \<Longrightarrow> length s < n \<and> raw_text s"
  using read_string_loop_raw [of _ "[]" n _ s]
  by (auto simp: swbt_json_get_string_def swbt_json_read_string_def swbt_ipc_json_text_can_be_written_raw_def
      split: option.splits if_splits)

lemma get_i64_range: "swbt_json_get_i64 line key = Found v \<Longrightarrow> - (2 ^ 63) \<le> v \<and> v \<le> 2 ^ 63 - 1"
  using strtoll_range
  by (auto simp: swbt_json_get_i64_def swbt_json_read_i64_def Let_def split: option.splits prod.splits if_splits)

lemma stick_field_range: "swbt_ipc_parse_stick_field line key = Some v \<Longrightarrow> v \<le> 4095"
  by (auto simp: swbt_ipc_parse_stick_field_def word_le_def uint_word_of_int split: Option.bind_splits if_splits)

lemma of_int_sequence: "0 \<le> n \<Longrightarrow> n \<le> 2 ^ 63 - 1 \<Longrightarrow> (of_int n :: u64) < 2 ^ 63"
  by (simp add: word_less_def uint_word_of_int)

lemma parse_state_range:
  assumes "swbt_ipc_parse_state line = Some (st, n)"
  shows "state_in_range st \<and> n < 2 ^ 63"
  using assms get_i64_range [of line "''seq''"] stick_field_range of_int_sequence
  by (auto simp: swbt_ipc_parse_state_def state_in_range_def split: Option.bind_splits if_splits json_get.splits)

lemma raw_Nil [simp]: "raw_text []"
  by (simp add: swbt_ipc_json_text_can_be_written_raw_def)

lemma neutral_in_range: "state_in_range swbt_state_neutral"
  by (simp add: state_in_range_def swbt_state_neutral_def)

lemma init_command_wf: "command_wf swbt_ipc_json_init_command"
  by (simp add: command_wf_def swbt_ipc_json_init_command_def neutral_in_range SWBT_IPC_JSON_STRING_MAX_def)

lemma init_response_wf: "response_wf swbt_ipc_json_init_response"
  by (simp add: response_wf_def swbt_ipc_json_init_response_def SWBT_IPC_JSON_STRING_MAX_def zero_domain_def
      SWBT_SWITCH_RUMBLE_DATA_SIZE_def)

lemma init_response_none [simp]: "resp_type swbt_ipc_json_init_response = SWBT_IPC_RESPONSE_NONE"
  by (simp add: swbt_ipc_json_init_response_def)

lemma set_error_wf:
  "response_wf r \<Longrightarrow> raw_text rid \<Longrightarrow> length rid < SWBT_IPC_JSON_STRING_MAX \<Longrightarrow>
   raw_text message \<Longrightarrow> length message < SWBT_IPC_JSON_STRING_MAX \<Longrightarrow>
   response_wf (swbt_ipc_json_set_error r has_id rid code message)
   \<and> resp_type (swbt_ipc_json_set_error r has_id rid code message) = SWBT_IPC_RESPONSE_ERROR"
  by (simp add: swbt_ipc_json_set_error_def response_wf_def copy_text_short)

lemma request_id_wf:
  "swbt_ipc_parse_request_id line = Some (has_id, rid) \<Longrightarrow> raw_text rid \<and> length rid < SWBT_IPC_JSON_STRING_MAX"
  using get_string_raw [of line "''request_id''" SWBT_IPC_JSON_STRING_MAX]
  by (auto simp: swbt_ipc_parse_request_id_def SWBT_IPC_JSON_STRING_MAX_def split: json_get.splits)

lemma copy_request_id_wf:
  "command_wf c \<Longrightarrow> raw_text rid \<Longrightarrow> length rid < SWBT_IPC_JSON_STRING_MAX \<Longrightarrow>
   command_wf (swbt_ipc_json_copy_request_id c has_id rid)"
  by (simp add: swbt_ipc_json_copy_request_id_def command_wf_def copy_text_short)

lemma decode_owner_wf:
  "command_wf (decode_owner_id build line c) = command_wf c" "cmd_type (decode_owner_id build line c) = cmd_type c"
  "command_wf ((decode_owner_id build line c)\<lparr>cmd_state := st, cmd_sequence := n\<rparr>) =
     command_wf (c\<lparr>cmd_state := st, cmd_sequence := n\<rparr>)"
  by (auto simp: decode_owner_id_def command_wf_def split: json_get.splits option.splits)

lemma command_wf_type [simp]: "command_wf (c\<lparr>cmd_type := ty\<rparr>) = command_wf c"
  by (simp add: command_wf_def)

lemma command_wf_update:
  "command_wf c \<Longrightarrow> state_in_range st \<Longrightarrow> n < 2 ^ 63 \<Longrightarrow> command_wf (c\<lparr>cmd_state := st, cmd_sequence := n\<rparr>)"
  by (simp add: command_wf_def)

lemma messages_raw:
  "raw_text ''message is not a complete JSON object''" "raw_text ''request_id is invalid''"
  "raw_text ''unsupported protocol version''" "raw_text ''type is invalid''" "raw_text ''missing command type''"
  "raw_text ''state field is invalid''" "raw_text ''unsupported command type''"
  by (simp_all add: swbt_ipc_json_text_can_be_written_raw_def ccode_def)

lemma decoded_error:
  "command_wf c \<Longrightarrow> raw_text rid \<and> length rid < SWBT_IPC_JSON_STRING_MAX \<Longrightarrow>
   raw_text message \<and> length message < SWBT_IPC_JSON_STRING_MAX \<Longrightarrow>
   decoded_ok c (swbt_ipc_json_set_error swbt_ipc_json_init_response has_id rid code message)"
  using set_error_wf [OF init_response_wf, of rid message has_id code] by (simp add: decoded_ok_def)

lemma decoded_command:
  "command_wf c \<Longrightarrow> cmd_type c \<noteq> SWBT_IPC_COMMAND_NONE \<Longrightarrow> decoded_ok c swbt_ipc_json_init_response"
  by (simp add: decoded_ok_def init_response_wf)

lemma decode_wf:
  "\<exists>cmd err. swbt_ipc_json_decode_command build (Some line) (Some c) (Some e) =
     (SWBT_IPC_JSON_OK, Some cmd, Some err) \<and> decoded_ok cmd err"
proof (cases "swbt_json_is_complete_object line \<and> swbt_ipc_parse_request_id line \<noteq> None")
  case False
  then show ?thesis
    by (cases "swbt_json_is_complete_object line"; cases "swbt_ipc_parse_request_id line")
      (auto simp: swbt_ipc_json_decode_command_def init_command_wf messages_raw SWBT_IPC_JSON_STRING_MAX_def
        intro!: decoded_error)
next
  case True
  then obtain has_id rid where p: "swbt_json_is_complete_object line" "swbt_ipc_parse_request_id line = Some (has_id, rid)"
    by auto
  note rid = request_id_wf [OF p(2)]
  define cmd where "cmd = swbt_ipc_json_copy_request_id swbt_ipc_json_init_command has_id rid"
  have cmd: "command_wf cmd"
    unfolding cmd_def using rid init_command_wf copy_request_id_wf by blast
  have error: "decoded_ok c (swbt_ipc_json_set_error swbt_ipc_json_init_response has_id rid code message)"
    if "command_wf c" "raw_text message" "length message < 96" for c code message
    using decoded_error [OF that(1) rid] that(2,3) by (simp add: SWBT_IPC_JSON_STRING_MAX_def)
  have update: "command_wf (c\<lparr>cmd_state := st, cmd_sequence := n\<rparr>)"
    if "swbt_ipc_parse_state line = Some (st, n)" "command_wf c" for st n c
    using parse_state_range [OF that(1)] that(2) command_wf_update by blast
  note facts = swbt_ipc_json_decode_command_def p Let_def cmd_def [symmetric] error messages_raw init_command_wf cmd
    decoded_command decode_owner_wf
  show ?thesis
  proof (cases "swbt_json_get_string line ''type'' SWBT_IPC_JSON_STRING_MAX")
    case (Found type)
    then show ?thesis
      by (cases "swbt_ipc_parse_state line") (simp_all add: facts update split: prod.split)
  qed (simp_all add: facts)
qed

section \<open>Responses as JSON objects\<close>

definition json_state_obj :: "swbt_state_t \<Rightarrow> json" where
  "json_state_obj s = JObject
     [(''buttons'', JInt (uint (buttons s))), (''lx'', JInt (uint (lx s))), (''ly'', JInt (uint (ly s))),
      (''rx'', JInt (uint (rx s))), (''ry'', JInt (uint (ry s))),
      (''accel_x'', JInt (sint (accel_x s))), (''accel_y'', JInt (sint (accel_y s))), (''accel_z'', JInt (sint (accel_z s))),
      (''gyro_x'', JInt (sint (gyro_x s))), (''gyro_y'', JInt (sint (gyro_y s))), (''gyro_z'', JInt (sint (gyro_z s)))]"

definition json_metrics_obj :: "swbt_metrics_snapshot_t \<Rightarrow> json" where
  "json_metrics_obj m = JObject
     [(''hardware_status'', JString (swbt_ipc_json_hardware_status_text (hardware_status m))),
      (''report_ticks_total'', JInt (uint (report_ticks m))),
      (''reports_sent_total'', JInt (uint (report_send_ok m))),
      (''send_failures_total'', JInt (uint (report_send_failed m))),
      (''report_interval_average_us'', JInt (uint (report_interval_average_us m))),
      (''report_interval_max_us'', JInt (uint (report_interval_max_us m))),
      (''ipc_state_accepted_total'', JInt (uint (ipc_state_accepted m))),
      (''ipc_state_rejected_total'', JInt (uint (ipc_state_rejected m))),
      (''ipc_state_coalesced_total'', JInt (uint (ipc_state_coalesced m))),
      (''actual_report_rate_hz'', JInt (uint (actual_report_rate_hz m))),
      (''jitter_max_us'', JInt (uint (jitter_max_us m)))]"

definition json_daemon_obj :: "ipc_build \<Rightarrow> swbt_domain_daemon_status_t \<Rightarrow> json" where
  "json_daemon_obj build d = JObject
     [(''protocol_version'', JInt 1), (''daemon_version'', JString (version_string build)),
      (''backend'', JString (swbt_ipc_json_daemon_backend_text (backend d))),
      (''lifecycle_state'', JString (swbt_ipc_json_daemon_lifecycle_text (lifecycle_state d))),
      (''hardware_approval'', JString (swbt_ipc_json_hardware_approval_text (hardware_approval d)))]"

definition json_hardware_obj :: "swbt_domain_hardware_status_t \<Rightarrow> json" where
  "json_hardware_obj h = JObject
     [(''adapter_state'', JString (swbt_ipc_json_hardware_channel_text (adapter_state h))),
      (''switch_connection_state'', JString (swbt_ipc_json_hardware_channel_text (switch_connection_state h))),
      (''hid_channel_state'', JString (swbt_ipc_json_hardware_channel_text (hid_channel_state h)))]"

definition json_owner_obj :: "swbt_ipc_response_status_t \<Rightarrow> json" where
  "json_owner_obj st = JObject
     [(''present'', JBool (rs_has_owner st)),
      (''owner_id'', JString (swbt_ipc_format_owner_id (if rs_has_owner st then rs_owner_client_id st else 0))),
      (''last_seq'', JInt (uint (rs_last_sequence st)))]"

definition json_rumble_obj :: "swbt_switch_rumble_state_t \<Rightarrow> json" where
  "json_rumble_obj r = JObject
     [(''updated'', JBool (rumble_updated r)), (''last_update_ms'', JInt (uint (rumble_updated_at_ms r))),
      (''raw'', JString (swbt_ipc_format_rumble_raw (rumble_raw r)))]"

definition json_status_members :: "ipc_build \<Rightarrow> swbt_ipc_response_status_t \<Rightarrow> (string \<times> json) list" where
  "json_status_members build st =
     [(''daemon'', json_daemon_obj build (rs_daemon st)), (''metrics'', json_metrics_obj (rs_metrics st)),
      (''hardware'', json_hardware_obj (rs_hardware st)), (''owner'', json_owner_obj st),
      (''state'', json_state_obj (rs_state st)), (''rumble'', json_rumble_obj (rs_rumble st))]"

definition json_head :: "swbt_ipc_response_t \<Rightarrow> string \<Rightarrow> (string \<times> json) list" where
  "json_head r type = [(''v'', JInt 1), (''type'', JString type)]
     @ (if resp_has_request_id r then [(''request_id'', JString (resp_request_id r))] else [])"

text \<open>The members of the response line; None when nothing is sent.\<close>

definition json_response :: "ipc_build \<Rightarrow> swbt_ipc_response_t \<Rightarrow> (string \<times> json) list option" where
  "json_response build r = (case resp_type r of
       SWBT_IPC_RESPONSE_NONE \<Rightarrow> None
     | SWBT_IPC_RESPONSE_HELLO_OK \<Rightarrow>
         Some (json_head r ''hello_ok'' @ [(''client_id'', JString (swbt_ipc_format_owner_id (resp_client_id r)))])
     | SWBT_IPC_RESPONSE_ACQUIRED \<Rightarrow>
         Some (json_head r ''acquired'' @ [(''owner_id'', JString (swbt_ipc_format_owner_id (resp_owner_client_id r)))])
     | SWBT_IPC_RESPONSE_RELEASED \<Rightarrow> Some (json_head r ''released'')
     | SWBT_IPC_RESPONSE_STATE_ACCEPTED \<Rightarrow>
         if resp_has_request_id r
         then Some (json_head r ''state_accepted'' @ [(''seq'', JInt (uint (resp_sequence r)))]) else None
     | SWBT_IPC_RESPONSE_STATUS \<Rightarrow> Some (json_head r ''status'' @ json_status_members build (resp_status r))
     | SWBT_IPC_RESPONSE_ERROR \<Rightarrow>
         Some (json_head r ''error''
           @ [(''code'', JString (swbt_ipc_json_error_code_text (resp_error_code r))),
              (''message'', JString (resp_error_message r))]))"

definition response_line :: "(string \<times> json) list option \<Rightarrow> string" where
  "response_line j = (case j of None \<Rightarrow> [] | Some ms \<Rightarrow> render (JObject ms) @ [CHR 0x0A])"

lemma digit_one [simp]: "char_of (49 :: nat) = CHR ''1''"
  using char_of_ccode [of "CHR ''1''"] by (simp add: ccode_def)

lemma decimal_one: "decimal (Suc 0) = ''1''"
  by (subst decimal.simps) simp

lemma int_text_print: "int_text (uint w) = print_u w" "int_text (sint v) = print_d v" "int_text 1 = ''1''" "decimal (Suc 0) = ''1''"
  by (simp_all add: int_text_def print_u_def print_d_def decimal_one)

lemma daemon_text_render: \<open>daemon_text build d = ''"daemon":'' @ render (json_daemon_obj build d)\<close>
  by (simp add: daemon_text_def json_daemon_obj_def int_text_print quoted_def swbt_get_version_string_def)

lemma metrics_text_render: \<open>metrics_text m = ''"metrics":'' @ render (json_metrics_obj m)\<close>
  by (simp add: metrics_text_def json_metrics_obj_def int_text_print quoted_def)

lemma hardware_text_render: \<open>hardware_text h = ''"hardware":'' @ render (json_hardware_obj h)\<close>
  by (simp add: hardware_text_def json_hardware_obj_def quoted_def)

lemma owner_text_render: \<open>owner_text st = ''"owner":'' @ render (json_owner_obj st)\<close>
  by (simp add: owner_text_def json_owner_obj_def int_text_print quoted_def)

lemma state_text_render: \<open>state_text st = ''"state":'' @ render (json_state_obj st)\<close>
  by (simp add: state_text_def json_state_obj_def int_text_print quoted_def)

lemma rumble_text_render: \<open>rumble_text r = ''"rumble":'' @ render (json_rumble_obj r)\<close>
  by (simp add: rumble_text_def json_rumble_obj_def int_text_print quoted_def)

lemma status_text_render:
  "status_text build st = render_members (json_status_members build st) @ ''}'' @ [CHR 0x0A]"
  by (simp add: status_text_def json_status_members_def daemon_text_render metrics_text_render hardware_text_render
      owner_text_render state_text_render rumble_text_render quoted_def)

lemma encode_write:
  assumes "response_wf r" "0 < n"
  shows "swbt_ipc_json_encode_response build (Some r) (Some buf) n =
    (if json_response build r = None then (SWBT_IPC_JSON_OK, Some [])
     else map_prod id Some (swbt_json_write n (response_line (json_response build r))))"
proof -
  have "raw_text (resp_request_id r)" "raw_text (resp_error_message r)" "n \<noteq> 0"
    using assms by (simp_all add: response_wf_def)
  then show ?thesis
    by (cases "resp_type r"; cases "resp_has_request_id r")
      (simp_all add: swbt_ipc_json_encode_response_def json_response_def response_line_def json_head_def
        swbt_ipc_write_error_def status_text_render int_text_print quoted_def json_status_members_def)
qed

text \<open>The longest texts of the parts.\<close>

lemma print_u_length:
  "length (print_u (a :: u16)) \<le> 5" "length (print_u (b :: u32)) \<le> 10" "length (print_u (c :: u64)) \<le> 20"
proof -
  have "unat a < 10 ^ 5" "unat b < 10 ^ 10" "unat c < 10 ^ 20"
    using unsigned_less [of a, where 'a = nat] unsigned_less [of b, where 'a = nat] unsigned_less [of c, where 'a = nat]
    by simp_all
  then show "length (print_u a) \<le> 5" "length (print_u b) \<le> 10" "length (print_u c) \<le> 20"
    unfolding print_u_def by (intro decimal_length; simp)+
qed

lemma print_d_length: "length (print_d v) \<le> 6"
proof -
  have "- 32768 \<le> sint v" "sint v < 32768"
    using sint_ge [of v] sint_lt [of v] by simp_all
  then have "nat (- sint v) < 10 ^ 5" "nat (sint v) < 10 ^ 5"
    by simp_all
  then have "length (decimal (nat (- sint v))) \<le> 5" "length (decimal (nat (sint v))) \<le> 5"
    by (intro decimal_length; simp)+
  then show ?thesis
    by (simp add: print_d_def int_text_def)
qed

lemma rumble_raw_length [simp]: "length (swbt_ipc_format_rumble_raw raw) = 16"
  by (simp add: swbt_ipc_format_rumble_raw_def SWBT_SWITCH_RUMBLE_DATA_SIZE_def upt_rec)

lemma enum_text_length:
  "length (swbt_ipc_json_error_code_text code) \<le> 19" "length (swbt_ipc_json_hardware_status_text hs) \<le> 11"
  "length (swbt_ipc_json_daemon_backend_text be) \<le> 11" "length (swbt_ipc_json_daemon_lifecycle_text lc) \<le> 11"
  "length (swbt_ipc_json_hardware_approval_text ha) \<le> 11" "length (swbt_ipc_json_hardware_channel_text hc) \<le> 11"
  by (cases code; simp; fail | cases hs; simp; fail | cases be; simp; fail | cases lc; simp; fail | cases ha; simp; fail
      | cases hc; simp; fail)+

lemma daemon_text_length: "length (daemon_text build d) \<le> 150 + length (version_string build)"
  using enum_text_length(3) [of "backend d"] enum_text_length(4) [of "lifecycle_state d"]
    enum_text_length(5) [of "hardware_approval d"]
  by (simp add: daemon_text_def swbt_get_version_string_def decimal_one)

lemma metrics_text_length: "length (metrics_text m) \<le> 520"
  using enum_text_length(2) [of "hardware_status m"] print_u_length(2) [of "actual_report_rate_hz m"]
    print_u_length(3) [of "report_ticks m"] print_u_length(3) [of "report_send_ok m"]
    print_u_length(3) [of "report_send_failed m"] print_u_length(3) [of "report_interval_average_us m"]
    print_u_length(3) [of "report_interval_max_us m"] print_u_length(3) [of "ipc_state_accepted m"]
    print_u_length(3) [of "ipc_state_rejected m"] print_u_length(3) [of "ipc_state_coalesced m"]
    print_u_length(3) [of "jitter_max_us m"]
  by (simp add: metrics_text_def)

lemma hardware_text_length: "length (hardware_text h) \<le> 130"
  using enum_text_length(6) [of "adapter_state h"] enum_text_length(6) [of "switch_connection_state h"]
    enum_text_length(6) [of "hid_channel_state h"]
  by (simp add: hardware_text_def)

lemma owner_text_length: "length (owner_text st) \<le> 90"
  using print_u_length(3) [of "rs_last_sequence st"] by (simp add: owner_text_def)

lemma state_text_length: "length (state_text st) \<le> 190"
  using print_u_length(2) [of "buttons st"] print_u_length(1) [of "lx st"] print_u_length(1) [of "ly st"]
    print_u_length(1) [of "rx st"] print_u_length(1) [of "ry st"] print_d_length [of "accel_x st"]
    print_d_length [of "accel_y st"] print_d_length [of "accel_z st"] print_d_length [of "gyro_x st"]
    print_d_length [of "gyro_y st"] print_d_length [of "gyro_z st"]
  by (simp add: state_text_def)

lemma rumble_text_length: "length (rumble_text r) \<le> 100"
  using print_u_length(3) [of "rumble_updated_at_ms r"] by (simp add: rumble_text_def)

lemma status_text_length: "length (status_text build st) \<le> 1190 + length (version_string build)"
  using daemon_text_length [of build "rs_daemon st"] metrics_text_length [of "rs_metrics st"]
    hardware_text_length [of "rs_hardware st"] owner_text_length [of st] state_text_length [of "rs_state st"]
    rumble_text_length [of "rs_rumble st"]
  by (simp add: status_text_def)

definition build_ok :: "ipc_build \<Rightarrow> bool" where
  "build_ok build \<longleftrightarrow> 32 \<le> ulong_bits build \<and> length (version_string build) \<le> 256 \<and> plain (version_string build)"

lemma status_members_render:
  "json_status_members build st \<noteq> []"
  "length (render_members (json_status_members build st)) \<le> 1190 + length (version_string build)"
  using status_text_length [of build st] by (simp_all add: json_status_members_def status_text_render)

lemma response_line_length:
  assumes "response_wf r" "build_ok build"
  shows "length (response_line (json_response build r)) < SWBT_IPC_JSON_RESPONSE_MAX"
proof -
  have "length (resp_request_id r) < 96" "length (resp_error_message r) < 96" "length (version_string build) \<le> 256"
    using assms by (simp_all add: response_wf_def build_ok_def SWBT_IPC_JSON_STRING_MAX_def)
  then show ?thesis
    using status_members_render [of build "resp_status r"] enum_text_length(1) [of "resp_error_code r"]
      print_u_length(3) [of "resp_sequence r"]
    by (cases "resp_type r"; cases "resp_has_request_id r")
      (simp_all add: json_response_def response_line_def json_head_def quoted_def int_text_print
        SWBT_IPC_JSON_RESPONSE_MAX_def)
qed

lemma raw_plain: "raw_text s \<Longrightarrow> plain s"
proof -
  assume raw: "raw_text s"
  have "key_char c \<and> c \<noteq> NUL" if "c \<in> set s" for c
  proof -
    have "c \<noteq> CHR 0x22" "c \<noteq> CHR 0x5C" "\<not> ccode c < 32"
      using raw that by (simp_all add: swbt_ipc_json_text_can_be_written_raw_def list_all_iff)
    then show ?thesis
      by (auto simp only: key_char_def ccode_literals)
  qed
  then show ?thesis
    by (simp add: plain_def)
qed

lemma hex_key_char:
  assumes "d < 16"
  shows "key_char (hex_lower d) \<and> hex_lower d \<noteq> NUL"
proof -
  have "ccode (CHR 0x22) = 34" "ccode (CHR 0x5C) = 92"
    by (simp_all add: ccode_def)
  then show ?thesis
    using hex_lower_range [OF assms] by (auto simp: key_char_def ccode_inject [symmetric])
qed

lemma hex_plain: "\<forall>d \<in> set ds. d < 16 \<Longrightarrow> plain (map hex_lower ds)"
  using hex_key_char by (simp add: plain_def)

lemma owner_id_plain: "plain (swbt_ipc_format_owner_id cid)"
  using nibbles_less hex_plain by (simp add: format_owner_id_nibbles)

lemma nibble_small_u8: "unat ((v :: u8) AND 0x0F) < 16"
proof -
  have "v AND 0x0F = take_bit 4 v"
    by (simp add: take_bit_eq_mask mask_words)
  then have "unat (v AND 0x0F) = take_bit 4 (unat v)"
    by (simp only: unsigned_take_bit_eq)
  then show ?thesis
    using take_bit_nat_less_exp [of 4 "unat v"] by simp
qed

lemma rumble_raw_plain: "plain (swbt_ipc_format_rumble_raw raw)"
proof -
  have "\<forall>d \<in> set (concat (map (\<lambda>i. [unat (drop_bit 4 (raw ! i) AND 0x0F), unat (raw ! i AND 0x0F)]) [0..<8])). d < 16"
    by (simp add: nibble_small_u8)
  from hex_plain [OF this] show ?thesis
    by (simp add: swbt_ipc_format_rumble_raw_def SWBT_SWITCH_RUMBLE_DATA_SIZE_def map_concat o_def)
qed

lemma enum_text_plain:
  "plain (swbt_ipc_json_error_code_text code)" "plain (swbt_ipc_json_hardware_status_text hs)"
  "plain (swbt_ipc_json_daemon_backend_text be)" "plain (swbt_ipc_json_daemon_lifecycle_text lc)"
  "plain (swbt_ipc_json_hardware_approval_text ha)" "plain (swbt_ipc_json_hardware_channel_text hc)"
  by (cases code; simp add: plain_def key_char_def NUL_def; fail | cases hs; simp add: plain_def key_char_def NUL_def; fail
      | cases be; simp add: plain_def key_char_def NUL_def; fail | cases lc; simp add: plain_def key_char_def NUL_def; fail
      | cases ha; simp add: plain_def key_char_def NUL_def; fail | cases hc; simp add: plain_def key_char_def NUL_def; fail)+

lemma literal_plain: "list_all (\<lambda>c. c \<noteq> CHR 0x22 \<and> c \<noteq> CHR 0x5C \<and> c \<noteq> CHR 0x00) s \<Longrightarrow> plain s"
  by (auto simp: plain_def key_char_def NUL_def list_all_iff)

lemma status_plain:
  "plain (version_string build) \<Longrightarrow> members_plain (json_status_members build st)"
  by (simp add: json_status_members_def json_daemon_obj_def json_metrics_obj_def json_hardware_obj_def json_owner_obj_def
      json_state_obj_def json_rumble_obj_def enum_text_plain owner_id_plain rumble_raw_plain literal_plain)

lemma members_plain_append: "members_plain (xs @ ys) \<longleftrightarrow> members_plain xs \<and> members_plain ys"
  by (induction xs) auto

lemma response_plain:
  assumes "response_wf r" "build_ok build" "json_response build r = Some ms"
  shows "json_text (JObject ms) (render (JObject ms))"
proof -
  have "plain (resp_request_id r)" "plain (resp_error_message r)" "plain (version_string build)"
    using assms(1,2) raw_plain by (simp_all add: response_wf_def build_ok_def)
  then have "members_plain ms"
    using assms(3) by (cases "resp_type r"; cases "resp_has_request_id r")
      (auto simp: json_response_def json_head_def members_plain_append status_plain enum_text_plain owner_id_plain
        literal_plain)
  then show ?thesis
    by (intro json_text_render(1)) simp
qed

text \<open>A response has no control character, in particular no newline, when none of its strings has one.\<close>

definition no_control :: "string \<Rightarrow> bool" where
  "no_control t \<longleftrightarrow> (\<forall>c \<in> set t. 0x20 \<le> ccode c)"

lemma no_control_simps [simp]:
  "no_control []" "no_control (c # t) \<longleftrightarrow> 0x20 \<le> ccode c \<and> no_control t" "no_control (t @ u) \<longleftrightarrow> no_control t \<and> no_control u"
  by (auto simp: no_control_def)

lemma no_control_texts:
  "raw_text t \<Longrightarrow> no_control t" "no_control (decimal n)" "no_control (int_text i)" "no_control (swbt_ipc_format_owner_id cid)"
proof -
  show d: "no_control (decimal n)" for n
    using decimal_digits by (fastforce simp: no_control_def)
  show "no_control (int_text i)"
    using d by (simp add: int_text_def ccode_def)
  show "no_control (swbt_ipc_format_owner_id cid)"
    using format_owner_id_chars by (fastforce simp: no_control_def)
qed (auto simp: swbt_ipc_json_text_can_be_written_raw_def no_control_def list_all_iff not_less)

lemma no_control_rumble: "no_control (swbt_ipc_format_rumble_raw raw)"
proof -
  have "32 \<le> ccode (hex_lower (unat (v AND 0x0F)))" for v :: u8
    using hex_lower_range [of "unat (v AND 0x0F)"] nibble_small_u8 [of v] by fastforce
  then show ?thesis
    by (auto simp: swbt_ipc_format_rumble_raw_def no_control_def)
qed

lemma no_control_enums:
  "no_control (swbt_ipc_json_error_code_text code)" "no_control (swbt_ipc_json_hardware_status_text hs)"
  "no_control (swbt_ipc_json_daemon_backend_text be)" "no_control (swbt_ipc_json_daemon_lifecycle_text lc)"
  "no_control (swbt_ipc_json_hardware_approval_text ha)" "no_control (swbt_ipc_json_hardware_channel_text hc)"
  by (cases code; simp add: ccode_def; fail | cases hs; simp add: ccode_def; fail | cases be; simp add: ccode_def; fail
      | cases lc; simp add: ccode_def; fail | cases ha; simp add: ccode_def; fail | cases hc; simp add: ccode_def; fail)+

lemma no_control_members: "no_control (render_members (xs @ ys)) \<longleftrightarrow> no_control (render_members xs) \<and> no_control (render_members ys)"
  by (induction xs) (auto simp: ccode_def split: if_splits)

lemma no_control_status: "no_control (version_string build) \<Longrightarrow> no_control (render_members (json_status_members build st))"
  by (simp add: json_status_members_def json_daemon_obj_def json_metrics_obj_def json_hardware_obj_def json_owner_obj_def
      json_state_obj_def json_rumble_obj_def quoted_def no_control_texts no_control_rumble no_control_enums ccode_def)

lemma response_no_control:
  assumes "response_wf r" "raw_text (version_string build)" "json_response build r = Some ms"
  shows "no_control (render (JObject ms))"
proof -
  have "no_control (resp_request_id r)" "no_control (resp_error_message r)" "no_control (version_string build)"
    using assms(1,2) no_control_texts(1) by (simp_all add: response_wf_def)
  then have "no_control (render_members ms)"
    using assms(3) by (cases "resp_type r"; cases "resp_has_request_id r")
      (auto simp: json_response_def json_head_def no_control_members no_control_status no_control_texts no_control_enums quoted_def ccode_def)
  then show ?thesis
    by (simp add: ccode_def)
qed

section \<open>Properties\<close>

text \<open>C10: The command decoder implements the protocol on JSON values. For every text of a JSON object in which strings have no
  escape sequences and numbers are integers without fraction, exponent and leading zeros, in any layout, with its members in any
  order and with unknown members of these kinds, nested objects and arrays included, among them, the decoded command or error response is the one
  that the members of the object determine. This covers every branch of the decoder behind the check that the line is
  one object of at most 8192 characters. A string with an escape sequence is outside of this statement: the code stops its search there,
  as a lemma at the end of this theory shows.\<close>

theorem ipc_decode_refines:
  assumes "json_text (JObject ms) t" "blank w" "blank w'" "length t \<le> SWBT_IPC_JSON_LINE_MAX"
  shows "swbt_ipc_json_decode_command build (Some (w @ t @ w')) (Some c) (Some e) =
    (SWBT_IPC_JSON_OK, Some (fst (json_decode build ms)), Some (snd (json_decode build ms)))"
  by (rule decode_object [OF assms])

definition demo_build :: ipc_build where
  "demo_build = \<lparr>ulong_bits = 64, version_string = ''0.1.0-dev''\<rparr>"

lemma demo_build_ok: "build_ok demo_build"
  by (simp add: build_ok_def demo_build_def literal_plain)

definition hello_members :: "(string \<times> json) list" where
  "hello_members = [(''x'', JArray [JNull, JString ''v'']), (''v'', JInt 1), (''type'', JString ''hello''), (''request_id'', JString ''h1'')]"

theorem ipc_decode_refines_witness:
  \<open>swbt_ipc_json_decode_command demo_build
      (Some ([] @ ''{"x":[null,"v"],"v":1,"type":"hello","request_id":"h1"}'' @ [CHR 0x0A])) (Some swbt_ipc_json_init_command) (Some swbt_ipc_json_init_response) =
    (SWBT_IPC_JSON_OK,
     Some (swbt_ipc_json_init_command\<lparr>cmd_type := SWBT_IPC_COMMAND_HELLO, cmd_has_request_id := True,
       cmd_request_id := ''h1''\<rparr>),
     Some swbt_ipc_json_init_response)\<close>
proof -
  have r: \<open>render (JObject hello_members) = ''{"x":[null,"v"],"v":1,"type":"hello","request_id":"h1"}''\<close>
    by (simp add: hello_members_def quoted_def int_text_print)
  have "json_text (JObject hello_members) (render (JObject hello_members))"
    by (rule json_text_render(1)) (simp add: hello_members_def literal_plain)
  then have t: \<open>json_text (JObject hello_members) ''{"x":[null,"v"],"v":1,"type":"hello","request_id":"h1"}''\<close>
    unfolding r .
  have "json_string_of SWBT_IPC_JSON_STRING_MAX (map_of hello_members ''request_id'') = Found ''h1''"
    "json_string_of SWBT_IPC_JSON_STRING_MAX (map_of hello_members ''type'') = Found ''hello''"
    "map_of hello_members ''v'' = Some (JInt 1)"
    by (simp_all add: hello_members_def string_ok_def SWBT_IPC_JSON_STRING_MAX_def ccode_def)
  then have d: "json_decode demo_build hello_members = (swbt_ipc_json_init_command\<lparr>cmd_type := SWBT_IPC_COMMAND_HELLO,
      cmd_has_request_id := True, cmd_request_id := ''h1''\<rparr>, swbt_ipc_json_init_response)"
    by (simp add: json_decode_def swbt_ipc_json_init_command_def)
  have "blank []" "blank [CHR 0x0A]"
    by (simp_all add: blank_def isspace_def)
  from ipc_decode_refines [OF t this, of demo_build swbt_ipc_json_init_command swbt_ipc_json_init_response]
  show ?thesis
    unfolding d fst_conv snd_conv by (simp add: SWBT_IPC_JSON_LINE_MAX_def)
qed

text \<open>C19: The decoder is total and never lets a bad value through: whatever the line is, it returns OK
  with either an error response or a command, and then the request id fits its buffer and can be echoed
  in JSON, the controller state only has defined buttons and 12 bit sticks, and the sequence number is
  below 2^63.\<close>

theorem ipc_decode_total:
  "\<exists>cmd err. swbt_ipc_json_decode_command build (Some line) (Some c) (Some e) =
      (SWBT_IPC_JSON_OK, Some cmd, Some err)
    \<and> (if resp_type err = SWBT_IPC_RESPONSE_NONE then cmd_type cmd \<noteq> SWBT_IPC_COMMAND_NONE
       else resp_type err = SWBT_IPC_RESPONSE_ERROR)
    \<and> command_wf cmd \<and> response_wf err"
  using decode_wf [of build line c e] unfolding decoded_ok_def by blast

text \<open>C20: Every well-formed response is encoded into the response buffer of the server: the text always
  fits, whatever the counters and ids are, and it is the text of the JSON object with the documented members. It is one line: behind
  the object there is one newline, and before it neither a newline nor any other control character, provided that the version
  string of the build has none. Only a response without anything to say leaves the buffer empty.\<close>

theorem ipc_encode_fits:
  assumes "response_wf r" "build_ok build" "raw_text (version_string build)"
  shows "\<exists>line. swbt_ipc_json_encode_response build (Some r) (Some buf) SWBT_IPC_JSON_RESPONSE_MAX =
      (SWBT_IPC_JSON_OK, Some line)
    \<and> (case json_response build r of
         None \<Rightarrow> line = []
       | Some ms \<Rightarrow> \<exists>t. line = t @ [CHR 0x0A] \<and> json_text (JObject ms) t \<and> no_control t \<and> length line < SWBT_IPC_JSON_RESPONSE_MAX)"
proof (cases "json_response build r")
  case None
  then show ?thesis
    using encode_write [OF assms(1), of SWBT_IPC_JSON_RESPONSE_MAX build buf] by (simp add: SWBT_IPC_JSON_RESPONSE_MAX_def)
next
  case (Some ms)
  have "length (response_line (Some ms)) < SWBT_IPC_JSON_RESPONSE_MAX"
    using response_line_length [OF assms(1,2)] Some by simp
  then show ?thesis
    using encode_write [OF assms(1), of SWBT_IPC_JSON_RESPONSE_MAX build buf] Some response_plain [OF assms(1,2) Some]
      response_no_control [OF assms(1,3) Some]
    by (auto simp: swbt_json_write_def response_line_def simp del: render.simps)
qed

theorem ipc_encode_fits_witness:
  "\<exists>line. swbt_ipc_json_encode_response demo_build
      (Some (swbt_ipc_json_init_response\<lparr>resp_type := SWBT_IPC_RESPONSE_STATUS\<rparr>)) (Some []) SWBT_IPC_JSON_RESPONSE_MAX =
      (SWBT_IPC_JSON_OK, Some line) \<and> line \<noteq> [] \<and> no_control (butlast line)"
proof -
  have "raw_text (version_string demo_build)"
    by (simp add: demo_build_def swbt_ipc_json_text_can_be_written_raw_def ccode_def)
  moreover have "response_wf (swbt_ipc_json_init_response\<lparr>resp_type := SWBT_IPC_RESPONSE_STATUS\<rparr>)"
    using init_response_wf by (simp add: response_wf_def)
  ultimately show ?thesis
    using ipc_encode_fits [OF _ demo_build_ok, of "swbt_ipc_json_init_response\<lparr>resp_type := SWBT_IPC_RESPONSE_STATUS\<rparr>" "[]"]
    by (auto simp: json_response_def)
qed


section \<open>Spellings that the readers accept\<close>

text \<open>
  An owner id of eight characters need not consist of eight hexadecimal digits, and a backslash in any string of the
  object hides the members behind it.
\<close>

theorem owner_id_with_sign: "ulong_bits build = 32 \<or> ulong_bits build = 64 \<Longrightarrow> swbt_ipc_parse_owner_id build (Some ''+0000001'') = Some 1"
  by (auto simp: swbt_ipc_parse_owner_id_def SWBT_IPC_OWNER_ID_HEX_SIZE_def strtou_def c_integer_def sign_prefix_def
      base_prefix_def hex_prefix_def digits_value_def base_digit_def digit_value_def in_range_def ccode_def isspace_def NUL_def)

theorem escape_hides_members:
  \<open>swbt_json_find_key_value (''{"v":1,"client_name":"a'' @ CHR 0x5C # ''nb","type":"hello"}'') ''type'' = None\<close>
  by code_simp

end
