(* ===== verification/IpcAdapter.thy ===== *)
theory IpcAdapter
  imports Control IpcJson
begin

text \<open>
  The adapter between the IPC codec and the control layer, \<open>ipc/ipc_adapter.c\<close>: one
  command line of a client in, one response line out. The control pointer and
  the domain behind it are a \<open>control_state\<close>, \<open>reader\<close> is what the status reader of
  the control object returns when it is called (None when it has none).
\<close>

section \<open>Definitions\<close>

datatype swbt_ipc_result_t =
    SWBT_IPC_OK
  | SWBT_IPC_ERROR_INVALID_ARGUMENT
  | SWBT_IPC_ERROR_OWNER_BUSY
  | SWBT_IPC_ERROR_NOT_OWNER

record swbt_ipc_status_t =
  is_has_owner :: bool
  is_owner_client_id :: u32
  is_last_seq :: u64
  is_state :: swbt_state_t
  is_rumble :: swbt_switch_rumble_state_t
  is_metrics :: swbt_metrics_snapshot_t
  is_daemon :: swbt_domain_daemon_status_t
  is_hardware :: swbt_domain_hardware_status_t

fun swbt_ipc_map_control_result :: "swbt_control_result_t \<Rightarrow> swbt_ipc_result_t" where
  "swbt_ipc_map_control_result SWBT_CONTROL_OK = SWBT_IPC_OK"
| "swbt_ipc_map_control_result SWBT_CONTROL_ERROR_OWNER_BUSY = SWBT_IPC_ERROR_OWNER_BUSY"
| "swbt_ipc_map_control_result SWBT_CONTROL_ERROR_NOT_OWNER = SWBT_IPC_ERROR_NOT_OWNER"
| "swbt_ipc_map_control_result SWBT_CONTROL_ERROR_INVALID_ARGUMENT = SWBT_IPC_ERROR_INVALID_ARGUMENT"

definition swbt_ipc_adapter_init_response :: swbt_ipc_response_t where
  "swbt_ipc_adapter_init_response = \<lparr>resp_type = SWBT_IPC_RESPONSE_NONE, resp_has_request_id = False,
     resp_request_id = [], resp_client_id = 0, resp_owner_client_id = 0, resp_sequence = 0,
     resp_status = \<lparr>rs_has_owner = False, rs_owner_client_id = 0, rs_last_sequence = 0,
       rs_state = swbt_state_neutral, rs_rumble = dom_rumble zero_domain, rs_metrics = snapshot zero_metrics,
       rs_daemon = dom_daemon zero_domain, rs_hardware = dom_hardware zero_domain\<rparr>,
     resp_error_code = SWBT_IPC_ERROR_CODE_INVALID_JSON, resp_error_message = []\<rparr>"

definition swbt_ipc_adapter_copy_text :: "string \<Rightarrow> nat \<Rightarrow> string \<Rightarrow> string" where
  "swbt_ipc_adapter_copy_text out out_size text = (if out_size = 0 then out else take (out_size - 1) text)"

definition swbt_ipc_adapter_set_error ::
  "swbt_ipc_response_t \<Rightarrow> bool \<Rightarrow> string \<Rightarrow> swbt_ipc_error_code_t \<Rightarrow> string \<Rightarrow> swbt_ipc_response_t" where
  "swbt_ipc_adapter_set_error response has_request_id request_id error_code message =
     response\<lparr>resp_type := SWBT_IPC_RESPONSE_ERROR,
       resp_has_request_id := has_request_id,
       resp_request_id := (if has_request_id
         then swbt_ipc_adapter_copy_text (resp_request_id response) SWBT_IPC_JSON_STRING_MAX request_id else []),
       resp_error_code := error_code,
       resp_error_message :=
         swbt_ipc_adapter_copy_text (resp_error_message response) SWBT_IPC_JSON_STRING_MAX message\<rparr>"

definition swbt_ipc_adapter_copy_command_request ::
  "swbt_ipc_command_t \<Rightarrow> swbt_ipc_response_t \<Rightarrow> swbt_ipc_response_t" where
  "swbt_ipc_adapter_copy_command_request command response =
     response\<lparr>resp_has_request_id := cmd_has_request_id command,
       resp_request_id := (if cmd_has_request_id command
         then swbt_ipc_adapter_copy_text (resp_request_id response) SWBT_IPC_JSON_STRING_MAX (cmd_request_id command)
         else [])\<rparr>"

definition swbt_ipc_adapter_command_owner_matches_client :: "swbt_ipc_command_t \<Rightarrow> u32 \<Rightarrow> bool" where
  "swbt_ipc_adapter_command_owner_matches_client command client_id \<longleftrightarrow>
     cmd_has_owner_id command \<and> cmd_owner_client_id command = client_id"

definition swbt_ipc_adapter_copy_status :: "swbt_ipc_status_t \<Rightarrow> swbt_ipc_response_status_t" where
  "swbt_ipc_adapter_copy_status st = \<lparr>rs_has_owner = is_has_owner st, rs_owner_client_id = is_owner_client_id st,
     rs_last_sequence = is_last_seq st, rs_state = is_state st, rs_rumble = is_rumble st,
     rs_metrics = is_metrics st, rs_daemon = is_daemon st, rs_hardware = is_hardware st\<rparr>"

definition swbt_ipc_adapter_copy_app_status :: "swbt_domain_status_snapshot_t \<Rightarrow> swbt_ipc_status_t" where
  "swbt_ipc_adapter_copy_app_status st = \<lparr>is_has_owner = st_has_owner st, is_owner_client_id = st_owner_client_id st,
     is_last_seq = st_last_sequence st, is_state = st_state st, is_rumble = st_rumble st,
     is_metrics = st_metrics st, is_daemon = st_daemon st, is_hardware = st_hardware st\<rparr>"

definition swbt_ipc_adapter_error_from_command ::
  "swbt_ipc_command_t \<Rightarrow> swbt_ipc_response_t \<Rightarrow> swbt_ipc_error_code_t \<Rightarrow> string \<Rightarrow> swbt_ipc_response_t" where
  "swbt_ipc_adapter_error_from_command command response error_code message =
     swbt_ipc_adapter_set_error response (cmd_has_request_id command) (cmd_request_id command) error_code message"

text \<open>The status that was read; the uninitialised local of the source is never used when the call fails.\<close>

definition swbt_ipc_adapter_get_status ::
  "control_state \<Rightarrow> (int \<times> swbt_control_runtime_status_t) option \<Rightarrow> bool
   \<Rightarrow> swbt_ipc_result_t \<times> swbt_ipc_status_t option" where
  "swbt_ipc_adapter_get_status cs reader has_out =
     (if fst cs = None \<or> \<not> has_out then (SWBT_IPC_ERROR_INVALID_ARGUMENT, None)
      else let (r, st) = swbt_control_get_status cs reader
             (Some \<lparr>cs_app = zero_status_snapshot, cs_has_runtime_status = False, cs_runtime = zero_runtime_status\<rparr>)
        in if r \<noteq> SWBT_CONTROL_OK then (SWBT_IPC_ERROR_INVALID_ARGUMENT, None)
           else (SWBT_IPC_OK, Some (swbt_ipc_adapter_copy_app_status (cs_app (the st)))))"

definition swbt_ipc_adapter_execute_command ::
  "(int \<times> swbt_control_runtime_status_t) option \<Rightarrow> control_state \<Rightarrow> u32 \<Rightarrow> swbt_ipc_command_t
   \<Rightarrow> swbt_ipc_json_result_t \<times> swbt_ipc_response_t \<times> control_state" where
  "swbt_ipc_adapter_execute_command reader cs client_id command =
     (let resp = swbt_ipc_adapter_copy_command_request command swbt_ipc_adapter_init_response;
          error = swbt_ipc_adapter_error_from_command command resp
      in case cmd_type command of
        SWBT_IPC_COMMAND_HELLO \<Rightarrow>
          (SWBT_IPC_JSON_OK, resp\<lparr>resp_type := SWBT_IPC_RESPONSE_HELLO_OK, resp_client_id := client_id\<rparr>, cs)
      | SWBT_IPC_COMMAND_ACQUIRE \<Rightarrow>
          (let (r, cs) = swbt_control_acquire_client cs client_id;
               result = swbt_ipc_map_control_result r
           in if result = SWBT_IPC_ERROR_OWNER_BUSY
              then (SWBT_IPC_JSON_OK, error SWBT_IPC_ERROR_CODE_OWNER_BUSY ''another client owns the controller'', cs)
              else if result \<noteq> SWBT_IPC_OK
              then (SWBT_IPC_JSON_OK, error SWBT_IPC_ERROR_CODE_INTERNAL_ERROR ''failed to acquire owner'', cs)
              else (SWBT_IPC_JSON_OK,
                    resp\<lparr>resp_type := SWBT_IPC_RESPONSE_ACQUIRED, resp_owner_client_id := client_id\<rparr>, cs))
      | SWBT_IPC_COMMAND_RELEASE \<Rightarrow>
          (if \<not> swbt_ipc_adapter_command_owner_matches_client command client_id
           then (SWBT_IPC_JSON_OK, error SWBT_IPC_ERROR_CODE_NOT_OWNER ''client does not own the controller'', cs)
           else let (r, cs) = swbt_control_release_client cs client_id;
                    result = swbt_ipc_map_control_result r
             in if result = SWBT_IPC_ERROR_NOT_OWNER
                then (SWBT_IPC_JSON_OK, error SWBT_IPC_ERROR_CODE_NOT_OWNER ''client does not own the controller'', cs)
                else if result \<noteq> SWBT_IPC_OK
                then (SWBT_IPC_JSON_OK, error SWBT_IPC_ERROR_CODE_INTERNAL_ERROR ''failed to release owner'', cs)
                else (SWBT_IPC_JSON_OK, resp\<lparr>resp_type := SWBT_IPC_RESPONSE_RELEASED\<rparr>, cs))
      | SWBT_IPC_COMMAND_SET_STATE \<Rightarrow>
          (if \<not> swbt_ipc_adapter_command_owner_matches_client command client_id
           then let (_, cs) = swbt_control_record_state_update_rejected cs
             in (SWBT_IPC_JSON_OK, error SWBT_IPC_ERROR_CODE_NOT_OWNER ''client does not own the controller'', cs)
           else let (r, cs) = swbt_control_submit_client_state cs client_id (Some (cmd_state command)) (cmd_sequence command);
                    result = swbt_ipc_map_control_result r
             in if result = SWBT_IPC_ERROR_NOT_OWNER
                then (SWBT_IPC_JSON_OK, error SWBT_IPC_ERROR_CODE_NOT_OWNER ''client does not own the controller'', cs)
                else if result \<noteq> SWBT_IPC_OK
                then (SWBT_IPC_JSON_OK, error SWBT_IPC_ERROR_CODE_INTERNAL_ERROR ''failed to set state'', cs)
                else (SWBT_IPC_JSON_OK,
                      resp\<lparr>resp_type := SWBT_IPC_RESPONSE_STATE_ACCEPTED, resp_sequence := cmd_sequence command\<rparr>, cs))
      | SWBT_IPC_COMMAND_GET_STATUS \<Rightarrow>
          (case swbt_ipc_adapter_get_status cs reader True of
             (SWBT_IPC_OK, Some st) \<Rightarrow>
               (SWBT_IPC_JSON_OK,
                resp\<lparr>resp_type := SWBT_IPC_RESPONSE_STATUS, resp_status := swbt_ipc_adapter_copy_status st\<rparr>, cs)
           | _ \<Rightarrow> (SWBT_IPC_JSON_OK, error SWBT_IPC_ERROR_CODE_INTERNAL_ERROR ''failed to get status'', cs))
      | SWBT_IPC_COMMAND_NONE \<Rightarrow>
          (SWBT_IPC_JSON_OK, error SWBT_IPC_ERROR_CODE_INTERNAL_ERROR ''failed to decode command'', cs))"

definition swbt_ipc_adapter_handle_line ::
  "ipc_build \<Rightarrow> (int \<times> swbt_control_runtime_status_t) option \<Rightarrow> control_state \<Rightarrow> u32 \<Rightarrow> string option
   \<Rightarrow> string option \<Rightarrow> nat \<Rightarrow> swbt_ipc_json_result_t \<times> string option \<times> control_state" where
  "swbt_ipc_adapter_handle_line build reader cs client_id line response response_size =
     (if fst cs = None \<or> line = None \<or> response = None \<or> response_size = 0
      then (SWBT_IPC_JSON_ERROR_INVALID_ARGUMENT, response, cs)
      else let (result, command, typed_response) =
             swbt_ipc_json_decode_command build line (Some swbt_ipc_json_init_command) (Some swbt_ipc_json_init_response)
        in if result \<noteq> SWBT_IPC_JSON_OK then (result, response, cs)
           else let (result, typed_response, cs) =
               (if resp_type (the typed_response) = SWBT_IPC_RESPONSE_NONE
                then swbt_ipc_adapter_execute_command reader cs client_id (the command)
                else (SWBT_IPC_JSON_OK, the typed_response, cs))
             in if result \<noteq> SWBT_IPC_JSON_OK then (result, response, cs)
                else let (result, response) =
                    swbt_ipc_json_encode_response build (Some typed_response) response response_size
                  in (result, response, cs))"

definition swbt_ipc_adapter_handle_disconnect :: "control_state \<Rightarrow> u32 \<Rightarrow> swbt_ipc_result_t \<times> control_state" where
  "swbt_ipc_adapter_handle_disconnect cs client_id =
     (let (r, cs) = swbt_control_disconnect_client cs client_id in (swbt_ipc_map_control_result r, cs))"

definition swbt_ipc_adapter_handle_heartbeat_timeout :: "control_state \<Rightarrow> u32 \<Rightarrow> swbt_ipc_result_t \<times> control_state" where
  "swbt_ipc_adapter_handle_heartbeat_timeout cs client_id =
     (let (r, cs) = swbt_control_heartbeat_timeout_client cs client_id in (swbt_ipc_map_control_result r, cs))"

definition swbt_ipc_adapter_handle_shutdown :: "control_state \<Rightarrow> swbt_ipc_result_t \<times> control_state" where
  "swbt_ipc_adapter_handle_shutdown cs =
     (let (r, cs) = swbt_control_shutdown cs in (swbt_ipc_map_control_result r, cs))"

section \<open>What a command does\<close>

lemma control_step_refl: "control_step a a"
  unfolding control_step_def by (blast intro: steps_Nil)

lemma control_step_exec: "snd (domain_exec op (Some a)) = Some a' \<Longrightarrow> control_step a a'"
  by (rule control_step1 [of a op]) (simp add: domain_step_def)

text \<open>The status part of a response in terms of the domain.\<close>

definition domain_response_status :: "swbt_domain \<Rightarrow> swbt_ipc_response_status_t" where
  "domain_response_status a = \<lparr>rs_has_owner = has_owner (dom_lease a), rs_owner_client_id = owner_client_id (dom_lease a),
     rs_last_sequence = last_sequence (dom_lease a), rs_state = dom_state a, rs_rumble = dom_rumble a,
     rs_metrics = snapshot (dom_metrics a), rs_daemon = dom_daemon a, rs_hardware = dom_hardware a\<rparr>"

definition reader_ok :: "(int \<times> swbt_control_runtime_status_t) option \<Rightarrow> bool" where
  "reader_ok reader \<longleftrightarrow> (case reader of None \<Rightarrow> True | Some (code, _) \<Rightarrow> code = 0)"

definition claims :: "swbt_ipc_command_t \<Rightarrow> u32 \<Rightarrow> bool" where
  "claims cmd cid \<longleftrightarrow> cmd_has_owner_id cmd \<and> cmd_owner_client_id cmd = cid"

text \<open>The domain operation of a command, and the domain after it.\<close>

definition command_ops :: "u32 \<Rightarrow> swbt_ipc_command_t \<Rightarrow> domain_op list" where
  "command_ops cid cmd = (case cmd_type cmd of
       SWBT_IPC_COMMAND_ACQUIRE \<Rightarrow> [Acquire cid]
     | SWBT_IPC_COMMAND_RELEASE \<Rightarrow>
         if claims cmd cid then [Revoke \<lparr>revoke_reason = SWBT_DOMAIN_REVOKE_RELEASE, revoke_client_id = cid\<rparr>] else []
     | SWBT_IPC_COMMAND_SET_STATE \<Rightarrow>
         if claims cmd cid
         then [SetState \<lparr>set_client_id = cid, set_state = Some (cmd_state cmd), set_sequence = cmd_sequence cmd\<rparr>]
         else [RecordRejected]
     | _ \<Rightarrow> [])"

definition domain_run :: "domain_op list \<Rightarrow> swbt_domain \<Rightarrow> swbt_domain" where
  "domain_run ops a = fold (\<lambda>op a. the (snd (domain_exec op (Some a)))) ops a"

text \<open>The response type, the error code in case of an error, and the payload of the answer to a command.\<close>

definition command_answer ::
  "(int \<times> swbt_control_runtime_status_t) option \<Rightarrow> u32 \<Rightarrow> swbt_ipc_command_t \<Rightarrow> swbt_domain
   \<Rightarrow> swbt_ipc_response_t" where
  "command_answer reader cid cmd a =
     (let base = swbt_ipc_adapter_init_response\<lparr>resp_has_request_id := cmd_has_request_id cmd,
            resp_request_id := (if cmd_has_request_id cmd then cmd_request_id cmd else [])\<rparr>;
          refused = (\<lambda>code text. base\<lparr>resp_type := SWBT_IPC_RESPONSE_ERROR, resp_error_code := code,
            resp_error_message := text\<rparr>)
      in case cmd_type cmd of
        SWBT_IPC_COMMAND_HELLO \<Rightarrow> base\<lparr>resp_type := SWBT_IPC_RESPONSE_HELLO_OK, resp_client_id := cid\<rparr>
      | SWBT_IPC_COMMAND_ACQUIRE \<Rightarrow>
          if domain_owner a \<in> {None, Some cid}
          then base\<lparr>resp_type := SWBT_IPC_RESPONSE_ACQUIRED, resp_owner_client_id := cid\<rparr>
          else refused SWBT_IPC_ERROR_CODE_OWNER_BUSY ''another client owns the controller''
      | SWBT_IPC_COMMAND_RELEASE \<Rightarrow>
          if claims cmd cid \<and> domain_owner a = Some cid then base\<lparr>resp_type := SWBT_IPC_RESPONSE_RELEASED\<rparr>
          else refused SWBT_IPC_ERROR_CODE_NOT_OWNER ''client does not own the controller''
      | SWBT_IPC_COMMAND_SET_STATE \<Rightarrow>
          if claims cmd cid \<and> domain_owner a = Some cid
          then base\<lparr>resp_type := SWBT_IPC_RESPONSE_STATE_ACCEPTED, resp_sequence := cmd_sequence cmd\<rparr>
          else refused SWBT_IPC_ERROR_CODE_NOT_OWNER ''client does not own the controller''
      | SWBT_IPC_COMMAND_GET_STATUS \<Rightarrow>
          if reader_ok reader
          then base\<lparr>resp_type := SWBT_IPC_RESPONSE_STATUS, resp_status := domain_response_status a\<rparr>
          else refused SWBT_IPC_ERROR_CODE_INTERNAL_ERROR ''failed to get status''
      | SWBT_IPC_COMMAND_NONE \<Rightarrow> refused SWBT_IPC_ERROR_CODE_INTERNAL_ERROR ''failed to decode command'')"

lemma adapter_copy_text_short:
  "length s < SWBT_IPC_JSON_STRING_MAX \<Longrightarrow> swbt_ipc_adapter_copy_text out SWBT_IPC_JSON_STRING_MAX s = s"
  by (simp add: swbt_ipc_adapter_copy_text_def SWBT_IPC_JSON_STRING_MAX_def)

lemma get_status_eq:
  "swbt_ipc_adapter_get_status (Some c, Some a) reader True =
    (if reader_ok reader then (SWBT_IPC_OK, Some (swbt_ipc_adapter_copy_app_status (zero_status_snapshot
       \<lparr>st_has_owner := has_owner (dom_lease a), st_owner_client_id := owner_client_id (dom_lease a),
        st_last_sequence := last_sequence (dom_lease a), st_state := dom_state a, st_rumble := dom_rumble a,
        st_metrics := snapshot (dom_metrics a), st_daemon := dom_daemon a, st_hardware := dom_hardware a\<rparr>)))
     else (SWBT_IPC_ERROR_INVALID_ARGUMENT, None))"
  by (auto simp: swbt_ipc_adapter_get_status_def swbt_control_get_status_def read_status_eq Let_def reader_ok_def
      split: option.splits)

lemma execute_eq:
  assumes "length (cmd_request_id cmd) < SWBT_IPC_JSON_STRING_MAX"
  shows "swbt_ipc_adapter_execute_command reader (Some c, Some a) cid cmd =
    (SWBT_IPC_JSON_OK, command_answer reader cid cmd a, Some c, Some (domain_run (command_ops cid cmd) a))"
proof -
  note copies = swbt_ipc_adapter_copy_command_request_def swbt_ipc_adapter_error_from_command_def
    swbt_ipc_adapter_set_error_def adapter_copy_text_short [OF assms] swbt_ipc_adapter_command_owner_matches_client_def
  have texts: "swbt_ipc_adapter_copy_text out SWBT_IPC_JSON_STRING_MAX s = s"
    if "length s < 96" for out s
    using that adapter_copy_text_short by (simp add: SWBT_IPC_JSON_STRING_MAX_def)
  note defs = swbt_ipc_adapter_execute_command_def copies texts command_answer_def command_ops_def domain_run_def
    claims_def Let_def
  show ?thesis
  proof (cases "cmd_type cmd")
    case SWBT_IPC_COMMAND_ACQUIRE
    then show ?thesis
      by (simp add: defs swbt_control_acquire_client_def domain_acquire_eq domain_owner_def lease_owner_def)
  next
    case SWBT_IPC_COMMAND_RELEASE
    then show ?thesis
      by (simp add: defs swbt_control_release_client_def domain_revoke_eq domain_owner_def owns_def)
  next
    case SWBT_IPC_COMMAND_SET_STATE
    then show ?thesis
      by (auto simp: defs swbt_control_submit_client_state_def swbt_control_record_state_update_rejected_def
          swbt_domain_record_state_update_rejected_def domain_set_state_eq domain_owner_def lease_owner_def)
  next
    case SWBT_IPC_COMMAND_GET_STATUS
    then show ?thesis
      by (simp add: defs get_status_eq swbt_ipc_adapter_copy_status_def swbt_ipc_adapter_copy_app_status_def
          domain_response_status_def)
  qed (simp_all add: defs)
qed

lemma answer_texts_raw:
  "raw_text ''another client owns the controller''" "raw_text ''client does not own the controller''"
  "raw_text ''failed to get status''" "raw_text ''failed to decode command''"
  by (simp_all add: swbt_ipc_json_text_can_be_written_raw_def ccode_def)

lemma adapter_init_wf: "response_wf swbt_ipc_adapter_init_response"
  by (simp add: response_wf_def swbt_ipc_adapter_init_response_def SWBT_IPC_JSON_STRING_MAX_def zero_domain_def
      SWBT_SWITCH_RUMBLE_DATA_SIZE_def)

lemma command_answer_wf:
  assumes "command_wf cmd" "domain_inv a"
  shows "response_wf (command_answer reader cid cmd a)"
proof -
  have "length (rumble_raw (dom_rumble a)) = 8" "raw_text (cmd_request_id cmd)" "length (cmd_request_id cmd) < 96"
    using assms by (simp_all add: domain_inv_def rumble_wf_def command_wf_def SWBT_IPC_JSON_STRING_MAX_def)
  then show ?thesis
    using adapter_init_wf
    by (cases "cmd_type cmd") (simp_all add: command_answer_def Let_def response_wf_def answer_texts_raw
        SWBT_IPC_JSON_STRING_MAX_def SWBT_SWITCH_RUMBLE_DATA_SIZE_def domain_response_status_def)
qed

text \<open>What a decoded line leads to: the response and the domain afterwards.\<close>

definition line_outcome ::
  "(int \<times> swbt_control_runtime_status_t) option \<Rightarrow> u32 \<Rightarrow> swbt_ipc_command_t \<times> swbt_ipc_response_t \<Rightarrow> swbt_domain
   \<Rightarrow> swbt_ipc_response_t \<times> swbt_domain" where
  "line_outcome reader cid d a =
     (if resp_type (snd d) = SWBT_IPC_RESPONSE_NONE
      then (command_answer reader cid (fst d) a, domain_run (command_ops cid (fst d)) a)
      else (snd d, a))"

lemma handle_decoded:
  assumes decode: "swbt_ipc_json_decode_command build (Some line) (Some swbt_ipc_json_init_command)
      (Some swbt_ipc_json_init_response) = (SWBT_IPC_JSON_OK, Some cmd, Some err)"
    and "decoded_ok cmd err" "domain_inv a" "build_ok build"
  shows "swbt_ipc_adapter_handle_line build reader (Some c, Some a) cid (Some line) (Some buf) SWBT_IPC_JSON_RESPONSE_MAX =
    (SWBT_IPC_JSON_OK, Some (response_line (json_response build (fst (line_outcome reader cid (cmd, err) a)))),
     Some c, Some (snd (line_outcome reader cid (cmd, err) a)))"
proof -
  have wf: "response_wf (fst (line_outcome reader cid (cmd, err) a))"
    using assms(2,3) command_answer_wf by (auto simp: line_outcome_def decoded_ok_def)
  have len: "length (cmd_request_id cmd) < SWBT_IPC_JSON_STRING_MAX"
    using assms(2) by (simp add: decoded_ok_def command_wf_def)
  have pos: "0 < SWBT_IPC_JSON_RESPONSE_MAX"
    by (simp add: SWBT_IPC_JSON_RESPONSE_MAX_def)
  have "swbt_ipc_json_encode_response build (Some (fst (line_outcome reader cid (cmd, err) a))) (Some buf)
      SWBT_IPC_JSON_RESPONSE_MAX =
    (SWBT_IPC_JSON_OK, Some (response_line (json_response build (fst (line_outcome reader cid (cmd, err) a)))))"
    using encode_write [OF wf pos, of build buf] response_line_length [OF wf assms(4)]
    by (auto simp: swbt_json_write_def response_line_def)
  then show ?thesis
    using pos by (simp add: swbt_ipc_adapter_handle_line_def decode execute_eq [OF len] line_outcome_def split: if_splits)
qed

lemma handle_object:
  assumes "json_text (JObject ms) t" "blank w" "blank w'" "length t \<le> SWBT_IPC_JSON_LINE_MAX"
    "domain_inv a" "build_ok build"
  shows "swbt_ipc_adapter_handle_line build reader (Some c, Some a) cid (Some (w @ t @ w')) (Some buf) SWBT_IPC_JSON_RESPONSE_MAX =
    (SWBT_IPC_JSON_OK, Some (response_line (json_response build (fst (line_outcome reader cid (json_decode build ms) a)))),
     Some c, Some (snd (line_outcome reader cid (json_decode build ms) a)))"
proof -
  note d = decode_object [OF assms(1-4), of build swbt_ipc_json_init_command swbt_ipc_json_init_response]
  then have "decoded_ok (fst (json_decode build ms)) (snd (json_decode build ms))"
    using decode_wf [of build "w @ t @ w'" swbt_ipc_json_init_command swbt_ipc_json_init_response] by auto
  from handle_decoded [OF d this assms(5,6)] show ?thesis
    by simp
qed

section \<open>Isolation of clients\<close>

text \<open>
  A command of a client can only move the lease between free and that client,
  and only change the controller state while the client owns it.
\<close>

lemma command_run_inv: "domain_inv a \<Longrightarrow> domain_inv (domain_run ops a)"
proof (induction ops arbitrary: a)
  case (Cons op ops)
  obtain a' where "snd (domain_exec op (Some a)) = Some a'" "domain_inv a'"
    using domain_exec_inv [OF Cons.prems] by blast
  with Cons.IH [of a'] show ?case
    by (simp add: domain_run_def)
qed (simp add: domain_run_def)

lemma command_owner:
  "domain_owner (domain_run (command_ops cid cmd) a) =
    (if cmd_type cmd = SWBT_IPC_COMMAND_ACQUIRE \<and> domain_owner a = None then Some cid
     else if cmd_type cmd = SWBT_IPC_COMMAND_RELEASE \<and> claims cmd cid \<and> domain_owner a = Some cid then None
     else domain_owner a)"
  by (cases "cmd_type cmd") (auto simp: command_ops_def domain_run_def domain_acquire_eq domain_revoke_eq domain_set_state_eq
      domain_owner_def lease_owner_def neutralised_def free_lease_def owns_def
      swbt_domain_record_state_update_rejected_def domain_helper_defs)

lemma command_state:
  "dom_state (domain_run (command_ops cid cmd) a) =
    (if cmd_type cmd = SWBT_IPC_COMMAND_SET_STATE \<and> claims cmd cid \<and> domain_owner a = Some cid
        \<and> last_sequence (dom_lease a) \<le> cmd_sequence cmd then cmd_state cmd
     else if cmd_type cmd = SWBT_IPC_COMMAND_RELEASE \<and> claims cmd cid \<and> domain_owner a = Some cid
     then swbt_state_neutral else dom_state a)"
  by (cases "cmd_type cmd") (auto simp: command_ops_def domain_run_def domain_acquire_eq domain_revoke_eq domain_set_state_eq
      domain_owner_def lease_owner_def neutralised_def owns_def not_less
      swbt_domain_record_state_update_rejected_def domain_helper_defs)

text \<open>What one client can do to the domain.\<close>

definition client_effect :: "u32 \<Rightarrow> swbt_domain \<Rightarrow> swbt_domain \<Rightarrow> bool" where
  "client_effect cid a a' \<longleftrightarrow> domain_inv a'
    \<and> (domain_owner a' = domain_owner a
       \<or> domain_owner a = None \<and> domain_owner a' = Some cid \<and> dom_state a' = dom_state a
       \<or> domain_owner a = Some cid \<and> domain_owner a' = None \<and> dom_state a' = swbt_state_neutral)
    \<and> (dom_state a' = dom_state a \<or> domain_owner a = Some cid \<and> state_in_range (dom_state a'))"

lemma handle_line_effect:
  assumes "domain_inv a" "build_ok build"
  shows "\<exists>resp a'. swbt_ipc_adapter_handle_line build reader (Some c, Some a) cid (Some line) (Some buf)
        SWBT_IPC_JSON_RESPONSE_MAX = (SWBT_IPC_JSON_OK, Some resp, Some c, Some a')
    \<and> length resp < SWBT_IPC_JSON_RESPONSE_MAX \<and> client_effect cid a a'"
proof -
  obtain cmd err where decode: "swbt_ipc_json_decode_command build (Some line) (Some swbt_ipc_json_init_command)
      (Some swbt_ipc_json_init_response) = (SWBT_IPC_JSON_OK, Some cmd, Some err)" and d: "decoded_ok cmd err"
    using decode_wf by blast
  note h = handle_decoded [OF decode d assms, of reader c cid buf]
  have "response_wf (fst (line_outcome reader cid (cmd, err) a))"
    using d assms(1) command_answer_wf by (auto simp: line_outcome_def decoded_ok_def)
  note len = response_line_length [OF this assms(2)]
  show ?thesis
  proof (cases "resp_type err = SWBT_IPC_RESPONSE_NONE")
    case True
    then have a': "snd (line_outcome reader cid (cmd, err) a) = domain_run (command_ops cid cmd) a"
      by (simp add: line_outcome_def)
    have range: "state_in_range (cmd_state cmd)"
      using d by (simp add: decoded_ok_def command_wf_def)
    show ?thesis
      unfolding h a' using len command_run_inv [OF assms(1), of "command_ops cid cmd"] range neutral_in_range
      by (simp add: command_owner command_state client_effect_def)
  next
    case False
    then show ?thesis
      unfolding h using len assms(1) by (auto simp: line_outcome_def client_effect_def)
  qed
qed

text \<open>A client that goes away, or that misses its heartbeat, loses the lease.\<close>

definition client_gone :: "u32 \<Rightarrow> swbt_domain \<Rightarrow> swbt_domain \<Rightarrow> bool" where
  "client_gone cid a a' \<longleftrightarrow> domain_inv a' \<and> domain_owner a' \<noteq> Some cid
    \<and> (if domain_owner a = Some cid then domain_owner a' = None \<and> dom_state a' = swbt_state_neutral
       else domain_owner a' = domain_owner a \<and> dom_state a' = dom_state a)"

lemma client_gone_effect: "client_gone cid a a' \<Longrightarrow> client_effect cid a a'"
  using neutral_in_range by (auto simp: client_gone_def client_effect_def split: if_splits)

lemma revoke_gone:
  assumes "domain_inv a" "r \<noteq> SWBT_DOMAIN_REVOKE_SHUTDOWN"
  shows "\<exists>r' a'. swbt_domain_revoke (Some a) \<lparr>revoke_reason = r, revoke_client_id = cid\<rparr> = (r', Some a') \<and> client_gone cid a a'"
proof -
  have "domain_inv (a\<lparr>dom_lock := False\<rparr>)"
    using assms(1) by (simp add: domain_inv_def)
  then show ?thesis
    using assms neutralised_inv [OF assms(1)]
    by (auto simp: domain_revoke_eq client_gone_def owns_def domain_owner_def neutralised_def free_lease_def lease_owner_def)
qed

lemma disconnect_gone:
  "domain_inv a \<Longrightarrow> \<exists>r a'. swbt_ipc_adapter_handle_disconnect (Some c, Some a) cid = (r, Some c, Some a') \<and> client_gone cid a a'"
  "domain_inv a \<Longrightarrow> \<exists>r a'. swbt_ipc_adapter_handle_heartbeat_timeout (Some c, Some a) cid = (r, Some c, Some a') \<and> client_gone cid a a'"
  using revoke_gone [of a SWBT_DOMAIN_REVOKE_DISCONNECT cid] revoke_gone [of a SWBT_DOMAIN_REVOKE_HEARTBEAT_TIMEOUT cid]
  by (auto simp: swbt_ipc_adapter_handle_disconnect_def swbt_control_disconnect_client_def
      swbt_ipc_adapter_handle_heartbeat_timeout_def swbt_control_heartbeat_timeout_client_def)

lemma shutdown_neutral:
  "domain_inv a \<Longrightarrow> \<exists>r. swbt_ipc_adapter_handle_shutdown (Some c, Some a) = (r, Some c, Some (neutralised a))"
  by (simp add: swbt_ipc_adapter_handle_shutdown_def swbt_control_shutdown_def domain_revoke_eq)

section \<open>Properties\<close>

text \<open>C11: Every line of a client is answered and clients are isolated: whatever the line is, the adapter
  answers it with a line that fits the response buffer (or with nothing), the domain keeps its
  invariant, the lease only moves between free and this client, and the controller state only changes
  while this client owns the lease: to a state with defined buttons and 12 bit sticks, neutral when the
  client gives the lease up.\<close>

theorem ipc_client_isolation:
  assumes "domain_inv a" "build_ok build"
  shows "\<exists>resp a'. swbt_ipc_adapter_handle_line build reader (Some c, Some a) cid (Some line) (Some buf)
        SWBT_IPC_JSON_RESPONSE_MAX = (SWBT_IPC_JSON_OK, Some resp, Some c, Some a')
    \<and> length resp < SWBT_IPC_JSON_RESPONSE_MAX
    \<and> domain_inv a'
    \<and> (domain_owner a' = domain_owner a
       \<or> domain_owner a = None \<and> domain_owner a' = Some cid \<and> dom_state a' = dom_state a
       \<or> domain_owner a = Some cid \<and> domain_owner a' = None \<and> dom_state a' = swbt_state_neutral)
    \<and> (dom_state a' = dom_state a \<or> domain_owner a = Some cid \<and> state_in_range (dom_state a'))"
  using handle_line_effect [OF assms, of reader c cid line buf] unfolding client_effect_def by blast

theorem ipc_client_isolation_witness:
  "\<exists>resp a'. swbt_ipc_adapter_handle_line demo_build None (Some \<lparr>next_direct_sequence = 0\<rparr>, Some demo_driven) 9
        (Some ''not json'') (Some []) SWBT_IPC_JSON_RESPONSE_MAX = (SWBT_IPC_JSON_OK, Some resp, Some \<lparr>next_direct_sequence = 0\<rparr>, Some a')
    \<and> dom_state a' = dom_state demo_driven"
proof -
  have inv: "domain_inv demo_driven"
    using demo_driven_reachable domain.reachable_inv by blast
  have "domain_owner demo_driven \<noteq> Some 9"
    by (simp add: domain_owner_def lease_owner_def demo_driven_def domain_acquire_eq domain_set_state_eq
        demo_domain_free free_lease_def)
  then show ?thesis
    using ipc_client_isolation [OF inv demo_build_ok, of None "\<lparr>next_direct_sequence = 0\<rparr>" 9 "''not json''" "[]"] by blast
qed

end
