(* ===== verification/IpcServer.thy ===== *)
theory IpcServer
  imports IpcAdapter
begin

text \<open>
  The TCP server of the IPC protocol, \<open>ipc/ipc_server.c\<close>, in its POSIX build: sockets,
  framing of the byte stream into lines, the service of one connection, and the
  heartbeat.

  The operating system is an argument of the operations. \<open>ipc_env\<close> holds the results
  of the system calls that one operation may make: \<open>select\<close> and \<open>recv\<close> on the
  connection are a sequence of events, one for each turn of the reading loop,
  \<open>send\<close> is a sequence of result codes, and the calls that set up the listening socket
  have one result each. A write outside of a buffer makes an operation None.

  A server points to a control object: to its own, to one that was bound to it, or
  to none. What a bound control object refers to is the argument \<open>bound\<close>, returned
  updated.
\<close>

section \<open>Types\<close>

datatype swbt_ipc_server_result_t =
    SWBT_IPC_SERVER_OK
  | SWBT_IPC_SERVER_ERROR_INVALID_ARGUMENT
  | SWBT_IPC_SERVER_ERROR_SOCKET
  | SWBT_IPC_SERVER_ERROR_UNSUPPORTED_BIND
  | SWBT_IPC_SERVER_ERROR_DISCONNECTED
  | SWBT_IPC_SERVER_ERROR_MESSAGE_TOO_LONG
  | SWBT_IPC_SERVER_ERROR_HEARTBEAT_TIMEOUT

record swbt_ipc_socket_t =
  sock_handle :: nat
  sock_open :: bool

record swbt_ipc_connection_t =
  conn_socket :: swbt_ipc_socket_t
  conn_client_id :: u32
  conn_line_buffer :: "char list"
  conn_line_length :: nat
  conn_last_heartbeat_ms :: u64
  conn_heartbeat_timeout_ms :: u64
  conn_heartbeat_enabled :: bool
  conn_open :: bool

record swbt_ipc_heartbeat_config_t =
  hb_now_ms :: u64
  hb_timeout_ms :: u64

record swbt_ipc_server_listen_options_t =
  listen_host :: "string option"
  listen_port :: u16
  listen_backlog :: int

datatype control_ref = NoControl | DefaultControl | BoundControl

record swbt_ipc_server_t =
  srv_listen_socket :: swbt_ipc_socket_t
  srv_default_app :: "swbt_domain option"
  srv_default_control :: swbt_control_t
  srv_control :: control_ref
  srv_next_client_id :: u32
  srv_bound_port :: u16
  srv_listening :: bool

datatype recv_result = ReceiveFails | Received string

datatype read_event = SelectFails | NotReady | Ready recv_result

record ipc_env =
  env_build :: ipc_build
  env_reader :: "(int \<times> swbt_control_runtime_status_t) option"
  env_pending :: read_event
  env_read :: "nat \<Rightarrow> read_event"
  env_send :: "nat \<Rightarrow> int"
  env_socket :: "nat option"
  env_setsockopt_ok :: bool
  env_bind_ok :: bool
  env_listen_ok :: bool
  env_sockname :: "u16 option"
  env_accept :: "nat option"

section \<open>Sockets\<close>

definition swbt_ipc_socket_init :: "swbt_ipc_socket_t option \<Rightarrow> swbt_ipc_socket_t option" where
  "swbt_ipc_socket_init socket = map_option (\<lambda>s. s\<lparr>sock_handle := 0, sock_open := False\<rparr>) socket"

definition swbt_ipc_socket_close :: "swbt_ipc_socket_t option \<Rightarrow> swbt_ipc_socket_t option" where
  "swbt_ipc_socket_close socket = (case socket of
       None \<Rightarrow> None
     | Some s \<Rightarrow> if \<not> sock_open s then Some s else Some (s\<lparr>sock_handle := 0, sock_open := False\<rparr>))"

definition swbt_ipc_store_native_socket :: "swbt_ipc_socket_t \<Rightarrow> nat \<Rightarrow> swbt_ipc_socket_t" where
  "swbt_ipc_store_native_socket s native_socket = s\<lparr>sock_handle := native_socket, sock_open := True\<rparr>"

definition swbt_ipc_connection_configure_heartbeat ::
  "swbt_ipc_connection_t option \<Rightarrow> swbt_ipc_heartbeat_config_t \<Rightarrow> swbt_ipc_connection_t option" where
  "swbt_ipc_connection_configure_heartbeat connection config = map_option (\<lambda>c.
     c\<lparr>conn_last_heartbeat_ms := hb_now_ms config, conn_heartbeat_timeout_ms := hb_timeout_ms config,
       conn_heartbeat_enabled := hb_timeout_ms config > 0\<rparr>) connection"

definition swbt_ipc_connection_record_heartbeat ::
  "swbt_ipc_connection_t option \<Rightarrow> u64 \<Rightarrow> swbt_ipc_connection_t option" where
  "swbt_ipc_connection_record_heartbeat connection now_ms = (case connection of
       None \<Rightarrow> None
     | Some c \<Rightarrow> if \<not> conn_heartbeat_enabled c then Some c else Some (c\<lparr>conn_last_heartbeat_ms := now_ms\<rparr>))"

definition swbt_ipc_create_tcp_socket ::
  "ipc_env \<Rightarrow> swbt_ipc_socket_t \<Rightarrow> swbt_ipc_server_result_t \<times> swbt_ipc_socket_t" where
  "swbt_ipc_create_tcp_socket env out_socket = (case env_socket env of
       None \<Rightarrow> (SWBT_IPC_SERVER_ERROR_SOCKET, out_socket)
     | Some native_socket \<Rightarrow>
         (SWBT_IPC_SERVER_OK, swbt_ipc_store_native_socket (the (swbt_ipc_socket_init (Some out_socket))) native_socket))"

text \<open>\<open>connect_ok\<close> is whether the system call \<open>connect\<close> succeeds.\<close>

definition swbt_ipc_socket_connect_loopback ::
  "ipc_env \<Rightarrow> bool \<Rightarrow> swbt_ipc_socket_t option \<Rightarrow> u16 \<Rightarrow> swbt_ipc_server_result_t \<times> swbt_ipc_socket_t option" where
  "swbt_ipc_socket_connect_loopback env connect_ok socket port = (case socket of
       None \<Rightarrow> (SWBT_IPC_SERVER_ERROR_INVALID_ARGUMENT, None)
     | Some s \<Rightarrow>
         if port = 0 then (SWBT_IPC_SERVER_ERROR_INVALID_ARGUMENT, Some s)
         else let (result, s) = swbt_ipc_create_tcp_socket env s in
           if result \<noteq> SWBT_IPC_SERVER_OK then (SWBT_IPC_SERVER_ERROR_SOCKET, Some s)
           else if \<not> connect_ok then (SWBT_IPC_SERVER_ERROR_SOCKET, swbt_ipc_socket_close (Some s))
           else (SWBT_IPC_SERVER_OK, Some s))"

text \<open>
  The loop of \<open>swbt_ipc_socket_send_all\<close>: \<open>send k\<close> is the result of the call number \<open>k\<close>. The result
  is the code and the number of bytes that were sent.
\<close>

function send_loop :: "(nat \<Rightarrow> int) \<Rightarrow> nat \<Rightarrow> nat \<Rightarrow> nat \<Rightarrow> swbt_ipc_server_result_t \<times> nat" where
  "send_loop send k data_size sent_total =
     (if sent_total < data_size then
        if send k \<le> 0 then (SWBT_IPC_SERVER_ERROR_SOCKET, sent_total)
        else send_loop send (Suc k) data_size (sent_total + nat (send k))
      else (SWBT_IPC_SERVER_OK, sent_total))"
  by auto
termination
  by (relation "measure (\<lambda>(send, k, data_size, sent_total). data_size - sent_total)") auto

declare send_loop.simps [simp del]

definition swbt_ipc_socket_send_all ::
  "ipc_env \<Rightarrow> swbt_ipc_socket_t option \<Rightarrow> string option \<Rightarrow> nat \<Rightarrow> swbt_ipc_server_result_t \<times> string" where
  "swbt_ipc_socket_send_all env socket data data_size = (case (socket, data) of
       (Some s, Some d) \<Rightarrow>
         (if \<not> sock_open s then (SWBT_IPC_SERVER_ERROR_INVALID_ARGUMENT, [])
          else let (result, sent) = send_loop (env_send env) 0 data_size 0 in (result, take sent (take data_size d)))
     | _ \<Rightarrow> (SWBT_IPC_SERVER_ERROR_INVALID_ARGUMENT, []))"

definition swbt_ipc_socket_receive ::
  "swbt_ipc_socket_t option \<Rightarrow> nat \<Rightarrow> recv_result \<Rightarrow> swbt_ipc_server_result_t \<times> string" where
  "swbt_ipc_socket_receive socket buffer_size received = (case socket of
       None \<Rightarrow> (SWBT_IPC_SERVER_ERROR_INVALID_ARGUMENT, [])
     | Some s \<Rightarrow>
         (if \<not> sock_open s \<or> buffer_size = 0 then (SWBT_IPC_SERVER_ERROR_INVALID_ARGUMENT, [])
          else case received of
              ReceiveFails \<Rightarrow> (SWBT_IPC_SERVER_ERROR_SOCKET, [])
            | Received bs \<Rightarrow>
                if bs = [] then (SWBT_IPC_SERVER_ERROR_DISCONNECTED, []) else (SWBT_IPC_SERVER_OK, bs)))"

definition swbt_ipc_socket_can_receive ::
  "swbt_ipc_socket_t option \<Rightarrow> read_event \<Rightarrow> swbt_ipc_server_result_t \<times> bool" where
  "swbt_ipc_socket_can_receive socket selected = (case socket of
       None \<Rightarrow> (SWBT_IPC_SERVER_ERROR_INVALID_ARGUMENT, False)
     | Some s \<Rightarrow>
         (if \<not> sock_open s then (SWBT_IPC_SERVER_ERROR_INVALID_ARGUMENT, False)
          else case selected of
              SelectFails \<Rightarrow> (SWBT_IPC_SERVER_ERROR_SOCKET, False)
            | NotReady \<Rightarrow> (SWBT_IPC_SERVER_OK, False)
            | Ready _ \<Rightarrow> (SWBT_IPC_SERVER_OK, True)))"

section \<open>Server\<close>

definition swbt_ipc_server_init ::
  "swbt_ipc_server_t option \<Rightarrow> swbt_domain option \<Rightarrow> swbt_ipc_server_result_t \<times> swbt_ipc_server_t option" where
  "swbt_ipc_server_init server domain_mem = (case server of
       None \<Rightarrow> (SWBT_IPC_SERVER_ERROR_INVALID_ARGUMENT, None)
     | Some _ \<Rightarrow>
         (let zero = \<lparr>srv_listen_socket = \<lparr>sock_handle = 0, sock_open = False\<rparr>, srv_default_app = None,
                srv_default_control = \<lparr>next_direct_sequence = 0\<rparr>, srv_control = NoControl,
                srv_next_client_id = 0, srv_bound_port = 0, srv_listening = False\<rparr>
          in case swbt_domain_create domain_mem of
               None \<Rightarrow> (SWBT_IPC_SERVER_ERROR_SOCKET, Some zero)
             | Some app \<Rightarrow>
                 let (r, control) = swbt_control_init (Some (srv_default_control zero)) (Some (Some app)) in
                 if r \<noteq> SWBT_CONTROL_OK then (SWBT_IPC_SERVER_ERROR_SOCKET, Some zero)
                 else (SWBT_IPC_SERVER_OK, Some (zero\<lparr>srv_default_app := Some app, srv_default_control := the control,
                        srv_control := DefaultControl, srv_next_client_id := 1\<rparr>))))"

definition swbt_ipc_server_bind_control ::
  "swbt_ipc_server_t option \<Rightarrow> control_state \<Rightarrow> swbt_ipc_server_result_t \<times> swbt_ipc_server_t option" where
  "swbt_ipc_server_bind_control server control = (case server of
       None \<Rightarrow> (SWBT_IPC_SERVER_ERROR_INVALID_ARGUMENT, None)
     | Some s \<Rightarrow>
         if fst control = None \<or> srv_listening s then (SWBT_IPC_SERVER_ERROR_INVALID_ARGUMENT, Some s)
         else (SWBT_IPC_SERVER_OK, Some (s\<lparr>srv_control := BoundControl\<rparr>)))"

definition close_listen :: "swbt_ipc_server_t \<Rightarrow> swbt_ipc_server_t" where
  "close_listen s = s\<lparr>srv_listen_socket := the (swbt_ipc_socket_close (Some (srv_listen_socket s)))\<rparr>"

definition swbt_ipc_server_listen ::
  "ipc_env \<Rightarrow> swbt_ipc_server_t option \<Rightarrow> swbt_ipc_server_listen_options_t
   \<Rightarrow> swbt_ipc_server_result_t \<times> swbt_ipc_server_t option" where
  "swbt_ipc_server_listen env server options = (case (server, listen_host options) of
       (Some s, Some host) \<Rightarrow>
         (if listen_backlog options \<le> 0 then (SWBT_IPC_SERVER_ERROR_INVALID_ARGUMENT, server)
          else if host \<noteq> ''127.0.0.1'' then (SWBT_IPC_SERVER_ERROR_UNSUPPORTED_BIND, server)
          else let (result, sock) = swbt_ipc_create_tcp_socket env (srv_listen_socket s) in
            if result \<noteq> SWBT_IPC_SERVER_OK then (SWBT_IPC_SERVER_ERROR_SOCKET, server)
            else let s = s\<lparr>srv_listen_socket := sock\<rparr> in
              if \<not> env_setsockopt_ok env then (SWBT_IPC_SERVER_ERROR_SOCKET, Some (close_listen s))
              else if \<not> env_bind_ok env then (SWBT_IPC_SERVER_ERROR_SOCKET, Some (close_listen s))
              else if \<not> env_listen_ok env then (SWBT_IPC_SERVER_ERROR_SOCKET, Some (close_listen s))
              else case env_sockname env of
                  None \<Rightarrow> (SWBT_IPC_SERVER_ERROR_SOCKET, Some (close_listen s))
                | Some port \<Rightarrow> (SWBT_IPC_SERVER_OK, Some (s\<lparr>srv_bound_port := port, srv_listening := True\<rparr>)))
     | _ \<Rightarrow> (SWBT_IPC_SERVER_ERROR_INVALID_ARGUMENT, server))"

definition swbt_ipc_server_port :: "swbt_ipc_server_t option \<Rightarrow> u16" where
  "swbt_ipc_server_port server = (case server of
       None \<Rightarrow> 0 | Some s \<Rightarrow> if \<not> srv_listening s then 0 else srv_bound_port s)"

definition swbt_ipc_server_has_pending_connection ::
  "ipc_env \<Rightarrow> swbt_ipc_server_t option \<Rightarrow> swbt_ipc_server_result_t \<times> bool" where
  "swbt_ipc_server_has_pending_connection env server = (case server of
       None \<Rightarrow> (SWBT_IPC_SERVER_ERROR_INVALID_ARGUMENT, False)
     | Some s \<Rightarrow>
         if \<not> srv_listening s then (SWBT_IPC_SERVER_ERROR_INVALID_ARGUMENT, False)
         else swbt_ipc_socket_can_receive (Some (srv_listen_socket s)) (env_pending env))"

definition put_char :: "char list \<Rightarrow> nat \<Rightarrow> char \<Rightarrow> char list option" where
  "put_char buf i c = (if i < length buf then Some (buf[i := c]) else None)"

definition cleared :: "swbt_ipc_connection_t \<Rightarrow> swbt_ipc_connection_t" where
  "cleared c = c\<lparr>conn_client_id := 0, conn_line_buffer := (conn_line_buffer c)[0 := NUL], conn_line_length := 0,
     conn_last_heartbeat_ms := 0, conn_heartbeat_timeout_ms := 0, conn_heartbeat_enabled := False, conn_open := False\<rparr>"

definition swbt_ipc_server_accept ::
  "ipc_env \<Rightarrow> swbt_ipc_server_t option \<Rightarrow> swbt_ipc_connection_t option
   \<Rightarrow> swbt_ipc_server_result_t \<times> swbt_ipc_server_t option \<times> swbt_ipc_connection_t option" where
  "swbt_ipc_server_accept env server out_connection = (case (server, out_connection) of
       (Some s, Some c) \<Rightarrow>
         (if \<not> srv_listening s then (SWBT_IPC_SERVER_ERROR_INVALID_ARGUMENT, server, out_connection)
          else let c = cleared (c\<lparr>conn_socket := the (swbt_ipc_socket_init (Some (conn_socket c)))\<rparr>) in
            case env_accept env of
              None \<Rightarrow> (SWBT_IPC_SERVER_ERROR_SOCKET, server, Some c)
            | Some accepted_socket \<Rightarrow>
                (SWBT_IPC_SERVER_OK, Some (s\<lparr>srv_next_client_id := srv_next_client_id s + 1\<rparr>),
                 Some (c\<lparr>conn_socket := swbt_ipc_store_native_socket (conn_socket c) accepted_socket,
                         conn_client_id := srv_next_client_id s, conn_open := True\<rparr>)))
     | _ \<Rightarrow> (SWBT_IPC_SERVER_ERROR_INVALID_ARGUMENT, server, out_connection))"

definition swbt_ipc_connection_has_pending_data ::
  "ipc_env \<Rightarrow> swbt_ipc_connection_t option \<Rightarrow> swbt_ipc_server_result_t \<times> bool" where
  "swbt_ipc_connection_has_pending_data env connection = (case connection of
       None \<Rightarrow> (SWBT_IPC_SERVER_ERROR_INVALID_ARGUMENT, False)
     | Some c \<Rightarrow>
         if \<not> conn_open c then (SWBT_IPC_SERVER_ERROR_INVALID_ARGUMENT, False)
         else swbt_ipc_socket_can_receive (Some (conn_socket c)) (env_pending env))"

section \<open>Reading lines\<close>

text \<open>
  The loop of \<open>swbt_ipc_read_line\<close>, where \<open>i\<close> counts its turns and \<open>len\<close> is the local variable
  \<open>length\<close>: the result code, the connection, the line and whether it is complete. It ends
  because the line buffer fills up, whatever the peer sends.
\<close>

function read_line_loop ::
  "(nat \<Rightarrow> read_event) \<Rightarrow> nat \<Rightarrow> nat \<Rightarrow> swbt_ipc_connection_t \<Rightarrow> nat
   \<Rightarrow> (swbt_ipc_server_result_t \<times> swbt_ipc_connection_t \<times> string \<times> bool) option" where
  "read_line_loop events line_size i c len =
     (let (result, ready) = swbt_ipc_socket_can_receive (Some (conn_socket c)) (events i) in
      if result \<noteq> SWBT_IPC_SERVER_OK then Some (result, c, [], False)
      else if \<not> ready then
        (case put_char (conn_line_buffer c) len NUL of
           None \<Rightarrow> None
         | Some buf \<Rightarrow> Some (SWBT_IPC_SERVER_OK, c\<lparr>conn_line_length := len, conn_line_buffer := buf\<rparr>, [], False))
      else let (result, received) = swbt_ipc_socket_receive (Some (conn_socket c)) 1
             (case events i of Ready r \<Rightarrow> r | _ \<Rightarrow> ReceiveFails) in
        if result \<noteq> SWBT_IPC_SERVER_OK then Some (result, c, [], False)
        else if length received \<noteq> 1 then Some (SWBT_IPC_SERVER_ERROR_SOCKET, c, [], False)
        else if len + 1 \<ge> line_size then
          (case put_char (conn_line_buffer c) 0 NUL of
             None \<Rightarrow> None
           | Some buf \<Rightarrow>
               Some (SWBT_IPC_SERVER_ERROR_MESSAGE_TOO_LONG, c\<lparr>conn_line_length := 0, conn_line_buffer := buf\<rparr>, [], False))
        else
          (case put_char (conn_line_buffer c) len (hd received) of
             None \<Rightarrow> None
           | Some buf \<Rightarrow>
               if hd received = CHR 0x0A then
                 (case put_char buf 0 NUL of
                    None \<Rightarrow> None
                  | Some buf' \<Rightarrow>
                      Some (SWBT_IPC_SERVER_OK, c\<lparr>conn_line_length := 0, conn_line_buffer := buf'\<rparr>,
                        take (len + 1) buf, True))
               else read_line_loop events line_size (Suc i) (c\<lparr>conn_line_buffer := buf\<rparr>) (len + 1)))"
  by auto
termination
  by (relation "measure (\<lambda>(events, line_size, i, c, len). line_size - len)") auto

declare read_line_loop.simps [simp del]

definition swbt_ipc_read_line ::
  "ipc_env \<Rightarrow> swbt_ipc_connection_t option \<Rightarrow> nat
   \<Rightarrow> (swbt_ipc_server_result_t \<times> swbt_ipc_connection_t option \<times> string \<times> bool) option" where
  "swbt_ipc_read_line env connection line_size = (case connection of
       None \<Rightarrow> Some (SWBT_IPC_SERVER_ERROR_INVALID_ARGUMENT, None, [], False)
     | Some c \<Rightarrow>
         if \<not> conn_open c \<or> line_size = 0 then Some (SWBT_IPC_SERVER_ERROR_INVALID_ARGUMENT, Some c, [], False)
         else map_option (\<lambda>(result, c, line, complete). (result, Some c, line, complete))
                (read_line_loop (env_read env) line_size 0 c (conn_line_length c)))"

section \<open>Serving a connection\<close>

definition swbt_ipc_connection_close :: "swbt_ipc_connection_t option \<Rightarrow> swbt_ipc_connection_t option" where
  "swbt_ipc_connection_close connection = map_option (\<lambda>c.
     cleared (c\<lparr>conn_socket := the (swbt_ipc_socket_close (Some (conn_socket c)))\<rparr>)) connection"

definition server_control :: "swbt_ipc_server_t \<Rightarrow> control_state \<Rightarrow> control_state" where
  "server_control s bound = (case srv_control s of
       NoControl \<Rightarrow> (None, None)
     | DefaultControl \<Rightarrow> (Some (srv_default_control s), srv_default_app s)
     | BoundControl \<Rightarrow> bound)"

text \<open>What the control pointer of the server refers to, after an operation on it.\<close>

definition store_control ::
  "swbt_ipc_server_t \<Rightarrow> control_state \<Rightarrow> control_state \<Rightarrow> swbt_ipc_server_t \<times> control_state" where
  "store_control s bound cs = (case srv_control s of
       NoControl \<Rightarrow> (s, bound)
     | DefaultControl \<Rightarrow> (s\<lparr>srv_default_control := the (fst cs), srv_default_app := snd cs\<rparr>, bound)
     | BoundControl \<Rightarrow> (s, cs))"

type_synonym served =
  "swbt_ipc_server_result_t \<times> swbt_ipc_server_t option \<times> control_state \<times> swbt_ipc_connection_t option \<times> string"

definition swbt_ipc_server_serve_connection_once_internal ::
  "ipc_env \<Rightarrow> swbt_ipc_server_t option \<Rightarrow> control_state \<Rightarrow> swbt_ipc_connection_t option \<Rightarrow> bool \<Rightarrow> u64
   \<Rightarrow> served option" where
  "swbt_ipc_server_serve_connection_once_internal env server bound connection update_heartbeat now_ms =
     (case (server, connection) of
        (Some s, Some c) \<Rightarrow>
          (if \<not> conn_open c then Some (SWBT_IPC_SERVER_ERROR_INVALID_ARGUMENT, server, bound, connection, [])
           else case swbt_ipc_read_line env connection (SWBT_IPC_JSON_LINE_MAX + 1) of
               None \<Rightarrow> None
             | Some (read_result, connection, line, line_complete) \<Rightarrow>
                 let disconnect = (let (_, cs) = swbt_ipc_adapter_handle_disconnect (server_control s bound) (conn_client_id c)
                       in store_control s bound cs) in
                 if read_result = SWBT_IPC_SERVER_ERROR_DISCONNECTED \<or> read_result = SWBT_IPC_SERVER_ERROR_SOCKET then
                   Some (SWBT_IPC_SERVER_ERROR_DISCONNECTED, Some (fst disconnect), snd disconnect, connection, [])
                 else if read_result = SWBT_IPC_SERVER_ERROR_MESSAGE_TOO_LONG then
                   Some (SWBT_IPC_SERVER_ERROR_MESSAGE_TOO_LONG, Some (fst disconnect), snd disconnect,
                     swbt_ipc_connection_close connection, [])
                 else if read_result \<noteq> SWBT_IPC_SERVER_OK then Some (read_result, server, bound, connection, [])
                 else if \<not> line_complete then Some (SWBT_IPC_SERVER_OK, server, bound, connection, [])
                 else
                   let connection = (if update_heartbeat then swbt_ipc_connection_record_heartbeat connection now_ms
                         else connection);
                       (json_result, response, cs) = swbt_ipc_adapter_handle_line (env_build env) (env_reader env)
                         (server_control s bound) (conn_client_id c) (Some (c_str_of line)) (Some [])
                         SWBT_IPC_JSON_RESPONSE_MAX;
                       (s, bound) = store_control s bound cs
                   in if json_result \<noteq> SWBT_IPC_JSON_OK then Some (SWBT_IPC_SERVER_ERROR_SOCKET, Some s, bound, connection, [])
                      else if response = Some [] then Some (SWBT_IPC_SERVER_OK, Some s, bound, connection, [])
                      else let (result, sent) = swbt_ipc_socket_send_all env (map_option conn_socket connection) response
                             (length (the response))
                        in Some (result, Some s, bound, connection, sent))
      | _ \<Rightarrow> Some (SWBT_IPC_SERVER_ERROR_INVALID_ARGUMENT, server, bound, connection, []))"

definition swbt_ipc_server_serve_connection_once ::
  "ipc_env \<Rightarrow> swbt_ipc_server_t option \<Rightarrow> control_state \<Rightarrow> swbt_ipc_connection_t option \<Rightarrow> served option" where
  "swbt_ipc_server_serve_connection_once env server bound connection =
     swbt_ipc_server_serve_connection_once_internal env server bound connection False 0"

definition swbt_ipc_server_serve_connection_once_at ::
  "ipc_env \<Rightarrow> swbt_ipc_server_t option \<Rightarrow> control_state \<Rightarrow> swbt_ipc_connection_t option \<Rightarrow> u64 \<Rightarrow> served option" where
  "swbt_ipc_server_serve_connection_once_at env server bound connection now_ms =
     swbt_ipc_server_serve_connection_once_internal env server bound connection True now_ms"

definition swbt_ipc_server_check_heartbeat ::
  "swbt_ipc_server_t option \<Rightarrow> control_state \<Rightarrow> swbt_ipc_connection_t option \<Rightarrow> u64
   \<Rightarrow> swbt_ipc_server_result_t \<times> swbt_ipc_server_t option \<times> control_state" where
  "swbt_ipc_server_check_heartbeat server bound connection now_ms = (case (server, connection) of
       (Some s, Some c) \<Rightarrow>
         (if \<not> conn_heartbeat_enabled c then (SWBT_IPC_SERVER_OK, server, bound)
          else if now_ms < conn_last_heartbeat_ms c then (SWBT_IPC_SERVER_OK, server, bound)
          else let elapsed_ms = now_ms - conn_last_heartbeat_ms c in
            if elapsed_ms < conn_heartbeat_timeout_ms c then (SWBT_IPC_SERVER_OK, server, bound)
            else let (_, cs) = swbt_ipc_adapter_handle_heartbeat_timeout (server_control s bound) (conn_client_id c);
                     (s, bound) = store_control s bound cs
              in (SWBT_IPC_SERVER_ERROR_HEARTBEAT_TIMEOUT, Some s, bound))
     | _ \<Rightarrow> (SWBT_IPC_SERVER_ERROR_INVALID_ARGUMENT, server, bound))"

definition swbt_ipc_server_get_status ::
  "ipc_env \<Rightarrow> swbt_ipc_server_t option \<Rightarrow> control_state \<Rightarrow> bool
   \<Rightarrow> swbt_ipc_server_result_t \<times> swbt_ipc_status_t option" where
  "swbt_ipc_server_get_status env server bound has_out = (case server of
       None \<Rightarrow> (SWBT_IPC_SERVER_ERROR_INVALID_ARGUMENT, None)
     | Some s \<Rightarrow>
         if \<not> has_out then (SWBT_IPC_SERVER_ERROR_INVALID_ARGUMENT, None)
         else let (result, st) = swbt_ipc_adapter_get_status (server_control s bound) (env_reader env) True
           in if result \<noteq> SWBT_IPC_OK then (SWBT_IPC_SERVER_ERROR_SOCKET, None) else (SWBT_IPC_SERVER_OK, st))"

definition swbt_ipc_server_close :: "swbt_ipc_server_t option \<Rightarrow> swbt_ipc_server_t option" where
  "swbt_ipc_server_close server = map_option (\<lambda>s.
     (close_listen s)\<lparr>srv_default_app := None, srv_control := NoControl, srv_bound_port := 0, srv_listening := False\<rparr>) server"

section \<open>The line buffer\<close>

definition conn_ok :: "swbt_ipc_connection_t \<Rightarrow> bool" where
  "conn_ok c \<longleftrightarrow> length (conn_line_buffer c) = SWBT_IPC_JSON_LINE_MAX + 1
     \<and> conn_line_length c \<le> SWBT_IPC_JSON_LINE_MAX \<and> sock_open (conn_socket c) = conn_open c"

definition pending :: "swbt_ipc_connection_t \<Rightarrow> string" where
  "pending c = take (conn_line_length c) (conn_line_buffer c)"

text \<open>Everything of a connection but its line buffer.\<close>

definition same_peer :: "swbt_ipc_connection_t \<Rightarrow> swbt_ipc_connection_t \<Rightarrow> bool" where
  "same_peer c c' \<longleftrightarrow> c' = c\<lparr>conn_line_buffer := conn_line_buffer c', conn_line_length := conn_line_length c'\<rparr>"

lemma same_peer_fields:
  assumes "same_peer c c'"
  shows "conn_client_id c' = conn_client_id c" "conn_socket c' = conn_socket c" "conn_open c' = conn_open c"
    "conn_heartbeat_enabled c' = conn_heartbeat_enabled c" "conn_last_heartbeat_ms c' = conn_last_heartbeat_ms c"
    "conn_heartbeat_timeout_ms c' = conn_heartbeat_timeout_ms c"
  using assms by (cases c; cases c'; simp add: same_peer_def)+

lemma put_char_Some [simp]: "i < length buf \<Longrightarrow> put_char buf i ch = Some (buf[i := ch])"
  by (simp add: put_char_def)

lemma can_receive_eq:
  "sock_open s \<Longrightarrow> swbt_ipc_socket_can_receive (Some s) ev =
    (if ev = SelectFails then SWBT_IPC_SERVER_ERROR_SOCKET else SWBT_IPC_SERVER_OK, ev \<notin> {SelectFails, NotReady})"
  by (cases ev) (simp_all add: swbt_ipc_socket_can_receive_def)

lemma receive_eq:
  "sock_open s \<Longrightarrow> 0 < n \<Longrightarrow> swbt_ipc_socket_receive (Some s) n r = (case r of
     ReceiveFails \<Rightarrow> (SWBT_IPC_SERVER_ERROR_SOCKET, [])
   | Received bs \<Rightarrow> if bs = [] then (SWBT_IPC_SERVER_ERROR_DISCONNECTED, []) else (SWBT_IPC_SERVER_OK, bs))"
  by (simp add: swbt_ipc_socket_receive_def)

text \<open>The outcomes of one call, in terms of what was pending: never a write out of bounds.\<close>

definition read_outcome ::
  "swbt_ipc_connection_t \<Rightarrow> swbt_ipc_server_result_t \<Rightarrow> swbt_ipc_connection_t \<Rightarrow> string \<Rightarrow> bool \<Rightarrow> bool" where
  "read_outcome c r c' line complete \<longleftrightarrow> conn_ok c' \<and> same_peer c c'
     \<and> r \<in> {SWBT_IPC_SERVER_OK, SWBT_IPC_SERVER_ERROR_SOCKET, SWBT_IPC_SERVER_ERROR_DISCONNECTED,
            SWBT_IPC_SERVER_ERROR_MESSAGE_TOO_LONG}
     \<and> (complete \<longrightarrow> r = SWBT_IPC_SERVER_OK \<and> pending c' = [] \<and> line \<noteq> [] \<and> last line = CHR 0x0A
          \<and> length line \<le> SWBT_IPC_JSON_LINE_MAX)
     \<and> (\<not> complete \<longrightarrow> line = [])"

text \<open>One turn of the loop.\<close>

lemma read_turn:
  assumes "sock_open (conn_socket c)" "length (conn_line_buffer c) = line_size" "len < line_size"
  shows "events i = SelectFails \<Longrightarrow>
      read_line_loop events line_size i c len = Some (SWBT_IPC_SERVER_ERROR_SOCKET, c, [], False)"
    and "events i = NotReady \<Longrightarrow> read_line_loop events line_size i c len =
      Some (SWBT_IPC_SERVER_OK, c\<lparr>conn_line_length := len, conn_line_buffer := (conn_line_buffer c)[len := NUL]\<rparr>, [], False)"
    and "events i = Ready ReceiveFails \<Longrightarrow>
      read_line_loop events line_size i c len = Some (SWBT_IPC_SERVER_ERROR_SOCKET, c, [], False)"
    and "events i = Ready (Received []) \<Longrightarrow>
      read_line_loop events line_size i c len = Some (SWBT_IPC_SERVER_ERROR_DISCONNECTED, c, [], False)"
    and "events i = Ready (Received (a # b # bs)) \<Longrightarrow>
      read_line_loop events line_size i c len = Some (SWBT_IPC_SERVER_ERROR_SOCKET, c, [], False)"
    and "events i = Ready (Received [ch]) \<Longrightarrow> line_size \<le> len + 1 \<Longrightarrow> read_line_loop events line_size i c len =
      Some (SWBT_IPC_SERVER_ERROR_MESSAGE_TOO_LONG,
        c\<lparr>conn_line_length := 0, conn_line_buffer := (conn_line_buffer c)[0 := NUL]\<rparr>, [], False)"
    and "events i = Ready (Received [CHR 0x0A]) \<Longrightarrow> len + 1 < line_size \<Longrightarrow> read_line_loop events line_size i c len =
      Some (SWBT_IPC_SERVER_OK,
        c\<lparr>conn_line_length := 0, conn_line_buffer := (conn_line_buffer c)[len := CHR 0x0A, 0 := NUL]\<rparr>,
        take len (conn_line_buffer c) @ [CHR 0x0A], True)"
    and "events i = Ready (Received [ch]) \<Longrightarrow> ch \<noteq> CHR 0x0A \<Longrightarrow> len + 1 < line_size \<Longrightarrow>
      read_line_loop events line_size i c len =
        read_line_loop events line_size (Suc i) (c\<lparr>conn_line_buffer := (conn_line_buffer c)[len := ch]\<rparr>) (len + 1)"
  using assms
  by (simp_all add: read_line_loop.simps [of events line_size i c len] can_receive_eq receive_eq take_Suc_conv_app_nth)

lemma read_event_cases:
  obtains (fails) "ev = SelectFails" | (waits) "ev = NotReady" | (recv_fails) "ev = Ready ReceiveFails"
    | (closed) "ev = Ready (Received [])" | (newline) "ev = Ready (Received [CHR 0x0A])"
    | (byte) ch where "ev = Ready (Received [ch])" "ch \<noteq> CHR 0x0A" | (many) a b bs where "ev = Ready (Received (a # b # bs))"
proof (cases ev)
  case (Ready r)
  show ?thesis
  proof (cases r)
    case (Received bs)
    then show ?thesis
      using Ready that by (cases bs rule: remdups_adj.cases) auto
  qed (use Ready that in auto)
qed (use that in auto)

lemma read_loop_outcome:
  assumes "length (conn_line_buffer c) = SWBT_IPC_JSON_LINE_MAX + 1" "conn_line_length c \<le> SWBT_IPC_JSON_LINE_MAX"
    "sock_open (conn_socket c)" "conn_open c" "len \<le> SWBT_IPC_JSON_LINE_MAX"
  shows "\<exists>r c' line complete. read_line_loop events (SWBT_IPC_JSON_LINE_MAX + 1) i c len = Some (r, c', line, complete)
    \<and> read_outcome c r c' line complete"
  using assms
proof (induction "SWBT_IPC_JSON_LINE_MAX - len" arbitrary: i c len rule: less_induct)
  case less
  have peer: "same_peer c c" "same_peer c (c\<lparr>conn_line_buffer := b\<rparr>)" "same_peer c (c\<lparr>conn_line_length := n, conn_line_buffer := b\<rparr>)" for b n
    by (simp_all add: same_peer_def)
  have ok: "sock_open (conn_socket c)" "length (conn_line_buffer c) = SWBT_IPC_JSON_LINE_MAX + 1" "len < SWBT_IPC_JSON_LINE_MAX + 1"
    using less.prems by simp_all
  note outcome = read_outcome_def conn_ok_def peer pending_def less.prems
  note turn = read_turn [OF ok, where events = events and i = i]
  show ?case
  proof (cases "events i" rule: read_event_cases)
    case newline
    then show ?thesis
      using turn(6) [OF newline] turn(7) [OF newline] less.prems
      by (cases "len + 1 < SWBT_IPC_JSON_LINE_MAX + 1") (auto simp: outcome)
  next
    case (byte ch)
    let ?c = "c\<lparr>conn_line_buffer := (conn_line_buffer c)[len := ch]\<rparr>"
    show ?thesis
    proof (cases "len + 1 < SWBT_IPC_JSON_LINE_MAX + 1")
      case True
      have "SWBT_IPC_JSON_LINE_MAX - (len + 1) < SWBT_IPC_JSON_LINE_MAX - len"
        using True by simp
      then obtain r c' line complete where
        "read_line_loop events (SWBT_IPC_JSON_LINE_MAX + 1) (Suc i) ?c (len + 1) = Some (r, c', line, complete)"
        "read_outcome ?c r c' line complete"
        using less.hyps [of "len + 1" ?c "Suc i"] less.prems True by auto
      moreover have "same_peer c c'" if "same_peer ?c c'"
        using that by (simp add: same_peer_def)
      ultimately show ?thesis
        using turn(8) [OF byte True] by (auto simp: read_outcome_def)
    qed (use turn(6) [OF byte(1)] in \<open>auto simp: outcome\<close>)
  qed (use turn(1-5) in \<open>auto simp: outcome\<close>)
qed

lemma read_line_outcome:
  assumes "conn_ok c" "conn_open c"
  shows "\<exists>r c' line complete. swbt_ipc_read_line env (Some c) (SWBT_IPC_JSON_LINE_MAX + 1) = Some (r, Some c', line, complete)
    \<and> read_outcome c r c' line complete"
  using read_loop_outcome [of c "conn_line_length c" "env_read env" 0] assms
  by (auto simp: swbt_ipc_read_line_def conn_ok_def)

section \<open>Framing\<close>

text \<open>A call during which the bytes \<open>bs\<close> arrive and nothing more, and one during which a line ends.\<close>

definition delivers :: "(nat \<Rightarrow> read_event) \<Rightarrow> string \<Rightarrow> bool" where
  "delivers ev bs \<longleftrightarrow> (\<forall>i < length bs. ev i = Ready (Received [bs ! i])) \<and> ev (length bs) = NotReady"

definition delivers_line :: "(nat \<Rightarrow> read_event) \<Rightarrow> string \<Rightarrow> bool" where
  "delivers_line ev bs \<longleftrightarrow> (\<forall>i < length bs. ev i = Ready (Received [bs ! i]))
     \<and> ev (length bs) = Ready (Received [CHR 0x0A])"

text \<open>Bytes that arrive are appended to what is pending.\<close>

lemma read_bytes:
  assumes "sock_open (conn_socket c)" "length (conn_line_buffer c) = line_size" "len + length bs < line_size"
    "CHR 0x0A \<notin> set bs" "\<forall>k < length bs. ev (i + k) = Ready (Received [bs ! k])"
  shows "\<exists>buf. read_line_loop ev line_size i c len = read_line_loop ev line_size (i + length bs) (c\<lparr>conn_line_buffer := buf\<rparr>) (len + length bs)
    \<and> length buf = line_size \<and> take (len + length bs) buf = take len (conn_line_buffer c) @ bs"
  using assms
proof (induction bs arbitrary: i c len)
  case Nil
  then show ?case
    by (intro exI [of _ "conn_line_buffer c"]) simp
next
  case (Cons b bs)
  let ?c = "c\<lparr>conn_line_buffer := (conn_line_buffer c)[len := b]\<rparr>"
  have "ev i = Ready (Received [b])"
    using Cons.prems(5) by auto
  then have step: "read_line_loop ev line_size i c len = read_line_loop ev line_size (Suc i) ?c (len + 1)"
    using Cons.prems by (intro read_turn(8)) auto
  have "ev (Suc i + k) = Ready (Received [bs ! k])" if "k < length bs" for k
    using Cons.prems(5) [rule_format, of "Suc k"] that by simp
  then obtain buf where
    "read_line_loop ev line_size (Suc i) ?c (len + 1) = read_line_loop ev line_size (Suc i + length bs) (?c\<lparr>conn_line_buffer := buf\<rparr>) (len + 1 + length bs)"
    "length buf = line_size" "take (len + 1 + length bs) buf = take (len + 1) (conn_line_buffer ?c) @ bs"
    using Cons.IH [of ?c "len + 1" "Suc i"] Cons.prems by auto
  then show ?case
    using Cons.prems(2,3) unfolding step
    by (intro exI [of _ buf]) (simp add: take_Suc_conv_app_nth)
qed

fun read_calls :: "ipc_env \<Rightarrow> (nat \<Rightarrow> read_event) list \<Rightarrow> swbt_ipc_connection_t \<Rightarrow> swbt_ipc_connection_t option" where
  "read_calls env [] c = Some c"
| "read_calls env (ev # evs) c =
     (case swbt_ipc_read_line (env\<lparr>env_read := ev\<rparr>) (Some c) (SWBT_IPC_JSON_LINE_MAX + 1) of
        Some (SWBT_IPC_SERVER_OK, Some c', line, False) \<Rightarrow> read_calls env evs c'
      | _ \<Rightarrow> None)"

lemma read_line_more:
  assumes "conn_ok c" "conn_open c" "delivers ev bs" "CHR 0x0A \<notin> set bs"
    "length (pending c) + length bs \<le> SWBT_IPC_JSON_LINE_MAX"
  shows "\<exists>c'. swbt_ipc_read_line (env\<lparr>env_read := ev\<rparr>) (Some c) (SWBT_IPC_JSON_LINE_MAX + 1) = Some (SWBT_IPC_SERVER_OK, Some c', [], False)
    \<and> conn_ok c' \<and> conn_open c' \<and> pending c' = pending c @ bs"
proof -
  have len: "length (pending c) = conn_line_length c"
    using assms(1) by (simp add: pending_def conn_ok_def)
  obtain buf where buf: "read_line_loop ev (SWBT_IPC_JSON_LINE_MAX + 1) 0 c (conn_line_length c) =
      read_line_loop ev (SWBT_IPC_JSON_LINE_MAX + 1) (length bs) (c\<lparr>conn_line_buffer := buf\<rparr>) (conn_line_length c + length bs)"
    "length buf = SWBT_IPC_JSON_LINE_MAX + 1" "take (conn_line_length c + length bs) buf = pending c @ bs"
    using read_bytes [of c "SWBT_IPC_JSON_LINE_MAX + 1" "conn_line_length c" bs ev 0] assms len
    by (auto simp: conn_ok_def delivers_def pending_def)
  have "read_line_loop ev (SWBT_IPC_JSON_LINE_MAX + 1) (length bs) (c\<lparr>conn_line_buffer := buf\<rparr>) (conn_line_length c + length bs) =
      Some (SWBT_IPC_SERVER_OK, c\<lparr>conn_line_buffer := buf[conn_line_length c + length bs := NUL],
        conn_line_length := conn_line_length c + length bs\<rparr>, [], False)"
    using read_turn(2) [of "c\<lparr>conn_line_buffer := buf\<rparr>" "SWBT_IPC_JSON_LINE_MAX + 1" "conn_line_length c + length bs" ev "length bs"]
      assms buf(2) len by (simp add: conn_ok_def delivers_def)
  then show ?thesis
    using assms buf len by (auto simp: swbt_ipc_read_line_def conn_ok_def pending_def)
qed

lemma read_line_last:
  assumes "conn_ok c" "conn_open c" "delivers_line ev bs" "CHR 0x0A \<notin> set bs"
    "length (pending c) + length bs < SWBT_IPC_JSON_LINE_MAX"
  shows "\<exists>c'. swbt_ipc_read_line (env\<lparr>env_read := ev\<rparr>) (Some c) (SWBT_IPC_JSON_LINE_MAX + 1) =
      Some (SWBT_IPC_SERVER_OK, Some c', pending c @ bs @ [CHR 0x0A], True)
    \<and> conn_ok c' \<and> conn_open c' \<and> pending c' = []"
proof -
  have len: "length (pending c) = conn_line_length c"
    using assms(1) by (simp add: pending_def conn_ok_def)
  obtain buf where buf: "read_line_loop ev (SWBT_IPC_JSON_LINE_MAX + 1) 0 c (conn_line_length c) =
      read_line_loop ev (SWBT_IPC_JSON_LINE_MAX + 1) (length bs) (c\<lparr>conn_line_buffer := buf\<rparr>) (conn_line_length c + length bs)"
    "length buf = SWBT_IPC_JSON_LINE_MAX + 1" "take (conn_line_length c + length bs) buf = pending c @ bs"
    using read_bytes [of c "SWBT_IPC_JSON_LINE_MAX + 1" "conn_line_length c" bs ev 0] assms len
    by (auto simp: conn_ok_def delivers_line_def pending_def)
  show ?thesis
    using read_turn(7) [of "c\<lparr>conn_line_buffer := buf\<rparr>" "SWBT_IPC_JSON_LINE_MAX + 1" "conn_line_length c + length bs" ev "length bs"]
      assms buf len by (simp add: swbt_ipc_read_line_def conn_ok_def delivers_line_def pending_def)
qed

lemma read_calls_pending:
  assumes "conn_ok c" "conn_open c" "list_all2 delivers evs css" "CHR 0x0A \<notin> set (concat css)"
    "length (pending c) + length (concat css) \<le> SWBT_IPC_JSON_LINE_MAX"
  shows "\<exists>c'. read_calls env evs c = Some c' \<and> conn_ok c' \<and> conn_open c' \<and> pending c' = pending c @ concat css"
  using assms(3,1,2,4,5)
proof (induction evs css arbitrary: c rule: list_all2_induct)
  case (Cons ev evs bs css)
  obtain c' where c': "swbt_ipc_read_line (env\<lparr>env_read := ev\<rparr>) (Some c) (SWBT_IPC_JSON_LINE_MAX + 1) =
      Some (SWBT_IPC_SERVER_OK, Some c', [], False)" "conn_ok c'" "conn_open c'" "pending c' = pending c @ bs"
    using read_line_more [of c ev bs env] Cons.prems Cons.hyps by auto
  from Cons.IH [OF c'(2,3)] Cons.prems c' show ?case
    by auto
qed simp

section \<open>Serving a connection\<close>

definition serves :: "swbt_ipc_server_t \<Rightarrow> control_state \<Rightarrow> swbt_control_t \<Rightarrow> swbt_domain \<Rightarrow> bool" where
  "serves s bound ctl a \<longleftrightarrow> server_control s bound = (Some ctl, Some a)"

lemma store_control_serves:
  "serves s bound ctl a \<Longrightarrow> store_control s bound (Some ctl', Some a') = (s', bound') \<Longrightarrow> serves s' bound' ctl' a'"
  by (auto simp: serves_def server_control_def store_control_def split: control_ref.splits)

lemma heartbeat_conn:
  "conn_ok c \<Longrightarrow> \<exists>c'. swbt_ipc_connection_record_heartbeat (Some c) t = Some c' \<and> conn_ok c'
    \<and> conn_client_id c' = conn_client_id c \<and> conn_open c' = conn_open c \<and> conn_socket c' = conn_socket c"
  by (simp add: swbt_ipc_connection_record_heartbeat_def conn_ok_def)

lemma close_conn:
  "conn_ok c \<Longrightarrow> \<exists>c'. swbt_ipc_connection_close (Some c) = Some c' \<and> conn_ok c' \<and> \<not> conn_open c' \<and> conn_client_id c' = 0"
  by (auto simp: swbt_ipc_connection_close_def conn_ok_def cleared_def swbt_ipc_socket_close_def)

text \<open>
  The outcome of one call: the peer is gone and its lease with it, or the domain
  changed as a client may change it. \<open>lost\<close> are the results after which the runner
  closes the connection.
\<close>

definition lost :: "swbt_ipc_server_result_t \<Rightarrow> bool" where
  "lost r \<longleftrightarrow> r = SWBT_IPC_SERVER_ERROR_DISCONNECTED \<or> r = SWBT_IPC_SERVER_ERROR_MESSAGE_TOO_LONG"

definition serve_outcome ::
  "swbt_ipc_server_t \<Rightarrow> swbt_ipc_connection_t \<Rightarrow> swbt_domain \<Rightarrow> swbt_ipc_server_result_t \<Rightarrow> swbt_ipc_server_t
   \<Rightarrow> swbt_ipc_connection_t \<Rightarrow> swbt_domain \<Rightarrow> bool" where
  "serve_outcome s c a r s' c' a' \<longleftrightarrow> conn_ok c' \<and> srv_control s' = srv_control s \<and> srv_listening s' = srv_listening s
     \<and> srv_next_client_id s' = srv_next_client_id s
     \<and> (if lost r then client_gone (conn_client_id c) a a'
        else client_effect (conn_client_id c) a a' \<and> conn_client_id c' = conn_client_id c \<and> conn_open c')"

lemma store_control_fields:
  "store_control s bound cs = (s', bound') \<Longrightarrow> srv_control s' = srv_control s \<and> srv_listening s' = srv_listening s
    \<and> srv_next_client_id s' = srv_next_client_id s"
  by (auto simp: store_control_def split: control_ref.splits)

lemma client_effect_refl: "domain_inv a \<Longrightarrow> client_effect cid a a"
  by (simp add: client_effect_def)

lemma send_loop_not_lost: "\<not> lost (fst (send_loop send k n t))"
  by (induction send k n t rule: send_loop.induct) (subst send_loop.simps, simp add: lost_def)

lemma send_all_result:
  assumes "swbt_ipc_socket_send_all env (Some s) (Some d) n = (r, sent)"
  shows "\<not> lost r"
proof (cases "sock_open s")
  case True
  then have "r = fst (send_loop (env_send env) 0 n 0)"
    using assms by (simp add: swbt_ipc_socket_send_all_def case_prod_beta)
  then show ?thesis
    using send_loop_not_lost by simp
next
  case False
  then show ?thesis
    using assms by (auto simp: swbt_ipc_socket_send_all_def lost_def)
qed

lemma serve_outcome_ex:
  assumes "serves s bound ctl a" "domain_inv a" "build_ok (env_build env)" "conn_ok c" "conn_open c"
  shows "\<exists>r s' bound' c' a' sent. swbt_ipc_server_serve_connection_once_internal env (Some s) bound (Some c) hb t =
      Some (r, Some s', bound', Some c', sent) \<and> serves s' bound' ctl a' \<and> serve_outcome s c a r s' c' a'"
proof -
  obtain r c' line complete where rd: "swbt_ipc_read_line env (Some c) (SWBT_IPC_JSON_LINE_MAX + 1) = Some (r, Some c', line, complete)"
    and out: "read_outcome c r c' line complete"
    using read_line_outcome [OF assms(4,5)] by blast
  have c': "conn_ok c'" "conn_client_id c' = conn_client_id c" "conn_open c'"
    using out same_peer_fields [of c c'] assms(5) by (auto simp: read_outcome_def)
  obtain dr a1 where a1: "swbt_ipc_adapter_handle_disconnect (server_control s bound) (conn_client_id c) = (dr, Some ctl, Some a1)"
    "client_gone (conn_client_id c) a a1"
    using disconnect_gone(1) [OF assms(2)] assms(1) unfolding serves_def by metis
  obtain s1 bound1 where st1: "store_control s bound (Some ctl, Some a1) = (s1, bound1)"
    by (rule prod.exhaust)
  obtain resp a2 where a2: "swbt_ipc_adapter_handle_line (env_build env) (env_reader env) (server_control s bound)
      (conn_client_id c) (Some (c_str_of line)) (Some []) SWBT_IPC_JSON_RESPONSE_MAX = (SWBT_IPC_JSON_OK, Some resp, Some ctl, Some a2)"
    "client_effect (conn_client_id c) a a2"
    using handle_line_effect [OF assms(2,3)] assms(1) unfolding serves_def by metis
  obtain s2 bound2 where st2: "store_control s bound (Some ctl, Some a2) = (s2, bound2)"
    by (rule prod.exhaust)
  obtain c2 where c2: "(if hb then swbt_ipc_connection_record_heartbeat (Some c') t else Some c') = Some c2"
    "conn_ok c2" "conn_client_id c2 = conn_client_id c" "conn_open c2"
    using heartbeat_conn [OF c'(1), of t] c' by (cases hb) auto
  obtain c3 where c3: "swbt_ipc_connection_close (Some c') = Some c3" "conn_ok c3"
    using close_conn [OF c'(1)] by auto
  note serve = swbt_ipc_server_serve_connection_once_internal_def rd [unfolded Suc_eq_plus1 [symmetric]] a1(1) a2(1) st1 st2 c2(1) c3(1) Let_def
  note outcome = serve_outcome_def lost_def store_control_fields [OF st1] store_control_fields [OF st2]
    c' c2(2-4) c3(2)
  note effects = store_control_serves [OF assms(1) st1] store_control_serves [OF assms(1) st2] a1(2) a2(2) assms(1)
    client_effect_refl [OF assms(2), of "conn_client_id c"]
  consider (gone) "r = SWBT_IPC_SERVER_ERROR_DISCONNECTED \<or> r = SWBT_IPC_SERVER_ERROR_SOCKET"
    | (long) "r = SWBT_IPC_SERVER_ERROR_MESSAGE_TOO_LONG" | (partial) "r = SWBT_IPC_SERVER_OK" "\<not> complete"
    | (empty) "r = SWBT_IPC_SERVER_OK" complete "resp = []" | (answer) "r = SWBT_IPC_SERVER_OK" complete "resp \<noteq> []"
    using out by (auto simp: read_outcome_def)
  then show ?thesis
  proof cases
    case answer
    obtain sr sent where sr: "swbt_ipc_socket_send_all env (Some (conn_socket c2)) (Some resp) (length resp) = (sr, sent)"
      by (rule prod.exhaust)
    then show ?thesis
      using answer send_all_result [OF sr] effects assms(5) by (auto simp: serve outcome)
  qed (use effects assms(5) in \<open>auto simp: serve outcome\<close>)
qed

section \<open>Properties\<close>

text \<open>C17: Lines are framed independently of how the stream is cut into pieces: when the bytes of a line
  (shorter than 8192 characters) arrive over any number of calls, in any pieces, and the newline in a
  later call, then every call before returns without a line, and the last one returns exactly the bytes
  of the line, with nothing left behind for the next one.\<close>

theorem ipc_framing:
  assumes "conn_ok c" "conn_open c" "pending c = []" "list_all2 delivers evs pieces" "delivers_line ev piece"
    "CHR 0x0A \<notin> set (concat pieces @ piece)" "length (concat pieces @ piece) < SWBT_IPC_JSON_LINE_MAX"
  shows "\<exists>c' c''. read_calls env evs c = Some c'
    \<and> swbt_ipc_read_line (env\<lparr>env_read := ev\<rparr>) (Some c') (SWBT_IPC_JSON_LINE_MAX + 1) =
        Some (SWBT_IPC_SERVER_OK, Some c'', concat pieces @ piece @ [CHR 0x0A], True)
    \<and> conn_ok c'' \<and> conn_open c'' \<and> pending c'' = []"
proof -
  obtain c' where c': "read_calls env evs c = Some c'" "conn_ok c'" "conn_open c'" "pending c' = concat pieces"
    using read_calls_pending [OF assms(1,2,4), of env] assms(3,6,7) by auto
  then show ?thesis
    using read_line_last [OF c'(2,3) assms(5), of env] assms(6,7) by auto
qed

definition demo_connection :: swbt_ipc_connection_t where
  "demo_connection = \<lparr>conn_socket = \<lparr>sock_handle = 5, sock_open = True\<rparr>, conn_client_id = 1,
     conn_line_buffer = replicate (SWBT_IPC_JSON_LINE_MAX + 1) NUL, conn_line_length = 0, conn_last_heartbeat_ms = 0,
     conn_heartbeat_timeout_ms = 0, conn_heartbeat_enabled = False, conn_open = True\<rparr>"

definition demo_ipc_env :: ipc_env where
  "demo_ipc_env = \<lparr>env_build = demo_build, env_reader = None, env_pending = NotReady, env_read = (\<lambda>_. NotReady),
     env_send = (\<lambda>_. 7), env_socket = Some 3, env_setsockopt_ok = True, env_bind_ok = True, env_listen_ok = True,
     env_sockname = Some 8765, env_accept = Some 4\<rparr>"

definition demo_events :: "string \<Rightarrow> nat \<Rightarrow> read_event" where
  "demo_events bs i = (if i < length bs then Ready (Received [bs ! i]) else NotReady)"

lemma demo_connection_ok: "conn_ok demo_connection" "conn_open demo_connection" "pending demo_connection = []"
  by (simp_all add: demo_connection_def conn_ok_def pending_def)

theorem ipc_framing_witness:
  "\<exists>c' c''. read_calls demo_ipc_env [demo_events ''{'', demo_events []] demo_connection = Some c'
    \<and> swbt_ipc_read_line (demo_ipc_env\<lparr>env_read := demo_events (''}'' @ [CHR 0x0A])\<rparr>) (Some c') (SWBT_IPC_JSON_LINE_MAX + 1) =
        Some (SWBT_IPC_SERVER_OK, Some c'', ''{}'' @ [CHR 0x0A], True)"
proof -
  have d: "list_all2 delivers [demo_events ''{'', demo_events []] [''{'', []]"
    by (simp add: delivers_def demo_events_def)
  have l: "delivers_line (demo_events (''}'' @ [CHR 0x0A])) ''}''"
    by (simp add: delivers_line_def demo_events_def)
  have "CHR 0x0A \<notin> set (concat [''{'', []] @ ''}'')" "length (concat [''{'', []] @ ''}'') < SWBT_IPC_JSON_LINE_MAX"
    by (simp_all add: SWBT_IPC_JSON_LINE_MAX_def)
  from ipc_framing [OF demo_connection_ok d l this, of demo_ipc_env] show ?thesis
    by auto
qed

lemma send_loop_all:
  "fst (send_loop send k n t) = (if snd (send_loop send k n t) < n then SWBT_IPC_SERVER_ERROR_SOCKET else SWBT_IPC_SERVER_OK)"
  by (induction send k n t rule: send_loop.induct) (subst (1 2) send_loop.simps, simp)

text \<open>C18: Reading always comes to an end within the line buffer: whatever events the socket produces, even
  an endless stream of bytes, one call returns, writes nothing out of bounds, leaves the connection
  well-formed and its identity alone, and a complete line ends in a newline and has at most 8192
  characters. Sending a response returns for every behaviour of the socket, and reports success exactly
  when the whole response was handed over.\<close>

theorem ipc_io_terminates:
  assumes "conn_ok c" "conn_open c"
  shows "\<exists>r c' line complete sr sent.
      swbt_ipc_read_line env (Some c) (SWBT_IPC_JSON_LINE_MAX + 1) = Some (r, Some c', line, complete)
    \<and> conn_ok c' \<and> conn_client_id c' = conn_client_id c \<and> conn_open c'
    \<and> (if complete then r = SWBT_IPC_SERVER_OK \<and> last line = CHR 0x0A \<and> length line \<le> SWBT_IPC_JSON_LINE_MAX else line = [])
    \<and> swbt_ipc_socket_send_all env (Some (conn_socket c)) (Some resp) (length resp) = (sr, sent)
    \<and> sent = take (length sent) resp
    \<and> sr = (if sent = resp then SWBT_IPC_SERVER_OK else SWBT_IPC_SERVER_ERROR_SOCKET)"
proof -
  obtain r c' line complete where rd: "swbt_ipc_read_line env (Some c) (SWBT_IPC_JSON_LINE_MAX + 1) = Some (r, Some c', line, complete)"
    and out: "read_outcome c r c' line complete"
    using read_line_outcome [OF assms] by blast
  obtain sr sent where sl: "send_loop (env_send env) 0 (length resp) 0 = (sr, sent)"
    by (rule prod.exhaust)
  have sa: "swbt_ipc_socket_send_all env (Some (conn_socket c)) (Some resp) (length resp) = (sr, take sent resp)"
    using assms sl by (simp add: swbt_ipc_socket_send_all_def conn_ok_def)
  have "sr = (if take sent resp = resp then SWBT_IPC_SERVER_OK else SWBT_IPC_SERVER_ERROR_SOCKET)"
    using send_loop_all [of "env_send env" 0 "length resp" 0] sl by (auto simp: take_all_iff)
  moreover have "take sent resp = take (length (take sent resp)) resp"
    by (simp add: min_def)
  ultimately show ?thesis
    unfolding rd sa using out same_peer_fields [of c c'] assms(2) by (auto simp: read_outcome_def)
qed

theorem ipc_io_terminates_witness:
  "\<exists>r c' line complete. swbt_ipc_read_line (demo_ipc_env\<lparr>env_read := (\<lambda>_. Ready (Received ''x''))\<rparr>) (Some demo_connection)
      (SWBT_IPC_JSON_LINE_MAX + 1) = Some (r, Some c', line, complete) \<and> conn_ok c'"
  using ipc_io_terminates [OF demo_connection_ok(1,2), of "demo_ipc_env\<lparr>env_read := (\<lambda>_. Ready (Received ''x''))\<rparr>" "''ok''"]
  by blast

end
