(* ===== verification/Addresses.thy ===== *)
theory Addresses
  imports CString
begin

text \<open>
  The textual addresses of the configuration: the Bluetooth address of the console
  (\<open>daemon/switch_address.c\<close>) and the location of the USB adapter
  (\<open>btstack_bridge/usb_adapter_location.c\<close>). The result of a function that reads a
  C string is wrapped in an option, None being a read out of bounds.
\<close>

section \<open>Switch address\<close>

definition SWBT_DAEMON_SWITCH_ADDRESS_TEXT_SIZE :: nat where
  "SWBT_DAEMON_SWITCH_ADDRESS_TEXT_SIZE = 18"

text \<open>The two digit readers; None is the result false. Their output pointers are never NULL.\<close>

definition swbt_daemon_switch_address_hex_digit_to_upper :: "char \<Rightarrow> char option" where
  "swbt_daemon_switch_address_hex_digit_to_upper v =
     (if in_range (CHR ''0'') (CHR ''9'') v then Some v
      else if in_range (CHR ''a'') (CHR ''f'') v
      then Some (char_of (ccode v - ccode (CHR ''a'') + ccode (CHR ''A'')))
      else if in_range (CHR ''A'') (CHR ''F'') v then Some v
      else None)"

definition swbt_daemon_switch_address_hex_nibble :: "char \<Rightarrow> u8 option" where
  "swbt_daemon_switch_address_hex_nibble v =
     (if in_range (CHR ''0'') (CHR ''9'') v then Some (of_nat (ccode v - ccode (CHR ''0'')))
      else if in_range (CHR ''a'') (CHR ''f'') v then Some (of_nat (ccode v - ccode (CHR ''a'') + 10))
      else if in_range (CHR ''A'') (CHR ''F'') v then Some (of_nat (ccode v - ccode (CHR ''A'') + 10))
      else None)"

definition swbt_daemon_switch_address_hex_digit_upper :: "u8 \<Rightarrow> char" where
  "swbt_daemon_switch_address_hex_digit_upper v =
     char_of (unat (if v < 10 then of_nat (ccode (CHR ''0'')) + v else of_nat (ccode (CHR ''A'')) + (v - 10)))"

text \<open>
  The loops run over the indices that the C loops count through. The first
  component of a result is the returned bool.
\<close>

fun normalize_loop :: "string \<Rightarrow> nat list \<Rightarrow> char list \<Rightarrow> (bool \<times> char list) option" where
  "normalize_loop address [] normalized = Some (True, normalized)"
| "normalize_loop address (index # rest) normalized = do {
     c \<leftarrow> c_char address index;
     if c = NUL then Some (False, normalized)
     else if (index + 1) mod 3 = 0
     then (if c \<noteq> CHR '':'' then Some (False, normalized)
           else normalize_loop address rest (normalized[index := CHR '':'']))
     else (case swbt_daemon_switch_address_hex_digit_to_upper c of
             None \<Rightarrow> Some (False, normalized)
           | Some u \<Rightarrow> normalize_loop address rest (normalized[index := u]))
   }"

definition swbt_daemon_switch_address_normalize ::
  "char list option \<Rightarrow> string option \<Rightarrow> (bool \<times> char list option) option" where
  "swbt_daemon_switch_address_normalize dest address = (case (dest, address) of
       (Some d, Some a) \<Rightarrow> do {
         (ok, normalized) \<leftarrow> normalize_loop a [0..<SWBT_DAEMON_SWITCH_ADDRESS_TEXT_SIZE - 1]
           (replicate SWBT_DAEMON_SWITCH_ADDRESS_TEXT_SIZE NUL);
         if \<not> ok then Some (False, dest)
         else do {
           c \<leftarrow> c_char a (SWBT_DAEMON_SWITCH_ADDRESS_TEXT_SIZE - 1);
           if c \<noteq> NUL then Some (False, dest)
           else let normalized = normalized[SWBT_DAEMON_SWITCH_ADDRESS_TEXT_SIZE - 1 := NUL]
                in Some (True, Some (copy_at d 0 normalized))
         }
       }
     | _ \<Rightarrow> Some (False, dest))"

fun parse_bytes_loop :: "string \<Rightarrow> nat list \<Rightarrow> bytes \<Rightarrow> (bool \<times> bytes) option" where
  "parse_bytes_loop text [] address = Some (True, address)"
| "parse_bytes_loop text (index # rest) address = (let offset = index * 3 in do {
     c \<leftarrow> c_char text offset;
     case swbt_daemon_switch_address_hex_nibble c of
       None \<Rightarrow> Some (False, address)
     | Some high \<Rightarrow> do {
         c \<leftarrow> c_char text (offset + 1);
         case swbt_daemon_switch_address_hex_nibble c of
           None \<Rightarrow> Some (False, address)
         | Some low \<Rightarrow> do {
             sep_ok \<leftarrow> (if index < 5 then do { c \<leftarrow> c_char text (offset + 2); Some (c = CHR '':'') } else Some True);
             if \<not> sep_ok then Some (False, address)
             else parse_bytes_loop text rest (address[index := (push_bit 4 high OR low)])
           }
       }
   })"

definition swbt_daemon_switch_address_parse_bytes ::
  "string option \<Rightarrow> bytes option \<Rightarrow> (bool \<times> bytes option) option" where
  "swbt_daemon_switch_address_parse_bytes text address = (case (text, address) of
       (Some t, Some a) \<Rightarrow> do {
         (ok, a) \<leftarrow> parse_bytes_loop t [0..<6] a;
         if \<not> ok then Some (False, Some a)
         else do {
           c \<leftarrow> c_char t (SWBT_DAEMON_SWITCH_ADDRESS_TEXT_SIZE - 1);
           Some (c = NUL, Some a)
         }
       }
     | _ \<Rightarrow> Some (False, address))"

fun format_bytes_loop :: "bytes \<Rightarrow> nat list \<Rightarrow> char list \<Rightarrow> char list" where
  "format_bytes_loop address [] text = text"
| "format_bytes_loop address (index # rest) text =
     (let offset = index * 3;
          text = text[offset := swbt_daemon_switch_address_hex_digit_upper (drop_bit 4 (address ! index))];
          text = text[offset + 1 := swbt_daemon_switch_address_hex_digit_upper (address ! index AND 0x0F)];
          text = (if index < 5 then text[offset + 2 := CHR '':''] else text)
      in format_bytes_loop address rest text)"

definition swbt_daemon_switch_address_format_bytes :: "bytes option \<Rightarrow> char list option \<Rightarrow> char list option" where
  "swbt_daemon_switch_address_format_bytes address text = (case (address, text) of
       (Some a, Some t) \<Rightarrow>
         Some ((format_bytes_loop a [0..<6] t)[SWBT_DAEMON_SWITCH_ADDRESS_TEXT_SIZE - 1 := NUL])
     | _ \<Rightarrow> text)"

subsection \<open>Lemmas\<close>

definition hex_byte :: "u8 \<Rightarrow> string" where
  "hex_byte b = [swbt_daemon_switch_address_hex_digit_upper (drop_bit 4 b),
                 swbt_daemon_switch_address_hex_digit_upper (b AND 0x0F)]"

text \<open>The text of an address: two digits per byte, separated by colons.\<close>

fun address_text :: "bytes \<Rightarrow> string" where
  "address_text [] = []"
| "address_text [b] = hex_byte b"
| "address_text (b # bs) = hex_byte b @ CHR '':'' # address_text bs"

lemma ccode_digit:
  assumes "v < 16"
  shows "ccode (swbt_daemon_switch_address_hex_digit_upper v) = (if unat v < 10 then 48 + unat v else 55 + unat v)"
proof -
  have v: "unat v < 16"
    using assms by (simp add: word_less_nat_alt)
  have "unat (48 + v) = 48 + unat v"
    using v by (simp add: unat_word_ariths)
  moreover have "unat (65 + (v - 10)) = 55 + unat v" if "\<not> unat v < 10"
  proof -
    have "unat (v - 10) = unat v - 10"
      using that by (simp add: unat_sub_if')
    then show ?thesis
      using v that by (simp add: unat_word_ariths)
  qed
  ultimately show ?thesis
    using v by (simp add: swbt_daemon_switch_address_hex_digit_upper_def word_less_nat_alt ccode_char_of)
qed

lemma nibble_digit [simp]:
  assumes "v < 16"
  shows "swbt_daemon_switch_address_hex_nibble (swbt_daemon_switch_address_hex_digit_upper v) = Some v"
    and "swbt_daemon_switch_address_hex_digit_upper v \<noteq> NUL"
proof -
  have v: "unat v < 16"
    using assms by (simp add: word_less_nat_alt)
  show "swbt_daemon_switch_address_hex_nibble (swbt_daemon_switch_address_hex_digit_upper v) = Some v"
    using v by (auto simp: swbt_daemon_switch_address_hex_nibble_def in_range_def ccode_digit [OF assms])
  show "swbt_daemon_switch_address_hex_digit_upper v \<noteq> NUL"
    using v by (auto simp: ccode_inject [symmetric] ccode_digit [OF assms])
qed

text \<open>A digit that one reader accepts the other accepts too, and printing what was read normalises it.\<close>

lemma nibble_value:
  assumes "swbt_daemon_switch_address_hex_nibble c = Some v"
  shows "48 \<le> ccode c \<and> ccode c \<le> 57 \<and> unat v = ccode c - 48
    \<or> 97 \<le> ccode c \<and> ccode c \<le> 102 \<and> unat v = ccode c - 87
    \<or> 65 \<le> ccode c \<and> ccode c \<le> 70 \<and> unat v = ccode c - 55"
  using assms
  by (auto simp: swbt_daemon_switch_address_hex_nibble_def in_range_def unat_of_nat_small simp del: of_nat_diff of_nat_add
      split: if_splits)

lemma nibble_small: "swbt_daemon_switch_address_hex_nibble c = Some v \<Longrightarrow> v < 16"
  using nibble_value [of c v] by (auto simp: word_less_nat_alt)

lemma upper_nibble:
  "swbt_daemon_switch_address_hex_digit_to_upper c =
     map_option swbt_daemon_switch_address_hex_digit_upper (swbt_daemon_switch_address_hex_nibble c)"
proof (cases "swbt_daemon_switch_address_hex_nibble c")
  case None
  then show ?thesis
    by (auto simp: swbt_daemon_switch_address_hex_nibble_def swbt_daemon_switch_address_hex_digit_to_upper_def
        split: if_splits)
next
  case (Some v)
  have "ccode (the (swbt_daemon_switch_address_hex_digit_to_upper c)) = ccode (swbt_daemon_switch_address_hex_digit_upper v)"
    "swbt_daemon_switch_address_hex_digit_to_upper c \<noteq> None"
    using nibble_value [OF Some] ccode_digit [OF nibble_small [OF Some]]
    by (auto simp: swbt_daemon_switch_address_hex_digit_to_upper_def in_range_def ccode_char_of)
  then show ?thesis
    using Some by (auto simp: ccode_inject)
qed

lemma NUL_not_colon [simp]: "NUL \<noteq> CHR '':''"
  by (simp add: NUL_def)

lemma nibble_NUL [simp]: "swbt_daemon_switch_address_hex_nibble NUL = None"
  by (simp add: swbt_daemon_switch_address_hex_nibble_def in_range_def)

lemma byte_nibbles:
  "drop_bit 4 b < (16 :: u8)" "b AND 0x0F < (16 :: u8)" "push_bit 4 (drop_bit 4 b) OR (b AND 0x0F) = (b :: u8)"
proof -
  have low: "b AND 0x0F = take_bit 4 b"
    by (simp add: mask_words take_bit_eq_mask)
  have "unat (drop_bit 4 b) < 16"
    using unsigned_less [of b, where 'a = nat] by (simp add: drop_bit_eq_div unat_div)
  moreover have "unat (b AND 0x0F) < 16"
    using take_bit_nat_less_exp [of 4 "unat b"] by (simp add: low unsigned_take_bit_eq)
  ultimately show "drop_bit 4 b < (16 :: u8)" "b AND 0x0F < (16 :: u8)"
    by (simp_all add: word_less_nat_alt)
  show "push_bit 4 (drop_bit 4 b) OR (b AND 0x0F) = b"
    unfolding low by (rule bit_word_eqI) (auto simp: bit_simps)
qed


text \<open>The grammar of addresses: seventeen characters, a colon at every third place, digits elsewhere.\<close>

definition address_char_ok :: "string \<Rightarrow> nat \<Rightarrow> bool" where
  "address_char_ok t i \<longleftrightarrow> i < length t \<and>
     (if (i + 1) mod 3 = 0 then t ! i = CHR '':'' else swbt_daemon_switch_address_hex_nibble (t ! i) \<noteq> None)"

definition address_byte :: "string \<Rightarrow> nat \<Rightarrow> u8" where
  "address_byte t j = push_bit 4 (the (swbt_daemon_switch_address_hex_nibble (t ! (3 * j))))
     OR the (swbt_daemon_switch_address_hex_nibble (t ! (3 * j + 1)))"

definition address_of :: "string \<Rightarrow> bytes option" where
  "address_of t = (if length t = 17 \<and> (\<forall>i < 17. address_char_ok t i)
     then Some (map (address_byte t) [0..<6]) else None)"

definition upper_char :: "string \<Rightarrow> nat \<Rightarrow> char" where
  "upper_char t i = (if (i + 1) mod 3 = 0 then CHR '':''
     else swbt_daemon_switch_address_hex_digit_upper (the (swbt_daemon_switch_address_hex_nibble (t ! i))))"

lemma normalize_loop_eq:
  assumes "c_string t" "k \<le> 17" "k \<le> length t" "length norm = 18"
  shows "\<exists>norm'. normalize_loop t [k..<17] norm = Some (\<forall>i \<in> {k..<17}. address_char_ok t i, norm')
    \<and> ((\<forall>i \<in> {k..<17}. address_char_ok t i) \<longrightarrow>
        norm' = take k norm @ map (upper_char t) [k..<17] @ drop 17 norm)"
  using assms
proof (induction "17 - k" arbitrary: k norm)
  case 0
  then show ?case
    by simp
next
  case (Suc n)
  have upt: "[k..<17] = k # [Suc k..<17]" and range: "{k..<17} = insert k {Suc k..<17}"
    using Suc.hyps(2) by (auto simp: upt_rec)
  show ?case
  proof (cases "address_char_ok t k")
    case True
    let ?norm = "norm[k := upper_char t k]"
    have step: "normalize_loop t [k..<17] norm = normalize_loop t [Suc k..<17] ?norm"
      using True c_string_nth [OF Suc.prems(1), of k]
      by (auto simp: upt address_char_ok_def upper_char_def upper_nibble split: if_splits)
    have "n = 17 - Suc k" "Suc k \<le> 17" "Suc k \<le> length t" "length ?norm = 18"
      using Suc.hyps(2) Suc.prems(4) True by (auto simp: address_char_ok_def)
    from Suc.hyps(1) [OF this(1) Suc.prems(1) this(2-4)] obtain norm' where "normalize_loop t [Suc k..<17] ?norm = Some (\<forall>i \<in> {Suc k..<17}. address_char_ok t i, norm')"
      "(\<forall>i \<in> {Suc k..<17}. address_char_ok t i) \<longrightarrow> norm' = take (Suc k) ?norm @ map (upper_char t) [Suc k..<17] @ drop 17 ?norm"
      by blast
    then show ?thesis
      using True Suc.prems(4) Suc.hyps(2) step by (auto simp: range upt take_Suc_conv_app_nth)
  next
    case False
    then have "normalize_loop t [k..<17] norm = Some (False, norm)"
      using Suc.prems(3) by (auto simp: upt address_char_ok_def upper_nibble c_char_def split: if_splits)
    then show ?thesis
      using False by (auto simp: range)
  qed
qed


lemma normalize_eq:
  assumes "c_string t" "length dest = 18"
  shows "swbt_daemon_switch_address_normalize (Some dest) (Some t) =
    (if length t = 17 \<and> (\<forall>i < 17. address_char_ok t i)
     then Some (True, Some (map (upper_char t) [0..<17] @ [NUL])) else Some (False, Some dest))"
proof -
  let ?blank = "replicate 18 NUL" and ?ok = "\<forall>i \<in> {0..<17}. address_char_ok t i"
  have ok_iff: "?ok = (\<forall>i < 17. address_char_ok t i)"
    by auto
  obtain norm where norm: "normalize_loop t [0..<17] ?blank = Some (?ok, norm)"
    "?ok \<longrightarrow> norm = map (upper_char t) [0..<17] @ [NUL]"
    using normalize_loop_eq [OF assms(1), of 0 ?blank] by (auto simp: drop_replicate)
  show ?thesis
  proof (cases ?ok)
    case True
    then have "address_char_ok t 16"
      by simp
    then have len: "17 \<le> length t"
      by (simp add: address_char_ok_def)
    have nul: "t ! 17 \<noteq> NUL" if "17 < length t"
      using c_string_nth [OF assms(1) that] .
    have "(map (upper_char t) [0..<17] @ [NUL])[17 := NUL] = map (upper_char t) [0..<17] @ [NUL]"
      by (simp add: list_update_append)
    then show ?thesis
      using True norm len nul assms(2) ok_iff
      by (auto simp: swbt_daemon_switch_address_normalize_def SWBT_DAEMON_SWITCH_ADDRESS_TEXT_SIZE_def c_char_def
          copy_at_all)
  next
    case False
    then show ?thesis
      using norm ok_iff
      by (auto simp: swbt_daemon_switch_address_normalize_def SWBT_DAEMON_SWITCH_ADDRESS_TEXT_SIZE_def)
  qed
qed

definition chunk_ok :: "string \<Rightarrow> nat \<Rightarrow> bool" where
  "chunk_ok t j \<longleftrightarrow> address_char_ok t (3 * j) \<and> address_char_ok t (3 * j + 1) \<and> (j < 5 \<longrightarrow> address_char_ok t (3 * j + 2))"

lemma chunk_mod: "(3 * j + 1) mod 3 = (1 :: nat)" "(3 * j + 1 + 1) mod 3 = (2 :: nat)" "(3 * j + 2 + 1) mod 3 = (0 :: nat)"
  by presburger+

lemma chunk_ok_eq:
  "chunk_ok t j \<longleftrightarrow> 3 * j + 1 < length t \<and> swbt_daemon_switch_address_hex_nibble (t ! (3 * j)) \<noteq> None
     \<and> swbt_daemon_switch_address_hex_nibble (t ! (3 * j + 1)) \<noteq> None
     \<and> (j < 5 \<longrightarrow> 3 * j + 2 < length t \<and> t ! (3 * j + 2) = CHR '':'')"
  unfolding chunk_ok_def address_char_ok_def chunk_mod by auto

lemma chunks_chars: "(\<forall>j \<in> {0..<6}. chunk_ok t j) \<longleftrightarrow> (\<forall>i < 17. address_char_ok t i)"
proof
  assume "\<forall>i < 17. address_char_ok t i"
  then show "\<forall>j \<in> {0..<6}. chunk_ok t j"
    by (auto simp: chunk_ok_def)
next
  assume chunks: "\<forall>j \<in> {0..<6}. chunk_ok t j"
  show "\<forall>i < 17. address_char_ok t i"
  proof (intro allI impI)
    fix i :: nat assume "i < 17"
    then obtain j where j: "j < 6" "i = 3 * j \<or> i = 3 * j + 1 \<or> i = 3 * j + 2 \<and> j < 5"
      by (intro that [of "i div 3"]) presburger+
    then have "chunk_ok t j"
      using chunks by simp
    with j(2) show "address_char_ok t i"
      by (auto simp: chunk_ok_def)
  qed
qed

lemma parse_bytes_loop_eq:
  assumes "c_string t" "k \<le> 6" "3 * k \<le> length t \<or> k = 6" "length a = 6"
  shows "\<exists>a'. parse_bytes_loop t [k..<6] a = Some (\<forall>j \<in> {k..<6}. chunk_ok t j, a') \<and> length a' = 6
    \<and> ((\<forall>j \<in> {k..<6}. chunk_ok t j) \<longrightarrow> a' = take k a @ map (address_byte t) [k..<6])"
  using assms
proof (induction "6 - k" arbitrary: k a)
  case 0
  then show ?case
    by simp
next
  case (Suc n)
  have upt: "[k..<6] = k # [Suc k..<6]" and range: "{k..<6} = insert k {Suc k..<6}" and k: "k < 6" "3 * k \<le> length t"
    using Suc.hyps(2) Suc.prems(3) by (auto simp: upt_rec)
  show ?case
  proof (cases "chunk_ok t k")
    case True
    let ?a = "a[k := address_byte t k]"
    have step: "parse_bytes_loop t [k..<6] a = parse_bytes_loop t [Suc k..<6] ?a"
      using True by (auto simp: upt chunk_ok_eq address_byte_def mult.commute Let_def)
    have "n = 6 - Suc k" "Suc k \<le> 6" "3 * Suc k \<le> length t \<or> Suc k = 6" "length ?a = 6"
      using Suc.hyps(2) Suc.prems(4) True k by (auto simp: chunk_ok_eq)
    from Suc.hyps(1) [OF this(1) Suc.prems(1) this(2-4)] obtain a' where
      "parse_bytes_loop t [Suc k..<6] ?a = Some (\<forall>j \<in> {Suc k..<6}. chunk_ok t j, a')" "length a' = 6"
      "(\<forall>j \<in> {Suc k..<6}. chunk_ok t j) \<longrightarrow> a' = take (Suc k) ?a @ map (address_byte t) [Suc k..<6]"
      by blast
    then show ?thesis
      using True Suc.prems(4) k step by (auto simp: range upt take_Suc_conv_app_nth)
  next
    case False
    have "parse_bytes_loop t [k..<6] a = Some (False, a)"
      using False k
      by (cases "3 * k < length t"; cases "3 * k + 1 < length t"; cases "3 * k + 2 < length t")
         (auto simp: upt chunk_ok_eq c_char_def mult.commute Let_def split: option.splits)
    then show ?thesis
      using False Suc.prems(4) by (auto simp: range)
  qed
qed


lemma parse_bytes_eq:
  assumes "c_string t" "length a = 6"
  shows "\<exists>a'. swbt_daemon_switch_address_parse_bytes (Some t) (Some a) = Some (address_of t \<noteq> None, Some a')
    \<and> length a' = 6 \<and> (\<forall>b. address_of t = Some b \<longrightarrow> a' = b)"
proof -
  let ?ok = "\<forall>j \<in> {0..<6}. chunk_ok t j"
  obtain a' where a': "parse_bytes_loop t [0..<6] a = Some (?ok, a')" "length a' = 6"
    "?ok \<longrightarrow> a' = map (address_byte t) [0..<6]"
    using parse_bytes_loop_eq [OF assms(1), of 0 a] assms(2) by auto
  show ?thesis
  proof (cases ?ok)
    case True
    then have all: "\<forall>i < 17. address_char_ok t i"
      by (simp add: chunks_chars)
    then have "address_char_ok t 16"
      by simp
    then have len: "17 \<le> length t"
      by (simp add: address_char_ok_def)
    have "t ! 17 \<noteq> NUL" if "17 < length t"
      using c_string_nth [OF assms(1) that] .
    then show ?thesis
      using True a' all len
      by (auto simp: swbt_daemon_switch_address_parse_bytes_def SWBT_DAEMON_SWITCH_ADDRESS_TEXT_SIZE_def address_of_def c_char_def)
  next
    case False
    then have "\<not> (\<forall>i < 17. address_char_ok t i)"
      by (simp add: chunks_chars)
    then have "address_of t = None"
      by (simp add: address_of_def)
    then show ?thesis
      using False a' by (simp add: swbt_daemon_switch_address_parse_bytes_def)
  qed
qed

lemma list6: "length xs = 6 \<Longrightarrow> \<exists>a b c d e f. xs = [a, b, c, d, e, f]"
  by (auto simp: numeral_eq_Suc length_Suc_conv)

lemma list18: "length xs = 18 \<Longrightarrow> \<exists>a b c d e f g h i j k l m n p q r s. xs = [a, b, c, d, e, f, g, h, i, j, k, l, m, n, p, q, r, s]"
  by (auto simp: numeral_eq_Suc length_Suc_conv)

lemma format_bytes_eq:
  assumes "length b = 6" "length out = 18"
  shows "swbt_daemon_switch_address_format_bytes (Some b) (Some out) = Some (address_text b @ [NUL])"
proof -
  obtain b0 b1 b2 b3 b4 b5 where b: "b = [b0, b1, b2, b3, b4, b5]"
    using list6 [OF assms(1)] by blast
  have six: "[0..<6] = [0, 1, 2, 3, 4, 5 :: nat]"
    by (simp add: upt_rec)
  show ?thesis
    using list18 [OF assms(2)]
    by (auto simp: swbt_daemon_switch_address_format_bytes_def b six hex_byte_def Let_def
        SWBT_DAEMON_SWITCH_ADDRESS_TEXT_SIZE_def)
qed

text \<open>The normalised text of an address is the printed form of the address it denotes.\<close>

lemma byte_of_nibbles:
  assumes "x < 16" "y < (16 :: u8)"
  shows "drop_bit 4 (push_bit 4 x OR y) = x" "(push_bit 4 x OR y) AND 0x0F = y"
proof -
  have x: "take_bit 4 x = x" and y: "take_bit 4 y = y"
    using assms by (simp_all add: word_unat_eq_iff unsigned_take_bit_eq take_bit_nat_eq_self word_less_nat_alt)
  have "bit (drop_bit 4 (push_bit 4 x OR y)) n = bit x n" for n
    by (subst (2) x [symmetric], subst y [symmetric]) (auto simp: bit_simps)
  then show "drop_bit 4 (push_bit 4 x OR y) = x"
    by (simp add: bit_eq_iff)
  have "bit ((push_bit 4 x OR y) AND 0x0F) n = bit y n" for n
    by (subst (2) y [symmetric]) (auto simp: bit_simps mask_words)
  then show "(push_bit 4 x OR y) AND 0x0F = y"
    by (simp add: bit_eq_iff)
qed

lemma upper_text:
  assumes "address_of t = Some b"
  shows "map (upper_char t) [0..<17] = address_text b" "length b = 6"
proof -
  have ok: "address_char_ok t i" if "i < 17" for i
    using assms that by (auto simp: address_of_def split: if_splits)
  have b: "b = map (address_byte t) [0..<6]"
    using assms by (auto simp: address_of_def split: if_splits)
  have digit: "hex_byte (address_byte t j) = [upper_char t (3 * j), upper_char t (3 * j + 1)]" if "j < 6" for j
  proof -
    have "address_char_ok t (3 * j)" "address_char_ok t (3 * j + 1)"
      using that by (auto intro!: ok)
    then obtain x y where "swbt_daemon_switch_address_hex_nibble (t ! (3 * j)) = Some x"
        "swbt_daemon_switch_address_hex_nibble (t ! (3 * j + 1)) = Some y"
      unfolding address_char_ok_def chunk_mod by auto
    then show ?thesis
      using nibble_small byte_of_nibbles [of x y]
      unfolding hex_byte_def address_byte_def upper_char_def chunk_mod by simp
  qed
  have six: "[0..<6] = [0, 1, 2, 3, 4, 5 :: nat]"
    and seventeen: "[0..<17] = [0, 1, 2, 3, 4, 5, 6, 7, 8, 9, 10, 11, 12, 13, 14, 15, 16 :: nat]"
    by (simp_all add: upt_rec)
  show "map (upper_char t) [0..<17] = address_text b"
    using digit [of 0] digit [of 1] digit [of 2] digit [of 3] digit [of 4] digit [of 5]
    by (simp add: b six seventeen) (simp add: upper_char_def)
  show "length b = 6"
    by (simp add: b)
qed


lemma address_text_ok:
  assumes "length b = 6"
  shows "address_of (address_text b) = Some b" "c_string (address_text b)"
proof -
  obtain b0 b1 b2 b3 b4 b5 where b: "b = [b0, b1, b2, b3, b4, b5]"
    using list6 [OF assms] by blast
  have six: "[0..<6] = [0, 1, 2, 3, 4, 5 :: nat]"
    by (simp add: upt_rec)
  have all: "(\<forall>i < 17. P i) = (P 0 \<and> P 1 \<and> P 2 \<and> P 3 \<and> P 4 \<and> P 5 \<and> P 6 \<and> P 7 \<and> P 8 \<and> P 9 \<and> P 10
      \<and> P 11 \<and> P 12 \<and> P 13 \<and> P 14 \<and> P 15 \<and> P (16 :: nat))" for P
    by (simp add: numeral_eq_Suc All_less_Suc conj_ac)
  show "address_of (address_text b) = Some b"
    by (simp add: address_of_def all address_char_ok_def b hex_byte_def six address_byte_def byte_nibbles)
  show "c_string (address_text b)"
    using nibble_digit(2) [THEN not_sym] by (simp add: c_string_def b hex_byte_def byte_nibbles)
qed

section \<open>USB adapter location\<close>

definition SWBT_BTSTACK_USB_ADAPTER_LOCATION_MAX_PORTS :: nat where
  "SWBT_BTSTACK_USB_ADAPTER_LOCATION_MAX_PORTS = 7"

datatype swbt_btstack_usb_adapter_location_result_t =
    SWBT_BTSTACK_USB_ADAPTER_LOCATION_OK
  | SWBT_BTSTACK_USB_ADAPTER_LOCATION_ERROR_INVALID_ARGUMENT
  | SWBT_BTSTACK_USB_ADAPTER_LOCATION_ERROR_INVALID_FORMAT
  | SWBT_BTSTACK_USB_ADAPTER_LOCATION_ERROR_UNSUPPORTED_BACKEND
  | SWBT_BTSTACK_USB_ADAPTER_LOCATION_ERROR_BACKEND

datatype swbt_btstack_usb_adapter_location_backend_t =
    SWBT_BTSTACK_USB_ADAPTER_LOCATION_BACKEND_NONE
  | SWBT_BTSTACK_USB_ADAPTER_LOCATION_BACKEND_WINUSB
  | SWBT_BTSTACK_USB_ADAPTER_LOCATION_BACKEND_LIBUSB

record swbt_btstack_usb_adapter_location_t =
  loc_backend :: swbt_btstack_usb_adapter_location_backend_t
  winusb_location_path :: "string option"
  libusb_bus :: u8
  libusb_port_count :: int
  libusb_ports :: bytes

text \<open>
  A cursor into a C string is the rest of the string; at its end it reads the
  terminator. \<open>swbt_btstack_usb_adapter_location_parse_u8\<close> returns whether it
  succeeded, the cursor and the value.
\<close>

definition swbt_btstack_usb_adapter_location_has_prefix :: "string \<Rightarrow> string \<Rightarrow> bool" where
  "swbt_btstack_usb_adapter_location_has_prefix text prefix \<longleftrightarrow> take (length prefix) text = prefix"

definition swbt_btstack_usb_adapter_location_is_digit :: "char \<Rightarrow> bool" where
  "swbt_btstack_usb_adapter_location_is_digit v \<longleftrightarrow> in_range (CHR ''0'') (CHR ''9'') v"

fun parse_u8_loop :: "string \<Rightarrow> int \<Rightarrow> bool \<Rightarrow> (string \<times> int \<times> bool) option" where
  "parse_u8_loop [] v has_digit = Some ([], v, has_digit)"
| "parse_u8_loop (c # cursor) v has_digit =
     (if swbt_btstack_usb_adapter_location_is_digit c
      then let v = v * 10 + (int (ccode c) - int (ccode (CHR ''0'')))
           in if v > 255 then None else parse_u8_loop cursor v True
      else Some (c # cursor, v, has_digit))"

definition swbt_btstack_usb_adapter_location_parse_u8 :: "string \<Rightarrow> (string \<times> u8) option" where
  "swbt_btstack_usb_adapter_location_parse_u8 cursor = (case parse_u8_loop cursor 0 False of
       None \<Rightarrow> None
     | Some (cursor, v, has_digit) \<Rightarrow> if \<not> has_digit \<or> v = 0 then None else Some (cursor, of_int v))"

lemma parse_u8_loop_length: "parse_u8_loop s v d = Some (s', v', d') \<Longrightarrow> length s' \<le> length s \<and> (d' \<and> \<not> d \<longrightarrow> length s' < length s)"
  by (induction s v d rule: parse_u8_loop.induct) (auto simp: Let_def split: if_splits)

lemma parse_u8_length:
  "swbt_btstack_usb_adapter_location_parse_u8 s = Some (s', v) \<Longrightarrow> length s' < length s"
  by (auto simp: swbt_btstack_usb_adapter_location_parse_u8_def dest!: parse_u8_loop_length split: option.splits if_splits)

text \<open>The port loop of \<open>swbt_btstack_usb_adapter_location_parse_libusb\<close>; None is an invalid format.\<close>

function parse_ports :: "string \<Rightarrow> nat \<Rightarrow> bytes \<Rightarrow> (nat \<times> bytes) option" where
  "parse_ports cursor port_count ports =
     (if at_cursor cursor = NUL then Some (port_count, ports)
      else if port_count \<ge> SWBT_BTSTACK_USB_ADAPTER_LOCATION_MAX_PORTS then None
      else case swbt_btstack_usb_adapter_location_parse_u8 cursor of
          None \<Rightarrow> None
        | Some (cursor, port) \<Rightarrow>
            let ports = ports[port_count := port]; port_count = port_count + 1 in
            if at_cursor cursor = CHR ''.''
            then (let cursor = tl cursor in
                  if at_cursor cursor = NUL then None else parse_ports cursor port_count ports)
            else if at_cursor cursor \<noteq> NUL then None
            else parse_ports cursor port_count ports)"
  by pat_completeness auto
termination
  by (relation "measure (\<lambda>(cursor, _, _). length cursor)") (auto dest!: parse_u8_length)

definition zero_location :: swbt_btstack_usb_adapter_location_t where
  "zero_location = \<lparr>loc_backend = SWBT_BTSTACK_USB_ADAPTER_LOCATION_BACKEND_NONE, winusb_location_path = None,
     libusb_bus = 0, libusb_port_count = 0, libusb_ports = replicate 7 0\<rparr>"

definition swbt_btstack_usb_adapter_location_parse_libusb ::
  "string \<Rightarrow> swbt_btstack_usb_adapter_location_t
   \<Rightarrow> swbt_btstack_usb_adapter_location_result_t \<times> swbt_btstack_usb_adapter_location_t" where
  "swbt_btstack_usb_adapter_location_parse_libusb text out_location =
     (let cursor = drop (length ''libusb:'') text in
      case swbt_btstack_usb_adapter_location_parse_u8 cursor of
        None \<Rightarrow> (SWBT_BTSTACK_USB_ADAPTER_LOCATION_ERROR_INVALID_FORMAT, out_location)
      | Some (cursor, bus) \<Rightarrow>
          if at_cursor cursor \<noteq> CHR '':'' then (SWBT_BTSTACK_USB_ADAPTER_LOCATION_ERROR_INVALID_FORMAT, out_location)
          else let cursor = tl cursor in
            if at_cursor cursor = NUL then (SWBT_BTSTACK_USB_ADAPTER_LOCATION_ERROR_INVALID_FORMAT, out_location)
            else (case parse_ports cursor 0 (replicate SWBT_BTSTACK_USB_ADAPTER_LOCATION_MAX_PORTS 0) of
                None \<Rightarrow> (SWBT_BTSTACK_USB_ADAPTER_LOCATION_ERROR_INVALID_FORMAT, out_location)
              | Some (port_count, ports) \<Rightarrow>
                  let out = zero_location\<lparr>loc_backend := SWBT_BTSTACK_USB_ADAPTER_LOCATION_BACKEND_LIBUSB,
                        libusb_bus := bus, libusb_port_count := int port_count\<rparr>
                  in (SWBT_BTSTACK_USB_ADAPTER_LOCATION_OK,
                      out\<lparr>libusb_ports := copy_at (libusb_ports out) 0 (take port_count ports)\<rparr>)))"

definition swbt_btstack_usb_adapter_location_parse ::
  "string option \<Rightarrow> swbt_btstack_usb_adapter_location_t option
   \<Rightarrow> swbt_btstack_usb_adapter_location_result_t \<times> swbt_btstack_usb_adapter_location_t option" where
  "swbt_btstack_usb_adapter_location_parse text out_location = (case (text, out_location) of
       (Some t, Some _) \<Rightarrow>
         if swbt_btstack_usb_adapter_location_has_prefix t ''winusb:''
         then let location_path = drop (length ''winusb:'') t in
           if at_cursor location_path = NUL
           then (SWBT_BTSTACK_USB_ADAPTER_LOCATION_ERROR_INVALID_FORMAT, Some zero_location)
           else (SWBT_BTSTACK_USB_ADAPTER_LOCATION_OK,
                 Some (zero_location\<lparr>loc_backend := SWBT_BTSTACK_USB_ADAPTER_LOCATION_BACKEND_WINUSB,
                   winusb_location_path := Some location_path\<rparr>))
         else if swbt_btstack_usb_adapter_location_has_prefix t ''libusb:''
         then map_prod id Some (swbt_btstack_usb_adapter_location_parse_libusb t zero_location)
         else (SWBT_BTSTACK_USB_ADAPTER_LOCATION_ERROR_INVALID_FORMAT, Some zero_location)
     | _ \<Rightarrow> (SWBT_BTSTACK_USB_ADAPTER_LOCATION_ERROR_INVALID_ARGUMENT, out_location))"

text \<open>
  Applying a location calls the port: \<open>set_winusb\<close> is the function behind the
  first pointer, if there is one, and the second argument says whether the
  second pointer is set; the calls are the last component of the result.
\<close>

datatype location_call = SetWinusb string | SetLibusb u8 int bytes

definition swbt_btstack_usb_adapter_location_apply ::
  "swbt_btstack_usb_adapter_location_t option \<Rightarrow> ((string \<Rightarrow> int) option \<times> bool) option
   \<Rightarrow> swbt_btstack_usb_adapter_location_result_t \<times> location_call list" where
  "swbt_btstack_usb_adapter_location_apply location port = (case (location, port) of
       (Some l, Some (set_winusb, has_libusb)) \<Rightarrow>
         (case loc_backend l of
            SWBT_BTSTACK_USB_ADAPTER_LOCATION_BACKEND_WINUSB \<Rightarrow>
              (case (winusb_location_path l, set_winusb) of
                 (Some path, Some f) \<Rightarrow>
                   (if f path = 0 then SWBT_BTSTACK_USB_ADAPTER_LOCATION_OK
                    else SWBT_BTSTACK_USB_ADAPTER_LOCATION_ERROR_BACKEND, [SetWinusb path])
               | _ \<Rightarrow> (SWBT_BTSTACK_USB_ADAPTER_LOCATION_ERROR_UNSUPPORTED_BACKEND, []))
          | SWBT_BTSTACK_USB_ADAPTER_LOCATION_BACKEND_LIBUSB \<Rightarrow>
              if libusb_port_count l \<le> 0 \<or> libusb_port_count l > int SWBT_BTSTACK_USB_ADAPTER_LOCATION_MAX_PORTS
                \<or> \<not> has_libusb
              then (SWBT_BTSTACK_USB_ADAPTER_LOCATION_ERROR_UNSUPPORTED_BACKEND, [])
              else let ports = copy_at (replicate SWBT_BTSTACK_USB_ADAPTER_LOCATION_MAX_PORTS 0) 0
                         (take (nat (libusb_port_count l)) (libusb_ports l))
                   in (SWBT_BTSTACK_USB_ADAPTER_LOCATION_OK, [SetLibusb (libusb_bus l) (libusb_port_count l) ports])
          | SWBT_BTSTACK_USB_ADAPTER_LOCATION_BACKEND_NONE \<Rightarrow>
              (SWBT_BTSTACK_USB_ADAPTER_LOCATION_ERROR_INVALID_ARGUMENT, []))
     | _ \<Rightarrow> (SWBT_BTSTACK_USB_ADAPTER_LOCATION_ERROR_INVALID_ARGUMENT, []))"

subsection \<open>Printing locations\<close>

fun port_text :: "bytes \<Rightarrow> string" where
  "port_text [] = []"
| "port_text [p] = decimal (unat p)"
| "port_text (p # ps) = decimal (unat p) @ CHR ''.'' # port_text ps"

definition libusb_text :: "u8 \<Rightarrow> bytes \<Rightarrow> string" where
  "libusb_text bus ports = ''libusb:'' @ decimal (unat bus) @ CHR '':'' # port_text ports"

lemma digit_char:
  assumes "n < 10"
  shows "swbt_btstack_usb_adapter_location_is_digit (char_of (48 + n))" "ccode (char_of (48 + n)) = 48 + n"
    "char_of (48 + n) \<noteq> NUL"
proof -
  show c: "ccode (char_of (48 + n)) = 48 + n"
    using assms by (simp add: ccode_char_of)
  then show "swbt_btstack_usb_adapter_location_is_digit (char_of (48 + n))"
    using assms by (simp add: swbt_btstack_usb_adapter_location_is_digit_def in_range_def)
  show "char_of (48 + n) \<noteq> NUL"
    using c by (auto simp: ccode_inject [symmetric])
qed

lemma parse_u8_loop_decimal:
  "n \<le> 255 \<Longrightarrow> parse_u8_loop (decimal n @ rest) 0 False = parse_u8_loop rest (int n) True"
proof (induction n arbitrary: rest rule: decimal.induct)
  case (1 n)
  show ?case
  proof (cases "n < 10")
    case True
    then show ?thesis
      using digit_char [OF True] by (subst decimal.simps) simp
  next
    case False
    have "int (n div 10) * 10 + int (n mod 10) = int n"
      by (metis div_mult_mod_eq of_nat_add of_nat_mult of_nat_numeral)
    moreover have "n mod 10 < 10" "n div 10 \<le> 255"
      using 1(2) by simp_all
    ultimately show ?thesis
      using 1(1) [OF False] digit_char [of "n mod 10"] 1(2) False
      by (subst decimal.simps) simp
  qed
qed

lemma at_cursor_decimal: "at_cursor (decimal n @ rest) \<noteq> NUL"
proof (induction n arbitrary: rest rule: decimal.induct)
  case (1 n)
  then show ?case
    using digit_char(3) [of n] by (cases "n < 10"; subst decimal.simps) (simp_all add: at_cursor_def)
qed

lemma parse_u8_decimal:
  assumes "v \<noteq> 0" "rest = [] \<or> \<not> swbt_btstack_usb_adapter_location_is_digit (hd rest)"
  shows "swbt_btstack_usb_adapter_location_parse_u8 (decimal (unat v) @ rest) = Some (rest, v)"
proof -
  have "unat v \<le> 255" "unat v \<noteq> 0"
    using unsigned_less [of v, where 'a = nat] assms(1) by (simp_all add: word_unat_eq_iff)
  then have "parse_u8_loop (decimal (unat v) @ rest) 0 False = Some (rest, int (unat v), True)"
    using assms(2) parse_u8_loop_decimal [of "unat v" rest] by (cases rest) auto
  then show ?thesis
    using assms(1) by (simp add: swbt_btstack_usb_adapter_location_parse_u8_def unsigned_eq_0_iff)
qed

lemma separators [simp]:
  "\<not> swbt_btstack_usb_adapter_location_is_digit (CHR ''.'')" "\<not> swbt_btstack_usb_adapter_location_is_digit (CHR '':'')"
  by (simp_all add: swbt_btstack_usb_adapter_location_is_digit_def in_range_def)

lemma NUL_not_dot [simp]: "NUL \<noteq> CHR ''.''"
  by (simp add: NUL_def)

lemma at_cursor_ports: "qs \<noteq> [] \<Longrightarrow> at_cursor (port_text qs) \<noteq> NUL"
  using at_cursor_decimal [of _ "[]"] by (cases qs rule: port_text.cases) (simp_all add: at_cursor_decimal)

declare parse_ports.simps [simp del]

lemma parse_ports_text:
  assumes "qs \<noteq> []" "0 \<notin> set qs" "k + length qs \<le> 7" "length ports = 7"
  shows "parse_ports (port_text qs) k ports = Some (k + length qs, take k ports @ qs @ drop (k + length qs) ports)"
  using assms
proof (induction qs arbitrary: k ports rule: port_text.induct)
  case (2 p)
  have "parse_ports [] (k + 1) (ports[k := p]) = Some (k + 1, ports[k := p])"
    by (subst parse_ports.simps) (simp add: at_cursor_def)
  moreover have "ports[k := p] = take k ports @ [p] @ drop (k + 1) ports"
    using 2 by (simp add: upd_conv_take_nth_drop)
  ultimately show ?case
    using 2 parse_u8_decimal [of p "[]"] at_cursor_decimal [of "unat p" "[]"]
    by (subst parse_ports.simps)
       (simp add: SWBT_BTSTACK_USB_ADAPTER_LOCATION_MAX_PORTS_def at_cursor_def [of "[]"] Let_def)
next
  case (3 p q qs)
  let ?ports = "ports[k := p]"
  have upd: "take (Suc k) ?ports = take k ports @ [p]" "drop (Suc k + n) ?ports = drop (Suc k + n) ports" for n
    using 3 by (simp_all add: take_Suc_conv_app_nth)
  have "parse_ports (port_text (q # qs)) (Suc k) ?ports =
      Some (Suc k + length (q # qs), take (Suc k) ?ports @ (q # qs) @ drop (Suc k + length (q # qs)) ?ports)"
    using 3 by (intro 3(1)) simp_all
  moreover have "at_cursor (port_text (q # qs)) \<noteq> NUL"
    by (rule at_cursor_ports) simp
  ultimately show ?case
    using 3 parse_u8_decimal [of p "CHR ''.'' # port_text (q # qs)"] at_cursor_decimal upd(2) [of "Suc (length qs)"]
    by (subst parse_ports.simps)
       (simp add: SWBT_BTSTACK_USB_ADAPTER_LOCATION_MAX_PORTS_def at_cursor_def [of "c # s" for c s] Let_def upd)
qed simp

text \<open>What the port loop accepts: one to seven ports, none of them zero, in the order of the text.\<close>

lemma parse_u8_nonzero: "swbt_btstack_usb_adapter_location_parse_u8 s = Some (s', v) \<Longrightarrow> v \<noteq> 0"
proof -
  have loop: "parse_u8_loop s v d = Some (s', v', d') \<Longrightarrow> 0 \<le> v \<Longrightarrow> v \<le> 255 \<Longrightarrow> 0 \<le> v' \<and> v' \<le> 255" for s v d s' v' d'
    by (induction s v d rule: parse_u8_loop.induct)
       (auto simp: Let_def swbt_btstack_usb_adapter_location_is_digit_def in_range_def split: if_splits)
  assume "swbt_btstack_usb_adapter_location_parse_u8 s = Some (s', v)"
  then obtain n d where "parse_u8_loop s 0 False = Some (s', n, d)" "v = of_int n" "n \<noteq> 0"
    by (auto simp: swbt_btstack_usb_adapter_location_parse_u8_def split: option.splits if_splits)
  then have "v = of_int n" "0 < n" "n \<le> 255"
    using loop by fastforce+
  then have "uint v = n"
    by (simp add: uint_word_of_int take_bit_int_eq_self)
  then show "v \<noteq> 0"
    using \<open>0 < n\<close> by auto
qed

definition ports_ok :: "nat \<Rightarrow> bytes \<Rightarrow> bool" where
  "ports_ok k ports \<longleftrightarrow> k \<le> 7 \<and> length ports = 7 \<and> (\<forall>i < 7. (ports ! i = 0) = (k \<le> i))"

lemma parse_ports_sound:
  assumes "parse_ports s k ports = Some (k', ports')" "ports_ok k ports"
  shows "ports_ok k' ports' \<and> k \<le> k' \<and> (at_cursor s \<noteq> NUL \<longrightarrow> k < k')"
  using assms
proof (induction s k ports rule: parse_ports.induct)
  case (1 cursor k ports)
  show ?case
  proof (cases "at_cursor cursor = NUL")
    case True
    then show ?thesis
      using "1.prems" by (subst (asm) parse_ports.simps) simp
  next
    case False
    then have k: "k < 7"
      using "1.prems"(1) by (subst (asm) parse_ports.simps)
        (simp add: SWBT_BTSTACK_USB_ADAPTER_LOCATION_MAX_PORTS_def split: if_splits)
    obtain rest p where p: "swbt_btstack_usb_adapter_location_parse_u8 cursor = Some (rest, p)"
      using "1.prems"(1) False
      by (subst (asm) parse_ports.simps) (auto split: if_splits option.splits)
    have ok: "ports_ok (k + 1) (ports[k := p])"
      using "1.prems"(2) k parse_u8_nonzero [OF p] by (auto simp: ports_ok_def nth_list_update)
    have guard: "\<not> SWBT_BTSTACK_USB_ADAPTER_LOCATION_MAX_PORTS \<le> k"
      using k by (simp add: SWBT_BTSTACK_USB_ADAPTER_LOCATION_MAX_PORTS_def)
    note IH = "1.IH" [OF False guard p refl refl refl]
    show ?thesis
    proof (cases "at_cursor rest = CHR ''.''")
      case True
      then show ?thesis
        using IH(1) ok "1.prems"(1) False guard p
        by (subst (asm) (2) parse_ports.simps) (auto simp: Let_def split: if_splits)
    next
      case dot: False
      then show ?thesis
        using IH(2) ok "1.prems"(1) False guard p
        by (subst (asm) (2) parse_ports.simps) (auto simp: Let_def split: if_splits)
    qed
  qed
qed

section \<open>Properties\<close>

text \<open>Printing a Bluetooth address and reading the text back gives the address, whatever the buffers
  held before.\<close>

theorem switch_address_roundtrip:
  assumes "length b = 6" and "length out = 18" and "length a = 6"
  shows "\<exists>buf. swbt_daemon_switch_address_format_bytes (Some b) (Some out) = Some buf
    \<and> swbt_daemon_switch_address_parse_bytes (Some (c_str_of buf)) (Some a) = Some (True, Some b)"
proof -
  have "c_str_of (address_text b @ [NUL]) = address_text b"
    using c_str_of_terminated address_text_ok(2) [OF assms(1)] .
  then show ?thesis
    using format_bytes_eq [OF assms(1,2)] parse_bytes_eq [OF address_text_ok(2) [OF assms(1)] assms(3)]
      address_text_ok(1) [OF assms(1)] by auto
qed

theorem switch_address_roundtrip_witness:
  "\<exists>buf. swbt_daemon_switch_address_format_bytes (Some [0xAB, 0xCD, 0, 1, 0x7F, 0xFF]) (Some (replicate 18 NUL)) = Some buf
    \<and> swbt_daemon_switch_address_parse_bytes (Some (c_str_of buf)) (Some (replicate 6 0)) =
        Some (True, Some [0xAB, 0xCD, 0, 1, 0x7F, 0xFF])"
  by (rule switch_address_roundtrip) simp_all

text \<open>The two readers of addresses agree on every C string and never read behind its end: normalising
  succeeds exactly when parsing does, the normalised text is the printed form of the parsed address,
  and on failure the destination is untouched.\<close>

theorem switch_address_readers_agree:
  assumes "c_string t" and "length dest = 18" and "length out = 18" and "length a = 6"
  shows "\<exists>ok dest' a'. swbt_daemon_switch_address_normalize (Some dest) (Some t) = Some (ok, Some dest')
    \<and> swbt_daemon_switch_address_parse_bytes (Some t) (Some a) = Some (ok, Some a')
    \<and> (if ok then swbt_daemon_switch_address_format_bytes (Some a') (Some out) = Some dest' \<and> length t = 17
       else dest' = dest)"
proof (cases "address_of t")
  case None
  then show ?thesis
    using normalize_eq [OF assms(1,2)] parse_bytes_eq [OF assms(1,4)] by (auto simp: address_of_def)
next
  case (Some b)
  then have "length t = 17 \<and> (\<forall>i < 17. address_char_ok t i)"
    by (auto simp: address_of_def split: if_splits)
  then show ?thesis
    using normalize_eq [OF assms(1,2)] parse_bytes_eq [OF assms(1,4)] Some upper_text [OF Some]
      format_bytes_eq [OF _ assms(3), of b] by auto
qed

theorem switch_address_readers_agree_witness:
  "\<exists>dest'. swbt_daemon_switch_address_normalize (Some (replicate 18 NUL)) (Some ''aB:00:11:22:33:ff'') = Some (True, Some dest')
    \<and> swbt_daemon_switch_address_format_bytes (Some [0xAB, 0, 0x11, 0x22, 0x33, 0xFF]) (Some (replicate 18 NUL)) = Some dest'"
proof -
  have p: "swbt_daemon_switch_address_parse_bytes (Some ''aB:00:11:22:33:ff'') (Some (replicate 6 0)) =
      Some (True, Some [0xAB, 0, 0x11, 0x22, 0x33, 0xFF])"
    by code_simp
  have "c_string ''aB:00:11:22:33:ff''"
    by (simp add: c_string_def NUL_def)
  then show ?thesis
    using switch_address_readers_agree [of "''aB:00:11:22:33:ff''" "replicate 18 NUL" "replicate 18 NUL" "replicate 6 0"] p
    by (auto split: if_splits)
qed


text \<open>A libusb location that is printed and parsed again is the same location, and applying it hands the
  bus and the ports, in order, to the USB backend.\<close>

theorem usb_location_roundtrip:
  assumes "bus \<noteq> 0" and "ports \<noteq> []" and "0 \<notin> set ports" and "length ports \<le> 7"
  shows "\<exists>l. swbt_btstack_usb_adapter_location_parse (Some (libusb_text bus ports)) (Some old) =
      (SWBT_BTSTACK_USB_ADAPTER_LOCATION_OK, Some l)
    \<and> loc_backend l = SWBT_BTSTACK_USB_ADAPTER_LOCATION_BACKEND_LIBUSB \<and> libusb_bus l = bus
    \<and> libusb_port_count l = int (length ports) \<and> take (length ports) (libusb_ports l) = ports
    \<and> swbt_btstack_usb_adapter_location_apply (Some l) (Some (set_winusb, True)) =
      (SWBT_BTSTACK_USB_ADAPTER_LOCATION_OK,
       [SetLibusb bus (int (length ports)) (ports @ replicate (7 - length ports) 0)])"
proof -
  let ?l = "zero_location\<lparr>loc_backend := SWBT_BTSTACK_USB_ADAPTER_LOCATION_BACKEND_LIBUSB, libusb_bus := bus,
      libusb_port_count := int (length ports), libusb_ports := ports @ replicate (7 - length ports) 0\<rparr>"
  have pre: "swbt_btstack_usb_adapter_location_has_prefix (libusb_text bus ports) ''libusb:''"
      "\<not> swbt_btstack_usb_adapter_location_has_prefix (libusb_text bus ports) ''winusb:''"
    by (simp_all add: swbt_btstack_usb_adapter_location_has_prefix_def libusb_text_def)
  have rest: "drop (length ''libusb:'') (libusb_text bus ports) = decimal (unat bus) @ CHR '':'' # port_text ports"
    by (simp add: libusb_text_def)
  have bus: "swbt_btstack_usb_adapter_location_parse_u8 (decimal (unat bus) @ CHR '':'' # port_text ports) =
      Some (CHR '':'' # port_text ports, bus)"
    using parse_u8_decimal [OF assms(1)] by simp
  have ports: "parse_ports (port_text ports) 0 (replicate 7 0) = Some (length ports, ports @ replicate (7 - length ports) 0)"
    using parse_ports_text [OF assms(2,3), of 0 "replicate 7 0"] assms(4) by simp
  have "swbt_btstack_usb_adapter_location_parse (Some (libusb_text bus ports)) (Some old) =
      (SWBT_BTSTACK_USB_ADAPTER_LOCATION_OK, Some ?l)"
    using pre at_cursor_ports [OF assms(2)] assms(4)
    by (simp add: swbt_btstack_usb_adapter_location_parse_def swbt_btstack_usb_adapter_location_parse_libusb_def rest [simplified]
        bus ports at_cursor_def [of "c # s" for c s] SWBT_BTSTACK_USB_ADAPTER_LOCATION_MAX_PORTS_def zero_location_def
        copy_at_all Let_def)
  then show ?thesis
    using assms(2,4)
    by (simp add: swbt_btstack_usb_adapter_location_apply_def SWBT_BTSTACK_USB_ADAPTER_LOCATION_MAX_PORTS_def copy_at_all
        Let_def Suc_le_eq flip: length_greater_0_conv)
qed

theorem usb_location_roundtrip_witness:
  "\<exists>l. swbt_btstack_usb_adapter_location_parse (Some (libusb_text 3 [1, 4, 2])) (Some zero_location) =
      (SWBT_BTSTACK_USB_ADAPTER_LOCATION_OK, Some l) \<and> libusb_bus l = 3 \<and> libusb_port_count l = 3"
  using usb_location_roundtrip [of 3 "[1, 4, 2]" zero_location None] by auto

text \<open>Whatever text is accepted as a location, the location is well formed: a non-empty WinUSB path that
  is the rest of the text, or a libusb path with a bus and one to seven ports, none of them zero, the
  unused places zero. Every other text is refused and leaves an empty location.\<close>

theorem usb_location_sound:
  "\<exists>r l. swbt_btstack_usb_adapter_location_parse (Some t) (Some old) = (r, Some l)
    \<and> (if r = SWBT_BTSTACK_USB_ADAPTER_LOCATION_OK
       then (loc_backend l = SWBT_BTSTACK_USB_ADAPTER_LOCATION_BACKEND_WINUSB
             \<and> (\<exists>path. t = ''winusb:'' @ path \<and> at_cursor path \<noteq> NUL \<and> winusb_location_path l = Some path)
           \<or> loc_backend l = SWBT_BTSTACK_USB_ADAPTER_LOCATION_BACKEND_LIBUSB \<and> libusb_bus l \<noteq> 0
             \<and> (\<exists>k. libusb_port_count l = int k \<and> 1 \<le> k \<and> k \<le> 7 \<and> length (libusb_ports l) = 7
                  \<and> (\<forall>i < 7. (libusb_ports l ! i = 0) = (k \<le> i))))
       else r = SWBT_BTSTACK_USB_ADAPTER_LOCATION_ERROR_INVALID_FORMAT \<and> l = zero_location)"
proof -
  have path: "t = ''winusb:'' @ drop (length ''winusb:'') t" if "swbt_btstack_usb_adapter_location_has_prefix t ''winusb:''"
    using that unfolding swbt_btstack_usb_adapter_location_has_prefix_def by (metis append_take_drop_id)
  have ports: "\<exists>k. p = k \<and> 1 \<le> k \<and> k \<le> 7 \<and> length (copy_at (replicate 7 0) 0 (take k ps)) = 7
      \<and> (\<forall>i < 7. (copy_at (replicate 7 0) 0 (take k ps) ! i = 0) = (k \<le> i))"
    if "parse_ports s 0 (replicate 7 0) = Some (p, ps)" "at_cursor s \<noteq> NUL" for s p and ps :: bytes
  proof -
    have "ports_ok p ps" "0 < p"
      using parse_ports_sound [OF that(1)] that(2) by (auto simp: ports_ok_def)
    then show ?thesis
      by (auto simp: ports_ok_def copy_at_all nth_append)
  qed
  show ?thesis
    using path ports parse_u8_nonzero
    by (auto simp: swbt_btstack_usb_adapter_location_parse_def swbt_btstack_usb_adapter_location_parse_libusb_def
        SWBT_BTSTACK_USB_ADAPTER_LOCATION_MAX_PORTS_def zero_location_def Let_def split: option.splits)
qed


theorem usb_location_sound_witness:
  "\<exists>r l. swbt_btstack_usb_adapter_location_parse (Some ''libusb:1:0'') (Some zero_location) = (r, Some l)
    \<and> r = SWBT_BTSTACK_USB_ADAPTER_LOCATION_ERROR_INVALID_FORMAT \<and> l = zero_location"
proof -
  have "fst (swbt_btstack_usb_adapter_location_parse (Some ''libusb:1:0'') (Some zero_location)) =
      SWBT_BTSTACK_USB_ADAPTER_LOCATION_ERROR_INVALID_FORMAT"
    by code_simp
  then show ?thesis
    using usb_location_sound [of "''libusb:1:0''" zero_location] by auto
qed

end
