(* ===== verification/Config.thy ===== *)
theory Config
  imports CNumber Addresses SwitchReport Peripherals
begin

text \<open>
  The daemon configuration: \<open>daemon/config.c\<close> (defaults, setters, environment), the command line of
  \<open>daemon/launch_options.c\<close> and the preparation of the launch configuration. The number of bits of \<open>unsigned long\<close> and the configuration file, read by the
  TOML library, are arguments. A character array is the string it holds, except for the
  two switch addresses, which are handed to the address parser as arrays.
\<close>

section \<open>Configuration\<close>

record swbt_daemon_config_t =
  cfg_report_period_us :: u32
  cfg_ipc_host :: string
  cfg_ipc_port :: u16
  cfg_ipc_backlog :: int
  cfg_ipc_heartbeat_timeout_ms :: u32
  cfg_explicit_switch_address :: "char list"
  cfg_learned_switch_address :: "char list"
  cfg_report_options :: swbt_switch_report_options_t
  cfg_device_info :: swbt_switch_device_info_t

record swbt_daemon_config_env_t =
  cenv_report_period_us :: "string option"
  cenv_ipc_host :: "string option"
  cenv_ipc_port :: "string option"
  cenv_ipc_backlog :: "string option"
  cenv_ipc_heartbeat_timeout_ms :: "string option"
  cenv_device_info_profile :: "string option"

datatype swbt_daemon_config_file_result_t =
    SWBT_DAEMON_CONFIG_FILE_OK
  | SWBT_DAEMON_CONFIG_FILE_ERROR_INVALID_ARGUMENT
  | SWBT_DAEMON_CONFIG_FILE_ERROR_IO
  | SWBT_DAEMON_CONFIG_FILE_ERROR_PARSE
  | SWBT_DAEMON_CONFIG_FILE_ERROR_INVALID_VALUE

definition SWBT_DAEMON_CONFIG_IPC_HOST_SIZE :: nat where
  "SWBT_DAEMON_CONFIG_IPC_HOST_SIZE = 16"

definition swbt_daemon_config_set_ipc_host ::
  "swbt_daemon_config_t option \<Rightarrow> string option \<Rightarrow> bool \<times> swbt_daemon_config_t option" where
  "swbt_daemon_config_set_ipc_host config host = (case (config, host) of
       (Some c, Some h) \<Rightarrow>
         if h = [] then (False, config)
         else (length h \<le> SWBT_DAEMON_CONFIG_IPC_HOST_SIZE - 1,
               Some (c\<lparr>cfg_ipc_host := take (SWBT_DAEMON_CONFIG_IPC_HOST_SIZE - 1) h\<rparr>))
     | _ \<Rightarrow> (False, config))"

definition swbt_daemon_config_set_active_reconnect_explicit_switch_address ::
  "swbt_daemon_config_t option \<Rightarrow> string option \<Rightarrow> (bool \<times> swbt_daemon_config_t option) option" where
  "swbt_daemon_config_set_active_reconnect_explicit_switch_address config address = (case config of
       None \<Rightarrow> Some (False, None)
     | Some c \<Rightarrow> do {
         (ok, text) \<leftarrow> swbt_daemon_switch_address_normalize (Some (cfg_explicit_switch_address c)) address;
         Some (ok, Some (c\<lparr>cfg_explicit_switch_address := the text\<rparr>))
       })"

definition swbt_daemon_config_set_active_reconnect_learned_switch_address ::
  "swbt_daemon_config_t option \<Rightarrow> string option \<Rightarrow> (bool \<times> swbt_daemon_config_t option) option" where
  "swbt_daemon_config_set_active_reconnect_learned_switch_address config address = (case config of
       None \<Rightarrow> Some (False, None)
     | Some c \<Rightarrow> do {
         (ok, text) \<leftarrow> swbt_daemon_switch_address_normalize (Some (cfg_learned_switch_address c)) address;
         Some (ok, Some (c\<lparr>cfg_learned_switch_address := the text\<rparr>))
       })"

text \<open>The returned pointer, as the string it points to.\<close>

definition swbt_daemon_config_effective_reconnect_switch_address ::
  "swbt_daemon_config_t option \<Rightarrow> string option" where
  "swbt_daemon_config_effective_reconnect_switch_address config = (case config of
       None \<Rightarrow> None
     | Some c \<Rightarrow>
         if at_cursor (c_str_of (cfg_explicit_switch_address c)) \<noteq> NUL then Some (c_str_of (cfg_explicit_switch_address c))
         else if at_cursor (c_str_of (cfg_learned_switch_address c)) \<noteq> NUL then Some (c_str_of (cfg_learned_switch_address c))
         else None)"

definition swbt_daemon_parse_u32 :: "nat \<Rightarrow> string option \<Rightarrow> u32 option" where
  "swbt_daemon_parse_u32 w v = (case v of
       None \<Rightarrow> None
     | Some s \<Rightarrow>
         if at_cursor s = NUL then None
         else let (parsed, end_ptr, range_error) = strtou w 10 s in
           if range_error \<or> end_ptr = s \<or> at_cursor end_ptr \<noteq> NUL \<or> parsed > 2 ^ 32 - 1 then None
           else Some (of_nat parsed))"

definition swbt_daemon_parse_u16 :: "nat \<Rightarrow> string option \<Rightarrow> u16 option" where
  "swbt_daemon_parse_u16 w v = (case swbt_daemon_parse_u32 w v of
       None \<Rightarrow> None | Some parsed \<Rightarrow> if parsed > 0xFFFF then None else Some (ucast parsed))"

definition swbt_daemon_parse_int :: "nat \<Rightarrow> string option \<Rightarrow> int option" where
  "swbt_daemon_parse_int w v = (case swbt_daemon_parse_u32 w v of
       None \<Rightarrow> None | Some parsed \<Rightarrow> if parsed > 0x7FFFFFFF then None else Some (uint parsed))"

definition swbt_daemon_config_default :: swbt_daemon_config_t where
  "swbt_daemon_config_default = \<lparr>cfg_report_period_us = 8000, cfg_ipc_host = ''127.0.0.1'', cfg_ipc_port = 0,
     cfg_ipc_backlog = 1, cfg_ipc_heartbeat_timeout_ms = 0,
     cfg_explicit_switch_address = replicate SWBT_DAEMON_SWITCH_ADDRESS_TEXT_SIZE NUL,
     cfg_learned_switch_address = replicate SWBT_DAEMON_SWITCH_ADDRESS_TEXT_SIZE NUL,
     cfg_report_options = \<lparr>opt_timer = 0, opt_battery_connection = 0x8E, opt_vibrator_report = 0x80\<rparr>,
     cfg_device_info = swbt_switch_device_info_default\<rparr>"

definition swbt_daemon_config_apply_device_info_profile ::
  "swbt_daemon_config_t option \<Rightarrow> string option \<Rightarrow> bool \<times> swbt_daemon_config_t option" where
  "swbt_daemon_config_apply_device_info_profile config profile = (case config of
       None \<Rightarrow> (False, None)
     | Some c \<Rightarrow>
         (case profile of
            None \<Rightarrow> (True, config)
          | Some p \<Rightarrow>
              if p = [] then (True, config)
              else if p = ''swbt-pro'' \<or> p = ''default''
              then (True, Some (c\<lparr>cfg_device_info := swbt_switch_device_info_swbt_pro\<rparr>))
              else (False, config)))"

text \<open>A variable that is set and cannot be parsed is None, otherwise the field with or without its value.\<close>

definition env_field :: "string option \<Rightarrow> (string option \<Rightarrow> 'a option) \<Rightarrow> ('a \<Rightarrow> 'c \<Rightarrow> 'c) \<Rightarrow> 'c \<Rightarrow> 'c option" where
  "env_field v parse upd c = (if v = None then Some c else map_option (\<lambda>x. upd x c) (parse v))"

definition swbt_daemon_config_apply_env ::
  "nat \<Rightarrow> swbt_daemon_config_t option \<Rightarrow> swbt_daemon_config_env_t option \<Rightarrow> bool \<times> swbt_daemon_config_t option" where
  "swbt_daemon_config_apply_env w config env = (case (config, env) of
       (Some c, Some e) \<Rightarrow>
         (case (do {
            n \<leftarrow> env_field (cenv_report_period_us e) (swbt_daemon_parse_u32 w) (\<lambda>v n. n\<lparr>cfg_report_period_us := v\<rparr>) c;
            n \<leftarrow> (case cenv_ipc_host e of
                   None \<Rightarrow> Some n
                 | Some h \<Rightarrow> if h = [] then Some n
                     else let (ok, n') = swbt_daemon_config_set_ipc_host (Some n) (Some h) in if ok then n' else None);
            n \<leftarrow> env_field (cenv_ipc_port e) (swbt_daemon_parse_u16 w) (\<lambda>v n. n\<lparr>cfg_ipc_port := v\<rparr>) n;
            n \<leftarrow> env_field (cenv_ipc_backlog e) (swbt_daemon_parse_int w) (\<lambda>v n. n\<lparr>cfg_ipc_backlog := v\<rparr>) n;
            n \<leftarrow> env_field (cenv_ipc_heartbeat_timeout_ms e) (swbt_daemon_parse_u32 w)
                   (\<lambda>v n. n\<lparr>cfg_ipc_heartbeat_timeout_ms := v\<rparr>) n;
            let (ok, n') = swbt_daemon_config_apply_device_info_profile (Some n) (cenv_device_info_profile e)
            in if ok then n' else None
          }) of
            None \<Rightarrow> (False, config)
          | Some n \<Rightarrow> if cfg_report_period_us n = 0 \<or> cfg_ipc_backlog n \<le> 0 then (False, config) else (True, Some n))
     | _ \<Rightarrow> (False, config))"

section \<open>Launch options\<close>

datatype swbt_daemon_launch_options_result_t =
    SWBT_DAEMON_LAUNCH_OPTIONS_OK
  | SWBT_DAEMON_LAUNCH_OPTIONS_ERROR_INVALID_ARGUMENT
  | SWBT_DAEMON_LAUNCH_OPTIONS_ERROR_MISSING_VALUE
  | SWBT_DAEMON_LAUNCH_OPTIONS_ERROR_UNKNOWN_OPTION

datatype swbt_daemon_launch_backend_t =
  SWBT_DAEMON_LAUNCH_BACKEND_PRODUCTION | SWBT_DAEMON_LAUNCH_BACKEND_NOOP

record swbt_daemon_launch_options_t =
  lo_backend :: swbt_daemon_launch_backend_t
  lo_config_path :: "string option"
  lo_link_key_db_path :: "string option"
  lo_trace_path :: "string option"
  lo_hci_dump_path :: "string option"
  lo_crash_dump_path :: "string option"
  lo_adapter_location :: "string option"

record swbt_daemon_launch_config_t =
  lc_config :: swbt_daemon_config_t
  lc_learned_switch_address_target :: "string option"
  lc_learned_switch_address_target_configured :: bool
  lc_link_key_db_path :: "string option"
  lc_link_key_db_configured :: bool
  lc_hci_dump_path :: "string option"
  lc_adapter_location :: "string option"
  lc_adapter_location_configured :: bool

definition swbt_daemon_launch_options_value_after_equals :: "string \<Rightarrow> string \<Rightarrow> string option" where
  "swbt_daemon_launch_options_value_after_equals argument prefix =
     (if take (length prefix) argument \<noteq> prefix then None else Some (drop (length prefix) argument))"

definition swbt_daemon_launch_options_parse_backend :: "string option \<Rightarrow> swbt_daemon_launch_backend_t option" where
  "swbt_daemon_launch_options_parse_backend v =
     (if v = Some ''production'' then Some SWBT_DAEMON_LAUNCH_BACKEND_PRODUCTION
      else if v = Some ''noop'' then Some SWBT_DAEMON_LAUNCH_BACKEND_NOOP else None)"

definition swbt_daemon_launch_options_adapter_location_is_valid :: "string \<Rightarrow> bool" where
  "swbt_daemon_launch_options_adapter_location_is_valid v \<longleftrightarrow>
     fst (swbt_btstack_usb_adapter_location_parse (Some v) (Some zero_location)) = SWBT_BTSTACK_USB_ADAPTER_LOCATION_OK"

text \<open>
  The two spellings of an option, \<open>--name value\<close> and \<open>--name=value\<close>: \<open>OptionValue v True\<close> when
  the value was the next argument.
\<close>

datatype option_match = OtherOption | ValueMissing | OptionValue string bool

definition match_option :: "string \<Rightarrow> string \<Rightarrow> string option list \<Rightarrow> option_match" where
  "match_option name argument rest =
     (if argument = name
      then (case rest of Some v # _ \<Rightarrow> if v = [] then ValueMissing else OptionValue v True | _ \<Rightarrow> ValueMissing)
      else case swbt_daemon_launch_options_value_after_equals argument (name @ ''='') of
          None \<Rightarrow> OtherOption
        | Some v \<Rightarrow> if v = [] then ValueMissing else OptionValue v False)"

text \<open>What an option does with its value; None is an invalid argument.\<close>

definition option_handlers ::
  "(string \<times> (string \<Rightarrow> swbt_daemon_launch_options_t \<Rightarrow> swbt_daemon_launch_options_t option)) list" where
  "option_handlers =
     [(''--config'', \<lambda>v opts. Some (opts\<lparr>lo_config_path := Some v\<rparr>)),
      (''--link-key-db'', \<lambda>v opts. Some (opts\<lparr>lo_link_key_db_path := Some v\<rparr>)),
      (''--trace-path'', \<lambda>v opts. Some (opts\<lparr>lo_trace_path := Some v\<rparr>)),
      (''--hci-dump-path'', \<lambda>v opts. Some (opts\<lparr>lo_hci_dump_path := Some v\<rparr>)),
      (''--crash-dump-path'', \<lambda>v opts. Some (opts\<lparr>lo_crash_dump_path := Some v\<rparr>)),
      (''--backend'', \<lambda>v opts. map_option (\<lambda>b. opts\<lparr>lo_backend := b\<rparr>) (swbt_daemon_launch_options_parse_backend (Some v))),
      (''--adapter-location'', \<lambda>v opts. if swbt_daemon_launch_options_adapter_location_is_valid v
         then Some (opts\<lparr>lo_adapter_location := Some v\<rparr>) else None)]"

text \<open>One turn of the loop: the options are tried in the order of the source. The result is an error,
  or the new options and whether the next argument was consumed.\<close>

fun try_options ::
  "(string \<times> (string \<Rightarrow> swbt_daemon_launch_options_t \<Rightarrow> swbt_daemon_launch_options_t option)) list
   \<Rightarrow> string \<Rightarrow> string option list \<Rightarrow> swbt_daemon_launch_options_t
   \<Rightarrow> swbt_daemon_launch_options_result_t + (swbt_daemon_launch_options_t \<times> bool)" where
  "try_options [] argument rest opts = Inl SWBT_DAEMON_LAUNCH_OPTIONS_ERROR_UNKNOWN_OPTION"
| "try_options ((name, handler) # handlers) argument rest opts = (case match_option name argument rest of
       OtherOption \<Rightarrow> try_options handlers argument rest opts
     | ValueMissing \<Rightarrow> Inl SWBT_DAEMON_LAUNCH_OPTIONS_ERROR_MISSING_VALUE
     | OptionValue v consumed \<Rightarrow>
         (case handler v opts of
            None \<Rightarrow> Inl SWBT_DAEMON_LAUNCH_OPTIONS_ERROR_INVALID_ARGUMENT
          | Some opts \<Rightarrow> Inr (opts, consumed)))"

function parse_loop ::
  "string option list \<Rightarrow> swbt_daemon_launch_options_t
   \<Rightarrow> swbt_daemon_launch_options_result_t \<times> swbt_daemon_launch_options_t" where
  "parse_loop [] opts = (SWBT_DAEMON_LAUNCH_OPTIONS_OK, opts)"
| "parse_loop (None # rest) opts = (SWBT_DAEMON_LAUNCH_OPTIONS_ERROR_INVALID_ARGUMENT, opts)"
| "parse_loop (Some argument # rest) opts = (case try_options option_handlers argument rest opts of
       Inl e \<Rightarrow> (e, opts)
     | Inr (opts, consumed) \<Rightarrow> parse_loop (if consumed then tl rest else rest) opts)"
  by pat_completeness auto
termination
  by (relation "measure (\<lambda>(args, _). length args)") auto

definition zero_launch_options :: swbt_daemon_launch_options_t where
  "zero_launch_options = \<lparr>lo_backend = SWBT_DAEMON_LAUNCH_BACKEND_PRODUCTION, lo_config_path = None,
     lo_link_key_db_path = None, lo_trace_path = None, lo_hci_dump_path = None, lo_crash_dump_path = None,
     lo_adapter_location = None\<rparr>"

definition swbt_daemon_launch_options_parse ::
  "swbt_daemon_launch_options_t option \<Rightarrow> int \<Rightarrow> string option list option
   \<Rightarrow> swbt_daemon_launch_options_result_t \<times> swbt_daemon_launch_options_t option" where
  "swbt_daemon_launch_options_parse options argc argv =
     (if options = None \<or> argc < 0 \<or> (argc > 0 \<and> argv = None)
      then (SWBT_DAEMON_LAUNCH_OPTIONS_ERROR_INVALID_ARGUMENT, options)
      else map_prod id Some
        (parse_loop (drop 1 (take (nat argc) (case argv of None \<Rightarrow> [] | Some args \<Rightarrow> args))) zero_launch_options))"

text \<open>\<open>read_file path required\<close> is what applying the configuration file at \<open>path\<close> does to a configuration.\<close>

definition swbt_daemon_launch_config_prepare ::
  "nat \<Rightarrow> (string \<Rightarrow> bool \<Rightarrow> swbt_daemon_config_t \<Rightarrow> swbt_daemon_config_file_result_t \<times> swbt_daemon_config_t)
   \<Rightarrow> swbt_daemon_launch_options_t option \<Rightarrow> swbt_daemon_config_env_t option \<Rightarrow> swbt_daemon_launch_config_t option" where
  "swbt_daemon_launch_config_prepare w read_file options env = (case (options, env) of
       (Some opts, Some e) \<Rightarrow> do {
         (config, target) \<leftarrow> (case lo_config_path opts of
             None \<Rightarrow> Some (swbt_daemon_config_default, None)
           | Some path \<Rightarrow>
               (let (file_result, config) = read_file path True swbt_daemon_config_default
                in if file_result \<noteq> SWBT_DAEMON_CONFIG_FILE_OK then None else Some (config, Some path)));
         (let (ok, config) = swbt_daemon_config_apply_env w (Some config) (Some e)
          in if \<not> ok then None
             else Some \<lparr>lc_config = the config, lc_learned_switch_address_target = target,
                        lc_learned_switch_address_target_configured = (target \<noteq> None),
                        lc_link_key_db_path = lo_link_key_db_path opts,
                        lc_link_key_db_configured = (lo_link_key_db_path opts \<noteq> None),
                        lc_hci_dump_path = lo_hci_dump_path opts,
                        lc_adapter_location = lo_adapter_location opts,
                        lc_adapter_location_configured = (lo_adapter_location opts \<noteq> None)\<rparr>)
       }
     | _ \<Rightarrow> None)"

section \<open>Valid configurations\<close>

definition config_ok :: "swbt_daemon_config_t \<Rightarrow> bool" where
  "config_ok c \<longleftrightarrow> cfg_report_period_us c \<noteq> 0 \<and> cfg_ipc_backlog c > 0
     \<and> cfg_ipc_host c \<noteq> [] \<and> length (cfg_ipc_host c) < SWBT_DAEMON_CONFIG_IPC_HOST_SIZE
     \<and> length (cfg_explicit_switch_address c) = SWBT_DAEMON_SWITCH_ADDRESS_TEXT_SIZE
     \<and> length (cfg_learned_switch_address c) = SWBT_DAEMON_SWITCH_ADDRESS_TEXT_SIZE
     \<and> device_info_wf (cfg_device_info c)"

lemma config_default_ok: "config_ok swbt_daemon_config_default"
  by (simp add: config_ok_def swbt_daemon_config_default_def SWBT_DAEMON_CONFIG_IPC_HOST_SIZE_def)

lemma device_info_pro_wf: "device_info_wf swbt_switch_device_info_swbt_pro"
  using device_info_default_wf by (simp add: swbt_switch_device_info_default_def)

text \<open>The value of an unset variable is the old one; a set variable has the value that was parsed.\<close>

definition env_value :: "string option \<Rightarrow> (string option \<Rightarrow> 'a option) \<Rightarrow> 'a \<Rightarrow> 'a" where
  "env_value v parse old = (if v = None then old else the (parse v))"

definition env_host :: "string option \<Rightarrow> string \<Rightarrow> string" where
  "env_host v old = (case v of None \<Rightarrow> old | Some h \<Rightarrow> if h = [] then old else h)"

definition env_applied :: "nat \<Rightarrow> swbt_daemon_config_env_t \<Rightarrow> swbt_daemon_config_t \<Rightarrow> swbt_daemon_config_t" where
  "env_applied w e c = c\<lparr>
     cfg_report_period_us := env_value (cenv_report_period_us e) (swbt_daemon_parse_u32 w) (cfg_report_period_us c),
     cfg_ipc_host := env_host (cenv_ipc_host e) (cfg_ipc_host c),
     cfg_ipc_port := env_value (cenv_ipc_port e) (swbt_daemon_parse_u16 w) (cfg_ipc_port c),
     cfg_ipc_backlog := env_value (cenv_ipc_backlog e) (swbt_daemon_parse_int w) (cfg_ipc_backlog c),
     cfg_ipc_heartbeat_timeout_ms :=
       env_value (cenv_ipc_heartbeat_timeout_ms e) (swbt_daemon_parse_u32 w) (cfg_ipc_heartbeat_timeout_ms c),
     cfg_device_info := (if cenv_device_info_profile e \<in> {None, Some []} then cfg_device_info c
       else swbt_switch_device_info_swbt_pro)\<rparr>"

definition env_valid :: "nat \<Rightarrow> swbt_daemon_config_env_t \<Rightarrow> bool" where
  "env_valid w e \<longleftrightarrow> (cenv_report_period_us e = None \<or> swbt_daemon_parse_u32 w (cenv_report_period_us e) \<noteq> None)
     \<and> (case cenv_ipc_host e of None \<Rightarrow> True | Some h \<Rightarrow> length h < SWBT_DAEMON_CONFIG_IPC_HOST_SIZE)
     \<and> (cenv_ipc_port e = None \<or> swbt_daemon_parse_u16 w (cenv_ipc_port e) \<noteq> None)
     \<and> (cenv_ipc_backlog e = None \<or> swbt_daemon_parse_int w (cenv_ipc_backlog e) \<noteq> None)
     \<and> (cenv_ipc_heartbeat_timeout_ms e = None \<or> swbt_daemon_parse_u32 w (cenv_ipc_heartbeat_timeout_ms e) \<noteq> None)
     \<and> cenv_device_info_profile e \<in> {None, Some [], Some ''swbt-pro'', Some ''default''}"

lemma env_field_eq:
  "env_field v p32 (\<lambda>x n. n\<lparr>cfg_report_period_us := x\<rparr>) c =
    (if v = None \<or> p32 v \<noteq> None then Some (c\<lparr>cfg_report_period_us := env_value v p32 (cfg_report_period_us c)\<rparr>) else None)"
  "env_field v p16 (\<lambda>x n. n\<lparr>cfg_ipc_port := x\<rparr>) c =
    (if v = None \<or> p16 v \<noteq> None then Some (c\<lparr>cfg_ipc_port := env_value v p16 (cfg_ipc_port c)\<rparr>) else None)"
  "env_field v pint (\<lambda>x n. n\<lparr>cfg_ipc_backlog := x\<rparr>) c =
    (if v = None \<or> pint v \<noteq> None then Some (c\<lparr>cfg_ipc_backlog := env_value v pint (cfg_ipc_backlog c)\<rparr>) else None)"
  "env_field v p32 (\<lambda>x n. n\<lparr>cfg_ipc_heartbeat_timeout_ms := x\<rparr>) c =
    (if v = None \<or> p32 v \<noteq> None
     then Some (c\<lparr>cfg_ipc_heartbeat_timeout_ms := env_value v p32 (cfg_ipc_heartbeat_timeout_ms c)\<rparr>) else None)"
  by (auto simp: env_field_def env_value_def)

definition host_fits :: "string option \<Rightarrow> bool" where
  "host_fits v \<longleftrightarrow> (case v of None \<Rightarrow> True | Some h \<Rightarrow> length h < SWBT_DAEMON_CONFIG_IPC_HOST_SIZE)"

lemma env_host_eq:
  "(case v of None \<Rightarrow> Some n
    | Some h \<Rightarrow> if h = [] then Some n
        else let (ok, n') = swbt_daemon_config_set_ipc_host (Some n) (Some h) in if ok then n' else None) =
   (if host_fits v then Some (n\<lparr>cfg_ipc_host := env_host v (cfg_ipc_host n)\<rparr>) else None)"
  by (auto simp: swbt_daemon_config_set_ipc_host_def env_host_def host_fits_def SWBT_DAEMON_CONFIG_IPC_HOST_SIZE_def
      split: option.split)

lemma env_profile_eq:
  "(let (ok, n') = swbt_daemon_config_apply_device_info_profile (Some n) v in if ok then n' else None) =
   (if v \<in> {None, Some [], Some ''swbt-pro'', Some ''default''}
    then Some (n\<lparr>cfg_device_info := (if v \<in> {None, Some []} then cfg_device_info n else swbt_switch_device_info_swbt_pro)\<rparr>)
    else None)"
  by (cases v) (simp_all add: swbt_daemon_config_apply_device_info_profile_def)

lemma option_if:
  "Option.bind (if P then Some x else None) f = (if P then f x else None)"
  "(if P then (if Q then Some x else None) else None) = (if P \<and> Q then Some x else None)"
  "(case (if P then Some x else None) of None \<Rightarrow> a | Some y \<Rightarrow> g y) = (if P then g x else a)"
  by simp_all

lemma apply_env_eq:
  "swbt_daemon_config_apply_env w (Some c) (Some e) =
    (if env_valid w e \<and> cfg_report_period_us (env_applied w e c) \<noteq> 0 \<and> cfg_ipc_backlog (env_applied w e c) > 0
     then (True, Some (env_applied w e c)) else (False, Some c))"
proof -
  have "env_valid w e \<longleftrightarrow> (cenv_report_period_us e = None \<or> swbt_daemon_parse_u32 w (cenv_report_period_us e) \<noteq> None)
     \<and> host_fits (cenv_ipc_host e)
     \<and> (cenv_ipc_port e = None \<or> swbt_daemon_parse_u16 w (cenv_ipc_port e) \<noteq> None)
     \<and> (cenv_ipc_backlog e = None \<or> swbt_daemon_parse_int w (cenv_ipc_backlog e) \<noteq> None)
     \<and> (cenv_ipc_heartbeat_timeout_ms e = None \<or> swbt_daemon_parse_u32 w (cenv_ipc_heartbeat_timeout_ms e) \<noteq> None)
     \<and> cenv_device_info_profile e \<in> {None, Some [], Some ''swbt-pro'', Some ''default''}"
    by (simp only: env_valid_def host_fits_def)
  then show ?thesis
    by (simp only: swbt_daemon_config_apply_env_def env_field_eq env_host_eq env_profile_eq option_if prod.case option.case)
      (simp only: env_applied_def swbt_daemon_config_t.simps de_Morgan_conj not_not not_less if_bool_eq_conj simp_thms; auto)
qed

section \<open>Spellings of the command line\<close>

text \<open>A command line: option names with their values, each spelled with \<open>=\<close> or as two arguments.\<close>

definition spell :: "string \<times> string \<times> bool \<Rightarrow> string option list" where
  "spell x = (case x of (name, v, joined) \<Rightarrow> if joined then [Some (name @ ''='' @ v)] else [Some name, Some v])"

fun apply_options :: "(string \<times> string) list \<Rightarrow> swbt_daemon_launch_options_t
   \<Rightarrow> swbt_daemon_launch_options_result_t \<times> swbt_daemon_launch_options_t" where
  "apply_options [] opts = (SWBT_DAEMON_LAUNCH_OPTIONS_OK, opts)"
| "apply_options ((name, v) # xs) opts = (case map_of option_handlers name of
       None \<Rightarrow> (SWBT_DAEMON_LAUNCH_OPTIONS_ERROR_UNKNOWN_OPTION, opts)
     | Some handler \<Rightarrow>
         (case handler v opts of
            None \<Rightarrow> (SWBT_DAEMON_LAUNCH_OPTIONS_ERROR_INVALID_ARGUMENT, opts)
          | Some opts \<Rightarrow> apply_options xs opts))"

lemma prefix_equals:
  assumes "CHR ''='' \<notin> set n" "CHR ''='' \<notin> set m"
  shows "take (length (m @ ''='')) (n @ CHR ''='' # v) = m @ ''='' \<longleftrightarrow> n = m"
  using assms
proof (induction m arbitrary: n)
  case Nil
  then show ?case by (cases n) auto
next
  case (Cons c m)
  then show ?case by (cases n) auto
qed

lemma no_prefix_equals: "CHR ''='' \<notin> set n \<Longrightarrow> take (length (m @ ''='')) n \<noteq> m @ ''=''"
proof
  assume n: "CHR ''='' \<notin> set n" and t: "take (length (m @ ''='')) n = m @ ''=''"
  have "CHR ''='' \<in> set (take (length (m @ ''='')) n)"
    unfolding t by simp
  with n show False
    using set_take_subset by fast
qed

lemma match_spelled:
  assumes "CHR ''='' \<notin> set name" "CHR ''='' \<notin> set m" "v \<noteq> []"
  shows "match_option m name (Some v # rest) = (if m = name then OptionValue v True else OtherOption)"
    and "match_option m (name @ ''='' @ v) rest' = (if m = name then OptionValue v False else OtherOption)"
proof -
  show "match_option m name (Some v # rest) = (if m = name then OptionValue v True else OtherOption)"
    using no_prefix_equals [OF assms(1), of m] assms(3)
    by (auto simp: match_option_def swbt_daemon_launch_options_value_after_equals_def)
  have "name @ ''='' @ v \<noteq> m"
    using assms(2) by auto
  then show "match_option m (name @ ''='' @ v) rest' = (if m = name then OptionValue v False else OtherOption)"
    using prefix_equals [OF assms(1,2), of v] assms(3)
    by (auto simp: match_option_def swbt_daemon_launch_options_value_after_equals_def)
qed

lemma try_spelled:
  assumes "CHR ''='' \<notin> set name" "\<forall>m \<in> fst ` set hs. CHR ''='' \<notin> set m" "v \<noteq> []"
  shows "try_options hs (if joined then name @ ''='' @ v else name) (if joined then rest else Some v # rest) opts =
    (case map_of hs name of
       None \<Rightarrow> Inl SWBT_DAEMON_LAUNCH_OPTIONS_ERROR_UNKNOWN_OPTION
     | Some handler \<Rightarrow> (case handler v opts of
         None \<Rightarrow> Inl SWBT_DAEMON_LAUNCH_OPTIONS_ERROR_INVALID_ARGUMENT | Some opts \<Rightarrow> Inr (opts, \<not> joined)))"
  using assms(2)
proof (induction hs)
  case (Cons h hs)
  obtain m f where h: "h = (m, f)"
    by (cases h)
  have m: "CHR ''='' \<notin> set m"
    using Cons.prems h by simp
  have "match_option m (if joined then name @ ''='' @ v else name) (if joined then rest else Some v # rest) =
      (if m = name then OptionValue v (\<not> joined) else OtherOption)"
    using match_spelled [OF assms(1) m assms(3)] by (cases joined) simp_all
  then show ?case
    using Cons by (simp add: h split: option.split)
qed simp

lemma handler_names: "\<forall>m \<in> fst ` set option_handlers. CHR ''='' \<notin> set m"
  by (simp add: option_handlers_def)

lemma parse_spelled:
  assumes "\<forall>(name, v, joined) \<in> set xs. CHR ''='' \<notin> set name \<and> v \<noteq> []"
  shows "parse_loop (concat (map spell xs)) opts = apply_options (map (\<lambda>(name, v, _). (name, v)) xs) opts"
  using assms
proof (induction xs arbitrary: opts)
  case (Cons x xs)
  obtain name v joined where x: "x = (name, v, joined)"
    by (cases x)
  have x': "CHR ''='' \<notin> set name" "v \<noteq> []" "\<forall>(name, v, joined) \<in> set xs. CHR ''='' \<notin> set name \<and> v \<noteq> []"
    using Cons.prems x by auto
  note tried = try_spelled [OF x'(1) handler_names x'(2), of joined "concat (map spell xs)" opts]
  have spelled: "spell (name, v, True) = [Some (name @ ''='' @ v)]" "spell (name, v, False) = [Some name, Some v]"
    by (simp_all add: spell_def)
  show ?case
    using tried Cons.IH [OF x'(3)] by (cases joined) (auto simp: x spelled split: option.split)
qed simp

section \<open>Properties\<close>

text \<open>Applying the environment is all or nothing: either every variable that is set is valid and the
  result is the configuration with exactly those fields replaced, which is a valid one again, or the
  call fails and the configuration is what it was.\<close>

theorem config_env_atomic:
  assumes "config_ok c"
  shows "if fst (swbt_daemon_config_apply_env w (Some c) (Some e))
    then env_valid w e \<and> snd (swbt_daemon_config_apply_env w (Some c) (Some e)) = Some (env_applied w e c)
      \<and> config_ok (env_applied w e c)
    else snd (swbt_daemon_config_apply_env w (Some c) (Some e)) = Some c
      \<and> (\<not> env_valid w e \<or> cfg_report_period_us (env_applied w e c) = 0 \<or> cfg_ipc_backlog (env_applied w e c) \<le> 0)"
  using assms device_info_pro_wf
  by (auto simp: apply_env_eq config_ok_def env_applied_def env_valid_def env_host_def split: option.splits)

theorem config_env_atomic_witness:
  "snd (swbt_daemon_config_apply_env 64 (Some swbt_daemon_config_default)
      (Some \<lparr>cenv_report_period_us = None, cenv_ipc_host = Some ''an.overlong.host.name'', cenv_ipc_port = None,
        cenv_ipc_backlog = None, cenv_ipc_heartbeat_timeout_ms = None, cenv_device_info_profile = None\<rparr>)) =
    Some swbt_daemon_config_default"
  using config_env_atomic [OF config_default_ok, of 64 "\<lparr>cenv_report_period_us = None,
      cenv_ipc_host = Some ''an.overlong.host.name'', cenv_ipc_port = None,
      cenv_ipc_backlog = None, cenv_ipc_heartbeat_timeout_ms = None, cenv_device_info_profile = None\<rparr>"]
  by (auto simp: env_valid_def SWBT_DAEMON_CONFIG_IPC_HOST_SIZE_def split: if_splits)

text \<open>The two spellings of an option are equivalent: a command line means the same whichever of its
  options are written "--name=value" and which as two arguments, namely that the options are applied
  from left to right, the first invalid value or unknown name stopping it.\<close>

theorem launch_options_spelling:
  assumes "\<forall>(name, v, joined) \<in> set xs. CHR ''='' \<notin> set name \<and> v \<noteq> []"
  shows "swbt_daemon_launch_options_parse (Some opts) (1 + int (length (concat (map spell xs))))
      (Some (Some prog # concat (map spell xs))) =
    map_prod id Some (apply_options (map (\<lambda>(name, v, _). (name, v)) xs) zero_launch_options)"
  using parse_spelled [OF assms] by (simp add: swbt_daemon_launch_options_parse_def nat_add_distrib)

theorem launch_options_spelling_witness:
  "swbt_daemon_launch_options_parse (Some zero_launch_options) 4
      (Some [Some ''swbt-daemon'', Some ''--backend=noop'', Some ''--config'', Some ''a.toml'']) =
    (SWBT_DAEMON_LAUNCH_OPTIONS_OK,
     Some (zero_launch_options\<lparr>lo_backend := SWBT_DAEMON_LAUNCH_BACKEND_NOOP, lo_config_path := Some ''a.toml''\<rparr>))"
  using launch_options_spelling [of "[(''--backend'', ''noop'', True), (''--config'', ''a.toml'', False)]"
      zero_launch_options "''swbt-daemon''"]
  by (simp add: spell_def option_handlers_def swbt_daemon_launch_options_parse_backend_def)


section \<open>A number that only looks unsigned\<close>

text \<open>Where \<open>unsigned long\<close> has 32 bits, a negative number is read as a large one.\<close>

theorem parse_u32_negative: "swbt_daemon_parse_u32 32 (Some ''-1'') = Some 4294967295"
  by (simp add: swbt_daemon_parse_u32_def strtou_def c_integer_def sign_prefix_def base_prefix_def hex_prefix_def
      digits_value_def base_digit_def digit_value_def in_range_def ccode_def isspace_def NUL_def)

end
