(* ===== verification/IpcRunner.thy ===== *)
theory IpcRunner
  imports IpcServer Config
begin

text \<open>
  The IPC runner of \<open>daemon/ipc_runner.c\<close>: one listening server and at most one connection, driven by
  polling. Every operation takes the answers of the operating system (\<open>ipc_env\<close>) and the control object the
  server is bound to, and returns the result code, the runner, the control object and
  the bytes sent; \<open>None\<close> would be an access outside of an array. The lemmas show that the lease is
  never left with a client that is not connected.
\<close>

section \<open>Types\<close>

datatype swbt_daemon_ipc_runner_result_t =
    SWBT_DAEMON_IPC_RUNNER_OK
  | SWBT_DAEMON_IPC_RUNNER_ERROR_INVALID_ARGUMENT
  | SWBT_DAEMON_IPC_RUNNER_ERROR_SOCKET
  | SWBT_DAEMON_IPC_RUNNER_ERROR_UNSUPPORTED_BIND
  | SWBT_DAEMON_IPC_RUNNER_ERROR_DISCONNECTED
  | SWBT_DAEMON_IPC_RUNNER_ERROR_NOT_RUNNING

record swbt_daemon_ipc_runner_config_t =
  rcfg_host :: "string option"
  rcfg_port :: u16
  rcfg_backlog :: int
  rcfg_heartbeat_timeout_ms :: u32

record swbt_daemon_ipc_endpoint_t =
  ep_host :: string
  ep_port :: u16
  ep_bound :: bool

record swbt_daemon_ipc_runner_t =
  rn_server :: swbt_ipc_server_t
  rn_connection :: swbt_ipc_connection_t
  rn_config :: swbt_daemon_ipc_runner_config_t
  rn_endpoint :: swbt_daemon_ipc_endpoint_t
  rn_initialized :: bool
  rn_running :: bool
  rn_has_connection :: bool

definition SWBT_DAEMON_IPC_ENDPOINT_HOST_SIZE :: nat where
  "SWBT_DAEMON_IPC_ENDPOINT_HOST_SIZE = 16"

section \<open>Operations\<close>

fun swbt_daemon_ipc_runner_map_server_result :: "swbt_ipc_server_result_t \<Rightarrow> swbt_daemon_ipc_runner_result_t" where
  "swbt_daemon_ipc_runner_map_server_result SWBT_IPC_SERVER_OK = SWBT_DAEMON_IPC_RUNNER_OK"
| "swbt_daemon_ipc_runner_map_server_result SWBT_IPC_SERVER_ERROR_UNSUPPORTED_BIND =
     SWBT_DAEMON_IPC_RUNNER_ERROR_UNSUPPORTED_BIND"
| "swbt_daemon_ipc_runner_map_server_result SWBT_IPC_SERVER_ERROR_DISCONNECTED =
     SWBT_DAEMON_IPC_RUNNER_ERROR_DISCONNECTED"
| "swbt_daemon_ipc_runner_map_server_result SWBT_IPC_SERVER_ERROR_INVALID_ARGUMENT =
     SWBT_DAEMON_IPC_RUNNER_ERROR_INVALID_ARGUMENT"
| "swbt_daemon_ipc_runner_map_server_result SWBT_IPC_SERVER_ERROR_SOCKET = SWBT_DAEMON_IPC_RUNNER_ERROR_SOCKET"
| "swbt_daemon_ipc_runner_map_server_result SWBT_IPC_SERVER_ERROR_MESSAGE_TOO_LONG = SWBT_DAEMON_IPC_RUNNER_ERROR_SOCKET"
| "swbt_daemon_ipc_runner_map_server_result SWBT_IPC_SERVER_ERROR_HEARTBEAT_TIMEOUT = SWBT_DAEMON_IPC_RUNNER_ERROR_SOCKET"

definition swbt_daemon_ipc_runner_clear_endpoint :: "swbt_daemon_ipc_runner_t \<Rightarrow> swbt_daemon_ipc_runner_t" where
  "swbt_daemon_ipc_runner_clear_endpoint r = r\<lparr>rn_endpoint := \<lparr>ep_host = [], ep_port = 0, ep_bound = False\<rparr>\<rparr>"

definition swbt_daemon_ipc_runner_copy_host :: "swbt_daemon_ipc_runner_t \<Rightarrow> string \<Rightarrow> swbt_daemon_ipc_runner_t" where
  "swbt_daemon_ipc_runner_copy_host r host =
     r\<lparr>rn_endpoint := (rn_endpoint r)\<lparr>ep_host := take (SWBT_DAEMON_IPC_ENDPOINT_HOST_SIZE - 1) host\<rparr>\<rparr>"

definition swbt_daemon_ipc_runner_config_from_daemon_config ::
  "swbt_daemon_config_t option \<Rightarrow> swbt_daemon_ipc_runner_config_t" where
  "swbt_daemon_ipc_runner_config_from_daemon_config config = (case config of
       None \<Rightarrow> \<lparr>rcfg_host = None, rcfg_port = 0, rcfg_backlog = 0, rcfg_heartbeat_timeout_ms = 0\<rparr>
     | Some c \<Rightarrow> \<lparr>rcfg_host = Some (cfg_ipc_host c), rcfg_port = cfg_ipc_port c, rcfg_backlog = cfg_ipc_backlog c,
         rcfg_heartbeat_timeout_ms = cfg_ipc_heartbeat_timeout_ms c\<rparr>)"

definition zero_connection :: swbt_ipc_connection_t where
  "zero_connection = \<lparr>conn_socket = \<lparr>sock_handle = 0, sock_open = False\<rparr>, conn_client_id = 0,
     conn_line_buffer = replicate (SWBT_IPC_JSON_LINE_MAX + 1) NUL, conn_line_length = 0,
     conn_last_heartbeat_ms = 0, conn_heartbeat_timeout_ms = 0, conn_heartbeat_enabled = False, conn_open = False\<rparr>"

definition swbt_daemon_ipc_runner_init ::
  "swbt_daemon_ipc_runner_t option \<Rightarrow> swbt_domain option
   \<Rightarrow> swbt_daemon_ipc_runner_result_t \<times> swbt_daemon_ipc_runner_t option" where
  "swbt_daemon_ipc_runner_init runner domain_mem = (case runner of
       None \<Rightarrow> (SWBT_DAEMON_IPC_RUNNER_ERROR_INVALID_ARGUMENT, None)
     | Some r \<Rightarrow>
         let (result, server) = swbt_ipc_server_init (Some (rn_server r)) domain_mem;
             r = \<lparr>rn_server = the server, rn_connection = zero_connection,
               rn_config = swbt_daemon_ipc_runner_config_from_daemon_config None,
               rn_endpoint = \<lparr>ep_host = [], ep_port = 0, ep_bound = False\<rparr>,
               rn_initialized = False, rn_running = False, rn_has_connection = False\<rparr>
         in if result \<noteq> SWBT_IPC_SERVER_OK then (SWBT_DAEMON_IPC_RUNNER_ERROR_SOCKET, Some r)
            else
              let r = r\<lparr>rn_connection := (rn_connection r)\<lparr>conn_socket :=
                        the (swbt_ipc_socket_init (Some (conn_socket (rn_connection r))))\<rparr>,
                      rn_config := \<lparr>rcfg_host = Some ''127.0.0.1'', rcfg_port = 0, rcfg_backlog = 1,
                        rcfg_heartbeat_timeout_ms = 0\<rparr>\<rparr>;
                  r = swbt_daemon_ipc_runner_clear_endpoint r
              in (SWBT_DAEMON_IPC_RUNNER_OK, Some (r\<lparr>rn_initialized := True\<rparr>)))"

text \<open>The control argument of a start is the control object the server is then bound to.\<close>

definition swbt_daemon_ipc_runner_start ::
  "ipc_env \<Rightarrow> swbt_daemon_ipc_runner_t option \<Rightarrow> control_state \<Rightarrow> swbt_daemon_ipc_runner_config_t option
   \<Rightarrow> swbt_daemon_ipc_runner_result_t \<times> swbt_daemon_ipc_runner_t option" where
  "swbt_daemon_ipc_runner_start env runner control config = (case (runner, fst control, config) of
       (Some r, Some _, Some cfg) \<Rightarrow>
         (case rcfg_host cfg of
            None \<Rightarrow> (SWBT_DAEMON_IPC_RUNNER_ERROR_INVALID_ARGUMENT, runner)
          | Some host \<Rightarrow>
              if rcfg_backlog cfg \<le> 0 \<or> \<not> rn_initialized r then (SWBT_DAEMON_IPC_RUNNER_ERROR_INVALID_ARGUMENT, runner)
              else if rn_running r then (SWBT_DAEMON_IPC_RUNNER_OK, runner)
              else
                let (result, server) = swbt_ipc_server_bind_control (Some (rn_server r)) control;
                    r = r\<lparr>rn_server := the server\<rparr> in
                if result \<noteq> SWBT_IPC_SERVER_OK then (swbt_daemon_ipc_runner_map_server_result result, Some r)
                else
                  let (result, server) = swbt_ipc_server_listen env (Some (rn_server r))
                        \<lparr>listen_host = Some host, listen_port = rcfg_port cfg, listen_backlog = rcfg_backlog cfg\<rparr>;
                      r = r\<lparr>rn_server := the server\<rparr> in
                  if result \<noteq> SWBT_IPC_SERVER_OK then
                    (swbt_daemon_ipc_runner_map_server_result result,
                     Some (r\<lparr>rn_server := the (swbt_ipc_server_close (Some (rn_server r)))\<rparr>))
                  else
                    let r = swbt_daemon_ipc_runner_copy_host (r\<lparr>rn_config := cfg\<rparr>) host;
                        port = swbt_ipc_server_port (Some (rn_server r)) in
                    (SWBT_DAEMON_IPC_RUNNER_OK,
                     Some (r\<lparr>rn_endpoint := (rn_endpoint r)\<lparr>ep_port := port, ep_bound := port \<noteq> 0\<rparr>,
                             rn_running := True, rn_has_connection := False\<rparr>)))
     | _ \<Rightarrow> (SWBT_DAEMON_IPC_RUNNER_ERROR_INVALID_ARGUMENT, runner))"

definition swbt_daemon_ipc_runner_endpoint ::
  "swbt_daemon_ipc_runner_t option \<Rightarrow> swbt_daemon_ipc_endpoint_t option
   \<Rightarrow> swbt_daemon_ipc_runner_result_t \<times> swbt_daemon_ipc_endpoint_t option" where
  "swbt_daemon_ipc_runner_endpoint runner out_endpoint = (case (runner, out_endpoint) of
       (Some r, Some _) \<Rightarrow>
         if \<not> rn_initialized r then (SWBT_DAEMON_IPC_RUNNER_ERROR_INVALID_ARGUMENT, out_endpoint)
         else (SWBT_DAEMON_IPC_RUNNER_OK, Some (rn_endpoint r))
     | _ \<Rightarrow> (SWBT_DAEMON_IPC_RUNNER_ERROR_INVALID_ARGUMENT, out_endpoint))"

definition swbt_daemon_ipc_runner_accept_at ::
  "ipc_env \<Rightarrow> swbt_daemon_ipc_runner_t option \<Rightarrow> u64
   \<Rightarrow> swbt_daemon_ipc_runner_result_t \<times> swbt_daemon_ipc_runner_t option" where
  "swbt_daemon_ipc_runner_accept_at env runner now_ms = (case runner of
       None \<Rightarrow> (SWBT_DAEMON_IPC_RUNNER_ERROR_NOT_RUNNING, None)
     | Some r \<Rightarrow>
         if \<not> rn_running r then (SWBT_DAEMON_IPC_RUNNER_ERROR_NOT_RUNNING, runner)
         else if rn_has_connection r then (SWBT_DAEMON_IPC_RUNNER_ERROR_INVALID_ARGUMENT, runner)
         else
           let (result, server, connection) = swbt_ipc_server_accept env (Some (rn_server r)) (Some (rn_connection r));
               r = r\<lparr>rn_server := the server, rn_connection := the connection\<rparr> in
           if result \<noteq> SWBT_IPC_SERVER_OK then (swbt_daemon_ipc_runner_map_server_result result, Some r)
           else (SWBT_DAEMON_IPC_RUNNER_OK,
                 Some (r\<lparr>rn_connection := the (swbt_ipc_connection_configure_heartbeat (Some (rn_connection r))
                           \<lparr>hb_now_ms = now_ms, hb_timeout_ms = ucast (rcfg_heartbeat_timeout_ms (rn_config r))\<rparr>),
                         rn_has_connection := True\<rparr>)))"

definition swbt_daemon_ipc_runner_accept ::
  "ipc_env \<Rightarrow> swbt_daemon_ipc_runner_t option \<Rightarrow> swbt_daemon_ipc_runner_result_t \<times> swbt_daemon_ipc_runner_t option" where
  "swbt_daemon_ipc_runner_accept env runner = swbt_daemon_ipc_runner_accept_at env runner 0"

type_synonym polled =
  "swbt_daemon_ipc_runner_result_t \<times> swbt_daemon_ipc_runner_t option \<times> control_state \<times> string"

definition drop_connection :: "swbt_daemon_ipc_runner_t \<Rightarrow> swbt_daemon_ipc_runner_t" where
  "drop_connection r = r\<lparr>rn_connection := the (swbt_ipc_connection_close (Some (rn_connection r))), rn_has_connection := False\<rparr>"

text \<open>What the runner does with the result of serving the connection, the same in both functions.\<close>

fun after_serve :: "swbt_daemon_ipc_runner_t \<Rightarrow> served \<Rightarrow> polled" where
  "after_serve r (result, server, bound, connection, sent) =
     (let r = r\<lparr>rn_server := the server, rn_connection := the connection\<rparr>;
          r = (if result = SWBT_IPC_SERVER_ERROR_DISCONNECTED \<or> result = SWBT_IPC_SERVER_ERROR_MESSAGE_TOO_LONG
               then drop_connection r else r)
      in (swbt_daemon_ipc_runner_map_server_result result, Some r, bound, sent))"

definition swbt_daemon_ipc_runner_serve_connection_once ::
  "ipc_env \<Rightarrow> swbt_daemon_ipc_runner_t option \<Rightarrow> control_state \<Rightarrow> polled option" where
  "swbt_daemon_ipc_runner_serve_connection_once env runner bound = (case runner of
       None \<Rightarrow> Some (SWBT_DAEMON_IPC_RUNNER_ERROR_NOT_RUNNING, None, bound, [])
     | Some r \<Rightarrow>
         if \<not> rn_running r then Some (SWBT_DAEMON_IPC_RUNNER_ERROR_NOT_RUNNING, runner, bound, [])
         else if \<not> rn_has_connection r then Some (SWBT_DAEMON_IPC_RUNNER_ERROR_INVALID_ARGUMENT, runner, bound, [])
         else map_option (after_serve r)
                (swbt_ipc_server_serve_connection_once env (Some (rn_server r)) bound (Some (rn_connection r))))"

definition swbt_daemon_ipc_runner_serve_connection_once_at ::
  "ipc_env \<Rightarrow> swbt_daemon_ipc_runner_t option \<Rightarrow> control_state \<Rightarrow> u64 \<Rightarrow> polled option" where
  "swbt_daemon_ipc_runner_serve_connection_once_at env runner bound now_ms = (case runner of
       None \<Rightarrow> Some (SWBT_DAEMON_IPC_RUNNER_ERROR_NOT_RUNNING, None, bound, [])
     | Some r \<Rightarrow>
         if \<not> rn_running r then Some (SWBT_DAEMON_IPC_RUNNER_ERROR_NOT_RUNNING, runner, bound, [])
         else if \<not> rn_has_connection r then Some (SWBT_DAEMON_IPC_RUNNER_ERROR_INVALID_ARGUMENT, runner, bound, [])
         else map_option (after_serve r)
                (swbt_ipc_server_serve_connection_once_at env (Some (rn_server r)) bound (Some (rn_connection r)) now_ms))"

definition swbt_daemon_ipc_runner_check_heartbeat ::
  "swbt_daemon_ipc_runner_t \<Rightarrow> control_state \<Rightarrow> u64
   \<Rightarrow> swbt_daemon_ipc_runner_result_t \<times> swbt_daemon_ipc_runner_t \<times> control_state" where
  "swbt_daemon_ipc_runner_check_heartbeat r bound now_ms =
     (let (result, server, bound) = swbt_ipc_server_check_heartbeat (Some (rn_server r)) bound (Some (rn_connection r)) now_ms;
          r = r\<lparr>rn_server := the server\<rparr>
      in if result = SWBT_IPC_SERVER_ERROR_HEARTBEAT_TIMEOUT then (SWBT_DAEMON_IPC_RUNNER_OK, drop_connection r, bound)
         else (swbt_daemon_ipc_runner_map_server_result result, r, bound))"

definition swbt_daemon_ipc_runner_poll_once_at ::
  "ipc_env \<Rightarrow> swbt_daemon_ipc_runner_t option \<Rightarrow> control_state \<Rightarrow> u64 \<Rightarrow> polled option" where
  "swbt_daemon_ipc_runner_poll_once_at env runner bound now_ms = (case runner of
       None \<Rightarrow> Some (SWBT_DAEMON_IPC_RUNNER_ERROR_NOT_RUNNING, None, bound, [])
     | Some r \<Rightarrow>
         if \<not> rn_running r then Some (SWBT_DAEMON_IPC_RUNNER_ERROR_NOT_RUNNING, runner, bound, [])
         else if \<not> rn_has_connection r then
           let (result, pending) = swbt_ipc_server_has_pending_connection env (Some (rn_server r)) in
           if result \<noteq> SWBT_IPC_SERVER_OK then Some (swbt_daemon_ipc_runner_map_server_result result, runner, bound, [])
           else if \<not> pending then Some (SWBT_DAEMON_IPC_RUNNER_OK, runner, bound, [])
           else let (result, runner) = swbt_daemon_ipc_runner_accept_at env runner now_ms in Some (result, runner, bound, [])
         else
           let (result, pending) = swbt_ipc_connection_has_pending_data env (Some (rn_connection r)) in
           if result \<noteq> SWBT_IPC_SERVER_OK then Some (swbt_daemon_ipc_runner_map_server_result result, runner, bound, [])
           else if \<not> pending then
             let (result, r, bound) = swbt_daemon_ipc_runner_check_heartbeat r bound now_ms in Some (result, Some r, bound, [])
           else swbt_daemon_ipc_runner_serve_connection_once_at env runner bound now_ms)"

definition swbt_daemon_ipc_runner_poll_once ::
  "ipc_env \<Rightarrow> swbt_daemon_ipc_runner_t option \<Rightarrow> control_state \<Rightarrow> polled option" where
  "swbt_daemon_ipc_runner_poll_once env runner bound = swbt_daemon_ipc_runner_poll_once_at env runner bound 0"

definition swbt_daemon_ipc_runner_stop ::
  "swbt_daemon_ipc_runner_t option \<Rightarrow> control_state \<Rightarrow> swbt_daemon_ipc_runner_t option \<times> control_state" where
  "swbt_daemon_ipc_runner_stop runner bound = (case runner of
       None \<Rightarrow> (None, bound)
     | Some r \<Rightarrow>
         if \<not> rn_initialized r then (runner, bound)
         else if \<not> rn_running r \<and> \<not> rn_has_connection r then (Some (swbt_daemon_ipc_runner_clear_endpoint r), bound)
         else
           let s = rn_server r;
               (r, bound) =
                 (if rn_has_connection r then
                    let (_, cs) = swbt_ipc_adapter_handle_disconnect (server_control s bound) (conn_client_id (rn_connection r));
                        (s, bound) = store_control s bound cs
                    in (drop_connection (r\<lparr>rn_server := s\<rparr>), bound)
                  else if srv_control s \<noteq> NoControl then
                    let (_, cs) = swbt_ipc_adapter_handle_shutdown (server_control s bound);
                        (s, bound) = store_control s bound cs
                    in (r\<lparr>rn_server := s\<rparr>, bound)
                  else (r, bound));
               r = swbt_daemon_ipc_runner_clear_endpoint
                     (r\<lparr>rn_server := the (swbt_ipc_server_close (Some (rn_server r)))\<rparr>)
           in (Some (r\<lparr>rn_running := False\<rparr>), bound))"

definition swbt_daemon_ipc_runner_is_running :: "swbt_daemon_ipc_runner_t option \<Rightarrow> bool" where
  "swbt_daemon_ipc_runner_is_running runner = (case runner of None \<Rightarrow> False | Some r \<Rightarrow> rn_running r)"

definition swbt_daemon_ipc_runner_has_connection :: "swbt_daemon_ipc_runner_t option \<Rightarrow> bool" where
  "swbt_daemon_ipc_runner_has_connection runner = (case runner of None \<Rightarrow> False | Some r \<Rightarrow> rn_has_connection r)"

definition swbt_daemon_ipc_runner_backend_start ::
  "ipc_env \<Rightarrow> swbt_daemon_ipc_runner_t option \<Rightarrow> control_state \<Rightarrow> int \<times> swbt_daemon_ipc_runner_t option" where
  "swbt_daemon_ipc_runner_backend_start env runner control = (case runner of
       None \<Rightarrow> (-1, None)
     | Some r \<Rightarrow>
         let (result, runner) = swbt_daemon_ipc_runner_start env runner control (Some (rn_config r))
         in (if result = SWBT_DAEMON_IPC_RUNNER_OK then 0 else -1, runner))"

definition swbt_daemon_ipc_runner_backend_stop ::
  "swbt_daemon_ipc_runner_t option \<Rightarrow> control_state \<Rightarrow> swbt_daemon_ipc_runner_t option \<times> control_state" where
  "swbt_daemon_ipc_runner_backend_stop runner bound = swbt_daemon_ipc_runner_stop runner bound"

section \<open>The runner as a transition system\<close>

text \<open>
  The states are the runner, the control object and the domain behind it. Besides the operations of
  the runner any domain operation may happen, except that only connected clients and the direct client of
  the C API acquire the lease.
\<close>

type_synonym runner_state = "swbt_daemon_ipc_runner_t \<times> swbt_control_t \<times> swbt_domain"

datatype runner_label =
    RunnerStart ipc_env "swbt_daemon_ipc_runner_config_t option"
  | RunnerAccept ipc_env u64
  | RunnerServe ipc_env
  | RunnerPoll ipc_env u64
  | RunnerStop
  | OtherOp domain_op

fun other_client :: "domain_op \<Rightarrow> bool" where
  "other_client (Acquire c) = (c = swbt_control_direct_client_id)"
| "other_client _ = True"

inductive runner_step :: "runner_state \<Rightarrow> runner_label \<Rightarrow> runner_state \<Rightarrow> bool" where
  run_start: "swbt_daemon_ipc_runner_start env (Some r) (Some ctl, Some a) cfg = (result, Some r') \<Longrightarrow>
    runner_step (r, ctl, a) (RunnerStart env cfg) (r', ctl, a)"
| run_accept: "swbt_daemon_ipc_runner_accept_at env (Some r) now = (result, Some r') \<Longrightarrow>
    runner_step (r, ctl, a) (RunnerAccept env now) (r', ctl, a)"
| run_serve: "build_ok (env_build env) \<Longrightarrow>
    swbt_daemon_ipc_runner_serve_connection_once env (Some r) (Some ctl, Some a) =
      Some (result, Some r', (Some ctl', Some a'), sent) \<Longrightarrow>
    runner_step (r, ctl, a) (RunnerServe env) (r', ctl', a')"
| run_poll: "build_ok (env_build env) \<Longrightarrow>
    swbt_daemon_ipc_runner_poll_once_at env (Some r) (Some ctl, Some a) now =
      Some (result, Some r', (Some ctl', Some a'), sent) \<Longrightarrow>
    runner_step (r, ctl, a) (RunnerPoll env now) (r', ctl', a')"
| run_stop: "swbt_daemon_ipc_runner_stop (Some r) (Some ctl, Some a) = (Some r', Some ctl', Some a') \<Longrightarrow>
    runner_step (r, ctl, a) RunnerStop (r', ctl', a')"
| run_other: "other_client op \<Longrightarrow> domain_step a op a' \<Longrightarrow> runner_step (r, ctl, a) (OtherOp op) (r, ctl, a')"

inductive_cases runner_stepE: "runner_step (r, ctl, a) l st'"

definition runner_initial :: "runner_state \<Rightarrow> bool" where
  "runner_initial st \<longleftrightarrow> (case st of (r, ctl, a) \<Rightarrow> domain_initial a
     \<and> (\<exists>r0 mem. swbt_daemon_ipc_runner_init (Some r0) mem = (SWBT_DAEMON_IPC_RUNNER_OK, Some r)))"

definition not_ipc_owned :: "swbt_domain \<Rightarrow> bool" where
  "not_ipc_owned a \<longleftrightarrow> domain_owner a = None \<or> domain_owner a = Some swbt_control_direct_client_id"

definition server_ok :: "swbt_daemon_ipc_runner_t \<Rightarrow> bool" where
  "server_ok r \<longleftrightarrow> rn_initialized r \<and> (rn_has_connection r \<longrightarrow> rn_running r) \<and> srv_listening (rn_server r) = rn_running r
     \<and> (rn_running r \<longrightarrow> srv_control (rn_server r) = BoundControl)
     \<and> conn_ok (rn_connection r) \<and> conn_open (rn_connection r) = rn_has_connection r"

definition runner_inv :: "runner_state \<Rightarrow> bool" where
  "runner_inv st \<longleftrightarrow> (case st of (r, ctl, a) \<Rightarrow> domain_inv a \<and> server_ok r
     \<and> (rn_has_connection r \<and> domain_owner a = Some (conn_client_id (rn_connection r)) \<or> not_ipc_owned a))"

section \<open>Every operation keeps the invariant\<close>

lemma zero_connection_ok: "conn_ok zero_connection" "\<not> conn_open zero_connection"
  by (simp_all add: conn_ok_def zero_connection_def)

lemma domain_initial_owner: "domain_initial a \<Longrightarrow> domain_owner a = None"
  using domain_create_free by (auto simp: domain_initial_def domain_owner_def lease_owner_def free_lease_def)

lemma runner_init_ok:
  assumes "swbt_daemon_ipc_runner_init (Some r0) mem = (SWBT_DAEMON_IPC_RUNNER_OK, Some r)"
  shows "server_ok r" "\<not> rn_has_connection r"
  using assms zero_connection_ok
  by (auto simp: swbt_daemon_ipc_runner_init_def swbt_ipc_server_init_def server_ok_def Let_def
      swbt_daemon_ipc_runner_clear_endpoint_def conn_ok_def swbt_ipc_socket_init_def
      split: option.splits if_splits prod.splits)

lemma runner_initial_inv: "runner_initial st \<Longrightarrow> runner_inv st"
  using runner_init_ok domain_initial_owner domain.init_inv
  by (auto simp: runner_initial_def runner_inv_def not_ipc_owned_def)

lemma start_server_ok:
  assumes "server_ok r" "swbt_daemon_ipc_runner_start env (Some r) control cfg = (result, Some r')"
  shows "server_ok r'" "rn_has_connection r' = rn_has_connection r" "rn_connection r' = rn_connection r"
  using assms
  by (auto simp: swbt_daemon_ipc_runner_start_def server_ok_def swbt_ipc_server_bind_control_def
      swbt_ipc_server_listen_def swbt_ipc_server_close_def close_listen_def swbt_daemon_ipc_runner_copy_host_def Let_def
      split: option.splits if_splits prod.splits)

lemma accept_connection:
  assumes "swbt_ipc_server_accept env (Some s) (Some c) = (result, s', c')" "conn_ok c" "srv_listening s"
  shows "\<exists>s'' c''. s' = Some s'' \<and> c' = Some c'' \<and> conn_ok c'' \<and> conn_open c'' = (result = SWBT_IPC_SERVER_OK)
    \<and> srv_control s'' = srv_control s \<and> srv_listening s''"
  using assms
  by (auto simp: swbt_ipc_server_accept_def conn_ok_def cleared_def swbt_ipc_socket_init_def Let_def
      swbt_ipc_store_native_socket_def split: option.splits)

lemma accept_inv:
  assumes "runner_inv (r, ctl, a)"
  shows "\<exists>result r'. swbt_daemon_ipc_runner_accept_at env (Some r) now = (result, Some r') \<and> runner_inv (r', ctl, a)"
proof (cases "rn_running r \<and> \<not> rn_has_connection r")
  case True
  obtain result s' c' where acc: "swbt_ipc_server_accept env (Some (rn_server r)) (Some (rn_connection r)) = (result, s', c')"
    by (metis prod_cases3)
  obtain s'' c'' where sc: "s' = Some s''" "c' = Some c''" "conn_ok c''" "conn_open c'' = (result = SWBT_IPC_SERVER_OK)"
      "srv_control s'' = srv_control (rn_server r)" "srv_listening s''"
    using accept_connection [OF acc] assms True by (auto simp: runner_inv_def server_ok_def)
  show ?thesis
    using assms True sc(3-6)
    by (auto simp: swbt_daemon_ipc_runner_accept_at_def acc sc(1,2) runner_inv_def server_ok_def Let_def conn_ok_def
        swbt_ipc_connection_configure_heartbeat_def)
qed (use assms in \<open>auto simp: swbt_daemon_ipc_runner_accept_at_def\<close>)

lemma drop_connection_fields:
  assumes "conn_ok (rn_connection r)"
  shows "conn_ok (rn_connection (drop_connection r))" "\<not> conn_open (rn_connection (drop_connection r))"
    "\<not> rn_has_connection (drop_connection r)" "rn_server (drop_connection r) = rn_server r"
    "rn_running (drop_connection r) = rn_running r" "rn_initialized (drop_connection r) = rn_initialized r"
    "rn_endpoint (drop_connection r) = rn_endpoint r"
  using close_conn [OF assms] by (auto simp: drop_connection_def)

lemma gone_not_owned:
  assumes "client_gone cid a a'" "domain_owner a = Some cid \<or> not_ipc_owned a"
  shows "domain_inv a'" "not_ipc_owned a'"
  using assms by (auto simp: client_gone_def not_ipc_owned_def split: if_splits)

lemma effect_owned:
  assumes "client_effect cid a a'" "domain_owner a = Some cid \<or> not_ipc_owned a"
  shows "domain_inv a'" "domain_owner a' = Some cid \<or> not_ipc_owned a'"
  using assms by (auto simp: client_effect_def not_ipc_owned_def)

lemma serve_inv:
  assumes "runner_inv (r, ctl, a)" "rn_has_connection r" "build_ok (env_build env)"
  shows "\<exists>result r' a' sent. map_option (after_serve r) (swbt_ipc_server_serve_connection_once_internal env
        (Some (rn_server r)) (Some ctl, Some a) (Some (rn_connection r)) hb now) =
      Some (result, Some r', (Some ctl, Some a'), sent) \<and> runner_inv (r', ctl, a')"
proof -
  have r: "server_ok r" "domain_inv a" "rn_running r" "conn_ok (rn_connection r)" "conn_open (rn_connection r)"
      "srv_control (rn_server r) = BoundControl"
      "domain_owner a = Some (conn_client_id (rn_connection r)) \<or> not_ipc_owned a"
    using assms(1,2) by (auto simp: runner_inv_def server_ok_def)
  have "serves (rn_server r) (Some ctl, Some a) ctl a"
    by (simp add: serves_def server_control_def r(6))
  then obtain result s' bound' c' a' sent where
    call: "swbt_ipc_server_serve_connection_once_internal env (Some (rn_server r)) (Some ctl, Some a) (Some (rn_connection r)) hb now =
        Some (result, Some s', bound', Some c', sent)" and sv: "serves s' bound' ctl a'"
    and out: "serve_outcome (rn_server r) (rn_connection r) a result s' c' a'"
    using serve_outcome_ex [OF _ r(2) assms(3) r(4,5)] by blast
  have b': "bound' = (Some ctl, Some a')"
    using sv out r(6) by (simp add: serves_def server_control_def serve_outcome_def)
  let ?r = "r\<lparr>rn_server := s', rn_connection := c'\<rparr>"
  show ?thesis
  proof (cases "lost result")
    case True
    then have g: "client_gone (conn_client_id (rn_connection r)) a a'" "conn_ok c'"
      using out by (auto simp: serve_outcome_def)
    have "runner_inv (drop_connection ?r, ctl, a')"
      using gone_not_owned [OF g(1) r(7)] drop_connection_fields [of ?r] g(2) out r(1,3,6)
      by (simp add: runner_inv_def server_ok_def serve_outcome_def)
    then show ?thesis
      using True by (simp add: call b' lost_def Let_def)
  next
    case False
    then have "runner_inv (?r, ctl, a')"
      using effect_owned [OF _ r(7)] out r(1,3,6) assms(2)
      by (auto simp: runner_inv_def server_ok_def serve_outcome_def)
    then show ?thesis
      using False by (simp add: call b' lost_def Let_def)
  qed
qed

text \<open>
  The heartbeat: a connection that is idle for its timeout is closed, and its client has lost the lease.
\<close>

definition expired :: "swbt_ipc_connection_t \<Rightarrow> u64 \<Rightarrow> bool" where
  "expired c now \<longleftrightarrow> conn_heartbeat_enabled c \<and> conn_last_heartbeat_ms c \<le> now
     \<and> conn_heartbeat_timeout_ms c \<le> now - conn_last_heartbeat_ms c"

lemma heartbeat_cases:
  assumes "runner_inv (r, ctl, a)" "rn_has_connection r"
  shows "\<exists>r' a'. swbt_daemon_ipc_runner_check_heartbeat r (Some ctl, Some a) now =
      (SWBT_DAEMON_IPC_RUNNER_OK, r', Some ctl, Some a') \<and> runner_inv (r', ctl, a')
    \<and> (if expired (rn_connection r) now
       then \<not> rn_has_connection r' \<and> not_ipc_owned a' \<and> client_gone (conn_client_id (rn_connection r)) a a'
       else r' = r \<and> a' = a)"
proof -
  have r: "server_ok r" "domain_inv a" "rn_running r" "conn_ok (rn_connection r)"
      "srv_control (rn_server r) = BoundControl"
      "domain_owner a = Some (conn_client_id (rn_connection r)) \<or> not_ipc_owned a"
    using assms by (auto simp: runner_inv_def server_ok_def)
  show ?thesis
  proof (cases "expired (rn_connection r) now")
    case True
    obtain res a' where a': "swbt_ipc_adapter_handle_heartbeat_timeout (Some ctl, Some a) (conn_client_id (rn_connection r)) =
        (res, Some ctl, Some a')" "client_gone (conn_client_id (rn_connection r)) a a'"
      using disconnect_gone(2) [OF r(2)] by blast
    have "runner_inv (drop_connection r, ctl, a')"
      using gone_not_owned [OF a'(2) r(6)] drop_connection_fields [OF r(4)] r(1,3,5)
      by (simp add: runner_inv_def server_ok_def)
    then show ?thesis
      using True a' r(5) gone_not_owned [OF a'(2) r(6)] drop_connection_fields [OF r(4)]
      by (auto simp: swbt_daemon_ipc_runner_check_heartbeat_def swbt_ipc_server_check_heartbeat_def expired_def
          server_control_def store_control_def Let_def)
  next
    case False
    then show ?thesis
      using assms
      by (auto simp: swbt_daemon_ipc_runner_check_heartbeat_def swbt_ipc_server_check_heartbeat_def expired_def Let_def)
  qed
qed

text \<open>Polling always returns, and keeps the invariant.\<close>

lemma poll_inv:
  assumes "runner_inv (r, ctl, a)" "build_ok (env_build env)"
  shows "\<exists>result r' a' sent. swbt_daemon_ipc_runner_poll_once_at env (Some r) (Some ctl, Some a) now =
      Some (result, Some r', (Some ctl, Some a'), sent) \<and> runner_inv (r', ctl, a')"
proof -
  obtain acc r1 where acc: "swbt_daemon_ipc_runner_accept_at env (Some r) now = (acc, Some r1)" "runner_inv (r1, ctl, a)"
    using accept_inv [OF assms(1)] by blast
  show ?thesis
  proof (cases "rn_has_connection r")
    case True
    then show ?thesis
      using serve_inv [OF assms(1) True assms(2), of True now] heartbeat_cases [OF assms(1) True, of now] assms(1)
      by (auto simp: swbt_daemon_ipc_runner_poll_once_at_def swbt_daemon_ipc_runner_serve_connection_once_at_def
          swbt_ipc_server_serve_connection_once_at_def split: prod.split)
  next
    case False
    then show ?thesis
      using acc assms(1) by (auto simp: swbt_daemon_ipc_runner_poll_once_at_def split: prod.split)
  qed
qed

definition stopped :: "swbt_daemon_ipc_runner_t \<Rightarrow> bool" where
  "stopped r \<longleftrightarrow> \<not> rn_running r \<and> \<not> rn_has_connection r \<and> \<not> srv_listening (rn_server r)
     \<and> rn_endpoint r = \<lparr>ep_host = [], ep_port = 0, ep_bound = False\<rparr>"

lemma close_server_fields:
  "\<exists>s'. swbt_ipc_server_close (Some s) = Some s' \<and> \<not> srv_listening s'"
  by (simp add: swbt_ipc_server_close_def)

lemma neutralised_owner: "domain_owner (neutralised a) = None" "dom_state (neutralised a) = swbt_state_neutral"
  by (simp_all add: domain_owner_def lease_owner_def neutralised_def free_lease_def)

lemma stop_inv:
  assumes "runner_inv (r, ctl, a)"
  shows "\<exists>r' a'. swbt_daemon_ipc_runner_stop (Some r) (Some ctl, Some a) = (Some r', Some ctl, Some a')
    \<and> runner_inv (r', ctl, a') \<and> stopped r'
    \<and> (not_ipc_owned a \<or> domain_owner a' = None \<and> dom_state a' = swbt_state_neutral)
    \<and> (domain_owner a' = None \<or> domain_owner a' = domain_owner a)"
proof -
  have r: "server_ok r" "domain_inv a" "rn_initialized r" "conn_ok (rn_connection r)"
    using assms by (auto simp: runner_inv_def server_ok_def)
  note stop = swbt_daemon_ipc_runner_stop_def swbt_daemon_ipc_runner_clear_endpoint_def stopped_def Let_def
    server_control_def store_control_def
  show ?thesis
  proof (cases "rn_running r")
    case False
    then show ?thesis
      using assms r by (auto simp: stop runner_inv_def server_ok_def)
  next
    case running: True
    then have bound: "srv_control (rn_server r) = BoundControl"
      using r(1) by (simp add: server_ok_def)
    obtain s' where s': "swbt_ipc_server_close (Some (rn_server r)) = Some s'" "\<not> srv_listening s'"
      using close_server_fields by blast
    show ?thesis
    proof (cases "rn_has_connection r")
      case True
      then have own: "domain_owner a = Some (conn_client_id (rn_connection r)) \<or> not_ipc_owned a"
        using assms by (auto simp: runner_inv_def)
      obtain res a' where a': "swbt_ipc_adapter_handle_disconnect (Some ctl, Some a) (conn_client_id (rn_connection r)) =
          (res, Some ctl, Some a')" "client_gone (conn_client_id (rn_connection r)) a a'"
        using disconnect_gone(1) [OF r(2)] by blast
      show ?thesis
        using True running bound s' a' own r gone_not_owned [OF a'(2) own] drop_connection_fields [OF r(4)]
        by (auto simp: stop runner_inv_def server_ok_def client_gone_def split: if_splits)
    next
      case False
      obtain res where "swbt_ipc_adapter_handle_shutdown (Some ctl, Some a) = (res, Some ctl, Some (neutralised a))"
        using shutdown_neutral [OF r(2)] by blast
      then show ?thesis
        using False running bound s' r neutralised_inv [OF r(2)]
        by (auto simp: stop runner_inv_def server_ok_def not_ipc_owned_def neutralised_owner)
    qed
  qed
qed

lemma other_inv:
  assumes "runner_inv (r, ctl, a)" "other_client op" "domain_step a op a'"
  shows "runner_inv (r, ctl, a')"
proof -
  have "domain_inv a"
    using assms(1) by (simp add: runner_inv_def)
  then have "domain_inv a'" "lease_effect op a a'"
    using domain_step_inv domain_step_effect assms(3) by blast+
  then show ?thesis
    using assms(1,2) unfolding runner_inv_def
    by (auto elim!: lease_effect.cases simp: not_ipc_owned_def domain_owner_def lease_owner_def free_lease_def owns_def
        split: if_splits)
qed

lemma runner_step_inv:
  assumes "runner_inv st" "runner_step st l st'"
  shows "runner_inv st'"
  using assms(2,1)
proof cases
  case (run_start env r ctl a cfg result r')
  then show ?thesis
    using start_server_ok [OF _ run_start(4)] assms(1) by (auto simp: runner_inv_def)
next
  case (run_accept env r now result r' ctl a)
  then show ?thesis
    using accept_inv [of r ctl a env now] assms(1) by auto
next
  case (run_serve env r ctl a result r' ctl' a' sent)
  then show ?thesis
    using serve_inv [of r ctl a env False 0] assms(1)
    by (auto simp: swbt_daemon_ipc_runner_serve_connection_once_def swbt_ipc_server_serve_connection_once_def
        simp del: after_serve.simps split: if_splits)
next
  case (run_poll env r ctl a now result r' ctl' a' sent)
  then show ?thesis
    using poll_inv [of r ctl a env now] assms(1) by auto
next
  case (run_stop r ctl a r' ctl' a')
  then show ?thesis
    using stop_inv [of r ctl a] assms(1) by auto
next
  case (run_other op a a' r ctl)
  then show ?thesis
    using other_inv assms(1) by blast
qed

interpretation ipcrun: invariant_system runner_initial runner_step runner_inv
  by unfold_locales (rule runner_initial_inv, assumption, rule runner_step_inv)

text \<open>A runner that listens and has accepted its first client, with a heartbeat timeout of one second.\<close>

definition demo_runner_config :: swbt_daemon_ipc_runner_config_t where
  "demo_runner_config = \<lparr>rcfg_host = Some ''127.0.0.1'', rcfg_port = 0, rcfg_backlog = 1, rcfg_heartbeat_timeout_ms = 1000\<rparr>"

lemma demo_connected:
  "\<exists>r. reachable runner_initial runner_step (r, \<lparr>next_direct_sequence = 0\<rparr>, demo_domain) \<and> rn_has_connection r
    \<and> conn_client_id (rn_connection r) = 1 \<and> conn_heartbeat_enabled (rn_connection r)
    \<and> conn_last_heartbeat_ms (rn_connection r) = 0 \<and> conn_heartbeat_timeout_ms (rn_connection r) = 1000"
proof -
  obtain dflt where dflt: "swbt_domain_create (Some zero_domain) = Some dflt"
    using domain_create_inv by blast
  obtain r0 :: swbt_daemon_ipc_runner_t where True
    by simp
  obtain r1 where r1: "swbt_daemon_ipc_runner_init (Some r0) (Some zero_domain) = (SWBT_DAEMON_IPC_RUNNER_OK, Some r1)"
      "srv_next_client_id (rn_server r1) = 1" "\<not> rn_running r1" "rn_initialized r1" "\<not> srv_listening (rn_server r1)"
    by (auto simp: swbt_daemon_ipc_runner_init_def swbt_ipc_server_init_def dflt swbt_control_init_def Let_def
        swbt_daemon_ipc_runner_clear_endpoint_def)
  obtain r2 where r2: "swbt_daemon_ipc_runner_start demo_ipc_env (Some r1) (Some \<lparr>next_direct_sequence = 0\<rparr>, Some demo_domain)
        (Some demo_runner_config) = (SWBT_DAEMON_IPC_RUNNER_OK, Some r2)"
      "srv_next_client_id (rn_server r2) = 1" "rn_running r2" "\<not> rn_has_connection r2" "srv_listening (rn_server r2)"
      "rn_config r2 = demo_runner_config"
    using r1(2-) by (auto simp: swbt_daemon_ipc_runner_start_def demo_runner_config_def demo_ipc_env_def Let_def
        swbt_ipc_server_bind_control_def swbt_ipc_server_listen_def swbt_ipc_create_tcp_socket_def swbt_daemon_ipc_runner_copy_host_def)
  obtain r3 where r3: "swbt_daemon_ipc_runner_accept_at demo_ipc_env (Some r2) 0 = (SWBT_DAEMON_IPC_RUNNER_OK, Some r3)"
      "rn_has_connection r3" "conn_client_id (rn_connection r3) = 1" "conn_heartbeat_enabled (rn_connection r3)"
      "conn_last_heartbeat_ms (rn_connection r3) = 0" "conn_heartbeat_timeout_ms (rn_connection r3) = 1000"
    using r2(2-) by (auto simp: swbt_daemon_ipc_runner_accept_at_def swbt_ipc_server_accept_def demo_ipc_env_def Let_def
        swbt_ipc_connection_configure_heartbeat_def demo_runner_config_def)
  have "runner_initial (r1, \<lparr>next_direct_sequence = 0\<rparr>, demo_domain)"
    using r1(1) demo_domain_initial by (auto simp: runner_initial_def)
  then have "reachable runner_initial runner_step (r3, \<lparr>next_direct_sequence = 0\<rparr>, demo_domain)"
    using run_start [OF r2(1)] run_accept [OF r3(1)] by (blast intro: reach_init reach_step)
  with r3(2-) show ?thesis
    by blast
qed

section \<open>Properties\<close>

text \<open>C3: No lease is orphaned: in every state the runner and the domain can reach by starting, accepting,
  serving, polling and stopping in any order, whatever the sockets answer and whatever else happens
  to the domain, a lease held by an IPC client belongs to the client of the open connection; and while nobody
  holds the lease the controller is neutral.\<close>

theorem ipc_no_orphaned_lease:
  assumes "reachable runner_initial runner_step (r, ctl, a)"
  shows "(domain_owner a = None \<longrightarrow> dom_state a = swbt_state_neutral)
    \<and> (\<forall>cid. domain_owner a = Some cid \<longrightarrow> cid = swbt_control_direct_client_id
        \<or> rn_running r \<and> rn_has_connection r \<and> conn_open (rn_connection r) \<and> conn_client_id (rn_connection r) = cid)"
  using ipcrun.reachable_inv [OF assms]
  by (auto simp: runner_inv_def server_ok_def not_ipc_owned_def domain_inv_def domain_owner_def lease_owner_def)

theorem ipc_no_orphaned_lease_witness:
  "\<exists>r. reachable runner_initial runner_step (r, \<lparr>next_direct_sequence = 0\<rparr>, demo_domain) \<and> rn_has_connection r
    \<and> dom_state demo_domain = swbt_state_neutral"
proof -
  obtain r where "reachable runner_initial runner_step (r, \<lparr>next_direct_sequence = 0\<rparr>, demo_domain)" "rn_has_connection r"
    using demo_connected by blast
  then show ?thesis
    using ipc_no_orphaned_lease domain_initial_owner [OF demo_domain_initial] by blast
qed

text \<open>C21: The heartbeat timeout: when a poll finds no data on the connection and the timeout has passed since the
  last complete line, the poll succeeds and closes the connection, the lease of its client is free and the
  controller neutral (a lease it does not hold is untouched); before the timeout the poll changes nothing.\<close>

theorem ipc_heartbeat_timeout:
  assumes "reachable runner_initial runner_step (r, ctl, a)" "rn_has_connection r" "env_pending env = NotReady"
  shows "\<exists>r' a'. swbt_daemon_ipc_runner_poll_once_at env (Some r) (Some ctl, Some a) now =
      Some (SWBT_DAEMON_IPC_RUNNER_OK, Some r', (Some ctl, Some a'), [])
    \<and> (if conn_heartbeat_enabled (rn_connection r) \<and> conn_last_heartbeat_ms (rn_connection r) \<le> now
          \<and> conn_heartbeat_timeout_ms (rn_connection r) \<le> now - conn_last_heartbeat_ms (rn_connection r)
       then \<not> rn_has_connection r'
         \<and> (if domain_owner a = Some (conn_client_id (rn_connection r))
            then domain_owner a' = None \<and> dom_state a' = swbt_state_neutral
            else domain_owner a' = domain_owner a \<and> dom_state a' = dom_state a)
       else r' = r \<and> a' = a)"
proof -
  have inv: "runner_inv (r, ctl, a)"
    using ipcrun.reachable_inv [OF assms(1)] .
  then have r: "rn_running r" "conn_open (rn_connection r)" "sock_open (conn_socket (rn_connection r))"
    using assms(2) by (auto simp: runner_inv_def server_ok_def conn_ok_def)
  then have "swbt_ipc_connection_has_pending_data env (Some (rn_connection r)) = (SWBT_IPC_SERVER_OK, False)"
    using assms(3) by (simp add: swbt_ipc_connection_has_pending_data_def swbt_ipc_socket_can_receive_def)
  then show ?thesis
    using heartbeat_cases [OF inv assms(2), of now] r assms(2)
    by (auto simp: swbt_daemon_ipc_runner_poll_once_at_def expired_def client_gone_def split: if_splits)
qed

theorem ipc_heartbeat_timeout_witness:
  "\<exists>r r' a'. rn_has_connection r \<and> swbt_daemon_ipc_runner_poll_once_at demo_ipc_env (Some r)
      (Some \<lparr>next_direct_sequence = 0\<rparr>, Some demo_domain) 1000 =
        Some (SWBT_DAEMON_IPC_RUNNER_OK, Some r', (Some \<lparr>next_direct_sequence = 0\<rparr>, Some a'), []) \<and> \<not> rn_has_connection r'"
proof -
  obtain r where r: "reachable runner_initial runner_step (r, \<lparr>next_direct_sequence = 0\<rparr>, demo_domain)" "rn_has_connection r"
      "conn_heartbeat_enabled (rn_connection r)" "conn_last_heartbeat_ms (rn_connection r) = 0"
      "conn_heartbeat_timeout_ms (rn_connection r) = 1000"
    using demo_connected by blast
  have "env_pending demo_ipc_env = NotReady"
    by (simp add: demo_ipc_env_def)
  from ipc_heartbeat_timeout [OF r(1,2) this, of 1000] show ?thesis
    using r(2-) by (simp add: zero_le) blast
qed

text \<open>Stopping the runner from any reachable state leaves it without a connection, not listening and without an
  endpoint; an IPC client that held the lease has lost it and the controller is neutral. Starting it again is possible:
  with a loopback host, a positive backlog and working sockets the start succeeds.\<close>

theorem ipc_stop_restart:
  assumes "reachable runner_initial runner_step (r, ctl, a)"
    and "env_socket env \<noteq> None" "env_setsockopt_ok env" "env_bind_ok env" "env_listen_ok env" "env_sockname env \<noteq> None"
    and "rcfg_host cfg = Some ''127.0.0.1''" "rcfg_backlog cfg > 0"
  shows "\<exists>r' a' r''. swbt_daemon_ipc_runner_stop (Some r) (Some ctl, Some a) = (Some r', Some ctl, Some a')
    \<and> \<not> rn_running r' \<and> \<not> rn_has_connection r' \<and> \<not> ep_bound (rn_endpoint r') \<and> \<not> srv_listening (rn_server r')
    \<and> (domain_owner a' = None \<and> dom_state a' = swbt_state_neutral \<or> domain_owner a' = Some swbt_control_direct_client_id)
    \<and> swbt_daemon_ipc_runner_start env (Some r') (Some ctl, Some a') (Some cfg) = (SWBT_DAEMON_IPC_RUNNER_OK, Some r'')
    \<and> rn_running r''"
proof -
  obtain r' a' where stop: "swbt_daemon_ipc_runner_stop (Some r) (Some ctl, Some a) = (Some r', Some ctl, Some a')"
    and inv: "runner_inv (r', ctl, a')" and r': "stopped r'"
    using stop_inv [OF ipcrun.reachable_inv [OF assms(1)]] by blast
  have own: "not_ipc_owned a'" "domain_owner a' = None \<longrightarrow> dom_state a' = swbt_state_neutral" "rn_initialized r'"
    using inv r' by (auto simp: runner_inv_def server_ok_def stopped_def domain_inv_def domain_owner_def lease_owner_def)
  have "\<exists>r''. swbt_daemon_ipc_runner_start env (Some r') (Some ctl, Some a') (Some cfg) = (SWBT_DAEMON_IPC_RUNNER_OK, Some r'')
      \<and> rn_running r''"
    using assms(2-) r' own(3)
    by (auto simp: swbt_daemon_ipc_runner_start_def swbt_ipc_server_bind_control_def swbt_ipc_server_listen_def stopped_def
        swbt_ipc_create_tcp_socket_def Let_def)
  then show ?thesis
    using stop r' own by (auto simp: stopped_def not_ipc_owned_def)
qed

theorem ipc_stop_restart_witness:
  "\<exists>r r' a' r''. rn_has_connection r \<and> swbt_daemon_ipc_runner_stop (Some r) (Some \<lparr>next_direct_sequence = 0\<rparr>, Some demo_domain) =
      (Some r', Some \<lparr>next_direct_sequence = 0\<rparr>, Some a') \<and> \<not> rn_has_connection r'
    \<and> swbt_daemon_ipc_runner_start demo_ipc_env (Some r') (Some \<lparr>next_direct_sequence = 0\<rparr>, Some a')
        (Some demo_runner_config) = (SWBT_DAEMON_IPC_RUNNER_OK, Some r'')"
proof -
  obtain r where r: "reachable runner_initial runner_step (r, \<lparr>next_direct_sequence = 0\<rparr>, demo_domain)" "rn_has_connection r"
    using demo_connected by blast
  show ?thesis
    using ipc_stop_restart [OF r(1), of demo_ipc_env demo_runner_config] r(2)
    by (auto simp: demo_ipc_env_def demo_runner_config_def)
qed

end
