(* ===== verification/Device.thy ===== *)
theory Device
  imports Prelude
begin

unbundle bit_operations_syntax

text \<open>
  The Bluetooth device of \<open>btstack_bridge/device.c\<close> with the decoder of HID events
  (\<open>btstack_bridge/hid_event.c\<close>) and the HID registration sequence
  (\<open>btstack_bridge/hid_device_registration.c\<close>).

  The packet and event numbers come from the headers of BTstack; the decoder takes
  them as a parameter. The functions behind the device port are recorded in the
  ghost field \<open>dev_trace\<close>, their answers are the \<open>device_env\<close> of a call.
\<close>

section \<open>HID events\<close>

datatype swbt_btstack_hid_event_result_t =
    SWBT_BTSTACK_HID_EVENT_OK
  | SWBT_BTSTACK_HID_EVENT_IGNORED
  | SWBT_BTSTACK_HID_EVENT_ERROR_INVALID_ARGUMENT

datatype swbt_btstack_hid_event_type_t =
    SWBT_BTSTACK_HID_EVENT_NONE
  | SWBT_BTSTACK_HID_EVENT_CONNECTION_OPENED
  | SWBT_BTSTACK_HID_EVENT_CONNECTION_CLOSED
  | SWBT_BTSTACK_HID_EVENT_CAN_SEND_NOW
  | SWBT_BTSTACK_HID_EVENT_USER_CONFIRMATION_REQUEST

record swbt_btstack_hid_event_t =
  ev_type :: swbt_btstack_hid_event_type_t
  ev_hid_cid :: u16
  ev_status :: u8
  ev_address :: bytes

record btstack_numbers =
  HCI_EVENT_PACKET :: u8
  HCI_EVENT_USER_CONFIRMATION_REQUEST :: u8
  HCI_EVENT_HID_META :: u8
  HID_SUBEVENT_CONNECTION_OPENED :: u8
  HID_SUBEVENT_CONNECTION_CLOSED :: u8
  HID_SUBEVENT_CAN_SEND_NOW :: u8

definition zero_event :: swbt_btstack_hid_event_t where
  "zero_event = \<lparr>ev_type = SWBT_BTSTACK_HID_EVENT_NONE, ev_hid_cid = 0, ev_status = 0, ev_address = replicate 6 0\<rparr>"

definition swbt_btstack_hid_event_clear :: "swbt_btstack_hid_event_t \<Rightarrow> swbt_btstack_hid_event_t" where
  "swbt_btstack_hid_event_clear event = zero_event"

definition swbt_btstack_hid_event_has_prefix :: "bytes option \<Rightarrow> bool" where
  "swbt_btstack_hid_event_has_prefix packet = (case packet of None \<Rightarrow> False | Some p \<Rightarrow> length p \<ge> 1)"

definition swbt_btstack_hid_event_is_hid_meta :: "btstack_numbers \<Rightarrow> bytes \<Rightarrow> bool" where
  "swbt_btstack_hid_event_is_hid_meta B packet \<longleftrightarrow> length packet \<ge> 3 \<and> packet ! 0 = HCI_EVENT_HID_META B"

definition swbt_btstack_hid_event_read_u16_le :: "bytes \<Rightarrow> u16" where
  "swbt_btstack_hid_event_read_u16_le data = ucast (data ! 0) OR push_bit 8 (ucast (data ! 1))"

definition swbt_btstack_hid_event_copy_reversed_address :: "bytes \<Rightarrow> bytes" where
  "swbt_btstack_hid_event_copy_reversed_address src = [src ! 5, src ! 4, src ! 3, src ! 2, src ! 1, src ! 0]"

definition swbt_btstack_hid_event_decode ::
  "btstack_numbers \<Rightarrow> u8 \<Rightarrow> bytes option \<Rightarrow> swbt_btstack_hid_event_t option
   \<Rightarrow> swbt_btstack_hid_event_result_t \<times> swbt_btstack_hid_event_t option" where
  "swbt_btstack_hid_event_decode B packet_type packet out_event = (case out_event of
       None \<Rightarrow> (SWBT_BTSTACK_HID_EVENT_ERROR_INVALID_ARGUMENT, None)
     | Some event \<Rightarrow>
         let event = swbt_btstack_hid_event_clear event in
         if packet_type \<noteq> HCI_EVENT_PACKET B \<or> \<not> swbt_btstack_hid_event_has_prefix packet
         then (SWBT_BTSTACK_HID_EVENT_IGNORED, Some event)
         else let p = the packet in
           if p ! 0 = HCI_EVENT_USER_CONFIRMATION_REQUEST B
           then (if length p < 8 then (SWBT_BTSTACK_HID_EVENT_IGNORED, Some event)
                 else (SWBT_BTSTACK_HID_EVENT_OK, Some (event
                   \<lparr>ev_type := SWBT_BTSTACK_HID_EVENT_USER_CONFIRMATION_REQUEST,
                    ev_address := swbt_btstack_hid_event_copy_reversed_address (drop 2 p)\<rparr>)))
           else if \<not> swbt_btstack_hid_event_is_hid_meta B p then (SWBT_BTSTACK_HID_EVENT_IGNORED, Some event)
           else if p ! 2 = HID_SUBEVENT_CONNECTION_OPENED B
           then (if length p < 15 then (SWBT_BTSTACK_HID_EVENT_IGNORED, Some event)
                 else (SWBT_BTSTACK_HID_EVENT_OK, Some (event
                   \<lparr>ev_type := SWBT_BTSTACK_HID_EVENT_CONNECTION_OPENED,
                    ev_hid_cid := swbt_btstack_hid_event_read_u16_le (drop 3 p), ev_status := p ! 5,
                    ev_address := swbt_btstack_hid_event_copy_reversed_address (drop 6 p)\<rparr>)))
           else if p ! 2 = HID_SUBEVENT_CONNECTION_CLOSED B
           then (if length p < 5 then (SWBT_BTSTACK_HID_EVENT_IGNORED, Some event)
                 else (SWBT_BTSTACK_HID_EVENT_OK, Some (event
                   \<lparr>ev_type := SWBT_BTSTACK_HID_EVENT_CONNECTION_CLOSED,
                    ev_hid_cid := swbt_btstack_hid_event_read_u16_le (drop 3 p)\<rparr>)))
           else if p ! 2 = HID_SUBEVENT_CAN_SEND_NOW B
           then (if length p < 5 then (SWBT_BTSTACK_HID_EVENT_IGNORED, Some event)
                 else (SWBT_BTSTACK_HID_EVENT_OK, Some (event
                   \<lparr>ev_type := SWBT_BTSTACK_HID_EVENT_CAN_SEND_NOW,
                    ev_hid_cid := swbt_btstack_hid_event_read_u16_le (drop 3 p)\<rparr>)))
           else (SWBT_BTSTACK_HID_EVENT_IGNORED, Some event))"

section \<open>HID registration\<close>

definition SWBT_BTSTACK_HID_SDP_RECORD_SCRATCH_SIZE :: nat where
  "SWBT_BTSTACK_HID_SDP_RECORD_SCRATCH_SIZE = 1024"

datatype swbt_btstack_hid_registration_result_t =
    SWBT_BTSTACK_HID_REGISTRATION_OK
  | SWBT_BTSTACK_HID_REGISTRATION_ERROR_INVALID_ARGUMENT
  | SWBT_BTSTACK_HID_REGISTRATION_ERROR_SDP_RECORD_TOO_LARGE
  | SWBT_BTSTACK_HID_REGISTRATION_ERROR_SDP_REGISTER_FAILED

record swbt_btstack_hid_sdp_record_config_t =
  sdp_hid_device_subclass :: u16
  sdp_hid_country_code :: u8
  sdp_hid_virtual_cable :: u8
  sdp_hid_remote_wake :: u8
  sdp_hid_reconnect_initiate :: u8
  sdp_hid_normally_connectable :: bool
  sdp_hid_boot_device :: bool
  sdp_hid_ssr_host_max_latency :: u16
  sdp_hid_ssr_host_min_timeout :: u16
  sdp_hid_supervision_timeout :: u16
  sdp_hid_descriptor :: "bytes option"
  sdp_hid_descriptor_size :: u16
  sdp_device_name :: string

record swbt_btstack_hid_registration_config_t =
  reg_hid_device_subclass :: u16
  reg_hid_country_code :: u8
  reg_hid_virtual_cable :: u8
  reg_hid_remote_wake :: u8
  reg_hid_reconnect_initiate :: u8
  reg_hid_normally_connectable :: bool
  reg_hid_boot_device :: bool
  reg_hid_ssr_host_max_latency :: u16
  reg_hid_ssr_host_min_timeout :: u16
  reg_hid_supervision_timeout :: u16
  reg_hid_descriptor :: "bytes option"
  reg_hid_descriptor_size :: u16
  reg_device_name :: string
  reg_packet_handler :: bool

text \<open>The functions behind the backend table: what they return and what they store.\<close>

record registration_env =
  sdp_service_record_handle :: u32
  sdp_create_record :: "bytes \<Rightarrow> u32 \<Rightarrow> swbt_btstack_hid_sdp_record_config_t \<Rightarrow> bytes"
  sdp_record_length :: "bytes \<Rightarrow> nat"
  sdp_register :: "bytes \<Rightarrow> u8"

datatype registration_call =
    SdpInit
  | SdpCreateHandle
  | HidCreateSdpRecord u32 swbt_btstack_hid_sdp_record_config_t
  | SdpRegisterService bytes u8
  | HidDeviceInit bool u16 "bytes option"
  | HidDeviceRegisterPacketHandler

definition swbt_btstack_hid_config_is_valid :: "swbt_btstack_hid_registration_config_t option \<Rightarrow> bool" where
  "swbt_btstack_hid_config_is_valid config = (case config of None \<Rightarrow> False | Some c \<Rightarrow>
     reg_hid_descriptor c \<noteq> None \<and> reg_hid_descriptor_size c > 0 \<and> reg_packet_handler c)"

definition swbt_btstack_hid_make_sdp_record_config ::
  "swbt_btstack_hid_registration_config_t \<Rightarrow> swbt_btstack_hid_sdp_record_config_t" where
  "swbt_btstack_hid_make_sdp_record_config c =
     \<lparr>sdp_hid_device_subclass = reg_hid_device_subclass c, sdp_hid_country_code = reg_hid_country_code c,
      sdp_hid_virtual_cable = reg_hid_virtual_cable c, sdp_hid_remote_wake = reg_hid_remote_wake c,
      sdp_hid_reconnect_initiate = reg_hid_reconnect_initiate c,
      sdp_hid_normally_connectable = reg_hid_normally_connectable c, sdp_hid_boot_device = reg_hid_boot_device c,
      sdp_hid_ssr_host_max_latency = reg_hid_ssr_host_max_latency c,
      sdp_hid_ssr_host_min_timeout = reg_hid_ssr_host_min_timeout c,
      sdp_hid_supervision_timeout = reg_hid_supervision_timeout c, sdp_hid_descriptor = reg_hid_descriptor c,
      sdp_hid_descriptor_size = reg_hid_descriptor_size c, sdp_device_name = reg_device_name c\<rparr>"

text \<open>The result is the code, the service buffer and the calls; \<open>backend_valid\<close> is the check of the table. BTstack writes the
  record into the scratch buffer, so that its length, which BTstack reads from the record, is at most the size of that buffer.\<close>

definition swbt_btstack_hid_device_register ::
  "registration_env \<Rightarrow> bool \<Rightarrow> bytes option \<Rightarrow> swbt_btstack_hid_registration_config_t option
   \<Rightarrow> swbt_btstack_hid_registration_result_t \<times> bytes option \<times> registration_call list" where
  "swbt_btstack_hid_device_register env backend_valid service_buffer config =
     (if \<not> backend_valid \<or> \<not> swbt_btstack_hid_config_is_valid config \<or> service_buffer = None
        \<or> length (the service_buffer) = 0
      then (SWBT_BTSTACK_HID_REGISTRATION_ERROR_INVALID_ARGUMENT, service_buffer, [])
      else
        let c = the config; size = length (the service_buffer);
            buffer = replicate size 0;
            scratch = replicate SWBT_BTSTACK_HID_SDP_RECORD_SCRATCH_SIZE 0;
            handle = sdp_service_record_handle env;
            record_config = swbt_btstack_hid_make_sdp_record_config c;
            scratch = sdp_create_record env scratch handle record_config;
            calls = [SdpInit, SdpCreateHandle, HidCreateSdpRecord handle record_config];
            record_len = sdp_record_length env scratch in
        if record_len > size
        then (SWBT_BTSTACK_HID_REGISTRATION_ERROR_SDP_RECORD_TOO_LARGE, Some buffer, calls)
        else
          let buffer = copy_at buffer 0 (take record_len scratch);
              code = sdp_register env buffer;
              calls = calls @ [SdpRegisterService buffer code] in
          if code \<noteq> 0 then (SWBT_BTSTACK_HID_REGISTRATION_ERROR_SDP_REGISTER_FAILED, Some buffer, calls)
          else (SWBT_BTSTACK_HID_REGISTRATION_OK, Some buffer,
                calls @ [HidDeviceInit (reg_hid_boot_device c) (reg_hid_descriptor_size c) (reg_hid_descriptor c),
                  HidDeviceRegisterPacketHandler]))"

section \<open>Device\<close>

definition SWBT_BTSTACK_DEVICE_HID_CONTROL_PSM :: u16 where
  "SWBT_BTSTACK_DEVICE_HID_CONTROL_PSM = 0x11"

definition SWBT_BTSTACK_DEVICE_HID_INTERRUPT_PSM :: u16 where
  "SWBT_BTSTACK_DEVICE_HID_INTERRUPT_PSM = 0x13"

datatype swbt_btstack_device_result_t =
    SWBT_BTSTACK_DEVICE_OK
  | SWBT_BTSTACK_DEVICE_IGNORED
  | SWBT_BTSTACK_DEVICE_ERROR_INVALID_ARGUMENT
  | SWBT_BTSTACK_DEVICE_ERROR_CLOSED
  | SWBT_BTSTACK_DEVICE_ERROR_OPEN_FAILED
  | SWBT_BTSTACK_DEVICE_ERROR_CONNECT_FAILED
  | SWBT_BTSTACK_DEVICE_ERROR_SEND_FAILED
  | SWBT_BTSTACK_DEVICE_ERROR_RECV_FAILED
  | SWBT_BTSTACK_DEVICE_ERROR_DISCONNECT_FAILED

record swbt_btstack_device_connect_request_t =
  cr_address :: bytes
  cr_control_psm :: u16
  cr_interrupt_psm :: u16

record swbt_btstack_device_port_t =
  dp_platform_start :: bool
  dp_platform_stop :: bool
  dp_hid_register :: bool
  dp_hid_stop :: bool
  dp_connect :: bool
  dp_disconnect :: bool
  dp_send :: bool

record device_env =
  de_platform_start :: int
  de_hid_register :: "bytes \<Rightarrow> swbt_btstack_hid_registration_config_t \<Rightarrow> int"
  de_connect :: "swbt_btstack_device_connect_request_t \<Rightarrow> int \<times> u16"
  de_disconnect :: "u16 \<Rightarrow> int"
  de_send :: "u16 \<Rightarrow> bytes \<Rightarrow> int"

datatype device_call =
    PlatformStart int
  | PlatformStop
  | DeviceHidRegister int
  | DeviceHidStop
  | DeviceConnect swbt_btstack_device_connect_request_t int
  | DeviceDisconnect u16 int
  | DeviceSend u16 bytes int

record swbt_btstack_device_open_options_t =
  do_service_buffer :: "bytes option"
  do_registration :: "swbt_btstack_hid_registration_config_t option"

record swbt_btstack_device_t =
  dev_initialized :: bool
  dev_platform_started :: bool
  dev_hid_registered :: bool
  dev_trace :: "device_call list"

type_synonym device = swbt_btstack_device_t

definition dev_call :: "device_call \<Rightarrow> device \<Rightarrow> device" where
  "dev_call c d = d\<lparr>dev_trace := dev_trace d @ [c]\<rparr>"

definition swbt_btstack_device_port_is_valid :: "swbt_btstack_device_port_t option \<Rightarrow> bool" where
  "swbt_btstack_device_port_is_valid port = (case port of None \<Rightarrow> False | Some p \<Rightarrow>
     dp_platform_start p \<and> dp_platform_stop p \<and> dp_hid_register p \<and> dp_hid_stop p \<and> dp_connect p
     \<and> dp_disconnect p \<and> dp_send p)"

definition swbt_btstack_device_init ::
  "device option \<Rightarrow> swbt_btstack_device_port_t option \<Rightarrow> swbt_btstack_device_result_t \<times> device option" where
  "swbt_btstack_device_init dev port = (case dev of
       None \<Rightarrow> (SWBT_BTSTACK_DEVICE_ERROR_INVALID_ARGUMENT, None)
     | Some d \<Rightarrow>
         if \<not> swbt_btstack_device_port_is_valid port then (SWBT_BTSTACK_DEVICE_ERROR_INVALID_ARGUMENT, Some d)
         else (SWBT_BTSTACK_DEVICE_OK, Some \<lparr>dev_initialized = True, dev_platform_started = False,
                 dev_hid_registered = False, dev_trace = dev_trace d\<rparr>))"

definition swbt_btstack_device_open ::
  "device_env \<Rightarrow> device option \<Rightarrow> swbt_btstack_device_open_options_t \<Rightarrow> swbt_btstack_device_result_t \<times> device option" where
  "swbt_btstack_device_open env dev options =
     (if dev = None \<or> \<not> dev_initialized (the dev) \<or> do_service_buffer options = None
        \<or> length (the (do_service_buffer options)) = 0 \<or> do_registration options = None
      then (SWBT_BTSTACK_DEVICE_ERROR_INVALID_ARGUMENT, dev)
      else
        let d = the dev in
        if dev_hid_registered d then (SWBT_BTSTACK_DEVICE_OK, dev)
        else
          let starting = \<not> dev_platform_started d;
              d = (if starting then dev_call (PlatformStart (de_platform_start env)) d else d) in
          if starting \<and> de_platform_start env \<noteq> 0 then (SWBT_BTSTACK_DEVICE_ERROR_OPEN_FAILED, Some d)
          else
            let d = (if starting then d\<lparr>dev_platform_started := True\<rparr> else d);
                code = de_hid_register env (the (do_service_buffer options)) (the (do_registration options));
                d = dev_call (DeviceHidRegister code) d in
            if code \<noteq> 0
            then (SWBT_BTSTACK_DEVICE_ERROR_OPEN_FAILED,
                  Some (if dev_platform_started d then (dev_call PlatformStop d)\<lparr>dev_platform_started := False\<rparr> else d))
            else (SWBT_BTSTACK_DEVICE_OK, Some (d\<lparr>dev_hid_registered := True\<rparr>)))"

text \<open>\<open>out_hid_cid\<close> is the content of the out parameter, None when it is NULL.\<close>

definition swbt_btstack_device_connect ::
  "device_env \<Rightarrow> device option \<Rightarrow> swbt_btstack_device_connect_request_t option \<Rightarrow> u16 option
   \<Rightarrow> swbt_btstack_device_result_t \<times> device option \<times> u16 option" where
  "swbt_btstack_device_connect env dev request out_hid_cid = (case (dev, request, out_hid_cid) of
       (Some d, Some r, Some _) \<Rightarrow>
         if \<not> dev_initialized d then (SWBT_BTSTACK_DEVICE_ERROR_INVALID_ARGUMENT, dev, out_hid_cid)
         else if \<not> dev_hid_registered d then (SWBT_BTSTACK_DEVICE_ERROR_CLOSED, dev, out_hid_cid)
         else let (code, cid) = de_connect env r in
           (if code = 0 then SWBT_BTSTACK_DEVICE_OK else SWBT_BTSTACK_DEVICE_ERROR_CONNECT_FAILED,
            Some (dev_call (DeviceConnect r code) d), Some cid)
     | _ \<Rightarrow> (SWBT_BTSTACK_DEVICE_ERROR_INVALID_ARGUMENT, dev, out_hid_cid))"

definition swbt_btstack_device_disconnect ::
  "device_env \<Rightarrow> device option \<Rightarrow> u16 \<Rightarrow> swbt_btstack_device_result_t \<times> device option" where
  "swbt_btstack_device_disconnect env dev hid_cid = (case dev of
       None \<Rightarrow> (SWBT_BTSTACK_DEVICE_ERROR_INVALID_ARGUMENT, None)
     | Some d \<Rightarrow>
         if \<not> dev_initialized d then (SWBT_BTSTACK_DEVICE_ERROR_INVALID_ARGUMENT, dev)
         else if \<not> dev_hid_registered d then (SWBT_BTSTACK_DEVICE_ERROR_CLOSED, dev)
         else let code = de_disconnect env hid_cid in
           (if code = 0 then SWBT_BTSTACK_DEVICE_OK else SWBT_BTSTACK_DEVICE_ERROR_DISCONNECT_FAILED,
            Some (dev_call (DeviceDisconnect hid_cid code) d)))"

definition swbt_btstack_device_send ::
  "device_env \<Rightarrow> device option \<Rightarrow> u16 \<Rightarrow> bytes option \<Rightarrow> swbt_btstack_device_result_t \<times> device option" where
  "swbt_btstack_device_send env dev hid_cid message = (case (dev, message) of
       (Some d, Some m) \<Rightarrow>
         if \<not> dev_initialized d \<or> length m = 0 \<or> length m > 0xFFFF
         then (SWBT_BTSTACK_DEVICE_ERROR_INVALID_ARGUMENT, dev)
         else if \<not> dev_hid_registered d then (SWBT_BTSTACK_DEVICE_ERROR_CLOSED, dev)
         else let code = de_send env hid_cid m in
           (if code = 0 then SWBT_BTSTACK_DEVICE_OK else SWBT_BTSTACK_DEVICE_ERROR_SEND_FAILED,
            Some (dev_call (DeviceSend hid_cid m code) d))
     | _ \<Rightarrow> (SWBT_BTSTACK_DEVICE_ERROR_INVALID_ARGUMENT, dev))"

definition swbt_btstack_device_recv ::
  "btstack_numbers \<Rightarrow> device option \<Rightarrow> u8 \<Rightarrow> bytes option \<Rightarrow> swbt_btstack_hid_event_t option
   \<Rightarrow> swbt_btstack_device_result_t \<times> swbt_btstack_hid_event_t option" where
  "swbt_btstack_device_recv B dev packet_type packet out_event =
     (if dev = None \<or> \<not> dev_initialized (the dev) \<or> out_event = None
      then (SWBT_BTSTACK_DEVICE_ERROR_INVALID_ARGUMENT, out_event)
      else if \<not> dev_hid_registered (the dev) then (SWBT_BTSTACK_DEVICE_ERROR_CLOSED, out_event)
      else let (result, event) = swbt_btstack_hid_event_decode B packet_type packet out_event in
        (if result = SWBT_BTSTACK_HID_EVENT_OK then SWBT_BTSTACK_DEVICE_OK
         else if result = SWBT_BTSTACK_HID_EVENT_IGNORED then SWBT_BTSTACK_DEVICE_IGNORED
         else SWBT_BTSTACK_DEVICE_ERROR_RECV_FAILED, event))"

definition swbt_btstack_device_close :: "device option \<Rightarrow> device option" where
  "swbt_btstack_device_close dev = (case dev of
       None \<Rightarrow> None
     | Some d \<Rightarrow>
         if \<not> dev_initialized d then Some d
         else let d = (if dev_hid_registered d then (dev_call DeviceHidStop d)\<lparr>dev_hid_registered := False\<rparr> else d)
              in Some (if dev_platform_started d then (dev_call PlatformStop d)\<lparr>dev_platform_started := False\<rparr> else d))"

definition swbt_btstack_device_is_open :: "device option \<Rightarrow> bool" where
  "swbt_btstack_device_is_open dev = (case dev of None \<Rightarrow> False | Some d \<Rightarrow> dev_hid_registered d)"


section \<open>Port discipline\<close>

text \<open>
  The contract of the port as an automaton: the platform is started before HID is
  registered, the channel is used only while HID is registered, and both are
  given back in the opposite order. None is a misuse.
\<close>

fun port_call :: "device_call \<Rightarrow> bool \<times> bool \<Rightarrow> (bool \<times> bool) option" where
  "port_call (PlatformStart code) (platform, hid) = (if platform \<or> hid then None else Some (code = 0, False))"
| "port_call (DeviceHidRegister code) (platform, hid) = (if platform \<and> \<not> hid then Some (True, code = 0) else None)"
| "port_call DeviceHidStop (platform, hid) = (if platform \<and> hid then Some (True, False) else None)"
| "port_call PlatformStop (platform, hid) = (if platform \<and> \<not> hid then Some (False, False) else None)"
| "port_call _ (platform, hid) = (if hid then Some (platform, hid) else None)"

fun port_calls :: "device_call list \<Rightarrow> bool \<times> bool \<Rightarrow> (bool \<times> bool) option" where
  "port_calls [] r = Some r"
| "port_calls (c # cs) r = (case port_call c r of None \<Rightarrow> None | Some r' \<Rightarrow> port_calls cs r')"

lemma port_calls_append:
  "port_calls (cs @ ds) r = (case port_calls cs r of None \<Rightarrow> None | Some r' \<Rightarrow> port_calls ds r')"
  by (induction cs r rule: port_calls.induct) (auto split: option.splits)

datatype device_op =
    Open device_env swbt_btstack_device_open_options_t
  | Connect device_env "swbt_btstack_device_connect_request_t option" "u16 option"
  | Disconnect device_env u16
  | Send device_env u16 "bytes option"
  | Close

fun device_exec :: "device_op \<Rightarrow> device option \<Rightarrow> device option" where
  "device_exec (Open env options) d = snd (swbt_btstack_device_open env d options)"
| "device_exec (Connect env request cid) d = fst (snd (swbt_btstack_device_connect env d request cid))"
| "device_exec (Disconnect env cid) d = snd (swbt_btstack_device_disconnect env d cid)"
| "device_exec (Send env cid message) d = snd (swbt_btstack_device_send env d cid message)"
| "device_exec Close d = swbt_btstack_device_close d"

definition device_step :: "device \<Rightarrow> device_op \<Rightarrow> device \<Rightarrow> bool" where
  "device_step d op d' \<longleftrightarrow> device_exec op (Some d) = Some d'"

definition device_initial :: "device \<Rightarrow> bool" where
  "device_initial d \<longleftrightarrow> (\<exists>old port. dev_trace old = []
     \<and> swbt_btstack_device_init (Some old) port = (SWBT_BTSTACK_DEVICE_OK, Some d))"

definition device_inv :: "device \<Rightarrow> bool" where
  "device_inv d \<longleftrightarrow> dev_initialized d \<and> dev_platform_started d = dev_hid_registered d
     \<and> port_calls (dev_trace d) (False, False) = Some (dev_platform_started d, dev_hid_registered d)"

lemma dev_call_simps [simp]:
  "dev_initialized (dev_call c d) = dev_initialized d" "dev_platform_started (dev_call c d) = dev_platform_started d"
  "dev_hid_registered (dev_call c d) = dev_hid_registered d" "dev_trace (dev_call c d) = dev_trace d @ [c]"
  by (simp_all add: dev_call_def)

lemma device_step_inv:
  assumes "device_inv d" "device_step d op d'"
  shows "device_inv d'"
proof (cases op)
  case (Open env options)
  then show ?thesis
    using assms
    by (auto simp: device_step_def swbt_btstack_device_open_def device_inv_def port_calls_append Let_def split: if_splits)
next
  case (Connect env request cid)
  then show ?thesis
    using assms
    by (auto simp: device_step_def swbt_btstack_device_connect_def device_inv_def port_calls_append
        split: if_splits option.splits prod.splits)
next
  case (Disconnect env cid)
  then show ?thesis
    using assms
    by (auto simp: device_step_def swbt_btstack_device_disconnect_def device_inv_def port_calls_append Let_def split: if_splits)
next
  case (Send env cid message)
  then show ?thesis
    using assms
    by (auto simp: device_step_def swbt_btstack_device_send_def device_inv_def port_calls_append Let_def
        split: if_splits option.splits)
next
  case Close
  then show ?thesis
    using assms
    by (auto simp: device_step_def swbt_btstack_device_close_def device_inv_def port_calls_append Let_def split: if_splits)
qed

interpretation btdevice: invariant_system device_initial device_step device_inv
proof unfold_locales
  fix d assume "device_initial d"
  then show "device_inv d"
    by (auto simp: device_initial_def swbt_btstack_device_init_def device_inv_def split: if_splits)
qed (rule device_step_inv)

section \<open>Decoding events\<close>

text \<open>What the code relies on: BTstack gives different events different numbers.\<close>

definition numbers_distinct :: "btstack_numbers \<Rightarrow> bool" where
  "numbers_distinct B \<longleftrightarrow> HCI_EVENT_USER_CONFIRMATION_REQUEST B \<noteq> HCI_EVENT_HID_META B
     \<and> distinct [HID_SUBEVENT_CONNECTION_OPENED B, HID_SUBEVENT_CONNECTION_CLOSED B, HID_SUBEVENT_CAN_SEND_NOW B]"

text \<open>The packets BTstack sends, as its documentation lays them out; \<open>rest\<close> is what the decoder does not look at.\<close>

definition u16_le :: "u16 \<Rightarrow> bytes" where
  "u16_le x = [ucast x, ucast (drop_bit 8 x)]"

lemma read_u16_le [simp]: "swbt_btstack_hid_event_read_u16_le (u16_le x @ rest) = x"
  unfolding swbt_btstack_hid_event_read_u16_le_def u16_le_def
  by (rule bit_word_eqI) (auto simp: bit_simps)

lemma copy_reversed [simp]:
  "length a = 6 \<Longrightarrow> swbt_btstack_hid_event_copy_reversed_address (rev a @ rest) = a"
  unfolding swbt_btstack_hid_event_copy_reversed_address_def
  by (auto simp: numeral_eq_Suc length_Suc_conv)

fun encode_event :: "btstack_numbers \<Rightarrow> u8 \<Rightarrow> swbt_btstack_hid_event_t \<Rightarrow> bytes \<Rightarrow> bytes" where
  "encode_event B len e rest = (case ev_type e of
       SWBT_BTSTACK_HID_EVENT_CONNECTION_OPENED \<Rightarrow>
         [HCI_EVENT_HID_META B, len, HID_SUBEVENT_CONNECTION_OPENED B] @ u16_le (ev_hid_cid e) @ [ev_status e]
         @ rev (ev_address e) @ rest
     | SWBT_BTSTACK_HID_EVENT_CONNECTION_CLOSED \<Rightarrow>
         [HCI_EVENT_HID_META B, len, HID_SUBEVENT_CONNECTION_CLOSED B] @ u16_le (ev_hid_cid e) @ rest
     | SWBT_BTSTACK_HID_EVENT_CAN_SEND_NOW \<Rightarrow>
         [HCI_EVENT_HID_META B, len, HID_SUBEVENT_CAN_SEND_NOW B] @ u16_le (ev_hid_cid e) @ rest
     | SWBT_BTSTACK_HID_EVENT_USER_CONFIRMATION_REQUEST \<Rightarrow>
         [HCI_EVENT_USER_CONFIRMATION_REQUEST B, len] @ rev (ev_address e) @ rest
     | SWBT_BTSTACK_HID_EVENT_NONE \<Rightarrow> [])"

definition event_wf :: "swbt_btstack_hid_event_t \<Rightarrow> bool" where
  "event_wf e \<longleftrightarrow> length (ev_address e) = 6 \<and> (case ev_type e of
       SWBT_BTSTACK_HID_EVENT_CONNECTION_OPENED \<Rightarrow> True
     | SWBT_BTSTACK_HID_EVENT_CONNECTION_CLOSED \<Rightarrow> ev_status e = 0 \<and> ev_address e = replicate 6 0
     | SWBT_BTSTACK_HID_EVENT_CAN_SEND_NOW \<Rightarrow> ev_status e = 0 \<and> ev_address e = replicate 6 0
     | SWBT_BTSTACK_HID_EVENT_USER_CONFIRMATION_REQUEST \<Rightarrow> ev_hid_cid e = 0 \<and> ev_status e = 0
     | SWBT_BTSTACK_HID_EVENT_NONE \<Rightarrow> False)"

fun event_min_length_of :: "swbt_btstack_hid_event_type_t \<Rightarrow> nat" where
  "event_min_length_of SWBT_BTSTACK_HID_EVENT_CONNECTION_OPENED = 15"
| "event_min_length_of SWBT_BTSTACK_HID_EVENT_USER_CONFIRMATION_REQUEST = 8"
| "event_min_length_of _ = 5"

definition event_min_length :: "swbt_btstack_hid_event_t \<Rightarrow> nat" where
  "event_min_length e = event_min_length_of (ev_type e)"

lemmas decode_defs = swbt_btstack_hid_event_decode_def swbt_btstack_hid_event_clear_def
  swbt_btstack_hid_event_has_prefix_def swbt_btstack_hid_event_is_hid_meta_def Let_def

lemma decode_short:
  assumes "numbers_distinct B" "event_wf e" "n < event_min_length e"
  shows "swbt_btstack_hid_event_decode B (HCI_EVENT_PACKET B) (Some (take n (encode_event B len e rest))) (Some old) =
      (SWBT_BTSTACK_HID_EVENT_IGNORED, Some zero_event)"
  using assms
  by (cases "ev_type e") (auto simp: decode_defs event_min_length_def numbers_distinct_def event_wf_def nth_append)

lemma six_bytes: "length xs = 6 \<Longrightarrow> \<exists>a b c d e f. xs = [a, b, c, d, e, f]"
  by (auto simp: numeral_eq_Suc length_Suc_conv)

lemma decode_whole:
  assumes "numbers_distinct B" "event_wf e" "event_min_length e \<le> n" "event_min_length e \<le> length (encode_event B len e rest)"
  shows "swbt_btstack_hid_event_decode B (HCI_EVENT_PACKET B) (Some (take n (encode_event B len e rest))) (Some old) =
      (SWBT_BTSTACK_HID_EVENT_OK, Some e)"
proof -
  obtain a0 a1 a2 a3 a4 a5 where a: "ev_address e = [a0, a1, a2, a3, a4, a5]"
    using six_bytes [of "ev_address e"] assms(2) by (auto simp: event_wf_def)
  obtain k where k: "n = event_min_length e + k"
    using assms(3) le_Suc_ex by blast
  obtain l h where u16: "u16_le (ev_hid_cid e) = [l, h]" "swbt_btstack_hid_event_read_u16_le (l # h # r) = ev_hid_cid e" for r
    using read_u16_le [of "ev_hid_cid e"] by (simp add: u16_le_def)
  show ?thesis
    using assms(1,2,4) a k u16
    by (cases e; cases "ev_type e")
       (auto simp: decode_defs event_min_length_def numbers_distinct_def event_wf_def zero_event_def
        swbt_btstack_hid_event_copy_reversed_address_def numeral_eq_Suc)
qed

section \<open>Properties\<close>

text \<open>C40: Port discipline of the device: whatever sequence of opens, connects, sends and closes and whatever
  the port answers, HID is registered only on a started platform, nothing is connected or sent while it
  is not registered, everything taken is given back once and in the opposite order, and the two flags
  say what is held. A failed registration gives the platform back.\<close>

theorem device_port_discipline:
  assumes "reachable device_initial device_step d"
  shows "port_calls (dev_trace d) (False, False) = Some (dev_hid_registered d, dev_hid_registered d)
    \<and> dev_platform_started d = swbt_btstack_device_is_open (Some d)"
  using btdevice.reachable_inv [OF assms] by (simp add: device_inv_def swbt_btstack_device_is_open_def)

definition demo_port :: swbt_btstack_device_port_t where
  "demo_port = \<lparr>dp_platform_start = True, dp_platform_stop = True, dp_hid_register = True, dp_hid_stop = True,
     dp_connect = True, dp_disconnect = True, dp_send = True\<rparr>"

definition demo_device :: device where
  "demo_device = \<lparr>dev_initialized = True, dev_platform_started = False, dev_hid_registered = False, dev_trace = []\<rparr>"

definition demo_registration :: swbt_btstack_hid_registration_config_t where
  "demo_registration = \<lparr>reg_hid_device_subclass = 0x2508, reg_hid_country_code = 0x21, reg_hid_virtual_cable = 1, reg_hid_remote_wake = 1,
     reg_hid_reconnect_initiate = 1, reg_hid_normally_connectable = True, reg_hid_boot_device = False, reg_hid_ssr_host_max_latency = 0xFFFF,
     reg_hid_ssr_host_min_timeout = 0xFFFF, reg_hid_supervision_timeout = 0x0C80, reg_hid_descriptor = Some [5, 1],
     reg_hid_descriptor_size = 2, reg_device_name = ''Pro Controller'', reg_packet_handler = True\<rparr>"

definition demo_device_env :: "int \<Rightarrow> device_env" where
  "demo_device_env code = \<lparr>de_platform_start = 0, de_hid_register = (\<lambda>_ _. code), de_connect = (\<lambda>_. (0, 0x42)), de_disconnect = (\<lambda>_. 0),
     de_send = (\<lambda>_ _. - 1)\<rparr>"

definition demo_request :: swbt_btstack_device_connect_request_t where
  "demo_request = \<lparr>cr_address = [1, 2, 3, 4, 5, 6], cr_control_psm = 0x11, cr_interrupt_psm = 0x13\<rparr>"

text \<open>A first open whose registration fails, a second one that works, a connect and a send that fails; then the close.\<close>

definition demo_open_options :: swbt_btstack_device_open_options_t where
  "demo_open_options = \<lparr>do_service_buffer = Some [0, 0], do_registration = Some demo_registration\<rparr>"

definition demo_used_device :: device where
  "demo_used_device = demo_device\<lparr>dev_platform_started := True, dev_hid_registered := True,
     dev_trace := [PlatformStart 0, DeviceHidRegister (- 1), PlatformStop, PlatformStart 0, DeviceHidRegister 0, DeviceConnect demo_request 0,
       DeviceSend 0x42 [0xA1] (- 1)]\<rparr>"

definition demo_closed_device :: device where
  "demo_closed_device = demo_device\<lparr>dev_trace := dev_trace demo_used_device @ [DeviceHidStop, PlatformStop]\<rparr>"

lemma demo_device_reachable:
  "reachable device_initial device_step demo_used_device" "reachable device_initial device_step demo_closed_device"
proof -
  let ?d1 = "demo_device\<lparr>dev_trace := [PlatformStart 0, DeviceHidRegister (- 1), PlatformStop]\<rparr>"
  let ?d2 = "demo_device\<lparr>dev_platform_started := True, dev_hid_registered := True,
    dev_trace := [PlatformStart 0, DeviceHidRegister (- 1), PlatformStop, PlatformStart 0, DeviceHidRegister 0]\<rparr>"
  let ?d3 = "?d2\<lparr>dev_trace := dev_trace ?d2 @ [DeviceConnect demo_request 0]\<rparr>"
  note step_simps = device_step_def swbt_btstack_device_open_def swbt_btstack_device_connect_def swbt_btstack_device_send_def
    swbt_btstack_device_close_def dev_call_def demo_device_def demo_device_env_def demo_open_options_def demo_used_device_def
    demo_closed_device_def Let_def
  have "device_initial demo_device"
    unfolding device_initial_def
    by (intro exI [of _ demo_device] exI [of _ "Some demo_port"])
       (simp add: demo_device_def demo_port_def swbt_btstack_device_init_def swbt_btstack_device_port_is_valid_def)
  then have d: "reachable device_initial device_step demo_device"
    by (rule reach_init [of device_initial])
  have d1: "device_step demo_device (Open (demo_device_env (- 1)) demo_open_options) ?d1"
    by (simp add: step_simps)
  have d2: "device_step ?d1 (Open (demo_device_env 0) demo_open_options) ?d2"
    by (simp add: step_simps)
  have d3: "device_step ?d2 (Connect (demo_device_env 0) (Some demo_request) (Some 0)) ?d3"
    by (simp add: step_simps)
  have d4: "device_step ?d3 (Send (demo_device_env 0) 0x42 (Some [0xA1])) demo_used_device"
    by (simp add: step_simps)
  have d5: "device_step demo_used_device Close demo_closed_device"
    by (simp add: step_simps)
  note step = reach_step [of device_initial device_step]
  note r3 = step [OF step [OF step [OF d d1] d2] d3]
  show used: "reachable device_initial device_step demo_used_device"
    by (rule step [OF r3 d4])
  show "reachable device_initial device_step demo_closed_device"
    by (rule step [OF used d5])
qed

theorem device_port_discipline_witness:
  "dev_trace demo_closed_device = [PlatformStart 0, DeviceHidRegister (- 1), PlatformStop, PlatformStart 0, DeviceHidRegister 0,
      DeviceConnect demo_request 0, DeviceSend 0x42 [0xA1] (- 1), DeviceHidStop, PlatformStop]
    \<and> port_calls (dev_trace demo_used_device) (False, False) = Some (True, True) \<and> swbt_btstack_device_is_open (Some demo_used_device)
    \<and> port_calls (dev_trace demo_closed_device) (False, False) = Some (False, False) \<and> \<not> swbt_btstack_device_is_open (Some demo_closed_device)"
proof -
  have "dev_hid_registered demo_used_device" "dev_platform_started demo_used_device" "\<not> dev_hid_registered demo_closed_device"
      "\<not> dev_platform_started demo_closed_device"
    by (simp_all add: demo_used_device_def demo_closed_device_def demo_device_def)
  then show ?thesis
    using device_port_discipline [OF demo_device_reachable(1)] device_port_discipline [OF demo_device_reachable(2)]
    by (simp add: demo_closed_device_def demo_used_device_def)
qed

text \<open>The four events are decoded from the packets BTstack sends for them, with the connection id and
  the address in the right byte order, whatever follows the fields; a packet of another type, and any
  packet cut short, is ignored and leaves an empty event.\<close>

theorem hid_event_decode_correct:
  assumes "numbers_distinct B" and "event_wf e"
    and "event_min_length e \<le> length (encode_event B len e rest)"
  shows "swbt_btstack_hid_event_decode B t (Some (take n (encode_event B len e rest))) (Some old) =
      (if t = HCI_EVENT_PACKET B \<and> event_min_length e \<le> n then (SWBT_BTSTACK_HID_EVENT_OK, Some e)
       else (SWBT_BTSTACK_HID_EVENT_IGNORED, Some zero_event))"
proof (cases "t = HCI_EVENT_PACKET B")
  case True
  then show ?thesis
    using decode_whole [OF assms(1,2)] decode_short [OF assms(1,2)] assms(3) by simp
next
  case False
  then show ?thesis
    by (simp add: swbt_btstack_hid_event_decode_def swbt_btstack_hid_event_clear_def)
qed

definition demo_numbers :: btstack_numbers where
  "demo_numbers = \<lparr>HCI_EVENT_PACKET = 0x04, HCI_EVENT_USER_CONFIRMATION_REQUEST = 0x33, HCI_EVENT_HID_META = 0xEF,
     HID_SUBEVENT_CONNECTION_OPENED = 0x02, HID_SUBEVENT_CONNECTION_CLOSED = 0x03, HID_SUBEVENT_CAN_SEND_NOW = 0x04\<rparr>"

theorem hid_event_decode_correct_witness:
  "swbt_btstack_hid_event_decode demo_numbers 0x04 (Some [0xEF, 13, 0x02, 0x42, 0, 0, 6, 5, 4, 3, 2, 1, 9, 9, 0])
      (Some zero_event) =
    (SWBT_BTSTACK_HID_EVENT_OK, Some \<lparr>ev_type = SWBT_BTSTACK_HID_EVENT_CONNECTION_OPENED, ev_hid_cid = 0x42,
       ev_status = 0, ev_address = [1, 2, 3, 4, 5, 6]\<rparr>)"
  using hid_event_decode_correct [of demo_numbers "\<lparr>ev_type = SWBT_BTSTACK_HID_EVENT_CONNECTION_OPENED, ev_hid_cid = 0x42,
       ev_status = 0, ev_address = [1, 2, 3, 4, 5, 6]\<rparr>" 13 "[9, 9, 0]" "0x04" 15 zero_event]
  by (simp add: demo_numbers_def numbers_distinct_def event_wf_def event_min_length_def u16_le_def)

end
