(* ===== verification/HidDescriptor.thy ===== *)
theory HidDescriptor
  imports Prelude
begin

unbundle bit_operations_syntax

text \<open>
  The HID report descriptor of \<open>switch/switch_hid_descriptor.c\<close>, and a reader of
  descriptors that says which reports one declares: the short items of the HID specification, with the report
  id, report size and report count that are in force at every input and output item.
\<close>

section \<open>The descriptor\<close>

definition SWBT_SWITCH_HID_DESCRIPTOR_SIZE :: nat where
  "SWBT_SWITCH_HID_DESCRIPTOR_SIZE = 203"

definition k_switch_hid_descriptor :: bytes where
  "k_switch_hid_descriptor = [
    0x05, 0x01, 0x15, 0x00, 0x09, 0x04, 0xA1, 0x01, 0x85, 0x30, 0x05, 0x01, 0x05, 0x09, 0x19, 0x01,
    0x29, 0x0A, 0x15, 0x00, 0x25, 0x01, 0x75, 0x01, 0x95, 0x0A, 0x55, 0x00, 0x65, 0x00, 0x81, 0x02,
    0x05, 0x09, 0x19, 0x0B, 0x29, 0x0E, 0x15, 0x00, 0x25, 0x01, 0x75, 0x01, 0x95, 0x04, 0x81, 0x02,
    0x75, 0x01, 0x95, 0x02, 0x81, 0x03, 0x0B, 0x01, 0x00, 0x01, 0x00, 0xA1, 0x00, 0x0B, 0x30, 0x00,
    0x01, 0x00, 0x0B, 0x31, 0x00, 0x01, 0x00, 0x0B, 0x32, 0x00, 0x01, 0x00, 0x0B, 0x35, 0x00, 0x01,
    0x00, 0x15, 0x00, 0x27, 0xFF, 0xFF, 0x00, 0x00, 0x75, 0x10, 0x95, 0x04, 0x81, 0x02, 0xC0, 0x0B,
    0x39, 0x00, 0x01, 0x00, 0x15, 0x00, 0x25, 0x07, 0x35, 0x00, 0x46, 0x3B, 0x01, 0x65, 0x14, 0x75,
    0x04, 0x95, 0x01, 0x81, 0x02, 0x05, 0x09, 0x19, 0x0F, 0x29, 0x12, 0x15, 0x00, 0x25, 0x01, 0x75,
    0x01, 0x95, 0x04, 0x81, 0x02, 0x75, 0x08, 0x95, 0x34, 0x81, 0x03, 0x06, 0x00, 0xFF, 0x85, 0x21,
    0x09, 0x01, 0x75, 0x08, 0x95, 0x3F, 0x81, 0x03, 0x85, 0x81, 0x09, 0x02, 0x75, 0x08, 0x95, 0x3F,
    0x81, 0x03, 0x85, 0x01, 0x09, 0x03, 0x75, 0x08, 0x95, 0x3F, 0x91, 0x83, 0x85, 0x10, 0x09, 0x04,
    0x75, 0x08, 0x95, 0x3F, 0x91, 0x83, 0x85, 0x80, 0x09, 0x05, 0x75, 0x08, 0x95, 0x3F, 0x91, 0x83,
    0x85, 0x82, 0x09, 0x06, 0x75, 0x08, 0x95, 0x3F, 0x91, 0x83, 0xC0]"

definition swbt_switch_hid_descriptor_data :: bytes where
  "swbt_switch_hid_descriptor_data = k_switch_hid_descriptor"

definition swbt_switch_hid_descriptor_size :: nat where
  "swbt_switch_hid_descriptor_size = length k_switch_hid_descriptor"

section \<open>Reading a descriptor\<close>

text \<open>
  A short item is a prefix, whose two low bits give the number of data bytes, and its data, least significant
  byte first. None is a descriptor that ends inside an item.
\<close>

definition item_size :: "u8 \<Rightarrow> nat" where
  "item_size b = (let n = unat (b AND 3) in if n = 3 then 4 else n)"

fun item_value :: "bytes \<Rightarrow> nat" where
  "item_value [] = 0"
| "item_value (b # bs) = unat b + 256 * item_value bs"

function hid_items :: "bytes \<Rightarrow> (u8 \<times> nat) list option" where
  "hid_items [] = Some []"
| "hid_items (b # bs) = (if item_size b > length bs then None
     else map_option (Cons (b AND 0xFC, item_value (take (item_size b) bs))) (hid_items (drop (item_size b) bs)))"
  by pat_completeness auto
termination by (relation "measure length") auto

datatype report_kind = InputReport | OutputReport

record item_state =
  it_report_id :: nat
  it_report_size :: nat
  it_report_count :: nat
  it_depth :: nat

text \<open>The fields in the order of the items: kind, report id and number of bits; None is an end without a collection.\<close>

fun hid_fields :: "(u8 \<times> nat) list \<Rightarrow> item_state \<Rightarrow> (report_kind \<times> nat \<times> nat) list option" where
  "hid_fields [] s = (if it_depth s = 0 then Some [] else None)"
| "hid_fields ((tag, v) # items) s =
     (if tag = 0x84 then hid_fields items (s\<lparr>it_report_id := v\<rparr>)
      else if tag = 0x74 then hid_fields items (s\<lparr>it_report_size := v\<rparr>)
      else if tag = 0x94 then hid_fields items (s\<lparr>it_report_count := v\<rparr>)
      else if tag = 0xA0 then hid_fields items (s\<lparr>it_depth := it_depth s + 1\<rparr>)
      else if tag = 0xC0 then (if it_depth s = 0 then None else hid_fields items (s\<lparr>it_depth := it_depth s - 1\<rparr>))
      else if tag = 0x80 then map_option (Cons (InputReport, it_report_id s, it_report_size s * it_report_count s)) (hid_fields items s)
      else if tag = 0x90 then map_option (Cons (OutputReport, it_report_id s, it_report_size s * it_report_count s)) (hid_fields items s)
      else hid_fields items s)"

definition declared_fields :: "bytes \<Rightarrow> (report_kind \<times> nat \<times> nat) list option" where
  "declared_fields d = Option.bind (hid_items d)
     (\<lambda>items. hid_fields items \<lparr>it_report_id = 0, it_report_size = 0, it_report_count = 0, it_depth = 0\<rparr>)"

text \<open>The number of bits of a report, without its id; 0 if it is not declared.\<close>

definition report_bits :: "bytes \<Rightarrow> report_kind \<Rightarrow> nat \<Rightarrow> nat" where
  "report_bits d k i = (case declared_fields d of None \<Rightarrow> 0
     | Some fs \<Rightarrow> sum_list (map (\<lambda>(k', i', n). if k' = k \<and> i' = i then n else 0) fs))"

lemma descriptor_fields:
  "declared_fields k_switch_hid_descriptor = Some [(InputReport, 0x30, 10), (InputReport, 0x30, 4), (InputReport, 0x30, 2),
     (InputReport, 0x30, 64), (InputReport, 0x30, 4), (InputReport, 0x30, 4), (InputReport, 0x30, 416),
     (InputReport, 0x21, 504), (InputReport, 0x81, 504), (OutputReport, 0x01, 504), (OutputReport, 0x10, 504),
     (OutputReport, 0x80, 504), (OutputReport, 0x82, 504)]"
  by (simp add: declared_fields_def k_switch_hid_descriptor_def item_size_def)

end
