(* ===== verification/Platform.thy ===== *)
theory Platform
  imports Addresses Device HidDescriptor CNumber
begin

text \<open>
  The BTstack platform of \<open>btstack_bridge/production_btstack_impl.c\<close>: start and stop of the stack with the HCI dump
  (\<open>hci_dump_text.c\<close>), the link key store and the discovery settings (\<open>classic_discovery.c\<close>), the timer that pumps
  the IPC service, the list of USB adapters, and the ports for HID traffic and timers.

  The functions of BTstack, of libusb and of the C library's files are outside: the calls are recorded in the ghost
  field \<open>pl_trace\<close>, what they answer is the \<open>platform_env\<close> of a call. The file behind the HCI dump is the text
  written to it so far. The POSIX build with libusb is modelled.
\<close>

section \<open>Calls and state\<close>

datatype platform_call =
    MemoryInit
  | RunLoopInit
  | RunLoopDeinit
  | HciInit
  | HciClose
  | HciDumpInit bool
  | DumpClosed string
  | TlvInit
  | TlvSetInstance bool
  | TlvDeinit
  | SetLinkKeyDb
  | AddLinkKeyHandler
  | RemoveLinkKeyHandler
  | StoreLinkKey bytes bytes u8
  | DiscoverableControl u8
  | SetClassOfDevice u32
  | SetLocalName string
  | SetDefaultLinkPolicy u16
  | SetAllowRoleSwitch bool
  | L2capInit
  | PumpSetTimerHandler
  | PumpSetTimerContext
  | PumpSetTimer u32
  | PumpAddTimer
  | PumpRemoveTimer
  | PumpTimerFires

text \<open>\<open>PumpTimerFires\<close> is not a call: it records that the run loop has taken the timer out and runs its handler.\<close>

record platform_env =
  pe_fopen :: "string \<Rightarrow> bool"
  pe_tlv_open :: "string \<Rightarrow> bool"
  pe_is_null :: "bytes \<Rightarrow> bool"
  pe_link_key_notification :: u8
  pe_link_policy_role_switch :: u16
  pe_link_policy_sniff :: u16

record platform =
  pl_hci_dump_open :: bool
  pl_hci_dump_path :: "string option"
  pl_hci_dump_file :: "string option"
  pl_link_key_db_path :: "string option"
  pl_link_key_db_open :: bool
  pl_link_key_handler_registered :: bool
  pl_pump_set :: bool
  pl_pump_started :: bool
  pl_pump_timer_pending :: bool
  pl_trace :: "platform_call list"

definition pl_calls :: "platform_call list \<Rightarrow> platform \<Rightarrow> platform" where
  "pl_calls es p = p\<lparr>pl_trace := pl_trace p @ es\<rparr>"

section \<open>HCI dump\<close>

definition swbt_diagnostic_path_is_enabled :: "string option \<Rightarrow> bool" where
  "swbt_diagnostic_path_is_enabled path = (case path of None \<Rightarrow> False | Some s \<Rightarrow> at_cursor s \<noteq> NUL)"

datatype swbt_btstack_hci_dump_text_result_t =
    SWBT_BTSTACK_HCI_DUMP_TEXT_OK
  | SWBT_BTSTACK_HCI_DUMP_TEXT_ERROR_INVALID_ARGUMENT
  | SWBT_BTSTACK_HCI_DUMP_TEXT_ERROR_OPEN_FAILED

definition swbt_btstack_hci_dump_text_close :: "platform \<Rightarrow> platform" where
  "swbt_btstack_hci_dump_text_close p = (case pl_hci_dump_file p of
       None \<Rightarrow> p
     | Some content \<Rightarrow> (pl_calls [DumpClosed content] p)\<lparr>pl_hci_dump_file := None\<rparr>)"

definition swbt_btstack_hci_dump_text_open ::
  "platform_env \<Rightarrow> string option \<Rightarrow> platform \<Rightarrow> swbt_btstack_hci_dump_text_result_t \<times> platform" where
  "swbt_btstack_hci_dump_text_open env path p =
     (if path = None \<or> at_cursor (the path) = NUL then (SWBT_BTSTACK_HCI_DUMP_TEXT_ERROR_INVALID_ARGUMENT, p)
      else let p = swbt_btstack_hci_dump_text_close p in
        if \<not> pe_fopen env (the path) then (SWBT_BTSTACK_HCI_DUMP_TEXT_ERROR_OPEN_FAILED, p)
        else (SWBT_BTSTACK_HCI_DUMP_TEXT_OK, p\<lparr>pl_hci_dump_file := Some (''swbt hci dump text v1'' @ [CHR 0x0A])\<rparr>))"

text \<open>\<open>%02x\<close> of a byte.\<close>

definition hex2 :: "nat \<Rightarrow> string" where
  "hex2 n = map hex_lower (nibbles 2 n)"

definition swbt_btstack_hci_dump_text_log_packet :: "u8 \<Rightarrow> u8 \<Rightarrow> bytes \<Rightarrow> platform \<Rightarrow> platform" where
  "swbt_btstack_hci_dump_text_log_packet packet_type in_flag packet p = (case pl_hci_dump_file p of
       None \<Rightarrow> p
     | Some content \<Rightarrow> p\<lparr>pl_hci_dump_file := Some (content @ ''packet type=0x'' @ hex2 (unat packet_type)
         @ '' in='' @ decimal (unat in_flag) @ '' len='' @ decimal (length packet) @ '' data=''
         @ concat (map (\<lambda>b. hex2 (unat b)) packet) @ [CHR 0x0A])\<rparr>)"

definition swbt_btstack_production_hci_dump_start :: "platform_env \<Rightarrow> string option \<Rightarrow> platform \<Rightarrow> int \<times> platform" where
  "swbt_btstack_production_hci_dump_start env path p =
     (if \<not> swbt_diagnostic_path_is_enabled path then (0, p)
      else let (result, p) = swbt_btstack_hci_dump_text_open env path p in
        if result \<noteq> SWBT_BTSTACK_HCI_DUMP_TEXT_OK then (- 1, p)
        else (0, (pl_calls [HciDumpInit True] p)\<lparr>pl_hci_dump_open := True\<rparr>))"

definition swbt_btstack_production_hci_dump_configure :: "string option \<Rightarrow> platform \<Rightarrow> int \<times> platform" where
  "swbt_btstack_production_hci_dump_configure path p =
     (if path \<noteq> None \<and> at_cursor (the path) = NUL then (- 1, p) else (0, p\<lparr>pl_hci_dump_path := path\<rparr>))"

definition swbt_btstack_production_hci_dump_stop :: "platform \<Rightarrow> platform" where
  "swbt_btstack_production_hci_dump_stop p =
     (if \<not> pl_hci_dump_open p then p
      else (swbt_btstack_hci_dump_text_close (pl_calls [HciDumpInit False] p))\<lparr>pl_hci_dump_open := False\<rparr>)"

section \<open>Link key store\<close>

definition swbt_btstack_production_link_key_db_configure :: "string option \<Rightarrow> platform \<Rightarrow> int \<times> platform" where
  "swbt_btstack_production_link_key_db_configure path p =
     (if path \<noteq> None \<and> at_cursor (the path) = NUL then (- 1, p) else (0, p\<lparr>pl_link_key_db_path := path\<rparr>))"

text \<open>A link key notification: event code, length, address in reverse, key, type.\<close>

definition link_key_packet_handler :: "btstack_numbers \<Rightarrow> platform_env \<Rightarrow> u8 \<Rightarrow> bytes option \<Rightarrow> platform \<Rightarrow> platform" where
  "link_key_packet_handler B env packet_type packet p =
     (if \<not> pl_link_key_db_open p \<or> packet_type \<noteq> HCI_EVENT_PACKET B \<or> packet = None \<or> length (the packet) < 25
        \<or> the packet ! 0 \<noteq> pe_link_key_notification env then p
      else if pe_is_null env (take 16 (drop 8 (the packet))) then p
      else let addr = map (\<lambda>i. the packet ! (7 - i)) [0..<6]; link_key = take 16 (drop 8 (the packet));
               link_key_type = the packet ! 24
           in pl_calls [StoreLinkKey addr link_key link_key_type] p)"

definition link_key_events_start :: "platform \<Rightarrow> platform" where
  "link_key_events_start p = (if pl_link_key_handler_registered p then p
     else (pl_calls [AddLinkKeyHandler] p)\<lparr>pl_link_key_handler_registered := True\<rparr>)"

definition link_key_events_stop :: "platform \<Rightarrow> platform" where
  "link_key_events_stop p = (if \<not> pl_link_key_handler_registered p then p
     else (pl_calls [RemoveLinkKeyHandler] p)\<lparr>pl_link_key_handler_registered := False\<rparr>)"

definition link_key_db_start :: "platform_env \<Rightarrow> platform \<Rightarrow> int \<times> platform" where
  "link_key_db_start env p =
     (if \<not> swbt_diagnostic_path_is_enabled (pl_link_key_db_path p) then (0, p)
      else if \<not> pe_tlv_open env (the (pl_link_key_db_path p)) then (- 1, p)
      else let p = link_key_events_start (pl_calls [TlvInit, TlvSetInstance True, SetLinkKeyDb] p)
           in (0, p\<lparr>pl_link_key_db_open := True\<rparr>))"

definition link_key_db_stop :: "platform \<Rightarrow> platform" where
  "link_key_db_stop p = (if \<not> pl_link_key_db_open p then p
     else (pl_calls [TlvSetInstance False, TlvDeinit] p)\<lparr>pl_link_key_db_open := False\<rparr>)"

section \<open>Pump timer\<close>

definition SWBT_BTSTACK_IPC_PUMP_PERIOD_MS :: u32 where
  "SWBT_BTSTACK_IPC_PUMP_PERIOD_MS = 1"

definition swbt_btstack_production_ipc_pump_schedule :: "platform \<Rightarrow> platform" where
  "swbt_btstack_production_ipc_pump_schedule p =
     (if \<not> pl_pump_started p \<or> pl_pump_timer_pending p then p
      else (pl_calls [PumpSetTimer SWBT_BTSTACK_IPC_PUMP_PERIOD_MS, PumpAddTimer] p)\<lparr>pl_pump_timer_pending := True\<rparr>)"

text \<open>\<open>pump_ok\<close> says whether the two functions of the pump are set.\<close>

definition swbt_btstack_production_ipc_pump_start :: "bool \<Rightarrow> platform \<Rightarrow> int \<times> platform" where
  "swbt_btstack_production_ipc_pump_start pump_ok p =
     (if \<not> pump_ok then (- 1, p)
      else (0, pl_calls [PumpSetTimerHandler, PumpSetTimerContext]
             (p\<lparr>pl_pump_set := True, pl_pump_started := True, pl_pump_timer_pending := False\<rparr>)))"

definition swbt_btstack_production_ipc_pump_stop :: "platform \<Rightarrow> platform" where
  "swbt_btstack_production_ipc_pump_stop p =
     (let p = (if pl_pump_timer_pending p then (pl_calls [PumpRemoveTimer] p)\<lparr>pl_pump_timer_pending := False\<rparr> else p)
      in p\<lparr>pl_pump_started := False, pl_pump_set := False\<rparr>)"

text \<open>
  The handler: \<open>poll\<close> is the IPC service behind the two functions of the pump, on its own state \<open>x\<close>; \<open>is_running\<close> is the
  first one. The time is the clock of the run loop.
\<close>

definition swbt_btstack_production_ipc_pump_timer_handler ::
  "('x \<Rightarrow> bool) \<Rightarrow> ('x \<Rightarrow> u32 \<Rightarrow> 'x) \<Rightarrow> u32 \<Rightarrow> platform \<times> 'x \<Rightarrow> platform \<times> 'x" where
  "swbt_btstack_production_ipc_pump_timer_handler is_running poll now_ms = (\<lambda>(p, x).
     let p = (pl_calls [PumpTimerFires] p)\<lparr>pl_pump_timer_pending := False\<rparr>;
         x = (if pl_pump_set p \<and> is_running x then poll x now_ms else x)
     in (swbt_btstack_production_ipc_pump_schedule p, x))"

section \<open>Discovery\<close>

datatype swbt_btstack_classic_discovery_result_t =
    SWBT_BTSTACK_CLASSIC_DISCOVERY_OK
  | SWBT_BTSTACK_CLASSIC_DISCOVERY_ERROR_INVALID_ARGUMENT

record swbt_btstack_classic_discovery_config_t =
  cd_class_of_device :: u32
  cd_local_name :: "string option"
  cd_link_policy_settings :: u16
  cd_allow_role_switch :: bool
  cd_discoverable :: bool

record swbt_btstack_classic_discovery_backend_t =
  cb_discoverable_control :: bool
  cb_set_class_of_device :: bool
  cb_set_local_name :: bool
  cb_set_default_link_policy_settings :: bool
  cb_set_allow_role_switch :: bool

definition swbt_btstack_classic_discovery_backend_is_valid :: "swbt_btstack_classic_discovery_backend_t option \<Rightarrow> bool" where
  "swbt_btstack_classic_discovery_backend_is_valid bk = (case bk of None \<Rightarrow> False | Some b \<Rightarrow>
     cb_discoverable_control b \<and> cb_set_class_of_device b \<and> cb_set_local_name b
     \<and> cb_set_default_link_policy_settings b \<and> cb_set_allow_role_switch b)"

definition swbt_btstack_classic_discovery_configure ::
  "swbt_btstack_classic_discovery_backend_t option \<Rightarrow> swbt_btstack_classic_discovery_config_t option
   \<Rightarrow> swbt_btstack_classic_discovery_result_t \<times> platform_call list" where
  "swbt_btstack_classic_discovery_configure bk config =
     (if \<not> swbt_btstack_classic_discovery_backend_is_valid bk \<or> config = None \<or> cd_local_name (the config) = None
        \<or> at_cursor (the (cd_local_name (the config))) = NUL
      then (SWBT_BTSTACK_CLASSIC_DISCOVERY_ERROR_INVALID_ARGUMENT, [])
      else let c = the config in
        (SWBT_BTSTACK_CLASSIC_DISCOVERY_OK,
         [DiscoverableControl (if cd_discoverable c then 1 else 0), SetClassOfDevice (cd_class_of_device c),
          SetLocalName (the (cd_local_name c)), SetDefaultLinkPolicy (cd_link_policy_settings c),
          SetAllowRoleSwitch (cd_allow_role_switch c)]))"

definition swbt_btstack_classic_discovery_backend_btstack :: swbt_btstack_classic_discovery_backend_t where
  "swbt_btstack_classic_discovery_backend_btstack = \<lparr>cb_discoverable_control = True, cb_set_class_of_device = True,
     cb_set_local_name = True, cb_set_default_link_policy_settings = True, cb_set_allow_role_switch = True\<rparr>"

definition swbt_btstack_production_hid_registration_config :: swbt_btstack_hid_registration_config_t where
  "swbt_btstack_production_hid_registration_config =
     \<lparr>reg_hid_device_subclass = 0x2508, reg_hid_country_code = 0x21, reg_hid_virtual_cable = 1, reg_hid_remote_wake = 1,
      reg_hid_reconnect_initiate = 1, reg_hid_normally_connectable = True, reg_hid_boot_device = False,
      reg_hid_ssr_host_max_latency = 0xFFFF, reg_hid_ssr_host_min_timeout = 0xFFFF, reg_hid_supervision_timeout = 0x0C80,
      reg_hid_descriptor = Some swbt_switch_hid_descriptor_data,
      reg_hid_descriptor_size = of_nat swbt_switch_hid_descriptor_size,
      reg_device_name = ''Pro Controller'', reg_packet_handler = False\<rparr>"

definition swbt_btstack_production_discovery_config :: "platform_env \<Rightarrow> swbt_btstack_classic_discovery_config_t" where
  "swbt_btstack_production_discovery_config env =
     \<lparr>cd_class_of_device = ucast (reg_hid_device_subclass swbt_btstack_production_hid_registration_config),
      cd_local_name = Some (reg_device_name swbt_btstack_production_hid_registration_config),
      cd_link_policy_settings = pe_link_policy_role_switch env OR pe_link_policy_sniff env,
      cd_allow_role_switch = True, cd_discoverable = True\<rparr>"

section \<open>Start and stop\<close>

definition swbt_btstack_production_platform_start :: "platform_env \<Rightarrow> platform \<Rightarrow> int \<times> platform" where
  "swbt_btstack_production_platform_start env p =
     (let (code, p) = swbt_btstack_production_hci_dump_start env (pl_hci_dump_path p) p in
      if code \<noteq> 0 then (- 1, p)
      else
        let p = pl_calls [MemoryInit, RunLoopInit, HciInit] p;
            (code, p) = link_key_db_start env p in
        if code \<noteq> 0 then (- 1, swbt_btstack_production_hci_dump_stop p)
        else
          let (discovery_result, calls) = swbt_btstack_classic_discovery_configure
                (Some swbt_btstack_classic_discovery_backend_btstack) (Some (swbt_btstack_production_discovery_config env));
              p = pl_calls calls p in
          if discovery_result \<noteq> SWBT_BTSTACK_CLASSIC_DISCOVERY_OK
          then (- 1, swbt_btstack_production_hci_dump_stop (link_key_db_stop (link_key_events_stop p)))
          else (0, swbt_btstack_production_ipc_pump_schedule (pl_calls [L2capInit] p)))"

definition swbt_btstack_production_platform_stop :: "platform \<Rightarrow> platform" where
  "swbt_btstack_production_platform_stop p =
     (let p = swbt_btstack_production_ipc_pump_stop p;
          p = link_key_events_stop p;
          p = pl_calls [HciClose] p;
          p = link_key_db_stop p;
          p = pl_calls [RunLoopDeinit] p
      in swbt_btstack_production_hci_dump_stop p)"

section \<open>The order of the calls\<close>

text \<open>
  What the stack allows: which of the run loop, the HCI layer, the HCI dump, the context of the link key store, the store
  that is in use, its event handler and the pump timer are in place. None is a misuse: a run loop or an HCI layer
  initialised twice or given back twice, a run loop given back before the HCI layer, a timer outside of the run loop or added
  twice, a handler left behind when the HCI layer is closed, the context of a store given back while the store is in use or the
  HCI layer still refers to it, a key stored into a closed store, a dump file closed while the stack writes to it.
\<close>

record stack_state =
  st_up :: bool
  st_hci :: bool
  st_dump :: bool
  st_context :: bool
  st_tlv :: bool
  st_handler :: bool
  st_timer :: bool

fun stack_call :: "platform_call \<Rightarrow> stack_state \<Rightarrow> stack_state option" where
  "stack_call MemoryInit s = (if st_up s then None else Some s)"
| "stack_call RunLoopInit s = (if st_up s \<or> st_timer s then None else Some (s\<lparr>st_up := True\<rparr>))"
| "stack_call RunLoopDeinit s =
     (if st_up s \<and> \<not> st_hci s \<and> \<not> st_timer s \<and> \<not> st_context s then Some (s\<lparr>st_up := False\<rparr>) else None)"
| "stack_call HciInit s = (if st_up s \<and> \<not> st_hci s then Some (s\<lparr>st_hci := True\<rparr>) else None)"
| "stack_call HciClose s = (if st_hci s \<and> \<not> st_timer s \<and> \<not> st_handler s then Some (s\<lparr>st_hci := False\<rparr>) else None)"
| "stack_call (HciDumpInit b) s = (if st_dump s = b then None else Some (s\<lparr>st_dump := b\<rparr>))"
| "stack_call (DumpClosed _) s = (if st_dump s then None else Some s)"
| "stack_call TlvInit s = (if st_up s \<and> \<not> st_context s then Some (s\<lparr>st_context := True\<rparr>) else None)"
| "stack_call (TlvSetInstance b) s =
     (if st_context s \<and> st_tlv s \<noteq> b \<and> \<not> st_handler s then Some (s\<lparr>st_tlv := b\<rparr>) else None)"
| "stack_call TlvDeinit s = (if st_context s \<and> \<not> st_tlv s \<and> \<not> st_hci s then Some (s\<lparr>st_context := False\<rparr>) else None)"
| "stack_call SetLinkKeyDb s = (if st_hci s \<and> st_tlv s then Some s else None)"
| "stack_call AddLinkKeyHandler s = (if st_hci s \<and> st_tlv s \<and> \<not> st_handler s then Some (s\<lparr>st_handler := True\<rparr>) else None)"
| "stack_call RemoveLinkKeyHandler s = (if st_hci s \<and> st_handler s then Some (s\<lparr>st_handler := False\<rparr>) else None)"
| "stack_call (StoreLinkKey _ _ _) s = (if st_tlv s \<and> st_handler s then Some s else None)"
| "stack_call PumpSetTimerHandler s = (if st_timer s then None else Some s)"
| "stack_call PumpSetTimerContext s = (if st_timer s then None else Some s)"
| "stack_call (PumpSetTimer _) s = (if st_up s \<and> \<not> st_timer s then Some s else None)"
| "stack_call PumpAddTimer s = (if st_up s \<and> \<not> st_timer s then Some (s\<lparr>st_timer := True\<rparr>) else None)"
| "stack_call PumpRemoveTimer s = (if st_up s \<and> st_timer s then Some (s\<lparr>st_timer := False\<rparr>) else None)"
| "stack_call PumpTimerFires s = (if st_up s \<and> st_timer s then Some (s\<lparr>st_timer := False\<rparr>) else None)"
| "stack_call _ s = (if st_hci s then Some s else None)"

fun stack_calls :: "platform_call list \<Rightarrow> stack_state \<Rightarrow> stack_state option" where
  "stack_calls [] s = Some s"
| "stack_calls (e # es) s = (case stack_call e s of None \<Rightarrow> None | Some s' \<Rightarrow> stack_calls es s')"

lemma stack_calls_append:
  "stack_calls (es @ fs) s = (case stack_calls es s of None \<Rightarrow> None | Some s' \<Rightarrow> stack_calls fs s')"
  by (induction es s rule: stack_calls.induct) (auto split: option.splits)

definition stack_off :: stack_state where
  "stack_off = \<lparr>st_up = False, st_hci = False, st_dump = False, st_context = False, st_tlv = False, st_handler = False, st_timer = False\<rparr>"

text \<open>What the calls of a platform have left in place.\<close>

definition stack_after :: "platform \<Rightarrow> stack_state \<Rightarrow> bool" where
  "stack_after p s \<longleftrightarrow> stack_calls (pl_trace p) stack_off = Some s \<and> st_dump s = pl_hci_dump_open p \<and> st_tlv s = pl_link_key_db_open p
     \<and> st_context s = pl_link_key_db_open p
     \<and> st_handler s = pl_link_key_handler_registered p \<and> st_timer s = pl_pump_timer_pending p
     \<and> pl_hci_dump_open p = (pl_hci_dump_file p \<noteq> None) \<and> pl_pump_set p = pl_pump_started p
     \<and> (pl_pump_timer_pending p \<longrightarrow> pl_pump_started p)"

named_theorems platform_simps \<open>the operations of the platform on its flags and calls\<close>

lemmas [platform_simps] = stack_after_def stack_calls_append pl_calls_def Let_def

subsection \<open>Effects of the parts\<close>

lemma dump_start_after:
  assumes "stack_after p s" "\<not> pl_hci_dump_open p" "swbt_btstack_production_hci_dump_start env path p = (code, p')"
  shows "stack_after p' (s\<lparr>st_dump := pl_hci_dump_open p'\<rparr>) \<and> (code \<noteq> 0 \<longrightarrow> \<not> pl_hci_dump_open p')
    \<and> pl_link_key_db_open p' = pl_link_key_db_open p \<and> pl_link_key_handler_registered p' = pl_link_key_handler_registered p
    \<and> pl_pump_started p' = pl_pump_started p \<and> pl_pump_timer_pending p' = pl_pump_timer_pending p"
  using assms
  by (cases s) (auto simp: swbt_btstack_production_hci_dump_start_def swbt_btstack_hci_dump_text_open_def
      swbt_btstack_hci_dump_text_close_def platform_simps split: if_splits)

lemma dump_stop_after:
  assumes "stack_after p s"
  shows "stack_after (swbt_btstack_production_hci_dump_stop p) (s\<lparr>st_dump := False\<rparr>)
    \<and> \<not> pl_hci_dump_open (swbt_btstack_production_hci_dump_stop p)"
  using assms
  by (cases s) (auto simp: swbt_btstack_production_hci_dump_stop_def swbt_btstack_hci_dump_text_close_def platform_simps
      split: option.splits)

lemma dump_stop_keeps [simp]:
  "pl_link_key_db_open (swbt_btstack_production_hci_dump_stop p) = pl_link_key_db_open p"
  "pl_link_key_handler_registered (swbt_btstack_production_hci_dump_stop p) = pl_link_key_handler_registered p"
  "pl_pump_started (swbt_btstack_production_hci_dump_stop p) = pl_pump_started p"
  "pl_pump_timer_pending (swbt_btstack_production_hci_dump_stop p) = pl_pump_timer_pending p"
  by (auto simp: swbt_btstack_production_hci_dump_stop_def swbt_btstack_hci_dump_text_close_def pl_calls_def split: option.splits)

lemma db_start_after:
  assumes "stack_after p s" "st_up s" "st_hci s" "\<not> pl_link_key_db_open p" "\<not> pl_link_key_handler_registered p"
    "link_key_db_start env p = (code, p')"
  shows "stack_after p' (s\<lparr>st_context := pl_link_key_db_open p', st_tlv := pl_link_key_db_open p', st_handler := pl_link_key_db_open p'\<rparr>) \<and> (code \<noteq> 0 \<longrightarrow> \<not> pl_link_key_db_open p')
    \<and> pl_link_key_handler_registered p' = pl_link_key_db_open p' \<and> pl_hci_dump_open p' = pl_hci_dump_open p
    \<and> pl_pump_started p' = pl_pump_started p \<and> pl_pump_timer_pending p' = pl_pump_timer_pending p"
  using assms
  by (cases s) (auto simp: link_key_db_start_def link_key_events_start_def platform_simps split: if_splits)

lemma discovery_ok:
  "\<exists>calls. swbt_btstack_classic_discovery_configure (Some swbt_btstack_classic_discovery_backend_btstack)
      (Some (swbt_btstack_production_discovery_config env)) = (SWBT_BTSTACK_CLASSIC_DISCOVERY_OK, calls)
    \<and> (\<forall>s. st_hci s \<longrightarrow> stack_calls calls s = Some s)"
  by (simp add: swbt_btstack_classic_discovery_configure_def swbt_btstack_classic_discovery_backend_is_valid_def
      swbt_btstack_classic_discovery_backend_btstack_def swbt_btstack_production_discovery_config_def
      swbt_btstack_production_hid_registration_config_def at_cursor_def NUL_def Let_def)

lemma schedule_after:
  assumes "stack_after p s" "st_up s"
  shows "stack_after (swbt_btstack_production_ipc_pump_schedule p) (s\<lparr>st_timer := pl_pump_started p\<rparr>)
    \<and> pl_pump_timer_pending (swbt_btstack_production_ipc_pump_schedule p) = pl_pump_started p"
  using assms by (cases s) (auto simp: swbt_btstack_production_ipc_pump_schedule_def platform_simps)

lemma schedule_keeps [simp]:
  "pl_link_key_db_open (swbt_btstack_production_ipc_pump_schedule p) = pl_link_key_db_open p"
  "pl_link_key_handler_registered (swbt_btstack_production_ipc_pump_schedule p) = pl_link_key_handler_registered p"
  "pl_pump_started (swbt_btstack_production_ipc_pump_schedule p) = pl_pump_started p"
  "pl_hci_dump_open (swbt_btstack_production_ipc_pump_schedule p) = pl_hci_dump_open p"
  by (auto simp: swbt_btstack_production_ipc_pump_schedule_def pl_calls_def)

lemma pump_stop_after:
  assumes "stack_after p s" "pl_pump_timer_pending p \<longrightarrow> st_up s"
  shows "stack_after (swbt_btstack_production_ipc_pump_stop p) (s\<lparr>st_timer := False\<rparr>)"
  using assms by (cases s) (auto simp: swbt_btstack_production_ipc_pump_stop_def platform_simps)

lemma pump_stop_simps [simp]:
  "pl_link_key_db_open (swbt_btstack_production_ipc_pump_stop p) = pl_link_key_db_open p"
  "pl_link_key_handler_registered (swbt_btstack_production_ipc_pump_stop p) = pl_link_key_handler_registered p"
  "\<not> pl_pump_started (swbt_btstack_production_ipc_pump_stop p)"
  "\<not> pl_pump_timer_pending (swbt_btstack_production_ipc_pump_stop p)"
  "pl_hci_dump_open (swbt_btstack_production_ipc_pump_stop p) = pl_hci_dump_open p"
  by (auto simp: swbt_btstack_production_ipc_pump_stop_def pl_calls_def Let_def)

section \<open>The platform as a transition system\<close>

text \<open>
  The second component of the state says whether the platform is down, runs, or failed to start. The device that uses
  the platform stops it only when it was started (\<open>dev_platform_started\<close>), and after a failed start the program ends, so that
  the start is not tried again. The IPC service starts its pump before the platform; everything else happens at any time.
\<close>

datatype platform_phase = PlatformDown | PlatformRunning | PlatformFailed

datatype platform_op =
    PlStart platform_env
  | PlStop
  | PlPumpStart
  | PlPumpStop
  | PlPumpTimer u32
  | PlLinkKeyPacket btstack_numbers platform_env u8 "bytes option"
  | PlLogPacket u8 u8 bytes
  | PlDumpPath "string option"
  | PlDbPath "string option"

definition pump_fires :: "u32 \<Rightarrow> platform \<Rightarrow> platform" where
  "pump_fires now_ms p = fst (swbt_btstack_production_ipc_pump_timer_handler (\<lambda>_. False) (\<lambda>x _. x) now_ms (p, ()))"

lemma pump_fires_eq: "fst (swbt_btstack_production_ipc_pump_timer_handler is_running poll now_ms (p, x)) = pump_fires now_ms p"
  by (simp add: pump_fires_def swbt_btstack_production_ipc_pump_timer_handler_def Let_def)

inductive platform_step :: "platform \<times> platform_phase \<Rightarrow> platform_op \<Rightarrow> platform \<times> platform_phase \<Rightarrow> bool" where
  pl_start: "swbt_btstack_production_platform_start env p = (code, p') \<Longrightarrow>
    platform_step (p, PlatformDown) (PlStart env) (p', if code = 0 then PlatformRunning else PlatformFailed)"
| pl_stop: "platform_step (p, PlatformRunning) PlStop (swbt_btstack_production_platform_stop p, PlatformDown)"
| pl_pump_start: "ph \<noteq> PlatformRunning \<Longrightarrow> platform_step (p, ph) PlPumpStart (snd (swbt_btstack_production_ipc_pump_start True p), ph)"
| pl_pump_stop: "platform_step (p, ph) PlPumpStop (swbt_btstack_production_ipc_pump_stop p, ph)"
| pl_pump_timer: "pl_pump_timer_pending p \<Longrightarrow> platform_step (p, ph) (PlPumpTimer now_ms) (pump_fires now_ms p, ph)"
| pl_link_key: "platform_step (p, ph) (PlLinkKeyPacket B env t packet) (link_key_packet_handler B env t packet p, ph)"
| pl_log: "platform_step (p, ph) (PlLogPacket t i packet) (swbt_btstack_hci_dump_text_log_packet t i packet p, ph)"
| pl_dump_path: "platform_step (p, ph) (PlDumpPath path) (snd (swbt_btstack_production_hci_dump_configure path p), ph)"
| pl_db_path: "platform_step (p, ph) (PlDbPath path) (snd (swbt_btstack_production_link_key_db_configure path p), ph)"

definition zero_platform :: platform where
  "zero_platform = \<lparr>pl_hci_dump_open = False, pl_hci_dump_path = None, pl_hci_dump_file = None, pl_link_key_db_path = None,
     pl_link_key_db_open = False, pl_link_key_handler_registered = False, pl_pump_set = False, pl_pump_started = False,
     pl_pump_timer_pending = False, pl_trace = []\<rparr>"

definition platform_initial :: "platform \<times> platform_phase \<Rightarrow> bool" where
  "platform_initial st \<longleftrightarrow> st = (zero_platform, PlatformDown)"

text \<open>A start that fails at the link key store or at the discovery leaves the run loop and the HCI layer initialised.\<close>

fun phase_layers :: "platform_phase \<Rightarrow> stack_state \<Rightarrow> bool" where
  "phase_layers PlatformDown s \<longleftrightarrow> \<not> st_up s \<and> \<not> st_hci s"
| "phase_layers PlatformRunning s \<longleftrightarrow> st_up s \<and> st_hci s"
| "phase_layers PlatformFailed s \<longleftrightarrow> st_up s = st_hci s"

lemma phase_layers_simps [simp]:
  "phase_layers ph (s\<lparr>st_timer := b\<rparr>) = phase_layers ph s" "phase_layers PlatformDown stack_off"
  by (cases ph; simp) (simp add: stack_off_def)

definition platform_inv :: "platform \<times> platform_phase \<Rightarrow> bool" where
  "platform_inv = (\<lambda>(p, ph). (\<exists>s. stack_after p s \<and> phase_layers ph s)
     \<and> pl_link_key_handler_registered p = pl_link_key_db_open p
     \<and> pl_pump_timer_pending p = (ph = PlatformRunning \<and> pl_pump_started p)
     \<and> (ph \<noteq> PlatformRunning \<longrightarrow> \<not> pl_hci_dump_open p \<and> \<not> pl_link_key_db_open p))"

lemma platform_start_inv:
  assumes "platform_inv (p, PlatformDown)" "swbt_btstack_production_platform_start env p = (code, p')"
  shows "platform_inv (p', if code = 0 then PlatformRunning else PlatformFailed)"
proof -
  obtain s where s: "stack_after p s" "\<not> pl_hci_dump_open p" "\<not> pl_link_key_db_open p" "\<not> pl_pump_timer_pending p"
      "\<not> pl_link_key_handler_registered p" "\<not> st_up s" "\<not> st_hci s"
    using assms(1) by (auto simp: platform_inv_def)
  obtain c1 p1 where p1: "swbt_btstack_production_hci_dump_start env (pl_hci_dump_path p) p = (c1, p1)"
    by (rule prod.exhaust)
  note a1 = dump_start_after [OF s(1,2) p1]
  let ?p2 = "pl_calls [MemoryInit, RunLoopInit, HciInit] p1" and ?s2 = "s\<lparr>st_dump := pl_hci_dump_open p1, st_up := True, st_hci := True\<rparr>"
  have a2: "stack_after ?p2 ?s2"
    using a1 s(4,6,7) by (cases s) (auto simp: platform_simps)
  obtain c3 p3 where p3: "link_key_db_start env ?p2 = (c3, p3)"
    by (rule prod.exhaust)
  have a3: "stack_after p3 (?s2\<lparr>st_context := pl_link_key_db_open p3, st_tlv := pl_link_key_db_open p3, st_handler := pl_link_key_db_open p3\<rparr>)" "c3 \<noteq> 0 \<longrightarrow> \<not> pl_link_key_db_open p3"
      "pl_link_key_handler_registered p3 = pl_link_key_db_open p3" "\<not> pl_pump_timer_pending p3" "pl_pump_started p3 = pl_pump_started p1"
    using db_start_after [OF a2 _ _ _ _ p3] a1 s by (auto simp: pl_calls_def)
  let ?s3 = "?s2\<lparr>st_context := pl_link_key_db_open p3, st_tlv := pl_link_key_db_open p3, st_handler := pl_link_key_db_open p3\<rparr>"
  obtain calls where calls: "swbt_btstack_classic_discovery_configure (Some swbt_btstack_classic_discovery_backend_btstack)
      (Some (swbt_btstack_production_discovery_config env)) = (SWBT_BTSTACK_CLASSIC_DISCOVERY_OK, calls)"
      "\<forall>s. st_hci s \<longrightarrow> stack_calls calls s = Some s"
    using discovery_ok by blast
  let ?p4 = "pl_calls [L2capInit] (pl_calls calls p3)"
  have a4: "stack_after ?p4 ?s3"
    using a3 calls(2) by (auto simp: platform_simps)
  note a5 = schedule_after [OF a4] dump_stop_after [OF a3(1)]
  have eq: "swbt_btstack_production_platform_start env p = (if c1 \<noteq> 0 then (- 1, p1)
      else if c3 \<noteq> 0 then (- 1, swbt_btstack_production_hci_dump_stop p3)
      else (0, swbt_btstack_production_ipc_pump_schedule ?p4))"
    by (simp add: swbt_btstack_production_platform_start_def p1 p3 calls(1) Let_def)
  show ?thesis
  proof (cases "c1 \<noteq> 0 \<or> c3 \<noteq> 0")
    case True
    then show ?thesis
      using assms(2) a1 a3 a5 s by (auto simp: eq platform_inv_def split: if_splits)
  next
    case False
    have "platform_inv (swbt_btstack_production_ipc_pump_schedule ?p4, PlatformRunning)"
      unfolding platform_inv_def prod.case
      by (intro conjI exI [of _ "?s3\<lparr>st_timer := pl_pump_started ?p4\<rparr>"]) (use a3 a5 in \<open>auto simp: pl_calls_def\<close>)
    then show ?thesis
      using assms(2) False by (auto simp: eq)
  qed
qed

lemma platform_stop_inv:
  assumes "platform_inv (p, PlatformRunning)"
  shows "platform_inv (swbt_btstack_production_platform_stop p, PlatformDown)"
    and "stack_after (swbt_btstack_production_platform_stop p) stack_off" "\<not> pl_pump_started (swbt_btstack_production_platform_stop p)"
proof -
  obtain s where s: "stack_after p s" "st_up s" "pl_link_key_handler_registered p = pl_link_key_db_open p" "st_hci s"
    using assms by (auto simp: platform_inv_def)
  let ?p1 = "swbt_btstack_production_ipc_pump_stop p"
  have a1: "stack_after ?p1 (s\<lparr>st_timer := False\<rparr>)"
    using pump_stop_after [OF s(1)] s(2) by simp
  let ?p2 = "pl_calls [RunLoopDeinit] (link_key_db_stop (pl_calls [HciClose] (link_key_events_stop ?p1)))"
  have a2: "stack_after ?p2 (s\<lparr>st_timer := False, st_handler := False, st_hci := False, st_tlv := False, st_context := False, st_up := False\<rparr>)"
    using a1 s(2-4) by (cases s) (auto simp: link_key_events_stop_def link_key_db_stop_def platform_simps)
  have f: "\<not> pl_link_key_db_open ?p2" "\<not> pl_link_key_handler_registered ?p2" "\<not> pl_pump_started ?p2" "\<not> pl_pump_timer_pending ?p2"
    by (auto simp: link_key_events_stop_def link_key_db_stop_def pl_calls_def)
  have eq: "swbt_btstack_production_platform_stop p = swbt_btstack_production_hci_dump_stop ?p2"
    by (simp add: swbt_btstack_production_platform_stop_def Let_def)
  have "s\<lparr>st_timer := False, st_handler := False, st_hci := False, st_tlv := False, st_context := False, st_up := False, st_dump := False\<rparr> = stack_off"
    by (cases s) (simp add: stack_off_def)
  then have "stack_after (swbt_btstack_production_platform_stop p) stack_off"
    using dump_stop_after [OF a2] by (simp add: eq)
  then show "stack_after (swbt_btstack_production_platform_stop p) stack_off"
      "\<not> pl_pump_started (swbt_btstack_production_platform_stop p)" "platform_inv (swbt_btstack_production_platform_stop p, PlatformDown)"
    using dump_stop_after [OF a2] f phase_layers_simps(2) by (auto simp: eq platform_inv_def simp del: phase_layers.simps)
qed

lemma path_inv [simp]:
  "platform_inv (p\<lparr>pl_hci_dump_path := path\<rparr>, up) = platform_inv (p, up)"
  "platform_inv (p\<lparr>pl_link_key_db_path := path\<rparr>, up) = platform_inv (p, up)"
  by (simp_all add: platform_inv_def stack_after_def)

lemma platform_step_inv:
  assumes "platform_inv st" "platform_step st op st'"
  shows "platform_inv st'"
  using assms(2,1)
proof cases
  case (pl_pump_start ph p)
  then show ?thesis
    using assms(1) by (auto simp: platform_inv_def swbt_btstack_production_ipc_pump_start_def platform_simps)
next
  case (pl_pump_stop p ph)
  have "platform_inv (p, ph)"
    using assms(1) pl_pump_stop by simp
  then obtain s where s: "stack_after p s" "phase_layers ph s" "pl_pump_timer_pending p = (ph = PlatformRunning \<and> pl_pump_started p)"
      "pl_link_key_handler_registered p = pl_link_key_db_open p" "ph \<noteq> PlatformRunning \<longrightarrow> \<not> pl_hci_dump_open p \<and> \<not> pl_link_key_db_open p"
    unfolding platform_inv_def prod.case by blast
  have "stack_after (swbt_btstack_production_ipc_pump_stop p) (s\<lparr>st_timer := False\<rparr>)"
    using s by (intro pump_stop_after) auto
  then have "platform_inv (swbt_btstack_production_ipc_pump_stop p, ph)"
    unfolding platform_inv_def prod.case using s(2,4,5) by (intro conjI exI [of _ "s\<lparr>st_timer := False\<rparr>"]) auto
  then show ?thesis
    using pl_pump_stop by simp
next
  case (pl_pump_timer p ph now_ms)
  have "platform_inv (p, ph)"
    using assms(1) pl_pump_timer by simp
  then obtain s where s: "stack_after p s" "phase_layers ph s" "ph = PlatformRunning" "pl_pump_started p" "pl_link_key_handler_registered p = pl_link_key_db_open p"
    unfolding platform_inv_def prod.case using pl_pump_timer(4) by blast
  let ?p1 = "(pl_calls [PumpTimerFires] p)\<lparr>pl_pump_timer_pending := False\<rparr>"
  have "stack_after ?p1 (s\<lparr>st_timer := False\<rparr>)"
    using s pl_pump_timer(4) by (cases s) (auto simp: platform_simps)
  then have a: "stack_after (swbt_btstack_production_ipc_pump_schedule ?p1) (s\<lparr>st_timer := pl_pump_started ?p1\<rparr>)"
      "pl_pump_timer_pending (swbt_btstack_production_ipc_pump_schedule ?p1) = pl_pump_started ?p1"
    using schedule_after [of ?p1 "s\<lparr>st_timer := False\<rparr>"] s(2,3) by auto
  have "platform_inv (swbt_btstack_production_ipc_pump_schedule ?p1, PlatformRunning)"
    unfolding platform_inv_def prod.case using a s
    by (auto intro!: exI [of _ "s\<lparr>st_timer := pl_pump_started ?p1\<rparr>"] simp: pl_calls_def)
  then show ?thesis
    using pl_pump_timer s(3) by (simp add: pump_fires_def swbt_btstack_production_ipc_pump_timer_handler_def Let_def)
next
  case (pl_link_key p ph B env t packet)
  then show ?thesis
    using assms(1) by (auto simp: platform_inv_def link_key_packet_handler_def platform_simps split: if_splits)
next
  case (pl_log p ph t i packet)
  then show ?thesis
    using assms(1)
    by (auto simp: platform_inv_def swbt_btstack_hci_dump_text_log_packet_def platform_simps split: if_splits option.splits)
next
  case (pl_start env p code p')
  then show ?thesis
    using platform_start_inv [of p env code p'] assms(1) by simp
next
  case (pl_stop p)
  then show ?thesis
    using platform_stop_inv(1) [of p] assms(1) by simp
next
  case (pl_dump_path p ph path)
  then show ?thesis
    using assms(1)
    by (cases "path \<noteq> None \<and> at_cursor (the path) = NUL") (auto simp: swbt_btstack_production_hci_dump_configure_def)
next
  case (pl_db_path p ph path)
  then show ?thesis
    using assms(1)
    by (cases "path \<noteq> None \<and> at_cursor (the path) = NUL") (auto simp: swbt_btstack_production_link_key_db_configure_def)
qed

interpretation plat: invariant_system platform_initial platform_step platform_inv
proof unfold_locales
  show "platform_inv st" if "platform_initial st" for st
    using that
    by (auto simp: platform_initial_def platform_inv_def zero_platform_def stack_after_def stack_off_def)
qed (rule platform_step_inv)

section \<open>USB adapters\<close>

text \<open>What libusb says about a device: the descriptor if it could be read, the bus, and the result of asking for its ports.\<close>

record libusb_device_descriptor =
  dd_class :: u8
  dd_subclass :: u8
  dd_protocol :: u8
  dd_vendor :: u16
  dd_product :: u16

record libusb_device =
  ld_descriptor :: "libusb_device_descriptor option"
  ld_bus :: u8
  ld_port_count :: int
  ld_ports :: bytes

definition known_bluetooth_devices :: "u16 list" where
  "known_bluetooth_devices = [0x0a5c, 0x21e8, 0x0b05, 0x17cb, 0x0a5c, 0x22be, 0x2fe3, 0x0100, 0x2fe3, 0x000b]"

fun known_loop :: "u16 list \<Rightarrow> u16 \<Rightarrow> u16 \<Rightarrow> bool" where
  "known_loop (v # p # table) vendor_id product_id = (v = vendor_id \<and> p = product_id \<or> known_loop table vendor_id product_id)"
| "known_loop _ vendor_id product_id = False"

definition swbt_btstack_production_libusb_is_known_bluetooth_device :: "u16 \<Rightarrow> u16 \<Rightarrow> bool" where
  "swbt_btstack_production_libusb_is_known_bluetooth_device = known_loop known_bluetooth_devices"

definition swbt_btstack_production_libusb_is_bluetooth_device :: "libusb_device_descriptor option \<Rightarrow> bool" where
  "swbt_btstack_production_libusb_is_bluetooth_device descriptor = (case descriptor of None \<Rightarrow> False | Some d \<Rightarrow>
     dd_class d = 0xE0 \<and> dd_subclass d = 0x01 \<and> dd_protocol d = 0x01
     \<or> swbt_btstack_production_libusb_is_known_bluetooth_device (dd_vendor d) (dd_product d))"

definition swbt_btstack_production_write_uint :: "nat \<Rightarrow> string" where
  "swbt_btstack_production_write_uint v = decimal v"

definition swbt_btstack_production_write_int :: "int \<Rightarrow> string" where
  "swbt_btstack_production_write_int v = int_text v"

definition swbt_btstack_production_write_hex16 :: "nat \<Rightarrow> string" where
  "swbt_btstack_production_write_hex16 v = ''0x'' @ map hex_lower (nibbles 4 (v mod 65536))"

definition swbt_btstack_production_write_hex8 :: "nat \<Rightarrow> string" where
  "swbt_btstack_production_write_hex8 v = ''0x'' @ hex2 (v mod 256)"

definition swbt_btstack_production_libusb_write_selector ::
  "u8 \<Rightarrow> libusb_device_descriptor \<Rightarrow> bytes \<Rightarrow> int \<Rightarrow> string" where
  "swbt_btstack_production_libusb_write_selector bus d ports port_count =
     ''libusb:'' @ swbt_btstack_production_write_uint (unat bus) @ '':''
     @ concat (map (\<lambda>i. (if i > 0 then ''.'' else []) @ swbt_btstack_production_write_uint (unat (ports ! i))) [0..<nat port_count])
     @ '' vid='' @ swbt_btstack_production_write_hex16 (unat (dd_vendor d))
     @ '' pid='' @ swbt_btstack_production_write_hex16 (unat (dd_product d))
     @ '' class='' @ swbt_btstack_production_write_hex8 (unat (dd_class d))
     @ '' subclass='' @ swbt_btstack_production_write_hex8 (unat (dd_subclass d))
     @ '' protocol='' @ swbt_btstack_production_write_hex8 (unat (dd_protocol d)) @ [CHR 0x0A]"

text \<open>The loop over the devices: what is printed and the number of candidates.\<close>

fun list_loop :: "libusb_device list \<Rightarrow> string \<times> nat" where
  "list_loop [] = ([], 0)"
| "list_loop (d # ds) =
     (if ld_descriptor d = None \<or> \<not> swbt_btstack_production_libusb_is_bluetooth_device (ld_descriptor d) then list_loop ds
      else if ld_port_count d \<le> 0 \<or> ld_port_count d > int SWBT_BTSTACK_USB_ADAPTER_LOCATION_MAX_PORTS then list_loop ds
      else let (text, n) = list_loop ds
        in (swbt_btstack_production_libusb_write_selector (ld_bus d) (the (ld_descriptor d)) (ld_ports d) (ld_port_count d) @ text,
            n + 1))"

text \<open>The streams are the texts written to them; \<open>init_result\<close> and \<open>device_list\<close> are the answers of libusb.\<close>

definition swbt_btstack_production_list_libusb_adapter_locations ::
  "int \<Rightarrow> int + libusb_device list \<Rightarrow> string option \<Rightarrow> string option \<Rightarrow> int \<times> string option \<times> string option" where
  "swbt_btstack_production_list_libusb_adapter_locations init_result device_list out err =
     (if out = None then (- 1, out, err)
      else if init_result \<noteq> 0
      then (- 1, out, map_option (\<lambda>e. e @ ''libusb_init failed: '' @ swbt_btstack_production_write_int init_result @ [CHR 0x0A]) err)
      else case device_list of
        Inl code \<Rightarrow> (- 1, out, map_option (\<lambda>e. e @ ''libusb_get_device_list failed: ''
          @ swbt_btstack_production_write_int code @ [CHR 0x0A]) err)
      | Inr devices \<Rightarrow>
          let (text, candidate_count) = list_loop devices;
              text = (if candidate_count = 0
                then text @ ''No libusb Bluetooth adapter-location candidates found.'' @ [CHR 0x0A] else text)
          in (0, map_option (\<lambda>t. t @ text) out, err))"

definition swbt_btstack_production_list_adapter_locations ::
  "int \<Rightarrow> int + libusb_device list \<Rightarrow> string option \<Rightarrow> string option \<Rightarrow> int \<times> string option \<times> string option" where
  "swbt_btstack_production_list_adapter_locations = swbt_btstack_production_list_libusb_adapter_locations"

definition swbt_btstack_production_impl_configure_adapter_location :: "string option \<Rightarrow> int \<times> location_call list" where
  "swbt_btstack_production_impl_configure_adapter_location location =
     (if location = None \<or> at_cursor (the location) = NUL then (- 1, [])
      else let (result, parsed_location) = swbt_btstack_usb_adapter_location_parse location (Some zero_location) in
        if result \<noteq> SWBT_BTSTACK_USB_ADAPTER_LOCATION_OK then (- 1, [])
        else let (result, calls) = swbt_btstack_usb_adapter_location_apply parsed_location (Some (None, True))
          in (if result = SWBT_BTSTACK_USB_ADAPTER_LOCATION_OK then 0 else - 1, calls))"

subsection \<open>Lemmas\<close>

definition candidate :: "libusb_device \<Rightarrow> bool" where
  "candidate d \<longleftrightarrow> ld_descriptor d \<noteq> None \<and> swbt_btstack_production_libusb_is_bluetooth_device (ld_descriptor d)
     \<and> 0 < ld_port_count d \<and> ld_port_count d \<le> 7"

definition selector_line :: "libusb_device \<Rightarrow> string" where
  "selector_line d =
     swbt_btstack_production_libusb_write_selector (ld_bus d) (the (ld_descriptor d)) (ld_ports d) (ld_port_count d)"

lemma list_loop_eq: "list_loop ds = (concat (map selector_line (filter candidate ds)), length (filter candidate ds))"
  by (induction ds) (auto simp: candidate_def selector_line_def SWBT_BTSTACK_USB_ADAPTER_LOCATION_MAX_PORTS_def)

lemma concat_ports:
  assumes "n \<le> length ports"
  shows "concat (map (\<lambda>i. (if i > 0 then ''.'' else []) @ decimal (unat (ports ! i))) [0..<n]) = port_text (take n ports)"
  using assms
proof (induction n)
  case (Suc n)
  have snoc: "port_text (qs @ [q]) = port_text qs @ (if qs = [] then [] else ''.'') @ decimal (unat q)" for qs q
    by (induction qs rule: port_text.induct) simp_all
  have "port_text (take (Suc n) ports) = port_text (take n ports) @ (if n = 0 then [] else ''.'') @ decimal (unat (ports ! n))"
    using Suc.prems by (auto simp: take_Suc_conv_app_nth snoc)
  then show ?case
    using Suc by (auto simp del: take_Suc)
qed simp

lemma decimal_no_space: "CHR '' '' \<notin> set (decimal n)"
proof (induction n rule: decimal.induct)
  case (1 n)
  have d: "CHR '' '' \<noteq> char_of (48 + d)" if "d < 10" for d :: nat
  proof
    assume "CHR '' '' = char_of (48 + d)"
    then have "ccode (CHR '' '') = 48 + d"
      using digit_char(2) [OF that] by metis
    then show False
      by (simp add: ccode_def)
  qed
  show ?case
    using 1 d [of n] d [of "n mod 10"] by (subst decimal.simps) simp
qed

lemma libusb_text_no_space: "CHR '' '' \<notin> set (libusb_text bus ports)"
proof -
  have "CHR '' '' \<notin> set (port_text ports)"
    using decimal_no_space by (induction ports rule: port_text.induct) auto
  then show ?thesis
    using decimal_no_space by (auto simp: libusb_text_def)
qed

lemma selector_line_location:
  assumes "length (ld_ports d) = 7" "ld_port_count d \<le> 7"
  shows "takeWhile (\<lambda>c. c \<noteq> CHR '' '') (selector_line d) = libusb_text (ld_bus d) (take (nat (ld_port_count d)) (ld_ports d))"
proof -
  let ?t = "libusb_text (ld_bus d) (take (nat (ld_port_count d)) (ld_ports d))"
  have "nat (ld_port_count d) \<le> length (ld_ports d)"
    using assms by simp
  then obtain rest where "selector_line d = ?t @ CHR '' '' # rest"
    by (simp add: selector_line_def swbt_btstack_production_libusb_write_selector_def swbt_btstack_production_write_uint_def
        concat_ports libusb_text_def)
  moreover have "takeWhile (\<lambda>c. c \<noteq> CHR '' '') (?t @ CHR '' '' # rest) = ?t"
    using libusb_text_no_space [of "ld_bus d" "take (nat (ld_port_count d)) (ld_ports d)"]
    by (subst takeWhile_append2) auto
  ultimately show ?thesis
    by simp
qed

text \<open>A location with a zero as its bus or among its ports is refused.\<close>

lemma parse_u8_zero:
  assumes "rest = [] \<or> \<not> swbt_btstack_usb_adapter_location_is_digit (hd rest)"
  shows "swbt_btstack_usb_adapter_location_parse_u8 (decimal 0 @ rest) = None"
  using assms parse_u8_loop_decimal [of 0 rest]
  by (cases rest) (auto simp: swbt_btstack_usb_adapter_location_parse_u8_def)

lemma parse_ports_zero:
  assumes "0 \<in> set qs" "k + length qs \<le> 7"
  shows "parse_ports (port_text qs) k ports = None"
  using assms
proof (induction qs arbitrary: k ports rule: port_text.induct)
  case (2 p)
  then show ?case
    using parse_u8_zero [of "[]"] at_cursor_decimal [of 0 "[]"] by (subst parse_ports.simps) simp
next
  case (3 p q qs)
  show ?case
  proof (cases "p = 0")
    case True
    then show ?thesis
      using parse_u8_zero [of "CHR ''.'' # port_text (q # qs)"] at_cursor_decimal by (subst parse_ports.simps) simp
  next
    case False
    then have "parse_ports (port_text (q # qs)) (Suc k) (ports[k := p]) = None"
      using 3 by (intro 3(1)) auto
    then show ?thesis
      using False parse_u8_decimal [of p "CHR ''.'' # port_text (q # qs)"] at_cursor_decimal
      by (subst parse_ports.simps) (simp add: Let_def)
  qed
qed simp

lemma location_zero_refused:
  assumes "ports \<noteq> []" "length ports \<le> 7" "bus = 0 \<or> 0 \<in> set ports"
  shows "fst (swbt_btstack_usb_adapter_location_parse (Some (libusb_text bus ports)) (Some old)) \<noteq> SWBT_BTSTACK_USB_ADAPTER_LOCATION_OK"
proof -
  have pre: "swbt_btstack_usb_adapter_location_has_prefix (libusb_text bus ports) ''libusb:''"
      "\<not> swbt_btstack_usb_adapter_location_has_prefix (libusb_text bus ports) ''winusb:''"
      "drop (length ''libusb:'') (libusb_text bus ports) = decimal (unat bus) @ CHR '':'' # port_text ports"
    by (simp_all add: swbt_btstack_usb_adapter_location_has_prefix_def libusb_text_def)
  have "fst (swbt_btstack_usb_adapter_location_parse_libusb (libusb_text bus ports) zero_location) \<noteq> SWBT_BTSTACK_USB_ADAPTER_LOCATION_OK"
  proof (cases "bus = 0")
    case True
    then show ?thesis
      using parse_u8_zero [of "CHR '':'' # port_text ports"] pre(3)
      by (simp add: swbt_btstack_usb_adapter_location_parse_libusb_def)
  next
    case False
    then have "swbt_btstack_usb_adapter_location_parse_u8 (decimal (unat bus) @ CHR '':'' # port_text ports) = Some (CHR '':'' # port_text ports, bus)"
      using parse_u8_decimal by simp
    moreover have "parse_ports (port_text ports) 0 ps = None" for ps
      using parse_ports_zero [of ports 0] False assms(2,3) by auto
    ultimately show ?thesis
      using pre(3) by (simp add: swbt_btstack_usb_adapter_location_parse_libusb_def Let_def)
  qed
  then show ?thesis
    using pre(1,2) by (simp add: swbt_btstack_usb_adapter_location_parse_def)
qed

section \<open>Properties\<close>

text \<open>C38: In every state the platform reaches by starting, stopping, pumping, storing link keys and dumping packets, the
  calls to the stack kept their order: run loop and HCI layer are initialised once and given back once, the HCI layer first; no
  timer is outside of the run loop or twice in it, no event handler is left when the HCI layer is closed, the link key store is given
  back only after the HCI layer that uses it, no key is stored in a closed store and no dump file is closed while the stack
  writes to it. The flags say what is in place. While the platform runs, both layers are up and the timer of a started pump is always
  pending, so polling never stalls. When the platform is down, also after every stop, nothing is left in place. After a failed
  start at most the run loop and the HCI layer are left, and everything else is given back.\<close>

theorem platform_discipline:
  assumes "reachable platform_initial platform_step (p, ph)"
  shows "\<exists>s. stack_calls (pl_trace p) stack_off = Some s \<and> st_dump s = pl_hci_dump_open p
      \<and> st_tlv s = pl_link_key_db_open p \<and> st_context s = pl_link_key_db_open p
      \<and> st_handler s = pl_link_key_handler_registered p \<and> st_timer s = pl_pump_timer_pending p
      \<and> (case ph of
           PlatformDown \<Rightarrow> s = stack_off
         | PlatformRunning \<Rightarrow> st_up s \<and> st_hci s \<and> st_timer s = pl_pump_started p
             \<and> stack_calls (pl_trace (swbt_btstack_production_platform_stop p)) stack_off = Some stack_off
         | PlatformFailed \<Rightarrow> s = stack_off \<or> s = stack_off\<lparr>st_up := True, st_hci := True\<rparr>)"
proof -
  have inv: "platform_inv (p, ph)"
    by (rule plat.reachable_inv [OF assms])
  then obtain s where s: "stack_after p s" "phase_layers ph s" "pl_link_key_handler_registered p = pl_link_key_db_open p"
      "pl_pump_timer_pending p = (ph = PlatformRunning \<and> pl_pump_started p)"
      "ph \<noteq> PlatformRunning \<longrightarrow> \<not> pl_hci_dump_open p \<and> \<not> pl_link_key_db_open p"
    unfolding platform_inv_def prod.case by blast
  have flags: "stack_calls (pl_trace p) stack_off = Some s" "st_dump s = pl_hci_dump_open p" "st_tlv s = pl_link_key_db_open p"
      "st_context s = pl_link_key_db_open p" "st_handler s = pl_link_key_handler_registered p" "st_timer s = pl_pump_timer_pending p"
    using s(1) by (simp_all add: stack_after_def)
  have "stack_calls (pl_trace (swbt_btstack_production_platform_stop p)) stack_off = Some stack_off" if "ph = PlatformRunning"
    using inv that platform_stop_inv(2) [of p] by (simp add: stack_after_def)
  moreover have "s = stack_off\<lparr>st_up := st_up s, st_hci := st_hci s\<rparr>" if "ph \<noteq> PlatformRunning"
    using flags(2-6) s(3-5) that by (cases s) (simp add: stack_off_def)
  ultimately show ?thesis
    using flags s(2,4) by (intro exI [of _ s]) (cases ph; cases "st_up s"; simp add: stack_off_def)
qed

definition demo_platform_env :: platform_env where
  "demo_platform_env = \<lparr>pe_fopen = (\<lambda>_. True), pe_tlv_open = (\<lambda>_. True), pe_is_null = (\<lambda>bs. bs = replicate 16 0),
     pe_link_key_notification = 0x18, pe_link_policy_role_switch = 1, pe_link_policy_sniff = 4\<rparr>"

definition demo_platform :: platform where
  "demo_platform = snd (swbt_btstack_production_platform_start demo_platform_env
     (snd (swbt_btstack_production_ipc_pump_start True
       (snd (swbt_btstack_production_link_key_db_configure (Some ''keys'')
         (snd (swbt_btstack_production_hci_dump_configure (Some ''dump'') zero_platform)))))))"

lemma demo_platform_reachable: "reachable platform_initial platform_step (demo_platform, PlatformRunning)"
proof -
  let ?p1 = "snd (swbt_btstack_production_hci_dump_configure (Some ''dump'') zero_platform)"
  let ?p2 = "snd (swbt_btstack_production_link_key_db_configure (Some ''keys'') ?p1)"
  let ?p3 = "snd (swbt_btstack_production_ipc_pump_start True ?p2)"
  have "reachable platform_initial platform_step (zero_platform, PlatformDown)"
    by (rule reach_init) (simp add: platform_initial_def)
  note p1 = reach_step [OF this, OF pl_dump_path [of _ _ "Some ''dump''"]]
  note p2 = reach_step [OF p1, OF pl_db_path [of _ _ "Some ''keys''"]]
  note p3 = reach_step [OF p2, OF pl_pump_start [OF platform_phase.distinct(1)]]
  have "fst (swbt_btstack_production_platform_start demo_platform_env ?p3) = 0"
    by (simp add: swbt_btstack_production_hci_dump_configure_def swbt_btstack_production_link_key_db_configure_def
        swbt_btstack_production_ipc_pump_start_def swbt_btstack_production_platform_start_def zero_platform_def demo_platform_env_def
        swbt_btstack_production_hci_dump_start_def swbt_btstack_hci_dump_text_open_def swbt_btstack_hci_dump_text_close_def
        swbt_diagnostic_path_is_enabled_def link_key_db_start_def link_key_events_start_def at_cursor_def NUL_def pl_calls_def
        swbt_btstack_classic_discovery_configure_def swbt_btstack_classic_discovery_backend_is_valid_def
        swbt_btstack_classic_discovery_backend_btstack_def swbt_btstack_production_discovery_config_def
        swbt_btstack_production_hid_registration_config_def)
  then show ?thesis
    using reach_step [OF p3, OF pl_start [of demo_platform_env ?p3 0 demo_platform]]
    by (simp add: demo_platform_def prod_eq_iff)
qed

theorem platform_discipline_witness:
  "stack_calls (pl_trace (swbt_btstack_production_platform_stop demo_platform)) stack_off = Some stack_off
    \<and> pl_pump_timer_pending demo_platform = pl_pump_started demo_platform"
  using platform_discipline [OF demo_platform_reachable] by auto

text \<open>C39: The inventory prints for every Bluetooth adapter with one to seven ports a line, and configuring the first word of this
  line as the adapter location selects exactly the bus and the ports of that adapter, provided that libusb reported neither a bus
  nor a port of number zero; for an adapter with a zero among them the inventory prints a line as well, but its
  location is refused and nothing is selected. The array of ports that libusb fills has seven places.\<close>

theorem inventory_locations_accepted:
  assumes "d \<in> set devices" "candidate d" "length (ld_ports d) = 7"
  defines "ports \<equiv> take (nat (ld_port_count d)) (ld_ports d)"
  shows "\<exists>before after. swbt_btstack_production_list_adapter_locations 0 (Inr devices) (Some out) err =
      (0, Some (out @ before @ selector_line d @ after), err)
    \<and> swbt_btstack_production_impl_configure_adapter_location (Some (takeWhile (\<lambda>c. c \<noteq> CHR '' '') (selector_line d))) =
      (if ld_bus d \<noteq> 0 \<and> 0 \<notin> set ports
       then (0, [SetLibusb (ld_bus d) (ld_port_count d) (ports @ replicate (7 - nat (ld_port_count d)) 0)])
       else (- 1, []))"
proof -
  let ?n = "nat (ld_port_count d)"
  have n: "0 < ld_port_count d" "ld_port_count d \<le> 7" "length ports = ?n" "ports \<noteq> []" "length ports \<le> 7"
    using assms by (auto simp: candidate_def)
  have "at_cursor (libusb_text (ld_bus d) ports) \<noteq> NUL"
    by (simp add: libusb_text_def at_cursor_def NUL_def)
  note conf_simps = this n swbt_btstack_production_impl_configure_adapter_location_def
    selector_line_location [OF assms(3) n(2), folded ports_def]
  have conf: "swbt_btstack_production_impl_configure_adapter_location (Some (takeWhile (\<lambda>c. c \<noteq> CHR '' '') (selector_line d))) =
      (if ld_bus d \<noteq> 0 \<and> 0 \<notin> set ports then (0, [SetLibusb (ld_bus d) (ld_port_count d) (ports @ replicate (7 - ?n) 0)]) else (- 1, []))"
  proof (cases "ld_bus d \<noteq> 0 \<and> 0 \<notin> set ports")
    case True
    then obtain l where "swbt_btstack_usb_adapter_location_parse (Some (libusb_text (ld_bus d) ports)) (Some zero_location) =
        (SWBT_BTSTACK_USB_ADAPTER_LOCATION_OK, Some l)"
      "swbt_btstack_usb_adapter_location_apply (Some l) (Some (None, True)) =
        (SWBT_BTSTACK_USB_ADAPTER_LOCATION_OK, [SetLibusb (ld_bus d) (int (length ports)) (ports @ replicate (7 - length ports) 0)])"
      using usb_location_roundtrip [OF _ n(4) _ n(5), of "ld_bus d" zero_location None] by blast
    with True show ?thesis
      using less_imp_le [OF n(1)] by (simp add: conf_simps)
  next
    case False
    then show ?thesis
      using location_zero_refused [OF n(4,5), of "ld_bus d" zero_location] by (auto simp: conf_simps split: prod.splits)
  qed
  obtain ds es where ds: "filter candidate devices = ds @ d # es"
    using split_list [of d "filter candidate devices"] assms(1,2) by auto
  then have "swbt_btstack_production_list_adapter_locations 0 (Inr devices) (Some out) err =
      (0, Some (out @ concat (map selector_line ds) @ selector_line d @ concat (map selector_line es)), err)"
    by (simp add: swbt_btstack_production_list_adapter_locations_def swbt_btstack_production_list_libusb_adapter_locations_def
        list_loop_eq)
  then show ?thesis
    using conf by blast
qed

definition demo_usb :: libusb_device where
  "demo_usb = \<lparr>ld_descriptor = Some \<lparr>dd_class = 0xE0, dd_subclass = 1, dd_protocol = 1, dd_vendor = 0x0a12, dd_product = 1\<rparr>,
     ld_bus = 3, ld_port_count = 2, ld_ports = [1, 4, 0, 0, 0, 0, 0]\<rparr>"

theorem inventory_locations_accepted_witness:
  "swbt_btstack_production_impl_configure_adapter_location (Some (takeWhile (\<lambda>c. c \<noteq> CHR '' '') (selector_line demo_usb))) =
     (0, [SetLibusb 3 2 [1, 4, 0, 0, 0, 0, 0]])"
proof -
  have d: "candidate demo_usb" "length (ld_ports demo_usb) = 7" "ld_bus demo_usb = 3" "ld_port_count demo_usb = 2"
      "take (nat (ld_port_count demo_usb)) (ld_ports demo_usb) = [1, 4]"
    by (simp_all add: demo_usb_def candidate_def swbt_btstack_production_libusb_is_bluetooth_device_def)
  have r: "[1, 4] @ replicate (7 - nat 2) (0 :: u8) = [1, 4, 0, 0, 0, 0, 0]"
    by (simp add: numeral_eq_Suc)
  show ?thesis
    using inventory_locations_accepted [of demo_usb "[demo_usb]" "[]" None] d r by auto
qed

end
