(* ===== verification/Process.thy ===== *)
theory Process
  imports Host IpcRunner Platform
begin

text \<open>
  The daemon process of \<open>daemon/process.c\<close>: it starts the IPC service, then the runtime host, and stops
  them in the opposite order; and the IPC service of the production backend,
  \<open>daemon/btstack_ipc_pump_adapter.c\<close>, which is the IPC runner with a pump that polls it. What the process
  relies on of an IPC service is the locale \<open>ipc_service\<close>, which the no-op service and the runner with its
  pump implement, whatever the port of the pump does. The ghost field \<open>pr_trace\<close> records the calls to the service and to the runtime backend.
\<close>

section \<open>Types\<close>

datatype swbt_daemon_process_result_t =
    SWBT_DAEMON_PROCESS_OK
  | SWBT_DAEMON_PROCESS_PENDING
  | SWBT_DAEMON_PROCESS_ERROR_INVALID_ARGUMENT
  | SWBT_DAEMON_PROCESS_ERROR_BACKEND

type_synonym 'c ipc_start_fun = "'c \<Rightarrow> control_state \<Rightarrow> int \<times> 'c \<times> control_state"
type_synonym 'c ipc_stop_fun = "'c \<Rightarrow> control_state \<Rightarrow> 'c \<times> control_state"

record 'c swbt_daemon_process_backend =
  pb_daemon_backend :: swbt_domain_daemon_backend_t
  pb_ipc_start :: "'c ipc_start_fun option"
  pb_ipc_stop :: "'c ipc_stop_fun option"
  pb_runtime_backend :: "swbt_runtime_host_backend_t option"

datatype process_event = IpcStart int | IpcStop | RuntimeEvent host_event

record 'c swbt_daemon_process =
  pr_config :: swbt_daemon_config_t
  pr_backend :: "'c swbt_daemon_process_backend"
  pr_context :: 'c
  pr_runtime :: host
  pr_initialized :: bool
  pr_running :: bool
  pr_ipc_started :: bool
  pr_trace :: "process_event list"

section \<open>Operations\<close>

definition swbt_daemon_backend_is_valid :: "'c swbt_daemon_process_backend option \<Rightarrow> bool" where
  "swbt_daemon_backend_is_valid bk = (case bk of
       None \<Rightarrow> False
     | Some b \<Rightarrow> pb_ipc_start b \<noteq> None \<and> pb_ipc_stop b \<noteq> None \<and> pb_runtime_backend b \<noteq> None)"

definition swbt_daemon_config_is_valid :: "swbt_daemon_config_t option \<Rightarrow> bool" where
  "swbt_daemon_config_is_valid config = (case config of None \<Rightarrow> False | Some c \<Rightarrow> cfg_report_period_us c \<noteq> 0)"

fun swbt_daemon_process_result_from_runtime :: "swbt_runtime_host_result_t \<Rightarrow> swbt_daemon_process_result_t" where
  "swbt_daemon_process_result_from_runtime SWBT_RUNTIME_HOST_OK = SWBT_DAEMON_PROCESS_OK"
| "swbt_daemon_process_result_from_runtime SWBT_RUNTIME_HOST_PENDING = SWBT_DAEMON_PROCESS_PENDING"
| "swbt_daemon_process_result_from_runtime SWBT_RUNTIME_HOST_ERROR_INVALID_ARGUMENT = SWBT_DAEMON_PROCESS_ERROR_INVALID_ARGUMENT"
| "swbt_daemon_process_result_from_runtime SWBT_RUNTIME_HOST_ERROR_BACKEND = SWBT_DAEMON_PROCESS_ERROR_BACKEND"

text \<open>The runtime after one of its operations, with the calls it made in between.\<close>

definition set_runtime :: "host \<Rightarrow> 'c swbt_daemon_process \<Rightarrow> 'c swbt_daemon_process" where
  "set_runtime h p = p\<lparr>pr_runtime := h,
     pr_trace := pr_trace p @ map RuntimeEvent (drop (length (host_trace (pr_runtime p))) (host_trace h))\<rparr>"

definition set_lifecycle ::
  "swbt_domain_daemon_lifecycle_state_t \<Rightarrow> 'c swbt_daemon_process \<Rightarrow> 'c swbt_daemon_process" where
  "set_lifecycle l p = p\<lparr>pr_runtime := (pr_runtime p)\<lparr>host_app :=
     snd (swbt_domain_set_daemon_lifecycle (swbt_runtime_host_app (Some (pr_runtime p))) l)\<rparr>\<rparr>"

text \<open>The control object of the runtime as an argument and a result of the IPC service.\<close>

definition runtime_control :: "host \<Rightarrow> control_state" where
  "runtime_control h = (swbt_runtime_host_control (Some h), host_app h)"

definition store_runtime_control :: "control_state \<Rightarrow> host \<Rightarrow> host" where
  "store_runtime_control cs h = h\<lparr>host_control := the (fst cs), host_app := snd cs\<rparr>"

definition swbt_daemon_process_init ::
  "'c swbt_daemon_process option \<Rightarrow> swbt_daemon_config_t option \<Rightarrow> 'c swbt_daemon_process_backend option \<Rightarrow> 'c
   \<Rightarrow> swbt_domain option \<Rightarrow> swbt_daemon_process_result_t \<times> 'c swbt_daemon_process option" where
  "swbt_daemon_process_init host config bk backend_context domain_mem = (case host of
       None \<Rightarrow> (SWBT_DAEMON_PROCESS_ERROR_INVALID_ARGUMENT, None)
     | Some old \<Rightarrow>
         if \<not> swbt_daemon_config_is_valid config \<or> \<not> swbt_daemon_backend_is_valid bk
         then (SWBT_DAEMON_PROCESS_ERROR_INVALID_ARGUMENT, host)
         else
           let c = the config; b = the bk;
               p = \<lparr>pr_config = c, pr_backend = b, pr_context = backend_context,
                 pr_runtime = zero_host (host_trace (pr_runtime old)), pr_initialized = False, pr_running = False,
                 pr_ipc_started = False, pr_trace = pr_trace old\<rparr>;
               (result, runtime) = swbt_runtime_host_init (Some (pr_runtime p))
                 (Some \<lparr>hc_report_options = cfg_report_options c, hc_device_info = cfg_device_info c,
                        hc_daemon_status = \<lparr>backend = pb_daemon_backend b,
                          lifecycle_state = SWBT_DOMAIN_DAEMON_LIFECYCLE_STOPPED,
                          hardware_approval = SWBT_DOMAIN_HARDWARE_APPROVAL_UNAVAILABLE\<rparr>\<rparr>)
                 (pb_runtime_backend b) domain_mem;
               p = p\<lparr>pr_runtime := the runtime\<rparr>
           in if result \<noteq> SWBT_RUNTIME_HOST_OK then (SWBT_DAEMON_PROCESS_ERROR_INVALID_ARGUMENT, Some p)
              else (SWBT_DAEMON_PROCESS_OK, Some (p\<lparr>pr_initialized := True\<rparr>)))"

definition swbt_daemon_process_stop :: "'c swbt_daemon_process option \<Rightarrow> 'c swbt_daemon_process option" where
  "swbt_daemon_process_stop host = (case host of
       None \<Rightarrow> None
     | Some p \<Rightarrow>
         if \<not> pr_initialized p then Some p
         else
           let p = set_runtime (the (swbt_runtime_host_stop (Some (pr_runtime p)))) p;
               p = (if pr_ipc_started p then
                      let (ctx, cs) = the (pb_ipc_stop (pr_backend p)) (pr_context p) (runtime_control (pr_runtime p))
                      in p\<lparr>pr_context := ctx, pr_runtime := store_runtime_control cs (pr_runtime p),
                           pr_trace := pr_trace p @ [IpcStop], pr_ipc_started := False\<rparr>
                    else p);
               p = set_lifecycle SWBT_DOMAIN_DAEMON_LIFECYCLE_STOPPED p
           in Some (p\<lparr>pr_running := False\<rparr>))"

definition swbt_daemon_process_start ::
  "host_env \<Rightarrow> 'c swbt_daemon_process option \<Rightarrow> swbt_daemon_process_result_t \<times> 'c swbt_daemon_process option" where
  "swbt_daemon_process_start env host = (case host of
       None \<Rightarrow> (SWBT_DAEMON_PROCESS_ERROR_INVALID_ARGUMENT, None)
     | Some p \<Rightarrow>
         if \<not> pr_initialized p then (SWBT_DAEMON_PROCESS_ERROR_INVALID_ARGUMENT, Some p)
         else if pr_running p then (SWBT_DAEMON_PROCESS_OK, Some p)
         else
           let (code, ctx, cs) = the (pb_ipc_start (pr_backend p)) (pr_context p) (runtime_control (pr_runtime p));
               p = p\<lparr>pr_context := ctx, pr_runtime := store_runtime_control cs (pr_runtime p),
                     pr_trace := pr_trace p @ [IpcStart code]\<rparr>
           in if code \<noteq> 0 then (SWBT_DAEMON_PROCESS_ERROR_BACKEND, Some p)
              else
                let p = p\<lparr>pr_ipc_started := True\<rparr>;
                    (result, runtime) = swbt_runtime_host_start env (Some (pr_runtime p));
                    p = set_runtime (the runtime) p
                in if result \<noteq> SWBT_RUNTIME_HOST_OK then (SWBT_DAEMON_PROCESS_ERROR_BACKEND, swbt_daemon_process_stop (Some p))
                   else (SWBT_DAEMON_PROCESS_OK,
                         Some ((set_lifecycle SWBT_DOMAIN_DAEMON_LIFECYCLE_RUNNING p)\<lparr>pr_running := True\<rparr>)))"

definition swbt_daemon_process_send_neutral_now ::
  "host_env \<Rightarrow> 'c swbt_daemon_process option \<Rightarrow> swbt_daemon_process_result_t \<times> 'c swbt_daemon_process option" where
  "swbt_daemon_process_send_neutral_now env host = (case host of
       None \<Rightarrow> (SWBT_DAEMON_PROCESS_ERROR_INVALID_ARGUMENT, None)
     | Some p \<Rightarrow>
         if \<not> pr_initialized p then (SWBT_DAEMON_PROCESS_ERROR_INVALID_ARGUMENT, Some p)
         else let (result, runtime) = swbt_runtime_host_send_neutral_now env (Some (pr_runtime p))
           in (swbt_daemon_process_result_from_runtime result, Some (set_runtime (the runtime) p)))"

definition swbt_daemon_process_destroy :: "'c swbt_daemon_process option \<Rightarrow> 'c swbt_daemon_process option" where
  "swbt_daemon_process_destroy host = (case host of
       None \<Rightarrow> None
     | Some _ \<Rightarrow> map_option (\<lambda>p. (set_runtime (the (swbt_runtime_host_destroy (Some (pr_runtime p)))) p)\<lparr>pr_initialized := False\<rparr>)
         (swbt_daemon_process_stop host))"

definition swbt_daemon_process_is_running :: "'c swbt_daemon_process option \<Rightarrow> bool" where
  "swbt_daemon_process_is_running host = (case host of None \<Rightarrow> False | Some p \<Rightarrow> pr_running p)"

definition swbt_daemon_process_app :: "'c swbt_daemon_process option \<Rightarrow> swbt_domain option" where
  "swbt_daemon_process_app host = (case host of None \<Rightarrow> None | Some p \<Rightarrow> swbt_runtime_host_app (Some (pr_runtime p)))"

definition swbt_daemon_process_control :: "'c swbt_daemon_process option \<Rightarrow> swbt_control_t option" where
  "swbt_daemon_process_control host = (case host of None \<Rightarrow> None | Some p \<Rightarrow> swbt_runtime_host_control (Some (pr_runtime p)))"

definition swbt_daemon_process_output_handler ::
  "'c swbt_daemon_process option \<Rightarrow> swbt_btstack_output_report_handler_t option" where
  "swbt_daemon_process_output_handler host =
     (case host of None \<Rightarrow> None | Some p \<Rightarrow> swbt_runtime_host_output_handler (Some (pr_runtime p)))"

section \<open>The no-op backend\<close>

definition swbt_daemon_noop_ipc_start :: "'c ipc_start_fun" where
  "swbt_daemon_noop_ipc_start ctx cs = (0, ctx, cs)"

definition swbt_daemon_noop_stop :: "'c ipc_stop_fun" where
  "swbt_daemon_noop_stop ctx cs = (ctx, cs)"

text \<open>What the runtime backend of the no-op table answers: zero to everything.\<close>

definition noop_host_env :: "response \<Rightarrow> host_env" where
  "noop_host_env memory = \<lparr>he_hid_register = 0, he_report_timer_start = 0, he_send_neutral_now = 0,
     he_subcommand_reply_enqueue = (\<lambda>_ _. 0), he_read_device_info = (- 1, swbt_switch_device_info_default),
     he_time_ms = 0, he_response_memory = memory\<rparr>"

definition swbt_daemon_process_noop_backend :: "'c swbt_daemon_process_backend" where
  "swbt_daemon_process_noop_backend = \<lparr>pb_daemon_backend = SWBT_DOMAIN_DAEMON_BACKEND_NOOP,
     pb_ipc_start = Some swbt_daemon_noop_ipc_start, pb_ipc_stop = Some swbt_daemon_noop_stop,
     pb_runtime_backend = Some \<lparr>hb_hid_register = True, hb_hid_stop = True, hb_output_handler_start = True,
       hb_output_handler_stop = True, hb_report_timer_start = True, hb_report_timer_stop = True,
       hb_report_timer_send_neutral_now = True, hb_subcommand_reply_enqueue = True, hb_read_device_info = False,
       hb_time_ms = True\<rparr>\<rparr>"

text \<open>The exit code, and the process as it was left.\<close>

definition swbt_daemon_main_with_process_backend ::
  "host_env \<Rightarrow> 'c swbt_daemon_process \<Rightarrow> swbt_daemon_config_t option \<Rightarrow> 'c swbt_daemon_process_backend option \<Rightarrow> 'c
   \<Rightarrow> swbt_domain option \<Rightarrow> int \<times> 'c swbt_daemon_process option" where
  "swbt_daemon_main_with_process_backend env mem config bk backend_context domain_mem =
     (let (result, host) = swbt_daemon_process_init (Some mem) config bk backend_context domain_mem in
      if result \<noteq> SWBT_DAEMON_PROCESS_OK then (1, host)
      else let (result, host) = swbt_daemon_process_start env host in
        if result \<noteq> SWBT_DAEMON_PROCESS_OK then (1, swbt_daemon_process_destroy host)
        else (0, swbt_daemon_process_destroy host))"

section \<open>The IPC pump\<close>

text \<open>
  The pump port on its own state \<open>'x\<close>: its two functions, each of them set or not. The runner is an argument, since the
  adapter only holds pointers; the two functions of the pump that \<open>start\<close> receives are always set.
\<close>

record 'x swbt_btstack_production_ipc_pump_port_t =
  pump_start :: "('x \<Rightarrow> int \<times> 'x) option"
  pump_stop :: "('x \<Rightarrow> 'x) option"

definition swbt_daemon_btstack_ipc_pump_adapter_is_valid ::
  "swbt_daemon_ipc_runner_t option \<Rightarrow> 'x swbt_btstack_production_ipc_pump_port_t option \<Rightarrow> bool" where
  "swbt_daemon_btstack_ipc_pump_adapter_is_valid runner port =
     (runner \<noteq> None \<and> (case port of None \<Rightarrow> False | Some p \<Rightarrow> pump_start p \<noteq> None \<and> pump_stop p \<noteq> None))"

definition swbt_daemon_btstack_ipc_pump_adapter_start ::
  "ipc_env \<Rightarrow> 'x swbt_btstack_production_ipc_pump_port_t option \<Rightarrow> 'x \<Rightarrow> swbt_daemon_ipc_runner_t option \<Rightarrow> control_state
   \<Rightarrow> int \<times> 'x \<times> swbt_daemon_ipc_runner_t option \<times> control_state" where
  "swbt_daemon_btstack_ipc_pump_adapter_start env port x runner control =
     (if \<not> swbt_daemon_btstack_ipc_pump_adapter_is_valid runner port then (- 1, x, runner, control)
      else let (result, runner) = swbt_daemon_ipc_runner_start env runner control (map_option rn_config runner) in
        if result \<noteq> SWBT_DAEMON_IPC_RUNNER_OK then (- 1, x, runner, control)
        else let (code, x) = the (pump_start (the port)) x in
          if code \<noteq> 0 then
            let (runner, control) = swbt_daemon_ipc_runner_stop runner control in (- 1, x, runner, control)
          else (0, x, runner, control))"

definition swbt_daemon_btstack_ipc_pump_adapter_stop ::
  "'x swbt_btstack_production_ipc_pump_port_t option \<Rightarrow> 'x \<Rightarrow> swbt_daemon_ipc_runner_t option \<Rightarrow> control_state
   \<Rightarrow> 'x \<times> swbt_daemon_ipc_runner_t option \<times> control_state" where
  "swbt_daemon_btstack_ipc_pump_adapter_stop port x runner control =
     (if \<not> swbt_daemon_btstack_ipc_pump_adapter_is_valid runner port then (x, runner, control)
      else (the (pump_stop (the port)) x, swbt_daemon_ipc_runner_stop runner control))"

definition swbt_daemon_production_ipc_runner_is_running :: "swbt_daemon_ipc_runner_t option \<Rightarrow> bool" where
  "swbt_daemon_production_ipc_runner_is_running runner = swbt_daemon_ipc_runner_is_running runner"

text \<open>The pump hands over the 32 bit millisecond clock.\<close>

definition swbt_daemon_production_ipc_runner_poll_once_at ::
  "ipc_env \<Rightarrow> swbt_daemon_ipc_runner_t option \<Rightarrow> control_state \<Rightarrow> u32 \<Rightarrow> polled option" where
  "swbt_daemon_production_ipc_runner_poll_once_at env runner bound now_ms =
     swbt_daemon_ipc_runner_poll_once_at env runner bound (ucast now_ms)"

text \<open>
  The two functions as the IPC service of a process, on the state of the port and the runner: \<open>port_start\<close> and
  \<open>port_stop\<close> are the functions of the port.
\<close>

definition pump_ipc_start :: "ipc_env \<Rightarrow> ('x \<Rightarrow> int \<times> 'x) \<Rightarrow> ('x \<Rightarrow> 'x) \<Rightarrow> ('x \<times> swbt_daemon_ipc_runner_t) ipc_start_fun" where
  "pump_ipc_start env port_start port_stop = (\<lambda>(x, r) cs.
     let (code, x, runner, cs) = swbt_daemon_btstack_ipc_pump_adapter_start env
        (Some \<lparr>pump_start = Some port_start, pump_stop = Some port_stop\<rparr>) x (Some r) cs in (code, (x, the runner), cs))"

definition pump_ipc_stop :: "('x \<Rightarrow> int \<times> 'x) \<Rightarrow> ('x \<Rightarrow> 'x) \<Rightarrow> ('x \<times> swbt_daemon_ipc_runner_t) ipc_stop_fun" where
  "pump_ipc_stop port_start port_stop = (\<lambda>(x, r) cs.
     let (x, runner, cs) = swbt_daemon_btstack_ipc_pump_adapter_stop
        (Some \<lparr>pump_start = Some port_start, pump_stop = Some port_stop\<rparr>) x (Some r) cs in ((x, the runner), cs))"

section \<open>The order of the calls\<close>

text \<open>
  The service is started before anything is asked of the runtime backend, and stopped when
  the backend holds nothing any more. None is a misuse.
\<close>

fun process_call :: "process_event \<Rightarrow> bool \<times> resources \<Rightarrow> (bool \<times> resources) option" where
  "process_call (IpcStart code) (ipc, r) = (if ipc \<or> r \<noteq> (False, False, False) then None else Some (code = 0, r))"
| "process_call IpcStop (ipc, r) = (if ipc \<and> r = (False, False, False) then Some (False, r) else None)"
| "process_call (RuntimeEvent e) (ipc, r) = (if ipc then map_option (Pair True) (backend_call e r) else None)"

fun process_calls :: "process_event list \<Rightarrow> bool \<times> resources \<Rightarrow> (bool \<times> resources) option" where
  "process_calls [] s = Some s"
| "process_calls (e # es) s = (case process_call e s of None \<Rightarrow> None | Some s' \<Rightarrow> process_calls es s')"

lemma process_calls_append:
  "process_calls (es @ fs) s = (case process_calls es s of None \<Rightarrow> None | Some s' \<Rightarrow> process_calls fs s')"
  by (induction es s rule: process_calls.induct) (auto split: option.splits)

lemma process_calls_runtime:
  "process_calls (map RuntimeEvent es) (True, r) = map_option (Pair True) (backend_calls es r)"
  by (induction es r rule: backend_calls.induct) (auto split: option.splits)

lemma set_runtime_simps [simp]:
  "pr_runtime (set_runtime h p) = h" "pr_context (set_runtime h p) = pr_context p" "pr_backend (set_runtime h p) = pr_backend p"
  "pr_initialized (set_runtime h p) = pr_initialized p" "pr_running (set_runtime h p) = pr_running p"
  "pr_ipc_started (set_runtime h p) = pr_ipc_started p"
  by (simp_all add: set_runtime_def)

section \<open>Operations of the host, as the process uses them\<close>

definition extends :: "host \<Rightarrow> host \<Rightarrow> bool" where
  "extends h h' \<longleftrightarrow> host_inv h' \<and> (\<exists>es. host_trace h' = host_trace h @ es \<and> (es = [] \<or> host_running h))"

lemma host_stop_extends:
  assumes "host_inv h"
  shows "\<exists>h' a. host_app h = Some a \<and> swbt_runtime_host_stop (Some h) = Some h' \<and> extends h h' \<and> \<not> host_running h'
    \<and> host_app h' = Some (neutralised a) \<and> domain_inv a \<and> host_control h' = host_control h"
proof -
  obtain a where a: "host_app h = Some a" "domain_inv a" and i: "host_initialized h"
      and f: "host_report_timer_started h = host_running h" "host_output_handler_started h = host_running h"
      "host_hid_registered h = host_running h"
    using assms by (auto simp: host_inv_def host_resources_def)
  then show ?thesis
    using host_stop_step [OF assms stop_eq [OF i a(1)]] f stop_eq [OF i a(1)] by (auto simp: extends_def)
qed

lemma host_start_extends:
  assumes "host_inv h" "\<not> host_running h"
  shows "\<exists>h' es. swbt_runtime_host_start env (Some h) =
      (if host_running h' then SWBT_RUNTIME_HOST_OK else SWBT_RUNTIME_HOST_ERROR_BACKEND, Some h')
    \<and> host_inv h' \<and> host_trace h' = host_trace h @ es \<and> host_control h' = host_control h
    \<and> host_running h' = (he_hid_register env = 0 \<and> he_report_timer_start env = 0)
    \<and> (host_app h' = host_app h \<or> host_app h' = map_option neutralised (host_app h))"
proof -
  obtain a where a: "host_app h = Some a" and i: "host_initialized h"
    using assms(1) by (auto simp: host_inv_def)
  obtain h' where h': "snd (swbt_runtime_host_start env (Some h)) = Some h'"
    using start_some [OF assms(1)] by blast
  have "host_inv h'"
    using host_start_step [OF assms(1) h'] .
  then show ?thesis
    using h' a i assms(2)
    by (intro exI [of _ h']) (auto simp: swbt_runtime_host_start_def stop_eq host_emit_def Let_def split: if_splits)
qed

lemma host_neutral_extends:
  assumes "host_inv h"
  shows "\<exists>r h' a. swbt_runtime_host_send_neutral_now env (Some h) = (r, Some h') \<and> extends h h'
    \<and> host_app h = Some a \<and> domain_inv a \<and> host_app h' = Some (neutralised a)
    \<and> host_running h' = host_running h \<and> host_resources h' = host_resources h"
proof -
  obtain a where a: "host_app h = Some a" "domain_inv a" and i: "host_initialized h"
      and f: "host_report_timer_started h = host_running h"
    using assms by (auto simp: host_inv_def host_resources_def)
  obtain r ho where ro: "swbt_runtime_host_send_neutral_now env (Some h) = (r, ho)"
    by (rule prod.exhaust)
  then obtain h' where r: "swbt_runtime_host_send_neutral_now env (Some h) = (r, Some h')"
    using i by (auto simp: swbt_runtime_host_send_neutral_now_def Let_def split: if_splits)
  have "host_inv h'"
    using neutral_step [OF assms, of env h'] r by simp
  then show ?thesis
    using r a i f
    by (intro exI [of _ r] exI [of _ h'] exI [of _ a])
       (auto simp: extends_def swbt_runtime_host_send_neutral_now_def store_neutral host_resources_def Let_def split: if_splits)
qed

lemma on_output_report_domain:
  assumes "host_app h = Some a"
  shows "\<exists>h' a' es. swbt_runtime_host_on_output_report env (Some h) cid (Some r) = Some h'
    \<and> h' = h\<lparr>host_app := a', host_trace := host_trace h @ es\<rparr>
    \<and> (\<exists>op. other_client op \<and> a' = snd (domain_exec op (Some a)))"
proof -
  let ?d = "if hb_read_device_info (the (host_backend h)) \<and> fst (he_read_device_info env) = 0
      then snd (he_read_device_info env) else host_device_info h"
  let ?op = "HandleOutputReport (Some r) (Some (host_report_options h)) (Some ?d) (ucast (he_time_ms env)) (Some (he_response_memory env))"
  obtain result app response where out: "swbt_domain_handle_output_report (Some a) (Some r) (Some (host_report_options h))
      (Some ?d) (ucast (he_time_ms env)) (Some (he_response_memory env)) = (result, app, response)"
    by (rule prod_cases3)
  have op: "other_client ?op \<and> app = snd (domain_exec ?op (Some a))"
    by (simp add: out)
  let ?bs = "take (resp_report_size (the response)) (resp_report (the response))"
  let ?es = "if result \<noteq> SWBT_DOMAIN_OK \<or> resp_action (the response) \<noteq> SWBT_SWITCH_SUBCOMMAND_DISPATCH_ACTION_REPLY then []
      else [SubcommandReplyEnqueue cid ?bs (he_subcommand_reply_enqueue env cid ?bs)]"
  have "swbt_runtime_host_on_output_report env (Some h) cid (Some r) = Some (h\<lparr>host_app := app, host_trace := host_trace h @ ?es\<rparr>)"
    unfolding on_output_report_eq [OF assms] out Let_def prod.case by (simp add: host_emit_def)
  then show ?thesis
    using op by blast
qed

lemma host_receive_extends:
  assumes "host_inv h" "host_allowed h (HostReceive env options)"
  shows "\<exists>h' a a'. snd (host_receive env h options) = h' \<and> extends h h' \<and> host_app h = Some a \<and> host_app h' = Some a'
    \<and> host_running h' = host_running h \<and> host_resources h' = host_resources h
    \<and> (a' = a \<or> (\<exists>op. other_client op \<and> domain_step a op a'))"
proof -
  let ?cb = "\<lambda>h cid r. the (swbt_runtime_host_on_output_report env (Some h) cid (Some r))"
  obtain a where a: "host_app h = Some a" "domain_inv a" and oh: "oh_callback (host_output_handler h)"
      "length (oh_scratch (host_output_handler h)) = 64" and run: "host_running h"
    using assms by (auto simp: host_inv_def host_resources_def)
  obtain r oh' c where out: "swbt_btstack_output_report_handler_handle ?cb (Some (host_output_handler h)) h options = (r, Some oh', c)"
    and c: "c = h \<or> (\<exists>cid rep. c = ?cb h cid rep)"
    using handle_ctx [OF oh, of ?cb h options] by blast
  have "\<exists>a' es. c = h\<lparr>host_app := Some a', host_trace := host_trace h @ es\<rparr>
      \<and> (a' = a \<or> (\<exists>op. other_client op \<and> domain_step a op a'))"
    using c
  proof
    assume "c = h"
    then show ?thesis
      using a(1) by (intro exI [of _ a] exI [of _ "[]"]) simp
  next
    assume "\<exists>cid rep. c = ?cb h cid rep"
    then show ?thesis
      using on_output_report_domain [OF a(1), of env] domain_exec_some [OF a(2)]
      by (metis domain_step_def option.sel)
  qed
  then show ?thesis
    using receive_step [of h env options] assms run a(1) out
    by (auto simp: host_receive_def extends_def host_resources_def)
qed

lemma host_init_owner:
  assumes "swbt_runtime_host_init (Some old) (Some cfg) bt mem = (SWBT_RUNTIME_HOST_OK, ho)"
  shows "\<exists>h. ho = Some h \<and> host_app h \<noteq> None \<and> domain_owner (the (host_app h)) = None"
proof -
  obtain m where m: "mem = Some m"
    using assms by (cases mem) (auto simp: swbt_runtime_host_init_def swbt_domain_create_def split: if_splits)
  obtain a where a: "swbt_domain_create (Some m) = Some a"
    using domain_create_inv by blast
  have "domain_owner a = None"
    using domain_create_free [OF a] by (simp add: domain_owner_def lease_owner_def free_lease_def)
  then show ?thesis
    using assms m a
    by (auto simp: swbt_runtime_host_init_def swbt_domain_set_daemon_status_def swbt_control_init_def Let_def domain_owner_def
        domain_helper_defs split: if_splits)
qed

section \<open>The process as a transition system\<close>

text \<open>
  While the service is started, \<open>srv\<close> says what it may do to its context, the control object and the
  domain on its own. Output reports of the console and other domain operations happen at any time.
\<close>

type_synonym 'c service = "'c \<Rightarrow> swbt_control_t \<Rightarrow> swbt_domain \<Rightarrow> 'c \<Rightarrow> swbt_control_t \<Rightarrow> swbt_domain \<Rightarrow> bool"

datatype process_op =
    ProcStart host_env
  | ProcStop
  | ProcSendNeutral host_env
  | ProcReceive host_env swbt_btstack_output_report_handle_options_t
  | ProcServe
  | ProcDomain domain_op

inductive process_step ::
  "'c service \<Rightarrow> 'c swbt_daemon_process \<Rightarrow> process_op \<Rightarrow> 'c swbt_daemon_process \<Rightarrow> bool" for srv where
  proc_start: "swbt_daemon_process_start env (Some p) = (result, Some p') \<Longrightarrow> process_step srv p (ProcStart env) p'"
| proc_stop: "swbt_daemon_process_stop (Some p) = Some p' \<Longrightarrow> process_step srv p ProcStop p'"
| proc_neutral: "swbt_daemon_process_send_neutral_now env (Some p) = (result, Some p') \<Longrightarrow>
    process_step srv p (ProcSendNeutral env) p'"
| proc_receive: "host_allowed (pr_runtime p) (HostReceive env options) \<Longrightarrow>
    process_step srv p (ProcReceive env options) (set_runtime (snd (host_receive env (pr_runtime p) options)) p)"
| proc_serve: "pr_ipc_started p \<Longrightarrow> host_app (pr_runtime p) = Some a \<Longrightarrow>
    srv (pr_context p) (host_control (pr_runtime p)) a ctx ctl a' \<Longrightarrow>
    process_step srv p ProcServe (p\<lparr>pr_context := ctx, pr_runtime := store_runtime_control (Some ctl, Some a') (pr_runtime p)\<rparr>)"
| proc_domain: "other_client op \<Longrightarrow> host_app (pr_runtime p) = Some a \<Longrightarrow> domain_step a op a' \<Longrightarrow>
    process_step srv p (ProcDomain op) (p\<lparr>pr_runtime := (pr_runtime p)\<lparr>host_app := Some a'\<rparr>\<rparr>)"

definition process_initial ::
  "'c ipc_start_fun \<Rightarrow> 'c ipc_stop_fun \<Rightarrow> ('c \<Rightarrow> bool) \<Rightarrow> 'c swbt_daemon_process \<Rightarrow> bool" where
  "process_initial ipc_start ipc_stop ready p \<longleftrightarrow> (\<exists>old config bk ctx mem. pr_trace old = [] \<and> host_trace (pr_runtime old) = []
     \<and> device_info_wf (cfg_device_info config) \<and> ready ctx
     \<and> pb_ipc_start bk = Some ipc_start \<and> pb_ipc_stop bk = Some ipc_stop
     \<and> swbt_daemon_process_init (Some old) (Some config) (Some bk) ctx mem = (SWBT_DAEMON_PROCESS_OK, Some p))"

text \<open>
  The invariant, for a service whose state is described by \<open>serving\<close>; \<open>process_ok\<close> is the part of it that holds
  in the middle of a start too.
\<close>

definition process_ok ::
  "'c ipc_start_fun \<Rightarrow> 'c ipc_stop_fun \<Rightarrow> (bool \<Rightarrow> 'c \<Rightarrow> swbt_domain \<Rightarrow> bool) \<Rightarrow> 'c swbt_daemon_process \<Rightarrow> bool" where
  "process_ok ipc_start ipc_stop serving p \<longleftrightarrow> pr_initialized p
     \<and> pb_ipc_start (pr_backend p) = Some ipc_start \<and> pb_ipc_stop (pr_backend p) = Some ipc_stop
     \<and> host_inv (pr_runtime p) \<and> (host_running (pr_runtime p) \<longrightarrow> pr_ipc_started p)
     \<and> serving (pr_ipc_started p) (pr_context p) (the (host_app (pr_runtime p)))
     \<and> process_calls (pr_trace p) (False, False, False, False) = Some (pr_ipc_started p, host_resources (pr_runtime p))"

definition process_inv ::
  "'c ipc_start_fun \<Rightarrow> 'c ipc_stop_fun \<Rightarrow> (bool \<Rightarrow> 'c \<Rightarrow> swbt_domain \<Rightarrow> bool) \<Rightarrow> 'c swbt_daemon_process \<Rightarrow> bool" where
  "process_inv ipc_start ipc_stop serving p \<longleftrightarrow> process_ok ipc_start ipc_stop serving p
     \<and> pr_running p = pr_ipc_started p \<and> pr_ipc_started p = host_running (pr_runtime p)"

section \<open>Contract: an IPC service\<close>

text \<open>
  What the process relies on: starting works or leaves the service stopped, stopping leaves it stopped and
  gives no client the lease, and neither breaks the domain; operations on the domain do not disturb it.
\<close>

locale ipc_service =
  fixes ipc_start :: "'c ipc_start_fun"
    and ipc_stop :: "'c ipc_stop_fun"
    and srv :: "'c service"
    and serving :: "bool \<Rightarrow> 'c \<Rightarrow> swbt_domain \<Rightarrow> bool"
    and ready :: "'c \<Rightarrow> bool"
  assumes ready_contract: "ready c \<Longrightarrow> domain_owner a = None \<Longrightarrow> domain_inv a \<Longrightarrow> serving False c a"
    and start_contract: "serving False c a \<Longrightarrow> domain_inv a \<Longrightarrow> \<exists>code c' a'. ipc_start c (Some ctl, Some a) =
        (code, c', Some ctl, Some a') \<and> serving (code = 0) c' a' \<and> domain_inv a'"
    and stop_contract: "serving True c a \<Longrightarrow> domain_inv a \<Longrightarrow> \<exists>c' a'. ipc_stop c (Some ctl, Some a) = (c', Some ctl, Some a')
        \<and> serving False c' a' \<and> domain_inv a' \<and> (domain_owner a' = None \<or> domain_owner a' = domain_owner a)"
    and serve_contract: "serving True c a \<Longrightarrow> domain_inv a \<Longrightarrow> srv c ctl a c' ctl' a' \<Longrightarrow> serving True c' a' \<and> domain_inv a'"
    and other_contract: "serving b c a \<Longrightarrow> domain_inv a \<Longrightarrow> other_client op \<Longrightarrow> domain_step a op a' \<Longrightarrow> serving b c a'"
begin

lemma neutralised_serving: "serving b c a \<Longrightarrow> domain_inv a \<Longrightarrow> serving b c (neutralised a)"
  by (rule other_contract [where op = "Revoke \<lparr>revoke_reason = SWBT_DOMAIN_REVOKE_SHUTDOWN, revoke_client_id = 0\<rparr>"])
     (simp_all add: domain_step_def domain_revoke_eq)

lemma lifecycle_step:
  assumes "host_inv (pr_runtime p)" "serving b c (the (host_app (pr_runtime p)))"
  shows "\<exists>a a'. host_app (pr_runtime p) = Some a \<and> domain_inv a' \<and> serving b c a' \<and> dom_lease a' = dom_lease a
    \<and> lifecycle_state (dom_daemon a') = l
    \<and> set_lifecycle l p = p\<lparr>pr_runtime := (pr_runtime p)\<lparr>host_app := Some a'\<rparr>\<rparr>"
proof -
  obtain a where a: "host_app (pr_runtime p) = Some a" "domain_inv a"
    using assms(1) by (auto simp: host_inv_def)
  obtain a' where a': "domain_step a (SetDaemonLifecycle l) a'"
    using domain_exec_some [OF a(2), of "SetDaemonLifecycle l"] by (auto simp: domain_step_def)
  then have "domain_inv a'" "serving b c a'"
    using domain_step_inv [OF a(2) a'] other_contract [OF _ a(2) _ a'] assms(2) a(1) by auto
  moreover have "dom_lease a' = dom_lease a" "lifecycle_state (dom_daemon a') = l"
    using a' by (auto simp: domain_step_def swbt_domain_set_daemon_lifecycle_def domain_helper_defs Let_def)
  ultimately show ?thesis
    using a a' by (auto simp: set_lifecycle_def domain_step_def swbt_runtime_host_app_def)
qed

lemma set_runtime_ok:
  assumes "process_ok ipc_start ipc_stop serving p" "host_inv h'" "host_trace h' = host_trace (pr_runtime p) @ es"
    and "es = [] \<or> pr_ipc_started p" "host_running h' \<longrightarrow> pr_ipc_started p" "es = [] \<longrightarrow> host_resources h' = host_resources (pr_runtime p)"
    and "serving (pr_ipc_started p) (pr_context p) (the (host_app h'))"
  shows "process_ok ipc_start ipc_stop serving (set_runtime h' p)"
proof -
  have "backend_calls es (host_resources (pr_runtime p)) = Some (host_resources h')"
    using assms(1-3) by (auto simp: process_ok_def host_inv_def backend_calls_append split: option.splits)
  then have "process_calls (pr_trace p @ map RuntimeEvent es) (False, False, False, False) =
      Some (pr_ipc_started p, host_resources h')"
    using assms(1,4,6) by (cases "pr_ipc_started p") (auto simp: process_ok_def process_calls_append process_calls_runtime)
  then show ?thesis
    using assms by (simp add: process_ok_def set_runtime_def)
qed

lemma lifecycle_ok:
  assumes "process_ok ipc_start ipc_stop serving p"
  shows "process_ok ipc_start ipc_stop serving (set_lifecycle l p)"
    and "pr_ipc_started (set_lifecycle l p) = pr_ipc_started p" "pr_trace (set_lifecycle l p) = pr_trace p"
    "host_running (pr_runtime (set_lifecycle l p)) = host_running (pr_runtime p)"
    "pr_context (set_lifecycle l p) = pr_context p"
    "\<exists>a a'. host_app (pr_runtime p) = Some a \<and> host_app (pr_runtime (set_lifecycle l p)) = Some a'
      \<and> domain_owner a' = domain_owner a \<and> domain_inv a' \<and> lifecycle_state (dom_daemon a') = l"
  using assms lifecycle_step [of p "pr_ipc_started p" "pr_context p" l]
  by (auto simp: process_ok_def host_inv_def host_resources_def domain_owner_def)

text \<open>Stopping, from every state that occurs: the calls it makes and what it leaves.\<close>

lemma stop_ok:
  assumes "process_ok ipc_start ipc_stop serving p"
  shows "\<exists>p' a. swbt_daemon_process_stop (Some p) = Some p' \<and> process_inv ipc_start ipc_stop serving p' \<and> \<not> pr_running p'
    \<and> host_app (pr_runtime p') = Some a \<and> domain_owner a = None \<and> dom_state a = swbt_state_neutral
    \<and> lifecycle_state (dom_daemon a) = SWBT_DOMAIN_DAEMON_LIFECYCLE_STOPPED
    \<and> (pr_ipc_started p \<longrightarrow> last (pr_trace p') = IpcStop)"
proof -
  have inv: "host_inv (pr_runtime p)" "pr_initialized p" "host_running (pr_runtime p) \<longrightarrow> pr_ipc_started p"
      "pb_ipc_stop (pr_backend p) = Some ipc_stop"
    using assms by (auto simp: process_ok_def)
  obtain h a where h: "host_app (pr_runtime p) = Some a" "swbt_runtime_host_stop (Some (pr_runtime p)) = Some h"
      "extends (pr_runtime p) h" "\<not> host_running h" "host_app h = Some (neutralised a)" "domain_inv a"
    using host_stop_extends [OF inv(1)] by blast
  obtain es where es: "host_trace h = host_trace (pr_runtime p) @ es" "es = [] \<or> host_running (pr_runtime p)" "host_inv h"
    using h(3) by (auto simp: extends_def)
  have sv: "serving (pr_ipc_started p) (pr_context p) (neutralised a)"
    using neutralised_serving h(1,6) assms by (auto simp: process_ok_def)
  have p1: "process_ok ipc_start ipc_stop serving (set_runtime h p)"
    by (rule set_runtime_ok [OF assms es(3,1)])
       (use es inv h sv in \<open>auto simp: host_inv_def host_resources_def\<close>)
  let ?p1 = "set_runtime h p"
  have owner: "domain_owner (neutralised a) = None"
    by (rule neutralised_owner)
  obtain p2 a2 where p2: "(if pr_ipc_started ?p1 then
        let (ctx, cs) = the (pb_ipc_stop (pr_backend ?p1)) (pr_context ?p1) (runtime_control (pr_runtime ?p1))
        in ?p1\<lparr>pr_context := ctx, pr_runtime := store_runtime_control cs (pr_runtime ?p1),
             pr_trace := pr_trace ?p1 @ [IpcStop], pr_ipc_started := False\<rparr> else ?p1) = p2"
    and ok2: "process_ok ipc_start ipc_stop serving p2" and p2': "\<not> pr_ipc_started p2" "host_app (pr_runtime p2) = Some a2"
      "domain_owner a2 = None" "pr_ipc_started p \<longrightarrow> last (pr_trace p2) = IpcStop" "\<not> host_running (pr_runtime p2)"
  proof (cases "pr_ipc_started p")
    case True
    obtain c' a' where stop: "ipc_stop (pr_context p) (Some (host_control h), Some (neutralised a)) = (c', Some (host_control h), Some a')"
        "serving False c' a'" "domain_inv a'" "domain_owner a' = None"
      using stop_contract [of "pr_context p" "neutralised a" "host_control h"] sv True neutralised_inv [OF h(6)] owner by auto
    let ?p2 = "?p1\<lparr>pr_context := c', pr_runtime := h\<lparr>host_app := Some a'\<rparr>, pr_trace := pr_trace ?p1 @ [IpcStop], pr_ipc_started := False\<rparr>"
    have "host_resources h = (False, False, False)"
      using es(3) h(4) by (simp add: host_inv_def)
    then have "process_calls (pr_trace ?p1 @ [IpcStop]) (False, False, False, False) = Some (False, False, False, False)"
      using p1 True by (simp add: process_ok_def process_calls_append)
    then have "process_ok ipc_start ipc_stop serving ?p2"
      using p1 stop True h(4) es(3) by (auto simp: process_ok_def host_inv_def host_resources_def)
    then show ?thesis
      using that [of ?p2 a'] True stop inv(4) h(4)
      by (simp add: runtime_control_def store_runtime_control_def swbt_runtime_host_control_def h(5))
  next
    case False
    then show ?thesis
      using that [of ?p1 "neutralised a"] p1 h owner by simp
  qed
  let ?p3 = "set_lifecycle SWBT_DOMAIN_DAEMON_LIFECYCLE_STOPPED p2"
  obtain a3 where a3: "host_app (pr_runtime ?p3) = Some a3" "domain_owner a3 = None" "domain_inv a3"
      "lifecycle_state (dom_daemon a3) = SWBT_DOMAIN_DAEMON_LIFECYCLE_STOPPED"
    using lifecycle_ok(6) [OF ok2, of SWBT_DOMAIN_DAEMON_LIFECYCLE_STOPPED] p2'(2,3) by auto
  have "dom_state a3 = swbt_state_neutral"
    using a3(2,3) by (auto simp: domain_inv_def domain_owner_def lease_owner_def split: if_splits)
  moreover have "process_inv ipc_start ipc_stop serving (?p3\<lparr>pr_running := False\<rparr>)"
    using lifecycle_ok(1,2,4) [OF ok2, of SWBT_DOMAIN_DAEMON_LIFECYCLE_STOPPED] p2'(1,5)
    by (simp add: process_inv_def process_ok_def)
  moreover have "swbt_daemon_process_stop (Some p) = Some (?p3\<lparr>pr_running := False\<rparr>)"
    using p2 inv(2) by (simp add: swbt_daemon_process_stop_def h(2) Let_def)
  ultimately show ?thesis
    using a3 p2' lifecycle_ok(3) [OF ok2] by auto
qed

lemma start_ok:
  assumes "process_inv ipc_start ipc_stop serving p"
  shows "\<exists>r p'. swbt_daemon_process_start env (Some p) = (r, Some p') \<and> process_inv ipc_start ipc_stop serving p'
    \<and> (r = SWBT_DAEMON_PROCESS_OK) = pr_running p'"
proof (cases "pr_running p")
  case True
  then show ?thesis
    using assms by (auto simp: swbt_daemon_process_start_def process_inv_def process_ok_def)
next
  case False
  have ok: "process_ok ipc_start ipc_stop serving p" "\<not> pr_ipc_started p" "\<not> host_running (pr_runtime p)"
      "host_inv (pr_runtime p)" "pr_initialized p" "pb_ipc_start (pr_backend p) = Some ipc_start"
    using assms False by (auto simp: process_inv_def process_ok_def)
  obtain a where a: "host_app (pr_runtime p) = Some a" "domain_inv a"
    using ok(4) by (auto simp: host_inv_def)
  obtain code c' a' where st: "ipc_start (pr_context p) (Some (host_control (pr_runtime p)), Some a) =
      (code, c', Some (host_control (pr_runtime p)), Some a')" "serving (code = 0) c' a'" "domain_inv a'"
    using start_contract [of "pr_context p" a "host_control (pr_runtime p)"] ok(1,2) a by (auto simp: process_ok_def)
  let ?p1 = "p\<lparr>pr_context := c', pr_runtime := (pr_runtime p)\<lparr>host_app := Some a'\<rparr>, pr_trace := pr_trace p @ [IpcStart code],
      pr_ipc_started := code = 0\<rparr>"
  have res: "host_resources (pr_runtime p) = (False, False, False)"
    using ok(3,4) by (simp add: host_inv_def)
  then have "process_calls (pr_trace p @ [IpcStart code]) (False, False, False, False) = Some (code = 0, False, False, False)"
    using ok(1,2) by (simp add: process_ok_def process_calls_append)
  then have p1: "process_ok ipc_start ipc_stop serving ?p1"
    using ok st res by (auto simp: process_ok_def host_inv_def host_resources_def)
  have call: "ipc_start (pr_context p) (runtime_control (pr_runtime p)) = (code, c', Some (host_control (pr_runtime p)), Some a')"
    using st(1) a(1) by (simp add: runtime_control_def swbt_runtime_host_control_def)
  show ?thesis
  proof (cases "code = 0")
    case False
    have same: "?p1 = p\<lparr>pr_context := c', pr_runtime := (pr_runtime p)\<lparr>host_app := Some a'\<rparr>, pr_trace := pr_trace p @ [IpcStart code]\<rparr>"
      using False ok(2) by (cases p) simp
    show ?thesis
      using p1 [unfolded same] ok False \<open>\<not> pr_running p\<close>
      by (auto simp: swbt_daemon_process_start_def call store_runtime_control_def process_inv_def)
  next
    case True
    have h1: "host_inv (pr_runtime ?p1)" "\<not> host_running (pr_runtime ?p1)"
      using p1 ok(3) by (simp_all add: process_ok_def)
    obtain h es where h: "swbt_runtime_host_start env (Some (pr_runtime ?p1)) =
        (if host_running h then SWBT_RUNTIME_HOST_OK else SWBT_RUNTIME_HOST_ERROR_BACKEND, Some h)" "host_inv h"
        "host_trace h = host_trace (pr_runtime ?p1) @ es"
        "host_app h = host_app (pr_runtime ?p1) \<or> host_app h = map_option neutralised (host_app (pr_runtime ?p1))"
      using host_start_extends [OF h1, of env] by blast
    have "serving True c' (the (host_app h))"
      using h(4) st(2,3) True neutralised_serving by auto
    moreover have "es = [] \<longrightarrow> host_resources h = host_resources (pr_runtime ?p1)"
      using h(2,3) h1(1) by (auto simp: host_inv_def)
    ultimately have p2: "process_ok ipc_start ipc_stop serving (set_runtime h ?p1)"
      using True by (intro set_runtime_ok [OF p1 h(2,3)]) simp_all
    let ?p2 = "set_runtime h ?p1"
    have eq: "swbt_daemon_process_start env (Some p) = (if host_running h
        then (SWBT_DAEMON_PROCESS_OK, Some ((set_lifecycle SWBT_DOMAIN_DAEMON_LIFECYCLE_RUNNING ?p2)\<lparr>pr_running := True\<rparr>))
        else (SWBT_DAEMON_PROCESS_ERROR_BACKEND, swbt_daemon_process_stop (Some ?p2)))"
      using ok \<open>\<not> pr_running p\<close> True h(1)
      by (simp add: swbt_daemon_process_start_def call store_runtime_control_def Let_def)
    show ?thesis
    proof (cases "host_running h")
      case True
      have "process_inv ipc_start ipc_stop serving ((set_lifecycle SWBT_DOMAIN_DAEMON_LIFECYCLE_RUNNING ?p2)\<lparr>pr_running := True\<rparr>)"
        using lifecycle_ok(1,2,4) [OF p2, of SWBT_DOMAIN_DAEMON_LIFECYCLE_RUNNING] True \<open>code = 0\<close>
        by (simp add: process_inv_def process_ok_def)
      then show ?thesis
        using eq True by simp
    next
      case False
      then show ?thesis
        using eq stop_ok [OF p2] by auto
    qed
  qed
qed

lemma runtime_ok:
  assumes "process_inv ipc_start ipc_stop serving p" "extends (pr_runtime p) h" "host_running h = host_running (pr_runtime p)"
    "host_resources h = host_resources (pr_runtime p)" "serving (pr_ipc_started p) (pr_context p) (the (host_app h))"
  shows "process_inv ipc_start ipc_stop serving (set_runtime h p)"
proof -
  obtain es where es: "host_inv h" "host_trace h = host_trace (pr_runtime p) @ es" "es = [] \<or> host_running (pr_runtime p)"
    using assms(2) by (auto simp: extends_def)
  have "process_ok ipc_start ipc_stop serving (set_runtime h p)"
    by (rule set_runtime_ok [OF _ es(1,2)]) (use assms es(3) in \<open>auto simp: process_inv_def\<close>)
  then show ?thesis
    using assms(1,3) by (simp add: process_inv_def)
qed

lemma app_ok:
  assumes "process_inv ipc_start ipc_stop serving p" "serving (pr_ipc_started p) c a" "domain_inv a"
  shows "process_inv ipc_start ipc_stop serving (p\<lparr>pr_context := c, pr_runtime := store_runtime_control (Some ctl, Some a) (pr_runtime p)\<rparr>)"
  using assms by (auto simp: process_inv_def process_ok_def host_inv_def host_resources_def store_runtime_control_def)

lemma step_ok:
  assumes "process_inv ipc_start ipc_stop serving p" "process_step srv p op p'"
  shows "process_inv ipc_start ipc_stop serving p'"
proof -
  have inv: "host_inv (pr_runtime p)" "pr_initialized p" "process_ok ipc_start ipc_stop serving p"
      "serving (pr_ipc_started p) (pr_context p) (the (host_app (pr_runtime p)))"
    using assms(1) by (auto simp: process_inv_def process_ok_def)
  show ?thesis
    using assms(2)
  proof cases
    case (proc_start env result)
    then show ?thesis
      using start_ok [OF assms(1), of env] by auto
  next
    case proc_stop
    then show ?thesis
      using stop_ok [OF inv(3)] by auto
  next
    case (proc_neutral env result)
    obtain r h a where h: "swbt_runtime_host_send_neutral_now env (Some (pr_runtime p)) = (r, Some h)" "extends (pr_runtime p) h"
        "host_app (pr_runtime p) = Some a" "domain_inv a" "host_app h = Some (neutralised a)"
        "host_running h = host_running (pr_runtime p)" "host_resources h = host_resources (pr_runtime p)"
      using host_neutral_extends [OF inv(1)] by blast
    then show ?thesis
      using runtime_ok [OF assms(1) h(2,6,7)] neutralised_serving [OF _ h(4)] inv proc_neutral
      by (auto simp: swbt_daemon_process_send_neutral_now_def)
  next
    case (proc_receive env options)
    obtain h a a' where h: "snd (host_receive env (pr_runtime p) options) = h" "extends (pr_runtime p) h"
        "host_app (pr_runtime p) = Some a" "host_app h = Some a'" "host_running h = host_running (pr_runtime p)"
        "host_resources h = host_resources (pr_runtime p)" "a' = a \<or> (\<exists>op. other_client op \<and> domain_step a op a')"
      using host_receive_extends [OF inv(1) proc_receive(3)] by blast
    have "domain_inv a"
      using inv(1) h(3) by (auto simp: host_inv_def)
    then have "serving (pr_ipc_started p) (pr_context p) a'"
      using h(3,7) inv(4) other_contract by auto
    then show ?thesis
      using runtime_ok [OF assms(1) h(2,5,6)] h(1,4) proc_receive by auto
  next
    case (proc_serve a ctx ctl a')
    have "domain_inv a"
      using inv(1) proc_serve(4) by (auto simp: host_inv_def)
    then show ?thesis
      using app_ok [OF assms(1)] serve_contract [of "pr_context p" a] inv(4) proc_serve by auto
  next
    case (proc_domain dop a a')
    have "domain_inv a"
      using inv(1) proc_domain(4) by (auto simp: host_inv_def)
    then have "serving (pr_ipc_started p) (pr_context p) a'" "domain_inv a'"
      using other_contract domain_step_inv inv(4) proc_domain by auto
    then show ?thesis
      using assms(1) proc_domain by (auto simp: process_inv_def process_ok_def host_inv_def host_resources_def)
  qed
qed

lemma initial_ok:
  assumes "process_initial ipc_start ipc_stop ready p"
  shows "process_inv ipc_start ipc_stop serving p"
proof -
  obtain old config bk ctx mem where init: "swbt_daemon_process_init (Some old) (Some config) (Some bk) ctx mem = (SWBT_DAEMON_PROCESS_OK, Some p)"
    and o: "pr_trace old = []" "host_trace (pr_runtime old) = []" "device_info_wf (cfg_device_info config)" "ready ctx"
      "pb_ipc_start bk = Some ipc_start" "pb_ipc_stop bk = Some ipc_stop"
    using assms by (auto simp: process_initial_def)
  let ?cfg = "\<lparr>hc_report_options = cfg_report_options config, hc_device_info = cfg_device_info config,
      hc_daemon_status = \<lparr>backend = pb_daemon_backend bk, lifecycle_state = SWBT_DOMAIN_DAEMON_LIFECYCLE_STOPPED,
        hardware_approval = SWBT_DOMAIN_HARDWARE_APPROVAL_UNAVAILABLE\<rparr>\<rparr>"
  obtain r ho where ho: "swbt_runtime_host_init (Some (zero_host [])) (Some ?cfg) (pb_runtime_backend bk) mem = (r, ho)"
    by (rule prod.exhaust)
  have r: "r = SWBT_RUNTIME_HOST_OK"
    and p: "p = \<lparr>pr_config = config, pr_backend = bk, pr_context = ctx, pr_runtime = the ho, pr_initialized = True,
      pr_running = False, pr_ipc_started = False, pr_trace = []\<rparr>"
    using init o(1,2) by (auto simp: swbt_daemon_process_init_def Let_def ho split: if_splits)
  obtain h where h: "ho = Some h" "host_app h \<noteq> None" "domain_owner (the (host_app h)) = None"
    using host_init_owner [OF ho [unfolded r]] by blast
  have "host_initial h"
    using ho r h(1) o(3) unfolding host_initial_def
    by (intro exI [of _ "zero_host []"] exI [of _ ?cfg] exI [of _ "pb_runtime_backend bk"] exI [of _ mem]) (simp add: zero_host_def)
  note hi = host_init_inv [OF this]
  have "serving False ctx (the (host_app h))"
    using ready_contract [OF o(4) h(3)] hi(1) by (auto simp: host_inv_def)
  moreover have "host_resources h = (False, False, False)"
    using hi(1,2) by (simp add: host_inv_def)
  ultimately show ?thesis
    using hi o(5,6) h(1) unfolding p process_inv_def process_ok_def by simp
qed

end

sublocale ipc_service < proc: invariant_system "process_initial ipc_start ipc_stop ready" "process_step srv"
    "process_inv ipc_start ipc_stop serving"
  by unfold_locales (rule initial_ok, assumption, rule step_ok)

context ipc_service
begin

text \<open>The reachable states keep the order of the calls, and stopping them leaves nothing behind.\<close>

lemma reachable_discipline:
  assumes "reachable (process_initial ipc_start ipc_stop ready) (process_step srv) p"
  shows "process_calls (pr_trace p) (False, False, False, False) =
      Some (pr_running p, pr_running p, pr_running p, pr_running p)"
    and "pr_ipc_started p = pr_running p" "host_running (pr_runtime p) = pr_running p"
  using proc.reachable_inv [OF assms]
  by (auto simp: process_inv_def process_ok_def host_inv_def)

lemma reachable_stop:
  assumes "reachable (process_initial ipc_start ipc_stop ready) (process_step srv) p"
  shows "\<exists>p' a. swbt_daemon_process_stop (Some p) = Some p' \<and> \<not> pr_running p' \<and> \<not> host_running (pr_runtime p')
    \<and> serving False (pr_context p') a \<and> process_calls (pr_trace p') (False, False, False, False) = Some (False, False, False, False)
    \<and> host_app (pr_runtime p') = Some a \<and> domain_owner a = None \<and> dom_state a = swbt_state_neutral
    \<and> lifecycle_state (dom_daemon a) = SWBT_DOMAIN_DAEMON_LIFECYCLE_STOPPED"
proof -
  obtain p' a where "swbt_daemon_process_stop (Some p) = Some p'" "process_inv ipc_start ipc_stop serving p'" "\<not> pr_running p'"
      "host_app (pr_runtime p') = Some a" "domain_owner a = None" "dom_state a = swbt_state_neutral"
      "lifecycle_state (dom_daemon a) = SWBT_DOMAIN_DAEMON_LIFECYCLE_STOPPED"
    using stop_ok [of p] proc.reachable_inv [OF assms] by (auto simp: process_inv_def)
  then show ?thesis
    by (auto simp: process_inv_def process_ok_def host_inv_def)
qed

end

section \<open>The services\<close>

interpretation noop: ipc_service swbt_daemon_noop_ipc_start swbt_daemon_noop_stop "\<lambda>_ _ _ _ _ _. False" "\<lambda>_ _ _. True" "\<lambda>_. True"
  by unfold_locales (auto simp: swbt_daemon_noop_ipc_start_def swbt_daemon_noop_stop_def)

definition runner_ready :: "swbt_daemon_ipc_runner_t \<Rightarrow> bool" where
  "runner_ready r \<longleftrightarrow> server_ok r \<and> \<not> rn_running r"

definition runner_serving :: "bool \<Rightarrow> swbt_daemon_ipc_runner_t \<Rightarrow> swbt_domain \<Rightarrow> bool" where
  "runner_serving b r a \<longleftrightarrow> rn_running r = b \<and> (\<forall>ctl. runner_inv (r, ctl, a))"

text \<open>The service on its own: a poll of the runner at any time; the port may change its state in any way.\<close>

definition pump_service :: "('x \<times> swbt_daemon_ipc_runner_t) service" where
  "pump_service c ctl a c' ctl' a' \<longleftrightarrow> (\<exists>env now result sent. build_ok (env_build env)
     \<and> swbt_daemon_production_ipc_runner_poll_once_at env (Some (snd c)) (Some ctl, Some a) now =
         Some (result, Some (snd c'), (Some ctl', Some a'), sent))"

definition pump_serving :: "bool \<Rightarrow> 'x \<times> swbt_daemon_ipc_runner_t \<Rightarrow> swbt_domain \<Rightarrow> bool" where
  "pump_serving b c a = runner_serving b (snd c) a"

definition pump_ready :: "'x \<times> swbt_daemon_ipc_runner_t \<Rightarrow> bool" where
  "pump_ready c = runner_ready (snd c)"

lemma runner_start_running:
  assumes "\<not> rn_running r"
  shows "\<exists>result r'. swbt_daemon_ipc_runner_start env (Some r) control cfg = (result, Some r')
    \<and> rn_running r' = (result = SWBT_DAEMON_IPC_RUNNER_OK)"
  using assms
  by (auto simp: swbt_daemon_ipc_runner_start_def swbt_ipc_server_bind_control_def swbt_daemon_ipc_runner_copy_host_def
      swbt_ipc_server_listen_def Let_def split: option.splits prod.splits)

lemma runner_inv_ctl: "runner_inv (r, ctl, a) = runner_inv (r, ctl', a)"
  by (simp add: runner_inv_def)

lemma runner_stop_serving:
  assumes "runner_serving b r a"
  shows "\<exists>r' a'. swbt_daemon_ipc_runner_stop (Some r) (Some ctl, Some a) = (Some r', Some ctl, Some a')
    \<and> runner_serving False r' a' \<and> domain_inv a' \<and> (domain_owner a' = None \<or> domain_owner a' = domain_owner a)"
proof -
  have "runner_inv (r, ctl, a)"
    using assms by (simp add: runner_serving_def)
  then obtain r' a' where "swbt_daemon_ipc_runner_stop (Some r) (Some ctl, Some a) = (Some r', Some ctl, Some a')"
      "runner_inv (r', ctl, a')" "stopped r'" "domain_owner a' = None \<or> domain_owner a' = domain_owner a"
    using stop_inv by blast
  then show ?thesis
    using runner_inv_ctl by (auto simp: runner_serving_def stopped_def runner_inv_def)
qed

lemma pump_start_serving:
  assumes "pump_serving False c a"
  shows "\<exists>code c' a'. pump_ipc_start env port_start port_stop c (Some ctl, Some a) = (code, c', Some ctl, Some a')
    \<and> pump_serving (code = 0) c' a' \<and> domain_inv a'"
proof -
  obtain x r where c: "c = (x, r)"
    by (rule prod.exhaust)
  have r: "\<not> rn_running r" "runner_inv (r, ctl, a)" "domain_inv a" "server_ok r"
    using assms by (auto simp: c pump_serving_def runner_serving_def runner_inv_def)
  obtain result r1 where r1: "swbt_daemon_ipc_runner_start env (Some r) (Some ctl, Some a) (Some (rn_config r)) = (result, Some r1)"
      "rn_running r1 = (result = SWBT_DAEMON_IPC_RUNNER_OK)"
    using runner_start_running [OF r(1)] by blast
  have sv: "runner_serving (result = SWBT_DAEMON_IPC_RUNNER_OK) r1 a"
    using start_server_ok [OF r(4) r1(1)] r(2) r1(2) by (auto simp: runner_serving_def runner_inv_def)
  obtain r2 a2 where "swbt_daemon_ipc_runner_stop (Some r1) (Some ctl, Some a) = (Some r2, Some ctl, Some a2)"
      "runner_serving False r2 a2" "domain_inv a2"
    using runner_stop_serving [OF sv] by blast
  then show ?thesis
    using sv r(3) by (cases "port_start x")
      (auto simp: c pump_serving_def pump_ipc_start_def swbt_daemon_btstack_ipc_pump_adapter_start_def
        swbt_daemon_btstack_ipc_pump_adapter_is_valid_def r1(1))
qed

lemma drop_running [simp]: "rn_running (drop_connection r) = rn_running r"
  by (simp add: drop_connection_def)

lemma poll_running:
  assumes "swbt_daemon_ipc_runner_poll_once_at env (Some r) bound now = Some (result, Some r', bound', sent)"
  shows "rn_running r' = rn_running r"
  using assms
  by (auto simp: swbt_daemon_ipc_runner_poll_once_at_def swbt_daemon_ipc_runner_accept_at_def
      swbt_daemon_ipc_runner_check_heartbeat_def swbt_daemon_ipc_runner_serve_connection_once_at_def Let_def
      split: if_splits prod.splits)

lemma pump_service_serving:
  assumes "pump_serving True c a" "pump_service c ctl a c' ctl' a'"
  shows "pump_serving True c' a' \<and> domain_inv a'"
proof -
  obtain env result sent and now :: u32 where b: "build_ok (env_build env)"
    and poll: "swbt_daemon_ipc_runner_poll_once_at env (Some (snd c)) (Some ctl, Some a) (ucast now) =
      Some (result, Some (snd c'), (Some ctl', Some a'), sent)"
    using assms(2) by (auto simp: pump_service_def swbt_daemon_production_ipc_runner_poll_once_at_def)
  have "runner_inv (snd c', ctl', a')"
    using poll_inv [OF _ b, of "snd c" ctl a "ucast now"] assms(1) poll by (auto simp: pump_serving_def runner_serving_def)
  then show ?thesis
    using poll_running [OF poll] assms(1) runner_inv_ctl by (auto simp: pump_serving_def runner_serving_def runner_inv_def)
qed

interpretation pump: ipc_service "pump_ipc_start env port_start port_stop" "pump_ipc_stop port_start port_stop"
    pump_service pump_serving pump_ready
  for env port_start port_stop
proof unfold_locales
  fix c :: "'a \<times> swbt_daemon_ipc_runner_t" and a
  assume "pump_ready c" "domain_owner a = None" "domain_inv a"
  then show "pump_serving False c a"
    by (auto simp: pump_ready_def runner_ready_def pump_serving_def runner_serving_def runner_inv_def not_ipc_owned_def server_ok_def)
next
  fix c :: "'a \<times> swbt_daemon_ipc_runner_t" and a ctl
  assume "pump_serving True c a"
  then show "\<exists>c' a'. pump_ipc_stop port_start port_stop c (Some ctl, Some a) = (c', Some ctl, Some a') \<and> pump_serving False c' a'
      \<and> domain_inv a' \<and> (domain_owner a' = None \<or> domain_owner a' = domain_owner a)"
    using runner_stop_serving [of True "snd c" a ctl]
    by (cases c) (auto simp: pump_serving_def pump_ipc_stop_def swbt_daemon_btstack_ipc_pump_adapter_stop_def
        swbt_daemon_btstack_ipc_pump_adapter_is_valid_def)
next
  fix b and c :: "'a \<times> swbt_daemon_ipc_runner_t" and a op a'
  assume "pump_serving b c a" "other_client op" "domain_step a op a'"
  then show "pump_serving b c a'"
    unfolding pump_serving_def runner_serving_def by (blast intro: other_inv)
qed (rule pump_start_serving pump_service_serving; assumption)+

section \<open>A concrete process\<close>

definition demo_runner :: swbt_daemon_ipc_runner_t where
  "demo_runner = the (snd (swbt_daemon_ipc_runner_init (Some \<lparr>rn_server = \<lparr>srv_listen_socket = \<lparr>sock_handle = 0, sock_open = False\<rparr>,
     srv_default_app = None, srv_default_control = \<lparr>next_direct_sequence = 0\<rparr>, srv_control = NoControl, srv_next_client_id = 0,
     srv_bound_port = 0, srv_listening = False\<rparr>, rn_connection = zero_connection, rn_config = demo_runner_config,
     rn_endpoint = \<lparr>ep_host = [], ep_port = 0, ep_bound = False\<rparr>, rn_initialized = False, rn_running = False,
     rn_has_connection = False\<rparr>) (Some zero_domain)))"

text \<open>The pump of the BTstack platform.\<close>

definition platform_ipc_start :: "ipc_env \<Rightarrow> (platform \<times> swbt_daemon_ipc_runner_t) ipc_start_fun" where
  "platform_ipc_start env =
     pump_ipc_start env (swbt_btstack_production_ipc_pump_start True) swbt_btstack_production_ipc_pump_stop"

definition platform_ipc_stop :: "(platform \<times> swbt_daemon_ipc_runner_t) ipc_stop_fun" where
  "platform_ipc_stop = pump_ipc_stop (swbt_btstack_production_ipc_pump_start True) swbt_btstack_production_ipc_pump_stop"

definition pump_backend :: "(platform \<times> swbt_daemon_ipc_runner_t) swbt_daemon_process_backend" where
  "pump_backend = \<lparr>pb_daemon_backend = SWBT_DOMAIN_DAEMON_BACKEND_PRODUCTION, pb_ipc_start = Some (platform_ipc_start demo_ipc_env),
     pb_ipc_stop = Some platform_ipc_stop, pb_runtime_backend = Some demo_host_backend\<rparr>"

definition blank_process :: "'c swbt_daemon_process_backend \<Rightarrow> 'c \<Rightarrow> 'c swbt_daemon_process" where
  "blank_process bk ctx = \<lparr>pr_config = swbt_daemon_config_default, pr_backend = bk, pr_context = ctx, pr_runtime = zero_host [],
     pr_initialized = False, pr_running = False, pr_ipc_started = False, pr_trace = []\<rparr>"

lemma runner_init_result:
  "\<exists>r. swbt_daemon_ipc_runner_init (Some r0) (Some zero_domain) = (SWBT_DAEMON_IPC_RUNNER_OK, Some r) \<and> \<not> rn_running r"
proof -
  obtain a where "swbt_domain_create (Some zero_domain) = Some a"
    using domain_create_inv by blast
  then show ?thesis
    by (simp add: swbt_daemon_ipc_runner_init_def swbt_ipc_server_init_def swbt_control_init_def Let_def
        swbt_daemon_ipc_runner_clear_endpoint_def)
qed

lemma demo_runner_ready: "runner_ready demo_runner"
  using runner_init_result runner_init_ok(1) unfolding demo_runner_def runner_ready_def by (metis option.sel snd_conv)

lemma process_init_result:
  assumes "swbt_daemon_backend_is_valid (Some bk)" "swbt_runtime_backend_is_valid (pb_runtime_backend bk)"
  shows "\<exists>p. swbt_daemon_process_init (Some (blank_process bk ctx)) (Some swbt_daemon_config_default) (Some bk) ctx (Some zero_domain) =
      (SWBT_DAEMON_PROCESS_OK, Some p) \<and> \<not> pr_running p"
proof -
  obtain a where "swbt_domain_create (Some zero_domain) = Some a"
    using domain_create_inv by blast
  then show ?thesis
    using assms
    by (simp add: swbt_daemon_process_init_def swbt_daemon_config_is_valid_def swbt_daemon_config_default_def
        swbt_runtime_host_init_def swbt_domain_set_daemon_status_def swbt_control_init_def Let_def)
qed

definition demo_process :: "(platform \<times> swbt_daemon_ipc_runner_t) swbt_daemon_process" where
  "demo_process = the (snd (swbt_daemon_process_init (Some (blank_process pump_backend (zero_platform, demo_runner)))
     (Some swbt_daemon_config_default) (Some pump_backend) (zero_platform, demo_runner) (Some zero_domain)))"

lemma demo_process_initial:
  "process_initial (platform_ipc_start demo_ipc_env) platform_ipc_stop pump_ready demo_process" "\<not> pr_running demo_process"
proof -
  let ?ctx = "(zero_platform, demo_runner)"
  have "swbt_daemon_backend_is_valid (Some pump_backend)" "swbt_runtime_backend_is_valid (pb_runtime_backend pump_backend)"
    by (simp_all add: pump_backend_def swbt_daemon_backend_is_valid_def swbt_runtime_backend_is_valid_def demo_host_backend_def)
  then have init: "swbt_daemon_process_init (Some (blank_process pump_backend ?ctx)) (Some swbt_daemon_config_default)
      (Some pump_backend) ?ctx (Some zero_domain) = (SWBT_DAEMON_PROCESS_OK, Some demo_process)"
      "\<not> pr_running demo_process"
    using process_init_result [of pump_backend ?ctx] by (auto simp: demo_process_def)
  then show "\<not> pr_running demo_process" "process_initial (platform_ipc_start demo_ipc_env) platform_ipc_stop pump_ready demo_process"
    unfolding process_initial_def using demo_runner_ready
    by (auto intro!: exI [of _ "blank_process pump_backend ?ctx"] exI [of _ swbt_daemon_config_default]
        exI [of _ pump_backend] exI [of _ zero_platform] exI [of _ demo_runner] exI [of _ "Some zero_domain"]
        simp: blank_process_def pump_backend_def zero_host_def swbt_daemon_config_default_def pump_ready_def)
qed

lemma demo_process_start:
  "\<exists>r p'. swbt_daemon_process_start demo_host_env (Some demo_process) = (r, Some p')
    \<and> reachable (process_initial (platform_ipc_start demo_ipc_env) platform_ipc_stop pump_ready) (process_step pump_service) p'"
proof -
  have init: "reachable (process_initial (platform_ipc_start demo_ipc_env) platform_ipc_stop pump_ready) (process_step pump_service) demo_process"
    using demo_process_initial(1) by (rule reach_init)
  obtain r p' where p': "swbt_daemon_process_start demo_host_env (Some demo_process) = (r, Some p')"
    using pump.start_ok [OF pump.proc.reachable_inv [OF init [unfolded platform_ipc_start_def platform_ipc_stop_def]]] by blast
  show ?thesis
    using p' reach_step [OF init, OF proc_start [OF p']] by blast
qed

section \<open>Properties\<close>

text \<open>C4: Order of the daemon: in every state the process reaches by starting, stopping, sending neutral, receiving
  output reports, polling its clients and any other domain operations, the IPC service was started before the
  first call to the runtime backend and stopped only when HID device, output handler and report timer had
  been given back, nothing twice; the process is running exactly when all of them are held; and a lease of an IPC
  client belongs to the client of the open connection.\<close>

theorem process_order:
  assumes "reachable (process_initial (platform_ipc_start env) platform_ipc_stop pump_ready) (process_step pump_service) p"
  shows "process_calls (pr_trace p) (False, False, False, False) = Some (pr_running p, pr_running p, pr_running p, pr_running p)
    \<and> pr_ipc_started p = pr_running p \<and> host_running (pr_runtime p) = pr_running p \<and> rn_running (snd (pr_context p)) = pr_running p
    \<and> (\<exists>a. host_app (pr_runtime p) = Some a \<and> (\<forall>cid. domain_owner a = Some cid \<longrightarrow> cid = swbt_control_direct_client_id
        \<or> (let r = snd (pr_context p) in
            rn_has_connection r \<and> conn_open (rn_connection r) \<and> conn_client_id (rn_connection r) = cid)))"
proof -
  have "process_inv (platform_ipc_start env) platform_ipc_stop pump_serving p"
    unfolding platform_ipc_start_def platform_ipc_stop_def
    using pump.proc.reachable_inv [OF assms [unfolded platform_ipc_start_def platform_ipc_stop_def]] .
  then obtain a where "host_app (pr_runtime p) = Some a" "runner_serving (pr_ipc_started p) (snd (pr_context p)) a"
    by (auto simp: process_inv_def process_ok_def host_inv_def pump_serving_def)
  then show ?thesis
    using pump.reachable_discipline [OF assms [unfolded platform_ipc_start_def platform_ipc_stop_def]]
    by (auto simp: runner_serving_def runner_inv_def server_ok_def not_ipc_owned_def Let_def)
qed

theorem process_order_witness:
  "\<exists>r p'. swbt_daemon_process_start demo_host_env (Some demo_process) = (r, Some p')
    \<and> process_calls (pr_trace p') (False, False, False, False) = Some (pr_running p', pr_running p', pr_running p', pr_running p')"
  using demo_process_start process_order by blast

text \<open>C5: A stop of the process, in every state it can reach, leaves no connection and no listening socket, no backend resource,
  no owner, the neutral controller state and the lifecycle state stopped.\<close>

theorem process_stop_clean:
  assumes "reachable (process_initial (platform_ipc_start env) platform_ipc_stop pump_ready) (process_step pump_service) p"
  shows "\<exists>p' a. swbt_daemon_process_stop (Some p) = Some p' \<and> \<not> pr_running p' \<and> \<not> host_running (pr_runtime p')
    \<and> \<not> rn_running (snd (pr_context p')) \<and> \<not> rn_has_connection (snd (pr_context p')) \<and> \<not> srv_listening (rn_server (snd (pr_context p')))
    \<and> process_calls (pr_trace p') (False, False, False, False) = Some (False, False, False, False)
    \<and> swbt_daemon_process_app (Some p') = Some a \<and> domain_owner a = None \<and> dom_state a = swbt_state_neutral
    \<and> lifecycle_state (dom_daemon a) = SWBT_DOMAIN_DAEMON_LIFECYCLE_STOPPED"
  using pump.reachable_stop [OF assms [unfolded platform_ipc_start_def platform_ipc_stop_def]]
  by (auto simp: pump_serving_def runner_serving_def runner_inv_def server_ok_def swbt_daemon_process_app_def swbt_runtime_host_app_def)

theorem process_stop_clean_witness:
  "\<exists>r p' p''. swbt_daemon_process_start demo_host_env (Some demo_process) = (r, Some p')
    \<and> swbt_daemon_process_stop (Some p') = Some p'' \<and> \<not> rn_has_connection (snd (pr_context p''))"
  using demo_process_start process_stop_clean by blast

end
