(* ===== verification/Ports.thy ===== *)
theory Ports
  imports TimerAdapter Process
begin

text \<open>
  The tables of functions through which the daemon reaches BTstack (\<open>btstack_bridge/production_ports.c\<close>, \<open>hid_port.c\<close>,
  \<open>timer_port.c\<close>), which of their members are set, and the functions that the production build puts into them
  (\<open>production_btstack_impl.c\<close>) where they work on the state of the daemon: the report timer adapter, HID
  registration and HID traffic.
\<close>

section \<open>HID port and timer port\<close>

datatype swbt_btstack_hid_port_result_t =
    SWBT_BTSTACK_HID_PORT_OK
  | SWBT_BTSTACK_HID_PORT_ERROR_INVALID_ARGUMENT
  | SWBT_BTSTACK_HID_PORT_ERROR_SEND_FAILED

text \<open>The functions of the port: whether the first one is set, and what the second one returns.\<close>

record swbt_btstack_hid_port_t =
  hp_request_can_send_now_event :: bool
  hp_send_interrupt_message :: "(u16 \<Rightarrow> bytes \<Rightarrow> u16 \<Rightarrow> int) option"

datatype hid_port_call = HidRequestCanSendNow u16 | HidSendInterrupt u16 bytes u16

definition swbt_btstack_hid_port_is_valid :: "swbt_btstack_hid_port_t option \<Rightarrow> bool" where
  "swbt_btstack_hid_port_is_valid port = (case port of None \<Rightarrow> False | Some p \<Rightarrow>
     hp_request_can_send_now_event p \<and> hp_send_interrupt_message p \<noteq> None)"

definition swbt_btstack_hid_port_btstack_send_interrupt :: "u16 \<Rightarrow> bytes \<Rightarrow> u16 \<Rightarrow> int" where
  "swbt_btstack_hid_port_btstack_send_interrupt hid_cid message message_len = 0"

definition swbt_btstack_hid_port_btstack :: swbt_btstack_hid_port_t where
  "swbt_btstack_hid_port_btstack = \<lparr>hp_request_can_send_now_event = True,
     hp_send_interrupt_message = Some swbt_btstack_hid_port_btstack_send_interrupt\<rparr>"

definition swbt_btstack_hid_port_request_can_send_now ::
  "swbt_btstack_hid_port_t option \<Rightarrow> u16 \<Rightarrow> swbt_btstack_hid_port_result_t \<times> hid_port_call list" where
  "swbt_btstack_hid_port_request_can_send_now port hid_cid =
     (if \<not> swbt_btstack_hid_port_is_valid port then (SWBT_BTSTACK_HID_PORT_ERROR_INVALID_ARGUMENT, [])
      else (SWBT_BTSTACK_HID_PORT_OK, [HidRequestCanSendNow hid_cid]))"

definition swbt_btstack_hid_port_send_report ::
  "swbt_btstack_hid_port_t option \<Rightarrow> u16 \<Rightarrow> bytes option \<Rightarrow> swbt_btstack_hid_port_result_t \<times> hid_port_call list" where
  "swbt_btstack_hid_port_send_report port hid_cid report =
     (if \<not> swbt_btstack_hid_port_is_valid port \<or> report = None \<or> length (the report) = 0 \<or> length (the report) > 0xFFFF
      then (SWBT_BTSTACK_HID_PORT_ERROR_INVALID_ARGUMENT, [])
      else let size = of_nat (length (the report)) in
        (if the (hp_send_interrupt_message (the port)) hid_cid (the report) size = 0
         then SWBT_BTSTACK_HID_PORT_OK else SWBT_BTSTACK_HID_PORT_ERROR_SEND_FAILED,
         [HidSendInterrupt hid_cid (the report) size]))"

datatype swbt_btstack_timer_port_result_t =
    SWBT_BTSTACK_TIMER_PORT_OK
  | SWBT_BTSTACK_TIMER_PORT_ERROR_INVALID_ARGUMENT
  | SWBT_BTSTACK_TIMER_PORT_ERROR_REMOVE_FAILED

text \<open>The last two functions return something: the result of removing a timer, and the clock.\<close>

record swbt_btstack_timer_port_t =
  tp_set_timer_handler :: bool
  tp_set_timer_context :: bool
  tp_set_timer :: bool
  tp_add_timer :: bool
  tp_remove_timer :: "int option"
  tp_get_time_ms :: "u32 option"

definition swbt_btstack_timer_port_is_valid :: "swbt_btstack_timer_port_t option \<Rightarrow> bool" where
  "swbt_btstack_timer_port_is_valid port = (case port of None \<Rightarrow> False | Some p \<Rightarrow>
     tp_set_timer_handler p \<and> tp_set_timer_context p \<and> tp_set_timer p \<and> tp_add_timer p \<and> tp_remove_timer p \<noteq> None
     \<and> tp_get_time_ms p \<noteq> None)"

text \<open>A timer argument is whether it is not NULL; the second component says which call was made.\<close>

definition swbt_btstack_timer_port_set_handler ::
  "swbt_btstack_timer_port_t option \<Rightarrow> bool \<Rightarrow> bool \<Rightarrow> swbt_btstack_timer_port_result_t \<times> timer_event list" where
  "swbt_btstack_timer_port_set_handler port timer process =
     (if \<not> swbt_btstack_timer_port_is_valid port \<or> \<not> timer \<or> \<not> process then (SWBT_BTSTACK_TIMER_PORT_ERROR_INVALID_ARGUMENT, [])
      else (SWBT_BTSTACK_TIMER_PORT_OK, [SetTimerHandler]))"

definition swbt_btstack_timer_port_set_context ::
  "swbt_btstack_timer_port_t option \<Rightarrow> bool \<Rightarrow> swbt_btstack_timer_port_result_t \<times> timer_event list" where
  "swbt_btstack_timer_port_set_context port timer =
     (if \<not> swbt_btstack_timer_port_is_valid port \<or> \<not> timer then (SWBT_BTSTACK_TIMER_PORT_ERROR_INVALID_ARGUMENT, [])
      else (SWBT_BTSTACK_TIMER_PORT_OK, [SetTimerContext]))"

definition swbt_btstack_timer_port_set_timer ::
  "swbt_btstack_timer_port_t option \<Rightarrow> bool \<Rightarrow> u32 \<Rightarrow> swbt_btstack_timer_port_result_t \<times> timer_event list" where
  "swbt_btstack_timer_port_set_timer port timer timeout_ms =
     (if \<not> swbt_btstack_timer_port_is_valid port \<or> \<not> timer then (SWBT_BTSTACK_TIMER_PORT_ERROR_INVALID_ARGUMENT, [])
      else (SWBT_BTSTACK_TIMER_PORT_OK, [SetTimer timeout_ms]))"

definition swbt_btstack_timer_port_add_timer ::
  "swbt_btstack_timer_port_t option \<Rightarrow> bool \<Rightarrow> swbt_btstack_timer_port_result_t \<times> timer_event list" where
  "swbt_btstack_timer_port_add_timer port timer =
     (if \<not> swbt_btstack_timer_port_is_valid port \<or> \<not> timer then (SWBT_BTSTACK_TIMER_PORT_ERROR_INVALID_ARGUMENT, [])
      else (SWBT_BTSTACK_TIMER_PORT_OK, [AddTimer]))"

definition swbt_btstack_timer_port_remove_timer ::
  "swbt_btstack_timer_port_t option \<Rightarrow> bool \<Rightarrow> swbt_btstack_timer_port_result_t \<times> timer_event list" where
  "swbt_btstack_timer_port_remove_timer port timer =
     (if \<not> swbt_btstack_timer_port_is_valid port \<or> \<not> timer then (SWBT_BTSTACK_TIMER_PORT_ERROR_INVALID_ARGUMENT, [])
      else (if the (tp_remove_timer (the port)) \<noteq> 0 then SWBT_BTSTACK_TIMER_PORT_OK
            else SWBT_BTSTACK_TIMER_PORT_ERROR_REMOVE_FAILED, [RemoveTimer]))"

definition swbt_btstack_timer_port_get_time_ms :: "swbt_btstack_timer_port_t option \<Rightarrow> u32" where
  "swbt_btstack_timer_port_get_time_ms port =
     (if \<not> swbt_btstack_timer_port_is_valid port then 0 else the (tp_get_time_ms (the port)))"

section \<open>The production ports\<close>

definition SWBT_BTSTACK_PRODUCTION_HID_CONTROL_PSM :: u16 where
  "SWBT_BTSTACK_PRODUCTION_HID_CONTROL_PSM = SWBT_BTSTACK_DEVICE_HID_CONTROL_PSM"

definition SWBT_BTSTACK_PRODUCTION_HID_INTERRUPT_PSM :: u16 where
  "SWBT_BTSTACK_PRODUCTION_HID_INTERRUPT_PSM = SWBT_BTSTACK_DEVICE_HID_INTERRUPT_PSM"

record swbt_btstack_production_output_handler_port_t =
  op_start :: bool
  op_stop :: bool

record swbt_btstack_production_report_timer_port_t =
  rp_init :: bool
  rp_start :: bool
  rp_on_can_send_now :: bool
  rp_enqueue_subcommand_reply :: bool
  rp_send_neutral_now :: bool
  rp_stop :: bool

record swbt_btstack_production_controller_port_t =
  cp_confirm_ssp_user_confirmation :: bool
  cp_read_controller_address :: bool

record swbt_btstack_production_clock_port_t =
  kp_time_ms :: bool

record swbt_btstack_production_power_port_t =
  pp_on :: bool
  pp_off :: bool

record swbt_btstack_production_run_loop_port_t =
  lp_execute :: bool
  lp_execute_on_main_thread :: bool
  lp_set_timer_handler :: bool
  lp_set_timer_context :: bool
  lp_set_timer :: bool
  lp_add_timer :: bool
  lp_remove_timer :: bool
  lp_trigger_exit :: bool

record swbt_btstack_production_ports_t =
  po_ipc_pump :: "platform swbt_btstack_production_ipc_pump_port_t"
  po_device :: swbt_btstack_device_port_t
  po_output_handler :: swbt_btstack_production_output_handler_port_t
  po_report_timer :: swbt_btstack_production_report_timer_port_t
  po_controller :: swbt_btstack_production_controller_port_t
  po_clock :: swbt_btstack_production_clock_port_t
  po_power :: swbt_btstack_production_power_port_t
  po_run_loop :: swbt_btstack_production_run_loop_port_t

definition swbt_btstack_production_ipc_pump_port_is_valid :: "platform swbt_btstack_production_ipc_pump_port_t \<Rightarrow> bool" where
  "swbt_btstack_production_ipc_pump_port_is_valid p \<longleftrightarrow> pump_start p \<noteq> None \<and> pump_stop p \<noteq> None"

definition swbt_btstack_production_device_port_is_valid :: "swbt_btstack_device_port_t \<Rightarrow> bool" where
  "swbt_btstack_production_device_port_is_valid p \<longleftrightarrow> dp_platform_start p \<and> dp_platform_stop p \<and> dp_hid_register p
     \<and> dp_hid_stop p \<and> dp_connect p \<and> dp_disconnect p \<and> dp_send p"

definition swbt_btstack_production_output_handler_port_is_valid :: "swbt_btstack_production_output_handler_port_t \<Rightarrow> bool" where
  "swbt_btstack_production_output_handler_port_is_valid p \<longleftrightarrow> op_start p \<and> op_stop p"

definition swbt_btstack_production_report_timer_port_is_valid :: "swbt_btstack_production_report_timer_port_t \<Rightarrow> bool" where
  "swbt_btstack_production_report_timer_port_is_valid p \<longleftrightarrow> rp_init p \<and> rp_start p \<and> rp_on_can_send_now p
     \<and> rp_enqueue_subcommand_reply p \<and> rp_stop p \<and> rp_send_neutral_now p"

definition swbt_btstack_production_controller_port_is_valid :: "swbt_btstack_production_controller_port_t \<Rightarrow> bool" where
  "swbt_btstack_production_controller_port_is_valid p \<longleftrightarrow> cp_confirm_ssp_user_confirmation p \<and> cp_read_controller_address p"

definition swbt_btstack_production_clock_port_is_valid :: "swbt_btstack_production_clock_port_t \<Rightarrow> bool" where
  "swbt_btstack_production_clock_port_is_valid p \<longleftrightarrow> kp_time_ms p"

definition swbt_btstack_production_power_port_is_valid :: "swbt_btstack_production_power_port_t \<Rightarrow> bool" where
  "swbt_btstack_production_power_port_is_valid p \<longleftrightarrow> pp_on p \<and> pp_off p"

definition swbt_btstack_production_run_loop_port_is_valid :: "swbt_btstack_production_run_loop_port_t \<Rightarrow> bool" where
  "swbt_btstack_production_run_loop_port_is_valid p \<longleftrightarrow> lp_execute p \<and> lp_execute_on_main_thread p \<and> lp_set_timer_handler p
     \<and> lp_set_timer_context p \<and> lp_set_timer p \<and> lp_add_timer p \<and> lp_remove_timer p \<and> lp_trigger_exit p"

definition swbt_btstack_production_ports_has_ipc_pump :: "swbt_btstack_production_ports_t option \<Rightarrow> bool" where
  "swbt_btstack_production_ports_has_ipc_pump ports = (case ports of None \<Rightarrow> False
     | Some p \<Rightarrow> swbt_btstack_production_ipc_pump_port_is_valid (po_ipc_pump p))"

definition swbt_btstack_production_ports_is_valid :: "swbt_btstack_production_ports_t option \<Rightarrow> bool" where
  "swbt_btstack_production_ports_is_valid ports \<longleftrightarrow> swbt_btstack_production_ports_has_ipc_pump ports
     \<and> (let p = the ports in swbt_btstack_production_device_port_is_valid (po_device p)
       \<and> swbt_btstack_production_output_handler_port_is_valid (po_output_handler p)
       \<and> swbt_btstack_production_report_timer_port_is_valid (po_report_timer p)
       \<and> swbt_btstack_production_controller_port_is_valid (po_controller p)
       \<and> swbt_btstack_production_clock_port_is_valid (po_clock p) \<and> swbt_btstack_production_power_port_is_valid (po_power p)
       \<and> swbt_btstack_production_run_loop_port_is_valid (po_run_loop p))"

definition swbt_btstack_production_ports_btstack :: swbt_btstack_production_ports_t where
  "swbt_btstack_production_ports_btstack =
     \<lparr>po_ipc_pump = \<lparr>pump_start = Some (swbt_btstack_production_ipc_pump_start True), pump_stop = Some swbt_btstack_production_ipc_pump_stop\<rparr>,
      po_device = \<lparr>dp_platform_start = True, dp_platform_stop = True, dp_hid_register = True, dp_hid_stop = True,
        dp_connect = True, dp_disconnect = True, dp_send = True\<rparr>,
      po_output_handler = \<lparr>op_start = True, op_stop = True\<rparr>,
      po_report_timer = \<lparr>rp_init = True, rp_start = True, rp_on_can_send_now = True, rp_enqueue_subcommand_reply = True,
        rp_send_neutral_now = True, rp_stop = True\<rparr>,
      po_controller = \<lparr>cp_confirm_ssp_user_confirmation = True, cp_read_controller_address = True\<rparr>,
      po_clock = \<lparr>kp_time_ms = True\<rparr>, po_power = \<lparr>pp_on = True, pp_off = True\<rparr>,
      po_run_loop = \<lparr>lp_execute = True, lp_execute_on_main_thread = True, lp_set_timer_handler = True,
        lp_set_timer_context = True, lp_set_timer = True, lp_add_timer = True, lp_remove_timer = True, lp_trigger_exit = True\<rparr>\<rparr>"

lemma ports_btstack_valid: "swbt_btstack_production_ports_is_valid (Some swbt_btstack_production_ports_btstack)"
  by (simp add: swbt_btstack_production_ports_btstack_def swbt_btstack_production_ports_is_valid_def
      swbt_btstack_production_ports_has_ipc_pump_def swbt_btstack_production_ipc_pump_port_is_valid_def
      swbt_btstack_production_device_port_is_valid_def swbt_btstack_production_output_handler_port_is_valid_def
      swbt_btstack_production_report_timer_port_is_valid_def swbt_btstack_production_controller_port_is_valid_def
      swbt_btstack_production_clock_port_is_valid_def swbt_btstack_production_power_port_is_valid_def
      swbt_btstack_production_run_loop_port_is_valid_def)

section \<open>The functions of the report timer port\<close>

definition swbt_btstack_input_report_timer_backend_btstack :: swbt_btstack_input_report_timer_backend_t where
  "swbt_btstack_input_report_timer_backend_btstack = \<lparr>be_set_timer_handler = True, be_set_timer_context = True,
     be_set_timer = True, be_add_timer = True, be_remove_timer = True, be_get_time_ms = True,
     be_request_can_send_now_event = True, be_send_interrupt_message = True\<rparr>"

definition swbt_btstack_production_report_timer_init ::
  "adapter option \<Rightarrow> swbt_btstack_input_report_timer_adapter_config_t option \<Rightarrow> int \<times> adapter option" where
  "swbt_btstack_production_report_timer_init adapter config = (case config of
       None \<Rightarrow> (- 1, adapter)
     | Some c \<Rightarrow>
         let (result, a) = swbt_btstack_input_report_timer_adapter_init adapter
               (Some (c\<lparr>tc_backend := Some swbt_btstack_input_report_timer_backend_btstack\<rparr>))
         in (if result = SWBT_BTSTACK_INPUT_REPORT_TIMER_OK then 0 else - 1, a))"

definition swbt_btstack_production_report_timer_start ::
  "adapter option \<Rightarrow> swbt_btstack_input_report_timer_start_options_t \<Rightarrow> int \<times> adapter option" where
  "swbt_btstack_production_report_timer_start adapter options =
     (let (result, a) = swbt_btstack_input_report_timer_adapter_start adapter options
      in (if result = SWBT_BTSTACK_INPUT_REPORT_TIMER_OK then 0 else - 1, a))"

definition swbt_btstack_production_report_timer_on_can_send_now :: "timer_env \<Rightarrow> adapter option \<Rightarrow> int \<times> adapter option" where
  "swbt_btstack_production_report_timer_on_can_send_now env adapter =
     (let (result, a) = swbt_btstack_input_report_timer_adapter_on_can_send_now env adapter
      in (if result = SWBT_BTSTACK_INPUT_REPORT_TIMER_OK then 0 else - 1, a))"

definition swbt_btstack_production_report_timer_enqueue_reply ::
  "adapter option \<Rightarrow> u16 \<Rightarrow> bytes option \<Rightarrow> int \<times> adapter option" where
  "swbt_btstack_production_report_timer_enqueue_reply adapter hid_cid report =
     (let (result, a) = swbt_btstack_input_report_timer_adapter_enqueue_subcommand_reply adapter hid_cid report
      in (if result = SWBT_BTSTACK_INPUT_REPORT_TIMER_OK then 0 else - 1, a))"

definition swbt_btstack_production_report_timer_send_neutral_now :: "timer_env \<Rightarrow> adapter option \<Rightarrow> int \<times> adapter option" where
  "swbt_btstack_production_report_timer_send_neutral_now env adapter =
     (let (result, a) = swbt_btstack_input_report_timer_adapter_send_neutral_now env adapter
      in if result = SWBT_BTSTACK_INPUT_REPORT_TIMER_OK then (0, a)
         else if result = SWBT_BTSTACK_INPUT_REPORT_TIMER_PENDING then (1, a)
         else (- 1, a))"

definition swbt_btstack_production_report_timer_stop :: "adapter option \<Rightarrow> adapter option" where
  "swbt_btstack_production_report_timer_stop adapter = swbt_btstack_input_report_timer_adapter_stop adapter"

section \<open>The functions of the device port\<close>

definition swbt_btstack_production_hid_register ::
  "registration_env \<Rightarrow> bytes option \<Rightarrow> swbt_btstack_hid_registration_config_t option \<Rightarrow> int \<times> bytes option \<times> registration_call list" where
  "swbt_btstack_production_hid_register env service_buffer config =
     (let (result, buffer, calls) = swbt_btstack_hid_device_register env True service_buffer config
      in (if result = SWBT_BTSTACK_HID_REGISTRATION_OK then 0 else - 1, buffer, calls))"

text \<open>\<open>hid_device_connect\<close> is BTstack's: it returns a status and stores a channel id.\<close>

definition swbt_btstack_production_device_connect ::
  "(bytes \<Rightarrow> u8 \<times> u16) \<Rightarrow> swbt_btstack_device_connect_request_t option \<Rightarrow> u16 option \<Rightarrow> int \<times> u16 option" where
  "swbt_btstack_production_device_connect hid_device_connect request out_hid_cid =
     (if request = None \<or> out_hid_cid = None
        \<or> cr_control_psm (the request) \<noteq> SWBT_BTSTACK_PRODUCTION_HID_CONTROL_PSM
        \<or> cr_interrupt_psm (the request) \<noteq> SWBT_BTSTACK_PRODUCTION_HID_INTERRUPT_PSM then (- 1, out_hid_cid)
      else let (status, cid) = hid_device_connect (take 6 (cr_address (the request)))
           in (if status = 0 then 0 else - 1, Some cid))"

definition swbt_btstack_production_device_send :: "u16 \<Rightarrow> bytes option \<Rightarrow> int \<times> hid_port_call list" where
  "swbt_btstack_production_device_send hid_cid message =
     (let (result, calls) = swbt_btstack_hid_port_send_report (Some swbt_btstack_hid_port_btstack) hid_cid message
      in (if result = SWBT_BTSTACK_HID_PORT_OK then 0 else - 1, calls))"

definition swbt_btstack_production_device_disconnect :: "u16 \<Rightarrow> int" where
  "swbt_btstack_production_device_disconnect hid_cid = 0"

text \<open>
  What the device sees of the production port: the answers of its functions. Only starting the platform and BTstack's
  own functions can fail; a message of legal length is always handed to BTstack.
\<close>

definition production_device_env :: "int \<Rightarrow> registration_env \<Rightarrow> (bytes \<Rightarrow> u8 \<times> u16) \<Rightarrow> device_env" where
  "production_device_env platform_start renv hid_device_connect =
     \<lparr>de_platform_start = platform_start,
      de_hid_register = (\<lambda>buffer config. fst (swbt_btstack_production_hid_register renv (Some buffer) (Some config))),
      de_connect = (\<lambda>request. map_prod id the (swbt_btstack_production_device_connect hid_device_connect (Some request) (Some 0))),
      de_disconnect = swbt_btstack_production_device_disconnect,
      de_send = (\<lambda>hid_cid message. fst (swbt_btstack_production_device_send hid_cid (Some message)))\<rparr>"

lemma production_send_ok:
  assumes "0 < length m" "length m \<le> 0xFFFF"
  shows "de_send (production_device_env c renv f) cid m = 0"
  using assms
  by (simp add: production_device_env_def swbt_btstack_production_device_send_def swbt_btstack_hid_port_send_report_def
      swbt_btstack_hid_port_is_valid_def swbt_btstack_hid_port_btstack_def swbt_btstack_hid_port_btstack_send_interrupt_def)

lemma production_disconnect_ok [simp]: "de_disconnect (production_device_env c renv f) cid = 0"
  by (simp add: production_device_env_def swbt_btstack_production_device_disconnect_def)

end
