(* ===== verification/Production.thy ===== *)
theory Production
  imports Ports
begin

text \<open>
  The production daemon: \<open>daemon/production_runner.c\<close> with the reconnect request (\<open>active_reconnect.c\<close>), the HID session
  (\<open>btstack_hid_session.c\<close>), the bridge to the report timer (\<open>btstack_report_timer_bridge.c\<close>), the backend of the process
  (\<open>btstack_process_backend.c\<close>) and the shutdown sequence (\<open>shutdown_sequence.c\<close>).

  The runner owns the device, the report timer adapter and the flags of the shutdown; the process lives beside it, and
  the two call each other through tables of functions. The calls a component records in its ghost trace are
  replayed on the component behind the table, in the order in which they were made: the calls of the runtime host on
  the runner (\<open>backend_event\<close>), the calls of the adapter on the device and the metrics (\<open>adapter_event\<close>).
  The IPC runner is in the context of the process.
\<close>

section \<open>Types\<close>

datatype production_timer = ReconnectTimer | DisconnectTimer

datatype production_event =
    PowerOn int
  | PowerOff
  | TriggerExit
  | ExecuteOnMainThread
  | TimerSetHandler production_timer
  | TimerSetContext production_timer
  | TimerSet production_timer u32
  | TimerAdd production_timer
  | TimerRemove production_timer
  | ConfirmSsp bytes
  | SaveLearnedAddress string string
  | InstallListener int
  | UninstallListener

record swbt_daemon_shutdown_listener_t =
  sl_install :: bool
  sl_uninstall :: bool

text \<open>\<open>sd_run_loop\<close>, \<open>sd_host\<close> and \<open>sd_finish\<close> say whether the pointers are set; \<open>sd_callback\<close> whether the callback is.\<close>

record swbt_daemon_shutdown_sequence_t =
  sd_run_loop :: "swbt_btstack_production_run_loop_port_t option"
  sd_host :: bool
  sd_finish :: bool
  sd_neutral_pending :: bool
  sd_disconnect_pending :: bool
  sd_callback :: bool
  sd_requested :: bool

type_synonym process = "(platform \<times> swbt_daemon_ipc_runner_t) swbt_daemon_process"

text \<open>
  \<open>bk_session\<close> is whether \<open>g_active_session\<close> is set; \<open>bk_main_thread\<close> is a ghost: the run loop holds a callback that it has not run
  yet.
\<close>

record swbt_daemon_production_runner =
  bk_config :: swbt_daemon_config_t
  bk_learned_target :: "string option"
  bk_ipc :: "platform \<times> swbt_daemon_ipc_runner_t"
  bk_device :: device
  bk_report_timer :: adapter
  bk_shutdown :: swbt_daemon_shutdown_sequence_t
  bk_ports :: "swbt_btstack_production_ports_t option"
  bk_host :: "process option"
  bk_hid_service_buffer :: bytes
  bk_initialized :: bool
  bk_report_timer_initialized :: bool
  bk_learned_configured :: bool
  bk_adapter_location_configured :: bool
  bk_reconnect_timer_pending :: bool
  bk_disconnect_timer_pending :: bool
  bk_hardware_powered :: bool
  bk_session :: bool
  bk_callbacks :: output_callbacks
  bk_main_thread :: bool
  bk_trace :: "production_event list"

type_synonym runner = swbt_daemon_production_runner

text \<open>
  What the outside answers during one call: the device port, the clock, the controller, memory, and the file
  that keeps a learned address (\<open>config_file.cpp\<close>), which may change the configuration.
\<close>

record production_env =
  pv_device :: device_env
  pv_time_ms :: u32
  pv_controller_address :: "int \<times> bytes"
  pv_power_on :: int
  pv_response_memory :: response
  pv_save_learned :: "swbt_daemon_config_t \<Rightarrow> string \<Rightarrow> string \<Rightarrow> swbt_daemon_config_t"
  pv_listener_install :: int

definition bk_emit :: "production_event list \<Rightarrow> runner \<Rightarrow> runner" where
  "bk_emit es b = b\<lparr>bk_trace := bk_trace b @ es\<rparr>"

abbreviation run_loop_of :: "runner \<Rightarrow> swbt_btstack_production_run_loop_port_t" where
  "run_loop_of b \<equiv> po_run_loop (the (bk_ports b))"

section \<open>Active reconnect\<close>

datatype swbt_daemon_active_reconnect_request_result_t =
    SWBT_DAEMON_ACTIVE_RECONNECT_REQUEST_INVALID
  | SWBT_DAEMON_ACTIVE_RECONNECT_REQUEST_READY
  | SWBT_DAEMON_ACTIVE_RECONNECT_REQUEST_NONE

datatype swbt_daemon_active_reconnect_active_result_t =
    SWBT_DAEMON_ACTIVE_RECONNECT_ACTIVE_FAILED
  | SWBT_DAEMON_ACTIVE_RECONNECT_ACTIVE_NONE
  | SWBT_DAEMON_ACTIVE_RECONNECT_ACTIVE_REQUESTED

definition swbt_daemon_active_reconnect_report_failed :: "swbt_domain option \<Rightarrow> swbt_domain option" where
  "swbt_daemon_active_reconnect_report_failed app = (case app of
       None \<Rightarrow> None
     | Some _ \<Rightarrow> snd (swbt_domain_set_hardware_status app
         (Some \<lparr>adapter_state = SWBT_DOMAIN_HARDWARE_CHANNEL_UNAVAILABLE,
                switch_connection_state = SWBT_DOMAIN_HARDWARE_CHANNEL_FAILED,
                hid_channel_state = SWBT_DOMAIN_HARDWARE_CHANNEL_FAILED\<rparr>)))"

text \<open>The parser of the address returns None when it would read past the end of the text.\<close>

definition swbt_daemon_active_reconnect_build_request ::
  "swbt_daemon_config_t option \<Rightarrow> swbt_btstack_device_connect_request_t option
   \<Rightarrow> swbt_daemon_active_reconnect_request_result_t \<times> swbt_btstack_device_connect_request_t option" where
  "swbt_daemon_active_reconnect_build_request config out_request =
     (let request = \<lparr>cr_address = replicate 6 0, cr_control_psm = SWBT_BTSTACK_PRODUCTION_HID_CONTROL_PSM,
            cr_interrupt_psm = SWBT_BTSTACK_PRODUCTION_HID_INTERRUPT_PSM\<rparr> in
      if config = None \<or> out_request = None then (SWBT_DAEMON_ACTIVE_RECONNECT_REQUEST_INVALID, out_request)
      else case swbt_daemon_config_effective_reconnect_switch_address config of
        None \<Rightarrow> (SWBT_DAEMON_ACTIVE_RECONNECT_REQUEST_NONE, out_request)
      | Some switch_address \<Rightarrow>
          (case swbt_daemon_switch_address_parse_bytes (Some switch_address) (Some (cr_address request)) of
             Some (True, Some address) \<Rightarrow>
               (SWBT_DAEMON_ACTIVE_RECONNECT_REQUEST_READY, Some (request\<lparr>cr_address := address\<rparr>))
           | _ \<Rightarrow> (SWBT_DAEMON_ACTIVE_RECONNECT_REQUEST_INVALID, out_request)))"

text \<open>The request structure: the configuration, the device and the domain, each of them present or not.\<close>

definition swbt_daemon_active_reconnect_request_active ::
  "device_env \<Rightarrow> (swbt_daemon_config_t option \<times> device option \<times> swbt_domain option) option
   \<Rightarrow> swbt_daemon_active_reconnect_active_result_t \<times> device option \<times> swbt_domain option" where
  "swbt_daemon_active_reconnect_request_active env reconnect = (case reconnect of
       None \<Rightarrow> (SWBT_DAEMON_ACTIVE_RECONNECT_ACTIVE_NONE, None, None)
     | Some (config, dev, app) \<Rightarrow>
         let (build_result, request) = swbt_daemon_active_reconnect_build_request config
               (Some \<lparr>cr_address = replicate 6 0, cr_control_psm = 0, cr_interrupt_psm = 0\<rparr>) in
         if build_result = SWBT_DAEMON_ACTIVE_RECONNECT_REQUEST_NONE
         then (SWBT_DAEMON_ACTIVE_RECONNECT_ACTIVE_NONE, dev, app)
         else if build_result \<noteq> SWBT_DAEMON_ACTIVE_RECONNECT_REQUEST_READY
         then (SWBT_DAEMON_ACTIVE_RECONNECT_ACTIVE_FAILED, dev, swbt_daemon_active_reconnect_report_failed app)
         else if dev = None then (SWBT_DAEMON_ACTIVE_RECONNECT_ACTIVE_FAILED, dev, swbt_daemon_active_reconnect_report_failed app)
         else let (result, dev, hid_cid) = swbt_btstack_device_connect env dev request (Some 0) in
           if result \<noteq> SWBT_BTSTACK_DEVICE_OK
           then (SWBT_DAEMON_ACTIVE_RECONNECT_ACTIVE_FAILED, dev, swbt_daemon_active_reconnect_report_failed app)
           else (SWBT_DAEMON_ACTIVE_RECONNECT_ACTIVE_REQUESTED, dev, app))"

text \<open>A learned address is printed and saved; the second component of the result is the path and the text, if it is.\<close>

definition swbt_daemon_active_reconnect_save_learned_address ::
  "production_env \<Rightarrow> swbt_daemon_config_t option \<Rightarrow> string option option \<Rightarrow> bytes option
   \<Rightarrow> swbt_daemon_config_t option \<times> (string \<times> string) option" where
  "swbt_daemon_active_reconnect_save_learned_address w config target address =
     (if config = None \<or> target = None \<or> the target = None \<or> at_cursor (the (the target)) = NUL \<or> address = None
      then (config, None)
      else let path = the (the target);
               text = c_str_of (the (swbt_daemon_switch_address_format_bytes address
                        (Some (replicate SWBT_DAEMON_SWITCH_ADDRESS_TEXT_SIZE NUL))))
           in (Some (pv_save_learned w (the config) path text), Some (path, text)))"

section \<open>Report timer bridge\<close>

text \<open>The pointers of the bridge are set by \<open>btstack_process_backend.c\<close>; what is left of its check are the functions of the port.\<close>

definition swbt_daemon_btstack_report_timer_bridge_is_valid :: "runner \<Rightarrow> bool" where
  "swbt_daemon_btstack_report_timer_bridge_is_valid b = (case bk_ports b of None \<Rightarrow> False | Some p \<Rightarrow>
     rp_init (po_report_timer p) \<and> rp_stop (po_report_timer p) \<and> rp_send_neutral_now (po_report_timer p)
     \<and> rp_enqueue_subcommand_reply (po_report_timer p))"

definition swbt_daemon_btstack_report_timer_bridge_send :: "production_env \<Rightarrow> runner \<Rightarrow> u16 \<Rightarrow> bytes \<Rightarrow> int \<times> runner" where
  "swbt_daemon_btstack_report_timer_bridge_send w b hid_cid message =
     (if \<not> swbt_daemon_btstack_report_timer_bridge_is_valid b then (- 1, b)
      else let (result, dev) = swbt_btstack_device_send (pv_device w) (Some (bk_device b)) hid_cid (Some message)
           in (if result = SWBT_BTSTACK_DEVICE_OK then 0 else - 1, b\<lparr>bk_device := the dev\<rparr>))"

fun swbt_daemon_production_report_send_result ::
  "swbt_btstack_input_report_timer_report_send_result_t \<Rightarrow> swbt_metrics_report_send_result_t" where
  "swbt_daemon_production_report_send_result SWBT_BTSTACK_INPUT_REPORT_TIMER_REPORT_SEND_OK = SWBT_METRICS_REPORT_SEND_OK"
| "swbt_daemon_production_report_send_result SWBT_BTSTACK_INPUT_REPORT_TIMER_REPORT_SEND_FAILED = SWBT_METRICS_REPORT_SEND_FAILED"

text \<open>The domain of the process of a runner, replaced.\<close>

definition set_app :: "swbt_domain option \<Rightarrow> runner \<Rightarrow> runner" where
  "set_app app b = b\<lparr>bk_host := map_option (\<lambda>p. p\<lparr>pr_runtime := (pr_runtime p)\<lparr>host_app := app\<rparr>\<rparr>) (bk_host b)\<rparr>"

definition swbt_daemon_production_record_report_tick ::
  "runner \<Rightarrow> u64 \<Rightarrow> swbt_btstack_input_report_timer_report_send_result_t \<Rightarrow> runner" where
  "swbt_daemon_production_record_report_tick b now_us send_result =
     (if \<not> swbt_daemon_btstack_report_timer_bridge_is_valid b \<or> bk_host b = None then b
      else let app = swbt_daemon_process_app (bk_host b) in
        if app = None then b
        else set_app (snd (swbt_domain_record_report_tick app now_us (swbt_daemon_production_report_send_result send_result))) b)"

definition swbt_daemon_btstack_report_timer_bridge_config :: "runner \<Rightarrow> swbt_btstack_input_report_timer_adapter_config_t" where
  "swbt_daemon_btstack_report_timer_bridge_config b = \<lparr>tc_backend = None, tc_hid_sender = True, tc_state_provider = True,
     tc_report_tick_observer = True,
     tc_scheduler_config = \<lparr>sc_report_period_us = cfg_report_period_us (bk_config b), sc_report_options = cfg_report_options (bk_config b)\<rparr>\<rparr>"

text \<open>What the adapter asks of its surroundings, replayed on the device and the domain.\<close>

fun adapter_event :: "production_env \<Rightarrow> timer_event \<Rightarrow> runner \<Rightarrow> runner" where
  "adapter_event w (HidSend hid_cid message code) b = snd (swbt_daemon_btstack_report_timer_bridge_send w b hid_cid message)"
| "adapter_event w (ReportTick now_us send_result) b = swbt_daemon_production_record_report_tick b now_us send_result"
| "adapter_event w _ b = b"

text \<open>What the surroundings answer it: the clock, the bridge, and the state of the controller.\<close>

definition production_timer_env :: "production_env \<Rightarrow> runner \<Rightarrow> timer_env" where
  "production_timer_env w b = \<lparr>env_time_ms = pv_time_ms w,
     env_hid_send = (\<lambda>hid_cid message. fst (swbt_daemon_btstack_report_timer_bridge_send w b hid_cid message)),
     env_backend_send = (\<lambda>hid_cid message. fst (swbt_btstack_production_device_send hid_cid (Some message))),
     env_state = swbt_runtime_host_read_state (map_option pr_runtime (bk_host b))\<rparr>"

definition set_timer :: "production_env \<Rightarrow> adapter \<Rightarrow> runner \<Rightarrow> runner" where
  "set_timer w a b = fold (adapter_event w) (drop (length (ta_trace (bk_report_timer b))) (ta_trace a)) (b\<lparr>bk_report_timer := a\<rparr>)"

definition swbt_daemon_btstack_report_timer_bridge_start :: "production_env \<Rightarrow> runner \<Rightarrow> int \<times> runner" where
  "swbt_daemon_btstack_report_timer_bridge_start w b =
     (if \<not> swbt_daemon_btstack_report_timer_bridge_is_valid b then (- 1, b)
      else let (code, a) = swbt_btstack_production_report_timer_init (Some (bk_report_timer b))
             (Some (swbt_daemon_btstack_report_timer_bridge_config b));
             b = b\<lparr>bk_report_timer := the a\<rparr>
        in if code \<noteq> 0 then (- 1, b) else (0, b\<lparr>bk_report_timer_initialized := True\<rparr>))"

definition swbt_daemon_btstack_report_timer_bridge_stop :: "production_env \<Rightarrow> runner \<Rightarrow> runner" where
  "swbt_daemon_btstack_report_timer_bridge_stop w b =
     (if \<not> swbt_daemon_btstack_report_timer_bridge_is_valid b \<or> \<not> bk_report_timer_initialized b then b
      else (set_timer w (the (swbt_btstack_production_report_timer_stop (Some (bk_report_timer b)))) b)\<lparr>bk_report_timer_initialized := False\<rparr>)"

definition swbt_daemon_btstack_report_timer_bridge_send_neutral_now :: "production_env \<Rightarrow> runner \<Rightarrow> int \<times> runner" where
  "swbt_daemon_btstack_report_timer_bridge_send_neutral_now w b =
     (if \<not> swbt_daemon_btstack_report_timer_bridge_is_valid b then (- 1, b)
      else if \<not> bk_report_timer_initialized b then (- 1, b)
      else if \<not> ta_running (bk_report_timer b) then (- 1, b)
      else let (result, a) = swbt_btstack_production_report_timer_send_neutral_now (production_timer_env w b) (Some (bk_report_timer b))
           in (result, set_timer w (the a) b))"

definition swbt_daemon_btstack_report_timer_bridge_enqueue_subcommand_reply ::
  "production_env \<Rightarrow> runner \<Rightarrow> u16 \<Rightarrow> bytes option \<Rightarrow> int \<times> runner" where
  "swbt_daemon_btstack_report_timer_bridge_enqueue_subcommand_reply w b hid_cid report =
     (if \<not> swbt_daemon_btstack_report_timer_bridge_is_valid b \<or> \<not> bk_report_timer_initialized b then (- 1, b)
      else let (result, a) = swbt_btstack_production_report_timer_enqueue_reply (Some (bk_report_timer b)) hid_cid report
           in (result, set_timer w (the a) b))"

section \<open>Timers, power and the end of a shutdown\<close>

definition SWBT_DAEMON_ACTIVE_RECONNECT_TIMEOUT_MS :: u32 where
  "SWBT_DAEMON_ACTIVE_RECONNECT_TIMEOUT_MS = 60000"

definition SWBT_DAEMON_SHUTDOWN_DISCONNECT_TIMEOUT_MS :: u32 where
  "SWBT_DAEMON_SHUTDOWN_DISCONNECT_TIMEOUT_MS = 250"

definition SWBT_DAEMON_PRODUCTION_HID_SERVICE_BUFFER_SIZE :: nat where
  "SWBT_DAEMON_PRODUCTION_HID_SERVICE_BUFFER_SIZE = 512"

definition swbt_daemon_production_runner_stop_active_report_timer :: "production_env \<Rightarrow> runner \<Rightarrow> runner" where
  "swbt_daemon_production_runner_stop_active_report_timer w b =
     (if ta_running (bk_report_timer b)
      then set_timer w (the (swbt_btstack_production_report_timer_stop (Some (bk_report_timer b)))) b else b)"

definition swbt_daemon_production_runner_cancel_shutdown_disconnect_timer :: "runner \<Rightarrow> runner" where
  "swbt_daemon_production_runner_cancel_shutdown_disconnect_timer b =
     (if bk_disconnect_timer_pending b then (bk_emit [TimerRemove DisconnectTimer] b)\<lparr>bk_disconnect_timer_pending := False\<rparr> else b)"

definition swbt_daemon_production_runner_cancel_active_reconnect_timeout_timer :: "runner \<Rightarrow> runner" where
  "swbt_daemon_production_runner_cancel_active_reconnect_timeout_timer b =
     (if bk_reconnect_timer_pending b then (bk_emit [TimerRemove ReconnectTimer] b)\<lparr>bk_reconnect_timer_pending := False\<rparr> else b)"

definition swbt_daemon_production_runner_note_hid_open_completed :: "runner \<Rightarrow> runner" where
  "swbt_daemon_production_runner_note_hid_open_completed b = swbt_daemon_production_runner_cancel_active_reconnect_timeout_timer b"

definition swbt_daemon_production_runner_active_reconnect_timeout :: "runner option \<Rightarrow> runner option" where
  "swbt_daemon_production_runner_active_reconnect_timeout runner = (case runner of
       None \<Rightarrow> None
     | Some b \<Rightarrow>
         if \<not> bk_initialized b then Some b
         else let b = b\<lparr>bk_reconnect_timer_pending := False\<rparr> in
           if ta_running (bk_report_timer b) then Some b
           else Some (set_app (swbt_daemon_active_reconnect_report_failed
             (if bk_host b = None then None else swbt_daemon_process_app (bk_host b))) b))"

definition swbt_daemon_production_runner_arm_active_reconnect_timeout_timer :: "runner \<Rightarrow> runner" where
  "swbt_daemon_production_runner_arm_active_reconnect_timeout_timer b =
     (if bk_reconnect_timer_pending b then b
      else (bk_emit [TimerSetHandler ReconnectTimer, TimerSetContext ReconnectTimer,
              TimerSet ReconnectTimer SWBT_DAEMON_ACTIVE_RECONNECT_TIMEOUT_MS, TimerAdd ReconnectTimer] b)
           \<lparr>bk_reconnect_timer_pending := True\<rparr>)"

definition swbt_daemon_production_runner_arm_shutdown_disconnect_timer :: "runner \<Rightarrow> runner" where
  "swbt_daemon_production_runner_arm_shutdown_disconnect_timer b =
     (if bk_disconnect_timer_pending b then b
      else (bk_emit [TimerSetHandler DisconnectTimer, TimerSetContext DisconnectTimer,
              TimerSet DisconnectTimer SWBT_DAEMON_SHUTDOWN_DISCONNECT_TIMEOUT_MS, TimerAdd DisconnectTimer] b)
           \<lparr>bk_disconnect_timer_pending := True\<rparr>)"

datatype swbt_daemon_production_result_t =
    SWBT_DAEMON_PRODUCTION_OK
  | SWBT_DAEMON_PRODUCTION_ERROR_INVALID_ARGUMENT
  | SWBT_DAEMON_PRODUCTION_ERROR_RUNTIME
  | SWBT_DAEMON_PRODUCTION_ERROR_HARDWARE_APPROVAL_REQUIRED
  | SWBT_DAEMON_PRODUCTION_ERROR_HARDWARE
  | SWBT_DAEMON_PRODUCTION_ERROR_ADAPTER_LOCATION_REQUIRED

definition swbt_daemon_production_power_on :: "production_env \<Rightarrow> runner \<Rightarrow> swbt_daemon_production_result_t \<times> runner" where
  "swbt_daemon_production_power_on w b =
     (let b = bk_emit [PowerOn (pv_power_on w)] b in
      if pv_power_on w \<noteq> 0 then (SWBT_DAEMON_PRODUCTION_ERROR_HARDWARE, b)
      else (SWBT_DAEMON_PRODUCTION_OK, b\<lparr>bk_hardware_powered := True\<rparr>))"

definition swbt_daemon_production_power_off :: "runner \<Rightarrow> runner" where
  "swbt_daemon_production_power_off b =
     (let b = swbt_daemon_production_runner_cancel_active_reconnect_timeout_timer b in
      if bk_hardware_powered b then bk_emit [PowerOff] (b\<lparr>bk_hardware_powered := False\<rparr>) else b)"

definition set_disconnect_pending :: "bool \<Rightarrow> runner \<Rightarrow> runner" where
  "set_disconnect_pending v b = b\<lparr>bk_shutdown := (bk_shutdown b)\<lparr>sd_disconnect_pending := v\<rparr>\<rparr>"

definition set_neutral_pending :: "bool \<Rightarrow> runner \<Rightarrow> runner" where
  "set_neutral_pending v b = b\<lparr>bk_shutdown := (bk_shutdown b)\<lparr>sd_neutral_pending := v\<rparr>\<rparr>"

text \<open>Everything after the disconnect: the tail of the function.\<close>

definition end_shutdown :: "runner \<Rightarrow> runner" where
  "end_shutdown b = bk_emit [TriggerExit]
     (swbt_daemon_production_power_off (swbt_daemon_production_runner_cancel_shutdown_disconnect_timer b))"

definition swbt_daemon_production_runner_finish_shutdown :: "production_env \<Rightarrow> runner option \<Rightarrow> runner option" where
  "swbt_daemon_production_runner_finish_shutdown w runner = (case runner of
       None \<Rightarrow> None
     | Some b \<Rightarrow>
         if \<not> bk_initialized b then Some b
         else if ta_running (bk_report_timer b) then
           if \<not> sd_disconnect_pending (bk_shutdown b) then
             let b = set_disconnect_pending True b;
                 (disconnect_result, dev) = swbt_btstack_device_disconnect (pv_device w) (Some (bk_device b)) (ta_hid_cid (bk_report_timer b));
                 b = b\<lparr>bk_device := the dev\<rparr> in
             if disconnect_result = SWBT_BTSTACK_DEVICE_OK
             then Some (swbt_daemon_production_runner_arm_shutdown_disconnect_timer b)
             else Some (end_shutdown (swbt_daemon_production_runner_stop_active_report_timer w (set_disconnect_pending False b)))
           else Some b
         else Some (end_shutdown b))"

definition swbt_daemon_production_runner_shutdown_disconnect_timeout :: "production_env \<Rightarrow> runner option \<Rightarrow> runner option" where
  "swbt_daemon_production_runner_shutdown_disconnect_timeout w runner = (case runner of
       None \<Rightarrow> None
     | Some b \<Rightarrow>
         if \<not> bk_initialized b then Some b
         else let b = b\<lparr>bk_disconnect_timer_pending := False\<rparr> in
           if \<not> sd_disconnect_pending (bk_shutdown b) then Some b
           else swbt_daemon_production_runner_finish_shutdown w
             (Some (swbt_daemon_production_runner_stop_active_report_timer w (set_disconnect_pending False b))))"

section \<open>Shutdown sequence\<close>

definition swbt_daemon_shutdown_sequence_is_ready :: "swbt_daemon_shutdown_sequence_t \<Rightarrow> bool" where
  "swbt_daemon_shutdown_sequence_is_ready sd = ((case sd_run_loop sd of None \<Rightarrow> False | Some l \<Rightarrow> lp_execute_on_main_thread l) \<and> sd_finish sd)"

definition swbt_daemon_shutdown_sequence_listener_is_valid :: "swbt_daemon_shutdown_listener_t option \<Rightarrow> bool" where
  "swbt_daemon_shutdown_sequence_listener_is_valid l = (case l of None \<Rightarrow> True | Some s \<Rightarrow> sl_install s \<and> sl_uninstall s)"

text \<open>The configuration of the sequence: run loop, host and finish function.\<close>

definition swbt_daemon_shutdown_sequence_init ::
  "swbt_daemon_shutdown_sequence_t \<Rightarrow> swbt_btstack_production_run_loop_port_t option \<Rightarrow> bool \<Rightarrow> bool
   \<Rightarrow> bool \<times> swbt_daemon_shutdown_sequence_t" where
  "swbt_daemon_shutdown_sequence_init sd run_loop host finish =
     (if run_loop = None \<or> \<not> lp_execute_on_main_thread (the run_loop) \<or> \<not> finish then (False, sd)
      else (True, \<lparr>sd_run_loop = run_loop, sd_host = host, sd_finish = finish, sd_neutral_pending = False,
              sd_disconnect_pending = False, sd_callback = False, sd_requested = False\<rparr>))"

definition swbt_daemon_shutdown_sequence_prepare :: "swbt_daemon_shutdown_sequence_t \<Rightarrow> swbt_daemon_shutdown_sequence_t" where
  "swbt_daemon_shutdown_sequence_prepare sd = sd\<lparr>sd_requested := False, sd_neutral_pending := False, sd_disconnect_pending := False,
     sd_callback := False\<rparr>"

definition swbt_daemon_shutdown_sequence_finish :: "production_env \<Rightarrow> runner \<Rightarrow> runner" where
  "swbt_daemon_shutdown_sequence_finish w b =
     (if \<not> swbt_daemon_shutdown_sequence_is_ready (bk_shutdown b) then b
      else the (swbt_daemon_production_runner_finish_shutdown w (Some b)))"

definition swbt_daemon_shutdown_sequence_request :: "runner \<Rightarrow> runner" where
  "swbt_daemon_shutdown_sequence_request b =
     (if \<not> swbt_daemon_shutdown_sequence_is_ready (bk_shutdown b) then b
      else if sd_requested (bk_shutdown b) then b
      else (bk_emit [ExecuteOnMainThread] b)
        \<lparr>bk_shutdown := (bk_shutdown b)\<lparr>sd_requested := True, sd_callback := True\<rparr>, bk_main_thread := True\<rparr>)"

definition swbt_daemon_shutdown_sequence_install_listener ::
  "production_env \<Rightarrow> runner \<Rightarrow> swbt_daemon_shutdown_listener_t option \<Rightarrow> int \<times> runner" where
  "swbt_daemon_shutdown_sequence_install_listener w b l =
     (if \<not> swbt_daemon_shutdown_sequence_is_ready (bk_shutdown b) \<or> \<not> swbt_daemon_shutdown_sequence_listener_is_valid l then (- 1, b)
      else if l = None then (0, b)
      else (pv_listener_install w, bk_emit [InstallListener (pv_listener_install w)] b))"

definition swbt_daemon_shutdown_sequence_uninstall_listener :: "runner \<Rightarrow> swbt_daemon_shutdown_listener_t option \<Rightarrow> runner" where
  "swbt_daemon_shutdown_sequence_uninstall_listener b l =
     (if swbt_daemon_shutdown_sequence_listener_is_valid l \<and> l \<noteq> None then bk_emit [UninstallListener] b else b)"

section \<open>HID session\<close>

definition swbt_daemon_btstack_hid_session_register_is_valid :: "runner \<Rightarrow> bool" where
  "swbt_daemon_btstack_hid_session_register_is_valid b \<longleftrightarrow> bk_ports b \<noteq> None \<and> length (bk_hid_service_buffer b) > 0"

definition swbt_daemon_btstack_hid_session_report_timer_is_ready :: "runner \<Rightarrow> bool" where
  "swbt_daemon_btstack_hid_session_report_timer_is_ready b = (case bk_ports b of None \<Rightarrow> False | Some p \<Rightarrow>
     rp_start (po_report_timer p) \<and> rp_on_can_send_now (po_report_timer p) \<and> rp_stop (po_report_timer p)
     \<and> kp_time_ms (po_clock p) \<and> bk_report_timer_initialized b)"

definition swbt_daemon_btstack_hid_session_maybe_save_learned_address :: "production_env \<Rightarrow> runner \<Rightarrow> bytes \<Rightarrow> runner" where
  "swbt_daemon_btstack_hid_session_maybe_save_learned_address w b address =
     (if \<not> bk_learned_configured b then b
      else let (config, saved) = swbt_daemon_active_reconnect_save_learned_address w (Some (bk_config b))
             (Some (bk_learned_target b)) (Some address)
        in bk_emit (case saved of None \<Rightarrow> [] | Some (path, text) \<Rightarrow> [SaveLearnedAddress path text]) (b\<lparr>bk_config := the config\<rparr>))"

definition swbt_daemon_btstack_hid_session_handle_user_confirmation :: "runner \<Rightarrow> bytes \<Rightarrow> runner" where
  "swbt_daemon_btstack_hid_session_handle_user_confirmation b address =
     (if bk_ports b = None \<or> \<not> cp_confirm_ssp_user_confirmation (po_controller (the (bk_ports b))) then b
      else bk_emit [ConfirmSsp address] b)"

definition swbt_daemon_btstack_hid_session_handle_connection_opened ::
  "production_env \<Rightarrow> runner \<Rightarrow> swbt_btstack_hid_event_t \<Rightarrow> runner" where
  "swbt_daemon_btstack_hid_session_handle_connection_opened w b event =
     (let b = swbt_daemon_production_runner_note_hid_open_completed b in
      if ev_status event \<noteq> 0 then b
      else if \<not> swbt_daemon_btstack_hid_session_report_timer_is_ready b then b
      else
        let b = swbt_daemon_btstack_hid_session_maybe_save_learned_address w b (ev_address event);
            (_, a) = swbt_btstack_production_report_timer_start (Some (bk_report_timer b))
              \<lparr>start_hid_cid = ev_hid_cid event, start_now_us = ucast (pv_time_ms w) * 1000\<rparr>
        in set_timer w (the a) b)"

definition swbt_daemon_btstack_hid_session_handle_can_send_now :: "production_env \<Rightarrow> runner \<Rightarrow> runner" where
  "swbt_daemon_btstack_hid_session_handle_can_send_now w b =
     (if \<not> swbt_daemon_btstack_hid_session_report_timer_is_ready b then b
      else
        let (can_send_result, a) = swbt_btstack_production_report_timer_on_can_send_now (production_timer_env w b) (Some (bk_report_timer b));
            b = set_timer w (the a) b in
        if sd_neutral_pending (bk_shutdown b) \<and> can_send_result = 0
        then swbt_daemon_shutdown_sequence_finish w (set_neutral_pending False b)
        else if sd_neutral_pending (bk_shutdown b) \<and> can_send_result \<noteq> 0
        then swbt_daemon_shutdown_sequence_finish w (set_neutral_pending False b)
        else b)"

definition swbt_daemon_btstack_hid_session_handle_connection_closed :: "production_env \<Rightarrow> runner \<Rightarrow> runner" where
  "swbt_daemon_btstack_hid_session_handle_connection_closed w b =
     (if \<not> swbt_daemon_btstack_hid_session_report_timer_is_ready b then b
      else
        let b = set_timer w (the (swbt_btstack_production_report_timer_stop (Some (bk_report_timer b)))) b in
        if sd_neutral_pending (bk_shutdown b)
        then swbt_daemon_shutdown_sequence_finish w (set_neutral_pending False b)
        else if sd_disconnect_pending (bk_shutdown b)
        then swbt_daemon_shutdown_sequence_finish w (set_disconnect_pending False b)
        else b)"

definition swbt_daemon_btstack_hid_session_packet_handler ::
  "btstack_numbers \<Rightarrow> production_env \<Rightarrow> u8 \<Rightarrow> bytes option \<Rightarrow> runner \<Rightarrow> runner" where
  "swbt_daemon_btstack_hid_session_packet_handler B w packet_type packet b =
     (if \<not> bk_session b then b
      else let (result, event) = swbt_btstack_device_recv B (Some (bk_device b)) packet_type packet (Some zero_event) in
        if result \<noteq> SWBT_BTSTACK_DEVICE_OK then b
        else (case ev_type (the event) of
            SWBT_BTSTACK_HID_EVENT_USER_CONFIRMATION_REQUEST \<Rightarrow>
              swbt_daemon_btstack_hid_session_handle_user_confirmation b (ev_address (the event))
          | SWBT_BTSTACK_HID_EVENT_CONNECTION_OPENED \<Rightarrow>
              swbt_daemon_btstack_hid_session_handle_connection_opened w b (the event)
          | SWBT_BTSTACK_HID_EVENT_CAN_SEND_NOW \<Rightarrow> swbt_daemon_btstack_hid_session_handle_can_send_now w b
          | SWBT_BTSTACK_HID_EVENT_CONNECTION_CLOSED \<Rightarrow> swbt_daemon_btstack_hid_session_handle_connection_closed w b
          | SWBT_BTSTACK_HID_EVENT_NONE \<Rightarrow> b))"

definition swbt_daemon_btstack_hid_session_register :: "production_env \<Rightarrow> runner \<Rightarrow> int \<times> runner" where
  "swbt_daemon_btstack_hid_session_register w b =
     (if \<not> swbt_daemon_btstack_hid_session_register_is_valid b then (- 1, b)
      else
        let config = swbt_btstack_production_hid_registration_config\<lparr>reg_packet_handler := True\<rparr>;
            b = b\<lparr>bk_session := True\<rparr>;
            (init_result, dev) = swbt_btstack_device_init (Some (bk_device b)) (Some (po_device (the (bk_ports b))));
            b = b\<lparr>bk_device := the dev\<rparr> in
        if init_result \<noteq> SWBT_BTSTACK_DEVICE_OK then (- 1, b\<lparr>bk_session := False\<rparr>)
        else
          let (result, dev) = swbt_btstack_device_open (pv_device w) (Some (bk_device b))
                \<lparr>do_service_buffer = Some (bk_hid_service_buffer b), do_registration = Some config\<rparr>;
              b = b\<lparr>bk_device := the dev\<rparr> in
          if result \<noteq> SWBT_BTSTACK_DEVICE_OK then (- 1, b\<lparr>bk_session := False\<rparr>) else (0, b))"

definition swbt_daemon_btstack_hid_session_stop :: "runner \<Rightarrow> runner" where
  "swbt_daemon_btstack_hid_session_stop b =
     b\<lparr>bk_session := False, bk_device := the (swbt_btstack_device_close (Some (bk_device b)))\<rparr>"

section \<open>The backend of the process\<close>

text \<open>The IPC service on the context of the process; \<open>initialized\<close> and \<open>port\<close> are fields of the runner.\<close>

definition swbt_daemon_production_ipc_start ::
  "ipc_env \<Rightarrow> bool \<Rightarrow> platform swbt_btstack_production_ipc_pump_port_t \<Rightarrow> (platform \<times> swbt_daemon_ipc_runner_t) ipc_start_fun" where
  "swbt_daemon_production_ipc_start env initialized port = (\<lambda>(x, r) cs.
     if \<not> initialized then (- 1, (x, r), cs)
     else let (code, x, runner, cs) = swbt_daemon_btstack_ipc_pump_adapter_start env (Some port) x (Some r) cs
          in (code, (x, the runner), cs))"

definition swbt_daemon_production_ipc_stop ::
  "bool \<Rightarrow> platform swbt_btstack_production_ipc_pump_port_t \<Rightarrow> (platform \<times> swbt_daemon_ipc_runner_t) ipc_stop_fun" where
  "swbt_daemon_production_ipc_stop initialized port = (\<lambda>(x, r) cs.
     if \<not> initialized then ((x, r), cs)
     else let (x, runner, cs) = swbt_daemon_btstack_ipc_pump_adapter_stop (Some port) x (Some r) cs
          in ((x, the runner), cs))"

definition swbt_daemon_production_hid_register :: "production_env \<Rightarrow> runner option \<Rightarrow> int \<times> runner option" where
  "swbt_daemon_production_hid_register w runner = (case runner of
       None \<Rightarrow> (- 1, None)
     | Some b \<Rightarrow> if \<not> bk_initialized b then (- 1, Some b)
         else map_prod id Some (swbt_daemon_btstack_hid_session_register w b))"

definition swbt_daemon_production_hid_stop :: "runner option \<Rightarrow> runner option" where
  "swbt_daemon_production_hid_stop runner = (case runner of
       None \<Rightarrow> None
     | Some b \<Rightarrow> if \<not> bk_initialized b then Some b else Some (swbt_daemon_btstack_hid_session_stop b))"

definition swbt_daemon_production_output_handler_start ::
  "swbt_btstack_output_report_handler_t \<Rightarrow> runner option \<Rightarrow> runner option" where
  "swbt_daemon_production_output_handler_start handler runner = (case runner of
       None \<Rightarrow> None
     | Some b \<Rightarrow> if \<not> bk_initialized b then Some b
         else Some (b\<lparr>bk_callbacks := snd (swbt_btstack_output_report_callbacks_register (bk_callbacks b) (Some handler))\<rparr>))"

definition swbt_daemon_production_output_handler_stop :: "runner option \<Rightarrow> runner option" where
  "swbt_daemon_production_output_handler_stop runner = (case runner of
       None \<Rightarrow> None
     | Some b \<Rightarrow> if \<not> bk_initialized b then Some b
         else Some (b\<lparr>bk_callbacks := swbt_btstack_output_report_callbacks_unregister (bk_callbacks b)\<rparr>))"

definition swbt_daemon_production_process_report_timer_start :: "production_env \<Rightarrow> runner option \<Rightarrow> int \<times> runner option" where
  "swbt_daemon_production_process_report_timer_start w runner = (case runner of
       None \<Rightarrow> (- 1, None)
     | Some b \<Rightarrow> if \<not> bk_initialized b then (- 1, Some b)
         else map_prod id Some (swbt_daemon_btstack_report_timer_bridge_start w b))"

definition swbt_daemon_production_process_report_timer_stop :: "production_env \<Rightarrow> runner option \<Rightarrow> runner option" where
  "swbt_daemon_production_process_report_timer_stop w runner = (case runner of
       None \<Rightarrow> None
     | Some b \<Rightarrow> if \<not> bk_initialized b \<or> \<not> bk_report_timer_initialized b then Some b
         else Some (swbt_daemon_btstack_report_timer_bridge_stop w b))"

definition swbt_daemon_production_process_report_timer_send_neutral_now :: "production_env \<Rightarrow> runner option \<Rightarrow> int \<times> runner option" where
  "swbt_daemon_production_process_report_timer_send_neutral_now w runner = (case runner of
       None \<Rightarrow> (- 1, None)
     | Some b \<Rightarrow> if \<not> bk_initialized b then (- 1, Some b)
         else map_prod id Some (swbt_daemon_btstack_report_timer_bridge_send_neutral_now w b))"

definition swbt_daemon_production_process_subcommand_reply_enqueue ::
  "production_env \<Rightarrow> runner option \<Rightarrow> u16 \<Rightarrow> bytes option \<Rightarrow> int \<times> runner option" where
  "swbt_daemon_production_process_subcommand_reply_enqueue w runner hid_cid report = (case runner of
       None \<Rightarrow> (- 1, None)
     | Some b \<Rightarrow> if \<not> bk_report_timer_initialized b then (- 1, Some b)
         else map_prod id Some (swbt_daemon_btstack_report_timer_bridge_enqueue_subcommand_reply w b hid_cid report))"

definition swbt_daemon_production_read_device_info :: "production_env \<Rightarrow> runner option \<Rightarrow> int \<times> swbt_switch_device_info_t" where
  "swbt_daemon_production_read_device_info w runner = (case runner of
       None \<Rightarrow> (- 1, swbt_switch_device_info_default)
     | Some b \<Rightarrow> (fst (pv_controller_address w),
         (cfg_device_info (bk_config b))\<lparr>bluetooth_address := snd (pv_controller_address w)\<rparr>))"

definition swbt_daemon_production_host_time_ms :: "production_env \<Rightarrow> runner option \<Rightarrow> u32" where
  "swbt_daemon_production_host_time_ms w runner = (case runner of None \<Rightarrow> 0 | Some b \<Rightarrow> pv_time_ms w)"

definition swbt_daemon_btstack_runtime_backend :: swbt_runtime_host_backend_t where
  "swbt_daemon_btstack_runtime_backend = \<lparr>hb_hid_register = True, hb_hid_stop = True, hb_output_handler_start = True,
     hb_output_handler_stop = True, hb_report_timer_start = True, hb_report_timer_stop = True,
     hb_report_timer_send_neutral_now = True, hb_subcommand_reply_enqueue = True, hb_read_device_info = True, hb_time_ms = True\<rparr>"

definition swbt_daemon_btstack_process_backend ::
  "ipc_env \<Rightarrow> bool \<Rightarrow> platform swbt_btstack_production_ipc_pump_port_t
   \<Rightarrow> (platform \<times> swbt_daemon_ipc_runner_t) swbt_daemon_process_backend" where
  "swbt_daemon_btstack_process_backend env initialized port = \<lparr>pb_daemon_backend = SWBT_DOMAIN_DAEMON_BACKEND_PRODUCTION,
     pb_ipc_start = Some (swbt_daemon_production_ipc_start env initialized port),
     pb_ipc_stop = Some (swbt_daemon_production_ipc_stop initialized port),
     pb_runtime_backend = Some swbt_daemon_btstack_runtime_backend\<rparr>"

text \<open>
  The composition. The runtime host gets as answers what the functions above return on the runner, and the
  calls it makes are replayed on the runner.
\<close>

fun backend_event :: "production_env \<Rightarrow> swbt_btstack_output_report_handler_t \<Rightarrow> host_event \<Rightarrow> runner \<Rightarrow> runner" where
  "backend_event w handler (HidRegister _) b = the (snd (swbt_daemon_production_hid_register w (Some b)))"
| "backend_event w handler HidStop b = the (swbt_daemon_production_hid_stop (Some b))"
| "backend_event w handler OutputHandlerStart b = the (swbt_daemon_production_output_handler_start handler (Some b))"
| "backend_event w handler OutputHandlerStop b = the (swbt_daemon_production_output_handler_stop (Some b))"
| "backend_event w handler (ReportTimerStart _) b = the (snd (swbt_daemon_production_process_report_timer_start w (Some b)))"
| "backend_event w handler ReportTimerStop b = the (swbt_daemon_production_process_report_timer_stop w (Some b))"
| "backend_event w handler (ReportTimerSendNeutralNow _) b =
     the (snd (swbt_daemon_production_process_report_timer_send_neutral_now w (Some b)))"
| "backend_event w handler (SubcommandReplyEnqueue hid_cid report _) b =
     the (snd (swbt_daemon_production_process_subcommand_reply_enqueue w (Some b) hid_cid (Some report)))"

definition production_host_env :: "production_env \<Rightarrow> swbt_btstack_output_report_handler_t \<Rightarrow> runner \<Rightarrow> host_env" where
  "production_host_env w handler b =
     (let (hid_code, b1) = swbt_daemon_production_hid_register w (Some b);
          b2 = swbt_daemon_production_output_handler_start handler b1
      in \<lparr>he_hid_register = hid_code,
          he_report_timer_start = fst (swbt_daemon_production_process_report_timer_start w b2),
          he_send_neutral_now = fst (swbt_daemon_production_process_report_timer_send_neutral_now w (Some b)),
          he_subcommand_reply_enqueue = (\<lambda>hid_cid report.
            fst (swbt_daemon_production_process_subcommand_reply_enqueue w (Some b) hid_cid (Some report))),
          he_read_device_info = swbt_daemon_production_read_device_info w (Some b),
          he_time_ms = swbt_daemon_production_host_time_ms w (Some b), he_response_memory = pv_response_memory w\<rparr>)"

definition run_process ::
  "production_env \<Rightarrow> (host_env \<Rightarrow> process option \<Rightarrow> 'r \<times> process option) \<Rightarrow> process \<Rightarrow> runner \<Rightarrow> 'r \<times> process \<times> runner" where
  "run_process w f p b =
     (let handler = host_output_handler (pr_runtime p);
          (result, p') = f (production_host_env w handler b) (Some p);
          calls = drop (length (host_trace (pr_runtime p))) (host_trace (pr_runtime (the p')))
      in (result, the p', fold (backend_event w handler) calls b))"

definition swbt_daemon_shutdown_sequence_on_main_thread :: "production_env \<Rightarrow> runner \<Rightarrow> runner" where
  "swbt_daemon_shutdown_sequence_on_main_thread w b =
     (if \<not> swbt_daemon_shutdown_sequence_is_ready (bk_shutdown b) then b
      else if sd_host (bk_shutdown b) \<and> bk_host b \<noteq> None then
        let (neutral_result, p, b) = run_process w swbt_daemon_process_send_neutral_now (the (bk_host b)) b;
            b = b\<lparr>bk_host := Some p\<rparr> in
        if neutral_result = SWBT_DAEMON_PROCESS_OK then swbt_daemon_shutdown_sequence_finish w b
        else if neutral_result = SWBT_DAEMON_PROCESS_PENDING then set_neutral_pending True b
        else swbt_daemon_shutdown_sequence_finish w b
      else swbt_daemon_shutdown_sequence_finish w b)"

section \<open>The run loop\<close>

text \<open>
  What happens while the run loop executes: a request to shut down from any thread, its callback on the main
  thread, events of BTstack, the three timers, output reports, polls of the IPC service and operations on the domain by
  other threads. An event that cannot happen in a state leaves it alone.
\<close>

datatype loop_event =
    LShutdownRequest
  | LMainThread production_env
  | LHidPacket btstack_numbers production_env u8 "bytes option"
  | LReportTimer production_env
  | LDisconnectTimer production_env
  | LReconnectTimer
  | LOutputReport production_env swbt_btstack_output_report_handle_options_t
  | LPoll ipc_env u32
  | LDomain domain_op

definition on_host :: "(process \<Rightarrow> process) \<Rightarrow> runner \<Rightarrow> runner" where
  "on_host f b = b\<lparr>bk_host := map_option f (bk_host b)\<rparr>"

definition poll_process :: "ipc_env \<Rightarrow> u32 \<Rightarrow> process \<Rightarrow> process" where
  "poll_process env now_ms p =
     (case swbt_daemon_production_ipc_runner_poll_once_at env (Some (snd (pr_context p))) (runtime_control (pr_runtime p)) now_ms of
        Some (_, Some r, cs, _) \<Rightarrow> p\<lparr>pr_context := (fst (pr_context p), r), pr_runtime := store_runtime_control cs (pr_runtime p)\<rparr>
      | _ \<Rightarrow> p)"

definition receive_process ::
  "swbt_btstack_output_report_handle_options_t \<Rightarrow> host_env \<Rightarrow> process option \<Rightarrow> unit \<times> process option" where
  "receive_process options env host =
     ((), map_option (\<lambda>p. set_runtime (snd (host_receive env (pr_runtime p) options)) p) host)"

fun loop_exec :: "loop_event \<Rightarrow> runner \<Rightarrow> runner" where
  "loop_exec LShutdownRequest b = swbt_daemon_shutdown_sequence_request b"
| "loop_exec (LMainThread w) b =
     (if bk_main_thread b then swbt_daemon_shutdown_sequence_on_main_thread w (b\<lparr>bk_main_thread := False\<rparr>) else b)"
| "loop_exec (LHidPacket B w packet_type packet) b = swbt_daemon_btstack_hid_session_packet_handler B w packet_type packet b"
| "loop_exec (LReportTimer w) b =
     (if ta_timer_pending (bk_report_timer b)
      then set_timer w (the (snd (swbt_btstack_input_report_timer_adapter_on_timer (production_timer_env w b) (Some (bk_report_timer b))))) b
      else b)"
| "loop_exec (LDisconnectTimer w) b =
     (if bk_disconnect_timer_pending b then the (swbt_daemon_production_runner_shutdown_disconnect_timeout w (Some b)) else b)"
| "loop_exec LReconnectTimer b =
     (if bk_reconnect_timer_pending b then the (swbt_daemon_production_runner_active_reconnect_timeout (Some b)) else b)"
| "loop_exec (LOutputReport w options) b = (case bk_host b of
       None \<Rightarrow> b
     | Some p \<Rightarrow>
         if g_output_report_handler (bk_callbacks b) = None then b
         else let (_, p, b) = run_process w (receive_process options) p b in b\<lparr>bk_host := Some p\<rparr>)"
| "loop_exec (LPoll env now_ms) b = on_host (poll_process env now_ms) b"
| "loop_exec (LDomain op) b =
     on_host (\<lambda>p. p\<lparr>pr_runtime := (pr_runtime p)\<lparr>host_app := snd (domain_exec op (host_app (pr_runtime p)))\<rparr>\<rparr>) b"

definition loop_run :: "loop_event list \<Rightarrow> runner \<Rightarrow> runner" where
  "loop_run es b = fold loop_exec es b"

section \<open>The runner\<close>

definition zero_output_callbacks :: output_callbacks where
  "zero_output_callbacks = \<lparr>g_output_report_handler = None, data_callback_registered = False, set_report_callback_registered = False\<rparr>"

definition zero_shutdown :: swbt_daemon_shutdown_sequence_t where
  "zero_shutdown = \<lparr>sd_run_loop = None, sd_host = False, sd_finish = False, sd_neutral_pending = False, sd_disconnect_pending = False,
     sd_callback = False, sd_requested = False\<rparr>"

definition zero_adapter :: adapter where
  "zero_adapter = \<lparr>ta_hid_sender = False, ta_report_tick_observer = False, ta_scheduler = zero_scheduler, ta_reply_queue = zero_queue,
     ta_hid_cid = 0, ta_initialized = False, ta_running = False, ta_timer_pending = False, ta_can_send_pending = False,
     ta_neutral_send_pending = False, ta_periodic_holdoff_until_us = 0, ta_trace = []\<rparr>"

definition zero_ipc_runner :: swbt_daemon_ipc_runner_t where
  "zero_ipc_runner = \<lparr>rn_server = \<lparr>srv_listen_socket = \<lparr>sock_handle = 0, sock_open = False\<rparr>,
     srv_default_app = None, srv_default_control = \<lparr>next_direct_sequence = 0\<rparr>, srv_control = NoControl, srv_next_client_id = 0,
     srv_bound_port = 0, srv_listening = False\<rparr>, rn_connection = zero_connection,
     rn_config = \<lparr>rcfg_host = None, rcfg_port = 0, rcfg_backlog = 0, rcfg_heartbeat_timeout_ms = 0\<rparr>,
     rn_endpoint = \<lparr>ep_host = [], ep_port = 0, ep_bound = False\<rparr>, rn_initialized = False, rn_running = False,
     rn_has_connection = False\<rparr>"

text \<open>
  \<open>ipc_mem\<close> is the memory for the domain that the IPC server allocates, None when there is none; the platform is the
  one of the process.
\<close>

definition swbt_daemon_production_runner_init ::
  "swbt_domain option \<Rightarrow> runner option \<Rightarrow> swbt_daemon_config_t option \<Rightarrow> swbt_btstack_production_ports_t option
   \<Rightarrow> swbt_daemon_production_result_t \<times> runner option" where
  "swbt_daemon_production_runner_init ipc_mem runner config ports =
     (if runner = None \<or> config = None \<or> cfg_report_period_us (the config) = 0
        \<or> \<not> swbt_btstack_production_ports_has_ipc_pump ports
      then (SWBT_DAEMON_PRODUCTION_ERROR_INVALID_ARGUMENT, runner)
      else
        let old = the runner;
            b = \<lparr>bk_config = the config, bk_learned_target = None, bk_ipc = (fst (bk_ipc old), zero_ipc_runner),
                 bk_device = \<lparr>dev_initialized = False, dev_platform_started = False, dev_hid_registered = False, dev_trace = dev_trace (bk_device old)\<rparr>,
                 bk_report_timer = zero_adapter, bk_shutdown = zero_shutdown, bk_ports = ports, bk_host = None,
                 bk_hid_service_buffer = replicate SWBT_DAEMON_PRODUCTION_HID_SERVICE_BUFFER_SIZE 0,
                 bk_initialized = False, bk_report_timer_initialized = False, bk_learned_configured = False,
                 bk_adapter_location_configured = False, bk_reconnect_timer_pending = False, bk_disconnect_timer_pending = False,
                 bk_hardware_powered = False, bk_session = bk_session old, bk_callbacks = bk_callbacks old, bk_main_thread = False,
                 bk_trace = bk_trace old\<rparr>;
            r = (snd (bk_ipc b))\<lparr>rn_config := swbt_daemon_ipc_runner_config_from_daemon_config config\<rparr>;
            (result, r) = swbt_daemon_ipc_runner_init (Some r) ipc_mem;
            b = b\<lparr>bk_ipc := (fst (bk_ipc b), the r)\<rparr> in
        if result \<noteq> SWBT_DAEMON_IPC_RUNNER_OK then (SWBT_DAEMON_PRODUCTION_ERROR_RUNTIME, Some b)
        else (SWBT_DAEMON_PRODUCTION_OK, Some (b
          \<lparr>bk_ipc := (fst (bk_ipc b), (snd (bk_ipc b))\<lparr>rn_config := swbt_daemon_ipc_runner_config_from_daemon_config config\<rparr>),
           bk_initialized := True\<rparr>)))"

definition swbt_daemon_production_runner_set_learned_switch_address_target :: "runner option \<Rightarrow> string option option \<Rightarrow> bool \<times> runner option" where
  "swbt_daemon_production_runner_set_learned_switch_address_target runner target =
     (if runner = None \<or> target = None \<or> the target = None \<or> at_cursor (the (the target)) = NUL then (False, runner)
      else (True, Some ((the runner)\<lparr>bk_learned_target := the target, bk_learned_configured := True\<rparr>)))"

definition swbt_daemon_production_runner_set_adapter_location_configured :: "runner option \<Rightarrow> bool \<times> runner option" where
  "swbt_daemon_production_runner_set_adapter_location_configured runner =
     (if runner = None \<or> \<not> bk_initialized (the runner) then (False, runner)
      else (True, Some ((the runner)\<lparr>bk_adapter_location_configured := True\<rparr>)))"

text \<open>
  The main function in three parts. \<open>mem\<close> and \<open>domain_mem\<close> are the memory of the local variable \<open>host\<close> and of its domain, \<open>w\<close>
  the answers before the run loop, \<open>es\<close> what happens in the run loop and \<open>w'\<close> the answers afterwards. The first part ends
  with an early return (\<open>Inl\<close>) or with the process started and stored in the runner (\<open>Inr\<close>).
\<close>

definition main_enter ::
  "ipc_env \<Rightarrow> production_env \<Rightarrow> process \<Rightarrow> swbt_domain option \<Rightarrow> runner option \<Rightarrow> swbt_daemon_shutdown_listener_t option
   \<Rightarrow> (swbt_daemon_production_result_t \<times> runner option) + runner" where
  "main_enter env w mem domain_mem runner l =
     (if runner = None \<or> \<not> bk_initialized (the runner) \<or> \<not> swbt_daemon_shutdown_sequence_listener_is_valid l
      then Inl (SWBT_DAEMON_PRODUCTION_ERROR_INVALID_ARGUMENT, runner)
      else let b = the runner in
      if \<not> swbt_btstack_production_ports_is_valid (bk_ports b) then Inl (SWBT_DAEMON_PRODUCTION_ERROR_INVALID_ARGUMENT, runner)
      else if \<not> bk_adapter_location_configured b then Inl (SWBT_DAEMON_PRODUCTION_ERROR_ADAPTER_LOCATION_REQUIRED, runner)
      else let (sd_ok, sd) = swbt_daemon_shutdown_sequence_init (bk_shutdown b) (Some (run_loop_of b)) True True;
               b = b\<lparr>bk_shutdown := sd\<rparr> in
      if \<not> sd_ok then Inl (SWBT_DAEMON_PRODUCTION_ERROR_INVALID_ARGUMENT, Some b)
      else let (host_result, p) = swbt_daemon_process_init (Some mem) (Some (bk_config b))
             (Some (swbt_daemon_btstack_process_backend env (bk_initialized b) (po_ipc_pump (the (bk_ports b))))) (bk_ipc b) domain_mem in
      if host_result \<noteq> SWBT_DAEMON_PROCESS_OK then Inl (SWBT_DAEMON_PRODUCTION_ERROR_RUNTIME, Some b)
      else let p = the p;
               (approval, app) = swbt_domain_set_hardware_approval (swbt_daemon_process_app (Some p)) SWBT_DOMAIN_HARDWARE_APPROVAL_APPROVED;
               p = p\<lparr>pr_runtime := (pr_runtime p)\<lparr>host_app := app\<rparr>\<rparr> in
      if approval \<noteq> SWBT_DOMAIN_OK
      then let (_, p, b) = run_process w (\<lambda>_ p. ((), swbt_daemon_process_destroy p)) p b
           in Inl (SWBT_DAEMON_PRODUCTION_ERROR_RUNTIME, Some (b\<lparr>bk_ipc := pr_context p\<rparr>))
      else let (host_result, p, b) = run_process w swbt_daemon_process_start p b in
      if host_result \<noteq> SWBT_DAEMON_PROCESS_OK
      then let (_, p, b) = run_process w (\<lambda>_ p. ((), swbt_daemon_process_destroy p)) p b
           in Inl (SWBT_DAEMON_PRODUCTION_ERROR_RUNTIME, Some (b\<lparr>bk_ipc := pr_context p\<rparr>))
      else Inr (b\<lparr>bk_host := Some p\<rparr>))"

text \<open>Power, reconnect and listener; the second component is \<open>shutdown_listener_installed\<close>.\<close>

definition main_connect ::
  "production_env \<Rightarrow> swbt_daemon_shutdown_listener_t option \<Rightarrow> runner \<Rightarrow> swbt_daemon_production_result_t \<times> bool \<times> runner" where
  "main_connect w l b =
     (let (result, b) = swbt_daemon_production_power_on w b in
      if result \<noteq> SWBT_DAEMON_PRODUCTION_OK then (result, False, b)
      else
        let (reconnect_result, dev, app) = swbt_daemon_active_reconnect_request_active (pv_device w)
              (Some (Some (bk_config b), Some (bk_device b), swbt_daemon_process_app (bk_host b)));
            b = set_app app (b\<lparr>bk_device := the dev\<rparr>);
            b = (if reconnect_result = SWBT_DAEMON_ACTIVE_RECONNECT_ACTIVE_REQUESTED
                 then swbt_daemon_production_runner_arm_active_reconnect_timeout_timer b else b);
            b = b\<lparr>bk_shutdown := swbt_daemon_shutdown_sequence_prepare (bk_shutdown b)\<rparr>
        in if l = None then (result, False, b)
           else let (code, b) = swbt_daemon_shutdown_sequence_install_listener w b l
                in if code \<noteq> 0 then (SWBT_DAEMON_PRODUCTION_ERROR_RUNTIME, False, b) else (result, True, b))"

text \<open>What follows the run loop.\<close>

definition main_leave :: "production_env \<Rightarrow> swbt_daemon_shutdown_listener_t option \<Rightarrow> bool \<Rightarrow> runner \<Rightarrow> runner" where
  "main_leave w l installed b =
     (let b = (if installed then swbt_daemon_shutdown_sequence_uninstall_listener b l else b);
          b = swbt_daemon_production_power_off b;
          (_, p, b) = run_process w (\<lambda>_ p. ((), swbt_daemon_process_destroy p)) (the (bk_host b)) b
      in b\<lparr>bk_host := None, bk_ipc := pr_context p\<rparr>)"

definition swbt_daemon_production_main_with_runner_and_shutdown ::
  "ipc_env \<Rightarrow> production_env \<Rightarrow> loop_event list \<Rightarrow> production_env \<Rightarrow> process \<Rightarrow> swbt_domain option
   \<Rightarrow> runner option \<Rightarrow> swbt_daemon_shutdown_listener_t option \<Rightarrow> swbt_daemon_production_result_t \<times> runner option" where
  "swbt_daemon_production_main_with_runner_and_shutdown env w es w' mem domain_mem runner l =
     (case main_enter env w mem domain_mem runner l of
        Inl returned \<Rightarrow> returned
      | Inr b \<Rightarrow>
          let (result, installed, b) = main_connect w l b;
              b = (if result = SWBT_DAEMON_PRODUCTION_OK then loop_run es b else b)
          in (result, Some (main_leave w' l installed b)))"

definition swbt_daemon_production_main_with_runner ::
  "ipc_env \<Rightarrow> production_env \<Rightarrow> loop_event list \<Rightarrow> production_env \<Rightarrow> process \<Rightarrow> swbt_domain option
   \<Rightarrow> runner option \<Rightarrow> swbt_daemon_production_result_t \<times> runner option" where
  "swbt_daemon_production_main_with_runner env w es w' mem domain_mem runner =
     swbt_daemon_production_main_with_runner_and_shutdown env w es w' mem domain_mem runner None"

record swbt_daemon_production_run_config_t =
  run_config :: "swbt_daemon_config_t option"
  run_ports :: "swbt_btstack_production_ports_t option"
  run_adapter_location_configured :: bool
  run_learned_configured :: bool
  run_learned_target :: "string option"
  run_shutdown_listener :: "swbt_daemon_shutdown_listener_t option"

definition swbt_daemon_production_run ::
  "ipc_env \<Rightarrow> production_env \<Rightarrow> loop_event list \<Rightarrow> production_env \<Rightarrow> process \<Rightarrow> swbt_domain option \<Rightarrow> swbt_domain option
   \<Rightarrow> runner \<Rightarrow> swbt_daemon_production_run_config_t option \<Rightarrow> swbt_daemon_production_result_t \<times> runner option" where
  "swbt_daemon_production_run env w es w' mem domain_mem ipc_mem runner_mem rc =
     (if rc = None then (SWBT_DAEMON_PRODUCTION_ERROR_INVALID_ARGUMENT, None)
      else let c = the rc;
               (result, b) = swbt_daemon_production_runner_init ipc_mem (Some runner_mem) (run_config c) (run_ports c) in
      if result \<noteq> SWBT_DAEMON_PRODUCTION_OK then (result, b)
      else let (ok, b) = (if run_adapter_location_configured c then swbt_daemon_production_runner_set_adapter_location_configured b else (True, b)) in
      if \<not> ok then (SWBT_DAEMON_PRODUCTION_ERROR_INVALID_ARGUMENT, b)
      else let (ok, b) = (if run_learned_configured c
               then swbt_daemon_production_runner_set_learned_switch_address_target b (Some (run_learned_target c)) else (True, b)) in
      if \<not> ok then (SWBT_DAEMON_PRODUCTION_ERROR_INVALID_ARGUMENT, b)
      else swbt_daemon_production_main_with_runner_and_shutdown env w es w' mem domain_mem b (run_shutdown_listener c))"

end
