(* ===== verification/Shutdown.thy ===== *)
theory Shutdown
  imports Production "HOL-Library.Sublist"
begin

text \<open>
  The shutdown sequence of the daemon (\<open>src/swbt/daemon/shutdown_sequence.c\<close>, \<open>production_runner.c\<close> and
  \<open>btstack_hid_session.c\<close>) as an abstract machine of five phases that every event of the run loop follows, with what
  ordinary work keeps of it and the order of power and exit.
\<close>

section \<open>Power and exit\<close>

text \<open>
  The controller is powered on at most once at a time, the run loop is asked to end at most once and only when
  the controller is off. None is a misuse.
\<close>

fun power_call :: "production_event \<Rightarrow> bool \<times> bool \<Rightarrow> (bool \<times> bool) option" where
  "power_call (PowerOn code) (on, out) = (if on \<or> out then None else Some (code = 0, False))"
| "power_call PowerOff (on, out) = (if on then Some (False, out) else None)"
| "power_call TriggerExit (on, out) = (if on \<or> out then None else Some (False, True))"
| "power_call _ s = Some s"

fun power_calls :: "production_event list \<Rightarrow> bool \<times> bool \<Rightarrow> (bool \<times> bool) option" where
  "power_calls [] s = Some s"
| "power_calls (e # es) s = (case power_call e s of None \<Rightarrow> None | Some s' \<Rightarrow> power_calls es s')"

lemma power_calls_append:
  "power_calls (es @ fs) s = (case power_calls es s of None \<Rightarrow> None | Some s' \<Rightarrow> power_calls fs s')"
  by (induction es s rule: power_calls.induct) (auto split: option.splits)

section \<open>The report timer as the daemon uses it\<close>

text \<open>Initialised, with the sender of the bridge and a scheduler in order; every operation keeps that.\<close>

definition timer_good :: "adapter \<Rightarrow> bool" where
  "timer_good a \<longleftrightarrow> ta_initialized a \<and> ta_hid_sender a \<and> scheduler_ok (ta_scheduler a)"

lemma timer_good_simps [simp]:
  "timer_good (emit e a) = timer_good a" "timer_good (armed a now) = timer_good a" "timer_good (cancel_pending_timer a) = timer_good a"
  "timer_good (bump_timer a) = timer_good a" "timer_good (notify_report_tick a now r) = timer_good a"
  "timer_good (a\<lparr>ta_running := v\<rparr>) = timer_good a" "timer_good (a\<lparr>ta_timer_pending := v\<rparr>) = timer_good a"
  "timer_good (a\<lparr>ta_can_send_pending := v\<rparr>) = timer_good a" "timer_good (a\<lparr>ta_neutral_send_pending := v\<rparr>) = timer_good a"
  "timer_good (a\<lparr>ta_periodic_holdoff_until_us := u\<rparr>) = timer_good a" "timer_good (a\<lparr>ta_reply_queue := q\<rparr>) = timer_good a"
  "timer_good (a\<lparr>ta_hid_cid := cid\<rparr>) = timer_good a"
  by (simp_all add: timer_good_def armed_def schedule_next_timer_eq cancel_pending_timer_def bump_timer_def
      notify_report_tick_def emit_def)

lemma full_sent_good: "timer_good a \<Longrightarrow> timer_good (full_sent env a cid s)"
  by (simp add: timer_good_def full_sent_def scheduler_ok_def)

lemma send_hidp_good: "timer_good a \<Longrightarrow> timer_good (snd (send_hidp_input_report env a cid report))"
  by (simp add: send_hidp_input_report_def send_interrupt_message_def Let_def case_prod_beta timer_good_def)

lemma send_next_good:
  assumes "timer_good a"
  shows "timer_good (snd (snd (swbt_btstack_subcommand_reply_queue_send_next q (Some (reply_queue_send_callback env)) a)))"
  using send_hidp_good [OF assms] assms
  by (cases q) (simp_all add: swbt_btstack_subcommand_reply_queue_send_next_def reply_queue_send_callback_def Let_def case_prod_beta)

lemma tick_good:
  assumes "timer_good a" "swbt_btstack_input_report_scheduler_tick (Some (ta_scheduler a)) (scheduler_send_callback env) a now (Some state) = (r, sch, a')"
  shows "timer_good (a'\<lparr>ta_scheduler := the sch\<rparr>)"
proof (cases "sch_running (ta_scheduler a) \<and> sch_next_deadline_us (ta_scheduler a) \<le> now")
  case True
  then show ?thesis
    using assms tick_adapter_due [of a now env state] full_sent_good [OF assms(1), of env "sch_hid_cid (ta_scheduler a)" state]
    by (auto simp: timer_good_def Let_def split: if_splits)
next
  case False
  then show ?thesis
    using assms tick_not_due [where sch = "ta_scheduler a" and now = now and send = "scheduler_send_callback env" and ctx = a and s = state] by (auto simp: timer_good_def not_le)
qed

lemma on_can_send_good:
  assumes "timer_good a"
  shows "timer_good (the (snd (swbt_btstack_production_report_timer_on_can_send_now env (Some a))))"
proof -
  have sch: "scheduler_ok (ta_scheduler a)"
    using assms by (simp add: timer_good_def)
  obtain r q b where sn: "swbt_btstack_subcommand_reply_queue_send_next (Some (ta_reply_queue a)) (Some (reply_queue_send_callback env)) a = (r, q, b)"
    by (rule prod_cases3)
  then have b: "timer_good b"
    using send_next_good [OF assms, of "Some (ta_reply_queue a)" env] by simp
  obtain tr sch' c where tick: "swbt_btstack_input_report_scheduler_tick (Some (ta_scheduler a)) (scheduler_send_callback env) a
      (now_us_of env) (Some (env_state env)) = (tr, sch', c)"
    by (rule prod_cases3)
  note c = tick_good [OF assms tick]
  consider (stopped) "\<not> ta_running a" | (neutral) "ta_running a" "ta_neutral_send_pending a"
    | (reply) "ta_running a" "\<not> ta_neutral_send_pending a" "0 < rq_count (ta_reply_queue a)"
    | (periodic) "ta_running a" "\<not> ta_neutral_send_pending a" "rq_count (ta_reply_queue a) = 0"
    by blast
  then have "timer_good (the (snd (swbt_btstack_input_report_timer_adapter_on_can_send_now env (Some a))))"
  proof cases
    case stopped
    then show ?thesis
      using assms by (simp add: swbt_btstack_input_report_timer_adapter_on_can_send_now_def)
  next
    case neutral
    then show ?thesis
      using on_can_send_neutral [OF neutral sch, of env] full_sent_good [OF assms] by (simp add: Let_def)
  next
    case reply
    then show ?thesis
      using b
      by (simp add: swbt_btstack_input_report_timer_adapter_on_can_send_now_def sn swbt_btstack_subcommand_reply_queue_size_def
          holdoff_periodic_after_reply_def schedule_armed Let_def)
  next
    case periodic
    then show ?thesis
      using assms c
      by (simp add: swbt_btstack_input_report_timer_adapter_on_can_send_now_def tick swbt_btstack_subcommand_reply_queue_size_def
          schedule_armed Let_def)
  qed
  then show ?thesis
    by (simp add: swbt_btstack_production_report_timer_on_can_send_now_def case_prod_beta)
qed

lemma timer_ops_good:
  assumes "timer_good a"
  shows "timer_good (the (snd (swbt_btstack_production_report_timer_start (Some a) opts)))"
    and "timer_good (the (snd (swbt_btstack_production_report_timer_enqueue_reply (Some a) cid reply)))"
    and "timer_good (the (snd (swbt_btstack_production_report_timer_send_neutral_now env (Some a))))"
    and "timer_good (the (swbt_btstack_production_report_timer_stop (Some a)))"
    and "timer_good (the (snd (swbt_btstack_input_report_timer_adapter_on_timer env (Some a))))"
  using assms full_sent_good [OF assms, of env] send_neutral_eq [of a env]
  by (auto simp: swbt_btstack_production_report_timer_start_def swbt_btstack_input_report_timer_adapter_start_def
      swbt_btstack_input_report_scheduler_start_def swbt_btstack_input_report_scheduler_is_valid_def schedule_armed
      swbt_btstack_production_report_timer_enqueue_reply_def swbt_btstack_input_report_timer_adapter_enqueue_subcommand_reply_def
      swbt_btstack_production_report_timer_send_neutral_now_def swbt_btstack_input_report_timer_adapter_send_neutral_now_def
      swbt_btstack_production_report_timer_stop_def swbt_btstack_input_report_timer_adapter_stop_def
      swbt_btstack_input_report_timer_adapter_on_timer_def swbt_btstack_input_report_scheduler_stop_def
      Let_def case_prod_beta timer_good_def scheduler_ok_def)

section \<open>What ordinary work keeps\<close>

text \<open>The fields that decide about the shutdown, with the state of power and exit that the calls so far give.\<close>

definition control :: "runner \<Rightarrow> bool \<times> swbt_daemon_shutdown_sequence_t \<times> bool \<times> bool \<times> bool \<times> bool
    \<times> swbt_btstack_production_ports_t option \<times> bool \<times> (bool \<times> bool) option" where
  "control b = (bk_initialized b, bk_shutdown b, bk_disconnect_timer_pending b, bk_hardware_powered b, bk_session b,
     bk_report_timer_initialized b, bk_ports b, bk_main_thread b, power_calls (bk_trace b) (False, False))"

definition device_up :: "device \<Rightarrow> bool" where
  "device_up d \<longleftrightarrow> device_inv d \<and> dev_hid_registered d"

type_synonym start_fun = "platform \<Rightarrow> int \<times> platform"
type_synonym stop_fun = "platform \<Rightarrow> platform"

abbreviation daemon_process :: "ipc_env \<Rightarrow> start_fun \<Rightarrow> stop_fun \<Rightarrow> process \<Rightarrow> bool" where
  "daemon_process env s t p \<equiv> process_inv (pump_ipc_start env s t) (pump_ipc_stop s t) pump_serving p"

definition host_up :: "ipc_env \<Rightarrow> start_fun \<Rightarrow> stop_fun \<Rightarrow> runner \<Rightarrow> bool" where
  "host_up env s t b \<longleftrightarrow> (\<exists>p. bk_host b = Some p \<and> daemon_process env s t p \<and> pr_running p)
     \<and> device_info_wf (cfg_device_info (bk_config b))"

text \<open>Steps that leave the shutdown alone and keep the device and the process working.\<close>

definition undisturbed :: "ipc_env \<Rightarrow> start_fun \<Rightarrow> stop_fun \<Rightarrow> runner \<Rightarrow> runner \<Rightarrow> bool" where
  "undisturbed env s t b b' \<longleftrightarrow> control b' = control b \<and> (device_up (bk_device b) \<longrightarrow> device_up (bk_device b'))
     \<and> (host_up env s t b \<longrightarrow> host_up env s t b') \<and> (timer_good (bk_report_timer b) \<longrightarrow> timer_good (bk_report_timer b'))"

named_theorems quiet_intros

lemma undisturbed_refl [simp, intro]: "undisturbed env s t b b"
  by (simp add: undisturbed_def)

lemma undisturbed_trans: "undisturbed env s t b b' \<Longrightarrow> undisturbed env s t b' b'' \<Longrightarrow> undisturbed env s t b b''"
  by (simp add: undisturbed_def)

lemma undisturbed_fold: "(\<And>e b. e \<in> set es \<Longrightarrow> undisturbed env s t b (f e b)) \<Longrightarrow> undisturbed env s t b (fold f es b)"
proof (induction es arbitrary: b)
  case (Cons e es)
  then have "undisturbed env s t b (f e b)" "undisturbed env s t (f e b) (fold f es (f e b))"
    by auto
  then show ?case
    by (simp add: undisturbed_trans)
qed simp

text \<open>An update of other fields is undisturbed.\<close>

lemma quiet_update [quiet_intros]:
  "(timer_good (bk_report_timer b) \<Longrightarrow> timer_good a) \<Longrightarrow> undisturbed env s t b (b\<lparr>bk_report_timer := a\<rparr>)"
  "undisturbed env s t b (b\<lparr>bk_reconnect_timer_pending := v\<rparr>)"
  by (auto simp: undisturbed_def control_def host_up_def)

lemma quiet_emit [quiet_intros]:
  "(\<And>s. power_calls es s = Some s) \<Longrightarrow> undisturbed env s t b (bk_emit es b)"
  by (auto simp: undisturbed_def control_def host_up_def bk_emit_def power_calls_append split: option.splits)

lemma quiet_device:
  assumes "device_step (bk_device b) op d" "op \<noteq> Close"
  shows "undisturbed env s t b (b\<lparr>bk_device := d\<rparr>)"
proof -
  have "dev_hid_registered d" if "device_up (bk_device b)"
    using that assms
    by (cases op) (auto simp: device_up_def device_step_def swbt_btstack_device_open_def swbt_btstack_device_connect_def
        swbt_btstack_device_disconnect_def swbt_btstack_device_send_def Let_def split: if_splits option.splits prod.splits)
  then show ?thesis
    using device_step_inv [OF _ assms(1)] by (auto simp: undisturbed_def control_def host_up_def device_up_def)
qed

lemma domain_op_process:
  assumes "daemon_process env s t p" "pr_running p" "other_client op"
  shows "daemon_process env s t (p\<lparr>pr_runtime := (pr_runtime p)\<lparr>host_app := snd (domain_exec op (host_app (pr_runtime p)))\<rparr>\<rparr>)"
proof -
  obtain a where a: "host_app (pr_runtime p) = Some a" "domain_inv a"
    using assms(1) by (auto simp: process_inv_def process_ok_def host_inv_def)
  obtain a' where a': "snd (domain_exec op (Some a)) = Some a'"
    using domain_exec_some [OF a(2)] by blast
  show ?thesis
    unfolding a(1) a'
    by (rule pump.step_ok [OF assms(1)], rule proc_domain [OF assms(3) a(1)]) (simp add: domain_step_def a')
qed

lemma quiet_domain:
  assumes "other_client op" "app = snd (domain_exec op (swbt_daemon_process_app (bk_host b)))"
  shows "undisturbed env s t b (set_app app b)"
  using domain_op_process [OF _ _ assms(1)]
  by (auto simp: undisturbed_def control_def host_up_def set_app_def assms(2) swbt_daemon_process_app_def swbt_runtime_host_app_def)


lemma quiet_bridge_send: "undisturbed env s t b (snd (swbt_daemon_btstack_report_timer_bridge_send w b cid m))"
proof (cases "swbt_daemon_btstack_report_timer_bridge_is_valid b")
  case True
  have "\<exists>r d. swbt_btstack_device_send (pv_device w) (Some (bk_device b)) cid (Some m) = (r, Some d)"
    by (simp add: swbt_btstack_device_send_def Let_def)
  then obtain r d where d: "swbt_btstack_device_send (pv_device w) (Some (bk_device b)) cid (Some m) = (r, Some d)"
    by blast
  then have "undisturbed env s t b (b\<lparr>bk_device := d\<rparr>)"
    by (intro quiet_device [of b "Send (pv_device w) cid (Some m)"]) (simp_all add: device_step_def)
  then show ?thesis
    using True d by (simp add: swbt_daemon_btstack_report_timer_bridge_send_def)
qed (simp add: swbt_daemon_btstack_report_timer_bridge_send_def)

lemma quiet_tick: "undisturbed env s t b (swbt_daemon_production_record_report_tick b now r)"
  using quiet_domain [of "RecordReportTick now (swbt_daemon_production_report_send_result r)" _ b]
  by (simp add: swbt_daemon_production_record_report_tick_def Let_def)

lemma quiet_adapter_event: "undisturbed env s t b (adapter_event w e b)"
  by (cases e) (simp_all add: quiet_bridge_send quiet_tick)

lemma quiet_set_timer: "(timer_good (bk_report_timer b) \<Longrightarrow> timer_good a) \<Longrightarrow> undisturbed env s t b (set_timer w a b)"
  unfolding set_timer_def
  by (rule undisturbed_trans [OF quiet_update(1)], assumption, rule undisturbed_fold) (rule quiet_adapter_event)

lemma quiet_send_neutral: "undisturbed env s t b (snd (swbt_daemon_btstack_report_timer_bridge_send_neutral_now w b))"
  by (simp add: swbt_daemon_btstack_report_timer_bridge_send_neutral_now_def quiet_set_timer timer_ops_good case_prod_beta)

lemma quiet_enqueue: "undisturbed env s t b (snd (swbt_daemon_btstack_report_timer_bridge_enqueue_subcommand_reply w b cid r))"
  by (simp add: swbt_daemon_btstack_report_timer_bridge_enqueue_subcommand_reply_def quiet_set_timer timer_ops_good case_prod_beta)

text \<open>The calls that a running host makes on its own account.\<close>

fun traffic :: "host_event \<Rightarrow> bool" where
  "traffic (ReportTimerSendNeutralNow _) = True"
| "traffic (SubcommandReplyEnqueue _ _ _) = True"
| "traffic _ = False"

lemma quiet_backend_event: "traffic e \<Longrightarrow> undisturbed env s t b (backend_event w handler e b)"
  by (cases e) (simp_all add: swbt_daemon_production_process_report_timer_send_neutral_now_def
      swbt_daemon_production_process_subcommand_reply_enqueue_def quiet_send_neutral quiet_enqueue)

definition only_traffic :: "host \<Rightarrow> host \<Rightarrow> bool" where
  "only_traffic h h' \<longleftrightarrow> (\<exists>es. host_trace h' = host_trace h @ es \<and> (\<forall>e\<in>set es. traffic e))"

lemma neutral_traffic: "only_traffic h (the (snd (swbt_runtime_host_send_neutral_now env (Some h))))"
  by (auto simp: only_traffic_def swbt_runtime_host_send_neutral_now_def swbt_runtime_host_store_neutral_def Let_def)

lemma on_output_report_traffic:
  "only_traffic h (the (swbt_runtime_host_on_output_report env (Some h) cid (Some r)))"
  by (auto simp: only_traffic_def swbt_runtime_host_on_output_report_def Let_def split: prod.split)

lemma receive_traffic:
  assumes "host_inv h"
  shows "only_traffic h (snd (host_receive env h options))"
proof -
  let ?cb = "\<lambda>h cid r. the (swbt_runtime_host_on_output_report env (Some h) cid (Some r))"
  have "oh_callback (host_output_handler h)" "length (oh_scratch (host_output_handler h)) = 64"
    using assms by (simp_all add: host_inv_def)
  then obtain r oh c where out: "swbt_btstack_output_report_handler_handle ?cb (Some (host_output_handler h)) h options = (r, Some oh, c)"
    and c: "c = h \<or> (\<exists>cid rep. c = ?cb h cid rep)"
    using handle_ctx [of "host_output_handler h" ?cb h options] by blast
  have "only_traffic h c"
    using c on_output_report_traffic by (auto simp: only_traffic_def)
  then show ?thesis
    by (simp add: host_receive_def out only_traffic_def)
qed

lemma run_process_quiet:
  assumes "\<And>henv. only_traffic (pr_runtime p) (pr_runtime (the (snd (f henv (Some p)))))"
  shows "undisturbed env s t b (snd (snd (run_process w f p b)))"
proof -
  let ?handler = "host_output_handler (pr_runtime p)"
  obtain r p' where f: "f (production_host_env w ?handler b) (Some p) = (r, p')"
    by (rule prod.exhaust)
  obtain es where "host_trace (pr_runtime (the p')) = host_trace (pr_runtime p) @ es" "\<forall>e\<in>set es. traffic e"
    using assms [of "production_host_env w ?handler b"] f by (auto simp: only_traffic_def)
  then show ?thesis
    using f by (simp add: run_process_def undisturbed_fold quiet_backend_event)
qed

lemma host_up_process:
  assumes "host_up env s t b"
  obtains p where "bk_host b = Some p" "daemon_process env s t p" "pr_running p" "host_inv (pr_runtime p)"
    "pr_initialized p" "device_info_wf (cfg_device_info (bk_config b))" "host_running (pr_runtime p)" "pr_ipc_started p"
  using assms by (auto simp: host_up_def process_inv_def process_ok_def)

text \<open>Storing the process that a step made.\<close>

lemma quiet_host:
  assumes "undisturbed env s t b b'" "host_up env s t b \<Longrightarrow> daemon_process env s t p \<and> pr_running p"
  shows "undisturbed env s t b (b'\<lparr>bk_host := Some p\<rparr>)"
  using assms by (auto simp: undisturbed_def control_def host_up_def)

lemma poll_quiet:
  assumes "build_ok (env_build ienv)"
  shows "undisturbed env s t b (on_host (poll_process ienv now) b)"
proof -
  have "host_up env s t (on_host (poll_process ienv now) b)" if up: "host_up env s t b"
  proof -
    obtain p where p: "bk_host b = Some p" "daemon_process env s t p" "pr_running p" "host_inv (pr_runtime p)" "pr_ipc_started p"
        "device_info_wf (cfg_device_info (bk_config b))"
      using host_up_process [OF up] by metis
    obtain a where a: "host_app (pr_runtime p) = Some a"
      using p(4) by (auto simp: host_inv_def)
    let ?ctl = "host_control (pr_runtime p)"
    have "runner_inv (snd (pr_context p), ?ctl, a)"
      using p(2,5) a by (auto simp: process_inv_def process_ok_def pump_serving_def runner_serving_def)
    then obtain r r' a' sent where poll: "swbt_daemon_production_ipc_runner_poll_once_at ienv (Some (snd (pr_context p))) (Some ?ctl, Some a) now =
        Some (r, Some r', (Some ?ctl, Some a'), sent)"
      using poll_inv [OF _ assms] unfolding swbt_daemon_production_ipc_runner_poll_once_at_def by blast
    have "process_step pump_service p ProcServe (p\<lparr>pr_context := (fst (pr_context p), r'),
        pr_runtime := store_runtime_control (Some ?ctl, Some a') (pr_runtime p)\<rparr>)"
      by (rule proc_serve [OF p(5) a]) (use poll assms in \<open>auto simp: pump_service_def\<close>)
    from pump.step_ok [OF p(2) this] show ?thesis
      using p poll a by (simp add: host_up_def on_host_def poll_process_def runtime_control_def swbt_runtime_host_control_def)
  qed
  then show ?thesis
    by (simp add: undisturbed_def control_def on_host_def)
qed

text \<open>What the outside may answer: arrays have their C lengths, and saving an address keeps the device information.\<close>

definition env_ok :: "production_env \<Rightarrow> bool" where
  "env_ok w \<longleftrightarrow> length (resp_report (pv_response_memory w)) = 50 \<and> length (snd (pv_controller_address w)) = 6
     \<and> (\<forall>c path text. device_info_wf (cfg_device_info c) \<longrightarrow> device_info_wf (cfg_device_info (pv_save_learned w c path text)))"

lemma receive_quiet:
  assumes "env_ok w" "bk_host b = Some p" "run_process w (receive_process options) p b = (r, p', b')" "host_up env s t b"
  shows "undisturbed env s t b (b'\<lparr>bk_host := Some p'\<rparr>)"
proof -
  let ?env = "production_host_env w (host_output_handler (pr_runtime p)) b"
  have p: "daemon_process env s t p" "pr_running p" "host_inv (pr_runtime p)" "host_running (pr_runtime p)"
      "device_info_wf (cfg_device_info (bk_config b))"
    using host_up_process [OF assms(4)] assms(2) by auto
  have "host_allowed (pr_runtime p) (HostReceive ?env options)"
    using p assms(1)
    by (auto simp: production_host_env_def env_ok_def swbt_daemon_production_read_device_info_def host_inv_def host_resources_def
        device_info_wf_def Let_def split: prod.split)
  then have "daemon_process env s t (set_runtime (snd (host_receive ?env (pr_runtime p) options)) p)"
    by (rule pump.step_ok [OF p(1) proc_receive])
  moreover have p': "p' = set_runtime (snd (host_receive ?env (pr_runtime p) options)) p" and b': "b' = snd (snd (run_process w (receive_process options) p b))"
    using assms(3) by (auto simp: run_process_def receive_process_def Let_def)
  moreover have "undisturbed env s t b b'"
    unfolding b' by (rule run_process_quiet) (simp add: receive_process_def receive_traffic [OF p(3)])
  ultimately show ?thesis
    using quiet_host [of env s t b b' p'] p(2) by simp
qed


lemma neutral_quiet:
  assumes "bk_host b = Some p" "run_process w swbt_daemon_process_send_neutral_now p b = (r, p', b')" "host_up env s t b"
  shows "undisturbed env s t b (b'\<lparr>bk_host := Some p'\<rparr>)"
proof -
  have p: "daemon_process env s t p" "pr_running p" "pr_initialized p" "host_inv (pr_runtime p)"
    using host_up_process [OF assms(3)] assms(1) by auto
  let ?env = "production_host_env w (host_output_handler (pr_runtime p)) b"
  obtain r1 h where h: "swbt_runtime_host_send_neutral_now ?env (Some (pr_runtime p)) = (r1, Some h)"
    using host_neutral_extends [OF p(4), of ?env] by blast
  have p': "swbt_daemon_process_send_neutral_now ?env (Some p) = (r, Some p')" "pr_running p'"
      and b': "b' = snd (snd (run_process w swbt_daemon_process_send_neutral_now p b))"
    using assms(2) p(2,3) h by (auto simp: run_process_def swbt_daemon_process_send_neutral_now_def Let_def)
  have "only_traffic (pr_runtime p) (pr_runtime (the (snd (swbt_daemon_process_send_neutral_now henv (Some p)))))" for henv
    using p(3) neutral_traffic [of "pr_runtime p" henv] by (simp add: swbt_daemon_process_send_neutral_now_def case_prod_beta)
  then have "undisturbed env s t b b'"
    unfolding b' by (rule run_process_quiet)
  then show ?thesis
    using quiet_host [of env s t b b' p'] pump.step_ok [OF p(1) proc_neutral [OF p'(1)]] p'(2) by simp
qed

lemma cancel_reconnect_quiet: "undisturbed env s t b (swbt_daemon_production_runner_cancel_active_reconnect_timeout_timer b)"
  unfolding swbt_daemon_production_runner_cancel_active_reconnect_timeout_timer_def
  by (auto intro!: undisturbed_trans [OF quiet_emit quiet_update(2)])

lemma save_learned_quiet:
  assumes "env_ok w"
  shows "undisturbed env s t b (swbt_daemon_btstack_hid_session_maybe_save_learned_address w b address)"
  using assms
  by (auto simp: undisturbed_def control_def host_up_def bk_emit_def swbt_daemon_btstack_hid_session_maybe_save_learned_address_def
      swbt_daemon_active_reconnect_save_learned_address_def env_ok_def power_calls_append Let_def split: option.splits)

lemma opened_quiet:
  assumes "env_ok w"
  shows "undisturbed env s t b (swbt_daemon_btstack_hid_session_handle_connection_opened w b event)"
proof -
  let ?c = "swbt_daemon_production_runner_cancel_active_reconnect_timeout_timer b"
  let ?l = "swbt_daemon_btstack_hid_session_maybe_save_learned_address w ?c (ev_address event)"
  have "undisturbed env s t b (set_timer w (the (snd (swbt_btstack_production_report_timer_start (Some (bk_report_timer ?l)) opts))) ?l)" for opts
    using undisturbed_trans [OF undisturbed_trans [OF cancel_reconnect_quiet save_learned_quiet [OF assms]] quiet_set_timer [OF timer_ops_good(1)]] .
  then show ?thesis
    by (simp add: swbt_daemon_btstack_hid_session_handle_connection_opened_def cancel_reconnect_quiet
        swbt_daemon_production_runner_note_hid_open_completed_def Let_def case_prod_beta)
qed

lemma confirmation_quiet: "undisturbed env s t b (swbt_daemon_btstack_hid_session_handle_user_confirmation b address)"
  by (auto simp: swbt_daemon_btstack_hid_session_handle_user_confirmation_def intro!: quiet_emit)

lemma report_failed_quiet: "undisturbed env s t b (set_app (swbt_daemon_active_reconnect_report_failed (swbt_daemon_process_app (bk_host b))) b)"
proof (cases "swbt_daemon_process_app (bk_host b)")
  case None
  then show ?thesis
    by (cases "bk_host b") (auto simp: swbt_daemon_active_reconnect_report_failed_def set_app_def undisturbed_def control_def host_up_def
        swbt_daemon_process_app_def swbt_runtime_host_app_def process_inv_def process_ok_def host_inv_def)
next
  case (Some a)
  let ?op = "SetHardwareStatus (Some \<lparr>adapter_state = SWBT_DOMAIN_HARDWARE_CHANNEL_UNAVAILABLE,
      switch_connection_state = SWBT_DOMAIN_HARDWARE_CHANNEL_FAILED, hid_channel_state = SWBT_DOMAIN_HARDWARE_CHANNEL_FAILED\<rparr>)"
  show ?thesis
    by (rule quiet_domain [of ?op]) (simp_all add: Some swbt_daemon_active_reconnect_report_failed_def)
qed

lemma reconnect_timeout_quiet: "undisturbed env s t b (the (swbt_daemon_production_runner_active_reconnect_timeout (Some b)))"
proof -
  let ?b = "b\<lparr>bk_reconnect_timer_pending := False\<rparr>"
  have "undisturbed env s t b (set_app (swbt_daemon_active_reconnect_report_failed (swbt_daemon_process_app (bk_host b))) ?b)"
    using undisturbed_trans [OF quiet_update(2) report_failed_quiet [of env s t ?b]] by simp
  then show ?thesis
    by (cases "bk_host b") (simp_all add: swbt_daemon_production_runner_active_reconnect_timeout_def Let_def quiet_update
        swbt_daemon_process_app_def)
qed

section \<open>The shutdown as an abstract machine\<close>

datatype shutdown_phase = Serving | Requested | AwaitNeutral | AwaitDisconnect | Exited

text \<open>
  The flags of the runner: request made, callback waiting, neutral report pending, disconnect pending, its timer armed,
  controller powered.
\<close>

definition flags :: "runner \<Rightarrow> bool \<Rightarrow> bool \<Rightarrow> bool \<Rightarrow> bool \<Rightarrow> bool \<Rightarrow> bool \<Rightarrow> bool" where
  "flags b requested waiting neutral disconnect timer powered \<longleftrightarrow> bk_initialized b
     \<and> swbt_daemon_shutdown_sequence_is_ready (bk_shutdown b) \<and> sd_host (bk_shutdown b)
     \<and> swbt_btstack_production_ports_is_valid (bk_ports b) \<and> bk_session b \<and> bk_report_timer_initialized b
     \<and> sd_requested (bk_shutdown b) = requested \<and> bk_main_thread b = waiting
     \<and> sd_neutral_pending (bk_shutdown b) = neutral \<and> sd_disconnect_pending (bk_shutdown b) = disconnect
     \<and> bk_disconnect_timer_pending b = timer \<and> bk_hardware_powered b = powered
     \<and> power_calls (bk_trace b) (False, False) = Some (powered, \<not> powered)"

fun in_phase :: "runner \<Rightarrow> shutdown_phase \<Rightarrow> bool" where
  "in_phase b Serving = flags b False False False False False True"
| "in_phase b Requested = flags b True True False False False True"
| "in_phase b AwaitNeutral = flags b True False True False False True"
| "in_phase b AwaitDisconnect = flags b True False False True True True"
| "in_phase b Exited = flags b True False False False False False"

definition daemon_up :: "ipc_env \<Rightarrow> start_fun \<Rightarrow> stop_fun \<Rightarrow> runner \<Rightarrow> bool" where
  "daemon_up env s t b \<longleftrightarrow> device_up (bk_device b) \<and> host_up env s t b \<and> timer_good (bk_report_timer b)"

lemma in_phase_unique: "in_phase b ph \<Longrightarrow> in_phase b ph' \<Longrightarrow> ph = ph'"
  by (cases ph; cases ph') (auto simp: flags_def)

lemma undisturbed_flags: "undisturbed env s t b b' \<Longrightarrow> flags b' r m n d x p = flags b r m n d x p"
  by (simp add: undisturbed_def control_def flags_def)

lemma undisturbed_phase: "undisturbed env s t b b' \<Longrightarrow> in_phase b' ph = in_phase b ph"
  by (cases ph) (simp_all add: undisturbed_flags)

lemma undisturbed_up: "undisturbed env s t b b' \<Longrightarrow> daemon_up env s t b \<Longrightarrow> daemon_up env s t b'"
  by (simp add: undisturbed_def daemon_up_def)

lemma flag_updates:
  "flags b r m n d x p \<Longrightarrow> flags (set_neutral_pending v b) r m v d x p"
  "flags b r m n d x p \<Longrightarrow> flags (set_disconnect_pending v b) r m n v x p"
  "flags b r m n d x p \<Longrightarrow> flags (b\<lparr>bk_disconnect_timer_pending := v\<rparr>) r m n d v p"
  "flags b r m n d x p \<Longrightarrow> flags (b\<lparr>bk_main_thread := v\<rparr>) r v n d x p"
  by (simp_all add: flags_def set_neutral_pending_def set_disconnect_pending_def swbt_daemon_shutdown_sequence_is_ready_def)

lemma flagsD:
  assumes "flags b r m n d x p"
  shows "bk_initialized b" "swbt_daemon_shutdown_sequence_is_ready (bk_shutdown b)" "sd_host (bk_shutdown b)"
    "bk_session b" "sd_requested (bk_shutdown b) = r" "bk_main_thread b = m" "sd_neutral_pending (bk_shutdown b) = n"
    "sd_disconnect_pending (bk_shutdown b) = d" "bk_disconnect_timer_pending b = x" "bk_hardware_powered b = p"
    "bk_report_timer_initialized b" "swbt_btstack_production_ports_is_valid (bk_ports b)"
  using assms by (simp_all add: flags_def)

lemma up_updates [simp]:
  "daemon_up env s t (set_neutral_pending v b) = daemon_up env s t b"
  "daemon_up env s t (set_disconnect_pending v b) = daemon_up env s t b"
  "daemon_up env s t (b\<lparr>bk_disconnect_timer_pending := v\<rparr>) = daemon_up env s t b"
  "daemon_up env s t (b\<lparr>bk_main_thread := v\<rparr>) = daemon_up env s t b"
  by (simp_all add: daemon_up_def host_up_def set_neutral_pending_def set_disconnect_pending_def)

lemma end_shutdown_flags:
  assumes "flags b True False False False x True"
  shows "flags (end_shutdown b) True False False False False False"
    and "daemon_up env s t (end_shutdown b) = daemon_up env s t b"
  using assms
  by (auto simp: flags_def end_shutdown_def bk_emit_def swbt_daemon_production_power_off_def Let_def power_calls_append
      swbt_daemon_production_runner_cancel_shutdown_disconnect_timer_def daemon_up_def host_up_def
      swbt_daemon_production_runner_cancel_active_reconnect_timeout_timer_def)

lemma stop_report_timer_quiet: "undisturbed env s t b (swbt_daemon_production_runner_stop_active_report_timer w b)"
  by (simp add: swbt_daemon_production_runner_stop_active_report_timer_def quiet_set_timer timer_ops_good)

lemma arm_disconnect_flags:
  assumes "flags b True False False True False True"
  shows "flags (swbt_daemon_production_runner_arm_shutdown_disconnect_timer b) True False False True True True"
    and "daemon_up env s t (swbt_daemon_production_runner_arm_shutdown_disconnect_timer b) = daemon_up env s t b"
  using assms
  by (auto simp: flags_def swbt_daemon_production_runner_arm_shutdown_disconnect_timer_def bk_emit_def power_calls_append
      daemon_up_def host_up_def)


lemma disconnect_some:
  "\<exists>r d. swbt_btstack_device_disconnect w (Some dev) cid = (r, Some d) \<and> device_step dev (Disconnect w cid) d"
  by (simp add: swbt_btstack_device_disconnect_def device_step_def Let_def)

text \<open>The end of the sequence: a disconnect is under way with its timer armed, or the exit has been triggered.\<close>

lemma finish_phase:
  assumes "flags b True False False False x True" "daemon_up env s t b" "x \<Longrightarrow> \<not> ta_running (bk_report_timer b)"
  shows "\<exists>ph. (ph = AwaitDisconnect \<and> ta_running (bk_report_timer b) \<or> ph = Exited)
    \<and> in_phase (swbt_daemon_shutdown_sequence_finish w b) ph \<and> daemon_up env s t (swbt_daemon_shutdown_sequence_finish w b)"
proof -
  have eq: "swbt_daemon_shutdown_sequence_finish w b = the (swbt_daemon_production_runner_finish_shutdown w (Some b))"
    and i: "bk_initialized b" "\<not> sd_disconnect_pending (bk_shutdown b)"
    using flagsD [OF assms(1)] by (simp_all add: swbt_daemon_shutdown_sequence_finish_def)
  show ?thesis
  proof (cases "ta_running (bk_report_timer b)")
    case True
    let ?b = "set_disconnect_pending True b"
    obtain r d where d: "swbt_btstack_device_disconnect (pv_device w) (Some (bk_device ?b)) (ta_hid_cid (bk_report_timer ?b)) = (r, Some d)"
        "device_step (bk_device ?b) (Disconnect (pv_device w) (ta_hid_cid (bk_report_timer ?b))) d"
      using disconnect_some by blast
    let ?d = "?b\<lparr>bk_device := d\<rparr>"
    have q: "undisturbed env s t ?b ?d"
      using quiet_device [OF d(2)] by blast
    have f: "flags ?d True False False True False True" "daemon_up env s t ?d"
      using flag_updates(2) [OF assms(1), of True] assms(2,3) True undisturbed_flags [OF q] undisturbed_up [OF q] by (cases x; simp)+
    let ?e = "swbt_daemon_production_runner_stop_active_report_timer w (set_disconnect_pending False ?d)"
    have e: "flags ?e True False False False False True" "daemon_up env s t ?e"
      using flag_updates(2) [OF f(1), of False] f(2) undisturbed_flags [OF stop_report_timer_quiet] undisturbed_up [OF stop_report_timer_quiet]
      by (blast, simp)
    show ?thesis
    proof (cases "r = SWBT_BTSTACK_DEVICE_OK")
      case ok: True
      then have "swbt_daemon_shutdown_sequence_finish w b = swbt_daemon_production_runner_arm_shutdown_disconnect_timer ?d"
        unfolding eq by (simp add: swbt_daemon_production_runner_finish_shutdown_def True i d(1))
      then show ?thesis
        using arm_disconnect_flags [OF f(1)] f(2) True by (intro exI [of _ AwaitDisconnect]) simp
    next
      case False
      then have "swbt_daemon_shutdown_sequence_finish w b = end_shutdown ?e"
        unfolding eq by (simp add: swbt_daemon_production_runner_finish_shutdown_def True i d(1))
      then show ?thesis
        using end_shutdown_flags [OF e(1)] e(2) by (intro exI [of _ Exited]) simp
    qed
  next
    case False
    then have "swbt_daemon_shutdown_sequence_finish w b = end_shutdown b"
      unfolding eq by (simp add: swbt_daemon_production_runner_finish_shutdown_def i)
    then show ?thesis
      using end_shutdown_flags [OF assms(1)] assms(2) by (intro exI [of _ Exited]) simp
  qed
qed

lemma adapter_event_eq: "\<exists>d h. adapter_event w e b = b\<lparr>bk_device := d, bk_host := h\<rparr>"
proof -
  have same: "b = b\<lparr>bk_device := bk_device b, bk_host := bk_host b\<rparr>" "b\<lparr>bk_device := d\<rparr> = b\<lparr>bk_device := d, bk_host := bk_host b\<rparr>"
      "b\<lparr>bk_host := h\<rparr> = b\<lparr>bk_device := bk_device b, bk_host := h\<rparr>" for d h
    by (cases b; simp)+
  have "\<exists>d h. b = b\<lparr>bk_device := d, bk_host := h\<rparr>" "\<exists>d' h. b\<lparr>bk_device := d\<rparr> = b\<lparr>bk_device := d', bk_host := h\<rparr>"
      "\<exists>d h'. b\<lparr>bk_host := h\<rparr> = b\<lparr>bk_device := d, bk_host := h'\<rparr>" for d h
    using same by blast+
  then show ?thesis
    by (cases e) (simp_all add: swbt_daemon_btstack_report_timer_bridge_send_def swbt_daemon_production_record_report_tick_def
        set_app_def Let_def case_prod_beta)
qed

lemma set_timer_eq: "\<exists>d h. set_timer w a b = b\<lparr>bk_report_timer := a, bk_device := d, bk_host := h\<rparr>"
proof -
  have "\<exists>d h. fold (adapter_event w) es b = b\<lparr>bk_device := d, bk_host := h\<rparr>" for es b
  proof (induction es arbitrary: b)
    case Nil
    have "b = b\<lparr>bk_device := bk_device b, bk_host := bk_host b\<rparr>"
      by simp
    then show ?case
      unfolding fold_simps by blast
  next
    case (Cons e es)
    obtain d h where "adapter_event w e b = b\<lparr>bk_device := d, bk_host := h\<rparr>"
      using adapter_event_eq by blast
    moreover obtain d' h' where "fold (adapter_event w) es (b\<lparr>bk_device := d, bk_host := h\<rparr>) =
        b\<lparr>bk_device := d, bk_host := h, bk_device := d', bk_host := h'\<rparr>"
      using Cons by blast
    ultimately show ?case
      by auto
  qed
  then show ?thesis
    by (simp add: set_timer_def)
qed

lemma set_timer_simps [simp]:
  "bk_report_timer (set_timer w a b) = a" "bk_trace (set_timer w a b) = bk_trace b" "bk_initialized (set_timer w a b) = bk_initialized b"
  "bk_hardware_powered (set_timer w a b) = bk_hardware_powered b"
  "bk_reconnect_timer_pending (set_timer w a b) = bk_reconnect_timer_pending b"
  using set_timer_eq [of w a b] by auto

lemma pending_report_timer [simp]:
  "bk_report_timer (set_neutral_pending v b) = bk_report_timer b" "bk_report_timer (set_disconnect_pending v b) = bk_report_timer b"
  by (simp_all add: set_neutral_pending_def set_disconnect_pending_def)

lemma adapter_stop_not_running: "\<not> ta_running (the (swbt_btstack_production_report_timer_stop (Some a)))"
  by (simp add: swbt_btstack_production_report_timer_stop_def swbt_btstack_input_report_timer_adapter_stop_def Let_def)

lemma flags_timer_ready:
  assumes "flags b r m n d x p"
  shows "swbt_daemon_btstack_hid_session_report_timer_is_ready b"
proof -
  obtain ports where ports: "bk_ports b = Some ports"
    using flagsD(12) [OF assms] by (cases "bk_ports b")
      (simp_all add: swbt_btstack_production_ports_is_valid_def swbt_btstack_production_ports_has_ipc_pump_def)
  then have "swbt_btstack_production_report_timer_port_is_valid (po_report_timer ports)"
      "swbt_btstack_production_clock_port_is_valid (po_clock ports)"
    using flagsD(12) [OF assms] by (simp_all add: swbt_btstack_production_ports_is_valid_def)
  then show ?thesis
    using flagsD(11) [OF assms] ports
    by (simp add: swbt_daemon_btstack_hid_session_report_timer_is_ready_def swbt_btstack_production_report_timer_port_is_valid_def
        swbt_btstack_production_clock_port_is_valid_def)
qed

lemma phase_timer_ready: "in_phase b ph \<Longrightarrow> swbt_daemon_btstack_hid_session_report_timer_is_ready b"
  by (cases ph) (auto intro: flags_timer_ready)

lemma phaseD:
  assumes "in_phase b ph"
  shows "sd_neutral_pending (bk_shutdown b) = (ph = AwaitNeutral)" "sd_disconnect_pending (bk_shutdown b) = (ph = AwaitDisconnect)"
    "bk_main_thread b = (ph = Requested)" "bk_disconnect_timer_pending b = (ph = AwaitDisconnect)"
    "sd_requested (bk_shutdown b) = (ph \<noteq> Serving)" "bk_session b" "bk_initialized b"
    "swbt_daemon_shutdown_sequence_is_ready (bk_shutdown b)" "sd_host (bk_shutdown b)"
  using assms by (cases ph; auto dest: flagsD)+

text \<open>The three ways a disconnect or an exit comes about: after the neutral report, on the end of the connection, by the timer.\<close>

lemma can_send_phase:
  assumes "in_phase b ph" "daemon_up env s t b"
  shows "\<exists>ph'. (if ph = AwaitNeutral then ph' \<in> {AwaitDisconnect, Exited} else ph' = ph)
    \<and> in_phase (swbt_daemon_btstack_hid_session_handle_can_send_now w b) ph'
    \<and> daemon_up env s t (swbt_daemon_btstack_hid_session_handle_can_send_now w b)"
proof -
  obtain c a where a: "swbt_btstack_production_report_timer_on_can_send_now (production_timer_env w b) (Some (bk_report_timer b)) = (c, a)"
    by (rule prod.exhaust)
  let ?b = "set_timer w (the a) b"
  have q: "in_phase ?b ph" "daemon_up env s t ?b"
    using assms undisturbed_phase [OF quiet_set_timer] undisturbed_up [OF quiet_set_timer] on_can_send_good a by (metis snd_conv)+
  note n = phaseD(1) [OF q(1)] and r = phase_timer_ready [OF assms(1)]
  show ?thesis
  proof (cases "ph = AwaitNeutral")
    case True
    then have "flags (set_neutral_pending False ?b) True False False False False True"
      using q(1) flag_updates(1) [of ?b] by simp
    moreover have "swbt_daemon_btstack_hid_session_handle_can_send_now w b =
        swbt_daemon_shutdown_sequence_finish w (set_neutral_pending False ?b)"
      using True n r by (simp add: swbt_daemon_btstack_hid_session_handle_can_send_now_def a Let_def)
    ultimately show ?thesis
      using finish_phase [of "set_neutral_pending False ?b" False env s t w] q(2) True by fastforce
  next
    case False
    then show ?thesis
      using q n r a by (auto simp: swbt_daemon_btstack_hid_session_handle_can_send_now_def)
  qed
qed

lemma closed_phase:
  assumes "in_phase b ph" "daemon_up env s t b"
  shows "in_phase (swbt_daemon_btstack_hid_session_handle_connection_closed w b) (if ph \<in> {AwaitNeutral, AwaitDisconnect} then Exited else ph)
    \<and> daemon_up env s t (swbt_daemon_btstack_hid_session_handle_connection_closed w b)"
proof -
  let ?b = "set_timer w (the (swbt_btstack_production_report_timer_stop (Some (bk_report_timer b)))) b"
  have q: "in_phase ?b ph" "daemon_up env s t ?b" "\<not> ta_running (bk_report_timer ?b)"
    using assms undisturbed_phase [OF quiet_set_timer [OF timer_ops_good(4)]] undisturbed_up [OF quiet_set_timer [OF timer_ops_good(4)]]
      adapter_stop_not_running by simp_all
  note n = phaseD(1,2) [OF q(1)] and r = phase_timer_ready [OF assms(1)]
  consider (neutral) "ph = AwaitNeutral" | (disconnect) "ph = AwaitDisconnect" | (other) "ph \<notin> {AwaitNeutral, AwaitDisconnect}"
    by blast
  then show ?thesis
  proof cases
    case neutral
    then have "flags (set_neutral_pending False ?b) True False False False False True"
      using q(1) flag_updates(1) [of ?b] by simp
    moreover have "swbt_daemon_btstack_hid_session_handle_connection_closed w b =
        swbt_daemon_shutdown_sequence_finish w (set_neutral_pending False ?b)"
      using neutral n r by (simp add: swbt_daemon_btstack_hid_session_handle_connection_closed_def)
    ultimately show ?thesis
      using finish_phase [of "set_neutral_pending False ?b" False env s t w] q(2,3) neutral by fastforce
  next
    case disconnect
    then have "flags (set_disconnect_pending False ?b) True False False False True True"
      using q(1) flag_updates(2) [of ?b] by simp
    moreover have "swbt_daemon_btstack_hid_session_handle_connection_closed w b =
        swbt_daemon_shutdown_sequence_finish w (set_disconnect_pending False ?b)"
      using disconnect n r by (simp add: swbt_daemon_btstack_hid_session_handle_connection_closed_def)
    ultimately show ?thesis
      using finish_phase [of "set_disconnect_pending False ?b" True env s t w] q(2,3) disconnect by fastforce
  next
    case other
    then show ?thesis
      using n q r by (simp add: swbt_daemon_btstack_hid_session_handle_connection_closed_def)
  qed
qed


lemma disconnect_timeout_phase:
  assumes "in_phase b AwaitDisconnect" "daemon_up env s t b"
  shows "in_phase (the (swbt_daemon_production_runner_shutdown_disconnect_timeout w (Some b))) Exited
    \<and> daemon_up env s t (the (swbt_daemon_production_runner_shutdown_disconnect_timeout w (Some b)))"
proof -
  let ?b = "set_disconnect_pending False (b\<lparr>bk_disconnect_timer_pending := False\<rparr>)"
  let ?c = "swbt_daemon_production_runner_stop_active_report_timer w ?b"
  have f: "flags ?c True False False False False True" "daemon_up env s t ?c"
    using flag_updates(2) [OF flag_updates(3), of b] assms undisturbed_flags [OF stop_report_timer_quiet] undisturbed_up [OF stop_report_timer_quiet]
    by (simp, simp)
  have r: "\<not> ta_running (bk_report_timer ?c)"
    by (simp add: swbt_daemon_production_runner_stop_active_report_timer_def adapter_stop_not_running)
  have "the (swbt_daemon_production_runner_shutdown_disconnect_timeout w (Some b)) = swbt_daemon_shutdown_sequence_finish w ?c"
    using phaseD [OF assms(1)] flagsD(2) [OF f(1)]
    by (simp add: swbt_daemon_production_runner_shutdown_disconnect_timeout_def swbt_daemon_shutdown_sequence_finish_def Let_def)
  then show ?thesis
    using finish_phase [OF f] r by fastforce
qed

lemma main_thread_phase:
  assumes "in_phase b Requested" "daemon_up env s t b"
  shows "\<exists>ph. ph \<in> {AwaitNeutral, AwaitDisconnect, Exited} \<and> in_phase (loop_exec (LMainThread w) b) ph
    \<and> daemon_up env s t (loop_exec (LMainThread w) b)"
proof -
  let ?b = "b\<lparr>bk_main_thread := False\<rparr>"
  have b: "flags ?b True False False False False True" "daemon_up env s t ?b"
    using flag_updates(4) [of b] assms by (simp, simp)
  have up: "host_up env s t ?b"
    using b(2) by (simp add: daemon_up_def)
  obtain p where p: "bk_host ?b = Some p"
    using host_up_process [OF up] by metis
  obtain r p' b' where run: "run_process w swbt_daemon_process_send_neutral_now p ?b = (r, p', b')"
    by (rule prod_cases3)
  let ?c = "b'\<lparr>bk_host := Some p'\<rparr>"
  have q: "undisturbed env s t ?b ?c"
    by (rule neutral_quiet [OF p run up])
  have c: "flags ?c True False False False False True" "daemon_up env s t ?c"
    using undisturbed_flags [OF q] undisturbed_up [OF q] b by auto
  have eq: "loop_exec (LMainThread w) b = (if r = SWBT_DAEMON_PROCESS_PENDING then set_neutral_pending True ?c
      else swbt_daemon_shutdown_sequence_finish w ?c)"
    using phaseD [OF assms(1)] p run by (simp add: swbt_daemon_shutdown_sequence_on_main_thread_def Let_def)
  show ?thesis
  proof (cases "r = SWBT_DAEMON_PROCESS_PENDING")
    case True
    then show ?thesis
      using flag_updates(1) [OF c(1), of True] c(2) unfolding eq by (intro exI [of _ AwaitNeutral]) simp
  next
    case False
    then show ?thesis
      using finish_phase [OF c, of w] unfolding eq by auto
  qed
qed

text \<open>What the device makes of a packet.\<close>

definition hid_event_of :: "btstack_numbers \<Rightarrow> u8 \<Rightarrow> bytes option \<Rightarrow> swbt_btstack_hid_event_type_t" where
  "hid_event_of B packet_type packet = (case swbt_btstack_hid_event_decode B packet_type packet (Some zero_event) of
     (result, event) \<Rightarrow> if result = SWBT_BTSTACK_HID_EVENT_OK then ev_type (the event) else SWBT_BTSTACK_HID_EVENT_NONE)"

text \<open>The machine: the phases an event can lead to.\<close>

fun phase_next :: "loop_event \<Rightarrow> shutdown_phase \<Rightarrow> shutdown_phase set" where
  "phase_next LShutdownRequest Serving = {Requested}"
| "phase_next (LMainThread w) Requested = {AwaitNeutral, AwaitDisconnect, Exited}"
| "phase_next (LHidPacket B w packet_type packet) AwaitNeutral = (case hid_event_of B packet_type packet of
     SWBT_BTSTACK_HID_EVENT_CAN_SEND_NOW \<Rightarrow> {AwaitDisconnect, Exited}
   | SWBT_BTSTACK_HID_EVENT_CONNECTION_CLOSED \<Rightarrow> {Exited}
   | _ \<Rightarrow> {AwaitNeutral})"
| "phase_next (LHidPacket B w packet_type packet) AwaitDisconnect =
     (if hid_event_of B packet_type packet = SWBT_BTSTACK_HID_EVENT_CONNECTION_CLOSED then {Exited} else {AwaitDisconnect})"
| "phase_next (LDisconnectTimer w) AwaitDisconnect = {Exited}"
| "phase_next _ ph = {ph}"

text \<open>Events as the outside can produce them.\<close>

fun loop_ok :: "loop_event \<Rightarrow> bool" where
  "loop_ok (LHidPacket B w packet_type packet) = env_ok w"
| "loop_ok (LOutputReport w options) = env_ok w"
| "loop_ok (LPoll ienv now) = build_ok (env_build ienv)"
| "loop_ok (LDomain op) = other_client op"
| "loop_ok _ = True"

lemma packet_phase:
  assumes "in_phase b ph" "daemon_up env s t b" "env_ok w"
  shows "\<exists>ph'. ph' \<in> phase_next (LHidPacket B w packet_type packet) ph
    \<and> in_phase (loop_exec (LHidPacket B w packet_type packet) b) ph'
    \<and> daemon_up env s t (loop_exec (LHidPacket B w packet_type packet) b)"
proof -
  obtain result event where d: "swbt_btstack_hid_event_decode B packet_type packet (Some zero_event) = (result, event)"
    by (rule prod.exhaust)
  have dev: "dev_initialized (bk_device b)" "dev_hid_registered (bk_device b)" "bk_session b"
    using assms(2) phaseD(6) [OF assms(1)] by (auto simp: daemon_up_def device_up_def device_inv_def)
  let ?h = "swbt_daemon_btstack_hid_session_packet_handler B w packet_type packet b"
  consider (send) "hid_event_of B packet_type packet = SWBT_BTSTACK_HID_EVENT_CAN_SEND_NOW"
      "?h = swbt_daemon_btstack_hid_session_handle_can_send_now w b"
    | (closed) "hid_event_of B packet_type packet = SWBT_BTSTACK_HID_EVENT_CONNECTION_CLOSED"
      "?h = swbt_daemon_btstack_hid_session_handle_connection_closed w b"
    | (other) "hid_event_of B packet_type packet \<notin> {SWBT_BTSTACK_HID_EVENT_CAN_SEND_NOW, SWBT_BTSTACK_HID_EVENT_CONNECTION_CLOSED}"
      "undisturbed env s t b ?h"
    using dev opened_quiet [OF assms(3), of env s t b] confirmation_quiet [of env s t b]
    by (cases "result = SWBT_BTSTACK_HID_EVENT_OK"; cases "ev_type (the event)")
       (auto simp: hid_event_of_def swbt_daemon_btstack_hid_session_packet_handler_def swbt_btstack_device_recv_def d)
  then show ?thesis
  proof cases
    case send
    then show ?thesis
      using can_send_phase [OF assms(1,2), of w] by (cases ph) auto
  next
    case closed
    then show ?thesis
      using closed_phase [OF assms(1,2), of w] by (cases ph) auto
  next
    case other
    then have "in_phase ?h ph" "daemon_up env s t ?h"
      using undisturbed_phase undisturbed_up assms(1,2) by blast+
    moreover have "ph \<in> phase_next (LHidPacket B w packet_type packet) ph"
      using other(1) by (cases ph) (auto split: swbt_btstack_hid_event_type_t.split)
    ultimately show ?thesis
      by auto
  qed
qed


lemma loop_quiet:
  assumes "daemon_up env s t b" "loop_ok e"
  shows "(case e of LReportTimer _ \<Rightarrow> True | LReconnectTimer \<Rightarrow> True | LOutputReport _ _ \<Rightarrow> True | LPoll _ _ \<Rightarrow> True | LDomain _ \<Rightarrow> True | _ \<Rightarrow> False)
    \<Longrightarrow> undisturbed env s t b (loop_exec e b)"
proof (cases e)
  case (LOutputReport w options)
  have up: "host_up env s t b"
    using assms(1) by (simp add: daemon_up_def)
  obtain p where p: "bk_host b = Some p"
    using host_up_process [OF up] by metis
  obtain r p' b' where run: "run_process w (receive_process options) p b = (r, p', b')"
    by (rule prod_cases3)
  then show ?thesis
    using receive_quiet [OF _ p run up] LOutputReport assms(2) p by simp
next
  case (LDomain op)
  have "loop_exec e b = set_app (snd (domain_exec op (swbt_daemon_process_app (bk_host b)))) b"
    unfolding LDomain loop_exec.simps on_host_def set_app_def
    by (cases "bk_host b") (simp_all add: swbt_daemon_process_app_def swbt_runtime_host_app_def)
  then show ?thesis
    using quiet_domain [of op _ b env s t] LDomain assms(2) by simp
qed (use assms poll_quiet reconnect_timeout_quiet quiet_set_timer timer_ops_good(5) in auto)

lemma loop_step_phase:
  assumes "in_phase b ph" "daemon_up env s t b" "loop_ok e"
  shows "\<exists>ph'. ph' \<in> phase_next e ph \<and> in_phase (loop_exec e b) ph' \<and> daemon_up env s t (loop_exec e b)"
proof (cases e)
  case LShutdownRequest
  have "in_phase (loop_exec e b) (if ph = Serving then Requested else ph)" "daemon_up env s t (loop_exec e b)"
    using assms(1,2) phaseD [OF assms(1)] unfolding LShutdownRequest
    by (cases ph; simp add: swbt_daemon_shutdown_sequence_request_def bk_emit_def flags_def power_calls_append daemon_up_def
        host_up_def swbt_daemon_shutdown_sequence_is_ready_def)+
  then show ?thesis
    unfolding LShutdownRequest by (cases ph) auto
next
  case (LMainThread w)
  then show ?thesis
    using main_thread_phase [of b env s t w] assms phaseD(3) [OF assms(1)] by (cases ph) auto
next
  case (LHidPacket B w packet_type packet)
  then show ?thesis
    using packet_phase [OF assms(1,2)] assms(3) by simp
next
  case (LDisconnectTimer w)
  then show ?thesis
    using disconnect_timeout_phase [of b env s t w] assms phaseD(4) [OF assms(1)] by (cases ph) auto
qed (use loop_quiet [OF assms(2,3)] undisturbed_phase undisturbed_up assms(1,2) in \<open>cases ph; fastforce\<close>)+


text \<open>All phases a list of events can lead to.\<close>

fun phase_runs :: "loop_event list \<Rightarrow> shutdown_phase \<Rightarrow> shutdown_phase set" where
  "phase_runs [] ph = {ph}"
| "phase_runs (e # es) ph = (\<Union>ph'\<in>phase_next e ph. phase_runs es ph')"

lemma loop_run_phase:
  assumes "in_phase b ph" "daemon_up env s t b" "\<forall>e\<in>set es. loop_ok e"
  shows "\<exists>ph'\<in>phase_runs es ph. in_phase (loop_run es b) ph' \<and> daemon_up env s t (loop_run es b)"
  using assms
proof (induction es arbitrary: b ph)
  case (Cons e es)
  obtain ph1 where ph1: "ph1 \<in> phase_next e ph" "in_phase (loop_exec e b) ph1" "daemon_up env s t (loop_exec e b)"
    using loop_step_phase [OF Cons.prems(1,2)] Cons.prems(3) by auto
  then obtain ph' where "ph' \<in> phase_runs es ph1" "in_phase (loop_run es (loop_exec e b)) ph'"
      "daemon_up env s t (loop_run es (loop_exec e b))"
    using Cons.IH [OF ph1(2,3)] Cons.prems(3) by auto
  then show ?case
    using ph1(1) by (auto simp: loop_run_def)
qed (simp add: loop_run_def)

text \<open>Progress: once the four events have happened in this order, whatever else happens in between, the exit is triggered.\<close>

fun progress :: "shutdown_phase \<Rightarrow> nat" where
  "progress Serving = 0"
| "progress Requested = 1"
| "progress AwaitNeutral = 2"
| "progress AwaitDisconnect = 3"
| "progress Exited = 4"

lemma progress_mono: "ph' \<in> phase_next e ph \<Longrightarrow> progress ph \<le> progress ph'"
  by (induction e ph rule: phase_next.induct) (auto split: if_splits swbt_btstack_hid_event_type_t.splits)

lemma progress_exited: "progress ph = 4 \<longleftrightarrow> ph = Exited"
  by (cases ph) simp_all

lemma subseq_drop_mono: "subseq (drop i L) es \<Longrightarrow> i \<le> j \<Longrightarrow> subseq (drop j L) es"
proof -
  assume "subseq (drop i L) es" "i \<le> j"
  moreover have "drop j L = drop (j - i) (drop i L)"
    using \<open>i \<le> j\<close> by simp
  ultimately show ?thesis
    using subseq_order.order_trans [of "drop j L" "drop i L" es] by (metis list_emb_append2 append_take_drop_id subseq_order.order_refl)
qed

lemma phase_progress:
  assumes L_def: "L = [LShutdownRequest, LMainThread w1, LHidPacket B w2 packet_type packet, LDisconnectTimer w3]"
    and "hid_event_of B packet_type packet \<in> {SWBT_BTSTACK_HID_EVENT_CAN_SEND_NOW, SWBT_BTSTACK_HID_EVENT_CONNECTION_CLOSED}"
    and "subseq (drop (progress ph) L) es" "ph' \<in> phase_runs es ph"
  shows "ph' = Exited"
  using assms(3,4)
proof (induction es arbitrary: ph rule: list.induct)
  case Nil
  then have "progress ph = 4"
    by (cases ph) (auto simp: L_def)
  then show ?case
    using Nil progress_exited by simp
next
  case (Cons e es)
  obtain ph1 where ph1: "ph1 \<in> phase_next e ph" "ph' \<in> phase_runs es ph1"
    using Cons.prems(2) by auto
  have "subseq (drop (progress ph1) L) es"
  proof (cases "drop (progress ph) L \<noteq> [] \<and> hd (drop (progress ph) L) = e")
    case True
    then have "subseq (drop (Suc (progress ph)) L) es"
      using Cons.prems(1) by (metis drop_Suc list.collapse subseq_Cons2_iff tl_drop)
    moreover have "Suc (progress ph) \<le> progress ph1"
      using True ph1(1) assms(2) by (cases ph) (auto simp: L_def)
    ultimately show ?thesis
      by (rule subseq_drop_mono)
  next
    case False
    then have "subseq (drop (progress ph) L) es"
      using Cons.prems(1) by (metis list.sel(1) list_emb_Nil subseq_Cons2_neq list.exhaust)
    then show ?thesis
      using progress_mono [OF ph1(1)] by (rule subseq_drop_mono)
  qed
  then show ?case
    using Cons.IH ph1(2) by blast
qed

end
