(* ===== verification/DaemonRun.thy ===== *)
theory DaemonRun
  imports Shutdown
begin

text \<open>
  The main function of the daemon: start and end of the process on the runner, what is left when it returns, a run where
  the outside works, and what the console sees of a shutdown.
\<close>

section \<open>Start and end of the process on the runner\<close>

lemma stopped_host:
  assumes "daemon_process env s t p" "\<not> pr_running p"
  shows "pr_initialized p" "host_initialized (pr_runtime p)" "\<not> host_running (pr_runtime p)" "\<not> host_hid_registered (pr_runtime p)"
    "\<not> host_output_handler_started (pr_runtime p)" "\<not> host_report_timer_started (pr_runtime p)"
  using assms by (auto simp: process_inv_def process_ok_def host_inv_def host_resources_def)

lemma running_host:
  assumes "daemon_process env s t p" "pr_running p"
  shows "pr_initialized p" "host_initialized (pr_runtime p)" "host_hid_registered (pr_runtime p)"
    "host_output_handler_started (pr_runtime p)" "host_report_timer_started (pr_runtime p)"
  using assms by (auto simp: process_inv_def process_ok_def host_inv_def host_resources_def)

lemma process_stop_trace:
  "host_trace (pr_runtime (the (swbt_daemon_process_stop (Some p)))) =
     (if pr_initialized p then host_trace (the (swbt_runtime_host_stop (Some (pr_runtime p)))) else host_trace (pr_runtime p))"
  by (simp add: swbt_daemon_process_stop_def set_lifecycle_def store_runtime_control_def Let_def case_prod_beta)

text \<open>The calls on the backend that a start makes, in the four ways it can go.\<close>

lemma process_start_calls:
  assumes "daemon_process env s t p" "\<not> pr_running p"
  shows "\<exists>r p' calls. swbt_daemon_process_start henv (Some p) = (r, Some p') \<and> daemon_process env s t p'
    \<and> host_trace (pr_runtime p') = host_trace (pr_runtime p) @ calls \<and> pr_running p' = (r = SWBT_DAEMON_PROCESS_OK)
    \<and> (if r = SWBT_DAEMON_PROCESS_OK
       then he_hid_register henv = 0 \<and> he_report_timer_start henv = 0 \<and> calls = [HidRegister 0, OutputHandlerStart, ReportTimerStart 0]
       else calls = [] \<and> fst (the (pb_ipc_start (pr_backend p)) (pr_context p) (runtime_control (pr_runtime p))) \<noteq> 0
         \<or> he_hid_register henv \<noteq> 0 \<and> calls = [HidRegister (he_hid_register henv)]
         \<or> he_hid_register henv = 0 \<and> he_report_timer_start henv \<noteq> 0
           \<and> calls = [HidRegister 0, OutputHandlerStart, ReportTimerStart (he_report_timer_start henv), OutputHandlerStop, HidStop])"
proof -
  note h = stopped_host [OF assms]
  obtain code ctx cs where i: "the (pb_ipc_start (pr_backend p)) (pr_context p) (runtime_control (pr_runtime p)) = (code, ctx, cs)"
    by (rule prod_cases3)
  obtain r po where start: "swbt_daemon_process_start henv (Some p) = (r, po)"
    by (rule prod.exhaust)
  then obtain p' where po: "po = Some p'"
    using h(1) assms(2) i
    by (auto simp: swbt_daemon_process_start_def swbt_daemon_process_stop_def Let_def case_prod_beta split: if_splits)
  have "daemon_process env s t p'"
    using pump.step_ok [OF assms(1) proc_start] start po by blast
  then show ?thesis
    using start po h assms(2) i
    by (cases "code = 0"; cases "he_hid_register henv = 0"; cases "he_report_timer_start henv = 0")
       (auto simp: swbt_daemon_process_start_def swbt_runtime_host_start_def swbt_runtime_host_stop_def process_stop_trace
          swbt_runtime_host_store_neutral_def store_runtime_control_def set_lifecycle_def Let_def swbt_daemon_process_stop_def
          case_prod_beta host_emit_def split: if_splits)
qed


text \<open>The IPC service at rest.\<close>

definition ipc_off :: "swbt_daemon_ipc_runner_t \<Rightarrow> bool" where
  "ipc_off r \<longleftrightarrow> \<not> rn_running r \<and> \<not> rn_has_connection r \<and> \<not> srv_listening (rn_server r)"

lemma serving_off: "pump_serving False c a \<Longrightarrow> ipc_off (snd c)"
  by (auto simp: pump_serving_def runner_serving_def runner_inv_def server_ok_def ipc_off_def)

lemma process_destroy_calls:
  assumes "daemon_process env s t p"
  shows "\<exists>p'. swbt_daemon_process_destroy (Some p) = Some p' \<and> ipc_off (snd (pr_context p'))
    \<and> host_trace (pr_runtime p') = host_trace (pr_runtime p)
        @ (if pr_running p then [ReportTimerStop, OutputHandlerStop, HidStop] else [])"
proof -
  have ok: "process_ok (pump_ipc_start env s t) (pump_ipc_stop s t) pump_serving p"
    using assms by (simp add: process_inv_def)
  obtain p1 where p1: "swbt_daemon_process_stop (Some p) = Some p1" "daemon_process env s t p1" "\<not> pr_running p1"
    using pump.stop_ok [OF ok] by blast
  have "host_trace (pr_runtime p1) = host_trace (pr_runtime p)
      @ (if pr_running p then [ReportTimerStop, OutputHandlerStop, HidStop] else [])"
    using process_stop_trace [of p] p1(1) running_host [OF assms] stopped_host [OF assms]
    by (cases "pr_running p") (simp_all add: swbt_runtime_host_stop_def swbt_runtime_host_store_neutral_def Let_def)
  moreover have "ipc_off (snd (pr_context p1))"
    using p1(2,3) by (auto simp: process_inv_def process_ok_def intro: serving_off)
  ultimately show ?thesis
    using stopped_host [OF p1(2,3)]
    by (simp add: swbt_daemon_process_destroy_def p1(1) swbt_runtime_host_destroy_def swbt_runtime_host_stop_def
        swbt_runtime_host_store_neutral_def zero_host_def Let_def)
qed

section \<open>The runner at rest\<close>

definition device_off :: "device \<Rightarrow> bool" where
  "device_off d \<longleftrightarrow> port_calls (dev_trace d) (False, False) = Some (False, False) \<and> \<not> dev_platform_started d \<and> \<not> dev_hid_registered d"

definition at_rest :: "runner \<Rightarrow> bool" where
  "at_rest b \<longleftrightarrow> bk_initialized b \<and> \<not> bk_session b \<and> device_off (bk_device b) \<and> \<not> bk_report_timer_initialized b
     \<and> \<not> ta_running (bk_report_timer b) \<and> \<not> ta_timer_pending (bk_report_timer b)
     \<and> g_output_report_handler (bk_callbacks b) = None"

lemma register_effect:
  assumes "at_rest b" "swbt_btstack_production_ports_is_valid (bk_ports b)" "0 < length (bk_hid_service_buffer b)"
  shows "\<exists>code d. swbt_daemon_production_hid_register w (Some b) = (code, Some (b\<lparr>bk_session := (code = 0), bk_device := d\<rparr>))
    \<and> (if code = 0 then device_up d else device_off d)"
proof -
  obtain ports where p: "bk_ports b = Some ports" "swbt_btstack_device_port_is_valid (Some (po_device ports))"
    using assms(2) by (cases "bk_ports b") (auto simp: swbt_btstack_production_ports_is_valid_def
        swbt_btstack_production_ports_has_ipc_pump_def swbt_btstack_production_device_port_is_valid_def swbt_btstack_device_port_is_valid_def)
  let ?d0 = "\<lparr>dev_initialized = True, dev_platform_started = False, dev_hid_registered = False, dev_trace = dev_trace (bk_device b)\<rparr>"
  let ?o = "\<lparr>do_service_buffer = Some (bk_hid_service_buffer b),
      do_registration = Some (swbt_btstack_production_hid_registration_config\<lparr>reg_packet_handler := True\<rparr>)\<rparr>"
  have "swbt_btstack_device_init (Some (bk_device b)) (Some (po_device ports)) = (SWBT_BTSTACK_DEVICE_OK, Some ?d0)"
    by (simp add: swbt_btstack_device_init_def p)
  moreover have "\<exists>r d. swbt_btstack_device_open (pv_device w) (Some ?d0) ?o = (r, Some d)
      \<and> (if r = SWBT_BTSTACK_DEVICE_OK then device_up d else device_off d)"
    using assms(1,3)
    by (auto simp: swbt_btstack_device_open_def at_rest_def device_off_def device_up_def device_inv_def port_calls_append Let_def)
  then obtain r d where "swbt_btstack_device_open (pv_device w) (Some ?d0) ?o = (r, Some d)"
      "if r = SWBT_BTSTACK_DEVICE_OK then device_up d else device_off d"
    by blast
  ultimately show ?thesis
    using assms p
    by (intro exI [of _ "if r = SWBT_BTSTACK_DEVICE_OK then 0 else - 1"] exI [of _ d])
       (auto simp: swbt_daemon_production_hid_register_def swbt_daemon_btstack_hid_session_register_def at_rest_def
          swbt_daemon_btstack_hid_session_register_is_valid_def Let_def)
qed


lemma timer_init_idle:
  assumes "\<not> ta_running a" "\<not> ta_timer_pending a" "swbt_btstack_production_report_timer_init (Some a) (Some cfg) = (code, ao)"
    "tc_hid_sender cfg"
  shows "\<exists>a'. ao = Some a' \<and> \<not> ta_running a' \<and> \<not> ta_timer_pending a' \<and> (code = 0 \<longrightarrow> timer_good a')"
proof -
  let ?cfg = "cfg\<lparr>tc_backend := Some swbt_btstack_input_report_timer_backend_btstack\<rparr>"
  obtain r where init: "swbt_btstack_input_report_timer_adapter_init (Some a) (Some ?cfg) = (r, ao)"
      "code = (if r = SWBT_BTSTACK_INPUT_REPORT_TIMER_OK then 0 else - 1)"
    using assms(3) by (auto simp: swbt_btstack_production_report_timer_init_def split: prod.splits)
  have "\<exists>a'. snd (swbt_btstack_input_report_timer_adapter_init (Some a) (Some ?cfg)) = Some a' \<and> \<not> ta_running a' \<and> \<not> ta_timer_pending a'
      \<and> (fst (swbt_btstack_input_report_timer_adapter_init (Some a) (Some ?cfg)) = SWBT_BTSTACK_INPUT_REPORT_TIMER_OK \<longrightarrow> ta_hid_sender a')"
    using assms(1,2,4) by (simp add: swbt_btstack_input_report_timer_adapter_init_def Let_def case_prod_beta)
  then obtain a' where a': "ao = Some a'" "\<not> ta_running a'" "\<not> ta_timer_pending a'" "r = SWBT_BTSTACK_INPUT_REPORT_TIMER_OK \<longrightarrow> ta_hid_sender a'"
    unfolding init(1) by auto
  have "timer_good a'" if "code = 0"
  proof -
    have r: "r = SWBT_BTSTACK_INPUT_REPORT_TIMER_OK"
      using that init(2) by (simp split: if_splits)
    then have "adapter_initial a'"
      using init(1) a'(1) unfolding adapter_initial_def by blast
    then show ?thesis
      using adapter_init_inv(1) a'(4) r by (auto simp: adapter_inv_def timer_good_def)
  qed
  then show ?thesis
    using a' by blast
qed

lemma timer_start_effect:
  assumes "bk_initialized b" "\<not> ta_running (bk_report_timer b)" "\<not> ta_timer_pending (bk_report_timer b)" "\<not> bk_report_timer_initialized b"
  shows "\<exists>code a. swbt_daemon_production_process_report_timer_start w (Some b) =
      (code, Some (b\<lparr>bk_report_timer := a, bk_report_timer_initialized := (code = 0)\<rparr>))
    \<and> \<not> ta_running a \<and> \<not> ta_timer_pending a \<and> (code = 0 \<longrightarrow> timer_good a)"
proof (cases "swbt_daemon_btstack_report_timer_bridge_is_valid b")
  case True
  obtain code ao where init: "swbt_btstack_production_report_timer_init (Some (bk_report_timer b))
      (Some (swbt_daemon_btstack_report_timer_bridge_config b)) = (code, ao)"
    by (rule prod.exhaust)
  obtain a where a: "ao = Some a" "\<not> ta_running a" "\<not> ta_timer_pending a" "code = 0 \<longrightarrow> timer_good a"
    using timer_init_idle [OF assms(2,3) init] by (auto simp: swbt_daemon_btstack_report_timer_bridge_config_def)
  have "b\<lparr>bk_report_timer := a\<rparr> = b\<lparr>bk_report_timer := a, bk_report_timer_initialized := False\<rparr>"
    using assms(4) by (cases b) simp
  then show ?thesis
    using assms(1) True a
    by (intro exI [of _ "if code = 0 then 0 else - 1"] exI [of _ a])
       (simp add: swbt_daemon_production_process_report_timer_start_def swbt_daemon_btstack_report_timer_bridge_start_def init)
next
  case False
  have "b = b\<lparr>bk_report_timer := bk_report_timer b, bk_report_timer_initialized := False\<rparr>"
    using assms(4) by (cases b) simp
  then show ?thesis
    using assms False
    by (intro exI [of _ "- 1"] exI [of _ "bk_report_timer b"])
       (simp add: swbt_daemon_production_process_report_timer_start_def swbt_daemon_btstack_report_timer_bridge_start_def)
qed

lemma bridge_valid:
  assumes "swbt_btstack_production_ports_is_valid (bk_ports b)"
  shows "swbt_daemon_btstack_report_timer_bridge_is_valid b"
proof -
  obtain ports where ports: "bk_ports b = Some ports"
    using assms by (cases "bk_ports b")
      (simp_all add: swbt_btstack_production_ports_is_valid_def swbt_btstack_production_ports_has_ipc_pump_def)
  then have "swbt_btstack_production_report_timer_port_is_valid (po_report_timer ports)"
    using assms by (simp add: swbt_btstack_production_ports_is_valid_def)
  then show ?thesis
    using ports
    by (simp add: swbt_daemon_btstack_report_timer_bridge_is_valid_def swbt_btstack_production_report_timer_port_is_valid_def)
qed

text \<open>The calls of a stop bring the runner to rest.\<close>

lemma stop_events:
  assumes "bk_initialized b"
  shows "backend_event w handler HidStop b =
      b\<lparr>bk_session := False, bk_device := the (swbt_btstack_device_close (Some (bk_device b)))\<rparr>"
    and "backend_event w handler OutputHandlerStop b =
      b\<lparr>bk_callbacks := swbt_btstack_output_report_callbacks_unregister (bk_callbacks b)\<rparr>"
    and "backend_event w handler OutputHandlerStart b =
      b\<lparr>bk_callbacks := snd (swbt_btstack_output_report_callbacks_register (bk_callbacks b) (Some handler))\<rparr>"
  using assms
  by (simp_all add: swbt_daemon_production_hid_stop_def swbt_daemon_btstack_hid_session_stop_def
      swbt_daemon_production_output_handler_stop_def swbt_daemon_production_output_handler_start_def)

lemma close_off: "device_inv d \<Longrightarrow> device_off (the (swbt_btstack_device_close (Some d)))"
  by (auto simp: swbt_btstack_device_close_def device_inv_def device_off_def port_calls_append Let_def)

lemma stop_brings_rest:
  assumes "bk_initialized b" "device_inv (bk_device b)" "\<not> bk_report_timer_initialized b"
    "\<not> ta_running (bk_report_timer b)" "\<not> ta_timer_pending (bk_report_timer b)"
  shows "\<exists>c d. fold (backend_event w handler) [OutputHandlerStop, HidStop] b = b\<lparr>bk_callbacks := c, bk_session := False, bk_device := d\<rparr>
    \<and> at_rest (b\<lparr>bk_callbacks := c, bk_session := False, bk_device := d\<rparr>)"
  using assms close_off [OF assms(2)]
  by (intro exI [of _ "swbt_btstack_output_report_callbacks_unregister (bk_callbacks b)"]
        exI [of _ "the (swbt_btstack_device_close (Some (bk_device b)))"])
     (simp add: stop_events at_rest_def swbt_btstack_output_report_callbacks_unregister_def del: backend_event.simps)


text \<open>Two runners that differ only in what starting and stopping touches.\<close>

definition same_setup :: "runner \<Rightarrow> runner \<Rightarrow> bool" where
  "same_setup b b' \<longleftrightarrow> b' = b\<lparr>bk_session := bk_session b', bk_device := bk_device b', bk_callbacks := bk_callbacks b',
     bk_report_timer := bk_report_timer b', bk_report_timer_initialized := bk_report_timer_initialized b'\<rparr>"

lemma same_setupD:
  assumes "same_setup b b'"
  shows "bk_trace b' = bk_trace b" "bk_hardware_powered b' = bk_hardware_powered b" "bk_disconnect_timer_pending b' = bk_disconnect_timer_pending b"
    "bk_reconnect_timer_pending b' = bk_reconnect_timer_pending b" "bk_main_thread b' = bk_main_thread b" "bk_host b' = bk_host b"
    "bk_shutdown b' = bk_shutdown b" "bk_config b' = bk_config b" "bk_ports b' = bk_ports b" "bk_initialized b' = bk_initialized b"
  using assms unfolding same_setup_def by (cases b; cases b'; simp)+

lemma run_start:
  assumes "at_rest b" "swbt_btstack_production_ports_is_valid (bk_ports b)" "0 < length (bk_hid_service_buffer b)"
    "daemon_process env s t p" "\<not> pr_running p" "run_process w swbt_daemon_process_start p b = (r, p', b')"
  shows "daemon_process env s t p' \<and> pr_running p' = (r = SWBT_DAEMON_PROCESS_OK) \<and> same_setup b b'
    \<and> (if r = SWBT_DAEMON_PROCESS_OK then bk_session b' \<and> device_up (bk_device b') \<and> bk_report_timer_initialized b' \<and> timer_good (bk_report_timer b')
       else at_rest b')"
proof -
  let ?handler = "host_output_handler (pr_runtime p)"
  obtain code d where reg: "swbt_daemon_production_hid_register w (Some b) = (code, Some (b\<lparr>bk_session := (code = 0), bk_device := d\<rparr>))"
    and d: "if code = 0 then device_up d else device_off d"
    using register_effect [OF assms(1-3)] by blast
  let ?b1 = "b\<lparr>bk_session := (code = 0), bk_device := d\<rparr>"
  let ?b2 = "?b1\<lparr>bk_callbacks := snd (swbt_btstack_output_report_callbacks_register (bk_callbacks b) (Some ?handler))\<rparr>"
  have rest: "bk_initialized b" "\<not> bk_report_timer_initialized b" "\<not> ta_running (bk_report_timer b)" "\<not> ta_timer_pending (bk_report_timer b)"
    using assms(1) by (simp_all add: at_rest_def)
  obtain tc a where tm: "swbt_daemon_production_process_report_timer_start w (Some ?b2) =
      (tc, Some (?b2\<lparr>bk_report_timer := a, bk_report_timer_initialized := (tc = 0)\<rparr>))" and a: "\<not> ta_running a" "\<not> ta_timer_pending a" "tc = 0 \<longrightarrow> timer_good a"
    using timer_start_effect [of ?b2 w] rest by auto
  let ?b3 = "?b2\<lparr>bk_report_timer := a, bk_report_timer_initialized := (tc = 0)\<rparr>"
  have out: "swbt_daemon_production_output_handler_start ?handler (Some ?b1) = Some ?b2"
    using rest by (simp add: swbt_daemon_production_output_handler_start_def)
  have env: "he_hid_register (production_host_env w ?handler b) = code" "he_report_timer_start (production_host_env w ?handler b) = tc"
    unfolding production_host_env_def reg prod.case Let_def out tm by simp_all
  obtain r1 p1 calls where p1: "swbt_daemon_process_start (production_host_env w ?handler b) (Some p) = (r1, Some p1)"
      "daemon_process env s t p1" "host_trace (pr_runtime p1) = host_trace (pr_runtime p) @ calls" "pr_running p1 = (r1 = SWBT_DAEMON_PROCESS_OK)"
    and calls: "if r1 = SWBT_DAEMON_PROCESS_OK then code = 0 \<and> tc = 0 \<and> calls = [HidRegister 0, OutputHandlerStart, ReportTimerStart 0]
       else calls = [] \<and> fst (the (pb_ipc_start (pr_backend p)) (pr_context p) (runtime_control (pr_runtime p))) \<noteq> 0
         \<or> code \<noteq> 0 \<and> calls = [HidRegister code]
         \<or> code = 0 \<and> tc \<noteq> 0 \<and> calls = [HidRegister 0, OutputHandlerStart, ReportTimerStart tc, OutputHandlerStop, HidStop]"
    using process_start_calls [OF assms(4,5), of "production_host_env w ?handler b"] unfolding env by blast
  have start: "r1 = r" "p1 = p'" "b' = fold (backend_event w ?handler) calls b"
    using assms(6) p1(1,3) by (auto simp: run_process_def)
  have ev: "backend_event w ?handler (HidRegister code) b = ?b1" "backend_event w ?handler OutputHandlerStart ?b1 = ?b2"
      "backend_event w ?handler (ReportTimerStart tc) ?b2 = ?b3"
    by (simp_all add: reg out tm)
  note backend_event.simps [simp del]
  consider (ok) "r = SWBT_DAEMON_PROCESS_OK" "code = 0" "tc = 0" "b' = ?b3" | (ipc) "r \<noteq> SWBT_DAEMON_PROCESS_OK" "b' = b"
    | (hid) "r \<noteq> SWBT_DAEMON_PROCESS_OK" "code \<noteq> 0" "b' = ?b1"
    | (timer) "r \<noteq> SWBT_DAEMON_PROCESS_OK" "code = 0" "tc \<noteq> 0" "b' = fold (backend_event w ?handler) [OutputHandlerStop, HidStop] ?b3"
    using calls ev unfolding start by (auto split: if_splits)
  then show ?thesis
  proof cases
    case ok
    then show ?thesis
      using p1(2,4) start(1,2) d a(3) by (simp add: same_setup_def)
  next
    case ipc
    then show ?thesis
      using p1(2,4) start(1,2) assms(1) by (simp add: same_setup_def)
  next
    case hid
    then show ?thesis
      using p1(2,4) start(1,2) assms(1) d by (simp add: same_setup_def at_rest_def)
  next
    case timer
    then show ?thesis
      using p1(2,4) start(1,2) d a rest stop_brings_rest [of ?b3 w ?handler] by (auto simp: same_setup_def device_up_def)
  qed
qed


text \<open>Destroying the process that is not running leaves the runner alone; that of a running one brings it to rest.\<close>

lemma run_destroy:
  assumes "daemon_process env s t p" "run_process w (\<lambda>_ p. ((), swbt_daemon_process_destroy p)) p b = (u, p', b')"
  shows "ipc_off (snd (pr_context p'))"
    and "b' = fold (backend_event w (host_output_handler (pr_runtime p))) (if pr_running p then [ReportTimerStop, OutputHandlerStop, HidStop] else []) b"
  using process_destroy_calls [OF assms(1)] assms(2) by (auto simp: run_process_def)

lemma leave_rest:
  assumes "bk_initialized b" "swbt_btstack_production_ports_is_valid (bk_ports b)" "bk_report_timer_initialized b" "device_up (bk_device b)"
  shows "at_rest (fold (backend_event w handler) [ReportTimerStop, OutputHandlerStop, HidStop] b)"
    and "bk_trace (fold (backend_event w handler) [ReportTimerStop, OutputHandlerStop, HidStop] b) = bk_trace b"
    and "bk_hardware_powered (fold (backend_event w handler) [ReportTimerStop, OutputHandlerStop, HidStop] b) = bk_hardware_powered b"
    and "bk_reconnect_timer_pending (fold (backend_event w handler) [ReportTimerStop, OutputHandlerStop, HidStop] b) = bk_reconnect_timer_pending b"
    and "bk_disconnect_timer_pending (fold (backend_event w handler) [ReportTimerStop, OutputHandlerStop, HidStop] b) = bk_disconnect_timer_pending b"
proof -
  let ?a = "the (swbt_btstack_production_report_timer_stop (Some (bk_report_timer b)))"
  let ?b = "(set_timer w ?a b)\<lparr>bk_report_timer_initialized := False\<rparr>"
  have "backend_event w handler ReportTimerStop b = ?b"
    using assms bridge_valid [OF assms(2)]
    by (simp add: swbt_daemon_production_process_report_timer_stop_def swbt_daemon_btstack_report_timer_bridge_stop_def)
  then have eq: "fold (backend_event w handler) [ReportTimerStop, OutputHandlerStop, HidStop] b =
      fold (backend_event w handler) [OutputHandlerStop, HidStop] ?b"
    by simp
  have "undisturbed env s t b (set_timer w ?a b)" for env s t
    by (rule quiet_set_timer) (rule timer_ops_good(4))
  then have "device_up (bk_device ?b)" and pend: "bk_disconnect_timer_pending (set_timer w ?a b) = bk_disconnect_timer_pending b"
    using assms(4) by (simp_all add: undisturbed_def control_def)
  moreover have "\<not> ta_running ?a" "\<not> ta_timer_pending ?a"
    by (auto simp: swbt_btstack_production_report_timer_stop_def swbt_btstack_input_report_timer_adapter_stop_def Let_def)
  ultimately obtain c d where "fold (backend_event w handler) [OutputHandlerStop, HidStop] ?b =
      ?b\<lparr>bk_callbacks := c, bk_session := False, bk_device := d\<rparr>" "at_rest (?b\<lparr>bk_callbacks := c, bk_session := False, bk_device := d\<rparr>)"
    using stop_brings_rest [of ?b w handler] assms(1) by (auto simp: device_up_def)
  then show "at_rest (fold (backend_event w handler) [ReportTimerStop, OutputHandlerStop, HidStop] b)"
    and "bk_trace (fold (backend_event w handler) [ReportTimerStop, OutputHandlerStop, HidStop] b) = bk_trace b"
    and "bk_hardware_powered (fold (backend_event w handler) [ReportTimerStop, OutputHandlerStop, HidStop] b) = bk_hardware_powered b"
    and "bk_reconnect_timer_pending (fold (backend_event w handler) [ReportTimerStop, OutputHandlerStop, HidStop] b) = bk_reconnect_timer_pending b"
    and "bk_disconnect_timer_pending (fold (backend_event w handler) [ReportTimerStop, OutputHandlerStop, HidStop] b) = bk_disconnect_timer_pending b"
    unfolding eq by (simp_all add: pend)
qed

section \<open>The main function\<close>

definition fresh :: "runner \<Rightarrow> bool" where
  "fresh b \<longleftrightarrow> at_rest b \<and> bk_host b = None \<and> bk_trace b = [] \<and> \<not> bk_hardware_powered b \<and> \<not> bk_disconnect_timer_pending b
     \<and> \<not> bk_reconnect_timer_pending b \<and> \<not> bk_main_thread b \<and> 0 < length (bk_hid_service_buffer b)
     \<and> pump_ready (bk_ipc b) \<and> ipc_off (snd (bk_ipc b)) \<and> device_info_wf (cfg_device_info (bk_config b))"

text \<open>
  Nothing is left behind: no device, no session, no listener or connection, no report or reconnect timer, the controller off. The
  disconnect timer is a matter of the run loop. It is armed while a disconnect is awaited and the clean-up does not cancel it; once
  the exit has been triggered, which is what makes the loop return, it is not pending either.
\<close>

definition clean :: "runner \<Rightarrow> bool" where
  "clean b \<longleftrightarrow> at_rest b \<and> bk_host b = None \<and> \<not> bk_hardware_powered b \<and> \<not> bk_reconnect_timer_pending b \<and> ipc_off (snd (bk_ipc b))
     \<and> (\<exists>exited. power_calls (bk_trace b) (False, False) = Some (False, exited) \<and> (exited \<longrightarrow> \<not> bk_disconnect_timer_pending b))"

text \<open>The process is started, the controller still off.\<close>

definition entered :: "runner \<Rightarrow> bool" where
  "entered b \<longleftrightarrow> bk_initialized b \<and> swbt_daemon_shutdown_sequence_is_ready (bk_shutdown b) \<and> sd_host (bk_shutdown b)
     \<and> swbt_btstack_production_ports_is_valid (bk_ports b) \<and> bk_session b \<and> bk_report_timer_initialized b \<and> bk_trace b = []
     \<and> \<not> bk_hardware_powered b \<and> \<not> bk_disconnect_timer_pending b \<and> \<not> bk_reconnect_timer_pending b \<and> \<not> bk_main_thread b"


lemma valid_pump:
  assumes "swbt_btstack_production_ports_is_valid ports"
  shows "\<exists>s t. po_ipc_pump (the ports) = \<lparr>pump_start = Some s, pump_stop = Some t\<rparr>"
proof -
  have "swbt_btstack_production_ipc_pump_port_is_valid (po_ipc_pump (the ports))"
    using assms by (cases ports) (simp_all add: swbt_btstack_production_ports_is_valid_def swbt_btstack_production_ports_has_ipc_pump_def)
  then show ?thesis
    by (cases "po_ipc_pump (the ports)") (auto simp: swbt_btstack_production_ipc_pump_port_is_valid_def)
qed

lemma production_ipc_eq:
  "swbt_daemon_production_ipc_start env True \<lparr>pump_start = Some s, pump_stop = Some t\<rparr> = pump_ipc_start env s t"
  "swbt_daemon_production_ipc_stop True \<lparr>pump_start = Some s, pump_stop = Some t\<rparr> = pump_ipc_stop s t"
  by (simp_all add: swbt_daemon_production_ipc_start_def swbt_daemon_production_ipc_stop_def pump_ipc_start_def pump_ipc_stop_def)

text \<open>The process of the main function, before it is started.\<close>

lemma main_process:
  assumes "fresh b" "pr_trace mem = []" "host_trace (pr_runtime mem) = []"
    and "po_ipc_pump (the (bk_ports b)) = \<lparr>pump_start = Some s, pump_stop = Some t\<rparr>"
    and "swbt_daemon_process_init (Some mem) (Some (bk_config b))
      (Some (swbt_daemon_btstack_process_backend env True (po_ipc_pump (the (bk_ports b))))) (bk_ipc b) domain_mem =
      (SWBT_DAEMON_PROCESS_OK, po)"
  shows "\<exists>p. po = Some p \<and> daemon_process env s t p \<and> \<not> pr_running p"
proof -
  have "\<exists>p. snd (swbt_daemon_process_init (Some mem) c bk ctx m) = Some p
      \<and> (fst (swbt_daemon_process_init (Some mem) c bk ctx m) = SWBT_DAEMON_PROCESS_OK \<longrightarrow> \<not> pr_running p)" for c bk ctx m
    by (simp add: swbt_daemon_process_init_def Let_def case_prod_beta)
  then obtain p where p: "po = Some p" "\<not> pr_running p"
    using assms(5) by (metis fst_conv snd_conv)
  have "process_initial (pump_ipc_start env s t) (pump_ipc_stop s t) pump_ready p"
    using assms p(1) unfolding process_initial_def
    by (intro exI [of _ mem] exI [of _ "bk_config b"]
        exI [of _ "swbt_daemon_btstack_process_backend env True (po_ipc_pump (the (bk_ports b)))"] exI [of _ "bk_ipc b"]
        exI [of _ domain_mem])
       (simp add: fresh_def swbt_daemon_btstack_process_backend_def production_ipc_eq)
  then show ?thesis
    using pump.initial_ok p by blast
qed

lemma approval_process:
  assumes "daemon_process env s t p" "\<not> pr_running p"
    and "swbt_domain_set_hardware_approval (swbt_daemon_process_app (Some p)) h = (r, app)"
  shows "r = SWBT_DOMAIN_OK \<and> daemon_process env s t (p\<lparr>pr_runtime := (pr_runtime p)\<lparr>host_app := app\<rparr>\<rparr>)"
proof -
  obtain a where a: "host_app (pr_runtime p) = Some a" "domain_inv a"
    using assms(1) by (auto simp: process_inv_def process_ok_def host_inv_def)
  then have out: "domain_exec (SetHardwareApproval h) (Some a) = (r, app)"
    using assms(3) by (simp add: swbt_daemon_process_app_def swbt_runtime_host_app_def)
  obtain a' where a': "app = Some a'"
    using domain_exec_some [OF a(2), of "SetHardwareApproval h"] out by auto
  have "daemon_process env s t (p\<lparr>pr_runtime := (pr_runtime p)\<lparr>host_app := Some a'\<rparr>\<rparr>)"
    by (rule pump.step_ok [OF assms(1)], rule proc_domain [of "SetHardwareApproval h", OF _ a(1)]) (use out a' in \<open>simp_all add: domain_step_def\<close>)
  moreover have "r = SWBT_DOMAIN_OK"
    using out by (auto simp: swbt_domain_set_hardware_approval_def Let_def)
  ultimately show ?thesis
    using a' by simp
qed

text \<open>The first part of the main function up to the start of the process, when its arguments are in order.\<close>

lemma main_enter_start:
  assumes "fresh b" "pr_trace mem = []" "host_trace (pr_runtime mem) = []"
    and ok: "swbt_daemon_shutdown_sequence_listener_is_valid l" "swbt_btstack_production_ports_is_valid (bk_ports b)"
      "bk_adapter_location_configured b"
    and st: "po_ipc_pump (the (bk_ports b)) = \<lparr>pump_start = Some s, pump_stop = Some t\<rparr>"
    and init: "swbt_daemon_process_init (Some mem) (Some (bk_config b))
      (Some (swbt_daemon_btstack_process_backend env True (po_ipc_pump (the (bk_ports b))))) (bk_ipc b) domain_mem = (hr, po)"
  defines "b0 \<equiv> b\<lparr>bk_shutdown := \<lparr>sd_run_loop = Some (run_loop_of b), sd_host = True, sd_finish = True, sd_neutral_pending = False,
      sd_disconnect_pending = False, sd_callback = False, sd_requested = False\<rparr>\<rparr>"
  shows "swbt_daemon_shutdown_sequence_is_ready (bk_shutdown b0)"
    and "hr \<noteq> SWBT_DAEMON_PROCESS_OK \<Longrightarrow>
      main_enter env w mem domain_mem (Some b) l = Inl (SWBT_DAEMON_PRODUCTION_ERROR_RUNTIME, Some b0)"
    and "hr = SWBT_DAEMON_PROCESS_OK \<Longrightarrow> \<exists>p. daemon_process env s t p \<and> \<not> pr_running p \<and> pr_context p = bk_ipc b
      \<and> main_enter env w mem domain_mem (Some b) l = (case run_process w swbt_daemon_process_start p b0 of (r, p', b') \<Rightarrow>
          if r = SWBT_DAEMON_PROCESS_OK then Inr (b'\<lparr>bk_host := Some p'\<rparr>)
          else case run_process w (\<lambda>_ p. ((), swbt_daemon_process_destroy p)) p' b' of (u, p2, b2) \<Rightarrow>
            Inl (SWBT_DAEMON_PRODUCTION_ERROR_RUNTIME, Some (b2\<lparr>bk_ipc := pr_context p2\<rparr>)))"
proof -
  have i: "bk_initialized b"
    using assms(1) by (simp add: fresh_def at_rest_def)
  have sd: "swbt_daemon_shutdown_sequence_init (bk_shutdown b) (Some (run_loop_of b)) True True = (True, bk_shutdown b0)"
    and "swbt_daemon_shutdown_sequence_is_ready (bk_shutdown b0)"
    using ok(2) by (simp_all add: swbt_daemon_shutdown_sequence_init_def swbt_daemon_shutdown_sequence_is_ready_def b0_def
        swbt_btstack_production_ports_is_valid_def swbt_btstack_production_run_loop_port_is_valid_def Let_def)
  then show "swbt_daemon_shutdown_sequence_is_ready (bk_shutdown b0)"
    by simp
  have b0: "b\<lparr>bk_shutdown := bk_shutdown b0\<rparr> = b0" "bk_ports b0 = bk_ports b" "bk_config b0 = bk_config b" "bk_ipc b0 = bk_ipc b" "bk_initialized b0"
    using i by (simp_all add: b0_def)
  note enter = main_enter_def [of env w mem domain_mem "Some b" l]
  show "main_enter env w mem domain_mem (Some b) l = Inl (SWBT_DAEMON_PRODUCTION_ERROR_RUNTIME, Some b0)" if "hr \<noteq> SWBT_DAEMON_PROCESS_OK"
    using that ok i by (simp add: enter Let_def sd b0 init)
  assume hr: "hr = SWBT_DAEMON_PROCESS_OK"
  then obtain p where p: "po = Some p" "daemon_process env s t p" "\<not> pr_running p"
    using main_process [OF assms(1-3) st] init by blast
  have ctx: "pr_context p = bk_ipc b"
    using init p(1) hr by (auto simp: swbt_daemon_process_init_def Let_def case_prod_beta split: if_splits)
  obtain ar app where ap: "swbt_domain_set_hardware_approval (swbt_daemon_process_app (Some p)) SWBT_DOMAIN_HARDWARE_APPROVAL_APPROVED = (ar, app)"
    by (rule prod.exhaust)
  let ?p = "p\<lparr>pr_runtime := (pr_runtime p)\<lparr>host_app := app\<rparr>\<rparr>"
  have ar: "ar = SWBT_DOMAIN_OK" "daemon_process env s t ?p"
    using approval_process [OF p(2,3) ap] by simp_all
  have "main_enter env w mem domain_mem (Some b) l = (case run_process w swbt_daemon_process_start ?p b0 of (r, p', b') \<Rightarrow>
      if r = SWBT_DAEMON_PROCESS_OK then Inr (b'\<lparr>bk_host := Some p'\<rparr>)
      else case run_process w (\<lambda>_ p. ((), swbt_daemon_process_destroy p)) p' b' of (u, p2, b2) \<Rightarrow>
        Inl (SWBT_DAEMON_PRODUCTION_ERROR_RUNTIME, Some (b2\<lparr>bk_ipc := pr_context p2\<rparr>)))"
    using ok i by (simp add: enter Let_def sd b0 init hr p(1) ap ar(1) case_prod_beta)
  then show "\<exists>p. daemon_process env s t p \<and> \<not> pr_running p \<and> pr_context p = bk_ipc b
      \<and> main_enter env w mem domain_mem (Some b) l = (case run_process w swbt_daemon_process_start p b0 of (r, p', b') \<Rightarrow>
          if r = SWBT_DAEMON_PROCESS_OK then Inr (b'\<lparr>bk_host := Some p'\<rparr>)
          else case run_process w (\<lambda>_ p. ((), swbt_daemon_process_destroy p)) p' b' of (u, p2, b2) \<Rightarrow>
            Inl (SWBT_DAEMON_PRODUCTION_ERROR_RUNTIME, Some (b2\<lparr>bk_ipc := pr_context p2\<rparr>)))"
    using ar(2) p(3) ctx by (intro exI [of _ ?p]) simp
qed

lemma main_enter_result:
  assumes "fresh b" "pr_trace mem = []" "host_trace (pr_runtime mem) = []"
  shows "(\<exists>r b'. main_enter env w mem domain_mem (Some b) l = Inl (r, Some b') \<and> r \<noteq> SWBT_DAEMON_PRODUCTION_OK \<and> clean b')
    \<or> (\<exists>b' s t. main_enter env w mem domain_mem (Some b) l = Inr b' \<and> entered b' \<and> daemon_up env s t b')"
proof (cases "\<not> swbt_daemon_shutdown_sequence_listener_is_valid l \<or> \<not> swbt_btstack_production_ports_is_valid (bk_ports b)
    \<or> \<not> bk_adapter_location_configured b")
  case True
  then show ?thesis
    using assms(1) by (auto simp: main_enter_def fresh_def clean_def at_rest_def)
next
  case False
  then have ok: "swbt_daemon_shutdown_sequence_listener_is_valid l" "swbt_btstack_production_ports_is_valid (bk_ports b)"
      "bk_adapter_location_configured b"
    by simp_all
  obtain s t where st: "po_ipc_pump (the (bk_ports b)) = \<lparr>pump_start = Some s, pump_stop = Some t\<rparr>"
    using valid_pump ok(2) by blast
  obtain hr po where init: "swbt_daemon_process_init (Some mem) (Some (bk_config b))
      (Some (swbt_daemon_btstack_process_backend env True (po_ipc_pump (the (bk_ports b))))) (bk_ipc b) domain_mem = (hr, po)"
    by (rule prod.exhaust)
  note start = main_enter_start [OF assms ok st init]
  let ?b = "b\<lparr>bk_shutdown := \<lparr>sd_run_loop = Some (run_loop_of b), sd_host = True, sd_finish = True, sd_neutral_pending = False,
      sd_disconnect_pending = False, sd_callback = False, sd_requested = False\<rparr>\<rparr>"
  show ?thesis
  proof (cases "hr = SWBT_DAEMON_PROCESS_OK")
    case failed: False
    then show ?thesis
      using assms(1) start(2) by (auto simp: fresh_def clean_def at_rest_def)
  next
    case True
    then obtain p where p: "daemon_process env s t p" "\<not> pr_running p"
      and eq: "main_enter env w mem domain_mem (Some b) l = (case run_process w swbt_daemon_process_start p ?b of (r, p', b') \<Rightarrow>
          if r = SWBT_DAEMON_PROCESS_OK then Inr (b'\<lparr>bk_host := Some p'\<rparr>)
          else case run_process w (\<lambda>_ p. ((), swbt_daemon_process_destroy p)) p' b' of (u, p2, b2) \<Rightarrow>
            Inl (SWBT_DAEMON_PRODUCTION_ERROR_RUNTIME, Some (b2\<lparr>bk_ipc := pr_context p2\<rparr>)))"
      using start(3) by blast
    obtain r p' b' where run: "run_process w swbt_daemon_process_start p ?b = (r, p', b')"
      by (rule prod_cases3)
    have "at_rest ?b" "0 < length (bk_hid_service_buffer ?b)"
      using assms(1) by (simp_all add: fresh_def at_rest_def)
    then have b': "daemon_process env s t p'" "pr_running p' = (r = SWBT_DAEMON_PROCESS_OK)" "same_setup ?b b'"
        "if r = SWBT_DAEMON_PROCESS_OK
          then bk_session b' \<and> device_up (bk_device b') \<and> bk_report_timer_initialized b' \<and> timer_good (bk_report_timer b') else at_rest b'"
      using run_start [OF _ _ _ p run] ok(2) by simp_all
    obtain u p2 b2 where destroy: "run_process w (\<lambda>_ p. ((), swbt_daemon_process_destroy p)) p' b' = (u, p2, b2)"
      by (rule prod_cases3)
    have same: "bk_trace b' = []" "\<not> bk_hardware_powered b'" "\<not> bk_disconnect_timer_pending b'" "\<not> bk_reconnect_timer_pending b'"
        "\<not> bk_main_thread b'" "bk_host b' = None" "bk_shutdown b' = bk_shutdown ?b" "bk_config b' = bk_config b" "bk_ports b' = bk_ports b"
        "bk_initialized b'" "device_info_wf (cfg_device_info (bk_config b))"
      using same_setupD [OF b'(3)] assms(1) by (simp_all add: fresh_def at_rest_def)
    show ?thesis
    proof (cases "r = SWBT_DAEMON_PROCESS_OK")
      case started: True
      then have "entered (b'\<lparr>bk_host := Some p'\<rparr>)" "daemon_up env s t (b'\<lparr>bk_host := Some p'\<rparr>)"
        using b' same start(1) ok(2) by (simp_all add: entered_def daemon_up_def host_up_def)
      then show ?thesis
        using eq started by (auto simp: run)
    next
      case failed: False
      then have "b2 = b'" "ipc_off (snd (pr_context p2))"
        using run_destroy [OF b'(1) destroy] b'(2) by simp_all
      then have "clean (b2\<lparr>bk_ipc := pr_context p2\<rparr>)"
        using b'(4) failed same by (auto simp: clean_def at_rest_def)
      then show ?thesis
        using eq failed by (auto simp: run destroy)
    qed
  qed
qed

lemma connect_some:
  "\<exists>r d c. swbt_btstack_device_connect w (Some dev) (Some request) (Some cid) = (r, Some d, c)
    \<and> device_step dev (Connect w (Some request) (Some cid)) d"
  by (simp add: swbt_btstack_device_connect_def device_step_def case_prod_beta)

lemma same_app: "set_app (swbt_daemon_process_app (bk_host b)) b = b"
  by (cases "bk_host b"; cases b) (simp_all add: set_app_def swbt_daemon_process_app_def swbt_runtime_host_app_def)

text \<open>A reconnect request, whatever comes of it, leaves the shutdown alone.\<close>

lemma request_active_quiet:
  assumes "swbt_daemon_active_reconnect_request_active (pv_device w) (Some (Some c, Some (bk_device b), swbt_daemon_process_app (bk_host b))) = (r, dev, app)"
  shows "undisturbed env s t b (set_app app (b\<lparr>bk_device := the dev\<rparr>))"
proof -
  let ?app = "swbt_daemon_process_app (bk_host b)"
  let ?failed = "swbt_daemon_active_reconnect_report_failed ?app"
  consider (kept) "dev = Some (bk_device b)" "app = ?app \<or> app = ?failed"
    | (asked) d request cid where "dev = Some d" "app = ?app \<or> app = ?failed" "device_step (bk_device b) (Connect (pv_device w) (Some request) (Some cid)) d"
  proof -
    let ?mem = "\<lparr>cr_address = replicate 6 0, cr_control_psm = 0, cr_interrupt_psm = 0\<rparr>"
    obtain br req where build: "swbt_daemon_active_reconnect_build_request (Some c) (Some ?mem) = (br, req)"
      by (rule prod.exhaust)
    then obtain request where request: "req = Some request"
      by (auto simp: swbt_daemon_active_reconnect_build_request_def Let_def split: option.splits prod.splits bool.splits)
    obtain dr d cid where d: "swbt_btstack_device_connect (pv_device w) (Some (bk_device b)) (Some request) (Some 0) = (dr, Some d, cid)"
        "device_step (bk_device b) (Connect (pv_device w) (Some request) (Some 0)) d"
      using connect_some by blast
    show thesis
      using assms kept asked [OF _ _ d(2)] unfolding swbt_daemon_active_reconnect_request_active_def option.case prod.case build request Let_def
      by (auto simp: d(1) split: if_splits)
  qed
  then show ?thesis
  proof cases
    case kept
    then show ?thesis
      using report_failed_quiet same_app by auto
  next
    case (asked d request cid)
    have q: "undisturbed env s t b (b\<lparr>bk_device := d\<rparr>)"
      by (rule quiet_device [OF asked(3)]) simp
    show ?thesis
      using asked(1,2) undisturbed_trans [OF q report_failed_quiet] q same_app [of "b\<lparr>bk_device := d\<rparr>"] by auto
  qed
qed


lemma arm_reconnect_quiet: "undisturbed env s t b (swbt_daemon_production_runner_arm_active_reconnect_timeout_timer b)"
proof -
  have "undisturbed env s t b ((bk_emit [TimerSetHandler ReconnectTimer, TimerSetContext ReconnectTimer,
      TimerSet ReconnectTimer SWBT_DAEMON_ACTIVE_RECONNECT_TIMEOUT_MS, TimerAdd ReconnectTimer] b)\<lparr>bk_reconnect_timer_pending := True\<rparr>)"
    by (rule undisturbed_trans [OF quiet_emit quiet_update(2)]) simp
  then show ?thesis
    by (simp add: swbt_daemon_production_runner_arm_active_reconnect_timeout_timer_def)
qed

lemma main_connect_result:
  assumes "entered b" "daemon_up env s t b" "main_connect w l b = (r, installed, b')"
  shows "daemon_up env s t b' \<and> bk_initialized b' \<and> bk_report_timer_initialized b' \<and> swbt_btstack_production_ports_is_valid (bk_ports b')
    \<and> power_calls (bk_trace b') (False, False) = Some (bk_hardware_powered b', False)
    \<and> (r = SWBT_DAEMON_PRODUCTION_OK \<longrightarrow> in_phase b' Serving)
    \<and> (pv_power_on w = 0 \<and> pv_listener_install w = 0 \<and> swbt_daemon_shutdown_sequence_listener_is_valid l \<longrightarrow> r = SWBT_DAEMON_PRODUCTION_OK)"
proof (cases "pv_power_on w = 0")
  case True
  define b1 where "b1 = (bk_emit [PowerOn 0] b)\<lparr>bk_hardware_powered := True\<rparr>"
  have pw: "swbt_daemon_production_power_on w b = (SWBT_DAEMON_PRODUCTION_OK, b1)"
    using True by (simp add: swbt_daemon_production_power_on_def b1_def)
  have b1: "flags b1 (sd_requested (bk_shutdown b)) False (sd_neutral_pending (bk_shutdown b)) (sd_disconnect_pending (bk_shutdown b)) False True"
      "daemon_up env s t b1"
    using assms(1,2) by (simp_all add: b1_def entered_def flags_def bk_emit_def daemon_up_def host_up_def)
  obtain rr dev app where rq: "swbt_daemon_active_reconnect_request_active (pv_device w)
      (Some (Some (bk_config b1), Some (bk_device b1), swbt_daemon_process_app (bk_host b1))) = (rr, dev, app)"
    by (rule prod_cases3)
  let ?b2 = "set_app app (b1\<lparr>bk_device := the dev\<rparr>)"
  let ?b3 = "if rr = SWBT_DAEMON_ACTIVE_RECONNECT_ACTIVE_REQUESTED then swbt_daemon_production_runner_arm_active_reconnect_timeout_timer ?b2 else ?b2"
  have q: "undisturbed env s t b1 ?b3"
    using request_active_quiet [OF rq, of env s t] undisturbed_trans [OF request_active_quiet [OF rq] arm_reconnect_quiet, of env s t] by simp
  have b3: "flags ?b3 (sd_requested (bk_shutdown b)) False (sd_neutral_pending (bk_shutdown b)) (sd_disconnect_pending (bk_shutdown b)) False True"
      "daemon_up env s t ?b3"
    using b1 undisturbed_flags [OF q] undisturbed_up [OF q] by blast+
  let ?b4 = "?b3\<lparr>bk_shutdown := swbt_daemon_shutdown_sequence_prepare (bk_shutdown ?b3)\<rparr>"
  have b4: "in_phase ?b4 Serving" "daemon_up env s t ?b4"
    using b3 by (simp_all add: flags_def swbt_daemon_shutdown_sequence_prepare_def swbt_daemon_shutdown_sequence_is_ready_def
        daemon_up_def host_up_def del: if_split)
  have qi: "undisturbed env s t ?b4 (snd (swbt_daemon_shutdown_sequence_install_listener w ?b4 l))"
    by (auto simp: swbt_daemon_shutdown_sequence_install_listener_def intro!: quiet_emit)
  have "pv_listener_install w = 0 \<and> swbt_daemon_shutdown_sequence_listener_is_valid l \<longrightarrow> r = SWBT_DAEMON_PRODUCTION_OK"
    using assms(3) phaseD(8) [OF b4(1)]
    by (auto simp: main_connect_def pw rq Let_def swbt_daemon_shutdown_sequence_install_listener_def split: if_splits)
  moreover have "b' \<in> {?b4, snd (swbt_daemon_shutdown_sequence_install_listener w ?b4 l)}"
    using assms(3) by (auto simp: main_connect_def pw rq Let_def split: if_splits prod.splits)
  moreover from this consider "b' = ?b4" | "b' = snd (swbt_daemon_shutdown_sequence_install_listener w ?b4 l)"
    by blast
  then have "in_phase b' Serving \<and> daemon_up env s t b'"
    using b4 undisturbed_phase [OF qi, of Serving] undisturbed_up [OF qi b4(2)] by cases (simp_all only:)
  ultimately show ?thesis
    by (simp add: flags_def)
next
  case False
  then have "b' = bk_emit [PowerOn (pv_power_on w)] b" "r = SWBT_DAEMON_PRODUCTION_ERROR_HARDWARE"
    using assms(3) by (auto simp: main_connect_def swbt_daemon_production_power_on_def)
  then show ?thesis
    using assms(1,2) False by (simp add: entered_def bk_emit_def daemon_up_def host_up_def)
qed

lemma main_leave_clean:
  assumes "daemon_up env s t b" "bk_initialized b" "bk_report_timer_initialized b" "swbt_btstack_production_ports_is_valid (bk_ports b)"
    and "power_calls (bk_trace b) (False, False) = Some (bk_hardware_powered b, out)" "out \<longrightarrow> \<not> bk_disconnect_timer_pending b"
  shows "clean (main_leave w l installed b)"
    and "power_calls (bk_trace (main_leave w l installed b)) (False, False) = Some (False, out)"
proof -
  let ?u = "if installed then swbt_daemon_shutdown_sequence_uninstall_listener b l else b"
  let ?b = "swbt_daemon_production_power_off ?u"
  have "daemon_up env s t ?b \<and> bk_initialized ?b \<and> bk_report_timer_initialized ?b \<and> bk_ports ?b = bk_ports b
      \<and> \<not> bk_hardware_powered ?b \<and> \<not> bk_reconnect_timer_pending ?b \<and> power_calls (bk_trace ?b) (False, False) = Some (False, out)
      \<and> (out \<longrightarrow> \<not> bk_disconnect_timer_pending ?b)"
    using assms
    by (simp add: swbt_daemon_shutdown_sequence_uninstall_listener_def swbt_daemon_production_power_off_def bk_emit_def Let_def
        swbt_daemon_production_runner_cancel_active_reconnect_timeout_timer_def power_calls_append daemon_up_def host_up_def)
  then have b: "device_up (bk_device ?b)" "host_up env s t ?b" "bk_initialized ?b" "bk_report_timer_initialized ?b"
      "swbt_btstack_production_ports_is_valid (bk_ports ?b)" "\<not> bk_hardware_powered ?b" "\<not> bk_reconnect_timer_pending ?b"
      "power_calls (bk_trace ?b) (False, False) = Some (False, out)" "out \<longrightarrow> \<not> bk_disconnect_timer_pending ?b"
    using assms(4) by (simp_all add: daemon_up_def)
  obtain p where p: "bk_host ?b = Some p" "daemon_process env s t p" "pr_running p"
    using host_up_process [OF b(2)] by metis
  obtain u p' b' where run: "run_process w (\<lambda>_ p. ((), swbt_daemon_process_destroy p)) p ?b = (u, p', b')"
    by (rule prod_cases3)
  have eq: "main_leave w l installed b = b'\<lparr>bk_host := None, bk_ipc := pr_context p'\<rparr>"
    using p(1) run by (simp add: main_leave_def Let_def)
  have b': "b' = fold (backend_event w (host_output_handler (pr_runtime p))) [ReportTimerStop, OutputHandlerStop, HidStop] ?b"
      "ipc_off (snd (pr_context p'))"
    using run_destroy [OF p(2) run] p(3) by simp_all
  have "at_rest b'" "bk_trace b' = bk_trace ?b" "\<not> bk_hardware_powered b'" "\<not> bk_reconnect_timer_pending b'"
      "out \<longrightarrow> \<not> bk_disconnect_timer_pending b'"
    using leave_rest [OF b(3,5,4,1), of w "host_output_handler (pr_runtime p)"] b(6,7,9) unfolding b'(1) by blast+
  then show "clean (main_leave w l installed b)"
    and "power_calls (bk_trace (main_leave w l installed b)) (False, False) = Some (False, out)"
    unfolding eq using b(8) b'(2) by (auto simp: clean_def at_rest_def)
qed


text \<open>
  The memory of a new runner: only its history matters, and the two global pointers (the active session, the output
  handler) that no earlier run has set.
\<close>

definition blank_runner :: "runner \<Rightarrow> bool" where
  "blank_runner b \<longleftrightarrow> dev_trace (bk_device b) = [] \<and> bk_trace b = [] \<and> \<not> bk_session b \<and> g_output_report_handler (bk_callbacks b) = None"

lemma runner_init_fresh:
  assumes "blank_runner old" "cfg_report_period_us config \<noteq> 0" "device_info_wf (cfg_device_info config)"
    "swbt_btstack_production_ports_has_ipc_pump ports"
  shows "\<exists>b. swbt_daemon_production_runner_init (Some ipc_mem) (Some old) (Some config) ports = (SWBT_DAEMON_PRODUCTION_OK, Some b)
    \<and> fresh b \<and> bk_ports b = ports \<and> bk_config b = config \<and> \<not> bk_adapter_location_configured b
    \<and> rn_config (snd (bk_ipc b)) = swbt_daemon_ipc_runner_config_from_daemon_config (Some config)"
proof -
  let ?r0 = "zero_ipc_runner\<lparr>rn_config := swbt_daemon_ipc_runner_config_from_daemon_config (Some config)\<rparr>"
  obtain a where "swbt_domain_create (Some ipc_mem) = Some a"
    using domain_create_inv by blast
  then obtain r where r: "swbt_daemon_ipc_runner_init (Some ?r0) (Some ipc_mem) = (SWBT_DAEMON_IPC_RUNNER_OK, Some r)" "\<not> rn_running r"
    by (simp add: swbt_daemon_ipc_runner_init_def swbt_ipc_server_init_def swbt_control_init_def Let_def
        swbt_daemon_ipc_runner_clear_endpoint_def)
  then have "server_ok r" "ipc_off r"
    using runner_init_ok [OF r(1)] by (auto simp: ipc_off_def server_ok_def)
  then show ?thesis
    using assms r
    by (simp add: swbt_daemon_production_runner_init_def fresh_def at_rest_def blank_runner_def device_off_def zero_adapter_def
        SWBT_DAEMON_PRODUCTION_HID_SERVICE_BUFFER_SIZE_def pump_ready_def runner_ready_def server_ok_def ipc_off_def)
qed


text \<open>A run of the main function on a fresh runner.\<close>

lemma main_clean:
  assumes "fresh b" "pr_trace mem = []" "host_trace (pr_runtime mem) = []" "\<forall>e\<in>set es. loop_ok e"
  shows "\<exists>r b'. swbt_daemon_production_main_with_runner_and_shutdown env w es w' mem domain_mem (Some b) l = (r, Some b') \<and> clean b'"
proof (cases "main_enter env w mem domain_mem (Some b) l")
  case (Inl returned)
  then show ?thesis
    using main_enter_result [OF assms(1-3), of env w domain_mem l]
    by (auto simp: swbt_daemon_production_main_with_runner_and_shutdown_def)
next
  case (Inr b1)
  then obtain s t where b1: "entered b1" "daemon_up env s t b1"
    using main_enter_result [OF assms(1-3), of env w domain_mem l] by auto
  obtain r i b2 where b2: "main_connect w l b1 = (r, i, b2)"
    by (rule prod_cases3)
  note c = main_connect_result [OF b1 b2]
  let ?b = "if r = SWBT_DAEMON_PRODUCTION_OK then loop_run es b2 else b2"
  have "\<exists>out. daemon_up env s t ?b \<and> bk_initialized ?b \<and> bk_report_timer_initialized ?b
      \<and> swbt_btstack_production_ports_is_valid (bk_ports ?b) \<and> power_calls (bk_trace ?b) (False, False) = Some (bk_hardware_powered ?b, out)
      \<and> (out \<longrightarrow> \<not> bk_disconnect_timer_pending ?b)"
  proof (cases "r = SWBT_DAEMON_PRODUCTION_OK")
    case True
    then obtain ph where "in_phase (loop_run es b2) ph" "daemon_up env s t (loop_run es b2)"
      using loop_run_phase [of b2 Serving env s t es] c assms(4) by auto
    then show ?thesis
      using True by (cases ph) (auto simp: flags_def)
  next
    case False
    then show ?thesis
      using c by auto
  qed
  then have "clean (main_leave w' l i ?b)"
    using main_leave_clean(1) by blast
  then show ?thesis
    unfolding swbt_daemon_production_main_with_runner_and_shutdown_def Inr sum.case b2 prod.case Let_def by blast
qed


section \<open>A run where the outside works\<close>

text \<open>What a run needs: sockets that listen, the platform and the HID registration, the controller and the listener.\<close>

definition outside_ok :: "ipc_env \<Rightarrow> production_env \<Rightarrow> bool" where
  "outside_ok env w \<longleftrightarrow> env_socket env \<noteq> None \<and> env_setsockopt_ok env \<and> env_bind_ok env \<and> env_listen_ok env \<and> env_sockname env \<noteq> None
     \<and> de_platform_start (pv_device w) = 0 \<and> (\<forall>buffer c. de_hid_register (pv_device w) buffer c = 0)
     \<and> pv_power_on w = 0 \<and> pv_listener_install w = 0"

definition usable_config :: "swbt_daemon_config_t \<Rightarrow> bool" where
  "usable_config c \<longleftrightarrow> cfg_report_period_us c \<noteq> 0 \<and> device_info_wf (cfg_device_info c) \<and> cfg_ipc_host c = ''127.0.0.1'' \<and> 0 < cfg_ipc_backlog c"

lemma timer_start_ok:
  assumes "bk_initialized b" "swbt_btstack_production_ports_is_valid (bk_ports b)" "cfg_report_period_us (bk_config b) \<noteq> 0"
  shows "fst (swbt_daemon_production_process_report_timer_start w (Some b)) = 0"
  using assms bridge_valid [OF assms(2)]
  by (simp add: swbt_daemon_production_process_report_timer_start_def swbt_daemon_btstack_report_timer_bridge_start_def
      swbt_btstack_production_report_timer_init_def swbt_btstack_input_report_timer_adapter_init_def
      swbt_daemon_btstack_report_timer_bridge_config_def backend_is_valid_def swbt_btstack_input_report_timer_backend_btstack_def
      swbt_btstack_subcommand_reply_queue_init_def swbt_btstack_input_report_scheduler_init_def Let_def)

lemma production_host_env_ok:
  assumes "at_rest b" "swbt_btstack_production_ports_is_valid (bk_ports b)" "0 < length (bk_hid_service_buffer b)"
    "outside_ok env w" "cfg_report_period_us (bk_config b) \<noteq> 0"
  shows "he_hid_register (production_host_env w handler b) = 0" "he_report_timer_start (production_host_env w handler b) = 0"
proof -
  obtain code d where reg: "swbt_daemon_production_hid_register w (Some b) = (code, Some (b\<lparr>bk_session := (code = 0), bk_device := d\<rparr>))"
    using register_effect [OF assms(1-3)] by blast
  obtain ports where p: "bk_ports b = Some ports" "swbt_btstack_device_port_is_valid (Some (po_device ports))"
    using assms(2) by (cases "bk_ports b") (auto simp: swbt_btstack_production_ports_is_valid_def
        swbt_btstack_production_ports_has_ipc_pump_def swbt_btstack_production_device_port_is_valid_def swbt_btstack_device_port_is_valid_def)
  have "code = 0"
    using assms(1,3,4) p reg
    by (auto simp: swbt_daemon_production_hid_register_def swbt_daemon_btstack_hid_session_register_def at_rest_def outside_ok_def
        swbt_daemon_btstack_hid_session_register_is_valid_def swbt_btstack_device_init_def swbt_btstack_device_open_def Let_def)
  then show "he_hid_register (production_host_env w handler b) = 0" "he_report_timer_start (production_host_env w handler b) = 0"
    using assms(1,2,5) timer_start_ok [of "b\<lparr>bk_session := True, bk_device := d, bk_callbacks :=
      snd (swbt_btstack_output_report_callbacks_register (bk_callbacks b) (Some handler))\<rparr>" w]
    unfolding production_host_env_def reg by (simp_all add: swbt_daemon_production_output_handler_start_def at_rest_def)
qed

lemma ipc_start_ok:
  assumes "pump_serving False (x, r) a" "rn_config r = swbt_daemon_ipc_runner_config_from_daemon_config (Some c)" "usable_config c"
    "outside_ok env w" "fst (s x) = 0"
  shows "fst (pump_ipc_start env s t (x, r) (Some ctl, Some a)) = 0"
proof -
  have "rn_initialized r" "\<not> rn_running r" "\<not> srv_listening (rn_server r)"
    using assms(1) by (auto simp: pump_serving_def runner_serving_def runner_inv_def server_ok_def)
  then have "\<exists>r'. swbt_daemon_ipc_runner_start env (Some r) (Some ctl, Some a) (Some (rn_config r)) = (SWBT_DAEMON_IPC_RUNNER_OK, Some r')"
    using assms(2-4)
    by (auto simp: swbt_daemon_ipc_runner_start_def swbt_ipc_server_bind_control_def swbt_ipc_server_listen_def usable_config_def outside_ok_def
        swbt_ipc_create_tcp_socket_def swbt_daemon_ipc_runner_config_from_daemon_config_def Let_def)
  then show ?thesis
    using assms(5)
    by (auto simp: pump_ipc_start_def swbt_daemon_btstack_ipc_pump_adapter_start_def swbt_daemon_btstack_ipc_pump_adapter_is_valid_def
        case_prod_beta)
qed


lemma process_init_ok:
  assumes "cfg_report_period_us c \<noteq> 0"
  shows "\<exists>p. swbt_daemon_process_init (Some mem) (Some c) (Some (swbt_daemon_btstack_process_backend env i port)) ctx (Some m) =
      (SWBT_DAEMON_PROCESS_OK, Some p)"
proof -
  obtain a where "swbt_domain_create (Some m) = Some a"
    using domain_create_inv by blast
  then show ?thesis
    using assms
    by (simp add: swbt_daemon_process_init_def swbt_daemon_config_is_valid_def swbt_daemon_btstack_process_backend_def
        swbt_daemon_backend_is_valid_def swbt_runtime_backend_is_valid_def swbt_daemon_btstack_runtime_backend_def
        swbt_runtime_host_init_def swbt_domain_set_daemon_status_def swbt_control_init_def Let_def)
qed

text \<open>Then the main function reaches its run loop.\<close>

lemma main_reaches_loop:
  assumes fresh: "fresh b" "pr_trace mem = []" "host_trace (pr_runtime mem) = []"
    and ok: "swbt_daemon_shutdown_sequence_listener_is_valid l" "swbt_btstack_production_ports_is_valid (bk_ports b)"
      "bk_adapter_location_configured b"
    and st: "po_ipc_pump (the (bk_ports b)) = \<lparr>pump_start = Some s, pump_stop = Some t\<rparr>" "fst (s (fst (bk_ipc b))) = 0"
    and c: "usable_config (bk_config b)" "rn_config (snd (bk_ipc b)) = swbt_daemon_ipc_runner_config_from_daemon_config (Some (bk_config b))"
    and out: "outside_ok env w"
  shows "\<exists>b0 i b1 s t. main_enter env w mem (Some m) (Some b) l = Inr b0 \<and> main_connect w l b0 = (SWBT_DAEMON_PRODUCTION_OK, i, b1)
    \<and> in_phase b1 Serving \<and> daemon_up env s t b1"
proof -
  obtain po where init: "swbt_daemon_process_init (Some mem) (Some (bk_config b))
      (Some (swbt_daemon_btstack_process_backend env True (po_ipc_pump (the (bk_ports b))))) (bk_ipc b) (Some m) = (SWBT_DAEMON_PROCESS_OK, po)"
    using process_init_ok c(1) unfolding usable_config_def by blast
  let ?b = "b\<lparr>bk_shutdown := \<lparr>sd_run_loop = Some (run_loop_of b), sd_host = True, sd_finish = True, sd_neutral_pending = False,
      sd_disconnect_pending = False, sd_callback = False, sd_requested = False\<rparr>\<rparr>"
  obtain p where p: "daemon_process env s t p" "\<not> pr_running p" "pr_context p = bk_ipc b"
    and eq: "main_enter env w mem (Some m) (Some b) l = (case run_process w swbt_daemon_process_start p ?b of (r, p', b') \<Rightarrow>
        if r = SWBT_DAEMON_PROCESS_OK then Inr (b'\<lparr>bk_host := Some p'\<rparr>)
        else case run_process w (\<lambda>_ p. ((), swbt_daemon_process_destroy p)) p' b' of (u, p2, b2) \<Rightarrow>
          Inl (SWBT_DAEMON_PRODUCTION_ERROR_RUNTIME, Some (b2\<lparr>bk_ipc := pr_context p2\<rparr>)))"
    using main_enter_start(3) [OF fresh ok st(1) init] by blast
  let ?henv = "production_host_env w (host_output_handler (pr_runtime p)) ?b"
  have "at_rest ?b" "0 < length (bk_hid_service_buffer ?b)"
    using fresh(1) by (simp_all add: fresh_def at_rest_def)
  then have henv: "he_hid_register ?henv = 0" "he_report_timer_start ?henv = 0"
    using production_host_env_ok [of ?b env w] ok(2) c(1) out by (simp_all add: usable_config_def)
  obtain a where a: "host_app (pr_runtime p) = Some a" "pump_serving False (pr_context p) a"
    using p(1,2) by (auto simp: process_inv_def process_ok_def host_inv_def)
  have "fst (pump_ipc_start env s t (bk_ipc b) (Some (host_control (pr_runtime p)), Some a)) = 0"
    using ipc_start_ok [of "fst (bk_ipc b)" "snd (bk_ipc b)" a "bk_config b" env w s t] a(2) p(3) c out st(2) by simp
  then have "fst (the (pb_ipc_start (pr_backend p)) (pr_context p) (runtime_control (pr_runtime p))) = 0"
    using p(1,3) a(1) by (simp add: process_inv_def process_ok_def runtime_control_def swbt_runtime_host_control_def)
  then have "fst (swbt_daemon_process_start ?henv (Some p)) = SWBT_DAEMON_PROCESS_OK"
    using process_start_calls [OF p(1,2), of ?henv] henv by (auto split: if_splits)
  then have "fst (run_process w swbt_daemon_process_start p ?b) = SWBT_DAEMON_PROCESS_OK"
    by (simp add: run_process_def case_prod_beta Let_def)
  then obtain b0 where b0: "main_enter env w mem (Some m) (Some b) l = Inr b0"
    unfolding eq by (auto simp: case_prod_beta)
  then obtain s' t' where up: "entered b0" "daemon_up env s' t' b0"
    using main_enter_result [OF fresh, of env w "Some m" l] by auto
  obtain r i b1 where b1: "main_connect w l b0 = (r, i, b1)"
    by (rule prod_cases3)
  have "r = SWBT_DAEMON_PRODUCTION_OK"
    using main_connect_result [OF up b1] out ok(1) by (simp add: outside_ok_def)
  then show ?thesis
    using b0 b1 main_connect_result [OF up b1] by blast
qed


section \<open>The whole run\<close>

definition valid_run_config :: "swbt_daemon_production_run_config_t \<Rightarrow> swbt_daemon_config_t \<Rightarrow> bool" where
  "valid_run_config c config \<longleftrightarrow> run_config c = Some config \<and> cfg_report_period_us config \<noteq> 0 \<and> device_info_wf (cfg_device_info config)
     \<and> swbt_btstack_production_ports_has_ipc_pump (run_ports c)
     \<and> (run_learned_configured c \<longrightarrow> (\<exists>path. run_learned_target c = Some path \<and> at_cursor path \<noteq> NUL))"

definition new_memory :: "process \<Rightarrow> runner \<Rightarrow> bool" where
  "new_memory mem b \<longleftrightarrow> pr_trace mem = [] \<and> host_trace (pr_runtime mem) = [] \<and> blank_runner b"

lemma run_main:
  assumes "valid_run_config c config" "new_memory mem runner_mem"
  shows "\<exists>b. fresh b \<and> bk_ports b = run_ports c \<and> bk_config b = config \<and> bk_adapter_location_configured b = run_adapter_location_configured c
    \<and> rn_config (snd (bk_ipc b)) = swbt_daemon_ipc_runner_config_from_daemon_config (Some config)
    \<and> swbt_daemon_production_run env w es w' mem domain_mem (Some ipc_mem) runner_mem (Some c) =
        swbt_daemon_production_main_with_runner_and_shutdown env w es w' mem domain_mem (Some b) (run_shutdown_listener c)"
proof -
  obtain b where b: "swbt_daemon_production_runner_init (Some ipc_mem) (Some runner_mem) (Some config) (run_ports c) = (SWBT_DAEMON_PRODUCTION_OK, Some b)"
      "fresh b" "bk_ports b = run_ports c" "bk_config b = config" "\<not> bk_adapter_location_configured b"
      "rn_config (snd (bk_ipc b)) = swbt_daemon_ipc_runner_config_from_daemon_config (Some config)"
    using runner_init_fresh [of runner_mem config "run_ports c" ipc_mem] assms by (auto simp: valid_run_config_def new_memory_def)
  have i: "bk_initialized b"
    using b(2) by (simp add: fresh_def at_rest_def)
  define b1 where "b1 = (if run_adapter_location_configured c then b\<lparr>bk_adapter_location_configured := True\<rparr> else b)"
  define b2 where "b2 = (if run_learned_configured c then b1\<lparr>bk_learned_target := run_learned_target c, bk_learned_configured := True\<rparr> else b1)"
  have "swbt_daemon_production_run env w es w' mem domain_mem (Some ipc_mem) runner_mem (Some c) =
      swbt_daemon_production_main_with_runner_and_shutdown env w es w' mem domain_mem (Some b2) (run_shutdown_listener c)"
    using assms(1) b(1) i
    by (auto simp: swbt_daemon_production_run_def valid_run_config_def b1_def b2_def Let_def
        swbt_daemon_production_runner_set_adapter_location_configured_def swbt_daemon_production_runner_set_learned_switch_address_target_def)
  moreover have "fresh b2 \<and> bk_ports b2 = run_ports c \<and> bk_config b2 = config \<and> bk_adapter_location_configured b2 = run_adapter_location_configured c
      \<and> rn_config (snd (bk_ipc b2)) = swbt_daemon_ipc_runner_config_from_daemon_config (Some config)"
    using b(2-) by (auto simp: b1_def b2_def fresh_def at_rest_def)
  ultimately show ?thesis
    by blast
qed

section \<open>What the console sees of a shutdown\<close>

text \<open>A device port that hands every message of legal length to BTstack, as the production port does.\<close>

definition accepts :: "device_env \<Rightarrow> bool" where
  "accepts d \<longleftrightarrow> (\<forall>cid m. 0 < length m \<and> length m \<le> 0xFFFF \<longrightarrow> de_send d cid m = 0) \<and> (\<forall>cid. de_disconnect d cid = 0)"

lemma production_accepts: "accepts (production_device_env code renv f)"
  by (simp add: accepts_def production_send_ok)

text \<open>The neutral report as the next message of an adapter.\<close>

definition neutral_message :: "adapter \<Rightarrow> bytes" where
  "neutral_message a = 0xA1 # due_report (ta_scheduler a) swbt_state_neutral"

lemma bridge_send_up:
  assumes "device_up (bk_device b)" "accepts (pv_device w)" "swbt_btstack_production_ports_is_valid (bk_ports b)" "0 < length m" "length m \<le> 0xFFFF"
  shows "swbt_daemon_btstack_report_timer_bridge_send w b cid m = (0, b\<lparr>bk_device := dev_call (DeviceSend cid m 0) (bk_device b)\<rparr>)"
  using assms bridge_valid [OF assms(3)]
  by (auto simp: swbt_daemon_btstack_report_timer_bridge_send_def swbt_btstack_device_send_def device_up_def device_inv_def accepts_def)

lemma bridge_neutral:
  assumes "device_up (bk_device b)" "timer_good (bk_report_timer b)" "accepts (pv_device w)" "ta_running (bk_report_timer b)"
    "swbt_btstack_production_ports_is_valid (bk_ports b)" "bk_report_timer_initialized b"
  defines "cid \<equiv> ta_hid_cid (bk_report_timer b)" and "m \<equiv> neutral_message (bk_report_timer b)"
  shows "\<exists>a. swbt_daemon_btstack_report_timer_bridge_send_neutral_now w b =
      (0, b\<lparr>bk_report_timer := a, bk_device := dev_call (DeviceSend cid m 0) (bk_device b)\<rparr>)
    \<and> ta_running a \<and> ta_hid_cid a = cid"
proof -
  let ?a = "bk_report_timer b"
  let ?env = "production_timer_env w b"
  let ?a' = "(bump_timer (full_sent ?env ?a cid swbt_state_neutral))\<lparr>ta_neutral_send_pending := False\<rparr>"
  have m: "0 < length m" "length m \<le> 0xFFFF"
    by (simp_all add: m_def neutral_message_def)
  have "env_hid_send ?env cid m = 0"
    using bridge_send_up [OF assms(1,3,5) m] by (simp add: production_timer_env_def)
  then have code: "full_code ?env ?a cid swbt_state_neutral = 0"
    using assms(2) by (simp add: full_code_def transport_def timer_good_def m_def neutral_message_def)
  then have send: "swbt_btstack_production_report_timer_send_neutral_now ?env (Some ?a) = (0, Some ?a')"
    using assms(2,4) send_neutral_eq [of ?a ?env]
    by (simp add: swbt_btstack_production_report_timer_send_neutral_now_def swbt_btstack_input_report_timer_adapter_send_neutral_now_def
        timer_good_def cid_def)
  have trace: "drop (length (ta_trace ?a)) (ta_trace ?a') = [HidSend cid m 0]"
    using assms(2) code by (simp add: full_sent_def send_event_def timer_good_def m_def neutral_message_def bump_timer_def)
  have "set_timer w ?a' b = b\<lparr>bk_report_timer := ?a', bk_device := dev_call (DeviceSend cid m 0) (bk_device b)\<rparr>"
    using bridge_send_up [of "b\<lparr>bk_report_timer := ?a'\<rparr>" w m cid] assms(1,3,5) m unfolding set_timer_def trace by simp
  then show ?thesis
    using assms(4,6) bridge_valid [OF assms(5)] send
    by (intro exI [of _ ?a']) (simp add: swbt_daemon_btstack_report_timer_bridge_send_neutral_now_def cid_def)
qed

lemma main_thread_neutral:
  assumes "in_phase b Requested" "daemon_up env s t b" "ta_running (bk_report_timer b)" "accepts (pv_device w)"
  defines "cid \<equiv> ta_hid_cid (bk_report_timer b)"
  shows "dev_trace (bk_device (loop_exec (LMainThread w) b)) =
      dev_trace (bk_device b) @ [DeviceSend cid (neutral_message (bk_report_timer b)) 0, DeviceDisconnect cid 0]"
    and "in_phase (loop_exec (LMainThread w) b) AwaitDisconnect"
    and "\<exists>p a. bk_host (loop_exec (LMainThread w) b) = Some p \<and> swbt_daemon_process_app (Some p) = Some a
      \<and> domain_owner a = None \<and> dom_state a = swbt_state_neutral"
proof -
  let ?b = "b\<lparr>bk_main_thread := False\<rparr>"
  have fl: "flags b True True False False False True"
    using assms(1) by simp
  have b: "device_up (bk_device ?b)" "timer_good (bk_report_timer ?b)" "ta_running (bk_report_timer ?b)"
      "swbt_btstack_production_ports_is_valid (bk_ports ?b)" "bk_report_timer_initialized ?b" "bk_initialized ?b" "host_up env s t ?b"
    using assms(2,3) flagsD [OF fl] by (simp_all add: daemon_up_def host_up_def)
  obtain p where p: "bk_host ?b = Some p" "daemon_process env s t p" "pr_running p" "host_inv (pr_runtime p)"
    using host_up_process [OF b(7)] by metis
  obtain ad where ad: "swbt_daemon_btstack_report_timer_bridge_send_neutral_now w ?b =
      (0, ?b\<lparr>bk_report_timer := ad, bk_device := dev_call (DeviceSend cid (neutral_message (bk_report_timer b)) 0) (bk_device b)\<rparr>)"
      "ta_running ad" "ta_hid_cid ad = cid"
    using bridge_neutral [OF b(1,2) assms(4) b(3,4,5)] by (auto simp: cid_def)
  let ?c = "?b\<lparr>bk_report_timer := ad, bk_device := dev_call (DeviceSend cid (neutral_message (bk_report_timer b)) 0) (bk_device b)\<rparr>"
  let ?henv = "production_host_env w (host_output_handler (pr_runtime p)) ?b"
  obtain a where a: "host_app (pr_runtime p) = Some a" "domain_inv a"
    using p(4) by (auto simp: host_inv_def)
  have code: "he_send_neutral_now ?henv = 0"
    using ad(1) b(6) by (simp add: production_host_env_def swbt_daemon_production_process_report_timer_send_neutral_now_def case_prod_beta)
  let ?h = "(host_emit (ReportTimerSendNeutralNow 0) (pr_runtime p))\<lparr>host_app := Some (neutralised a)\<rparr>"
  have "swbt_runtime_host_send_neutral_now ?henv (Some (pr_runtime p)) = (SWBT_RUNTIME_HOST_OK, Some ?h)"
    using running_host [OF p(2,3)] code
    by (simp add: swbt_runtime_host_send_neutral_now_def store_neutral [OF a(1)] host_emit_def Let_def)
  then have send: "swbt_daemon_process_send_neutral_now ?henv (Some p) = (SWBT_DAEMON_PROCESS_OK, Some (set_runtime ?h p))"
    using running_host [OF p(2,3)] by (simp add: swbt_daemon_process_send_neutral_now_def)
  have run: "run_process w swbt_daemon_process_send_neutral_now p ?b = (SWBT_DAEMON_PROCESS_OK, set_runtime ?h p, ?c)"
    using ad(1) b(6) unfolding run_process_def Let_def send
    by (simp add: swbt_daemon_production_process_report_timer_send_neutral_now_def)
  have eq: "loop_exec (LMainThread w) b = swbt_daemon_shutdown_sequence_finish w (?c\<lparr>bk_host := Some (set_runtime ?h p)\<rparr>)"
    using flagsD [OF fl] p(1) run by (simp add: swbt_daemon_shutdown_sequence_on_main_thread_def)
  let ?d = "?c\<lparr>bk_host := Some (set_runtime ?h p)\<rparr>"
  let ?e = "(set_disconnect_pending True ?d)\<lparr>bk_device := dev_call (DeviceDisconnect cid 0) (bk_device ?d)\<rparr>"
  have "swbt_daemon_shutdown_sequence_is_ready (bk_shutdown ?d)" "\<not> sd_disconnect_pending (bk_shutdown ?d)" "bk_initialized ?d"
    using flagsD [OF fl] by simp_all
  moreover have "swbt_btstack_device_disconnect (pv_device w) (Some (bk_device ?d)) cid =
      (SWBT_BTSTACK_DEVICE_OK, Some (dev_call (DeviceDisconnect cid 0) (bk_device ?d)))"
    using b(1) assms(4) by (simp add: swbt_btstack_device_disconnect_def device_up_def device_inv_def accepts_def)
  ultimately have fin: "loop_exec (LMainThread w) b = swbt_daemon_production_runner_arm_shutdown_disconnect_timer ?e"
    unfolding eq swbt_daemon_shutdown_sequence_finish_def
    using ad(2,3) by (simp add: swbt_daemon_production_runner_finish_shutdown_def set_disconnect_pending_def)
  have arm: "bk_device (swbt_daemon_production_runner_arm_shutdown_disconnect_timer x) = bk_device x"
      "bk_host (swbt_daemon_production_runner_arm_shutdown_disconnect_timer x) = bk_host x" for x
    by (simp_all add: swbt_daemon_production_runner_arm_shutdown_disconnect_timer_def bk_emit_def)
  show "dev_trace (bk_device (loop_exec (LMainThread w) b)) =
      dev_trace (bk_device b) @ [DeviceSend cid (neutral_message (bk_report_timer b)) 0, DeviceDisconnect cid 0]"
    unfolding fin arm by simp
  show "\<exists>p a. bk_host (loop_exec (LMainThread w) b) = Some p \<and> swbt_daemon_process_app (Some p) = Some a
      \<and> domain_owner a = None \<and> dom_state a = swbt_state_neutral"
    unfolding fin arm
    by (simp add: set_disconnect_pending_def swbt_daemon_process_app_def swbt_runtime_host_app_def neutralised_owner)
  have "flags ?e True False False True False True"
    using fl by (simp add: flags_def set_disconnect_pending_def swbt_daemon_shutdown_sequence_is_ready_def)
  then show "in_phase (loop_exec (LMainThread w) b) AwaitDisconnect"
    unfolding fin using arm_disconnect_flags(1) by simp
qed

lemma start_runs:
  assumes "timer_good a"
  shows "ta_running (the (snd (swbt_btstack_production_report_timer_start (Some a) opts)))"
  using assms
  by (simp add: timer_good_def scheduler_ok_def swbt_btstack_production_report_timer_start_def
      swbt_btstack_input_report_timer_adapter_start_def swbt_btstack_input_report_scheduler_start_def
      swbt_btstack_input_report_scheduler_is_valid_def schedule_armed Let_def)

text \<open>A connection that opens starts the report timer.\<close>

lemma opened_runs:
  assumes "in_phase b ph" "daemon_up env s t b" "env_ok w"
    and "swbt_btstack_hid_event_decode B packet_type packet (Some zero_event) = (SWBT_BTSTACK_HID_EVENT_OK, Some event)"
    and "ev_type event = SWBT_BTSTACK_HID_EVENT_CONNECTION_OPENED" "ev_status event = 0"
  shows "ta_running (bk_report_timer (loop_exec (LHidPacket B w packet_type packet) b))"
proof -
  let ?c = "swbt_daemon_production_runner_cancel_active_reconnect_timeout_timer b"
  let ?l = "swbt_daemon_btstack_hid_session_maybe_save_learned_address w ?c (ev_address event)"
  have q: "undisturbed env s t b ?c" "undisturbed env s t ?c ?l"
    using cancel_reconnect_quiet save_learned_quiet [OF assms(3)] by blast+
  have "timer_good (bk_report_timer ?l)"
    using assms(2) q by (simp add: undisturbed_def daemon_up_def)
  note run = start_runs [OF this]
  have "swbt_daemon_btstack_hid_session_report_timer_is_ready ?c"
    using phase_timer_ready [of ?c ph] undisturbed_phase [OF q(1)] assms(1) by simp
  moreover have "dev_initialized (bk_device b)" "dev_hid_registered (bk_device b)" "bk_session b"
    using assms(2) phaseD(6) [OF assms(1)] by (auto simp: daemon_up_def device_up_def device_inv_def)
  ultimately show ?thesis
    using run assms(5,6)
    by (simp add: swbt_daemon_btstack_hid_session_packet_handler_def swbt_btstack_device_recv_def assms(4)
        swbt_daemon_btstack_hid_session_handle_connection_opened_def swbt_daemon_production_runner_note_hid_open_completed_def
        Let_def case_prod_beta)
qed

section \<open>A concrete run\<close>

definition demo_production_env :: production_env where
  "demo_production_env = \<lparr>pv_device = \<lparr>de_platform_start = 0, de_hid_register = (\<lambda>_ _. 0), de_connect = (\<lambda>_. (0, 1)),
      de_disconnect = (\<lambda>_. 0), de_send = (\<lambda>_ _. 0)\<rparr>, pv_time_ms = 1000, pv_controller_address = (0, replicate 6 0), pv_power_on = 0,
     pv_response_memory = he_response_memory demo_host_env, pv_save_learned = (\<lambda>c _ _. c), pv_listener_install = 0\<rparr>"

definition demo_run_config :: swbt_daemon_production_run_config_t where
  "demo_run_config = \<lparr>run_config = Some swbt_daemon_config_default, run_ports = Some swbt_btstack_production_ports_btstack,
     run_adapter_location_configured = True, run_learned_configured = False, run_learned_target = None,
     run_shutdown_listener = Some \<lparr>sl_install = True, sl_uninstall = True\<rparr>\<rparr>"

definition demo_runner_memory :: runner where
  "demo_runner_memory = \<lparr>bk_config = swbt_daemon_config_default, bk_learned_target = None, bk_ipc = (zero_platform, demo_runner),
     bk_device = \<lparr>dev_initialized = False, dev_platform_started = False, dev_hid_registered = False, dev_trace = []\<rparr>,
     bk_report_timer = zero_adapter, bk_shutdown = zero_shutdown, bk_ports = None, bk_host = None, bk_hid_service_buffer = [],
     bk_initialized = False, bk_report_timer_initialized = False, bk_learned_configured = False, bk_adapter_location_configured = False,
     bk_reconnect_timer_pending = False, bk_disconnect_timer_pending = False, bk_hardware_powered = False, bk_session = False,
     bk_callbacks = zero_output_callbacks, bk_main_thread = False, bk_trace = []\<rparr>"

text \<open>A packet of BTstack that announces a free interrupt channel.\<close>

definition demo_can_send :: bytes where
  "demo_can_send = [HCI_EVENT_HID_META demo_numbers, 3, HID_SUBEVENT_CAN_SEND_NOW demo_numbers, 1, 0]"

definition demo_events_run :: "loop_event list" where
  "demo_events_run = [LReportTimer demo_production_env, LShutdownRequest, LMainThread demo_production_env,
     LHidPacket demo_numbers demo_production_env (HCI_EVENT_PACKET demo_numbers) (Some demo_can_send), LDisconnectTimer demo_production_env]"

definition demo_process_memory :: process where
  "demo_process_memory = blank_process pump_backend (zero_platform, demo_runner)"

lemma demo_run_ok:
  "valid_run_config demo_run_config swbt_daemon_config_default" "usable_config swbt_daemon_config_default"
  "new_memory demo_process_memory demo_runner_memory" "outside_ok demo_ipc_env demo_production_env" "env_ok demo_production_env"
  using ports_btstack_valid
  by (simp_all add: valid_run_config_def demo_run_config_def swbt_daemon_config_default_def usable_config_def new_memory_def
      demo_process_memory_def blank_process_def demo_runner_memory_def blank_runner_def zero_host_def zero_output_callbacks_def outside_ok_def
      demo_ipc_env_def demo_production_env_def env_ok_def demo_host_env_def swbt_btstack_production_ports_is_valid_def
      empty_response_def)

lemma demo_events_ok: "\<forall>e\<in>set demo_events_run. loop_ok e"
  using demo_run_ok(5) by (simp add: demo_events_run_def)

lemma demo_can_send_event:
  "hid_event_of demo_numbers (HCI_EVENT_PACKET demo_numbers) (Some demo_can_send) = SWBT_BTSTACK_HID_EVENT_CAN_SEND_NOW"
  by (simp add: hid_event_of_def demo_can_send_def demo_numbers_def swbt_btstack_hid_event_decode_def
      swbt_btstack_hid_event_has_prefix_def swbt_btstack_hid_event_is_hid_meta_def swbt_btstack_hid_event_clear_def)

section \<open>Properties\<close>

text \<open>However the daemon is run, whatever the hardware, the sockets and the console do and whatever happens in the run
  loop: when the main function returns, the HID device is closed and the platform stopped in the right order, the report timer
  is stopped and no timer of it is left in the run loop, the output handler is unregistered, the IPC service neither
  listens nor holds a connection, the controller is off, no reconnect timer is left, and the exit was asked for at most once, after
  power off; when it was, no disconnect timer is left either.\<close>

theorem production_run_clean:
  assumes "valid_run_config c config" "new_memory mem runner_mem" "\<forall>e\<in>set es. loop_ok e"
  shows "\<exists>r b. swbt_daemon_production_run env w es w' mem domain_mem (Some ipc_mem) runner_mem (Some c) = (r, Some b)
    \<and> clean b"
proof -
  obtain b where b: "fresh b" "swbt_daemon_production_run env w es w' mem domain_mem (Some ipc_mem) runner_mem (Some c) =
      swbt_daemon_production_main_with_runner_and_shutdown env w es w' mem domain_mem (Some b) (run_shutdown_listener c)"
    using run_main [OF assms(1,2)] by blast
  show ?thesis
    using main_clean [OF b(1) _ _ assms(3)] assms(2) unfolding b(2) new_memory_def by blast
qed

theorem production_run_clean_witness:
  "\<exists>r b. swbt_daemon_production_run demo_ipc_env demo_production_env demo_events_run demo_production_env demo_process_memory
      (Some zero_domain) (Some zero_domain) demo_runner_memory (Some demo_run_config) = (r, Some b) \<and> \<not> bk_hardware_powered b \<and> device_off (bk_device b)"
  using production_run_clean [OF demo_run_ok(1,3) demo_events_ok] by (meson clean_def at_rest_def)

text \<open>C7: The shutdown sequence refines the machine of five phases: whatever happens in the run loop, in any order, the flags
  of the runner are those of a phase the machine allows. So a second request changes nothing, the disconnect
  timer is armed exactly while a disconnect is awaited, the controller is on until the exit and the exit is triggered once,
  after power off. All that time the HID device stays registered and the process runs.\<close>

theorem shutdown_refines_phases:
  assumes "fresh b" "pr_trace mem = []" "host_trace (pr_runtime mem) = []"
    and "main_enter env w mem domain_mem (Some b) l = Inr b0" "main_connect w l b0 = (SWBT_DAEMON_PRODUCTION_OK, installed, b1)"
    and "\<forall>e\<in>set es. loop_ok e"
  shows "\<exists>ph\<in>phase_runs es Serving. in_phase (loop_run es b1) ph
    \<and> (\<exists>p. bk_host (loop_run es b1) = Some p \<and> pr_running p) \<and> swbt_btstack_device_is_open (Some (bk_device (loop_run es b1)))"
proof -
  obtain s t where "entered b0" "daemon_up env s t b0"
    using main_enter_result [OF assms(1-3), of env w domain_mem l] assms(4) by auto
  from main_connect_result [OF this assms(5)] have "in_phase b1 Serving" "daemon_up env s t b1"
    by simp_all
  from loop_run_phase [OF this assms(6)] show ?thesis
    by (auto simp: daemon_up_def device_up_def host_up_def swbt_btstack_device_is_open_def)
qed

lemma demo_reaches_loop:
  "\<exists>b b0 i b1. fresh b \<and> main_enter demo_ipc_env demo_production_env demo_process_memory (Some zero_domain) (Some b)
      (run_shutdown_listener demo_run_config) = Inr b0
    \<and> main_connect demo_production_env (run_shutdown_listener demo_run_config) b0 = (SWBT_DAEMON_PRODUCTION_OK, i, b1)"
proof -
  obtain b where b: "fresh b" "bk_ports b = Some swbt_btstack_production_ports_btstack" "bk_config b = swbt_daemon_config_default"
      "bk_adapter_location_configured b"
      "rn_config (snd (bk_ipc b)) = swbt_daemon_ipc_runner_config_from_daemon_config (Some swbt_daemon_config_default)"
    using run_main [OF demo_run_ok(1,3), of demo_ipc_env demo_production_env "[]" demo_production_env "Some zero_domain" zero_domain]
    by (auto simp: demo_run_config_def)
  have l: "swbt_daemon_shutdown_sequence_listener_is_valid (run_shutdown_listener demo_run_config)"
    by (simp add: demo_run_config_def swbt_daemon_shutdown_sequence_listener_is_valid_def)
  have s: "po_ipc_pump (the (bk_ports b)) = \<lparr>pump_start = Some (swbt_btstack_production_ipc_pump_start True),
      pump_stop = Some swbt_btstack_production_ipc_pump_stop\<rparr>" "fst (swbt_btstack_production_ipc_pump_start True (fst (bk_ipc b))) = 0"
    by (simp_all add: b(2) swbt_btstack_production_ports_btstack_def swbt_btstack_production_ipc_pump_start_def)
  have m: "pr_trace demo_process_memory = []" "host_trace (pr_runtime demo_process_memory) = []"
    using demo_run_ok(3) by (simp_all add: new_memory_def)
  show ?thesis
    using main_reaches_loop [OF b(1) m l _ b(4) s _ _ demo_run_ok(4), of zero_domain] b ports_btstack_valid demo_run_ok(2) by metis
qed

theorem shutdown_refines_phases_witness:
  "\<exists>b b0 i b1. main_enter demo_ipc_env demo_production_env demo_process_memory (Some zero_domain) (Some b)
      (run_shutdown_listener demo_run_config) = Inr b0
    \<and> main_connect demo_production_env (run_shutdown_listener demo_run_config) b0 = (SWBT_DAEMON_PRODUCTION_OK, i, b1)
    \<and> (\<exists>ph\<in>phase_runs demo_events_run Serving. in_phase (loop_run demo_events_run b1) ph)"
proof -
  have m: "pr_trace demo_process_memory = []" "host_trace (pr_runtime demo_process_memory) = []"
    using demo_run_ok(3) by (simp_all add: new_memory_def)
  show ?thesis
    using demo_reaches_loop shutdown_refines_phases [OF _ m _ _ demo_events_ok] by metis
qed

text \<open>C8: The shutdown completes: when sockets, hardware and listener work, the main function reaches its run loop, and once a
  request, its callback on the main thread, a free channel (or the end of the connection) and the disconnect timer have
  come in this order, with anything else happening in between, the run loop is told to exit, and the daemon returns
  success with the controller off and nothing left behind.\<close>

theorem shutdown_completes:
  assumes "valid_run_config c config" "usable_config config" "new_memory mem runner_mem"
    and "run_ports c = Some swbt_btstack_production_ports_btstack" "run_adapter_location_configured c"
    and "swbt_daemon_shutdown_sequence_listener_is_valid (run_shutdown_listener c)" "outside_ok env w" "\<forall>e\<in>set es. loop_ok e"
    and "hid_event_of B packet_type packet \<in> {SWBT_BTSTACK_HID_EVENT_CAN_SEND_NOW, SWBT_BTSTACK_HID_EVENT_CONNECTION_CLOSED}"
    and "subseq [LShutdownRequest, LMainThread w1, LHidPacket B w2 packet_type packet, LDisconnectTimer w3] es"
  shows "\<exists>b. swbt_daemon_production_run env w es w' mem (Some m) (Some ipc_mem) runner_mem (Some c) = (SWBT_DAEMON_PRODUCTION_OK, Some b)
    \<and> clean b \<and> power_calls (bk_trace b) (False, False) = Some (False, True)"
proof -
  obtain b where b: "fresh b" "bk_ports b = Some swbt_btstack_production_ports_btstack" "bk_config b = config" "bk_adapter_location_configured b"
      "rn_config (snd (bk_ipc b)) = swbt_daemon_ipc_runner_config_from_daemon_config (Some config)"
      "swbt_daemon_production_run env w es w' mem (Some m) (Some ipc_mem) runner_mem (Some c) =
        swbt_daemon_production_main_with_runner_and_shutdown env w es w' mem (Some m) (Some b) (run_shutdown_listener c)"
    using run_main [OF assms(1,3), of env w es w' "Some m" ipc_mem] assms(4,5) by auto
  have s: "po_ipc_pump (the (bk_ports b)) = \<lparr>pump_start = Some (swbt_btstack_production_ipc_pump_start True),
      pump_stop = Some swbt_btstack_production_ipc_pump_stop\<rparr>" "fst (swbt_btstack_production_ipc_pump_start True (fst (bk_ipc b))) = 0"
    by (simp_all add: b(2) swbt_btstack_production_ports_btstack_def swbt_btstack_production_ipc_pump_start_def)
  obtain b0 i b1 s t where b1: "main_enter env w mem (Some m) (Some b) (run_shutdown_listener c) = Inr b0"
      "main_connect w (run_shutdown_listener c) b0 = (SWBT_DAEMON_PRODUCTION_OK, i, b1)" "in_phase b1 Serving" "daemon_up env s t b1"
    using main_reaches_loop [OF b(1) _ _ assms(6) _ b(4) s _ _ assms(7), of mem m] b(2-5) assms(2,3) ports_btstack_valid
    unfolding new_memory_def by metis
  obtain ph where ph: "ph \<in> phase_runs es Serving" "in_phase (loop_run es b1) ph" "daemon_up env s t (loop_run es b1)"
    using loop_run_phase [OF b1(3,4) assms(8)] by blast
  have "ph = Exited"
    by (rule phase_progress [OF refl assms(9) _ ph(1)]) (use assms(10) in simp)
  then have l: "in_phase (loop_run es b1) Exited" "daemon_up env s t (loop_run es b1)"
    using ph(2,3) by simp_all
  then have "clean (main_leave w' (run_shutdown_listener c) i (loop_run es b1))"
      "power_calls (bk_trace (main_leave w' (run_shutdown_listener c) i (loop_run es b1))) (False, False) = Some (False, True)"
    using main_leave_clean [OF l(2), of True w' "run_shutdown_listener c" i] by (auto simp: flags_def)
  then show ?thesis
    unfolding b(6) swbt_daemon_production_main_with_runner_and_shutdown_def b1(1) by (simp add: b1(2))
qed

theorem shutdown_completes_witness:
  "\<exists>b. swbt_daemon_production_run demo_ipc_env demo_production_env demo_events_run demo_production_env demo_process_memory
      (Some zero_domain) (Some zero_domain) demo_runner_memory (Some demo_run_config) = (SWBT_DAEMON_PRODUCTION_OK, Some b)
    \<and> clean b \<and> power_calls (bk_trace b) (False, False) = Some (False, True)"
  by (rule shutdown_completes [OF demo_run_ok(1,2,3) _ _ _ demo_run_ok(4) demo_events_ok])
     (use demo_can_send_event in \<open>auto simp: demo_run_config_def swbt_daemon_shutdown_sequence_listener_is_valid_def demo_events_run_def\<close>)


text \<open>C9: What the console sees when a connected daemon is asked to shut down, in every state of the run loop: one report
  of the neutral controller state, and then the disconnect. No client owns the controller any more, its state is neutral,
  and the daemon waits for the end of the connection with the disconnect timer armed.\<close>

theorem shutdown_neutral_then_disconnect:
  assumes "fresh b" "pr_trace mem = []" "host_trace (pr_runtime mem) = []"
    and "main_enter env w0 mem domain_mem (Some b) l = Inr b0" "main_connect w0 l b0 = (SWBT_DAEMON_PRODUCTION_OK, installed, b1)"
    and "\<forall>e\<in>set es. loop_ok e" "loop_run es b1 = b2" "in_phase b2 Requested" "ta_running (bk_report_timer b2)"
    and "pv_device w = production_device_env code renv f"
  shows "\<exists>m. dev_trace (bk_device (loop_exec (LMainThread w) b2)) = dev_trace (bk_device b2)
        @ [DeviceSend (ta_hid_cid (bk_report_timer b2)) (0xA1 # m) 0, DeviceDisconnect (ta_hid_cid (bk_report_timer b2)) 0]
      \<and> (\<forall>k<3. report_state_of k m = swbt_state_neutral) \<and> in_phase (loop_exec (LMainThread w) b2) AwaitDisconnect
      \<and> (\<exists>p a. bk_host (loop_exec (LMainThread w) b2) = Some p \<and> swbt_daemon_process_app (Some p) = Some a
          \<and> domain_owner a = None \<and> dom_state a = swbt_state_neutral)"
proof -
  obtain s t where "entered b0" "daemon_up env s t b0"
    using main_enter_result [OF assms(1-3), of env w0 domain_mem l] assms(4) by auto
  from main_connect_result [OF this assms(5)] have "in_phase b1 Serving" "daemon_up env s t b1"
    by simp_all
  from loop_run_phase [OF this assms(6)] have up: "daemon_up env s t b2"
    using assms(7) by blast
  have acc: "accepts (pv_device w)"
    unfolding assms(10) by (rule production_accepts)
  have "report_state_of k (due_report sch swbt_state_neutral) = swbt_state_neutral" if "k < 3" for k sch
    using state_of_standard_full [OF that, of swbt_state_neutral _ "[]"]
    by (simp add: due_report_def report_canon_def swbt_state_neutral_def swbt_clamp_stick_12bit_def)
  then show ?thesis
    using main_thread_neutral [OF assms(8) up assms(9) acc] unfolding neutral_message_def by blast
qed


text \<open>The demonstration: a console connects, then a shutdown is requested.\<close>

definition demo_opened :: bytes where
  "demo_opened = [0xEF, 13, 0x02, 0x42, 0, 0, 6, 5, 4, 3, 2, 1, 9, 9, 0]"

definition demo_connected_events :: "loop_event list" where
  "demo_connected_events = [LHidPacket demo_numbers demo_production_env 0x04 (Some demo_opened), LShutdownRequest]"

lemma demo_connected_events_ok: "\<forall>e\<in>set demo_connected_events. loop_ok e"
  using demo_run_ok(5) by (simp add: demo_connected_events_def)

definition demo_shutdown_env :: production_env where
  "demo_shutdown_env = demo_production_env\<lparr>pv_device := production_device_env 0
     \<lparr>sdp_service_record_handle = 0x10001, sdp_create_record = (\<lambda>buffer _ _. buffer), sdp_record_length = (\<lambda>_. 300), sdp_register = (\<lambda>_. 0)\<rparr>
     (\<lambda>_. (0, 1))\<rparr>"

lemma demo_opened_event:
  "swbt_btstack_hid_event_decode demo_numbers 0x04 (Some demo_opened) (Some zero_event) =
    (SWBT_BTSTACK_HID_EVENT_OK, Some \<lparr>ev_type = SWBT_BTSTACK_HID_EVENT_CONNECTION_OPENED, ev_hid_cid = 0x42, ev_status = 0,
       ev_address = [1, 2, 3, 4, 5, 6]\<rparr>)"
  by (simp add: demo_opened_def demo_numbers_def swbt_btstack_hid_event_decode_def swbt_btstack_hid_event_has_prefix_def
      swbt_btstack_hid_event_is_hid_meta_def swbt_btstack_hid_event_clear_def zero_event_def swbt_btstack_hid_event_read_u16_le_def
      swbt_btstack_hid_event_copy_reversed_address_def Let_def)

lemma demo_connected_requested:
  assumes "in_phase b Serving" "daemon_up env s t b"
  shows "in_phase (loop_run demo_connected_events b) Requested \<and> ta_running (bk_report_timer (loop_run demo_connected_events b))"
proof -
  let ?p = "LHidPacket demo_numbers demo_production_env 0x04 (Some demo_opened)"
  let ?b = "loop_exec ?p b"
  obtain ph where "ph \<in> phase_next ?p Serving" "in_phase ?b ph" "daemon_up env s t ?b"
    using loop_step_phase [OF assms, of ?p] demo_run_ok(5) by auto
  then have b: "in_phase ?b Serving" "daemon_up env s t ?b"
    by auto
  obtain ph' where "ph' \<in> phase_next LShutdownRequest Serving" "in_phase (loop_exec LShutdownRequest ?b) ph'"
    using loop_step_phase [OF b, of LShutdownRequest] by auto
  moreover have "ta_running (bk_report_timer ?b)"
    using opened_runs [OF assms demo_run_ok(5) demo_opened_event] by simp
  moreover have "bk_report_timer (loop_exec LShutdownRequest ?b) = bk_report_timer ?b"
    unfolding loop_exec.simps(1) by (simp add: swbt_daemon_shutdown_sequence_request_def bk_emit_def)
  ultimately show ?thesis
    by (simp add: loop_run_def demo_connected_events_def)
qed

theorem shutdown_neutral_then_disconnect_witness:
  "\<exists>b m. in_phase b Requested \<and> dev_trace (bk_device (loop_exec (LMainThread demo_shutdown_env) b)) = dev_trace (bk_device b)
      @ [DeviceSend (ta_hid_cid (bk_report_timer b)) (0xA1 # m) 0, DeviceDisconnect (ta_hid_cid (bk_report_timer b)) 0]
    \<and> report_state_of 2 m = swbt_state_neutral"
proof -
  let ?l = "run_shutdown_listener demo_run_config"
  have m: "pr_trace demo_process_memory = []" "host_trace (pr_runtime demo_process_memory) = []"
    using demo_run_ok(3) by (simp_all add: new_memory_def)
  obtain b b0 i b1 where b: "fresh b" "main_enter demo_ipc_env demo_production_env demo_process_memory (Some zero_domain) (Some b) ?l = Inr b0"
      "main_connect demo_production_env ?l b0 = (SWBT_DAEMON_PRODUCTION_OK, i, b1)"
    using demo_reaches_loop by blast
  obtain s t where "entered b0" "daemon_up demo_ipc_env s t b0"
    using main_enter_result [OF b(1) m, of demo_ipc_env demo_production_env "Some zero_domain" ?l] b(2) by auto
  from main_connect_result [OF this b(3)] have "in_phase b1 Serving" "daemon_up demo_ipc_env s t b1"
    by simp_all
  note r = demo_connected_requested [OF this]
  let ?b = "loop_run demo_connected_events b1"
  have dv: "pv_device demo_shutdown_env = production_device_env 0
     \<lparr>sdp_service_record_handle = 0x10001, sdp_create_record = (\<lambda>buffer _ _. buffer), sdp_record_length = (\<lambda>_. 300), sdp_register = (\<lambda>_. 0)\<rparr>
     (\<lambda>_. (0, 1))"
    by (simp add: demo_shutdown_env_def)
  obtain msg where msg: "dev_trace (bk_device (loop_exec (LMainThread demo_shutdown_env) ?b)) = dev_trace (bk_device ?b)
      @ [DeviceSend (ta_hid_cid (bk_report_timer ?b)) (0xA1 # msg) 0, DeviceDisconnect (ta_hid_cid (bk_report_timer ?b)) 0]"
      "\<forall>k<3. report_state_of k msg = swbt_state_neutral"
    using shutdown_neutral_then_disconnect [OF b(1) m b(2,3) demo_connected_events_ok refl _ _ dv] r by blast
  have "report_state_of 2 msg = swbt_state_neutral"
    using msg(2) by simp
  then show ?thesis
    using r msg(1) by blast
qed

end
