(* ===== verification/ConfigFile.thy ===== *)
theory ConfigFile
  imports Config "HOL-Library.Finite_Map"
begin

text \<open>
  The configuration file: \<open>src/swbt/daemon/config_file.cpp\<close>. A parsed file is a tree of TOML values; the parser
  and the printer of the TOML library and what the operating system answers are arguments. The files themselves are a map from
  paths to contents that a write changes, also one that fails half way.
\<close>

section \<open>TOML values\<close>

text \<open>
  The kinds of value the code asks for, and all others (booleans, floats, times, arrays). A table is a finite
  map without an order; \<open>contains\<close> and \<open>at\<close> are only called on tables.
\<close>

datatype toml_value =
    TomlTable "(string, toml_value) fmap"
  | TomlString string
  | TomlInteger "64 word"
  | TomlOther string

fun as_table :: "toml_value \<Rightarrow> (string, toml_value) fmap" where
  "as_table (TomlTable members) = members"
| "as_table _ = fmempty"

fun is_table :: "toml_value \<Rightarrow> bool" where
  "is_table (TomlTable _) = True"
| "is_table _ = False"

definition toml_at :: "toml_value \<Rightarrow> string \<Rightarrow> toml_value option" where
  "toml_at v key = fmlookup (as_table v) key"

text \<open>The assignment \<open>v[key] = x\<close>.\<close>

definition toml_assign :: "toml_value \<Rightarrow> string \<Rightarrow> toml_value \<Rightarrow> toml_value" where
  "toml_assign v key x = TomlTable (fmupd key x (as_table v))"

text \<open>What \<open>c_str()\<close> of a string shows to C code: it ends at the first terminator.\<close>

definition c_str :: "string \<Rightarrow> string" where
  "c_str s = c_str_of (s @ [NUL])"

section \<open>Reading\<close>

text \<open>The outer option of \<open>out_table\<close> is the pointer to the result, the inner one the result.\<close>

definition swbt_toml_find_table ::
  "toml_value \<Rightarrow> string \<Rightarrow> toml_value option option \<Rightarrow> bool \<times> toml_value option option" where
  "swbt_toml_find_table root key out_table =
     (if out_table = None then (False, out_table)
      else case toml_at root key of
        None \<Rightarrow> (True, Some None)
      | Some table \<Rightarrow> if \<not> is_table table then (False, Some None) else (True, Some (Some table)))"

fun swbt_toml_key_is_allowed :: "string \<Rightarrow> string list \<Rightarrow> bool" where
  "swbt_toml_key_is_allowed key [] = False"
| "swbt_toml_key_is_allowed key (allowed # allowed_keys) = (if key = allowed then True else swbt_toml_key_is_allowed key allowed_keys)"

definition swbt_toml_table_contains_only_keys :: "toml_value option \<Rightarrow> string list \<Rightarrow> bool" where
  "swbt_toml_table_contains_only_keys table allowed_keys = (case table of
       None \<Rightarrow> True
     | Some t \<Rightarrow> fBall (fmdom (as_table t)) (\<lambda>key. swbt_toml_key_is_allowed key allowed_keys))"

definition swbt_toml_root_contains_only_known_sections :: "toml_value \<Rightarrow> bool" where
  "swbt_toml_root_contains_only_known_sections root =
     fBall (fmdom (as_table root)) (\<lambda>key. swbt_toml_key_is_allowed key [''report'', ''ipc'', ''device'', ''active_reconnect''])"

definition swbt_toml_tables_contain_only_known_keys ::
  "toml_value option \<Rightarrow> toml_value option \<Rightarrow> toml_value option \<Rightarrow> toml_value option \<Rightarrow> toml_value option \<Rightarrow> bool" where
  "swbt_toml_tables_contain_only_known_keys report ipc device active_reconnect active_reconnect_learned \<longleftrightarrow>
     swbt_toml_table_contains_only_keys report [''period_us'']
     \<and> swbt_toml_table_contains_only_keys ipc [''host'', ''port'', ''backlog'', ''heartbeat_timeout_ms'']
     \<and> swbt_toml_table_contains_only_keys device [''profile'']
     \<and> swbt_toml_table_contains_only_keys active_reconnect [''switch_address'', ''learned'']
     \<and> swbt_toml_table_contains_only_keys active_reconnect_learned [''switch_address'']"

text \<open>The member of a table that may be missing, as the functions below look it up.\<close>

definition toml_member :: "toml_value option \<Rightarrow> string \<Rightarrow> toml_value option" where
  "toml_member table key = (case table of None \<Rightarrow> None | Some t \<Rightarrow> toml_at t key)"

definition swbt_toml_apply_u32 :: "toml_value option \<Rightarrow> string \<Rightarrow> u32 \<Rightarrow> bool \<times> u32" where
  "swbt_toml_apply_u32 table key out_value = (case toml_member table key of
       None \<Rightarrow> (True, out_value)
     | Some (TomlInteger parsed) \<Rightarrow>
         if sint parsed < 0 \<or> sint parsed > 4294967295 then (False, out_value) else (True, ucast parsed)
     | Some _ \<Rightarrow> (False, out_value))"

definition swbt_toml_apply_u16 :: "toml_value option \<Rightarrow> string \<Rightarrow> u16 \<Rightarrow> bool \<times> u16" where
  "swbt_toml_apply_u16 table key out_value =
     (if toml_member table key = None then (True, out_value)
      else let (ok, parsed) = swbt_toml_apply_u32 table key 0 in
        if \<not> ok then (False, out_value)
        else if parsed > 0xFFFF then (False, out_value)
        else (True, ucast parsed))"

definition swbt_toml_apply_int :: "toml_value option \<Rightarrow> string \<Rightarrow> int \<Rightarrow> bool \<times> int" where
  "swbt_toml_apply_int table key out_value =
     (if toml_member table key = None then (True, out_value)
      else let (ok, parsed) = swbt_toml_apply_u32 table key 0 in
        if \<not> ok then (False, out_value)
        else if parsed > 0x7FFFFFFF then (False, out_value)
        else (True, uint parsed))"

definition swbt_toml_apply_device_profile :: "toml_value option \<Rightarrow> swbt_daemon_config_t \<Rightarrow> bool \<times> swbt_daemon_config_t" where
  "swbt_toml_apply_device_profile table config = (case toml_member table ''profile'' of
       None \<Rightarrow> (True, config)
     | Some (TomlString profile_name) \<Rightarrow>
         map_prod id the (swbt_daemon_config_apply_device_info_profile (Some config) (Some (c_str profile_name)))
     | Some _ \<Rightarrow> (False, config))"

definition swbt_toml_apply_ipc_host :: "toml_value option \<Rightarrow> swbt_daemon_config_t \<Rightarrow> bool \<times> swbt_daemon_config_t" where
  "swbt_toml_apply_ipc_host table config = (case toml_member table ''host'' of
       None \<Rightarrow> (True, config)
     | Some (TomlString host_name) \<Rightarrow>
         map_prod id the (swbt_daemon_config_set_ipc_host (Some config) (Some (c_str host_name)))
     | Some _ \<Rightarrow> (False, config))"

text \<open>The setters of the addresses are None where they would read outside of the text, which \<open>normalize_eq\<close> excludes.\<close>

definition swbt_toml_apply_active_reconnect_switch_address ::
  "toml_value option \<Rightarrow> swbt_daemon_config_t \<Rightarrow> bool \<times> swbt_daemon_config_t" where
  "swbt_toml_apply_active_reconnect_switch_address table config = (case toml_member table ''switch_address'' of
       None \<Rightarrow> (True, config)
     | Some (TomlString address_value) \<Rightarrow>
         map_prod id the (the (swbt_daemon_config_set_active_reconnect_explicit_switch_address (Some config)
           (Some (c_str address_value))))
     | Some _ \<Rightarrow> (False, config))"

definition swbt_toml_apply_active_reconnect_learned_switch_address ::
  "toml_value option \<Rightarrow> swbt_daemon_config_t \<Rightarrow> bool \<times> swbt_daemon_config_t" where
  "swbt_toml_apply_active_reconnect_learned_switch_address table config = (case toml_member table ''switch_address'' of
       None \<Rightarrow> (True, config)
     | Some (TomlString address_value) \<Rightarrow>
         map_prod id the (the (swbt_daemon_config_set_active_reconnect_learned_switch_address (Some config)
           (Some (c_str address_value))))
     | Some _ \<Rightarrow> (False, config))"

text \<open>The values, once the tables are found and their keys are checked.\<close>

definition apply_toml_values ::
  "swbt_daemon_config_t \<Rightarrow> toml_value option \<Rightarrow> toml_value option \<Rightarrow> toml_value option \<Rightarrow> toml_value option \<Rightarrow> toml_value option
   \<Rightarrow> swbt_daemon_config_file_result_t \<times> swbt_daemon_config_t" where
  "apply_toml_values config report ipc device active_reconnect active_reconnect_learned =
     (let n = config;
          (ok, period) = swbt_toml_apply_u32 report ''period_us'' (cfg_report_period_us n) in
      if \<not> ok then (SWBT_DAEMON_CONFIG_FILE_ERROR_INVALID_VALUE, config)
      else let n = n\<lparr>cfg_report_period_us := period\<rparr>; (ok, port) = swbt_toml_apply_u16 ipc ''port'' (cfg_ipc_port n) in
      if \<not> ok then (SWBT_DAEMON_CONFIG_FILE_ERROR_INVALID_VALUE, config)
      else let n = n\<lparr>cfg_ipc_port := port\<rparr>; (ok, n) = swbt_toml_apply_ipc_host ipc n in
      if \<not> ok then (SWBT_DAEMON_CONFIG_FILE_ERROR_INVALID_VALUE, config)
      else let (ok, backlog) = swbt_toml_apply_int ipc ''backlog'' (cfg_ipc_backlog n) in
      if \<not> ok then (SWBT_DAEMON_CONFIG_FILE_ERROR_INVALID_VALUE, config)
      else let n = n\<lparr>cfg_ipc_backlog := backlog\<rparr>;
               (ok, timeout) = swbt_toml_apply_u32 ipc ''heartbeat_timeout_ms'' (cfg_ipc_heartbeat_timeout_ms n) in
      if \<not> ok then (SWBT_DAEMON_CONFIG_FILE_ERROR_INVALID_VALUE, config)
      else let n = n\<lparr>cfg_ipc_heartbeat_timeout_ms := timeout\<rparr>; (ok, n) = swbt_toml_apply_device_profile device n in
      if \<not> ok then (SWBT_DAEMON_CONFIG_FILE_ERROR_INVALID_VALUE, config)
      else let (ok, n) = swbt_toml_apply_active_reconnect_switch_address active_reconnect n in
      if \<not> ok then (SWBT_DAEMON_CONFIG_FILE_ERROR_INVALID_VALUE, config)
      else let (ok, n) = swbt_toml_apply_active_reconnect_learned_switch_address active_reconnect_learned n in
      if \<not> ok then (SWBT_DAEMON_CONFIG_FILE_ERROR_INVALID_VALUE, config)
      else if cfg_report_period_us n = 0 \<or> cfg_ipc_backlog n \<le> 0 then (SWBT_DAEMON_CONFIG_FILE_ERROR_INVALID_VALUE, config)
      else (SWBT_DAEMON_CONFIG_FILE_OK, n))"

definition swbt_daemon_config_apply_toml ::
  "swbt_daemon_config_t \<Rightarrow> toml_value \<Rightarrow> swbt_daemon_config_file_result_t \<times> swbt_daemon_config_t" where
  "swbt_daemon_config_apply_toml config parsed =
     (let (report_ok, report) = swbt_toml_find_table parsed ''report'' (Some None);
          (ipc_ok, ipc) = swbt_toml_find_table parsed ''ipc'' (Some None);
          (device_ok, device) = swbt_toml_find_table parsed ''device'' (Some None);
          (active_ok, active_reconnect) = swbt_toml_find_table parsed ''active_reconnect'' (Some None);
          (learned_ok, learned) = (case the active_reconnect of
              None \<Rightarrow> (True, Some None)
            | Some table \<Rightarrow> swbt_toml_find_table table ''learned'' (Some None)) in
      if \<not> (report_ok \<and> ipc_ok \<and> device_ok \<and> active_ok) then (SWBT_DAEMON_CONFIG_FILE_ERROR_INVALID_VALUE, config)
      else if the active_reconnect \<noteq> None \<and> \<not> learned_ok then (SWBT_DAEMON_CONFIG_FILE_ERROR_INVALID_VALUE, config)
      else if \<not> swbt_toml_root_contains_only_known_sections parsed
        \<or> \<not> swbt_toml_tables_contain_only_known_keys (the report) (the ipc) (the device) (the active_reconnect) (the learned)
      then (SWBT_DAEMON_CONFIG_FILE_ERROR_INVALID_VALUE, config)
      else apply_toml_values config (the report) (the ipc) (the device) (the active_reconnect) (the learned))"

section \<open>Files\<close>

type_synonym files = "string \<rightharpoonup> string"

text \<open>
  What the library and the operating system answer: the TOML parser on the contents of a file, the TOML printer, whether an
  existing file can be opened and closed, whether a file can be opened for writing, how many bytes of an output are written
  and whether the close succeeds. None stands for an exception.
\<close>

record file_env =
  fe_parse :: "string \<Rightarrow> (string, toml_value) fmap option"
  fe_format :: "toml_value \<Rightarrow> string option"
  fe_readable :: "string \<Rightarrow> bool"
  fe_read_close :: "string \<Rightarrow> bool"
  fe_writable :: "string \<Rightarrow> bool"
  fe_written :: "string \<Rightarrow> string \<Rightarrow> nat"
  fe_write_close :: "string \<Rightarrow> bool"

definition parse_file :: "file_env \<Rightarrow> string \<Rightarrow> toml_value option" where
  "parse_file env content = map_option TomlTable (fe_parse env content)"

definition swbt_toml_load_or_empty ::
  "file_env \<Rightarrow> files \<Rightarrow> string option \<Rightarrow> toml_value option \<Rightarrow> swbt_daemon_config_file_result_t \<times> toml_value option" where
  "swbt_toml_load_or_empty env files path out_value =
     (if path = None \<or> at_cursor (the path) = NUL \<or> out_value = None then (SWBT_DAEMON_CONFIG_FILE_ERROR_INVALID_ARGUMENT, out_value)
      else case files (the path) of
        None \<Rightarrow> (SWBT_DAEMON_CONFIG_FILE_OK, Some (TomlTable fmempty))
      | Some content \<Rightarrow>
          if \<not> fe_readable env (the path) then (SWBT_DAEMON_CONFIG_FILE_ERROR_IO, out_value)
          else if \<not> fe_read_close env (the path) then (SWBT_DAEMON_CONFIG_FILE_ERROR_IO, out_value)
          else (case parse_file env content of
              None \<Rightarrow> (SWBT_DAEMON_CONFIG_FILE_ERROR_PARSE, out_value)
            | Some v \<Rightarrow> (SWBT_DAEMON_CONFIG_FILE_OK, Some v)))"

text \<open>
  The result is the changed parent and the child table in it. A later write through the pointer to the child is an
  assignment of the new child in the parent.
\<close>

definition swbt_toml_ensure_child_table :: "toml_value option \<Rightarrow> string option \<Rightarrow> toml_value option \<times> toml_value option" where
  "swbt_toml_ensure_child_table parent key =
     (if parent = None \<or> key = None \<or> \<not> is_table (the parent) then (parent, None)
      else let p = (if toml_at (the parent) (the key) = None then toml_assign (the parent) (the key) (TomlTable fmempty) else the parent);
               child = the (toml_at p (the key))
        in (Some p, if is_table child then Some child else None))"

definition swbt_toml_write_file :: "file_env \<Rightarrow> string \<Rightarrow> toml_value \<Rightarrow> files \<Rightarrow> swbt_daemon_config_file_result_t \<times> files" where
  "swbt_toml_write_file env path v files = (case fe_format env v of
       None \<Rightarrow> (SWBT_DAEMON_CONFIG_FILE_ERROR_INVALID_VALUE, files)
     | Some output \<Rightarrow>
         if \<not> fe_writable env path then (SWBT_DAEMON_CONFIG_FILE_ERROR_IO, files)
         else let n = min (fe_written env path output) (length output);
                  ok = (output = [] \<or> n = length output) \<and> fe_write_close env path
           in (if ok then SWBT_DAEMON_CONFIG_FILE_OK else SWBT_DAEMON_CONFIG_FILE_ERROR_IO, files(path \<mapsto> take n output)))"

record swbt_daemon_config_file_source_t =
  src_path :: "string option"
  src_required :: bool

definition swbt_daemon_config_apply_file ::
  "file_env \<Rightarrow> files \<Rightarrow> swbt_daemon_config_t option \<Rightarrow> swbt_daemon_config_file_source_t option
   \<Rightarrow> swbt_daemon_config_file_result_t \<times> swbt_daemon_config_t option" where
  "swbt_daemon_config_apply_file env files config source = (case (config, source) of
       (Some c, Some s) \<Rightarrow>
         (case src_path s of
            None \<Rightarrow> (if src_required s then SWBT_DAEMON_CONFIG_FILE_ERROR_INVALID_ARGUMENT else SWBT_DAEMON_CONFIG_FILE_OK, config)
          | Some path \<Rightarrow>
              if at_cursor path = NUL
              then (if src_required s then SWBT_DAEMON_CONFIG_FILE_ERROR_INVALID_ARGUMENT else SWBT_DAEMON_CONFIG_FILE_OK, config)
              else (case files path of
                  None \<Rightarrow> (if \<not> src_required s then SWBT_DAEMON_CONFIG_FILE_OK else SWBT_DAEMON_CONFIG_FILE_ERROR_IO, config)
                | Some content \<Rightarrow>
                    if \<not> fe_readable env path then (SWBT_DAEMON_CONFIG_FILE_ERROR_IO, config)
                    else (case parse_file env content of
                        None \<Rightarrow> (SWBT_DAEMON_CONFIG_FILE_ERROR_PARSE, config)
                      | Some parsed \<Rightarrow> map_prod id Some (swbt_daemon_config_apply_toml c parsed))))
     | _ \<Rightarrow> (SWBT_DAEMON_CONFIG_FILE_ERROR_INVALID_ARGUMENT, config))"

text \<open>The target is the path in the target structure, if there is one.\<close>

definition swbt_daemon_config_save_active_reconnect_learned_switch_address ::
  "file_env \<Rightarrow> files \<Rightarrow> swbt_daemon_config_t option \<Rightarrow> string option option \<Rightarrow> string option
   \<Rightarrow> swbt_daemon_config_file_result_t \<times> swbt_daemon_config_t option \<times> files" where
  "swbt_daemon_config_save_active_reconnect_learned_switch_address env files config target address =
     (if config = None \<or> target = None \<or> the target = None \<or> at_cursor (the (the target)) = NUL
      then (SWBT_DAEMON_CONFIG_FILE_ERROR_INVALID_ARGUMENT, config, files)
      else
        let path = the (the target);
            (ok, n) = the (swbt_daemon_config_set_active_reconnect_learned_switch_address config address) in
        if \<not> ok then (SWBT_DAEMON_CONFIG_FILE_ERROR_INVALID_VALUE, config, files)
        else
          let (result, parsed) = swbt_toml_load_or_empty env files (Some path) (Some (TomlOther [])) in
          if result \<noteq> SWBT_DAEMON_CONFIG_FILE_OK then (result, config, files)
          else
            let (result, validated) = swbt_daemon_config_apply_toml (the config) (the parsed) in
            if result \<noteq> SWBT_DAEMON_CONFIG_FILE_OK then (result, config, files)
            else
              let (parsed, active_reconnect) = swbt_toml_ensure_child_table parsed (Some ''active_reconnect'');
                  (active_reconnect, learned) = swbt_toml_ensure_child_table active_reconnect (Some ''learned'') in
              if learned = None then (SWBT_DAEMON_CONFIG_FILE_ERROR_INVALID_VALUE, config, files)
              else
                let learned = toml_assign (the learned) ''switch_address'' (TomlString (c_str_of (cfg_learned_switch_address (the n))));
                    active_reconnect = toml_assign (the active_reconnect) ''learned'' learned;
                    parsed = toml_assign (the parsed) ''active_reconnect'' active_reconnect;
                    (result, files) = swbt_toml_write_file env path parsed files in
                if result \<noteq> SWBT_DAEMON_CONFIG_FILE_OK then (result, config, files)
                else (SWBT_DAEMON_CONFIG_FILE_OK, n, files))"

section \<open>What a file means\<close>

text \<open>A number and a text at their place; None where there is none.\<close>

definition toml_number :: "toml_value option \<Rightarrow> int option" where
  "toml_number v = (case v of Some (TomlInteger i) \<Rightarrow> Some (sint i) | _ \<Rightarrow> None)"

definition toml_text :: "toml_value option \<Rightarrow> string option" where
  "toml_text v = (case v of Some (TomlString s) \<Rightarrow> Some (c_str s) | _ \<Rightarrow> None)"

definition number_ok :: "int \<Rightarrow> toml_value option \<Rightarrow> bool" where
  "number_ok m v \<longleftrightarrow> v = None \<or> (\<exists>n. toml_number v = Some n \<and> 0 \<le> n \<and> n \<le> m)"

definition text_ok :: "(string \<Rightarrow> bool) \<Rightarrow> toml_value option \<Rightarrow> bool" where
  "text_ok P v \<longleftrightarrow> v = None \<or> (\<exists>t. toml_text v = Some t \<and> P t)"

definition section_ok :: "toml_value option \<Rightarrow> string list \<Rightarrow> bool" where
  "section_ok v keys \<longleftrightarrow> v = None \<or> (\<exists>members. v = Some (TomlTable members) \<and> fmdom' members \<subseteq> set keys)"

definition reconnect_section :: "toml_value \<Rightarrow> toml_value option" where
  "reconnect_section r = toml_at r ''active_reconnect''"

definition learned_section :: "toml_value \<Rightarrow> toml_value option" where
  "learned_section r = toml_member (reconnect_section r) ''learned''"

text \<open>A valid file has only the documented sections and keys, and each value has its type and range.\<close>

definition toml_valid :: "toml_value \<Rightarrow> bool" where
  "toml_valid r \<longleftrightarrow> section_ok (Some r) [''report'', ''ipc'', ''device'', ''active_reconnect'']
     \<and> section_ok (toml_at r ''report'') [''period_us''] \<and> section_ok (toml_at r ''device'') [''profile'']
     \<and> section_ok (toml_at r ''ipc'') [''host'', ''port'', ''backlog'', ''heartbeat_timeout_ms'']
     \<and> section_ok (reconnect_section r) [''switch_address'', ''learned''] \<and> section_ok (learned_section r) [''switch_address'']
     \<and> number_ok (2 ^ 32 - 1) (toml_member (toml_at r ''report'') ''period_us'')
     \<and> number_ok (2 ^ 16 - 1) (toml_member (toml_at r ''ipc'') ''port'')
     \<and> text_ok (\<lambda>h. h \<noteq> [] \<and> length h < SWBT_DAEMON_CONFIG_IPC_HOST_SIZE) (toml_member (toml_at r ''ipc'') ''host'')
     \<and> number_ok (2 ^ 31 - 1) (toml_member (toml_at r ''ipc'') ''backlog'')
     \<and> number_ok (2 ^ 32 - 1) (toml_member (toml_at r ''ipc'') ''heartbeat_timeout_ms'')
     \<and> text_ok (\<lambda>p. p \<in> {[], ''swbt-pro'', ''default''}) (toml_member (toml_at r ''device'') ''profile'')
     \<and> text_ok (\<lambda>t. address_of t \<noteq> None) (toml_member (reconnect_section r) ''switch_address'')
     \<and> text_ok (\<lambda>t. address_of t \<noteq> None) (toml_member (learned_section r) ''switch_address'')"

text \<open>The configuration that a valid file describes: every value it has replaces that of the configuration.\<close>

definition word_or :: "'a::len word \<Rightarrow> int option \<Rightarrow> 'a word" where
  "word_or old v = (case v of None \<Rightarrow> old | Some n \<Rightarrow> word_of_int n)"

definition address_or :: "char list \<Rightarrow> string option \<Rightarrow> char list" where
  "address_or old v = (case v of None \<Rightarrow> old | Some t \<Rightarrow> address_text (the (address_of t)) @ [NUL])"

definition toml_applied :: "toml_value \<Rightarrow> swbt_daemon_config_t \<Rightarrow> swbt_daemon_config_t" where
  "toml_applied r c = c\<lparr>
     cfg_report_period_us := word_or (cfg_report_period_us c) (toml_number (toml_member (toml_at r ''report'') ''period_us'')),
     cfg_ipc_port := word_or (cfg_ipc_port c) (toml_number (toml_member (toml_at r ''ipc'') ''port'')),
     cfg_ipc_host := (case toml_text (toml_member (toml_at r ''ipc'') ''host'') of None \<Rightarrow> cfg_ipc_host c | Some h \<Rightarrow> h),
     cfg_ipc_backlog := (case toml_number (toml_member (toml_at r ''ipc'') ''backlog'') of None \<Rightarrow> cfg_ipc_backlog c | Some n \<Rightarrow> n),
     cfg_ipc_heartbeat_timeout_ms := word_or (cfg_ipc_heartbeat_timeout_ms c)
       (toml_number (toml_member (toml_at r ''ipc'') ''heartbeat_timeout_ms'')),
     cfg_device_info := (if toml_text (toml_member (toml_at r ''device'') ''profile'') \<in> {None, Some []} then cfg_device_info c
       else swbt_switch_device_info_swbt_pro),
     cfg_explicit_switch_address := address_or (cfg_explicit_switch_address c)
       (toml_text (toml_member (reconnect_section r) ''switch_address'')),
     cfg_learned_switch_address := address_or (cfg_learned_switch_address c)
       (toml_text (toml_member (learned_section r) ''switch_address''))\<rparr>"

section \<open>Lemmas\<close>

lemma key_is_allowed: "swbt_toml_key_is_allowed key keys \<longleftrightarrow> key \<in> set keys"
  by (induction keys) auto

lemma only_keys: "swbt_toml_table_contains_only_keys v keys \<longleftrightarrow> (\<forall>t. v = Some t \<longrightarrow> fmdom' (as_table t) \<subseteq> set keys)"
  by (auto simp: swbt_toml_table_contains_only_keys_def key_is_allowed fmdom'_alt_def split: option.split)

lemma c_str_ok [simp]: "c_string (c_str s)"
  by (auto simp: c_string_def c_str_def c_str_of_def dest: set_takeWhileD)

lemma c_str_id: "c_string s \<Longrightarrow> c_str s = s"
  unfolding c_str_def by (rule c_str_of_terminated)

lemma ucast_sint: "(ucast (i :: 64 word) :: 'a::len word) = word_of_int (sint i)" if "LENGTH('a) \<le> 64"
  using that by (auto intro!: bit_word_eqI simp: bit_simps bit_word_of_int_iff bit_sint_iff)

lemma uint_of_number: "0 \<le> n \<Longrightarrow> n \<le> 4294967295 \<Longrightarrow> uint (word_of_int n :: u32) = n"
  by (simp add: unsigned_of_int take_bit_int_eq_self)

text \<open>Each reader within the chain of checks: what follows it runs on the value, or the error is returned.\<close>

lemma apply_u32_step:
  "(case swbt_toml_apply_u32 t key old of (ok, v) \<Rightarrow> if \<not> ok then A else F v) =
    (if number_ok (2 ^ 32 - 1) (toml_member t key) then F (word_or old (toml_number (toml_member t key))) else A)"
  by (auto simp: swbt_toml_apply_u32_def number_ok_def toml_number_def word_or_def ucast_sint
      split: option.split toml_value.split)

lemma apply_u32_number:
  "toml_member t key = Some v \<Longrightarrow> swbt_toml_apply_u32 t key 0 =
    (if number_ok (2 ^ 32 - 1) (Some v) then (True, word_of_int (the (toml_number (Some v)))) else (False, 0))"
  by (auto simp: swbt_toml_apply_u32_def number_ok_def toml_number_def ucast_sint split: toml_value.split)

lemma narrow_number:
  "0 \<le> n \<Longrightarrow> n \<le> 4294967295 \<Longrightarrow> ucast (word_of_int n :: u32) = (word_of_int n :: u16)"
  "0 \<le> n \<Longrightarrow> n \<le> 4294967295 \<Longrightarrow> (word_of_int n :: u32) > 0xFFFF \<longleftrightarrow> n > 65535"
  "0 \<le> n \<Longrightarrow> n \<le> 4294967295 \<Longrightarrow> (word_of_int n :: u32) > 0x7FFFFFFF \<longleftrightarrow> n > 2147483647"
  using uint_of_number [of n] by (auto simp: word_less_def ucast_eq)

lemma apply_u16_step:
  "(case swbt_toml_apply_u16 t key old of (ok, v) \<Rightarrow> if \<not> ok then A else F v) =
    (if number_ok (2 ^ 16 - 1) (toml_member t key) then F (word_or old (toml_number (toml_member t key))) else A)"
proof (cases "toml_member t key")
  case (Some v)
  then show ?thesis
    by (auto simp: swbt_toml_apply_u16_def apply_u32_number [OF Some] number_ok_def word_or_def narrow_number split: option.split)
qed (simp add: swbt_toml_apply_u16_def number_ok_def word_or_def toml_number_def)

lemma apply_int_step:
  "(case swbt_toml_apply_int t key old of (ok, v) \<Rightarrow> if \<not> ok then A else F v) =
    (if number_ok (2 ^ 31 - 1) (toml_member t key)
     then F (case toml_number (toml_member t key) of None \<Rightarrow> old | Some n \<Rightarrow> n) else A)"
proof (cases "toml_member t key")
  case (Some v)
  then show ?thesis
    by (auto simp: swbt_toml_apply_int_def apply_u32_number [OF Some] number_ok_def narrow_number uint_of_number split: option.split)
qed (simp add: swbt_toml_apply_int_def number_ok_def toml_number_def)

lemma apply_host_step:
  "(case swbt_toml_apply_ipc_host t n of (ok, n') \<Rightarrow> if \<not> ok then A else F n') =
    (if text_ok (\<lambda>h. h \<noteq> [] \<and> length h < SWBT_DAEMON_CONFIG_IPC_HOST_SIZE) (toml_member t ''host'')
     then F (n\<lparr>cfg_ipc_host := (case toml_text (toml_member t ''host'') of None \<Rightarrow> cfg_ipc_host n | Some h \<Rightarrow> h)\<rparr>) else A)"
  by (auto simp: swbt_toml_apply_ipc_host_def text_ok_def toml_text_def swbt_daemon_config_set_ipc_host_def
      SWBT_DAEMON_CONFIG_IPC_HOST_SIZE_def split: option.split toml_value.split)

lemma apply_profile_step:
  "(case swbt_toml_apply_device_profile t n of (ok, n') \<Rightarrow> if \<not> ok then A else F n') =
    (if text_ok (\<lambda>p. p \<in> {[], ''swbt-pro'', ''default''}) (toml_member t ''profile'')
     then F (n\<lparr>cfg_device_info := (if toml_text (toml_member t ''profile'') \<in> {None, Some []} then cfg_device_info n
       else swbt_switch_device_info_swbt_pro)\<rparr>) else A)"
  by (auto simp: swbt_toml_apply_device_profile_def text_ok_def toml_text_def swbt_daemon_config_apply_device_info_profile_def
      split: option.split toml_value.split)

lemma normalize_address:
  assumes "c_string t" "length dest = 18"
  shows "swbt_daemon_switch_address_normalize (Some dest) (Some t) =
    (case address_of t of None \<Rightarrow> Some (False, Some dest) | Some b \<Rightarrow> Some (True, Some (address_text b @ [NUL])))"
proof (cases "address_of t")
  case None
  then have "\<not> (length t = 17 \<and> (\<forall>i < 17. address_char_ok t i))"
    by (auto simp: address_of_def split: if_splits)
  then show ?thesis
    using Addresses.normalize_eq [OF assms] None by auto
next
  case (Some b)
  then have "length t = 17 \<and> (\<forall>i < 17. address_char_ok t i)"
    by (auto simp: address_of_def split: if_splits)
  then show ?thesis
    using Addresses.normalize_eq [OF assms] Some upper_text [OF Some] by simp
qed

lemma apply_address_step:
  assumes "length (cfg_explicit_switch_address n) = 18"
  shows "(case swbt_toml_apply_active_reconnect_switch_address t n of (ok, n') \<Rightarrow> if \<not> ok then A else F n') =
    (if text_ok (\<lambda>t. address_of t \<noteq> None) (toml_member t ''switch_address'')
     then F (n\<lparr>cfg_explicit_switch_address := address_or (cfg_explicit_switch_address n) (toml_text (toml_member t ''switch_address''))\<rparr>)
     else A)"
  using normalize_address [OF c_str_ok assms]
  by (auto simp: swbt_toml_apply_active_reconnect_switch_address_def text_ok_def toml_text_def address_or_def
      swbt_daemon_config_set_active_reconnect_explicit_switch_address_def split: option.split toml_value.split)

lemma apply_learned_step:
  assumes "length (cfg_learned_switch_address n) = 18"
  shows "(case swbt_toml_apply_active_reconnect_learned_switch_address t n of (ok, n') \<Rightarrow> if \<not> ok then A else F n') =
    (if text_ok (\<lambda>t. address_of t \<noteq> None) (toml_member t ''switch_address'')
     then F (n\<lparr>cfg_learned_switch_address := address_or (cfg_learned_switch_address n) (toml_text (toml_member t ''switch_address''))\<rparr>)
     else A)"
  using normalize_address [OF c_str_ok assms]
  by (auto simp: swbt_toml_apply_active_reconnect_learned_switch_address_def text_ok_def toml_text_def address_or_def
      swbt_daemon_config_set_active_reconnect_learned_switch_address_def split: option.split toml_value.split)

lemma if_collapse:
  "(if P then if Q then x else y else y) = (if P \<and> Q then x else y)"
  "(if P \<or> Q then y else x) = (if \<not> P \<and> \<not> Q then x else y)"
  by simp_all

lemma find_table_eq:
  "swbt_toml_find_table r key (Some None) =
    (toml_at r key = None \<or> is_table (the (toml_at r key)), Some (if is_table (the (toml_at r key)) then toml_at r key else None))"
  by (simp add: swbt_toml_find_table_def split: option.split)

lemma section_ok_eq:
  "section_ok v keys \<longleftrightarrow> (v = None \<or> is_table (the v)) \<and> swbt_toml_table_contains_only_keys v keys"
  by (cases v; cases "the v") (auto simp: section_ok_def only_keys)

lemma root_sections:
  "swbt_toml_root_contains_only_known_sections r = swbt_toml_table_contains_only_keys (Some r) [''report'', ''ipc'', ''device'', ''active_reconnect'']"
  by (simp add: swbt_toml_root_contains_only_known_sections_def swbt_toml_table_contains_only_keys_def)

definition values_valid ::
  "toml_value option \<Rightarrow> toml_value option \<Rightarrow> toml_value option \<Rightarrow> toml_value option \<Rightarrow> toml_value option \<Rightarrow> bool" where
  "values_valid report ipc device active learned \<longleftrightarrow> number_ok (2 ^ 32 - 1) (toml_member report ''period_us'')
     \<and> number_ok (2 ^ 16 - 1) (toml_member ipc ''port'')
     \<and> text_ok (\<lambda>h. h \<noteq> [] \<and> length h < SWBT_DAEMON_CONFIG_IPC_HOST_SIZE) (toml_member ipc ''host'')
     \<and> number_ok (2 ^ 31 - 1) (toml_member ipc ''backlog'') \<and> number_ok (2 ^ 32 - 1) (toml_member ipc ''heartbeat_timeout_ms'')
     \<and> text_ok (\<lambda>p. p \<in> {[], ''swbt-pro'', ''default''}) (toml_member device ''profile'')
     \<and> text_ok (\<lambda>t. address_of t \<noteq> None) (toml_member active ''switch_address'')
     \<and> text_ok (\<lambda>t. address_of t \<noteq> None) (toml_member learned ''switch_address'')"

lemmas toml_steps = apply_u32_step apply_u16_step apply_int_step apply_host_step apply_profile_step

lemma apply_values_eq:
  assumes "length (cfg_explicit_switch_address c) = 18" "length (cfg_learned_switch_address c) = 18"
  shows "apply_toml_values c (toml_at r ''report'') (toml_at r ''ipc'') (toml_at r ''device'') (reconnect_section r) (learned_section r) =
    (if values_valid (toml_at r ''report'') (toml_at r ''ipc'') (toml_at r ''device'') (reconnect_section r) (learned_section r)
       \<and> cfg_report_period_us (toml_applied r c) \<noteq> 0 \<and> cfg_ipc_backlog (toml_applied r c) > 0
     then (SWBT_DAEMON_CONFIG_FILE_OK, toml_applied r c) else (SWBT_DAEMON_CONFIG_FILE_ERROR_INVALID_VALUE, c))"
  using assms
  by (cases c) (simp only: apply_toml_values_def Let_def toml_steps apply_address_step apply_learned_step swbt_daemon_config_t.simps
      values_valid_def toml_applied_def if_collapse not_le conj_assoc)

lemma apply_toml_eq:
  assumes "length (cfg_explicit_switch_address c) = 18" "length (cfg_learned_switch_address c) = 18" "is_table r"
  shows "swbt_daemon_config_apply_toml c r =
    (if toml_valid r \<and> cfg_report_period_us (toml_applied r c) \<noteq> 0 \<and> cfg_ipc_backlog (toml_applied r c) > 0
     then (SWBT_DAEMON_CONFIG_FILE_OK, toml_applied r c) else (SWBT_DAEMON_CONFIG_FILE_ERROR_INVALID_VALUE, c))"
proof -
  let ?table = "\<lambda>v. v = None \<or> is_table (the v)"
  let ?tables = "?table (toml_at r ''report'') \<and> ?table (toml_at r ''ipc'') \<and> ?table (toml_at r ''device'')
     \<and> ?table (reconnect_section r) \<and> ?table (learned_section r)"
  let ?keys = "swbt_toml_root_contains_only_known_sections r \<and> swbt_toml_tables_contain_only_known_keys (toml_at r ''report'')
     (toml_at r ''ipc'') (toml_at r ''device'') (reconnect_section r) (learned_section r)"
  have valid: "toml_valid r \<longleftrightarrow> ?tables \<and> ?keys \<and> values_valid (toml_at r ''report'') (toml_at r ''ipc'') (toml_at r ''device'')
      (reconnect_section r) (learned_section r)"
    using assms(3) unfolding toml_valid_def section_ok_eq values_valid_def root_sections swbt_toml_tables_contain_only_known_keys_def option.sel
    by blast
  have "swbt_daemon_config_apply_toml c r = (if ?tables \<and> ?keys then apply_toml_values c (toml_at r ''report'') (toml_at r ''ipc'')
      (toml_at r ''device'') (reconnect_section r) (learned_section r) else (SWBT_DAEMON_CONFIG_FILE_ERROR_INVALID_VALUE, c))"
  proof (cases ?tables)
    case True
    then have found: "swbt_toml_find_table r k (Some None) = (True, Some (toml_at r k))"
      if "k \<in> {''report'', ''ipc'', ''device'', ''active_reconnect''}" for k
      using that by (auto simp: find_table_eq reconnect_section_def)
    have "(case reconnect_section r of None \<Rightarrow> (True, Some None) | Some t \<Rightarrow> swbt_toml_find_table t ''learned'' (Some None)) =
        (True, Some (learned_section r))"
      using True by (auto simp: find_table_eq learned_section_def toml_member_def split: option.split)
    then show ?thesis
      using True by (simp add: swbt_daemon_config_apply_toml_def found reconnect_section_def)
  next
    case False
    then have "\<not> (?table (toml_at r ''report'') \<and> ?table (toml_at r ''ipc'') \<and> ?table (toml_at r ''device'') \<and> ?table (reconnect_section r))
        \<or> (\<exists>t. reconnect_section r = Some t \<and> is_table t \<and> \<not> ?table (toml_at t ''learned''))"
      by (auto simp: learned_section_def toml_member_def split: option.splits)
    then have "swbt_daemon_config_apply_toml c r = (SWBT_DAEMON_CONFIG_FILE_ERROR_INVALID_VALUE, c)"
    proof (elim disjE exE conjE)
      assume "\<not> (?table (toml_at r ''report'') \<and> ?table (toml_at r ''ipc'') \<and> ?table (toml_at r ''device'') \<and> ?table (reconnect_section r))"
      then show ?thesis
        unfolding swbt_daemon_config_apply_toml_def find_table_eq Let_def prod.case case_prod_beta fst_conv reconnect_section_def
        by (rule if_P)
    next
      fix t
      assume "reconnect_section r = Some t" "is_table t" "\<not> ?table (toml_at t ''learned'')"
      then show ?thesis
        by (simp add: swbt_daemon_config_apply_toml_def find_table_eq reconnect_section_def Let_def)
    qed
    then show ?thesis
      using False by (simp only: simp_thms if_False)
  qed
  then show ?thesis
    unfolding apply_values_eq [OF assms(1,2)] if_collapse valid by (simp only: conj_assoc)
qed

section \<open>Layers of the configuration\<close>

text \<open>Applying a file at a path, the way the launch configuration asks for it.\<close>

definition read_config_file ::
  "file_env \<Rightarrow> files \<Rightarrow> string \<Rightarrow> bool \<Rightarrow> swbt_daemon_config_t \<Rightarrow> swbt_daemon_config_file_result_t \<times> swbt_daemon_config_t" where
  "read_config_file fe files path required c =
     map_prod id the (swbt_daemon_config_apply_file fe files (Some c) (Some \<lparr>src_path = Some path, src_required = required\<rparr>))"

text \<open>The default configuration overlaid with the file of the command line, and a configuration overlaid with the environment.\<close>

definition file_layer :: "file_env \<Rightarrow> files \<Rightarrow> string option \<Rightarrow> swbt_daemon_config_t option" where
  "file_layer fe files path = (case path of
       None \<Rightarrow> Some swbt_daemon_config_default
     | Some p \<Rightarrow>
         if at_cursor p = NUL \<or> \<not> fe_readable fe p then None
         else Option.bind (files p) (\<lambda>content. Option.bind (parse_file fe content) (\<lambda>r.
           if toml_valid r \<and> config_ok (toml_applied r swbt_daemon_config_default)
           then Some (toml_applied r swbt_daemon_config_default) else None)))"

definition env_layer :: "nat \<Rightarrow> swbt_daemon_config_env_t \<Rightarrow> swbt_daemon_config_t \<Rightarrow> swbt_daemon_config_t option" where
  "env_layer w e c = (if env_valid w e \<and> config_ok (env_applied w e c) then Some (env_applied w e c) else None)"

lemma address_text_length: "length b = 6 \<Longrightarrow> length (address_text b @ [NUL]) = 18"
  using format_bytes_eq [of b "replicate 18 NUL"] list6 [of b] by (auto simp: hex_byte_def)

lemma address_or_length: "length old = 18 \<Longrightarrow> text_ok (\<lambda>t. address_of t \<noteq> None) v \<Longrightarrow> length (address_or old (toml_text v)) = 18"
  using upper_text(2) address_text_length by (fastforce simp: address_or_def text_ok_def toml_text_def split: option.splits)

lemma toml_applied_ok:
  assumes "config_ok c" "toml_valid r"
  shows "config_ok (toml_applied r c) \<longleftrightarrow> cfg_report_period_us (toml_applied r c) \<noteq> 0 \<and> cfg_ipc_backlog (toml_applied r c) > 0"
proof -
  have "length (cfg_explicit_switch_address (toml_applied r c)) = 18" "length (cfg_learned_switch_address (toml_applied r c)) = 18"
    using assms by (simp_all add: toml_applied_def config_ok_def toml_valid_def address_or_length SWBT_DAEMON_SWITCH_ADDRESS_TEXT_SIZE_def)
  moreover have "cfg_ipc_host (toml_applied r c) \<noteq> [] \<and> length (cfg_ipc_host (toml_applied r c)) < SWBT_DAEMON_CONFIG_IPC_HOST_SIZE"
    using assms by (auto simp: toml_applied_def config_ok_def toml_valid_def text_ok_def toml_text_def split: option.split)
  moreover have "device_info_wf (cfg_device_info (toml_applied r c))"
    using assms device_info_pro_wf by (simp add: toml_applied_def config_ok_def)
  ultimately show ?thesis
    by (auto simp: config_ok_def SWBT_DAEMON_SWITCH_ADDRESS_TEXT_SIZE_def)
qed

lemma env_applied_ok:
  assumes "config_ok c" "env_valid w e"
  shows "config_ok (env_applied w e c) \<longleftrightarrow> cfg_report_period_us (env_applied w e c) \<noteq> 0 \<and> cfg_ipc_backlog (env_applied w e c) > 0"
  using assms device_info_pro_wf by (auto simp: config_ok_def env_applied_def env_valid_def env_host_def split: option.splits)

lemma apply_toml_ok:
  assumes "config_ok c"
  shows "swbt_daemon_config_apply_toml c (TomlTable m) =
    (if toml_valid (TomlTable m) \<and> config_ok (toml_applied (TomlTable m) c)
     then (SWBT_DAEMON_CONFIG_FILE_OK, toml_applied (TomlTable m) c) else (SWBT_DAEMON_CONFIG_FILE_ERROR_INVALID_VALUE, c))"
proof -
  have "length (cfg_explicit_switch_address c) = 18" "length (cfg_learned_switch_address c) = 18"
    using assms by (simp_all add: config_ok_def SWBT_DAEMON_SWITCH_ADDRESS_TEXT_SIZE_def)
  from apply_toml_eq [OF this] show ?thesis
    using toml_applied_ok [OF assms] by auto
qed

lemma apply_env_ok:
  assumes "config_ok c"
  shows "swbt_daemon_config_apply_env w (Some c) (Some e) =
    (case env_layer w e c of None \<Rightarrow> (False, Some c) | Some n \<Rightarrow> (True, Some n))"
  using env_applied_ok [OF assms] by (auto simp: apply_env_eq env_layer_def)

lemma read_required:
  assumes "config_ok c"
  shows "read_config_file fe files p True c =
    (if at_cursor p = NUL then (SWBT_DAEMON_CONFIG_FILE_ERROR_INVALID_ARGUMENT, c)
     else case files p of None \<Rightarrow> (SWBT_DAEMON_CONFIG_FILE_ERROR_IO, c) | Some content \<Rightarrow>
       if \<not> fe_readable fe p then (SWBT_DAEMON_CONFIG_FILE_ERROR_IO, c)
       else case parse_file fe content of None \<Rightarrow> (SWBT_DAEMON_CONFIG_FILE_ERROR_PARSE, c) | Some r \<Rightarrow>
         if toml_valid r \<and> config_ok (toml_applied r c) then (SWBT_DAEMON_CONFIG_FILE_OK, toml_applied r c)
         else (SWBT_DAEMON_CONFIG_FILE_ERROR_INVALID_VALUE, c))"
  by (auto simp: read_config_file_def swbt_daemon_config_apply_file_def parse_file_def apply_toml_ok [OF assms] split: option.split)

lemma launch_config_eq:
  "swbt_daemon_launch_config_prepare w (read_config_file fe files) (Some opts) (Some e) =
    map_option (\<lambda>c. \<lparr>lc_config = c, lc_learned_switch_address_target = lo_config_path opts,
        lc_learned_switch_address_target_configured = (lo_config_path opts \<noteq> None), lc_link_key_db_path = lo_link_key_db_path opts,
        lc_link_key_db_configured = (lo_link_key_db_path opts \<noteq> None), lc_hci_dump_path = lo_hci_dump_path opts,
        lc_adapter_location = lo_adapter_location opts, lc_adapter_location_configured = (lo_adapter_location opts \<noteq> None)\<rparr>)
      (Option.bind (file_layer fe files (lo_config_path opts)) (env_layer w e))"
proof (cases "lo_config_path opts")
  case None
  then show ?thesis
    by (simp add: swbt_daemon_launch_config_prepare_def file_layer_def apply_env_ok [OF config_default_ok] split: option.split)
next
  case (Some p)
  show ?thesis
  proof (cases "file_layer fe files (Some p)")
    case None
    then show ?thesis
      using Some by (auto simp: swbt_daemon_launch_config_prepare_def file_layer_def read_required [OF config_default_ok]
          split: if_splits option.splits)
  next
    case (Some c)
    then have "read_config_file fe files p True swbt_daemon_config_default = (SWBT_DAEMON_CONFIG_FILE_OK, c)" "config_ok c"
      by (auto simp: file_layer_def read_required [OF config_default_ok] bind_eq_Some_conv split: if_splits)
    then show ?thesis
      using Some \<open>lo_config_path opts = Some p\<close>
      by (simp add: swbt_daemon_launch_config_prepare_def apply_env_ok split: option.split)
  qed
qed

section \<open>Saving a learned address\<close>

text \<open>A file with its learned address replaced, the sections for it created where they are missing.\<close>

definition table_or_empty :: "toml_value option \<Rightarrow> toml_value" where
  "table_or_empty v = (case v of None \<Rightarrow> TomlTable fmempty | Some t \<Rightarrow> t)"

definition with_learned :: "toml_value \<Rightarrow> string \<Rightarrow> toml_value" where
  "with_learned r t = toml_assign r ''active_reconnect'' (toml_assign (table_or_empty (reconnect_section r)) ''learned''
     (toml_assign (table_or_empty (learned_section r)) ''switch_address'' (TomlString t)))"

lemma toml_at_simps [simp]:
  "toml_at (toml_assign v key x) k = (if k = key then Some x else toml_at v k)" "toml_at (TomlTable fmempty) k = None"
  "is_table (toml_assign v key x)" "is_table v \<Longrightarrow> as_table (toml_assign v key x) = fmupd key x (as_table v)"
  by (auto simp: toml_at_def toml_assign_def)

lemma ensure_child:
  assumes "is_table p" "section_ok (toml_at p key) keys"
  shows "\<exists>p'. swbt_toml_ensure_child_table (Some p) (Some key) = (Some p', Some (table_or_empty (toml_at p key))) \<and> is_table p'
    \<and> (\<forall>x. toml_assign p' key x = toml_assign p key x)"
proof (cases "toml_at p key")
  case None
  have "toml_assign (toml_assign p key y) key x = toml_assign p key x" for x y
    by (auto simp: toml_assign_def intro: fmap_ext)
  then show ?thesis
    using None assms(1) by (simp add: swbt_toml_ensure_child_table_def table_or_empty_def Let_def)
qed (use assms in \<open>auto simp: swbt_toml_ensure_child_table_def table_or_empty_def section_ok_def\<close>)

lemma section_ok_member: "section_ok v keys \<Longrightarrow> toml_at (table_or_empty v) k = toml_member v k" "section_ok v keys \<Longrightarrow> is_table (table_or_empty v)"
  by (auto simp: section_ok_def table_or_empty_def toml_member_def split: option.split)

lemma section_ok_assign:
  assumes "section_ok v keys" "key \<in> set keys"
  shows "section_ok (Some (toml_assign (table_or_empty v) key x)) keys"
  using assms by (auto simp: section_ok_def table_or_empty_def toml_assign_def split: option.splits)

lemma with_learned_sections:
  assumes "toml_valid r"
  shows "k \<noteq> ''active_reconnect'' \<Longrightarrow> toml_at (with_learned r t) k = toml_at r k"
    "toml_member (reconnect_section (with_learned r t)) ''switch_address'' = toml_member (reconnect_section r) ''switch_address''"
    "toml_member (learned_section (with_learned r t)) ''switch_address'' = Some (TomlString t)"
    "section_ok (Some (with_learned r t)) [''report'', ''ipc'', ''device'', ''active_reconnect'']"
    "section_ok (reconnect_section (with_learned r t)) [''switch_address'', ''learned'']"
    "section_ok (learned_section (with_learned r t)) [''switch_address'']"
proof -
  have ok: "section_ok (Some r) [''report'', ''ipc'', ''device'', ''active_reconnect'']"
      "section_ok (reconnect_section r) [''switch_address'', ''learned'']" "section_ok (learned_section r) [''switch_address'']"
    using assms unfolding toml_valid_def by blast+
  note member = section_ok_member [OF ok(2)] section_ok_member [OF ok(3)]
  show "k \<noteq> ''active_reconnect'' \<Longrightarrow> toml_at (with_learned r t) k = toml_at r k"
    by (simp add: with_learned_def)
  show "toml_member (reconnect_section (with_learned r t)) ''switch_address'' = toml_member (reconnect_section r) ''switch_address''"
    using member by (simp add: with_learned_def reconnect_section_def toml_member_def)
  show "toml_member (learned_section (with_learned r t)) ''switch_address'' = Some (TomlString t)"
    by (simp add: with_learned_def reconnect_section_def learned_section_def toml_member_def)
  show "section_ok (Some (with_learned r t)) [''report'', ''ipc'', ''device'', ''active_reconnect'']"
    using section_ok_assign [OF ok(1), of "''active_reconnect''"] by (simp add: with_learned_def table_or_empty_def)
  show "section_ok (reconnect_section (with_learned r t)) [''switch_address'', ''learned'']"
    using section_ok_assign [OF ok(2), of "''learned''"] by (simp add: with_learned_def reconnect_section_def)
  show "section_ok (learned_section (with_learned r t)) [''switch_address'']"
    using section_ok_assign [OF ok(3), of "''switch_address''"]
    by (simp add: with_learned_def reconnect_section_def learned_section_def toml_member_def)
qed

lemma with_learned_valid:
  assumes "toml_valid r" "address_of (c_str t) \<noteq> None"
  shows "toml_valid (with_learned r t)"
  using assms with_learned_sections [OF assms(1), where t = t] unfolding toml_valid_def
  by (simp add: text_ok_def [of _ "Some (TomlString t)"] toml_text_def [of "Some (TomlString t)"])

lemma with_learned_applied:
  assumes "toml_valid r" "address_of (c_str t) = Some b"
  shows "toml_applied (with_learned r t) c = (toml_applied r c)\<lparr>cfg_learned_switch_address := address_text b @ [NUL]\<rparr>"
  using assms(2) with_learned_sections(1-3) [OF assms(1), where t = t]
  by (simp add: toml_applied_def toml_text_def [of "Some (TomlString t)"] address_or_def [of _ "Some (c_str t)"])

lemma set_learned_ok:
  assumes "config_ok c" "length b = 6"
  shows "swbt_daemon_config_set_active_reconnect_learned_switch_address (Some c) (Some (address_text b)) =
    Some (True, Some (c\<lparr>cfg_learned_switch_address := address_text b @ [NUL]\<rparr>))"
  using assms normalize_address [OF address_text_ok(2) [OF assms(2)], of "cfg_learned_switch_address c"] address_text_ok(1) [OF assms(2)]
  by (simp add: swbt_daemon_config_set_active_reconnect_learned_switch_address_def config_ok_def SWBT_DAEMON_SWITCH_ADDRESS_TEXT_SIZE_def)

text \<open>Saving an address: the file is read and checked before anything is written.\<close>

lemma save_learned_eq:
  assumes "config_ok c" "length b = 6" "at_cursor path \<noteq> NUL"
  shows "swbt_daemon_config_save_active_reconnect_learned_switch_address fe files (Some c) (Some (Some path)) (Some (address_text b)) =
    (case swbt_toml_load_or_empty fe files (Some path) (Some (TomlOther [])) of (result, parsed) \<Rightarrow>
       if result \<noteq> SWBT_DAEMON_CONFIG_FILE_OK then (result, Some c, files)
       else if \<not> (toml_valid (the parsed) \<and> config_ok (toml_applied (the parsed) c))
       then (SWBT_DAEMON_CONFIG_FILE_ERROR_INVALID_VALUE, Some c, files)
       else let (result, files) = swbt_toml_write_file fe path (with_learned (the parsed) (address_text b)) files in
         (result, Some (if result = SWBT_DAEMON_CONFIG_FILE_OK then c\<lparr>cfg_learned_switch_address := address_text b @ [NUL]\<rparr> else c), files))"
proof (cases "swbt_toml_load_or_empty fe files (Some path) (Some (TomlOther []))")
  case (Pair result parsed)
  show ?thesis
  proof (cases "result = SWBT_DAEMON_CONFIG_FILE_OK")
    case True
    then obtain m where m: "parsed = Some (TomlTable m)"
      using Pair by (auto simp: swbt_toml_load_or_empty_def parse_file_def split: if_splits option.splits)
    show ?thesis
    proof (cases "toml_valid (TomlTable m) \<and> config_ok (toml_applied (TomlTable m) c)")
      case valid: True
      then have ok: "section_ok (reconnect_section (TomlTable m)) [''switch_address'', ''learned'']"
          "section_ok (learned_section (TomlTable m)) [''switch_address'']"
        unfolding toml_valid_def by blast+
      let ?a = "table_or_empty (reconnect_section (TomlTable m))"
      obtain p' where p': "swbt_toml_ensure_child_table (Some (TomlTable m)) (Some ''active_reconnect'') = (Some p', Some ?a)"
          "\<forall>x. toml_assign p' ''active_reconnect'' x = toml_assign (TomlTable m) ''active_reconnect'' x"
        using ensure_child [of "TomlTable m" "''active_reconnect''"] ok(1) by (auto simp: reconnect_section_def)
      have "section_ok (toml_at ?a ''learned'') [''switch_address'']" "toml_at ?a ''learned'' = learned_section (TomlTable m)"
        using ok section_ok_member [OF ok(1)] by (simp_all add: learned_section_def)
      then obtain a' where a': "swbt_toml_ensure_child_table (Some ?a) (Some ''learned'') =
            (Some a', Some (table_or_empty (learned_section (TomlTable m))))"
          "\<forall>x. toml_assign a' ''learned'' x = toml_assign ?a ''learned'' x"
        using ensure_child [OF section_ok_member(2) [OF ok(1)], of "''learned''"] by metis
      show ?thesis
        using valid assms True
        by (simp add: swbt_daemon_config_save_active_reconnect_learned_switch_address_def Pair m set_learned_ok apply_toml_ok p' a'
            with_learned_def c_str_of_terminated address_text_ok Let_def split: prod.split)
    qed (use assms True in \<open>auto simp: swbt_daemon_config_save_active_reconnect_learned_switch_address_def Pair m set_learned_ok apply_toml_ok Let_def\<close>)
  qed (use assms in \<open>simp add: swbt_daemon_config_save_active_reconnect_learned_switch_address_def Pair set_learned_ok Let_def\<close>)
qed

lemma load_or_empty_eq:
  assumes "at_cursor path \<noteq> NUL" "files path = Some content" "fe_readable fe path" "fe_read_close fe path" "parse_file fe content = Some r"
  shows "swbt_toml_load_or_empty fe files (Some path) (Some v) = (SWBT_DAEMON_CONFIG_FILE_OK, Some r)"
  using assms by (simp add: swbt_toml_load_or_empty_def)

lemma save_learned_success:
  assumes "config_ok c" "length b = 6" "at_cursor path \<noteq> NUL" "files path = Some content" "parse_file fe content = Some r"
    and "swbt_daemon_config_save_active_reconnect_learned_switch_address fe files (Some c) (Some (Some path)) (Some (address_text b)) =
      (SWBT_DAEMON_CONFIG_FILE_OK, c', files')"
  shows "\<exists>output. fe_format fe (with_learned r (address_text b)) = Some output \<and> files' = files(path \<mapsto> output)
    \<and> toml_valid r \<and> c' = Some (c\<lparr>cfg_learned_switch_address := address_text b @ [NUL]\<rparr>)"
  using assms(4-6) unfolding save_learned_eq [OF assms(1-3)]
  by (auto simp: swbt_toml_load_or_empty_def swbt_toml_write_file_def Let_def split: if_splits option.splits)

text \<open>The file after a save means what it meant before, except for the learned address.\<close>

lemma file_layer_saved:
  assumes "toml_valid r" "length b = 6" "parse_file fe output = Some (with_learned r (address_text b))"
    and "files path = Some content" "parse_file fe content = Some r" "file_layer fe files (Some path) = Some c"
  shows "file_layer fe (files(path \<mapsto> output)) (Some path) = Some (c\<lparr>cfg_learned_switch_address := address_text b @ [NUL]\<rparr>)"
proof -
  have a: "address_of (c_str (address_text b)) = Some b"
    using address_text_ok [OF assms(2)] by (simp add: c_str_id)
  have c: "c = toml_applied r swbt_daemon_config_default" "config_ok c" "\<not> (at_cursor path = NUL \<or> \<not> fe_readable fe path)"
    using assms(4-6) by (auto simp: file_layer_def split: if_splits)
  then have "config_ok (c\<lparr>cfg_learned_switch_address := address_text b @ [NUL]\<rparr>)"
    using address_text_length [OF assms(2)] by (simp add: config_ok_def SWBT_DAEMON_SWITCH_ADDRESS_TEXT_SIZE_def)
  then show ?thesis
    using c with_learned_valid [OF assms(1), of "address_text b"] with_learned_applied [OF assms(1) a, of swbt_daemon_config_default] a
    by (simp add: file_layer_def assms(3))
qed

section \<open>Properties\<close>

text \<open>C23: The launch configuration is made of layers: the defaults, overlaid with the values of the file that the
  command line names, overlaid with the environment. The file counts only if it can be read and parsed, has no unknown section or
  key and every value has its type and range; the environment only if every variable is valid; and after
  each layer the configuration must be a valid one. Otherwise there is no launch configuration at all.\<close>

theorem launch_config_layers:
  "swbt_daemon_launch_config_prepare w (read_config_file fe files) (Some opts) (Some e) =
    map_option (\<lambda>c. \<lparr>lc_config = c, lc_learned_switch_address_target = lo_config_path opts,
        lc_learned_switch_address_target_configured = (lo_config_path opts \<noteq> None), lc_link_key_db_path = lo_link_key_db_path opts,
        lc_link_key_db_configured = (lo_link_key_db_path opts \<noteq> None), lc_hci_dump_path = lo_hci_dump_path opts,
        lc_adapter_location = lo_adapter_location opts, lc_adapter_location_configured = (lo_adapter_location opts \<noteq> None)\<rparr>)
      (Option.bind (file_layer fe files (lo_config_path opts)) (env_layer w e))"
  by (rule launch_config_eq)

end
