(* ===== verification/Reconnect.thy ===== *)
theory Reconnect
  imports DaemonRun ConfigFile
begin

text \<open>
  The learned switch address from one run of the daemon to the next: the HID session saves the address of a console that
  connects into the configuration file, and the next start reads it and asks the device for a connection to it
  (\<open>src/swbt/daemon/btstack_hid_session.c\<close>, \<open>active_reconnect.c\<close>, \<open>config_file.cpp\<close>, \<open>launch_options.c\<close>).
\<close>

section \<open>Building the request\<close>

lemma effective_address:
  assumes "length b = 6" "at_cursor (c_str_of (cfg_explicit_switch_address c)) = NUL"
    and "cfg_learned_switch_address c = address_text b @ [NUL]"
  shows "swbt_daemon_config_effective_reconnect_switch_address (Some c) = Some (address_text b)"
proof -
  have "c_str_of (cfg_learned_switch_address c) = address_text b"
    using c_str_of_terminated [OF address_text_ok(2) [OF assms(1)]] assms(3) by simp
  moreover have "at_cursor (address_text b) \<noteq> NUL"
    using list6 [OF assms(1)] address_text_ok(2) [OF assms(1)] by (auto simp: at_cursor_def c_string_def hex_byte_def)
  ultimately show ?thesis
    using assms(2) by (simp add: swbt_daemon_config_effective_reconnect_switch_address_def)
qed

lemma build_request_ready:
  assumes "length b = 6" "swbt_daemon_config_effective_reconnect_switch_address (Some c) = Some (address_text b)"
  shows "swbt_daemon_active_reconnect_build_request (Some c) (Some out) = (SWBT_DAEMON_ACTIVE_RECONNECT_REQUEST_READY,
    Some \<lparr>cr_address = b, cr_control_psm = SWBT_BTSTACK_PRODUCTION_HID_CONTROL_PSM,
      cr_interrupt_psm = SWBT_BTSTACK_PRODUCTION_HID_INTERRUPT_PSM\<rparr>)"
  using parse_bytes_eq [OF address_text_ok(2) [OF assms(1)], of "replicate 6 0"] address_text_ok(1) [OF assms(1)] assms(2)
  by (auto simp: swbt_daemon_active_reconnect_build_request_def Let_def)

section \<open>Saving from the session\<close>

text \<open>What saving an address leaves in the configuration of the runner, as the session calls it.\<close>

definition file_saver :: "file_env \<Rightarrow> files \<Rightarrow> swbt_daemon_config_t \<Rightarrow> string \<Rightarrow> string \<Rightarrow> swbt_daemon_config_t" where
  "file_saver fe files c path address =
     the (fst (snd (swbt_daemon_config_save_active_reconnect_learned_switch_address fe files (Some c) (Some (Some path)) (Some address))))"

lemma set_timer_config: "bk_config (set_timer w a b) = bk_config b"
proof -
  obtain d h where "set_timer w a b = b\<lparr>bk_report_timer := a, bk_device := d, bk_host := h\<rparr>"
    using set_timer_eq by blast
  then show ?thesis
    by simp
qed

lemma opened_saves:
  assumes "ev_status event = 0" "length (ev_address event) = 6" "swbt_daemon_btstack_hid_session_report_timer_is_ready b"
    and "bk_learned_configured b" "bk_learned_target b = Some path" "at_cursor path \<noteq> NUL"
  shows "bk_config (swbt_daemon_btstack_hid_session_handle_connection_opened w b event) =
    pv_save_learned w (bk_config b) path (address_text (ev_address event))"
proof -
  let ?b = "swbt_daemon_production_runner_note_hid_open_completed b"
  have b: "bk_config ?b = bk_config b" "bk_learned_configured ?b" "bk_learned_target ?b = Some path"
      "swbt_daemon_btstack_hid_session_report_timer_is_ready ?b"
    using assms(3-5) by (simp_all add: swbt_daemon_production_runner_note_hid_open_completed_def bk_emit_def
        swbt_daemon_production_runner_cancel_active_reconnect_timeout_timer_def swbt_daemon_btstack_hid_session_report_timer_is_ready_def
        split: option.splits)
  have "c_str_of (the (swbt_daemon_switch_address_format_bytes (Some (ev_address event))
      (Some (replicate SWBT_DAEMON_SWITCH_ADDRESS_TEXT_SIZE NUL)))) = address_text (ev_address event)"
    using format_bytes_eq [OF assms(2)] address_text_ok(2) [OF assms(2)]
    by (simp add: c_str_of_terminated SWBT_DAEMON_SWITCH_ADDRESS_TEXT_SIZE_def)
  then show ?thesis
    using b assms(1,6) by (simp add: swbt_daemon_btstack_hid_session_handle_connection_opened_def set_timer_config bk_emit_def
        swbt_daemon_btstack_hid_session_maybe_save_learned_address_def swbt_daemon_active_reconnect_save_learned_address_def
        Let_def case_prod_beta)
qed

section \<open>The next start\<close>

lemma request_active_connects:
  assumes "length b = 6" "swbt_daemon_config_effective_reconnect_switch_address (Some c) = Some (address_text b)"
    and "dev_initialized dev" "dev_hid_registered dev"
  shows "\<exists>r app' code. swbt_daemon_active_reconnect_request_active env (Some (Some c, Some dev, app)) =
    (r, Some (dev_call (DeviceConnect \<lparr>cr_address = b, cr_control_psm = SWBT_BTSTACK_PRODUCTION_HID_CONTROL_PSM,
        cr_interrupt_psm = SWBT_BTSTACK_PRODUCTION_HID_INTERRUPT_PSM\<rparr> code) dev), app')
    \<and> (r = SWBT_DAEMON_ACTIVE_RECONNECT_ACTIVE_REQUESTED \<longleftrightarrow> code = 0)"
  using assms(3,4)
  by (auto simp: swbt_daemon_active_reconnect_request_active_def build_request_ready [OF assms(1,2)] swbt_btstack_device_connect_def
      case_prod_beta Let_def)

lemma env_layer_learned:
  assumes "env_layer w e c = Some n" "length t = 18"
  shows "env_layer w e (c\<lparr>cfg_learned_switch_address := t\<rparr>) = Some (n\<lparr>cfg_learned_switch_address := t\<rparr>)"
  using assms by (auto simp: env_layer_def env_applied_def config_ok_def SWBT_DAEMON_SWITCH_ADDRESS_TEXT_SIZE_def split: if_splits)

lemma prepare_config_ok: "swbt_daemon_launch_config_prepare n (read_config_file fe files) (Some opts) (Some e) = Some lc \<Longrightarrow> config_ok (lc_config lc)"
  by (auto simp: launch_config_eq env_layer_def bind_eq_Some_conv split: if_splits)

lemma prepare_after_save:
  assumes "length b = 6" "lo_config_path opts = Some path"
    and "swbt_daemon_launch_config_prepare n (read_config_file fe files) (Some opts) (Some e) = Some lc"
    and "\<And>v printed. is_table v \<Longrightarrow> fe_format fe v = Some printed \<Longrightarrow> parse_file fe printed = Some v"
    and "swbt_daemon_config_save_active_reconnect_learned_switch_address fe files (Some (lc_config lc)) (Some (Some path))
      (Some (address_text b)) = (SWBT_DAEMON_CONFIG_FILE_OK, c', files')"
  shows "swbt_daemon_launch_config_prepare n (read_config_file fe files') (Some opts) (Some e) =
      Some (lc\<lparr>lc_config := (lc_config lc)\<lparr>cfg_learned_switch_address := address_text b @ [NUL]\<rparr>\<rparr>)
    \<and> c' = Some ((lc_config lc)\<lparr>cfg_learned_switch_address := address_text b @ [NUL]\<rparr>)"
proof -
  obtain c where c: "file_layer fe files (Some path) = Some c" "env_layer n e c = Some (lc_config lc)"
    using assms(2,3) by (auto simp: launch_config_eq bind_eq_Some_conv)
  then obtain content r where r: "files path = Some content" "parse_file fe content = Some r" "at_cursor path \<noteq> NUL"
    by (auto simp: file_layer_def bind_eq_Some_conv split: if_splits)
  obtain printed where out: "fe_format fe (with_learned r (address_text b)) = Some printed" "files' = files(path \<mapsto> printed)" "toml_valid r"
      "c' = Some ((lc_config lc)\<lparr>cfg_learned_switch_address := address_text b @ [NUL]\<rparr>)"
    using save_learned_success [OF prepare_config_ok [OF assms(3)] assms(1) r(3,1,2) assms(5)] by blast
  have "parse_file fe printed = Some (with_learned r (address_text b))"
    using assms(4) [OF _ out(1)] by (simp add: with_learned_def)
  from file_layer_saved [OF out(3) assms(1) this r(1,2) c(1)]
  have "file_layer fe files' (Some path) = Some (c\<lparr>cfg_learned_switch_address := address_text b @ [NUL]\<rparr>)"
    unfolding out(2) .
  then show ?thesis
    using assms(2,3) env_layer_learned [OF c(2) address_text_length [OF assms(1)]] c out(4) by (cases lc) (auto simp: launch_config_eq)
qed

section \<open>Properties\<close>

text \<open>C22: A console that connected is found again. When a console opens a connection to a daemon that was started with a
  configuration file, and the file could be written, the address of the console is in the configuration of the running daemon;
  and the same command line and environment then give the same launch configuration with this address as the learned
  one, so that the next start, unless an explicit address is configured, asks the device for a connection to exactly this console.
  The TOML library is assumed to read back the value it printed.\<close>

theorem learned_address_reconnects:
  assumes "swbt_daemon_launch_config_prepare n (read_config_file fe files) (Some opts) (Some e) = Some lc" "lo_config_path opts = Some path"
    and "bk_config b = lc_config lc" "bk_learned_configured b" "bk_learned_target b = Some path"
    and "swbt_daemon_btstack_hid_session_report_timer_is_ready b" "ev_status event = 0" "length (ev_address event) = 6"
    and "pv_save_learned w = file_saver fe files"
    and "swbt_daemon_config_save_active_reconnect_learned_switch_address fe files (Some (lc_config lc)) (Some (Some path))
      (Some (address_text (ev_address event))) = (SWBT_DAEMON_CONFIG_FILE_OK, c', files')"
    and "\<And>v printed. is_table v \<Longrightarrow> fe_format fe v = Some printed \<Longrightarrow> parse_file fe printed = Some v"
    and "at_cursor (c_str_of (cfg_explicit_switch_address (lc_config lc))) = NUL" "dev_initialized dev" "dev_hid_registered dev"
  shows "\<exists>c r app' code. bk_config (swbt_daemon_btstack_hid_session_handle_connection_opened w b event) = c
      \<and> swbt_daemon_launch_config_prepare n (read_config_file fe files') (Some opts) (Some e) = Some (lc\<lparr>lc_config := c\<rparr>)
      \<and> c = (lc_config lc)\<lparr>cfg_learned_switch_address := address_text (ev_address event) @ [NUL]\<rparr>
      \<and> swbt_daemon_active_reconnect_request_active env (Some (Some c, Some dev, app)) =
        (r, Some (dev_call (DeviceConnect \<lparr>cr_address = ev_address event, cr_control_psm = SWBT_BTSTACK_PRODUCTION_HID_CONTROL_PSM,
            cr_interrupt_psm = SWBT_BTSTACK_PRODUCTION_HID_INTERRUPT_PSM\<rparr> code) dev), app')"
proof -
  let ?c = "(lc_config lc)\<lparr>cfg_learned_switch_address := address_text (ev_address event) @ [NUL]\<rparr>"
  have "at_cursor path \<noteq> NUL"
    using assms(1,2) by (auto simp: launch_config_eq file_layer_def bind_eq_Some_conv split: if_splits)
  note saved = opened_saves [OF assms(7,8,6,4,5) this]
  note prepared = prepare_after_save [OF assms(8,2,1,11,10)]
  have "bk_config (swbt_daemon_btstack_hid_session_handle_connection_opened w b event) = ?c"
    using prepared unfolding saved assms(9,3) by (simp add: file_saver_def assms(10))
  moreover have "swbt_daemon_config_effective_reconnect_switch_address (Some ?c) = Some (address_text (ev_address event))"
    using effective_address [OF assms(8)] assms(12) by simp
  from request_active_connects [OF assms(8) this assms(13,14)]
  obtain r app' code where "swbt_daemon_active_reconnect_request_active env (Some (Some ?c, Some dev, app)) =
        (r, Some (dev_call (DeviceConnect \<lparr>cr_address = ev_address event, cr_control_psm = SWBT_BTSTACK_PRODUCTION_HID_CONTROL_PSM,
            cr_interrupt_psm = SWBT_BTSTACK_PRODUCTION_HID_INTERRUPT_PSM\<rparr> code) dev), app')"
    by blast
  ultimately show ?thesis
    using prepared by blast
qed

text \<open>The demonstration: an empty configuration file, and a console that connects.\<close>

definition demo_address :: bytes where
  "demo_address = [0xA1, 2, 3, 4, 5, 6]"

definition demo_saved_file :: toml_value where
  "demo_saved_file = with_learned (TomlTable fmempty) (address_text demo_address)"

definition demo_file_env :: file_env where
  "demo_file_env = \<lparr>fe_parse = (\<lambda>s. if s = ''#'' then Some fmempty else if s = ''saved'' then Some (as_table demo_saved_file) else None),
     fe_format = (\<lambda>v. if v = demo_saved_file then Some ''saved'' else None), fe_readable = (\<lambda>_. True), fe_read_close = (\<lambda>_. True),
     fe_writable = (\<lambda>_. True), fe_written = (\<lambda>_ s. length s), fe_write_close = (\<lambda>_. True)\<rparr>"

definition demo_launch :: swbt_daemon_launch_options_t where
  "demo_launch = zero_launch_options\<lparr>lo_config_path := Some ''swbt.toml''\<rparr>"

definition demo_config_env :: swbt_daemon_config_env_t where
  "demo_config_env = \<lparr>cenv_report_period_us = None, cenv_ipc_host = None, cenv_ipc_port = None, cenv_ipc_backlog = None,
     cenv_ipc_heartbeat_timeout_ms = None, cenv_device_info_profile = None\<rparr>"

definition demo_files :: files where
  "demo_files = [''swbt.toml'' \<mapsto> ''#'']"

definition demo_session :: runner where
  "demo_session = demo_runner_memory\<lparr>bk_learned_configured := True, bk_learned_target := Some ''swbt.toml'',
     bk_ports := Some swbt_btstack_production_ports_btstack, bk_report_timer_initialized := True\<rparr>"

lemma demo_empty_file:
  "toml_valid (TomlTable fmempty)" "toml_applied (TomlTable fmempty) swbt_daemon_config_default = swbt_daemon_config_default"
  by (simp_all add: toml_valid_def section_ok_def number_ok_def text_ok_def toml_member_def reconnect_section_def learned_section_def
      toml_applied_def word_or_def address_or_def toml_number_def toml_text_def)

lemma demo_file_law: "is_table v \<Longrightarrow> fe_format demo_file_env v = Some printed \<Longrightarrow> parse_file demo_file_env printed = Some v"
  by (auto simp: demo_file_env_def parse_file_def demo_saved_file_def with_learned_def toml_assign_def split: if_splits)

lemma demo_prepare:
  "\<exists>lc. swbt_daemon_launch_config_prepare 64 (read_config_file demo_file_env demo_files) (Some demo_launch) (Some demo_config_env) = Some lc
    \<and> lc_config lc = swbt_daemon_config_default"
proof -
  have "file_layer demo_file_env demo_files (Some ''swbt.toml'') = Some swbt_daemon_config_default"
    using demo_empty_file config_default_ok
    by (simp add: file_layer_def demo_files_def demo_file_env_def parse_file_def at_cursor_def NUL_def)
  moreover have "env_layer 64 demo_config_env swbt_daemon_config_default = Some swbt_daemon_config_default"
    using config_default_ok
    by (simp add: env_layer_def env_valid_def env_applied_def demo_config_env_def env_value_def env_host_def)
  ultimately show ?thesis
    by (simp add: launch_config_eq demo_launch_def)
qed

lemma demo_save:
  "swbt_daemon_config_save_active_reconnect_learned_switch_address demo_file_env demo_files (Some swbt_daemon_config_default)
      (Some (Some ''swbt.toml'')) (Some (address_text demo_address)) =
    (SWBT_DAEMON_CONFIG_FILE_OK, Some (swbt_daemon_config_default\<lparr>cfg_learned_switch_address := address_text demo_address @ [NUL]\<rparr>),
     demo_files(''swbt.toml'' \<mapsto> ''saved''))"
proof -
  have path: "at_cursor ''swbt.toml'' \<noteq> NUL" "length demo_address = 6"
    by (simp_all add: at_cursor_def NUL_def demo_address_def)
  have "swbt_toml_load_or_empty demo_file_env demo_files (Some ''swbt.toml'') (Some v) = (SWBT_DAEMON_CONFIG_FILE_OK, Some (TomlTable fmempty))" for v
    using path by (simp add: swbt_toml_load_or_empty_def demo_files_def demo_file_env_def parse_file_def)
  moreover have "swbt_toml_write_file demo_file_env ''swbt.toml'' (with_learned (TomlTable fmempty) (address_text demo_address)) demo_files =
      (SWBT_DAEMON_CONFIG_FILE_OK, demo_files(''swbt.toml'' \<mapsto> ''saved''))"
    by (simp add: swbt_toml_write_file_def demo_file_env_def demo_saved_file_def Let_def)
  ultimately show ?thesis
    using demo_empty_file config_default_ok by (simp add: save_learned_eq [OF config_default_ok path(2,1)])
qed

theorem learned_address_reconnects_witness:
  "\<exists>c r app' code. swbt_daemon_active_reconnect_request_active (pv_device demo_production_env)
      (Some (Some c, Some (demo_device\<lparr>dev_initialized := True, dev_hid_registered := True\<rparr>), None)) =
    (r, Some (dev_call (DeviceConnect \<lparr>cr_address = [0xA1, 2, 3, 4, 5, 6], cr_control_psm = SWBT_BTSTACK_PRODUCTION_HID_CONTROL_PSM,
        cr_interrupt_psm = SWBT_BTSTACK_PRODUCTION_HID_INTERRUPT_PSM\<rparr> code)
      (demo_device\<lparr>dev_initialized := True, dev_hid_registered := True\<rparr>)), app')
    \<and> map_option lc_config (swbt_daemon_launch_config_prepare 64 (read_config_file demo_file_env (demo_files(''swbt.toml'' \<mapsto> ''saved'')))
        (Some demo_launch) (Some demo_config_env)) = Some c"
proof -
  obtain lc where lc: "swbt_daemon_launch_config_prepare 64 (read_config_file demo_file_env demo_files) (Some demo_launch) (Some demo_config_env) = Some lc"
      "lc_config lc = swbt_daemon_config_default"
    using demo_prepare by blast
  let ?event = "\<lparr>ev_type = SWBT_BTSTACK_HID_EVENT_CONNECTION_OPENED, ev_hid_cid = 1, ev_status = 0, ev_address = demo_address\<rparr>"
  have session: "bk_config demo_session = lc_config lc" "bk_learned_configured demo_session" "bk_learned_target demo_session = Some ''swbt.toml''"
      "swbt_daemon_btstack_hid_session_report_timer_is_ready demo_session"
    using lc(2) by (simp_all add: demo_session_def demo_runner_memory_def swbt_daemon_btstack_hid_session_report_timer_is_ready_def
        swbt_btstack_production_ports_btstack_def)
  have "lo_config_path demo_launch = Some ''swbt.toml''" "length (ev_address ?event) = 6"
      "at_cursor (c_str_of (cfg_explicit_switch_address (lc_config lc))) = NUL"
    by (simp_all add: demo_launch_def demo_address_def lc(2) swbt_daemon_config_default_def c_str_of_def at_cursor_def
        SWBT_DAEMON_SWITCH_ADDRESS_TEXT_SIZE_def)
  with learned_address_reconnects [OF lc(1) _ session, of ?event "demo_production_env\<lparr>pv_save_learned := file_saver demo_file_env demo_files\<rparr>"
      "Some (swbt_daemon_config_default\<lparr>cfg_learned_switch_address := address_text demo_address @ [NUL]\<rparr>)"
      "demo_files(''swbt.toml'' \<mapsto> ''saved'')" "demo_device\<lparr>dev_initialized := True, dev_hid_registered := True\<rparr>"
      "pv_device demo_production_env" None]
  show ?thesis
    using demo_save demo_file_law by (fastforce simp: lc(2) demo_address_def)
qed

end
