(* ===== verification/COutput.thy ===== *)
theory COutput
  imports CNumber
begin

text \<open>
  Output to a C stream. A stream is what was written to it so far, or None for a null pointer.
\<close>

type_synonym stream = "string option"

definition fputs :: "string \<Rightarrow> stream \<Rightarrow> stream" where
  "fputs s out = map_option (\<lambda>written. written @ s) out"

definition newline :: string where
  "newline = [CHR 0x0A]"

lemma fputs_simps [simp]: "fputs s (Some written) = Some (written @ s)" "fputs s None = None"
  by (simp_all add: fputs_def)

end
