(* ===== verification/Cli.thy ===== *)
theory Cli
  imports COutput DaemonRun ConfigFile
begin

text \<open>
  The command line of the daemon: the commands of \<open>src/swbt/daemon/cli.c\<close>, the entry point of the production backend
  (\<open>src/apps/swbt-daemon/production_entrypoint.c\<close>) and the main function of the program (\<open>src/apps/swbt-daemon/main.c\<close>).
\<close>

section \<open>Output\<close>

definition help_lines :: "string list" where
  "help_lines =
    [''Usage:'', ''  swbt-daemon [options]'', ''  swbt-daemon <command> [options]'', '''', ''Commands:'',
     ''  help      Show command and option help.'', ''  adapters  List adapter-location selector candidates.'',
     ''  config    Show effective launch and runtime config.'', '''', ''Startup options:'', ''  --backend production|noop'',
     ''  --config <path>'', ''  --link-key-db <path>'', ''  --trace-path <path>'', ''  --hci-dump-path <path>'',
     ''  --crash-dump-path <path>'', ''  --adapter-location <selector>'']"

definition swbt_daemon_cli_write_help :: "stream \<Rightarrow> stream" where
  "swbt_daemon_cli_write_help out = (if out = None then out else fold (\<lambda>line. fputs (line @ newline)) help_lines out)"

definition swbt_daemon_cli_is_help_command :: "string option \<Rightarrow> bool" where
  "swbt_daemon_cli_is_help_command argument = (argument \<in> set [Some ''help'', Some ''--help'', Some ''-h''])"

definition swbt_daemon_cli_is_command :: "string option \<Rightarrow> string option \<Rightarrow> bool" where
  "swbt_daemon_cli_is_command argument command \<longleftrightarrow> argument \<noteq> None \<and> command \<noteq> None \<and> argument = command"

definition swbt_daemon_cli_write_error :: "stream \<Rightarrow> string option \<Rightarrow> stream" where
  "swbt_daemon_cli_write_error err message =
     (if err = None \<or> message = None then err else fputs newline (fputs (the message) err))"

definition swbt_daemon_cli_value_or_none :: "string option \<Rightarrow> string" where
  "swbt_daemon_cli_value_or_none v = (case v of None \<Rightarrow> ''<none>'' | Some s \<Rightarrow> if at_cursor s \<noteq> NUL then s else ''<none>'')"

fun swbt_daemon_cli_backend_string :: "swbt_daemon_launch_backend_t \<Rightarrow> string" where
  "swbt_daemon_cli_backend_string SWBT_DAEMON_LAUNCH_BACKEND_PRODUCTION = ''production''"
| "swbt_daemon_cli_backend_string SWBT_DAEMON_LAUNCH_BACKEND_NOOP = ''noop''"

definition swbt_daemon_cli_write_key_value :: "stream \<Rightarrow> string option \<Rightarrow> string option \<Rightarrow> stream" where
  "swbt_daemon_cli_write_key_value out key v =
     (if out = None \<or> key = None then out
      else fputs newline (fputs (swbt_daemon_cli_value_or_none v) (fputs ''='' (fputs (the key) out))))"

text \<open>The three number writers print into a buffer of 16 characters.\<close>

definition swbt_daemon_cli_write_key_u32 :: "stream \<Rightarrow> string option \<Rightarrow> u32 \<Rightarrow> stream" where
  "swbt_daemon_cli_write_key_u32 out key v = swbt_daemon_cli_write_key_value out key (Some (take 15 (decimal (unat v))))"

definition swbt_daemon_cli_write_key_uint :: "stream \<Rightarrow> string option \<Rightarrow> u32 \<Rightarrow> stream" where
  "swbt_daemon_cli_write_key_uint out key v = swbt_daemon_cli_write_key_value out key (Some (take 15 (decimal (unat v))))"

definition swbt_daemon_cli_write_key_int :: "stream \<Rightarrow> string option \<Rightarrow> int \<Rightarrow> stream" where
  "swbt_daemon_cli_write_key_int out key v = swbt_daemon_cli_write_key_value out key (Some (take 15 (int_text v)))"

section \<open>Commands\<close>

text \<open>The function that lists the adapters, with its context, and the environment of the process.\<close>

record swbt_daemon_cli_ports_t =
  clip_list_adapters :: "(stream \<Rightarrow> stream \<Rightarrow> int \<times> stream \<times> stream) option"
  clip_config_env :: "swbt_daemon_config_env_t option"

record swbt_daemon_cli_dispatch_result_t =
  dr_handled :: bool
  dr_exit_code :: int

definition swbt_daemon_cli_run_adapters ::
  "int \<Rightarrow> stream \<Rightarrow> stream \<Rightarrow> swbt_daemon_cli_ports_t option \<Rightarrow> int \<times> stream \<times> stream" where
  "swbt_daemon_cli_run_adapters argc out err ports =
     (if argc \<noteq> 2 then (1, out, swbt_daemon_cli_write_error err (Some ''adapters does not accept arguments''))
      else if ports = None \<or> clip_list_adapters (the ports) = None
      then (1, out, swbt_daemon_cli_write_error err (Some ''adapter inventory is not available''))
      else let (result, out, err) = the (clip_list_adapters (the ports)) out err in (if result = 0 then 0 else 1, out, err))"

definition swbt_daemon_cli_write_config ::
  "stream \<Rightarrow> swbt_daemon_launch_options_t option \<Rightarrow> swbt_daemon_launch_config_t option \<Rightarrow> stream" where
  "swbt_daemon_cli_write_config out options launch_config =
     (if out = None \<or> options = None \<or> launch_config = None then out
      else
        let opts = the options; lc = the launch_config; config = lc_config lc;
            effective_switch_address = swbt_daemon_config_effective_reconnect_switch_address (Some config);
            out = swbt_daemon_cli_write_key_value out (Some ''backend'') (Some (swbt_daemon_cli_backend_string (lo_backend opts)));
            out = swbt_daemon_cli_write_key_value out (Some ''config.path'') (lo_config_path opts);
            out = swbt_daemon_cli_write_key_value out (Some ''link_key_db.path'')
              (if lc_link_key_db_configured lc then lc_link_key_db_path lc else None);
            out = swbt_daemon_cli_write_key_value out (Some ''trace.path'') (lo_trace_path opts);
            out = swbt_daemon_cli_write_key_value out (Some ''hci_dump.path'') (lc_hci_dump_path lc);
            out = swbt_daemon_cli_write_key_value out (Some ''crash_dump.path'') (lo_crash_dump_path opts);
            out = swbt_daemon_cli_write_key_value out (Some ''adapter_location'')
              (if lc_adapter_location_configured lc then lc_adapter_location lc else None);
            out = swbt_daemon_cli_write_key_u32 out (Some ''runtime.report_period_us'') (cfg_report_period_us config);
            out = swbt_daemon_cli_write_key_value out (Some ''runtime.ipc.host'') (Some (cfg_ipc_host config));
            out = swbt_daemon_cli_write_key_uint out (Some ''runtime.ipc.port'') (ucast (cfg_ipc_port config));
            out = swbt_daemon_cli_write_key_int out (Some ''runtime.ipc.backlog'') (cfg_ipc_backlog config);
            out = swbt_daemon_cli_write_key_u32 out (Some ''runtime.ipc.heartbeat_timeout_ms'') (cfg_ipc_heartbeat_timeout_ms config);
            out = swbt_daemon_cli_write_key_value out (Some ''active_reconnect.explicit_switch_address'')
              (Some (c_str_of (cfg_explicit_switch_address config)));
            out = swbt_daemon_cli_write_key_value out (Some ''active_reconnect.learned_switch_address'')
              (Some (c_str_of (cfg_learned_switch_address config)))
        in swbt_daemon_cli_write_key_value out (Some ''active_reconnect.effective_switch_address'') effective_switch_address)"

definition empty_env :: swbt_daemon_config_env_t where
  "empty_env = \<lparr>cenv_report_period_us = None, cenv_ipc_host = None, cenv_ipc_port = None, cenv_ipc_backlog = None,
     cenv_ipc_heartbeat_timeout_ms = None, cenv_device_info_profile = None\<rparr>"

text \<open>\<open>n\<close> is the number of bits of an unsigned long, \<open>fe\<close> and \<open>files\<close> are the file system; \<open>argv\<close> is not null here.\<close>

definition swbt_daemon_cli_run_config ::
  "nat \<Rightarrow> file_env \<Rightarrow> files \<Rightarrow> int \<Rightarrow> string option list \<Rightarrow> stream \<Rightarrow> stream \<Rightarrow> swbt_daemon_cli_ports_t option
   \<Rightarrow> int \<times> stream \<times> stream" where
  "swbt_daemon_cli_run_config n fe files argc argv out err ports =
     (let env = (case ports of None \<Rightarrow> empty_env | Some p \<Rightarrow> (case clip_config_env p of None \<Rightarrow> empty_env | Some e \<Rightarrow> e));
          (result, options) = swbt_daemon_launch_options_parse (Some zero_launch_options) (argc - 1) (Some (tl argv)) in
      if result \<noteq> SWBT_DAEMON_LAUNCH_OPTIONS_OK then (1, out, swbt_daemon_cli_write_error err (Some ''config options are invalid''))
      else case swbt_daemon_launch_config_prepare n (read_config_file fe files) options (Some env) of
          None \<Rightarrow> (1, out, swbt_daemon_cli_write_error err (Some ''config is invalid''))
        | Some launch_config \<Rightarrow> (0, swbt_daemon_cli_write_config out options (Some launch_config), err))"

definition swbt_daemon_cli_dispatch_with_ports ::
  "nat \<Rightarrow> file_env \<Rightarrow> files \<Rightarrow> int \<Rightarrow> string option list option \<Rightarrow> stream \<Rightarrow> stream \<Rightarrow> swbt_daemon_cli_ports_t option
   \<Rightarrow> swbt_daemon_cli_dispatch_result_t \<times> stream \<times> stream" where
  "swbt_daemon_cli_dispatch_with_ports n fe files argc argv out err ports =
     (if argc < 2 \<or> argv = None \<or> the argv ! 1 = None then (\<lparr>dr_handled = False, dr_exit_code = 0\<rparr>, out, err)
      else
        let command = the argv ! 1 in
        if swbt_daemon_cli_is_help_command command
        then (\<lparr>dr_handled = True, dr_exit_code = 0\<rparr>, swbt_daemon_cli_write_help out, err)
        else if swbt_daemon_cli_is_command command (Some ''adapters'')
        then let (exit_code, out, err) = swbt_daemon_cli_run_adapters argc out err ports
          in (\<lparr>dr_handled = True, dr_exit_code = exit_code\<rparr>, out, err)
        else if swbt_daemon_cli_is_command command (Some ''config'')
        then let (exit_code, out, err) = swbt_daemon_cli_run_config n fe files argc (the argv) out err ports
          in (\<lparr>dr_handled = True, dr_exit_code = exit_code\<rparr>, out, err)
        else (\<lparr>dr_handled = False, dr_exit_code = 0\<rparr>, out, err))"

definition swbt_daemon_cli_dispatch ::
  "nat \<Rightarrow> file_env \<Rightarrow> files \<Rightarrow> int \<Rightarrow> string option list option \<Rightarrow> stream \<Rightarrow> stream
   \<Rightarrow> swbt_daemon_cli_dispatch_result_t \<times> stream \<times> stream" where
  "swbt_daemon_cli_dispatch n fe files argc argv out err = swbt_daemon_cli_dispatch_with_ports n fe files argc argv out err None"

section \<open>The program\<close>

text \<open>
  What the program finds when it starts: the width of an unsigned long and the build, the files, the environment variables,
  the USB devices, the state of the platform, what the sockets, the hardware and the run loop will do, and the
  memory of the objects it creates.
\<close>

record main_world =
  mw_long_bits :: nat
  mw_windows :: bool
  mw_file_env :: file_env
  mw_files :: files
  mw_getenv :: "string \<Rightarrow> string option"
  mw_libusb :: "int \<times> (int + libusb_device list)"
  mw_platform :: platform
  mw_sockets :: ipc_env
  mw_before :: production_env
  mw_events :: "loop_event list"
  mw_after :: production_env
  mw_process :: process
  mw_domain :: "swbt_domain option"
  mw_ipc_domain :: "swbt_domain option"
  mw_runner :: runner
  mw_noop_process :: "unit swbt_daemon_process"
  mw_response :: response

definition swbt_daemon_production_entrypoint_list_adapter_locations :: "main_world \<Rightarrow> stream \<Rightarrow> stream \<Rightarrow> int \<times> stream \<times> stream" where
  "swbt_daemon_production_entrypoint_list_adapter_locations mw out err =
     swbt_btstack_production_list_adapter_locations (fst (mw_libusb mw)) (snd (mw_libusb mw)) out err"

definition swbt_daemon_platform_shutdown_listener :: "bool \<Rightarrow> swbt_daemon_shutdown_listener_t option" where
  "swbt_daemon_platform_shutdown_listener windows = (if windows then Some \<lparr>sl_install = True, sl_uninstall = True\<rparr> else None)"

text \<open>The exit code, and the runner as it was left if the backend was run.\<close>

definition swbt_daemon_production_entrypoint_run :: "main_world \<Rightarrow> swbt_daemon_launch_config_t \<Rightarrow> int \<times> runner option" where
  "swbt_daemon_production_entrypoint_run mw launch_config =
     (let (code, p) = swbt_btstack_production_link_key_db_configure
            (if lc_link_key_db_configured launch_config then lc_link_key_db_path launch_config else None) (mw_platform mw) in
      if code \<noteq> 0 then (1, None)
      else let (code, p) = swbt_btstack_production_hci_dump_configure (lc_hci_dump_path launch_config) p in
      if code \<noteq> 0 then (1, None)
      else if lc_adapter_location_configured launch_config
        \<and> fst (swbt_btstack_production_impl_configure_adapter_location (lc_adapter_location launch_config)) \<noteq> 0 then (1, None)
      else
        let run_config = \<lparr>run_config = Some (lc_config launch_config), run_ports = Some swbt_btstack_production_ports_btstack,
              run_adapter_location_configured = lc_adapter_location_configured launch_config,
              run_learned_configured = lc_learned_switch_address_target_configured launch_config,
              run_learned_target = lc_learned_switch_address_target launch_config,
              run_shutdown_listener = swbt_daemon_platform_shutdown_listener (mw_windows mw)\<rparr>;
            (result, b) = swbt_daemon_production_run (mw_sockets mw) (mw_before mw) (mw_events mw) (mw_after mw) (mw_process mw)
              (mw_domain mw) (mw_ipc_domain mw) ((mw_runner mw)\<lparr>bk_ipc := (p, snd (bk_ipc (mw_runner mw)))\<rparr>) (Some run_config)
        in (if result = SWBT_DAEMON_PRODUCTION_OK then 0 else 1, b))"

definition swbt_daemon_config_env_from_process_env :: "(string \<Rightarrow> string option) \<Rightarrow> swbt_daemon_config_env_t" where
  "swbt_daemon_config_env_from_process_env getenv = \<lparr>cenv_report_period_us = getenv ''SWBT_REPORT_PERIOD_US'',
     cenv_ipc_host = getenv ''SWBT_IPC_HOST'', cenv_ipc_port = getenv ''SWBT_IPC_PORT'', cenv_ipc_backlog = getenv ''SWBT_IPC_BACKLOG'',
     cenv_ipc_heartbeat_timeout_ms = getenv ''SWBT_IPC_HEARTBEAT_TIMEOUT_MS'',
     cenv_device_info_profile = getenv ''SWBT_DEVICE_INFO_PROFILE''\<rparr>"

text \<open>The exit code, standard output and standard error, and the runner as it was left if the production backend was run.\<close>

definition main :: "main_world \<Rightarrow> int \<Rightarrow> string option list \<Rightarrow> int \<times> stream \<times> stream \<times> runner option" where
  "main mw argc argv =
     (let config_env = swbt_daemon_config_env_from_process_env (mw_getenv mw);
          cli_ports = \<lparr>clip_list_adapters = Some (swbt_daemon_production_entrypoint_list_adapter_locations mw),
                       clip_config_env = Some config_env\<rparr>;
          (cli_result, out, err) = swbt_daemon_cli_dispatch_with_ports (mw_long_bits mw) (mw_file_env mw) (mw_files mw) argc (Some argv)
            (Some []) (Some []) (Some cli_ports) in
      if dr_handled cli_result then (dr_exit_code cli_result, out, err, None)
      else
        let (result, launch_options) = swbt_daemon_launch_options_parse (Some zero_launch_options) argc (Some argv) in
        if result \<noteq> SWBT_DAEMON_LAUNCH_OPTIONS_OK then (1, out, err, None)
        else case swbt_daemon_launch_config_prepare (mw_long_bits mw) (read_config_file (mw_file_env mw) (mw_files mw))
              launch_options (Some config_env) of
            None \<Rightarrow> (1, out, err, None)
          | Some launch_config \<Rightarrow>
              (case lo_backend (the launch_options) of
                 SWBT_DAEMON_LAUNCH_BACKEND_PRODUCTION \<Rightarrow>
                   let (code, b) = swbt_daemon_production_entrypoint_run mw launch_config in (code, out, err, b)
               | SWBT_DAEMON_LAUNCH_BACKEND_NOOP \<Rightarrow>
                   (fst (swbt_daemon_main_with_process_backend (noop_host_env (mw_response mw)) (mw_noop_process mw)
                      (Some (lc_config launch_config)) (Some swbt_daemon_process_noop_backend) () (mw_domain mw)), out, err, None)))"

section \<open>Lemmas\<close>

text \<open>What is printed for a configuration: the lines with their values.\<close>

definition line_text :: "string \<times> string option \<Rightarrow> string" where
  "line_text kv = fst kv @ ''='' @ swbt_daemon_cli_value_or_none (snd kv) @ newline"

definition config_lines :: "swbt_daemon_launch_options_t \<Rightarrow> swbt_daemon_launch_config_t \<Rightarrow> (string \<times> string option) list" where
  "config_lines opts lc =
     [(''backend'', Some (swbt_daemon_cli_backend_string (lo_backend opts))), (''config.path'', lo_config_path opts),
      (''link_key_db.path'', lo_link_key_db_path opts), (''trace.path'', lo_trace_path opts), (''hci_dump.path'', lo_hci_dump_path opts),
      (''crash_dump.path'', lo_crash_dump_path opts), (''adapter_location'', lo_adapter_location opts),
      (''runtime.report_period_us'', Some (decimal (unat (cfg_report_period_us (lc_config lc))))),
      (''runtime.ipc.host'', Some (cfg_ipc_host (lc_config lc))),
      (''runtime.ipc.port'', Some (decimal (unat (cfg_ipc_port (lc_config lc))))),
      (''runtime.ipc.backlog'', Some (decimal (nat (cfg_ipc_backlog (lc_config lc))))),
      (''runtime.ipc.heartbeat_timeout_ms'', Some (decimal (unat (cfg_ipc_heartbeat_timeout_ms (lc_config lc))))),
      (''active_reconnect.explicit_switch_address'', Some (c_str_of (cfg_explicit_switch_address (lc_config lc)))),
      (''active_reconnect.learned_switch_address'', Some (c_str_of (cfg_learned_switch_address (lc_config lc)))),
      (''active_reconnect.effective_switch_address'', swbt_daemon_config_effective_reconnect_switch_address (Some (lc_config lc)))]"

lemma write_key_value: "swbt_daemon_cli_write_key_value (Some written) (Some key) v = Some (written @ line_text (key, v))"
  by (simp add: swbt_daemon_cli_write_key_value_def fputs_def line_text_def)

lemma decimal_fits: "n < 10 ^ 15 \<Longrightarrow> take 15 (decimal n) = decimal n"
  using decimal_length [of 15 n] by simp

lemma unat_fits: "unat (w :: u32) < 10 ^ 15"
  using unsigned_less [of w, where ?'a = nat] by simp

lemma unat_ucast_port: "unat (ucast (w :: u16) :: u32) = unat w"
  by (rule unat_ucast_up) simp

lemma parse_u32_decimal:
  assumes "32 \<le> n" "m < 2 ^ 32"
  shows "swbt_daemon_parse_u32 n (Some (decimal m)) = Some (of_nat m)"
proof -
  have "(2 :: nat) ^ 32 \<le> 2 ^ n"
    using assms(1) by (rule power_increasing) simp
  then have m: "\<not> m > 2 ^ n - 1" "m \<le> 2 ^ 32 - 1"
    using assms(2) by linarith+
  have "c_integer 10 (decimal m) = Some (False, m, [])"
    using c_integer_int_text [of "[]" "int m"] by (simp add: int_text_def base_digit_ten)
  moreover have "at_cursor (decimal m) \<noteq> NUL"
    using decimal_digits [of "hd (decimal m)" m] by (cases "decimal m") (auto simp: ccode_inject [symmetric])
  ultimately show ?thesis
    using m decimal_not_Nil [of m] by (auto simp: swbt_daemon_parse_u32_def strtou_def)
qed

lemma config_backlog:
  assumes "swbt_daemon_launch_config_prepare n (read_config_file fe files) (Some opts) (Some e) = Some lc"
  shows "config_ok (lc_config lc)" "cfg_ipc_backlog (lc_config lc) < 2 ^ 31"
proof -
  obtain c where c: "file_layer fe files (lo_config_path opts) = Some c" "env_valid n e" "config_ok (env_applied n e c)"
      "lc_config lc = env_applied n e c"
    using assms by (auto simp: launch_config_eq env_layer_def bind_eq_Some_conv split: if_splits)
  show "config_ok (lc_config lc)"
    using c(3,4) by simp
  have "cfg_ipc_backlog c < 2 ^ 31"
  proof (cases "lo_config_path opts")
    case None
    then show ?thesis
      using c(1) by (auto simp: file_layer_def swbt_daemon_config_default_def)
  next
    case (Some p)
    then obtain r where r: "toml_valid r" "c = toml_applied r swbt_daemon_config_default"
      using c(1) by (auto simp: file_layer_def bind_eq_Some_conv split: if_splits)
    from r(1) have "number_ok (2 ^ 31 - 1) (toml_member (toml_at r ''ipc'') ''backlog'')"
      unfolding toml_valid_def by blast
    then show ?thesis
      by (auto simp: r(2) toml_applied_def number_ok_def toml_number_def [of None] swbt_daemon_config_default_def)
  qed
  moreover have "the (swbt_daemon_parse_int n v) < 2 ^ 31" if "swbt_daemon_parse_int n v \<noteq> None" for v
    using that by (auto simp: swbt_daemon_parse_int_def word_less_def not_less word_le_def split: option.splits if_splits)
  ultimately show "cfg_ipc_backlog (lc_config lc) < 2 ^ 31"
    using c(2) unfolding c(4) by (auto simp: env_applied_def env_value_def env_valid_def)
qed

lemma write_config_lines:
  assumes "swbt_daemon_launch_config_prepare n (read_config_file fe files) (Some opts) (Some e) = Some lc"
  shows "swbt_daemon_cli_write_config (Some written) (Some opts) (Some lc) = Some (written @ concat (map line_text (config_lines opts lc)))"
proof -
  have "cfg_ipc_backlog (lc_config lc) > 0" "cfg_ipc_backlog (lc_config lc) < 2 ^ 31"
    using config_backlog [OF assms] by (simp_all add: config_ok_def)
  then have b: "take 15 (int_text (cfg_ipc_backlog (lc_config lc))) = decimal (nat (cfg_ipc_backlog (lc_config lc)))"
    by (simp add: int_text_def decimal_fits)
  have p: "take 15 (decimal (unat (ucast (cfg_ipc_port (lc_config lc)) :: u32))) = decimal (unat (cfg_ipc_port (lc_config lc)))"
    using decimal_fits [OF unat_fits] by (metis unat_ucast_port)
  have lc: "lc_link_key_db_path lc = lo_link_key_db_path opts" "lc_link_key_db_configured lc = (lo_link_key_db_path opts \<noteq> None)"
      "lc_hci_dump_path lc = lo_hci_dump_path opts" "lc_adapter_location lc = lo_adapter_location opts"
      "lc_adapter_location_configured lc = (lo_adapter_location opts \<noteq> None)"
    using assms by (auto simp: launch_config_eq)
  have none: "(if v \<noteq> None then v else None) = v" for v :: "string option"
    by (cases v) simp_all
  show ?thesis
    unfolding swbt_daemon_cli_write_config_def Let_def option.sel lc none swbt_daemon_cli_write_key_u32_def swbt_daemon_cli_write_key_uint_def
      swbt_daemon_cli_write_key_int_def b p decimal_fits [OF unat_fits]
    by (simp add: write_key_value config_lines_def unat_ucast_port)
qed

text \<open>
  A reader of the printed text, independent of the writer: the lines, each split at its first equals sign, looked up by key; the
  launch options and the environment that the printed values spell.
\<close>

fun text_lines :: "string \<Rightarrow> string list" where
  "text_lines [] = []"
| "text_lines (c # s) = (if c = CHR 0x0A then [] # text_lines s else case text_lines s of [] \<Rightarrow> [[c]] | l # ls \<Rightarrow> (c # l) # ls)"

definition key_value :: "string \<Rightarrow> string \<times> string" where
  "key_value line = (takeWhile (\<lambda>c. c \<noteq> CHR ''='') line, drop 1 (dropWhile (\<lambda>c. c \<noteq> CHR ''='') line))"

definition printed :: "string \<Rightarrow> string \<Rightarrow> string option" where
  "printed written key = (case map_of (map key_value (text_lines written)) key of
       None \<Rightarrow> None
     | Some v \<Rightarrow> if v = ''<none>'' then None else Some v)"

definition printed_options :: "string \<Rightarrow> swbt_daemon_launch_options_t" where
  "printed_options written = \<lparr>lo_backend = the (swbt_daemon_launch_options_parse_backend (printed written ''backend'')),
     lo_config_path = printed written ''config.path'', lo_link_key_db_path = printed written ''link_key_db.path'',
     lo_trace_path = printed written ''trace.path'', lo_hci_dump_path = printed written ''hci_dump.path'',
     lo_crash_dump_path = printed written ''crash_dump.path'', lo_adapter_location = printed written ''adapter_location''\<rparr>"

definition printed_env :: "string \<Rightarrow> swbt_daemon_config_env_t" where
  "printed_env written = \<lparr>cenv_report_period_us = printed written ''runtime.report_period_us'',
     cenv_ipc_host = printed written ''runtime.ipc.host'', cenv_ipc_port = printed written ''runtime.ipc.port'',
     cenv_ipc_backlog = printed written ''runtime.ipc.backlog'',
     cenv_ipc_heartbeat_timeout_ms = printed written ''runtime.ipc.heartbeat_timeout_ms'', cenv_device_info_profile = None\<rparr>"

text \<open>A value that can be told from the text: it is not empty, not the mark for no value, and has no line break.\<close>

definition readable :: "string option \<Rightarrow> bool" where
  "readable v \<longleftrightarrow> (case v of None \<Rightarrow> True | Some s \<Rightarrow> at_cursor s \<noteq> NUL \<and> s \<noteq> ''<none>'' \<and> CHR 0x0A \<notin> set s)"

definition readable_launch :: "swbt_daemon_launch_options_t \<Rightarrow> swbt_daemon_launch_config_t \<Rightarrow> bool" where
  "readable_launch opts lc \<longleftrightarrow> readable (lo_config_path opts) \<and> readable (lo_link_key_db_path opts) \<and> readable (lo_trace_path opts)
     \<and> readable (lo_hci_dump_path opts) \<and> readable (lo_crash_dump_path opts) \<and> readable (lo_adapter_location opts)
     \<and> readable (Some (cfg_ipc_host (lc_config lc)))"

lemma text_lines_line: "CHR 0x0A \<notin> set l \<Longrightarrow> text_lines (l @ CHR 0x0A # s) = l # text_lines s"
  by (induction l) auto

lemma key_value_line: "CHR ''='' \<notin> set k \<Longrightarrow> key_value (k @ CHR ''='' # v) = (k, v)"
  by (induction k) (auto simp: key_value_def)

lemma lines_read:
  assumes "\<forall>kv\<in>set kvs. CHR 0x0A \<notin> set (fst kv) \<and> CHR ''='' \<notin> set (fst kv) \<and> CHR 0x0A \<notin> set (swbt_daemon_cli_value_or_none (snd kv))"
  shows "map key_value (text_lines (concat (map line_text kvs))) = map (\<lambda>kv. (fst kv, swbt_daemon_cli_value_or_none (snd kv))) kvs"
  using assms
proof (induction kvs)
  case (Cons kv kvs)
  let ?l = "fst kv @ CHR ''='' # swbt_daemon_cli_value_or_none (snd kv)"
  have "line_text kv = ?l @ [CHR 0x0A]" "CHR 0x0A \<notin> set ?l" "CHR ''='' \<notin> set (fst kv)"
    using Cons.prems by (simp_all add: line_text_def newline_def)
  then show ?case
    using Cons text_lines_line [of ?l] key_value_line by simp
qed simp

lemma decimal_plain: "CHR 0x0A \<notin> set (decimal n)" "at_cursor (decimal n) \<noteq> NUL" "decimal n \<noteq> ''<none>''"
proof -
  have plain: "c \<noteq> CHR 0x0A \<and> c \<noteq> CHR ''<'' \<and> c \<noteq> NUL" if "c \<in> set (decimal n)" for c
    using decimal_digits [OF that] by (auto simp: ccode_def NUL_def)
  then show "CHR 0x0A \<notin> set (decimal n)"
    by blast
  show "at_cursor (decimal n) \<noteq> NUL" "decimal n \<noteq> ''<none>''"
    using plain [of "hd (decimal n)"] decimal_not_Nil [of n] by (cases "decimal n"; auto)+
qed

lemma hex_byte_plain: "CHR 0x0A \<notin> set (hex_byte b)"
proof -
  have "ccode (swbt_daemon_switch_address_hex_digit_upper v) \<noteq> 10" if "v < 16" for v
    by (simp add: ccode_digit [OF that])
  moreover have "drop_bit 4 b < 16" "b AND 0x0F < 16"
    by (rule byte_nibbles)+
  ultimately have "ccode c \<noteq> 10" if "c \<in> set (hex_byte b)" for c
    using that by (auto simp: hex_byte_def)
  moreover have "ccode (CHR 0x0A) = 10"
    by (simp add: ccode_def)
  ultimately show ?thesis
    by blast
qed

lemma address_plain: "CHR 0x0A \<notin> set (address_text b)"
  using hex_byte_plain by (induction b rule: address_text.induct) auto

lemma prepared_facts:
  assumes "swbt_daemon_launch_config_prepare n (read_config_file fe files) (Some opts) (Some e) = Some lc"
  shows "\<exists>c. file_layer fe files (lo_config_path opts) = Some c \<and> lc_config lc = env_applied n e c
    \<and> cfg_device_info c = swbt_switch_device_info_swbt_pro"
    and "CHR 0x0A \<notin> set (c_str_of (cfg_explicit_switch_address (lc_config lc)))"
    and "CHR 0x0A \<notin> set (c_str_of (cfg_learned_switch_address (lc_config lc)))"
proof -
  obtain c where c: "file_layer fe files (lo_config_path opts) = Some c" "lc_config lc = env_applied n e c"
    using assms by (auto simp: launch_config_eq env_layer_def bind_eq_Some_conv split: if_splits)
  then consider "c = swbt_daemon_config_default" | r where "c = toml_applied r swbt_daemon_config_default"
    by (auto simp: file_layer_def bind_eq_Some_conv split: option.splits if_splits)
  note c' = this
  have addr: "CHR 0x0A \<notin> set (c_str_of (address_or (replicate m NUL) t))" for m t
    using address_plain by (auto simp: address_or_def c_str_of_def NUL_def dest: set_takeWhileD split: option.split)
  have "CHR 0x0A \<notin> set (c_str_of (cfg_explicit_switch_address c)) \<and> CHR 0x0A \<notin> set (c_str_of (cfg_learned_switch_address c))
      \<and> cfg_device_info c = swbt_switch_device_info_swbt_pro"
    using c' by cases
      (auto simp: toml_applied_def swbt_daemon_config_default_def swbt_switch_device_info_default_def addr c_str_of_def [of "replicate _ _"])
  then show "\<exists>c. file_layer fe files (lo_config_path opts) = Some c \<and> lc_config lc = env_applied n e c
      \<and> cfg_device_info c = swbt_switch_device_info_swbt_pro"
    and "CHR 0x0A \<notin> set (c_str_of (cfg_explicit_switch_address (lc_config lc)))"
    and "CHR 0x0A \<notin> set (c_str_of (cfg_learned_switch_address (lc_config lc)))"
    using c by (auto simp: env_applied_def)
qed

lemma parse_printed:
  assumes "32 \<le> n"
  shows "swbt_daemon_parse_u32 n (Some (decimal (unat (w :: u32)))) = Some w"
    "swbt_daemon_parse_u16 n (Some (decimal (unat (p :: u16)))) = Some p"
    "0 \<le> b \<Longrightarrow> b < 2 ^ 31 \<Longrightarrow> swbt_daemon_parse_int n (Some (decimal (nat b))) = Some b"
proof -
  have w: "unat w < 2 ^ 32" and p: "unat p < 2 ^ 16"
    using unsigned_less [of w, where ?'a = nat] unsigned_less [of p, where ?'a = nat] by simp_all
  show "swbt_daemon_parse_u32 n (Some (decimal (unat w))) = Some w"
    using parse_u32_decimal [OF assms w] by simp
  have "\<not> (of_nat (unat p) :: u32) > 0xFFFF" "ucast (of_nat (unat p) :: u32) = p"
    using p by (simp_all add: word_less_nat_alt unat_of_nat_small word_unat_eq_iff unsigned_ucast_eq take_bit_nat_eq_self take_bit_word_eq_self)
  then show "swbt_daemon_parse_u16 n (Some (decimal (unat p))) = Some p"
    using parse_u32_decimal [OF assms, of "unat p"] p by (simp add: swbt_daemon_parse_u16_def)
  show "swbt_daemon_parse_int n (Some (decimal (nat b))) = Some b" if "0 \<le> b" "b < 2 ^ 31"
  proof -
    have "nat b < 2 ^ 32" "uint (of_nat (nat b) :: u32) = b"
      using that uint_of_number [of b] by simp_all
    moreover have "\<not> (of_nat (nat b) :: u32) > 0x7FFFFFFF"
      using that calculation(2) by (simp add: word_less_def)
    ultimately show ?thesis
      using parse_u32_decimal [OF assms, of "nat b"] by (simp add: swbt_daemon_parse_int_def)
  qed
qed

text \<open>A start with the printed options and values has the configuration that was printed.\<close>

lemma printed_replays:
  assumes "32 \<le> n" "swbt_daemon_launch_config_prepare n (read_config_file fe files) (Some opts) (Some e) = Some lc" "readable_launch opts lc"
  defines "written \<equiv> concat (map line_text (config_lines opts lc))"
  shows "printed_options written = opts"
    and "swbt_daemon_launch_config_prepare n (read_config_file fe files) (Some opts) (Some (printed_env written)) = Some lc"
proof -
  let ?c = "lc_config lc"
  note ok = config_backlog [OF assms(2)]
  then have b: "0 \<le> cfg_ipc_backlog ?c"
    by (simp add: config_ok_def)
  note parse = parse_printed(1,2) [OF assms(1)] parse_printed(3) [OF assms(1) b ok(2)]
  have "CHR 0x0A \<notin> set (swbt_daemon_cli_value_or_none v)" if "readable v" for v
    using that by (auto simp: readable_def swbt_daemon_cli_value_or_none_def split: option.splits)
  moreover have "CHR 0x0A \<notin> set (swbt_daemon_cli_value_or_none (Some v))" if "CHR 0x0A \<notin> set v" for v
    using that by (auto simp: swbt_daemon_cli_value_or_none_def)
  moreover have "CHR 0x0A \<notin> set (swbt_daemon_cli_value_or_none (swbt_daemon_config_effective_reconnect_switch_address (Some ?c)))"
    using prepared_facts(2,3) [OF assms(2)]
    by (auto simp: swbt_daemon_config_effective_reconnect_switch_address_def swbt_daemon_cli_value_or_none_def)
  moreover have "CHR 0x0A \<notin> set (swbt_daemon_cli_backend_string k)" for k
    by (cases k) simp_all
  ultimately have "map key_value (text_lines written) =
      map (\<lambda>kv. (fst kv, swbt_daemon_cli_value_or_none (snd kv))) (config_lines opts lc)"
    using assms(3) prepared_facts(2,3) [OF assms(2)] decimal_plain(1) unfolding written_def
    by (intro lines_read) (auto simp: config_lines_def readable_launch_def)
  note read = this
  have recovered: "(if swbt_daemon_cli_value_or_none v = ''<none>'' then None else Some (swbt_daemon_cli_value_or_none v)) = v" if "readable v" for v
    using that by (auto simp: readable_def swbt_daemon_cli_value_or_none_def split: option.splits)
  have number: "readable (Some (decimal m))" for m
    using decimal_plain by (auto simp: readable_def)
  have kind: "readable (Some (swbt_daemon_cli_backend_string k))"
      "swbt_daemon_launch_options_parse_backend (Some (swbt_daemon_cli_backend_string k)) = Some k" for k
    by (cases k; simp add: readable_def swbt_daemon_launch_options_parse_backend_def NUL_def)+
  show "printed_options written = opts"
    using assms(3) unfolding printed_options_def printed_def read
    by (cases opts) (simp add: config_lines_def readable_launch_def recovered kind)
  have env: "printed_env written = empty_env\<lparr>cenv_report_period_us := Some (decimal (unat (cfg_report_period_us ?c))),
     cenv_ipc_host := Some (cfg_ipc_host ?c), cenv_ipc_port := Some (decimal (unat (cfg_ipc_port ?c))),
     cenv_ipc_backlog := Some (decimal (nat (cfg_ipc_backlog ?c))),
     cenv_ipc_heartbeat_timeout_ms := Some (decimal (unat (cfg_ipc_heartbeat_timeout_ms ?c)))\<rparr>"
    using assms(3) unfolding printed_env_def printed_def read
    by (simp add: config_lines_def readable_launch_def recovered number empty_env_def)
  obtain c where c: "file_layer fe files (lo_config_path opts) = Some c" "?c = env_applied n e c"
      "cfg_device_info c = swbt_switch_device_info_swbt_pro"
    using prepared_facts(1) [OF assms(2)] by blast
  have "env_applied n (printed_env written) c = c\<lparr>cfg_report_period_us := cfg_report_period_us ?c, cfg_ipc_host := cfg_ipc_host ?c,
      cfg_ipc_port := cfg_ipc_port ?c, cfg_ipc_backlog := cfg_ipc_backlog ?c, cfg_ipc_heartbeat_timeout_ms := cfg_ipc_heartbeat_timeout_ms ?c\<rparr>"
    using ok(1) by (simp add: env env_applied_def env_value_def env_host_def parse empty_env_def config_ok_def)
  also have "\<dots> = env_applied n e c"
    using c(3) unfolding c(2) by (simp add: env_applied_def)
  finally have "env_applied n (printed_env written) c = env_applied n e c" .
  moreover have "env_valid n (printed_env written)"
    using ok(1) by (simp add: env env_valid_def parse empty_env_def config_ok_def)
  ultimately have "env_layer n (printed_env written) c = env_layer n e c"
    using ok(1) assms(2) c by (auto simp: env_layer_def launch_config_eq split: if_splits)
  then show "swbt_daemon_launch_config_prepare n (read_config_file fe files) (Some opts) (Some (printed_env written)) = Some lc"
    using assms(2) c(1) by (simp add: launch_config_eq)
qed

lemma write_error_changes: "swbt_daemon_cli_write_error (Some err) (Some message) \<noteq> Some err"
  by (simp add: swbt_daemon_cli_write_error_def fputs_def newline_def)

lemma parse_skips_program:
  "swbt_daemon_launch_options_parse (Some opts) argc (Some (a # args)) = swbt_daemon_launch_options_parse (Some opts) argc (Some (b # args))"
  by (cases "nat argc") (simp_all add: swbt_daemon_launch_options_parse_def)

section \<open>Properties\<close>

text \<open>C26: The command "config" reports what a start of the daemon would use: with the same options, file and environment it
  prints one line each for the backend, the paths, the adapter location, the report period, the IPC settings and the reconnect
  addresses, and it fails with a message and prints nothing when they give no configuration. The text suffices to
  start the same daemon: a reader that looks up the keys in it gets back the launch options, and a start with these options and with the
  printed values of the runtime as environment variables prepares exactly the configuration that was reported, provided no option value and no host is
  empty, spelled like the mark for no value, or has a line break. The device profile and the report options are not printed; they
  come back because every accepted profile names the same device and nothing sets the options.\<close>

theorem cli_config_reports_start:
  assumes "32 \<le> n" "swbt_daemon_launch_options_parse (Some zero_launch_options) (1 + int (length args)) (Some (Some prog # args)) = (r, Some opts)"
    and "swbt_daemon_cli_dispatch_with_ports n fe files (2 + int (length args)) (Some (Some prog # Some ''config'' # args)) (Some out) (Some err)
      (Some ports) = (result, out', err')" "clip_config_env ports = Some e"
  shows "dr_handled result \<and> (case (if r = SWBT_DAEMON_LAUNCH_OPTIONS_OK
        then swbt_daemon_launch_config_prepare n (read_config_file fe files) (Some opts) (Some e) else None) of
      None \<Rightarrow> dr_exit_code result = 1 \<and> out' = Some out \<and> err' \<noteq> Some err
    | Some lc \<Rightarrow> dr_exit_code result = 0 \<and> err' = Some err \<and> (\<exists>written. out' = Some (out @ written)
        \<and> written = concat (map line_text (config_lines opts lc))
        \<and> (readable_launch opts lc \<longrightarrow> printed_options written = opts
          \<and> swbt_daemon_launch_config_prepare n (read_config_file fe files) (Some (printed_options written)) (Some (printed_env written)) = Some lc)))"
proof -
  have parse: "swbt_daemon_launch_options_parse (Some zero_launch_options) (1 + int (length args)) (Some (Some ''config'' # args)) = (r, Some opts)"
    using assms(2) parse_skips_program by metis
  have "result = \<lparr>dr_handled = True, dr_exit_code = fst (swbt_daemon_cli_run_config n fe files (2 + int (length args))
        (Some prog # Some ''config'' # args) (Some out) (Some err) (Some ports))\<rparr>"
      "(out', err') = snd (swbt_daemon_cli_run_config n fe files (2 + int (length args)) (Some prog # Some ''config'' # args)
        (Some out) (Some err) (Some ports))"
    using assms(3) by (auto simp: swbt_daemon_cli_dispatch_with_ports_def swbt_daemon_cli_is_help_command_def swbt_daemon_cli_is_command_def
        Let_def case_prod_beta)
  note ran = this
  let ?prepared = "swbt_daemon_launch_config_prepare n (read_config_file fe files) (Some opts) (Some e)"
  show ?thesis
  proof (cases "r = SWBT_DAEMON_LAUNCH_OPTIONS_OK \<and> ?prepared \<noteq> None")
    case True
    then obtain lc where lc: "r = SWBT_DAEMON_LAUNCH_OPTIONS_OK" "?prepared = Some lc"
      by blast
    show ?thesis
      using ran write_config_lines [OF lc(2)] printed_replays [OF assms(1) lc(2)]
      by (simp add: swbt_daemon_cli_run_config_def assms(4) parse lc)
  next
    case False
    then show ?thesis
      using ran
      by (cases "r = SWBT_DAEMON_LAUNCH_OPTIONS_OK")
        (auto simp: swbt_daemon_cli_run_config_def assms(4) parse write_error_changes write_error_changes [symmetric])
  qed
qed

text \<open>The parts of the program that do not touch the production backend.\<close>

lemma list_adapters_code: "fst (swbt_daemon_cli_run_adapters argc out err ports) \<in> {0, 1}"
  by (simp add: swbt_daemon_cli_run_adapters_def case_prod_beta Let_def)

lemma run_config_code: "fst (swbt_daemon_cli_run_config n fe files argc argv out err ports) \<in> {0, 1}"
  by (simp add: swbt_daemon_cli_run_config_def case_prod_beta Let_def split: option.split)

lemma dispatch_code: "dr_exit_code (fst (swbt_daemon_cli_dispatch_with_ports n fe files argc argv out err ports)) \<in> {0, 1}"
  using list_adapters_code [of argc out err ports] run_config_code [of n fe files argc "the argv" out err ports]
  by (simp add: swbt_daemon_cli_dispatch_with_ports_def Let_def case_prod_beta)

lemma noop_code: "fst (swbt_daemon_main_with_process_backend env mem config bk ctx domain_mem) \<in> {0, 1}"
  by (simp add: swbt_daemon_main_with_process_backend_def case_prod_beta Let_def)

lemma entrypoint_clean:
  assumes "swbt_daemon_launch_config_prepare n (read_config_file fe files) (Some opts) (Some e) = Some lc"
    and "new_memory (mw_process mw) (mw_runner mw)" "mw_ipc_domain mw = Some m" "\<forall>e\<in>set (mw_events mw). loop_ok e"
  shows "fst (swbt_daemon_production_entrypoint_run mw lc) \<in> {0, 1}
    \<and> (\<forall>b. snd (swbt_daemon_production_entrypoint_run mw lc) = Some b \<longrightarrow> clean b)"
proof -
  have lc: "config_ok (lc_config lc)" "lc_learned_switch_address_target_configured lc \<longrightarrow>
      (\<exists>path. lc_learned_switch_address_target lc = Some path \<and> at_cursor path \<noteq> NUL)"
    using assms(1) config_backlog(1) [OF assms(1)] by (auto simp: launch_config_eq file_layer_def bind_eq_Some_conv split: if_splits option.splits)
  let ?c = "\<lparr>run_config = Some (lc_config lc), run_ports = Some swbt_btstack_production_ports_btstack,
      run_adapter_location_configured = lc_adapter_location_configured lc,
      run_learned_configured = lc_learned_switch_address_target_configured lc, run_learned_target = lc_learned_switch_address_target lc,
      run_shutdown_listener = swbt_daemon_platform_shutdown_listener (mw_windows mw)\<rparr>"
  have v: "valid_run_config ?c (lc_config lc)"
    using lc ports_btstack_valid by (auto simp: valid_run_config_def config_ok_def swbt_btstack_production_ports_is_valid_def)
  have mem: "new_memory (mw_process mw) ((mw_runner mw)\<lparr>bk_ipc := x\<rparr>)" for x
    using assms(2) by (simp add: new_memory_def blank_runner_def)
  have "clean b" if "swbt_daemon_production_run (mw_sockets mw) (mw_before mw) (mw_events mw) (mw_after mw) (mw_process mw) (mw_domain mw)
      (Some m) ((mw_runner mw)\<lparr>bk_ipc := x\<rparr>) (Some ?c) = (r, Some b)" for x r b
    using production_run_clean [OF v mem assms(4)] that by (metis option.inject prod.inject)
  then show ?thesis
    by (auto simp: swbt_daemon_production_entrypoint_run_def assms(3) Let_def case_prod_beta prod_eq_iff)
qed

text \<open>C6: However the program is started, with whatever arguments, environment and configuration file, and whatever hardware, sockets,
  console and events of the run loop do: it returns zero or one, and if it ran the production backend, in memory not used before and with memory for
  the domain of the IPC service, then at its end the HID device is closed and the device port was told to stop the platform, in the right
  order, the report timer is stopped with no timer of it left in the run loop, no reconnect timer is left, the output handler
  is unregistered, the IPC service neither listens nor holds a connection, the controller is off, and the exit was asked for at
  most once, after power off. When the exit was asked for, which is what ends the run loop, no disconnect timer is left either.
  What the platform itself does when it is told to stop is the subject of the theory of the platform.\<close>

theorem program_leaves_clean:
  assumes "new_memory (mw_process mw) (mw_runner mw)" "mw_ipc_domain mw = Some m" "\<forall>e\<in>set (mw_events mw). loop_ok e"
  shows "\<exists>code out err r. main mw argc argv = (code, out, err, r) \<and> code \<in> {0, 1} \<and> (\<forall>b. r = Some b \<longrightarrow> clean b)"
proof -
  let ?env = "swbt_daemon_config_env_from_process_env (mw_getenv mw)"
  let ?d = "swbt_daemon_cli_dispatch_with_ports (mw_long_bits mw) (mw_file_env mw) (mw_files mw) argc (Some argv) (Some []) (Some [])
      (Some \<lparr>clip_list_adapters = Some (swbt_daemon_production_entrypoint_list_adapter_locations mw), clip_config_env = Some ?env\<rparr>)"
  let ?p = "swbt_daemon_launch_options_parse (Some zero_launch_options) argc (Some argv)"
  let ?l = "\<lambda>opts. swbt_daemon_launch_config_prepare (mw_long_bits mw) (read_config_file (mw_file_env mw) (mw_files mw)) opts (Some ?env)"
  have m: "main mw argc argv =
      (if dr_handled (fst ?d) then (dr_exit_code (fst ?d), fst (snd ?d), snd (snd ?d), None)
       else if fst ?p \<noteq> SWBT_DAEMON_LAUNCH_OPTIONS_OK then (1, fst (snd ?d), snd (snd ?d), None)
       else case ?l (snd ?p) of None \<Rightarrow> (1, fst (snd ?d), snd (snd ?d), None)
         | Some lc \<Rightarrow> (case lo_backend (the (snd ?p)) of
             SWBT_DAEMON_LAUNCH_BACKEND_PRODUCTION \<Rightarrow> (fst (swbt_daemon_production_entrypoint_run mw lc), fst (snd ?d), snd (snd ?d),
               snd (swbt_daemon_production_entrypoint_run mw lc))
           | SWBT_DAEMON_LAUNCH_BACKEND_NOOP \<Rightarrow> (fst (swbt_daemon_main_with_process_backend (noop_host_env (mw_response mw)) (mw_noop_process mw)
               (Some (lc_config lc)) (Some swbt_daemon_process_noop_backend) () (mw_domain mw)), fst (snd ?d), snd (snd ?d), None)))"
    unfolding main_def Let_def case_prod_beta by simp
  have "fst (swbt_daemon_production_entrypoint_run mw lc) \<in> {0, 1}
      \<and> (\<forall>b. snd (swbt_daemon_production_entrypoint_run mw lc) = Some b \<longrightarrow> clean b)" if "?l opts = Some lc" for opts lc
    using entrypoint_clean [OF _ assms] that by (cases opts) (auto simp: swbt_daemon_launch_config_prepare_def)
  note run = this
  show ?thesis
  proof (cases "dr_handled (fst ?d)")
    case True
    then show ?thesis
      using dispatch_code unfolding m by simp
  next
    case handled: False
    show ?thesis
    proof (cases "fst ?p = SWBT_DAEMON_LAUNCH_OPTIONS_OK")
      case True
      show ?thesis
      proof (cases "?l (snd ?p)")
        case None
        then show ?thesis
          using handled True unfolding m by simp
      next
        case (Some lc)
        then show ?thesis
          using handled True noop_code run [OF Some] unfolding m by (cases "lo_backend (the (snd ?p))") simp_all
      qed
    qed (use handled m in simp)
  qed
qed

definition demo_world :: main_world where
  "demo_world = \<lparr>mw_long_bits = 64, mw_windows = True,
     mw_file_env = \<lparr>fe_parse = (\<lambda>_. Some fmempty), fe_format = (\<lambda>_. Some []), fe_readable = (\<lambda>_. True), fe_read_close = (\<lambda>_. True),
       fe_writable = (\<lambda>_. True), fe_written = (\<lambda>_ s. length s), fe_write_close = (\<lambda>_. True)\<rparr>,
     mw_files = Map.empty, mw_getenv = (\<lambda>_. None), mw_libusb = (0, Inr []), mw_platform = zero_platform, mw_sockets = demo_ipc_env,
     mw_before = demo_production_env, mw_events = demo_events_run, mw_after = demo_production_env, mw_process = demo_process_memory,
     mw_domain = Some zero_domain, mw_ipc_domain = Some zero_domain, mw_runner = demo_runner_memory,
     mw_noop_process = blank_process swbt_daemon_process_noop_backend (), mw_response = he_response_memory demo_host_env\<rparr>"

theorem cli_config_reports_start_witness:
  "\<exists>result written lc. swbt_daemon_cli_dispatch_with_ports 64 (mw_file_env demo_world) (mw_files demo_world) 3
      (Some [Some ''swbt-daemon'', Some ''config'', Some ''--backend=noop'']) (Some []) (Some [])
      (Some \<lparr>clip_list_adapters = None, clip_config_env = Some empty_env\<rparr>) = (result, Some written, Some []) \<and> dr_exit_code result = 0
    \<and> printed_options written = zero_launch_options\<lparr>lo_backend := SWBT_DAEMON_LAUNCH_BACKEND_NOOP\<rparr>
    \<and> swbt_daemon_launch_config_prepare 64 (read_config_file (mw_file_env demo_world) (mw_files demo_world))
        (Some (printed_options written)) (Some (printed_env written)) = Some lc \<and> lc_config lc = swbt_daemon_config_default"
proof -
  let ?opts = "zero_launch_options\<lparr>lo_backend := SWBT_DAEMON_LAUNCH_BACKEND_NOOP\<rparr>"
  obtain result out' err' where d: "swbt_daemon_cli_dispatch_with_ports 64 (mw_file_env demo_world) (mw_files demo_world) (2 + int (length [Some ''--backend=noop'']))
      (Some (Some ''swbt-daemon'' # Some ''config'' # [Some ''--backend=noop''])) (Some []) (Some [])
      (Some \<lparr>clip_list_adapters = None, clip_config_env = Some empty_env\<rparr>) = (result, out', err')"
    by (metis prod_cases3)
  have p: "swbt_daemon_launch_options_parse (Some zero_launch_options) (1 + int (length [Some ''--backend=noop'']))
      (Some (Some ''swbt-daemon'' # [Some ''--backend=noop''])) = (SWBT_DAEMON_LAUNCH_OPTIONS_OK, Some ?opts)"
    using parse_spelled [of "[(''--backend'', ''noop'', True)]"]
    by (simp add: swbt_daemon_launch_options_parse_def spell_def option_handlers_def swbt_daemon_launch_options_parse_backend_def)
  have "env_layer 64 empty_env swbt_daemon_config_default = Some swbt_daemon_config_default"
    using config_default_ok by (simp add: env_layer_def env_valid_def env_applied_def empty_env_def env_value_def env_host_def)
  then obtain lc where lc: "swbt_daemon_launch_config_prepare 64 (read_config_file (mw_file_env demo_world) (mw_files demo_world))
      (Some ?opts) (Some empty_env) = Some lc" "lc_config lc = swbt_daemon_config_default"
    by (auto simp: launch_config_eq zero_launch_options_def file_layer_def)
  have "readable_launch ?opts lc"
    by (simp add: readable_launch_def readable_def zero_launch_options_def lc(2) swbt_daemon_config_default_def NUL_def)
  then show ?thesis
    using cli_config_reports_start [OF _ p d] d lc by auto
qed

text \<open>A location that the program accepts, and the run it leads to.\<close>

abbreviation demo_location :: string where
  "demo_location \<equiv> ''libusb:3:1.4''"

lemma demo_location_ok:
  "swbt_daemon_launch_options_adapter_location_is_valid demo_location"
  "fst (swbt_btstack_production_impl_configure_adapter_location (Some demo_location)) = 0"
  by code_simp+

lemma demo_main_runs:
  "\<exists>code out err b. main demo_world 2 [Some ''swbt-daemon'', Some (''--adapter-location='' @ demo_location)] = (code, out, err, Some b)"
proof -
  let ?argv = "[Some ''swbt-daemon'', Some (''--adapter-location='' @ demo_location)]"
  let ?opts = "zero_launch_options\<lparr>lo_adapter_location := Some demo_location\<rparr>"
  let ?env = "swbt_daemon_config_env_from_process_env (mw_getenv demo_world)"
  have env: "?env = empty_env"
    by (simp add: swbt_daemon_config_env_from_process_env_def demo_world_def empty_env_def)
  have p: "swbt_daemon_launch_options_parse (Some zero_launch_options) 2 (Some ?argv) = (SWBT_DAEMON_LAUNCH_OPTIONS_OK, Some ?opts)"
    using parse_spelled [of "[(''--adapter-location'', demo_location, True)]"] demo_location_ok(1)
    by (simp add: swbt_daemon_launch_options_parse_def spell_def option_handlers_def)
  have "env_layer 64 empty_env swbt_daemon_config_default = Some swbt_daemon_config_default"
    using config_default_ok by (simp add: env_layer_def env_valid_def env_applied_def empty_env_def env_value_def env_host_def)
  then obtain lc where lc: "swbt_daemon_launch_config_prepare (mw_long_bits demo_world)
        (read_config_file (mw_file_env demo_world) (mw_files demo_world)) (Some ?opts) (Some ?env) = Some lc"
      "lc_config lc = swbt_daemon_config_default" "\<not> lc_link_key_db_configured lc" "lc_hci_dump_path lc = None"
      "lc_adapter_location lc = Some demo_location" "\<not> lc_learned_switch_address_target_configured lc"
    unfolding env by (auto simp: launch_config_eq zero_launch_options_def file_layer_def demo_world_def)
  let ?c = "\<lparr>run_config = Some (lc_config lc), run_ports = Some swbt_btstack_production_ports_btstack,
      run_adapter_location_configured = lc_adapter_location_configured lc,
      run_learned_configured = lc_learned_switch_address_target_configured lc, run_learned_target = lc_learned_switch_address_target lc,
      run_shutdown_listener = swbt_daemon_platform_shutdown_listener (mw_windows demo_world)\<rparr>"
  have v: "valid_run_config ?c swbt_daemon_config_default"
    using lc config_default_ok ports_btstack_valid
    by (auto simp: valid_run_config_def config_ok_def swbt_btstack_production_ports_is_valid_def)
  have m: "new_memory (mw_process demo_world) ((mw_runner demo_world)\<lparr>bk_ipc := x\<rparr>)" "mw_ipc_domain demo_world = Some zero_domain" for x
    using demo_run_ok(3) by (simp_all add: demo_world_def new_memory_def blank_runner_def)
  have "\<exists>r b. swbt_daemon_production_run (mw_sockets demo_world) (mw_before demo_world) (mw_events demo_world) (mw_after demo_world)
      (mw_process demo_world) (mw_domain demo_world) (Some zero_domain) ((mw_runner demo_world)\<lparr>bk_ipc := x\<rparr>) (Some ?c) = (r, Some b)" for x
    using production_run_clean [OF v m(1)] demo_events_ok by (simp add: demo_world_def) blast
  then have "\<exists>code b. swbt_daemon_production_entrypoint_run demo_world lc = (code, Some b)"
    using demo_location_ok(2)
    by (simp add: swbt_daemon_production_entrypoint_run_def swbt_btstack_production_link_key_db_configure_def
        swbt_btstack_production_hci_dump_configure_def lc(3-5) m(2) case_prod_beta Let_def) (metis prod.collapse snd_conv)
  moreover have "lo_backend zero_launch_options = SWBT_DAEMON_LAUNCH_BACKEND_PRODUCTION"
    by (simp add: zero_launch_options_def)
  ultimately show ?thesis
    using p lc(1) by (auto simp: main_def Let_def swbt_daemon_cli_dispatch_with_ports_def
        swbt_daemon_cli_is_help_command_def swbt_daemon_cli_is_command_def)
qed

theorem program_leaves_clean_witness:
  "\<exists>code out err b. main demo_world 2 [Some ''swbt-daemon'', Some (''--adapter-location='' @ demo_location)] = (code, out, err, Some b)
    \<and> code \<in> {0, 1} \<and> clean b"
proof -
  have "\<exists>code out err r. main demo_world 2 [Some ''swbt-daemon'', Some (''--adapter-location='' @ demo_location)] = (code, out, err, r)
      \<and> code \<in> {0, 1} \<and> (\<forall>b. r = Some b \<longrightarrow> clean b)"
    by (rule program_leaves_clean) (use demo_run_ok(3) demo_events_ok in \<open>simp_all add: demo_world_def\<close>)
  then show ?thesis
    using demo_main_runs by auto
qed

end
