(* ===== verification/JsonSearch.thy ===== *)
theory JsonSearch
  imports COutput JsonScan "HOL-Library.Sublist"
begin

text \<open>
  The C function \<open>strstr\<close>, and what it finds in a printed JSON object: a client that searches a response for the text of a
  member finds it exactly when the object has this member, although it does not parse the response.
\<close>

section \<open>Searching a string\<close>

text \<open>The rest of a string from the first place where a text occurs.\<close>

fun strstr :: "string \<Rightarrow> string \<Rightarrow> string option" where
  "strstr [] needle = (if needle = [] then Some [] else None)"
| "strstr (c # cs) needle = (if take (length needle) (c # cs) = needle then Some (c # cs) else strstr cs needle)"

lemma strstr_found: "strstr s needle = Some t \<Longrightarrow> \<exists>before. s = before @ t \<and> take (length needle) t = needle"
  by (induction s) (fastforce split: if_splits simp del: take_Suc_Cons intro: exI [of _ "_ # _"])+

lemma strstr_sublist: "strstr s needle \<noteq> None \<longleftrightarrow> sublist needle s"
proof (induction s)
  case (Cons c cs)
  have "take (length needle) (c # cs) = needle \<longleftrightarrow> prefix needle (c # cs)"
    by (metis append_eq_conv_conj prefix_def)
  then show ?case
    using Cons by (simp add: sublist_Cons_right del: take_Suc_Cons)
qed simp

section \<open>A text between its quotes\<close>

text \<open>A text cut at its quotes: in a JSON text every second piece is a string, the others are what stands between the strings.\<close>

fun pieces :: "string \<Rightarrow> string list" where
  "pieces [] = [[]]"
| "pieces (c # cs) = (if c = CHR 0x22 then [] # pieces cs else (c # hd (pieces cs)) # tl (pieces cs))"

lemma pieces_not_Nil [simp]: "pieces t \<noteq> []"
  by (cases t) simp_all

lemma pieces_quote: "pieces (x @ CHR 0x22 # y) = pieces x @ pieces y"
  by (induction x) simp_all

lemma pieces_append: "CHR 0x22 \<notin> set x \<Longrightarrow> pieces (x @ y) = (x @ hd (pieces y)) # tl (pieces y)"
  by (induction x) auto

lemma pieces_plain: "CHR 0x22 \<notin> set x \<Longrightarrow> pieces x = [x]"
  using pieces_append [of x "[]"] by simp

text \<open>The pieces between the strings, and the strings that are separated by a colon only.\<close>

fun gaps :: "string list \<Rightarrow> string list" where
  "gaps (g # s # ps) = g # gaps ps"
| "gaps [g] = [g]"
| "gaps [] = []"

fun colon_pairs :: "string list \<Rightarrow> (string \<times> string) list" where
  "colon_pairs (g # s # g' # ps) = (if g' = '':'' \<and> ps \<noteq> [] then [(s, hd ps)] else []) @ colon_pairs (g' # ps)"
| "colon_pairs ps = []"

lemma gap_at: "even (length xs) \<Longrightarrow> k \<in> set (gaps (xs @ k # ys))"
proof (induction xs rule: gaps.induct)
  case 3
  then show ?case by (cases ys) simp_all
qed simp_all

lemma colon_pair_at: "odd (length xs) \<Longrightarrow> (k, s) \<in> set (colon_pairs (xs @ k # '':'' # s # ys))"
proof (induction xs rule: gaps.induct)
  case (1 g s' ps)
  then have "ps \<noteq> []"
    by auto
  then obtain g' qs where "ps = g' # qs"
    by (cases ps) auto
  then show ?case
    using 1 by simp
next
  case (2 g)
  then show ?case
    by simp
qed simp

lemma member_pieces:
  assumes "CHR 0x22 \<notin> set k" "CHR 0x22 \<notin> set s"
  shows "pieces (x @ quoted k @ CHR '':'' # quoted s @ y) = pieces x @ k # '':'' # s # pieces y"
  using assms by (simp add: quoted_def pieces_quote pieces_plain)

section \<open>Members of a printed object\<close>

text \<open>All text members of a value, at any depth.\<close>

fun texts :: "json \<Rightarrow> (string \<times> string) list"
  and texts_items :: "json list \<Rightarrow> (string \<times> string) list"
  and texts_members :: "(string \<times> json) list \<Rightarrow> (string \<times> string) list" where
  "texts (JArray vs) = texts_items vs"
| "texts (JObject ms) = texts_members ms"
| "texts v = []"
| "texts_items [] = []"
| "texts_items (v # vs) = texts v @ texts_items vs"
| "texts_members [] = []"
| "texts_members ((k, v) # ms) = (case v of JString s \<Rightarrow> [(k, s)] | _ \<Rightarrow> []) @ texts v @ texts_members ms"

text \<open>A gap never has a \<open>y\<close> in it, and the strings around a colon are members.\<close>

definition gap_text :: "string \<Rightarrow> bool" where
  "gap_text g \<longleftrightarrow> CHR 0x22 \<notin> set g \<and> CHR ''y'' \<notin> set g"

definition scanned :: "string \<Rightarrow> (string \<times> string) set \<Rightarrow> bool" where
  "scanned t K \<longleftrightarrow> set (colon_pairs (pieces t)) \<subseteq> K \<and> (\<forall>g \<in> set (gaps (pieces t)). CHR ''y'' \<notin> set g)"

lemma scanned_mono: "scanned t K \<Longrightarrow> K \<subseteq> K' \<Longrightarrow> scanned t K'"
  by (auto simp: scanned_def)

text \<open>Printing a value in front of a text: what follows is not a colon, and what was open before is one gap.\<close>

definition prints :: "string \<Rightarrow> (string \<times> string) list \<Rightarrow> bool" where
  "prints t ts \<longleftrightarrow> (\<forall>g u K. gap_text g \<longrightarrow> at_cursor u \<noteq> CHR '':'' \<longrightarrow> (\<forall>g'. gap_text g' \<longrightarrow> scanned (g' @ u) K)
     \<longrightarrow> scanned (g @ t @ u) (set ts \<union> K))"

lemma pieces_quoted: "CHR 0x22 \<notin> set s \<Longrightarrow> CHR 0x22 \<notin> set g \<Longrightarrow> pieces (g @ quoted s @ u) = g # s # pieces u"
  by (simp add: quoted_def pieces_quote pieces_plain)

lemma hd_pieces_colon: "at_cursor u \<noteq> CHR '':'' \<Longrightarrow> hd (pieces u) \<noteq> '':''"
  by (cases u) auto

lemma colon_pairs_skip: "g' \<noteq> '':'' \<Longrightarrow> colon_pairs (g # s # g' # ps) = colon_pairs (g' # ps)"
  by simp

lemma pieces_cases: "pieces u = hd (pieces u) # tl (pieces u)"
  by simp

lemma prints_gap: "gap_text t \<Longrightarrow> prints t []"
  by (auto simp: prints_def gap_text_def simp flip: append_assoc)

lemma prints_append:
  assumes "prints t1 ts1" "prints t2 ts2" "t2 = [] \<or> at_cursor t2 \<noteq> CHR '':''"
  shows "prints (t1 @ t2) (ts1 @ ts2)"
  unfolding prints_def
proof (intro allI impI)
  fix g u K
  assume g: "gap_text g" and u: "at_cursor u \<noteq> CHR '':''" and k: "\<forall>g'. gap_text g' \<longrightarrow> scanned (g' @ u) K"
  have "\<forall>g'. gap_text g' \<longrightarrow> scanned (g' @ t2 @ u) (set ts2 \<union> K)"
    using assms(2) u k by (auto simp: prints_def)
  moreover have "at_cursor (t2 @ u) \<noteq> CHR '':''"
    using assms(3) u by (cases t2) auto
  ultimately have "scanned (g @ t1 @ t2 @ u) (set ts1 \<union> (set ts2 \<union> K))"
    using assms(1) g by (auto simp: prints_def)
  then show "scanned (g @ (t1 @ t2) @ u) (set (ts1 @ ts2) \<union> K)"
    by (simp add: Un_assoc)
qed

lemma prints_string:
  assumes "plain s"
  shows "prints (quoted s) []"
  unfolding prints_def
proof (intro allI impI)
  fix g u K
  assume g: "gap_text g" and u: "at_cursor u \<noteq> CHR '':''" and k: "\<forall>g'. gap_text g' \<longrightarrow> scanned (g' @ u) K"
  have "scanned u K"
    using k [rule_format, of "[]"] by (simp add: gap_text_def)
  moreover have p: "pieces (g @ quoted s @ u) = g # s # pieces u"
    using assms g by (intro pieces_quoted) (auto simp: plain_def key_char_def gap_text_def)
  moreover have "colon_pairs (g # s # pieces u) = colon_pairs (pieces u)"
    using colon_pairs_skip [OF hd_pieces_colon [OF u]] by (metis pieces_cases)
  ultimately show "scanned (g @ quoted s @ u) (set [] \<union> K)"
    using g by (simp add: scanned_def gap_text_def)
qed

lemma prints_text_member:
  assumes "plain k" "plain s"
  shows "prints (quoted k @ CHR '':'' # quoted s) [(k, s)]"
  unfolding prints_def
proof (intro allI impI)
  fix g u K
  assume g: "gap_text g" and u: "at_cursor u \<noteq> CHR '':''" and c: "\<forall>g'. gap_text g' \<longrightarrow> scanned (g' @ u) K"
  have "scanned u K"
    using c [rule_format, of "[]"] by (simp add: gap_text_def)
  moreover have p: "pieces (g @ (quoted k @ CHR '':'' # quoted s) @ u) = g # k # '':'' # s # pieces u"
    using member_pieces [of k s g u] assms g by (auto simp: plain_def key_char_def gap_text_def pieces_plain)
  moreover have "colon_pairs ('':'' # s # pieces u) = colon_pairs (pieces u)"
    using colon_pairs_skip [OF hd_pieces_colon [OF u]] by (metis pieces_cases)
  ultimately show "scanned (g @ (quoted k @ CHR '':'' # quoted s) @ u) (set [(k, s)] \<union> K)"
    using g by (auto simp: scanned_def gap_text_def)
qed

lemma prints_other_member:
  assumes "plain k" "prints t ts" "t \<noteq> []" "hd t \<noteq> CHR 0x22"
  shows "prints (quoted k @ CHR '':'' # t) ts"
  unfolding prints_def
proof (intro allI impI)
  fix g u K
  assume g: "gap_text g" and u: "at_cursor u \<noteq> CHR '':''" and c: "\<forall>g'. gap_text g' \<longrightarrow> scanned (g' @ u) K"
  have "gap_text '':''"
    by (simp add: gap_text_def)
  then have "scanned ('':'' @ t @ u) (set ts \<union> K)"
    using assms(2) [unfolded prints_def, rule_format, of "'':''" u K] u c by blast
  moreover have p: "pieces (g @ (quoted k @ CHR '':'' # t) @ u) = g # k # pieces ('':'' @ t @ u)"
    using pieces_quoted [of k g "'':'' @ t @ u"] assms(1) g by (auto simp: plain_def key_char_def gap_text_def)
  moreover have "hd (pieces ('':'' @ t @ u)) \<noteq> '':''"
    using assms(3,4) by (cases t) auto
  then have "colon_pairs (g # k # pieces ('':'' @ t @ u)) = colon_pairs (pieces ('':'' @ t @ u))"
    using colon_pairs_skip by (metis pieces_cases)
  ultimately show "scanned (g @ (quoted k @ CHR '':'' # t) @ u) (set ts \<union> K)"
    using g by (auto simp: scanned_def gap_text_def)
qed

lemma int_text_gap: "gap_text (int_text i)"
proof -
  have "CHR 0x22 \<notin> set (decimal n)" "CHR ''y'' \<notin> set (decimal n)" for n
    using decimal_digits [of "CHR 0x22" n] decimal_digits [of "CHR ''y''" n] by (auto simp: ccode_def)
  then show ?thesis
    by (simp add: gap_text_def int_text_def)
qed

lemma int_text_head: "int_text i \<noteq> []" "hd (int_text i) \<noteq> CHR '':''" "hd (int_text i) \<noteq> CHR 0x22"
proof -
  have d: "hd (decimal n) \<noteq> CHR '':''" "hd (decimal n) \<noteq> CHR 0x22" for n
    using decimal_digits [OF hd_in_set [OF decimal_not_Nil, of n]] by (auto simp: ccode_def)
  show "int_text i \<noteq> []" "hd (int_text i) \<noteq> CHR '':''" "hd (int_text i) \<noteq> CHR 0x22"
    using d decimal_not_Nil by (simp_all add: int_text_def)
qed

lemma at_cursor_hd: "t \<noteq> [] \<Longrightarrow> at_cursor t = hd t"
  by (cases t) (simp_all add: at_cursor_def)

lemma render_head:
  "render v \<noteq> []" "hd (render v) \<noteq> CHR '':''" "hd (render v) = CHR 0x22 \<longleftrightarrow> (\<exists>s. v = JString s)"
  by (cases v; simp add: quoted_def int_text_head)+

lemma render_tail_head:
  "at_cursor (render_items vs) \<noteq> CHR '':''" "at_cursor (render_members ms) \<noteq> CHR '':''"
proof -
  show "at_cursor (render_items vs) \<noteq> CHR '':''"
    by (cases vs) (simp_all add: at_cursor_hd render_head, simp add: at_cursor_def NUL_def)
  show "at_cursor (render_members ms) \<noteq> CHR '':''"
    by (cases ms rule: render_members.cases) (simp_all add: at_cursor_def quoted_def NUL_def)
qed

lemma prints_bracket:
  assumes "gap_text [a]" "gap_text [b]" "prints t ts" "at_cursor t \<noteq> CHR '':''" "b \<noteq> CHR '':''"
  shows "prints (a # t @ [b]) ts"
  using prints_append [OF prints_gap [OF assms(1)] prints_append [OF assms(3) prints_gap [OF assms(2)]]] assms(4,5)
  by (cases t) (auto simp: at_cursor_def)

lemma prints_more:
  assumes "prints t ts" "prints u us" "at_cursor u \<noteq> CHR '':''"
  shows "prints (t @ CHR '','' # u) (ts @ us)"
proof -
  have "prints ('','' @ u) us"
    using prints_append [OF prints_gap assms(2), of "'',''"] assms(3) by (simp add: gap_text_def)
  then show ?thesis
    using prints_append [OF assms(1)] by (simp add: at_cursor_def)
qed

lemma prints_member:
  assumes "plain k" "json_plain v" "prints (render v) (texts v)"
  shows "prints (quoted k @ CHR '':'' # render v) ((case v of JString s \<Rightarrow> [(k, s)] | _ \<Rightarrow> []) @ texts v)"
proof (cases "\<exists>s. v = JString s")
  case True
  then show ?thesis
    using assms prints_text_member by auto
next
  case False
  then show ?thesis
    using prints_other_member [OF assms(1,3)] render_head [of v] by (cases v) auto
qed

lemma render_prints:
  "json_plain v \<Longrightarrow> prints (render v) (texts v)"
  "items_plain vs \<Longrightarrow> prints (render_items vs) (texts_items vs)"
  "members_plain ms \<Longrightarrow> prints (render_members ms) (texts_members ms)"
proof (induction v and vs and ms rule: render_render_items_render_members.induct)
  case (8 v vs)
  then show ?case
    using prints_more [OF _ _ render_tail_head(1)] by (cases "vs = []") auto
next
  case (10 k v ms)
  then show ?case
    using prints_more [OF prints_member _ render_tail_head(2)] prints_member by (cases "ms = []") auto
qed (auto simp: prints_string prints_bracket render_tail_head prints_gap [OF int_text_gap] prints_gap gap_text_def)

text \<open>A search for a text member whose key has a \<open>y\<close> finds only members of the printed value.\<close>

theorem search_finds_member:
  assumes "json_plain v" "CHR ''y'' \<in> set k" "CHR 0x22 \<notin> set k" "CHR 0x22 \<notin> set s"
    and "strstr (render v @ newline) (quoted k @ CHR '':'' # quoted s) \<noteq> None"
  shows "(k, s) \<in> set (texts v)"
proof -
  obtain x y where t: "render v @ newline = x @ (quoted k @ CHR '':'' # quoted s) @ y"
    using assms(5) unfolding strstr_sublist sublist_def by blast
  have "scanned (g @ newline) {}" if "gap_text g" for g
    using that by (auto simp: scanned_def gap_text_def pieces_plain newline_def)
  then have "scanned (render v @ newline) (set (texts v))"
    using render_prints(1) [OF assms(1), unfolded prints_def, rule_format, of "[]" newline "{}"]
    by (simp add: gap_text_def newline_def at_cursor_def)
  moreover have "pieces (render v @ newline) = pieces x @ k # '':'' # s # pieces y"
    using member_pieces [of k s x y] assms(3,4) t by simp
  ultimately show ?thesis
    using gap_at [of "pieces x" k "'':'' # s # pieces y"] colon_pair_at [of "pieces x" k s "pieces y"] assms(2)
    by (cases "even (length (pieces x))") (auto simp: scanned_def)
qed

end
