(* ===== verification/DebugClient.thy ===== *)
theory DebugClient
  imports JsonSearch IpcServer
begin

text \<open>
  The debug client, \<open>src/apps/swbt-debug-client/debug_client.c\<close>: it reads a controller state from its command line, takes the
  lease of a running daemon over the IPC protocol, submits the state, prints the status and gives the lease
  back. The two functions of its transport work on a context of any type, so that it can be run against sockets and
  against the model of the daemon. The pause before the release has no effect and is left out.
\<close>

section \<open>Types\<close>

record swbt_debug_client_config_t =
  dc_port :: u16
  dc_state :: swbt_state_t
  dc_sequence :: u64
  dc_hold_ms :: u32
  dc_skip_release :: bool

text \<open>The functions of the transport: \<open>send\<close> gets the data, \<open>receive\<close> the size of the buffer and
  returns the string in it.\<close>

record 'p swbt_debug_client_io_t =
  io_send :: "('p \<Rightarrow> string \<Rightarrow> int \<times> 'p) option"
  io_receive :: "('p \<Rightarrow> nat \<Rightarrow> int \<times> string \<times> 'p) option"

record swbt_debug_client_set_state_options_t =
  so_owner_id :: "string option"
  so_state :: "swbt_state_t option"
  so_sequence :: u64

text \<open>The names and masks of the buttons, \<open>1u << n\<close> each.\<close>

definition SWBT_DEBUG_CLIENT_BUTTONS :: "(string \<times> u32) list" where
  "SWBT_DEBUG_CLIENT_BUTTONS =
    [(''y'', push_bit 0 1), (''x'', push_bit 1 1), (''b'', push_bit 2 1), (''a'', push_bit 3 1), (''sr-r'', push_bit 4 1),
     (''sl-r'', push_bit 5 1), (''r'', push_bit 6 1), (''zr'', push_bit 7 1), (''minus'', push_bit 8 1), (''plus'', push_bit
     9 1), (''r-stick'', push_bit 10 1), (''l-stick'', push_bit 11 1), (''home'', push_bit 12 1), (''capture'', push_bit 13
     1), (''down'', push_bit 16 1), (''up'', push_bit 17 1), (''right'', push_bit 18 1), (''left'', push_bit 19 1),
     (''sr-l'', push_bit 20 1), (''sl-l'', push_bit 21 1), (''l'', push_bit 22 1), (''zl'', push_bit 23 1)]"

definition SWBT_DEBUG_CLIENT_DEFINED_BUTTON_MASK :: u32 where
  "SWBT_DEBUG_CLIENT_DEFINED_BUTTON_MASK = foldr (\<lambda>button mask. snd button OR mask) SWBT_DEBUG_CLIENT_BUTTONS 0"

section \<open>Messages\<close>

definition swbt_debug_client_write_message :: "stream \<Rightarrow> string \<Rightarrow> stream" where
  "swbt_debug_client_write_message err message = fputs message err"

definition swbt_debug_client_write_option_message :: "stream \<Rightarrow> string \<Rightarrow> string \<Rightarrow> stream" where
  "swbt_debug_client_write_option_message err option message = fputs message (fputs option err)"

text \<open>The digits, lowest first; the array has room for five of them.\<close>

function u16_digits :: "nat \<Rightarrow> string" where
  "u16_digits remaining = char_of (48 + remaining mod 10) # (if remaining div 10 = 0 then [] else u16_digits (remaining div 10))"
  by pat_completeness auto
termination
  by (relation "measure id") auto

definition swbt_debug_client_write_u16 :: "stream \<Rightarrow> u16 \<Rightarrow> stream" where
  "swbt_debug_client_write_u16 err v = fold (\<lambda>digit. fputs [digit]) (rev (u16_digits (unat v))) err"

section \<open>Command line\<close>

definition swbt_debug_client_is_unsupported_macro_arg :: "string \<Rightarrow> bool" where
  "swbt_debug_client_is_unsupported_macro_arg arg \<longleftrightarrow> arg \<in> set [''--tap'', ''--duration-ms'', ''--sequence'', ''--at-ms'']"

definition swbt_debug_client_parse_u64 :: "string option \<Rightarrow> nat \<Rightarrow> nat option" where
  "swbt_debug_client_parse_u64 t max_value =
     (if t = None \<or> at_cursor (the t) = NUL \<or> at_cursor (the t) = CHR ''-'' then None
      else let (parsed, end_ptr, range_error) = strtou 64 0 (the t) in
        if the t = end_ptr \<or> range_error \<or> at_cursor end_ptr \<noteq> NUL \<or> parsed > max_value then None else Some parsed)"

definition swbt_debug_client_parse_i64 :: "string option \<Rightarrow> int \<Rightarrow> int \<Rightarrow> int option" where
  "swbt_debug_client_parse_i64 t min_value max_value =
     (if t = None \<or> at_cursor (the t) = NUL then None
      else let (parsed, end_ptr, range_error) = strtoll 0 (the t) in
        if the t = end_ptr \<or> range_error \<or> at_cursor end_ptr \<noteq> NUL \<or> parsed < min_value \<or> parsed > max_value then None
        else Some parsed)"

text \<open>\<open>rest\<close> are the arguments behind the option.\<close>

definition swbt_debug_client_require_value :: "string \<Rightarrow> string list \<Rightarrow> stream \<Rightarrow> bool \<times> stream" where
  "swbt_debug_client_require_value arg rest err =
     (if rest = [] then (False, swbt_debug_client_write_option_message err arg ('' requires a value'' @ newline)) else (True, err))"

definition swbt_debug_client_parse_stick :: "string \<Rightarrow> string \<Rightarrow> stream \<Rightarrow> u16 option \<times> stream" where
  "swbt_debug_client_parse_stick option t err = (case swbt_debug_client_parse_u64 (Some t) 4095 of
       None \<Rightarrow> (None, swbt_debug_client_write_option_message err option ('' must be in range 0..4095'' @ newline))
     | Some parsed \<Rightarrow> (Some (of_nat parsed), err))"

definition swbt_debug_client_parse_i16_option :: "string \<Rightarrow> string \<Rightarrow> stream \<Rightarrow> i16 option \<times> stream" where
  "swbt_debug_client_parse_i16_option option t err = (case swbt_debug_client_parse_i64 (Some t) (- 32768) 32767 of
       None \<Rightarrow> (None, swbt_debug_client_write_option_message err option ('' must be in range -32768..32767'' @ newline))
     | Some parsed \<Rightarrow> (Some (of_int parsed), err))"

fun parse_button_loop :: "string \<Rightarrow> (string \<times> u32) list \<Rightarrow> u32 option" where
  "parse_button_loop t [] = None"
| "parse_button_loop t ((name, button) # table) = (if t = name then Some button else parse_button_loop t table)"

definition swbt_debug_client_parse_button_name :: "string \<Rightarrow> u32 option" where
  "swbt_debug_client_parse_button_name t = parse_button_loop t SWBT_DEBUG_CLIENT_BUTTONS"

text \<open>
  One turn of the loop over the arguments: the configuration and whether the next argument was consumed, or None for an
  error, and the error stream. \<open>checked_option\<close> are the branches that report a missing and a wrong
  value with one message, \<open>ranged_option\<close> those of the sticks and sensors.
\<close>

definition checked_option ::
  "string \<Rightarrow> string list \<Rightarrow> (string \<Rightarrow> 'v option) \<Rightarrow> ('v \<Rightarrow> 'c) \<Rightarrow> string \<Rightarrow> stream \<Rightarrow> ('c \<times> bool) option \<times> stream" where
  "checked_option arg rest parse put message err =
     (let (present, err) = swbt_debug_client_require_value arg rest err;
          parsed = (if present then parse (hd rest) else None)
      in case parsed of
           None \<Rightarrow> (None, swbt_debug_client_write_message err (message @ newline))
         | Some v \<Rightarrow> (Some (put v, True), err))"

definition ranged_option ::
  "string \<Rightarrow> string list \<Rightarrow> (string \<Rightarrow> string \<Rightarrow> stream \<Rightarrow> 'v option \<times> stream) \<Rightarrow> ('v \<Rightarrow> 'c) \<Rightarrow> stream
   \<Rightarrow> ('c \<times> bool) option \<times> stream" where
  "ranged_option arg rest parse put err =
     (let (present, err) = swbt_debug_client_require_value arg rest err in
      if \<not> present then (None, err)
      else let (parsed, err) = parse arg (hd rest) err
        in (case parsed of None \<Rightarrow> (None, err) | Some v \<Rightarrow> (Some (put v, True), err)))"

definition with_state :: "swbt_debug_client_config_t \<Rightarrow> (swbt_state_t \<Rightarrow> swbt_state_t) \<Rightarrow> swbt_debug_client_config_t" where
  "with_state config f = config\<lparr>dc_state := f (dc_state config)\<rparr>"

definition parse_arg ::
  "string \<Rightarrow> string list \<Rightarrow> swbt_debug_client_config_t \<Rightarrow> stream \<Rightarrow> (swbt_debug_client_config_t \<times> bool) option \<times> stream" where
  "parse_arg arg rest config err =
     (if swbt_debug_client_is_unsupported_macro_arg arg
      then (None, swbt_debug_client_write_option_message err arg ('' is not supported by the daemon IPC debug client'' @ newline))
      else if arg = ''--port''
      then checked_option arg rest (\<lambda>t. case swbt_debug_client_parse_u64 (Some t) 65535 of
               None \<Rightarrow> None | Some parsed \<Rightarrow> if parsed = 0 then None else Some parsed)
             (\<lambda>parsed. config\<lparr>dc_port := of_nat parsed\<rparr>) ''--port must be in range 1..65535'' err
      else if arg = ''--buttons''
      then checked_option arg rest (\<lambda>t. case swbt_debug_client_parse_u64 (Some t) (2 ^ 32 - 1) of
               None \<Rightarrow> None
             | Some parsed \<Rightarrow> if (of_nat parsed :: u32) AND NOT SWBT_DEBUG_CLIENT_DEFINED_BUTTON_MASK \<noteq> 0 then None else Some parsed)
             (\<lambda>parsed. with_state config (\<lambda>s. s\<lparr>buttons := of_nat parsed\<rparr>)) ''--buttons contains an undefined button bit'' err
      else if arg = ''--button''
      then checked_option arg rest swbt_debug_client_parse_button_name
             (\<lambda>mask. with_state config (\<lambda>s. s\<lparr>buttons := buttons s OR mask\<rparr>)) ''--button must be a daemon-ipc-v1 button name'' err
      else if arg = ''--lx''
      then ranged_option arg rest swbt_debug_client_parse_stick (\<lambda>v. with_state config (\<lambda>s. s\<lparr>lx := v\<rparr>)) err
      else if arg = ''--ly''
      then ranged_option arg rest swbt_debug_client_parse_stick (\<lambda>v. with_state config (\<lambda>s. s\<lparr>ly := v\<rparr>)) err
      else if arg = ''--rx''
      then ranged_option arg rest swbt_debug_client_parse_stick (\<lambda>v. with_state config (\<lambda>s. s\<lparr>rx := v\<rparr>)) err
      else if arg = ''--ry''
      then ranged_option arg rest swbt_debug_client_parse_stick (\<lambda>v. with_state config (\<lambda>s. s\<lparr>ry := v\<rparr>)) err
      else if arg = ''--accel-x''
      then ranged_option arg rest swbt_debug_client_parse_i16_option (\<lambda>v. with_state config (\<lambda>s. s\<lparr>accel_x := v\<rparr>)) err
      else if arg = ''--accel-y''
      then ranged_option arg rest swbt_debug_client_parse_i16_option (\<lambda>v. with_state config (\<lambda>s. s\<lparr>accel_y := v\<rparr>)) err
      else if arg = ''--accel-z''
      then ranged_option arg rest swbt_debug_client_parse_i16_option (\<lambda>v. with_state config (\<lambda>s. s\<lparr>accel_z := v\<rparr>)) err
      else if arg = ''--gyro-x''
      then ranged_option arg rest swbt_debug_client_parse_i16_option (\<lambda>v. with_state config (\<lambda>s. s\<lparr>gyro_x := v\<rparr>)) err
      else if arg = ''--gyro-y''
      then ranged_option arg rest swbt_debug_client_parse_i16_option (\<lambda>v. with_state config (\<lambda>s. s\<lparr>gyro_y := v\<rparr>)) err
      else if arg = ''--gyro-z''
      then ranged_option arg rest swbt_debug_client_parse_i16_option (\<lambda>v. with_state config (\<lambda>s. s\<lparr>gyro_z := v\<rparr>)) err
      else if arg = ''--seq''
      then checked_option arg rest (\<lambda>t. swbt_debug_client_parse_u64 (Some t) (2 ^ 64 - 1))
             (\<lambda>parsed. config\<lparr>dc_sequence := of_nat parsed\<rparr>) ''--seq must be a non-negative integer'' err
      else if arg = ''--hold-ms''
      then checked_option arg rest (\<lambda>t. swbt_debug_client_parse_u64 (Some t) (2 ^ 32 - 1))
             (\<lambda>parsed. config\<lparr>dc_hold_ms := of_nat parsed\<rparr>) ''--hold-ms must be a non-negative integer'' err
      else if arg = ''--skip-release'' then (Some (config\<lparr>dc_skip_release := True\<rparr>, False), err)
      else if arg = ''--neutral'' then (Some (config\<lparr>dc_state := swbt_state_neutral\<rparr>, False), err)
      else (None, swbt_debug_client_write_message (swbt_debug_client_write_option_message err ''unknown option: '' arg) newline))"

function parse_args_loop ::
  "string list \<Rightarrow> swbt_debug_client_config_t \<Rightarrow> stream \<Rightarrow> swbt_debug_client_config_t option \<times> stream" where
  "parse_args_loop [] config err = (Some config, err)"
| "parse_args_loop (arg # rest) config err = (case parse_arg arg rest config err of
       (None, err) \<Rightarrow> (None, err)
     | (Some (config, consumed), err) \<Rightarrow> parse_args_loop (if consumed then tl rest else rest) config err)"
  by pat_completeness auto
termination
  by (relation "measure (\<lambda>(args, _). length args)") auto

text \<open>\<open>argv\<close> has \<open>argc\<close> strings, the name of the program first.\<close>

definition swbt_debug_client_parse_args :: "string list \<Rightarrow> stream \<Rightarrow> swbt_debug_client_config_t option \<times> stream" where
  "swbt_debug_client_parse_args argv err =
     (if length argv \<le> 1
      then (None, swbt_debug_client_write_message err
        (''usage: swbt-debug-client --port <port> [state options] [--hold-ms <ms>] [--skip-release]'' @ newline))
      else case parse_args_loop (tl argv) \<lparr>dc_port = 0, dc_state = swbt_state_neutral, dc_sequence = 0, dc_hold_ms = 0, dc_skip_release = False\<rparr> err of
          (None, err) \<Rightarrow> (None, err)
        | (Some config, err) \<Rightarrow>
            if dc_port config = 0 then (None, swbt_debug_client_write_message err (''--port is required'' @ newline))
            else (Some config, err))"

section \<open>Requests\<close>

definition hello_request :: string where
  \<open>hello_request = ''{"v":1,"type":"hello","client_name":"swbt-debug-client","request_id":"h1"}'' @ newline\<close>

definition acquire_request :: string where
  \<open>acquire_request = ''{"v":1,"type":"acquire","mode":"exclusive","request_id":"a1"}'' @ newline\<close>

definition get_status_request :: string where
  \<open>get_status_request = ''{"v":1,"type":"get_status","request_id":"g1"}'' @ newline\<close>

text \<open>What the two format strings print.\<close>

definition set_state_request :: "string \<Rightarrow> u64 \<Rightarrow> swbt_state_t \<Rightarrow> string" where
  \<open>set_state_request owner_id sequence st =
     ''{"v":1,"type":"set_state","owner_id":"'' @ owner_id @ ''","seq":'' @ print_u sequence
     @ '',"request_id":"s1","state":{"buttons":'' @ print_u (buttons st) @ '',"lx":'' @ print_u (lx st) @ '',"ly":'' @ print_u (ly st)
     @ '',"rx":'' @ print_u (rx st) @ '',"ry":'' @ print_u (ry st) @ '',"accel_x":'' @ print_d (accel_x st)
     @ '',"accel_y":'' @ print_d (accel_y st) @ '',"accel_z":'' @ print_d (accel_z st)
     @ '',"gyro_x":'' @ print_d (gyro_x st) @ '',"gyro_y":'' @ print_d (gyro_y st) @ '',"gyro_z":'' @ print_d (gyro_z st) @ ''}}'' @ newline\<close>

definition release_request :: "string \<Rightarrow> string" where
  \<open>release_request owner_id = ''{"v":1,"type":"release","owner_id":"'' @ owner_id @ ''","request_id":"r1"}'' @ newline\<close>

subsection \<open>Over a socket\<close>

text \<open>The result code and the bytes that went out.\<close>

definition send_code :: "swbt_ipc_server_result_t \<times> string \<Rightarrow> int \<times> string" where
  "send_code r = (if fst r = SWBT_IPC_SERVER_OK then 0 else - 1, snd r)"

definition swbt_debug_client_send_hello :: "ipc_env \<Rightarrow> swbt_ipc_socket_t option \<Rightarrow> int \<times> string" where
  "swbt_debug_client_send_hello env socket =
     send_code (swbt_ipc_socket_send_all env socket (Some hello_request) (length hello_request))"

definition swbt_debug_client_send_acquire :: "ipc_env \<Rightarrow> swbt_ipc_socket_t option \<Rightarrow> int \<times> string" where
  "swbt_debug_client_send_acquire env socket =
     send_code (swbt_ipc_socket_send_all env socket (Some acquire_request) (length acquire_request))"

text \<open>The formatted text must fit the line buffer with its terminator.\<close>

definition swbt_debug_client_send_format :: "ipc_env \<Rightarrow> swbt_ipc_socket_t option \<Rightarrow> string \<Rightarrow> int \<times> string" where
  "swbt_debug_client_send_format env socket request =
     (if length request \<ge> SWBT_IPC_JSON_LINE_MAX then (- 1, [])
      else send_code (swbt_ipc_socket_send_all env socket (Some request) (length request)))"

definition swbt_debug_client_send_set_state ::
  "ipc_env \<Rightarrow> swbt_ipc_socket_t option \<Rightarrow> swbt_debug_client_set_state_options_t \<Rightarrow> int \<times> string" where
  "swbt_debug_client_send_set_state env socket options =
     (if socket = None \<or> so_owner_id options = None \<or> so_state options = None then (- 1, [])
      else swbt_debug_client_send_format env socket
        (set_state_request (the (so_owner_id options)) (so_sequence options) (the (so_state options))))"

definition swbt_debug_client_send_get_status :: "ipc_env \<Rightarrow> swbt_ipc_socket_t option \<Rightarrow> int \<times> string" where
  "swbt_debug_client_send_get_status env socket =
     send_code (swbt_ipc_socket_send_all env socket (Some get_status_request) (length get_status_request))"

definition swbt_debug_client_send_release :: "ipc_env \<Rightarrow> swbt_ipc_socket_t option \<Rightarrow> string option \<Rightarrow> int \<times> string" where
  "swbt_debug_client_send_release env socket owner_id =
     (if owner_id = None then (- 1, []) else swbt_debug_client_send_format env socket (release_request (the owner_id)))"

text \<open>
  The loop that receives a line byte by byte: \<open>received k\<close> is what call number \<open>k\<close> of \<open>recv\<close> gives. The result is the code and
  the string in the buffer.
\<close>

function receive_loop ::
  "(nat \<Rightarrow> recv_result) \<Rightarrow> swbt_ipc_socket_t \<Rightarrow> nat \<Rightarrow> nat \<Rightarrow> string \<Rightarrow> int \<times> string" where
  "receive_loop received socket k buffer_size line =
     (let (result, bs) = swbt_ipc_socket_receive (Some socket) 1 (received k) in
      if result \<noteq> SWBT_IPC_SERVER_OK \<or> length bs \<noteq> 1 then (- 1, [])
      else if length line + 1 \<ge> buffer_size then (- 1, [])
      else if hd bs = CHR 0x0A then (0, c_str_of (line @ bs))
      else receive_loop received socket (Suc k) buffer_size (line @ bs))"
  by pat_completeness auto
termination
  by (relation "measure (\<lambda>(received, socket, k, buffer_size, line). buffer_size - length line)") auto

definition swbt_debug_client_receive_response ::
  "(nat \<Rightarrow> recv_result) \<Rightarrow> swbt_ipc_socket_t option \<Rightarrow> nat \<Rightarrow> int \<times> string" where
  "swbt_debug_client_receive_response received socket buffer_size =
     (if socket = None \<or> buffer_size = 0 then (- 1, []) else receive_loop received (the socket) 0 buffer_size [])"

section \<open>Responses\<close>

text \<open>The value of a text member, of which at most \<open>out_size - 1\<close> characters fit the result.\<close>

definition swbt_debug_client_response_string :: "string option \<Rightarrow> string option \<Rightarrow> nat \<Rightarrow> string option" where
  "swbt_debug_client_response_string response key out_size =
     (if response = None \<or> key = None \<or> out_size = 0 then None
      else if length (the key) > 64 - 5 then None
      else
        let needle = CHR 0x22 # the key @ [CHR 0x22, CHR '':'', CHR 0x22] in
        case strstr (the response) needle of
          None \<Rightarrow> None
        | Some start \<Rightarrow>
            let rest = drop (length needle) start; v = takeWhile (\<lambda>c. c \<noteq> CHR 0x22) rest in
            if v = rest then None
            else if length v + 1 > out_size then None
            else Some v)"

definition swbt_debug_client_response_contains :: "string option \<Rightarrow> string \<Rightarrow> bool" where
  "swbt_debug_client_response_contains response needle \<longleftrightarrow> response \<noteq> None \<and> strstr (the response) needle \<noteq> None"

section \<open>The session\<close>

definition swbt_debug_client_io_send :: "'p swbt_debug_client_io_t option \<Rightarrow> string option \<Rightarrow> 'p \<Rightarrow> int \<times> 'p" where
  "swbt_debug_client_io_send io data p =
     (if io = None \<or> io_send (the io) = None \<or> data = None then (- 1, p) else the (io_send (the io)) p (the data))"

definition swbt_debug_client_io_send_format :: "'p swbt_debug_client_io_t option \<Rightarrow> string option \<Rightarrow> 'p \<Rightarrow> int \<times> 'p" where
  "swbt_debug_client_io_send_format io request p =
     (if io = None \<or> io_send (the io) = None \<or> request = None then (- 1, p)
      else if length (the request) \<ge> SWBT_IPC_JSON_LINE_MAX then (- 1, p)
      else the (io_send (the io)) p (the request))"

definition swbt_debug_client_io_send_hello :: "'p swbt_debug_client_io_t option \<Rightarrow> 'p \<Rightarrow> int \<times> 'p" where
  "swbt_debug_client_io_send_hello io = swbt_debug_client_io_send io (Some hello_request)"

definition swbt_debug_client_io_send_acquire :: "'p swbt_debug_client_io_t option \<Rightarrow> 'p \<Rightarrow> int \<times> 'p" where
  "swbt_debug_client_io_send_acquire io = swbt_debug_client_io_send io (Some acquire_request)"

definition swbt_debug_client_io_send_set_state ::
  "'p swbt_debug_client_io_t option \<Rightarrow> swbt_debug_client_set_state_options_t \<Rightarrow> 'p \<Rightarrow> int \<times> 'p" where
  "swbt_debug_client_io_send_set_state io options p =
     (if so_owner_id options = None \<or> so_state options = None then (- 1, p)
      else swbt_debug_client_io_send_format io
        (Some (set_state_request (the (so_owner_id options)) (so_sequence options) (the (so_state options)))) p)"

definition swbt_debug_client_io_send_get_status :: "'p swbt_debug_client_io_t option \<Rightarrow> 'p \<Rightarrow> int \<times> 'p" where
  "swbt_debug_client_io_send_get_status io = swbt_debug_client_io_send io (Some get_status_request)"

definition swbt_debug_client_io_send_release :: "'p swbt_debug_client_io_t option \<Rightarrow> string option \<Rightarrow> 'p \<Rightarrow> int \<times> 'p" where
  "swbt_debug_client_io_send_release io owner_id p =
     (if owner_id = None then (- 1, p) else swbt_debug_client_io_send_format io (Some (release_request (the owner_id))) p)"

definition swbt_debug_client_receive_io :: "'p swbt_debug_client_io_t option \<Rightarrow> nat \<Rightarrow> 'p \<Rightarrow> int \<times> string \<times> 'p" where
  "swbt_debug_client_receive_io io response_size p =
     (if io = None \<or> io_receive (the io) = None then (- 1, [], p) else the (io_receive (the io)) p response_size)"

definition swbt_debug_client_send_receive ::
  "'p swbt_debug_client_io_t option \<Rightarrow> ('p swbt_debug_client_io_t option \<Rightarrow> 'p \<Rightarrow> int \<times> 'p) \<Rightarrow> nat \<Rightarrow> 'p \<Rightarrow> int \<times> string \<times> 'p" where
  "swbt_debug_client_send_receive io send_request response_size p =
     (let (code, p) = send_request io p in
      if code \<noteq> 0 then (- 1, [], p) else swbt_debug_client_receive_io io response_size p)"

definition swbt_debug_client_release_best_effort :: "'p swbt_debug_client_io_t option \<Rightarrow> string option \<Rightarrow> 'p \<Rightarrow> int \<times> 'p" where
  "swbt_debug_client_release_best_effort io owner_id p =
     (if owner_id = None \<or> at_cursor (the owner_id) = NUL then (- 1, p)
      else
        let (code, p) = swbt_debug_client_io_send_release io owner_id p in
        if code \<noteq> 0 then (- 1, p)
        else let (code, response, p) = swbt_debug_client_receive_io io SWBT_IPC_JSON_RESPONSE_MAX p in (code, p))"

definition type_is :: "string \<Rightarrow> string" where
  \<open>type_is t = ''"type":"'' @ t @ ''"''\<close>

text \<open>
  The part of a session after the lease is taken, and the whole session. The result is the exit code, both
  streams and the context. A failed receive leaves nothing in the buffer.
\<close>

definition owner_session ::
  "swbt_debug_client_config_t \<Rightarrow> 'p swbt_debug_client_io_t \<Rightarrow> string \<Rightarrow> stream \<Rightarrow> stream \<Rightarrow> 'p \<Rightarrow> int \<times> stream \<times> stream \<times> 'p" where
  "owner_session config io owner_id out err p =
     (let (code, p) = swbt_debug_client_io_send_set_state (Some io)
            \<lparr>so_owner_id = Some owner_id, so_state = Some (dc_state config), so_sequence = dc_sequence config\<rparr> p;
          (code, response, p) = (if code \<noteq> 0 then (code, [], p) else swbt_debug_client_receive_io (Some io) SWBT_IPC_JSON_RESPONSE_MAX p) in
      if code \<noteq> 0
      then let (_, p) = swbt_debug_client_release_best_effort (Some io) (Some owner_id) p
        in (1, out, swbt_debug_client_write_message err (''set_state failed'' @ newline), p)
      else if swbt_debug_client_response_contains (Some response) (type_is ''error'')
      then let (_, p) = swbt_debug_client_release_best_effort (Some io) (Some owner_id) p in (1, out, fputs response err, p)
      else
        let (code, response, p) = swbt_debug_client_send_receive (Some io) swbt_debug_client_io_send_get_status SWBT_IPC_JSON_RESPONSE_MAX p in
        if code \<noteq> 0 \<or> swbt_debug_client_response_contains (Some response) (type_is ''error'')
        then let (_, p) = swbt_debug_client_release_best_effort (Some io) (Some owner_id) p
          in (1, out, swbt_debug_client_write_message err (''get_status failed'' @ newline), p)
        else
          let out = fputs response out in
          if dc_skip_release config then (0, out, err, p)
          else
            let (code, p) = swbt_debug_client_io_send_release (Some io) (Some owner_id) p;
                (code, response, p) = (if code \<noteq> 0 then (code, [], p) else swbt_debug_client_receive_io (Some io) SWBT_IPC_JSON_RESPONSE_MAX p) in
            if code \<noteq> 0 \<or> swbt_debug_client_response_contains (Some response) (type_is ''error'')
            then (1, out, swbt_debug_client_write_message err (''release failed'' @ newline), p)
            else (0, out, err, p))"

definition swbt_debug_client_run_io ::
  "swbt_debug_client_config_t option \<Rightarrow> 'p swbt_debug_client_io_t option \<Rightarrow> stream \<Rightarrow> stream \<Rightarrow> 'p \<Rightarrow> int \<times> stream \<times> stream \<times> 'p" where
  "swbt_debug_client_run_io config io out err p =
     (if config = None \<or> io = None \<or> out = None \<or> err = None then (1, out, err, p)
      else
        let (code, response, p) = swbt_debug_client_send_receive io swbt_debug_client_io_send_hello SWBT_IPC_JSON_RESPONSE_MAX p in
        if code \<noteq> 0 \<or> \<not> swbt_debug_client_response_contains (Some response) (type_is ''hello_ok'')
          \<or> swbt_debug_client_response_string (Some response) (Some ''client_id'') 9 = None
        then (1, out, swbt_debug_client_write_message err (''hello failed'' @ newline), p)
        else
          let (code, response, p) = swbt_debug_client_send_receive io swbt_debug_client_io_send_acquire SWBT_IPC_JSON_RESPONSE_MAX p in
          if code \<noteq> 0 then (1, out, swbt_debug_client_write_message err (''acquire failed'' @ newline), p)
          else if swbt_debug_client_response_contains (Some response) (type_is ''error'') then (1, out, fputs response err, p)
          else if \<not> swbt_debug_client_response_contains (Some response) (type_is ''acquired'')
            \<or> swbt_debug_client_response_string (Some response) (Some ''owner_id'') 9 = None
          then (1, out, swbt_debug_client_write_message err (''acquire response is invalid'' @ newline), p)
          else owner_session (the config) (the io)
            (the (swbt_debug_client_response_string (Some response) (Some ''owner_id'') 9)) out err p)"

text \<open>The context of the socket functions: the socket, what the system answers to each further call, and what was sent.\<close>

type_synonym client_socket = "swbt_ipc_socket_t \<times> ipc_env list \<times> string list"

definition next_env :: "client_socket \<Rightarrow> ipc_env \<times> (string list \<Rightarrow> client_socket)" where
  "next_env p = (hd (fst (snd p)), (\<lambda>sent. (fst p, tl (fst (snd p)), snd (snd p) @ sent)))"

definition swbt_debug_client_socket_io_send :: "client_socket \<Rightarrow> string \<Rightarrow> int \<times> client_socket" where
  "swbt_debug_client_socket_io_send p data =
     (let (env, after) = next_env p;
          (code, sent) = send_code (swbt_ipc_socket_send_all env (Some (fst p)) (Some data) (length data))
      in (code, after [sent]))"

text \<open>The client waits in \<open>recv\<close> itself, without asking whether data is ready.\<close>

definition swbt_debug_client_socket_io_receive :: "client_socket \<Rightarrow> nat \<Rightarrow> int \<times> string \<times> client_socket" where
  "swbt_debug_client_socket_io_receive p buffer_size =
     (let (env, after) = next_env p;
          (code, response) = swbt_debug_client_receive_response
            (\<lambda>k. case env_read env k of Ready r \<Rightarrow> r | _ \<Rightarrow> ReceiveFails) (Some (fst p)) buffer_size
      in (code, response, after []))"

text \<open>
  The end of the main function, once the client is connected: the session, the end of the connection (\<open>hang_up\<close>, a function on the
  context of the transport), and the exit code.
\<close>

definition client_connected ::
  "swbt_debug_client_config_t \<Rightarrow> 'p swbt_debug_client_io_t \<Rightarrow> ('p \<Rightarrow> 'p) \<Rightarrow> stream \<Rightarrow> stream \<Rightarrow> 'p \<Rightarrow> int \<times> stream \<times> stream \<times> 'p" where
  "client_connected config io hang_up out err p =
     (let (result, out, err, p) = swbt_debug_client_run_io (Some config) (Some io) out err p;
          p = hang_up p
      in (if result = 0 then 0 else 4, out, err, p))"

definition client_socket_close :: "client_socket \<Rightarrow> client_socket" where
  "client_socket_close p = (the (swbt_ipc_socket_close (Some (fst p))), snd p)"

text \<open>\<open>setup\<close> and \<open>connect_ok\<close> are the answers to the calls that open the connection, \<open>envs\<close> those to the calls of the session.
  The context is that of the connection at the end, if there was one.\<close>

definition swbt_debug_client_main ::
  "ipc_env \<Rightarrow> bool \<Rightarrow> ipc_env list \<Rightarrow> string list \<Rightarrow> stream \<Rightarrow> stream \<Rightarrow> int \<times> stream \<times> stream \<times> client_socket option" where
  "swbt_debug_client_main setup connect_ok envs argv out err =
     (let (config, err) = swbt_debug_client_parse_args argv err in
      if config = None then (2, out, err, None)
      else
        let socket = the (swbt_ipc_socket_init (Some \<lparr>sock_handle = 0, sock_open = False\<rparr>));
            (result, socket) = swbt_ipc_socket_connect_loopback setup connect_ok (Some socket) (dc_port (the config)) in
        if result \<noteq> SWBT_IPC_SERVER_OK
        then (3, out, swbt_debug_client_write_message (swbt_debug_client_write_u16
               (swbt_debug_client_write_message err ''failed to connect to 127.0.0.1:'') (dc_port (the config))) newline, None)
        else
          let (code, out, err, p) = client_connected (the config)
                \<lparr>io_send = Some swbt_debug_client_socket_io_send, io_receive = Some swbt_debug_client_socket_io_receive\<rparr>
                client_socket_close out err (the socket, envs, [])
          in (code, out, err, Some p))"

end
