(* ===== verification/ClientSession.thy ===== *)
theory ClientSession
  imports DebugClient
begin

text \<open>
  What the debug client does to a daemon: its command line always yields a state that the protocol accepts, and the session that
  follows submits exactly this state, shows it in the printed status and gives the lease back.
\<close>

section \<open>Accepted command lines\<close>

lemma client_button_mask: "SWBT_DEBUG_CLIENT_DEFINED_BUTTON_MASK = SWBT_DEFINED_BUTTON_MASK"
  by (simp add: SWBT_DEBUG_CLIENT_DEFINED_BUTTON_MASK_def SWBT_DEBUG_CLIENT_BUTTONS_def SWBT_DEFINED_BUTTON_MASK_def)

lemma button_table_defined: "list_all (\<lambda>button. snd button AND NOT SWBT_DEFINED_BUTTON_MASK = 0) SWBT_DEBUG_CLIENT_BUTTONS"
  by (simp add: SWBT_DEBUG_CLIENT_BUTTONS_def SWBT_DEFINED_BUTTON_MASK_def)

lemma button_loop_member: "parse_button_loop t table = Some m \<Longrightarrow> (t, m) \<in> set table"
  by (induction t table rule: parse_button_loop.induct) (auto split: if_splits)

lemma button_name_defined:
  "swbt_debug_client_parse_button_name t = Some m \<Longrightarrow> m AND NOT SWBT_DEFINED_BUTTON_MASK = 0"
  using button_loop_member [of t SWBT_DEBUG_CLIENT_BUTTONS m] button_table_defined
  by (auto simp: swbt_debug_client_parse_button_name_def list_all_iff)

lemma stick_range:
  assumes "swbt_debug_client_parse_stick option t err = (Some v, err')"
  shows "v \<le> 4095"
proof -
  obtain n where "swbt_debug_client_parse_u64 (Some t) 4095 = Some n" "v = of_nat n"
    using assms by (auto simp: swbt_debug_client_parse_stick_def split: option.splits)
  then have "n \<le> 4095" "v = of_nat n"
    by (auto simp: swbt_debug_client_parse_u64_def Let_def split: if_splits prod.splits)
  then show ?thesis
    by (simp add: word_le_nat_alt unat_of_nat)
qed

lemma checked_option_put:
  "checked_option arg rest parse put message err = (Some (config, consumed), err') \<Longrightarrow>
    \<exists>v. parse (hd rest) = Some v \<and> config = put v \<and> err' = err"
  by (auto simp: checked_option_def swbt_debug_client_require_value_def split: option.splits if_splits)

lemma ranged_option_put:
  "ranged_option arg rest parse put err = (Some (config, consumed), err') \<Longrightarrow>
    \<exists>v. parse arg (hd rest) err = (Some v, err') \<and> config = put v"
  by (auto simp: ranged_option_def swbt_debug_client_require_value_def split: option.splits if_splits prod.splits)

lemma or_defined: "(b :: u32) AND NOT M = 0 \<Longrightarrow> m AND NOT M = 0 \<Longrightarrow> (b OR m) AND NOT M = 0"
  by (simp add: bit.conj_disj_distrib2)

lemma parse_arg_range:
  assumes "parse_arg arg rest config err = (Some (config', consumed), err')" "state_in_range (dc_state config)"
  shows "state_in_range (dc_state config')"
  using assms unfolding parse_arg_def
  by (auto simp: with_state_def state_in_range_def client_button_mask neutral_in_range [unfolded state_in_range_def]
      dest!: checked_option_put ranged_option_put dest: stick_range intro!: or_defined intro: button_name_defined
      split: if_splits option.splits)

lemma parse_args_loop_range:
  "parse_args_loop args config err = (Some config', err') \<Longrightarrow> state_in_range (dc_state config) \<Longrightarrow> state_in_range (dc_state config')"
  by (induction args config err rule: parse_args_loop.induct)
     (auto split: prod.splits option.splits if_splits dest: parse_arg_range)

lemma parse_args_range:
  "swbt_debug_client_parse_args argv err = (Some config, err') \<Longrightarrow> state_in_range (dc_state config) \<and> dc_port config \<noteq> 0"
  using parse_args_loop_range neutral_in_range
  by (fastforce simp: swbt_debug_client_parse_args_def split: prod.splits option.splits if_splits)

section \<open>A daemon behind the transport\<close>

text \<open>
  The daemon at the other end of a connection that loses nothing: a line that was sent is handled by the IPC adapter for the
  client \<open>cid\<close>, and its response is what is received next.
\<close>

type_synonym daemon_link = "control_state \<times> string"

definition daemon_send ::
  "ipc_build \<Rightarrow> (int \<times> swbt_control_runtime_status_t) option \<Rightarrow> u32 \<Rightarrow> daemon_link \<Rightarrow> string \<Rightarrow> int \<times> daemon_link" where
  "daemon_send build reader cid p data =
     (case swbt_ipc_adapter_handle_line build reader (fst p) cid (Some (takeWhile (\<lambda>c. c \<noteq> CHR 0x0A) data)) (Some []) SWBT_IPC_JSON_RESPONSE_MAX of
        (result, response, cs) \<Rightarrow> (if result = SWBT_IPC_JSON_OK then 0 else - 1, cs, the response))"

definition daemon_receive :: "daemon_link \<Rightarrow> nat \<Rightarrow> int \<times> string \<times> daemon_link" where
  "daemon_receive p buffer_size =
     (if snd p = [] \<or> length (snd p) \<ge> buffer_size then (- 1, [], p) else (0, snd p, fst p, []))"

definition daemon_io ::
  "ipc_build \<Rightarrow> (int \<times> swbt_control_runtime_status_t) option \<Rightarrow> u32 \<Rightarrow> daemon_link swbt_debug_client_io_t" where
  "daemon_io build reader cid = \<lparr>io_send = Some (daemon_send build reader cid), io_receive = Some daemon_receive\<rparr>"

text \<open>When the client closes its socket, the daemon tells the IPC adapter that this client is gone.\<close>

definition daemon_hang_up :: "u32 \<Rightarrow> daemon_link \<Rightarrow> daemon_link" where
  "daemon_hang_up cid p = (snd (swbt_ipc_adapter_handle_disconnect (fst p) cid), [])"

section \<open>Requests as JSON objects\<close>

definition request_members :: "string \<Rightarrow> (string \<times> json) list \<Rightarrow> (string \<times> json) list" where
  "request_members type ms = [(''v'', JInt 1), (''type'', JString type)] @ ms"

definition set_state_members :: "u32 \<Rightarrow> u64 \<Rightarrow> swbt_state_t \<Rightarrow> (string \<times> json) list" where
  "set_state_members cid sequence st = [(''owner_id'', JString (swbt_ipc_format_owner_id cid)), (''seq'', JInt (uint sequence)),
     (''request_id'', JString ''s1''), (''state'', json_state_obj st)]"

lemma requests_render:
  "hello_request = render (JObject (request_members ''hello'' [(''client_name'', JString ''swbt-debug-client''), (''request_id'', JString ''h1'')])) @ newline"
  "acquire_request = render (JObject (request_members ''acquire'' [(''mode'', JString ''exclusive''), (''request_id'', JString ''a1'')])) @ newline"
  "get_status_request = render (JObject (request_members ''get_status'' [(''request_id'', JString ''g1'')])) @ newline"
  "release_request (swbt_ipc_format_owner_id cid) =
     render (JObject (request_members ''release'' [(''owner_id'', JString (swbt_ipc_format_owner_id cid)), (''request_id'', JString ''r1'')])) @ newline"
  "set_state_request (swbt_ipc_format_owner_id cid) sequence st =
     render (JObject (request_members ''set_state'' (set_state_members cid sequence st))) @ newline"
  by (simp_all add: hello_request_def acquire_request_def get_status_request_def release_request_def set_state_request_def
      request_members_def set_state_members_def json_state_obj_def quoted_def int_text_print)

text \<open>No request has a newline before its end, and all of them fit the buffer of a line.\<close>

lemma print_no_newline: "CHR 0x0A \<notin> set (print_u w)" "CHR 0x0A \<notin> set (print_d v)" "CHR 0x0A \<notin> set (swbt_ipc_format_owner_id cid)"
proof -
  have d: "CHR 0x0A \<notin> set (decimal n)" for n
    using decimal_digits [of "CHR 0x0A" n] by (auto simp: ccode_def)
  then show "CHR 0x0A \<notin> set (print_u w)" "CHR 0x0A \<notin> set (print_d v)"
    by (simp_all add: print_u_def print_d_def int_text_def)
  show "CHR 0x0A \<notin> set (swbt_ipc_format_owner_id cid)"
    using format_owner_id_chars [of "CHR 0x0A" cid] by (auto simp: ccode_def)
qed

definition request_ok :: "(string \<times> json) list \<Rightarrow> bool" where
  "request_ok ms \<longleftrightarrow> members_plain ms \<and> CHR 0x0A \<notin> set (render (JObject ms)) \<and> length (render (JObject ms)) + 1 < SWBT_IPC_JSON_LINE_MAX"

lemma requests_ok:
  "request_ok (request_members ''hello'' [(''client_name'', JString ''swbt-debug-client''), (''request_id'', JString ''h1'')])"
  "request_ok (request_members ''acquire'' [(''mode'', JString ''exclusive''), (''request_id'', JString ''a1'')])"
  "request_ok (request_members ''get_status'' [(''request_id'', JString ''g1'')])"
  "request_ok (request_members ''release'' [(''owner_id'', JString (swbt_ipc_format_owner_id cid)), (''request_id'', JString ''r1'')])"
  by (simp_all add: request_ok_def request_members_def literal_plain owner_id_plain print_no_newline quoted_def int_text_print SWBT_IPC_JSON_LINE_MAX_def)

lemma set_state_ok: "request_ok (request_members ''set_state'' (set_state_members cid sequence st))"
proof -
  have "CHR 0x0A \<notin> set (render (json_state_obj st))"
    by (simp add: json_state_obj_def quoted_def int_text_print print_no_newline)
  moreover have "length (render (json_state_obj st)) \<le> 190"
    using state_text_length [of st] by (simp add: state_text_render)
  moreover have "json_plain (json_state_obj st)"
    by (simp add: json_state_obj_def literal_plain)
  ultimately show ?thesis
    using print_u_length(3) [of sequence]
    by (simp add: request_ok_def request_members_def set_state_members_def literal_plain owner_id_plain print_no_newline
        quoted_def int_text_print SWBT_IPC_JSON_LINE_MAX_def)
qed

text \<open>
  A request and its answer: the members of the response and the domain afterwards.
\<close>

definition answered ::
  "ipc_build \<Rightarrow> (int \<times> swbt_control_runtime_status_t) option \<Rightarrow> u32 \<Rightarrow> (string \<times> json) list \<Rightarrow> swbt_domain
   \<Rightarrow> (string \<times> json) list \<Rightarrow> swbt_domain \<Rightarrow> bool" where
  "answered build reader cid ms a rs a' \<longleftrightarrow>
     json_response build (fst (line_outcome reader cid (json_decode build ms) a)) = Some rs
     \<and> snd (line_outcome reader cid (json_decode build ms) a) = a'"

lemma outcome_fits:
  assumes "request_ok ms" "domain_inv a" "build_ok build"
  shows "length (response_line (json_response build (fst (line_outcome reader cid (json_decode build ms) a)))) < SWBT_IPC_JSON_RESPONSE_MAX"
proof -
  have "json_text (JObject ms) (render (JObject ms))" "length (render (JObject ms)) \<le> SWBT_IPC_JSON_LINE_MAX"
    using assms(1) json_text_render(1) by (auto simp: request_ok_def simp del: render.simps)
  then have "decoded_ok (fst (json_decode build ms)) (snd (json_decode build ms))"
    using decode_object [of ms "render (JObject ms)" "[]" "[]" build swbt_ipc_json_init_command swbt_ipc_json_init_response]
      decode_wf [of build "render (JObject ms)" swbt_ipc_json_init_command swbt_ipc_json_init_response] by auto
  then have "response_wf (fst (line_outcome reader cid (json_decode build ms) a))"
    using assms(2) command_answer_wf by (auto simp: line_outcome_def decoded_ok_def)
  then show ?thesis
    using response_line_length assms(3) by blast
qed

lemma daemon_exchange:
  assumes "request_ok ms" "domain_inv a" "build_ok build" "answered build reader cid ms a rs a'"
  shows "daemon_send build reader cid ((Some c, Some a), queued) (render (JObject ms) @ newline) =
      (0, (Some c, Some a'), render (JObject rs) @ newline)"
    "daemon_receive (cs, render (JObject rs) @ newline) SWBT_IPC_JSON_RESPONSE_MAX = (0, render (JObject rs) @ newline, cs, [])"
proof -
  have "CHR 0x0A \<notin> set (render (JObject ms))"
    using assms(1) by (simp add: request_ok_def)
  then have "takeWhile (\<lambda>c. c \<noteq> CHR 0x0A) (render (JObject ms) @ newline) = render (JObject ms)"
    by (subst takeWhile_append2) (auto simp: newline_def simp del: render.simps)
  moreover have "json_text (JObject ms) (render (JObject ms))" "length (render (JObject ms)) \<le> SWBT_IPC_JSON_LINE_MAX"
    using assms(1) json_text_render(1) by (auto simp: request_ok_def simp del: render.simps)
  ultimately show "daemon_send build reader cid ((Some c, Some a), queued) (render (JObject ms) @ newline) =
      (0, (Some c, Some a'), render (JObject rs) @ newline)"
    using handle_object [of ms "render (JObject ms)" "[]" "[]" a build reader c cid "[]"] assms(2-4)
    by (simp add: daemon_send_def answered_def response_line_def newline_def del: render.simps)
  show "daemon_receive (cs, render (JObject rs) @ newline) SWBT_IPC_JSON_RESPONSE_MAX = (0, render (JObject rs) @ newline, cs, [])"
    using outcome_fits [OF assms(1-3), of reader cid] assms(4)
    by (simp add: daemon_receive_def answered_def response_line_def newline_def del: render.simps)
qed

section \<open>Answers of the daemon\<close>

definition answer_members :: "string \<Rightarrow> string \<Rightarrow> (string \<times> json) list \<Rightarrow> (string \<times> json) list" where
  "answer_members type request ms = [(''v'', JInt 1), (''type'', JString type), (''request_id'', JString request)] @ ms"

lemmas answer_simps = answered_def line_outcome_def json_decode_def request_members_def answer_members_def command_answer_def
  command_ops_def domain_run_def json_response_def json_head_def string_ok_def SWBT_IPC_JSON_STRING_MAX_def ccode_def

lemma hello_answered:
  "answered build reader cid (request_members ''hello'' [(''client_name'', JString ''swbt-debug-client''), (''request_id'', JString ''h1'')]) a
     (answer_members ''hello_ok'' ''h1'' [(''client_id'', JString (swbt_ipc_format_owner_id cid))]) a"
  by (simp add: answer_simps)

lemma acquire_answered:
  "answered build reader cid (request_members ''acquire'' [(''mode'', JString ''exclusive''), (''request_id'', JString ''a1'')]) a
     (if domain_owner a \<in> {None, Some cid}
      then answer_members ''acquired'' ''a1'' [(''owner_id'', JString (swbt_ipc_format_owner_id cid))]
      else answer_members ''error'' ''a1'' [(''code'', JString ''owner_busy''), (''message'', JString ''another client owns the controller'')])
     (domain_run [Acquire cid] a)"
  by (cases "domain_owner a \<in> {None, Some cid}") (simp_all add: answer_simps Let_def)

lemma get_status_answered:
  "reader_ok reader \<Longrightarrow> answered build reader cid (request_members ''get_status'' [(''request_id'', JString ''g1'')]) a
     (answer_members ''status'' ''g1'' (json_status_members build (domain_response_status a))) a"
  by (simp add: answer_simps)

lemma owner_id_decoded:
  assumes "build_ok build" "map_of ms ''owner_id'' = Some (JString (swbt_ipc_format_owner_id cid))"
  shows "json_owner build ms = Some cid"
proof -
  have "string_ok SWBT_IPC_JSON_STRING_MAX (swbt_ipc_format_owner_id cid)"
    using format_owner_id_chars [of _ cid] by (force simp: string_ok_def SWBT_IPC_JSON_STRING_MAX_def)
  then show ?thesis
    using assms by (simp add: json_owner_def parse_format_owner_id build_ok_def)
qed

lemma release_answered:
  assumes "build_ok build" "domain_owner a = Some cid"
  shows "answered build reader cid
    (request_members ''release'' [(''owner_id'', JString (swbt_ipc_format_owner_id cid)), (''request_id'', JString ''r1'')]) a
    (answer_members ''released'' ''r1'' [])
    (domain_run [Revoke \<lparr>revoke_reason = SWBT_DOMAIN_REVOKE_RELEASE, revoke_client_id = cid\<rparr>] a)"
  using assms owner_id_decoded [of build _ cid] by (simp add: answer_simps claims_def)

lemma i16_range: "- 32768 \<le> sint (v :: i16)" "sint v \<le> 32767"
  using sint_ge [of v] sint_lt [of v] by simp_all

lemma json_state_obj_decoded:
  assumes "state_in_range st" "json_state_obj st = JObject sm"
  shows "json_state sm = Some st"
proof -
  have "uint (lx st) \<le> 4095" "uint (ly st) \<le> 4095" "uint (rx st) \<le> 4095" "uint (ry st) \<le> 4095"
    using assms(1) by (simp_all add: state_in_range_def word_le_def)
  moreover have "uint (buttons st) \<le> 4294967295"
    using uint_bounded [of "buttons st"] by simp
  ultimately show ?thesis
    using assms i16_range by (auto simp: json_state_def json_state_obj_def json_range_def state_in_range_def)
qed

lemma set_state_answered:
  assumes "build_ok build" "domain_owner a = Some cid" "state_in_range st" "sequence < 2 ^ 63"
  shows "answered build reader cid (request_members ''set_state'' (set_state_members cid sequence st)) a
    (answer_members ''state_accepted'' ''s1'' [(''seq'', JInt (uint sequence))])
    (domain_run [SetState \<lparr>set_client_id = cid, set_state = Some st, set_sequence = sequence\<rparr>] a)"
proof -
  have "uint sequence \<le> 2 ^ 63 - 1"
    using assms(4) by (simp add: word_less_def)
  moreover obtain sm where "json_state_obj st = JObject sm"
    by (simp add: json_state_obj_def)
  ultimately have "json_set_state (request_members ''set_state'' (set_state_members cid sequence st)) = Some (st, sequence)"
    using json_state_obj_decoded [OF assms(3)]
    by (simp add: json_set_state_def json_sequence_def json_range_def request_members_def set_state_members_def)
  moreover have "json_owner build (request_members ''set_state'' (set_state_members cid sequence st)) = Some cid"
    using assms(1) by (intro owner_id_decoded) (simp_all add: request_members_def set_state_members_def)
  ultimately show ?thesis
    using assms(2) by (simp add: answer_simps set_state_members_def claims_def)
qed

text \<open>What the client finds in an answer by searching its text.\<close>

lemma answer_contains:
  assumes "members_plain (answer_members t r ms)" "CHR 0x22 \<notin> set t'" "(''type'', t') \<notin> set (texts_members ms)"
  shows "swbt_debug_client_response_contains (Some (render (JObject (answer_members t r ms)) @ newline)) (type_is t') \<longleftrightarrow> t = t'"
proof
  have needle: "type_is t' = quoted ''type'' @ CHR '':'' # quoted t'"
    by (simp add: type_is_def quoted_def)
  assume "swbt_debug_client_response_contains (Some (render (JObject (answer_members t r ms)) @ newline)) (type_is t')"
  then have "strstr (render (JObject (answer_members t r ms)) @ newline) (quoted ''type'' @ CHR '':'' # quoted t') \<noteq> None"
    by (simp add: swbt_debug_client_response_contains_def needle del: render.simps)
  then have "(''type'', t') \<in> set (texts (JObject (answer_members t r ms)))"
    by (intro search_finds_member) (use assms in \<open>simp_all del: render.simps\<close>)
  then show "t = t'"
    using assms(3) by (simp add: answer_members_def)
next
  assume "t = t'"
  obtain u where "render (JObject (answer_members t r ms)) @ newline = (''{'' @ quoted ''v'' @ '':1,'') @ type_is t @ u"
    by (simp add: answer_members_def type_is_def quoted_def int_text_print)
  then have "sublist (type_is t) (render (JObject (answer_members t r ms)) @ newline)"
    unfolding sublist_def by blast
  then show "swbt_debug_client_response_contains (Some (render (JObject (answer_members t r ms)) @ newline)) (type_is t')"
    using \<open>t = t'\<close> strstr_sublist by (simp add: swbt_debug_client_response_contains_def del: render.simps)
qed

lemma ids_found:
  "swbt_debug_client_response_string (Some (render (JObject (answer_members ''hello_ok'' ''h1'' [(''client_id'', JString (swbt_ipc_format_owner_id cid))])) @ newline))
     (Some ''client_id'') 9 = Some (swbt_ipc_format_owner_id cid)"
  "swbt_debug_client_response_string (Some (render (JObject (answer_members ''acquired'' ''a1'' [(''owner_id'', JString (swbt_ipc_format_owner_id cid))])) @ newline))
     (Some ''owner_id'') 9 = Some (swbt_ipc_format_owner_id cid)"
proof -
  have "CHR 0x22 \<notin> set (swbt_ipc_format_owner_id cid)"
    using owner_id_plain [of cid] by (auto simp: plain_def key_char_def)
  then have "takeWhile (\<lambda>c. c \<noteq> CHR 0x22) (swbt_ipc_format_owner_id cid @ CHR 0x22 # u) = swbt_ipc_format_owner_id cid" for u
    by (subst takeWhile_append2) auto
  note id_simps = this swbt_debug_client_response_string_def answer_members_def quoted_def int_text_print Let_def
  show "swbt_debug_client_response_string (Some (render (JObject (answer_members ''hello_ok'' ''h1'' [(''client_id'', JString (swbt_ipc_format_owner_id cid))])) @ newline))
     (Some ''client_id'') 9 = Some (swbt_ipc_format_owner_id cid)"
    by (simp add: id_simps)
  show "swbt_debug_client_response_string (Some (render (JObject (answer_members ''acquired'' ''a1'' [(''owner_id'', JString (swbt_ipc_format_owner_id cid))])) @ newline))
     (Some ''owner_id'') 9 = Some (swbt_ipc_format_owner_id cid)"
    by (simp add: id_simps)
qed

section \<open>Steps of a session\<close>

lemma client_exchange:
  assumes "request_ok ms" "domain_inv a" "build_ok build" "answered build reader cid ms a rs a'"
  shows "swbt_debug_client_io_send (Some (daemon_io build reader cid)) (Some (render (JObject ms) @ newline)) ((Some c, Some a), queued)
      = (0, (Some c, Some a'), render (JObject rs) @ newline)"
    "swbt_debug_client_io_send_format (Some (daemon_io build reader cid)) (Some (render (JObject ms) @ newline)) ((Some c, Some a), queued)
      = (0, (Some c, Some a'), render (JObject rs) @ newline)"
    "swbt_debug_client_receive_io (Some (daemon_io build reader cid)) SWBT_IPC_JSON_RESPONSE_MAX (cs, render (JObject rs) @ newline)
      = (0, render (JObject rs) @ newline, cs, [])"
  using daemon_exchange [OF assms] assms(1)
  by (simp_all add: swbt_debug_client_io_send_def swbt_debug_client_io_send_format_def swbt_debug_client_receive_io_def daemon_io_def
      request_ok_def newline_def del: render.simps)

lemma hello_step:
  assumes "domain_inv a" "build_ok build"
  shows "swbt_debug_client_send_receive (Some (daemon_io build reader cid)) swbt_debug_client_io_send_hello SWBT_IPC_JSON_RESPONSE_MAX
      ((Some c, Some a), queued) =
    (0, render (JObject (answer_members ''hello_ok'' ''h1'' [(''client_id'', JString (swbt_ipc_format_owner_id cid))])) @ newline, (Some c, Some a), [])"
  using client_exchange [OF requests_ok(1) assms hello_answered]
  by (simp add: swbt_debug_client_send_receive_def swbt_debug_client_io_send_hello_def requests_render(1) del: render.simps)

lemma acquire_step:
  assumes "domain_inv a" "build_ok build"
  shows "swbt_debug_client_send_receive (Some (daemon_io build reader cid)) swbt_debug_client_io_send_acquire SWBT_IPC_JSON_RESPONSE_MAX
      ((Some c, Some a), queued) =
    (0, render (JObject (if domain_owner a \<in> {None, Some cid}
      then answer_members ''acquired'' ''a1'' [(''owner_id'', JString (swbt_ipc_format_owner_id cid))]
      else answer_members ''error'' ''a1'' [(''code'', JString ''owner_busy''), (''message'', JString ''another client owns the controller'')])) @ newline,
     (Some c, Some (domain_run [Acquire cid] a)), [])"
  using client_exchange [OF requests_ok(2) assms acquire_answered]
  by (simp add: swbt_debug_client_send_receive_def swbt_debug_client_io_send_acquire_def requests_render(2) del: render.simps)

lemma get_status_step:
  assumes "domain_inv a" "build_ok build" "reader_ok reader"
  shows "swbt_debug_client_send_receive (Some (daemon_io build reader cid)) swbt_debug_client_io_send_get_status SWBT_IPC_JSON_RESPONSE_MAX
      ((Some c, Some a), queued) =
    (0, render (JObject (answer_members ''status'' ''g1'' (json_status_members build (domain_response_status a)))) @ newline, (Some c, Some a), [])"
  using client_exchange [OF requests_ok(3) assms(1,2) get_status_answered [OF assms(3)]]
  by (simp add: swbt_debug_client_send_receive_def swbt_debug_client_io_send_get_status_def requests_render(3) del: render.simps)

lemma set_state_step:
  assumes "domain_inv a" "build_ok build" "domain_owner a = Some cid" "state_in_range st" "sequence < 2 ^ 63"
  shows "swbt_debug_client_io_send_set_state (Some (daemon_io build reader cid))
      \<lparr>so_owner_id = Some (swbt_ipc_format_owner_id cid), so_state = Some st, so_sequence = sequence\<rparr> ((Some c, Some a), queued) =
    (0, (Some c, Some (domain_run [SetState \<lparr>set_client_id = cid, set_state = Some st, set_sequence = sequence\<rparr>] a)),
     render (JObject (answer_members ''state_accepted'' ''s1'' [(''seq'', JInt (uint sequence))])) @ newline)"
    "swbt_debug_client_receive_io (Some (daemon_io build reader cid)) SWBT_IPC_JSON_RESPONSE_MAX
      (cs, render (JObject (answer_members ''state_accepted'' ''s1'' [(''seq'', JInt (uint sequence))])) @ newline) =
    (0, render (JObject (answer_members ''state_accepted'' ''s1'' [(''seq'', JInt (uint sequence))])) @ newline, cs, [])"
  using client_exchange [OF set_state_ok assms(1,2) set_state_answered [OF assms(2-5)]]
  by (simp_all add: swbt_debug_client_io_send_set_state_def requests_render(5) del: render.simps)

lemma release_step:
  assumes "domain_inv a" "build_ok build" "domain_owner a = Some cid"
  shows "swbt_debug_client_io_send_release (Some (daemon_io build reader cid)) (Some (swbt_ipc_format_owner_id cid)) ((Some c, Some a), queued) =
    (0, (Some c, Some (domain_run [Revoke \<lparr>revoke_reason = SWBT_DOMAIN_REVOKE_RELEASE, revoke_client_id = cid\<rparr>] a)),
     render (JObject (answer_members ''released'' ''r1'' [])) @ newline)"
    "swbt_debug_client_receive_io (Some (daemon_io build reader cid)) SWBT_IPC_JSON_RESPONSE_MAX
      (cs, render (JObject (answer_members ''released'' ''r1'' [])) @ newline) =
    (0, render (JObject (answer_members ''released'' ''r1'' [])) @ newline, cs, [])"
  using client_exchange [OF requests_ok(4) assms(1,2) release_answered [OF assms(2,3)]]
  by (simp_all add: swbt_debug_client_io_send_release_def requests_render(4) del: render.simps)

section \<open>The domain during a session\<close>

lemma run_acquire:
  assumes "domain_inv a" "domain_owner a = None"
  shows "domain_owner (domain_run [Acquire cid] a) = Some cid" "last_sequence (dom_lease (domain_run [Acquire cid] a)) = 0"
  using assms by (auto simp: domain_run_def domain_acquire_eq domain_owner_def lease_owner_def domain_inv_def lease_inv_def split: if_splits)

lemma run_acquire_busy:
  assumes "domain_inv a" "domain_owner a \<notin> {None, Some cid}"
  shows "domain_run [Acquire cid] a = a"
  using assms by (auto simp: domain_run_def domain_acquire_eq domain_owner_def lease_owner_def domain_inv_def split: if_splits)

lemma run_set_state:
  assumes "domain_owner a = Some cid" "last_sequence (dom_lease a) \<le> n"
  shows "domain_owner (domain_run [SetState \<lparr>set_client_id = cid, set_state = Some st, set_sequence = n\<rparr>] a) = Some cid"
    "dom_state (domain_run [SetState \<lparr>set_client_id = cid, set_state = Some st, set_sequence = n\<rparr>] a) = st"
  using assms by (auto simp: domain_run_def domain_set_state_eq domain_owner_def lease_owner_def split: if_splits)

lemma run_set_state_sequence:
  assumes "domain_owner a = Some cid" "last_sequence (dom_lease a) \<le> n"
  shows "last_sequence (dom_lease (domain_run [SetState \<lparr>set_client_id = cid, set_state = Some st, set_sequence = n\<rparr>] a)) = n"
  using assms by (auto simp: domain_run_def domain_set_state_eq domain_owner_def lease_owner_def split: if_splits)

lemma run_release:
  assumes "domain_owner a = Some cid"
  shows "domain_owner (domain_run [Revoke \<lparr>revoke_reason = SWBT_DOMAIN_REVOKE_RELEASE, revoke_client_id = cid\<rparr>] a) = None"
    "dom_state (domain_run [Revoke \<lparr>revoke_reason = SWBT_DOMAIN_REVOKE_RELEASE, revoke_client_id = cid\<rparr>] a) = swbt_state_neutral"
  using assms by (auto simp: domain_run_def domain_revoke_eq domain_owner_def lease_owner_def owns_def neutralised_def free_lease_def)

lemma hang_up_owner:
  assumes "domain_inv a" "domain_owner a \<in> {None, Some cid}"
  shows "\<exists>a'. daemon_hang_up cid ((Some c, Some a), queued) = ((Some c, Some a'), []) \<and> domain_inv a' \<and> domain_owner a' = None
    \<and> dom_state a' = swbt_state_neutral"
proof -
  obtain r a' where a': "swbt_ipc_adapter_handle_disconnect (Some c, Some a) cid = (r, Some c, Some a')" "client_gone cid a a'"
    using disconnect_gone(1) [OF assms(1)] by blast
  then have "domain_inv a'" "domain_owner a' = None"
    using assms(2) by (auto simp: client_gone_def)
  moreover from this have "dom_state a' = swbt_state_neutral"
    by (auto simp: domain_inv_def domain_owner_def lease_owner_def split: if_splits)
  ultimately show ?thesis
    using a'(1) by (simp add: daemon_hang_up_def)
qed

lemma hang_up_other:
  assumes "domain_inv a" "domain_owner a = Some other" "other \<noteq> cid"
  shows "daemon_hang_up cid ((Some c, Some a), queued) = ((Some c, Some a), [])"
  using assms by (auto simp: daemon_hang_up_def swbt_ipc_adapter_handle_disconnect_def swbt_control_disconnect_client_def domain_revoke_eq
      owns_def domain_owner_def lease_owner_def domain_inv_def split: if_splits)

lemma answers_plain:
  "members_plain (answer_members ''hello_ok'' ''h1'' [(''client_id'', JString (swbt_ipc_format_owner_id cid))])"
  "members_plain (answer_members ''acquired'' ''a1'' [(''owner_id'', JString (swbt_ipc_format_owner_id cid))])"
  "members_plain (answer_members ''error'' ''a1'' [(''code'', JString ''owner_busy''), (''message'', JString ''another client owns the controller'')])"
  "members_plain (answer_members ''state_accepted'' ''s1'' [(''seq'', JInt i)])"
  "members_plain (answer_members ''released'' ''r1'' [])"
  "build_ok build \<Longrightarrow> members_plain (answer_members ''status'' ''g1'' (json_status_members build st))"
  by (simp_all add: answer_members_def literal_plain owner_id_plain status_plain build_ok_def)

lemma status_texts: "(''type'', t) \<notin> set (texts_members (json_status_members build st))"
  by (simp add: json_status_members_def json_daemon_obj_def json_metrics_obj_def json_hardware_obj_def json_owner_obj_def
      json_state_obj_def json_rumble_obj_def)

lemma owner_session_daemon:
  assumes "domain_inv a" "build_ok build" "reader_ok reader" "domain_owner a = Some cid" "last_sequence (dom_lease a) = 0"
    and "state_in_range (dc_state config)" "dc_sequence config < 2 ^ 63"
  defines "a1 \<equiv> domain_run [SetState \<lparr>set_client_id = cid, set_state = Some (dc_state config), set_sequence = dc_sequence config\<rparr>] a"
  shows "owner_session config (daemon_io build reader cid) (swbt_ipc_format_owner_id cid) out err ((Some c, Some a), queued) =
    (0, fputs (render (JObject (answer_members ''status'' ''g1'' (json_status_members build (domain_response_status a1)))) @ newline) out, err,
     (Some c, Some (if dc_skip_release config then a1
       else domain_run [Revoke \<lparr>revoke_reason = SWBT_DOMAIN_REVOKE_RELEASE, revoke_client_id = cid\<rparr>] a1)), [])"
proof -
  have a1: "domain_inv a1" "domain_owner a1 = Some cid"
    using assms(1,4,5) command_run_inv run_set_state(1) by (auto simp: a1_def)
  note steps = set_state_step [OF assms(1,2,4,6,7), of reader, folded a1_def] get_status_step [OF a1(1) assms(2,3)]
    release_step [OF a1(1) assms(2) a1(2), of reader]
  have "\<not> swbt_debug_client_response_contains (Some (render (JObject (answer_members ''state_accepted'' ''s1'' [(''seq'', JInt i)])) @ newline)) (type_is ''error'')"
    "\<not> swbt_debug_client_response_contains (Some (render (JObject (answer_members ''status'' ''g1'' (json_status_members build st))) @ newline)) (type_is ''error'')"
    "\<not> swbt_debug_client_response_contains (Some (render (JObject (answer_members ''released'' ''r1'' [])) @ newline)) (type_is ''error'')"
    for i st
    using answers_plain assms(2) status_texts by (simp_all add: answer_contains del: render.simps)
  with steps show ?thesis
    by (simp add: owner_session_def Let_def del: render.simps)
qed

section \<open>Properties\<close>

text \<open>C24: A session of the debug client with a free daemon, over a connection that loses nothing, does what its command line asks for:
  whenever the command line is accepted and its sequence number is below 2^63, the client takes the lease, submits the state of
  the command line, prints one status line that shows this state and the client as the owner, and writes no error. Then it gives the lease
  back and the controller is neutral, or, with the option that skips the release, it still owns the lease with the submitted state in
  force. It closes its socket and exits with 0, and in both cases the daemon, told that this client is gone, ends
  with the lease free and the controller neutral.\<close>

theorem debug_client_session:
  assumes "swbt_debug_client_parse_args argv err0 = (Some config, err1)" "dc_sequence config < 2 ^ 63"
    and "domain_inv a" "build_ok build" "reader_ok reader" "domain_owner a = None"
  shows "\<exists>rs a' a''. swbt_debug_client_run_io (Some config) (Some (daemon_io build reader cid)) (Some printed) (Some reported) ((Some c, Some a), [])
      = (0, Some (printed @ render (JObject rs) @ newline), Some reported, (Some c, Some a'), [])
    \<and> client_connected config (daemon_io build reader cid) (daemon_hang_up cid) (Some printed) (Some reported) ((Some c, Some a), [])
      = (0, Some (printed @ render (JObject rs) @ newline), Some reported, (Some c, Some a''), [])
    \<and> map_of rs ''type'' = Some (JString ''status'') \<and> map_of rs ''state'' = Some (json_state_obj (dc_state config))
    \<and> map_of rs ''owner'' = Some (JObject [(''present'', JBool True), (''owner_id'', JString (swbt_ipc_format_owner_id cid)),
        (''last_seq'', JInt (uint (dc_sequence config)))])
    \<and> domain_inv a' \<and> domain_owner a' = (if dc_skip_release config then Some cid else None)
    \<and> dom_state a' = (if dc_skip_release config then dc_state config else swbt_state_neutral)
    \<and> domain_inv a'' \<and> domain_owner a'' = None \<and> dom_state a'' = swbt_state_neutral"
proof -
  define a1 where "a1 = domain_run [Acquire cid] a"
  define a2 where "a2 = domain_run [SetState \<lparr>set_client_id = cid, set_state = Some (dc_state config), set_sequence = dc_sequence config\<rparr>] a1"
  define a3 where "a3 = domain_run [Revoke \<lparr>revoke_reason = SWBT_DOMAIN_REVOKE_RELEASE, revoke_client_id = cid\<rparr>] a2"
  note a1 = run_acquire [OF assms(3,6), of cid, folded a1_def] command_run_inv [OF assms(3), of "[Acquire cid]", folded a1_def]
  have a2: "domain_owner a2 = Some cid" "dom_state a2 = dc_state config" "last_sequence (dom_lease a2) = dc_sequence config" "domain_inv a2"
    and a3: "domain_owner a3 = None" "dom_state a3 = swbt_state_neutral" "domain_inv a3"
    using run_set_state [OF a1(1)] run_set_state_sequence [OF a1(1)] a1(2,3) run_release command_run_inv by (auto simp: a2_def a3_def)
  have "swbt_debug_client_run_io (Some config) (Some (daemon_io build reader cid)) (Some printed) (Some reported) ((Some c, Some a), [])
      = owner_session config (daemon_io build reader cid) (swbt_ipc_format_owner_id cid) (Some printed) (Some reported) ((Some c, Some a1), [])"
    using hello_step [OF assms(3,4), of reader cid c] acquire_step [OF assms(3,4), of reader cid c] assms(6) answers_plain(1,2) ids_found
    by (simp add: swbt_debug_client_run_io_def answer_contains a1_def del: render.simps)
  moreover have "state_in_range (dc_state config)"
    using parse_args_range [OF assms(1)] by simp
  moreover have "map_of (answer_members ''status'' ''g1'' (json_status_members build (domain_response_status a2))) ''owner''
      = Some (JObject [(''present'', JBool True), (''owner_id'', JString (swbt_ipc_format_owner_id cid)), (''last_seq'', JInt (uint (dc_sequence config)))])"
    using a2(1,3) by (simp add: answer_members_def json_status_members_def json_owner_obj_def domain_response_status_def domain_owner_def
        lease_owner_def split: if_splits)
  ultimately have "\<exists>rs a'. swbt_debug_client_run_io (Some config) (Some (daemon_io build reader cid)) (Some printed) (Some reported) ((Some c, Some a), [])
        = (0, Some (printed @ render (JObject rs) @ newline), Some reported, (Some c, Some a'), [])
      \<and> map_of rs ''type'' = Some (JString ''status'') \<and> map_of rs ''state'' = Some (json_state_obj (dc_state config))
      \<and> map_of rs ''owner'' = Some (JObject [(''present'', JBool True), (''owner_id'', JString (swbt_ipc_format_owner_id cid)),
          (''last_seq'', JInt (uint (dc_sequence config)))])
      \<and> domain_inv a' \<and> domain_owner a' = (if dc_skip_release config then Some cid else None)
      \<and> dom_state a' = (if dc_skip_release config then dc_state config else swbt_state_neutral)"
    using owner_session_daemon [OF a1(3) assms(4,5) a1(1,2) _ assms(2), folded a2_def, folded a3_def] a2 a3
    by (auto simp: answer_members_def json_status_members_def domain_response_status_def simp del: render.simps)
  then obtain rs a' where run: "swbt_debug_client_run_io (Some config) (Some (daemon_io build reader cid)) (Some printed) (Some reported) ((Some c, Some a), [])
        = (0, Some (printed @ render (JObject rs) @ newline), Some reported, (Some c, Some a'), [])"
      "map_of rs ''type'' = Some (JString ''status'')" "map_of rs ''state'' = Some (json_state_obj (dc_state config))"
      "map_of rs ''owner'' = Some (JObject [(''present'', JBool True), (''owner_id'', JString (swbt_ipc_format_owner_id cid)),
          (''last_seq'', JInt (uint (dc_sequence config)))])"
      "domain_inv a'" "domain_owner a' = (if dc_skip_release config then Some cid else None)"
      "dom_state a' = (if dc_skip_release config then dc_state config else swbt_state_neutral)"
    by blast
  obtain a'' where "daemon_hang_up cid ((Some c, Some a'), []) = ((Some c, Some a''), [])" "domain_inv a''" "domain_owner a'' = None"
      "dom_state a'' = swbt_state_neutral"
    using hang_up_owner [of a' cid c "[]"] run(5,6) by (auto split: if_splits)
  with run show ?thesis
    by (intro exI [of _ rs] exI [of _ a'] exI [of _ a'']) (simp add: client_connected_def del: render.simps)
qed

text \<open>C25: When another client owns the daemon, the debug client changes nothing: it reports the daemon's refusal on the error
  stream, prints nothing, closes its socket and exits with 4, and the domain is as before, whatever the configuration is: closing the
  connection of a client without the lease revokes nothing.\<close>

theorem debug_client_refused:
  assumes "domain_inv a" "build_ok build" "domain_owner a = Some other" "other \<noteq> cid"
  shows "client_connected config (daemon_io build reader cid) (daemon_hang_up cid) (Some printed) (Some reported) ((Some c, Some a), [])
      = (4, Some printed, Some (reported @ render (JObject [(''v'', JInt 1), (''type'', JString ''error''), (''request_id'', JString ''a1''),
          (''code'', JString ''owner_busy''), (''message'', JString ''another client owns the controller'')]) @ newline), (Some c, Some a), [])"
proof -
  have "swbt_debug_client_run_io (Some config) (Some (daemon_io build reader cid)) (Some printed) (Some reported) ((Some c, Some a), [])
      = (1, Some printed, Some (reported @ render (JObject (answer_members ''error'' ''a1''
          [(''code'', JString ''owner_busy''), (''message'', JString ''another client owns the controller'')])) @ newline), (Some c, Some a), [])"
    using hello_step [OF assms(1,2), of reader cid c] acquire_step [OF assms(1,2), of reader cid c] assms(3,4) answers_plain(1,3) ids_found(1)
      run_acquire_busy [OF assms(1), of cid]
    by (simp add: swbt_debug_client_run_io_def answer_contains del: render.simps)
  then show ?thesis
    using hang_up_other [OF assms(1,3,4), of c "[]"] by (simp add: client_connected_def answer_members_def del: render.simps)
qed

text \<open>A command line that presses one button, moves a stick and skips the release, given to a fresh daemon and to one that another client drives.\<close>

definition demo_argv :: "string list" where
  "demo_argv = [''swbt-debug-client'', ''--port'', ''5000'', ''--button'', ''a'', ''--lx'', ''0xfff'', ''--skip-release'']"

definition demo_client_config :: swbt_debug_client_config_t where
  "demo_client_config = \<lparr>dc_port = 5000, dc_state = swbt_state_neutral\<lparr>buttons := 8, lx := 4095\<rparr>, dc_sequence = 0, dc_hold_ms = 0, dc_skip_release = True\<rparr>"

lemma demo_argv_parsed: "swbt_debug_client_parse_args demo_argv (Some []) = (Some demo_client_config, Some [])"
proof -
  have "swbt_debug_client_parse_u64 (Some ''5000'') 65535 = Some 5000" "swbt_debug_client_parse_u64 (Some ''0xfff'') 4095 = Some 4095"
    by (simp_all add: swbt_debug_client_parse_u64_def strtou_def c_integer_def sign_prefix_def base_prefix_def hex_prefix_def
        digits_value_def base_digit_def digit_value_def in_range_def ccode_def isspace_def NUL_def)
  moreover have "swbt_debug_client_parse_button_name ''a'' = Some 8"
    by (simp add: swbt_debug_client_parse_button_name_def SWBT_DEBUG_CLIENT_BUTTONS_def)
  ultimately show ?thesis
    by (simp add: swbt_debug_client_parse_args_def demo_argv_def demo_client_config_def parse_arg_def with_state_def checked_option_def
        ranged_option_def swbt_debug_client_require_value_def swbt_debug_client_parse_stick_def swbt_debug_client_is_unsupported_macro_arg_def
        swbt_state_neutral_def)
qed

theorem debug_client_session_witness:
  "\<exists>rs a' a''. swbt_debug_client_run_io (Some demo_client_config) (Some (daemon_io demo_build None 9)) (Some []) (Some [])
        ((Some \<lparr>next_direct_sequence = 0\<rparr>, Some demo_domain), [])
      = (0, Some (render (JObject rs) @ newline), Some [], (Some \<lparr>next_direct_sequence = 0\<rparr>, Some a'), [])
    \<and> client_connected demo_client_config (daemon_io demo_build None 9) (daemon_hang_up 9) (Some []) (Some [])
        ((Some \<lparr>next_direct_sequence = 0\<rparr>, Some demo_domain), [])
      = (0, Some (render (JObject rs) @ newline), Some [], (Some \<lparr>next_direct_sequence = 0\<rparr>, Some a''), [])
    \<and> map_of rs ''state'' = Some (json_state_obj (swbt_state_neutral\<lparr>buttons := 8, lx := 4095\<rparr>)) \<and> dom_state a' = (swbt_state_neutral\<lparr>buttons := 8, lx := 4095\<rparr>)
    \<and> domain_owner a' = Some 9 \<and> domain_owner a'' = None \<and> dom_state a'' = swbt_state_neutral"
proof -
  have "domain_inv demo_domain" "domain_owner demo_domain = None"
    using domain.reachable_inv [OF reach_init [of domain_initial, OF demo_domain_initial]] demo_domain_free
    by (simp_all add: domain_owner_def lease_owner_def free_lease_def)
  moreover have "dc_sequence demo_client_config < 2 ^ 63" "reader_ok None"
    by (simp_all add: demo_client_config_def reader_ok_def)
  ultimately show ?thesis
    using debug_client_session [OF demo_argv_parsed _ _ demo_build_ok, of demo_domain None 9 "[]" "[]" "\<lparr>next_direct_sequence = 0\<rparr>"]
    by (simp add: demo_client_config_def del: render.simps) blast
qed

theorem debug_client_refused_witness:
  "fst (client_connected demo_client_config (daemon_io demo_build None 9) (daemon_hang_up 9) (Some []) (Some [])
      ((Some \<lparr>next_direct_sequence = 0\<rparr>, Some demo_driven), [])) = 4"
proof -
  have "domain_inv demo_driven" "domain_owner demo_driven = Some 7"
    using demo_driven_reachable domain.reachable_inv
    by (auto simp: domain_owner_def lease_owner_def demo_driven_def domain_acquire_eq domain_set_state_eq demo_domain_free free_lease_def)
  then show ?thesis
    using debug_client_refused [OF _ demo_build_ok, of demo_driven 7 9] by simp
qed


section \<open>Sequence numbers\<close>

text \<open>The client accepts sequence numbers that the daemon refuses, and a negative number behind a space.\<close>

theorem large_sequence_refused:
  assumes "2 ^ 63 \<le> sequence"
  shows "json_set_state (request_members ''set_state'' (set_state_members cid sequence st)) = None"
proof -
  have "\<not> uint sequence \<le> 2 ^ 63 - 1"
    using assms by (simp add: word_le_def)
  then show ?thesis
    by (auto simp: json_set_state_def json_sequence_def json_range_def request_members_def set_state_members_def
        json_state_obj_def split: bind_splits)
qed

theorem negative_behind_space: "swbt_debug_client_parse_u64 (Some '' -1'') (2 ^ 64 - 1) = Some (2 ^ 64 - 1)"
  by (simp add: swbt_debug_client_parse_u64_def strtou_def c_integer_def sign_prefix_def base_prefix_def hex_prefix_def
      digits_value_def base_digit_def digit_value_def in_range_def ccode_def isspace_def NUL_def)

end
