(* ===== verification/Spec2Isabelle.thy ===== *)
theory Spec2Isabelle
  imports Reconnect Cli ClientSession
begin

text \<open>
  This development models the daemon swbt-daemon, which presents a host computer to a game console as a
  wireless controller. Local programs connect over TCP, take a lease on the controller and
  submit its state as lines of JSON; the daemon sends that state to the console as HID input reports over
  Bluetooth (BTstack) and answers the subcommands the console sends.

  \<^bold>\<open>How the parts interact.\<close> The domain (\<open>src/swbt/domain\<close>) holds the lease, the controller state, the emulated
  flash, the rumble and light values and the metrics, under a spin lock. The control object
  (\<open>src/swbt/control\<close>) and the C API (\<open>src/api\<close>) are its clients inside of the process. The IPC server
  (\<open>src/swbt/ipc\<close>) decodes lines, executes them on the control object and encodes the answers; the IPC runner
  (\<open>src/swbt/daemon/ipc_runner.c\<close>) drives it by polling, with one connection at a time. The runtime host
  (\<open>src/swbt/runtime\<close>) starts and stops the HID device, the output report handler and the report timer,
  passes output reports of the console to the domain and queues the replies. The timer adapter
  (\<open>src/swbt/btstack_bridge\<close>) sends the periodic reports, the queued replies and the neutral report. The daemon process
  (\<open>src/swbt/daemon/process.c\<close>) owns domain, control object, IPC runner and host and starts and stops them in order. The
  production runner (\<open>production_runner.c\<close> and the session, timer and backend files beside it) connects the process to the BTstack
  platform, handles the events of the Bluetooth connection, connects to a known console again and leads through the shutdown:
  a neutral report, the disconnect, power off. The program (\<open>src/apps/swbt-daemon\<close>, \<open>cli.c\<close>) reads defaults, configuration
  file, environment and command line and runs it; the debug client (\<open>src/apps/swbt-debug-client\<close>) is a client of the
  IPC protocol.

  \<^bold>\<open>Theories and sources.\<close>
  \<^item> \<open>Prelude\<close>: word types, list and word lemmas, and the contracts as locales: fixed size codecs, transition
    systems with an invariant.
  \<^item> \<open>SwitchReport\<close>, \<open>Spi\<close>, \<open>Peripherals\<close>, \<open>Subcommand\<close>, \<open>Dispatcher\<close>: \<open>src/swbt/switch\<close>, the console protocol;
    reports decode back to the state they were built from, the flash is a byte memory, every
    subcommand gets the answer of the protocol.
  \<^item> \<open>Lease\<close>, \<open>Metrics\<close>, \<open>Domain\<close>: \<open>src/swbt/domain\<close> and \<open>src/swbt/support\<close>. The domain is a transition system over
    all of its operations; its invariant says that without an owner the state is neutral.
  \<^item> \<open>Control\<close>: \<open>src/swbt/control\<close> and \<open>src/api\<close>.
  \<^item> \<open>ReplyQueue\<close>, \<open>Scheduler\<close>, \<open>TimerAdapter\<close>: the queue of replies refines a bounded FIFO, the scheduler keeps the
    period, the adapter puts consecutive timer bytes into everything it sends.
  \<^item> \<open>OutputHandler\<close>, \<open>Host\<close>, \<open>Device\<close>: entry of output reports, runtime host, BTstack device and HID events.
    What they call is recorded in a trace, and the trace is shown to keep the order the backend needs.
  \<^item> \<open>HidDescriptor\<close>, \<open>Platform\<close>, \<open>Ports\<close>: the HID report descriptor, read back item by item; the start and stop of the BTstack platform
    with its link keys, dump and USB adapter choice, shown to give back every layer it initialised, save after a failed start; the port tables.
  \<^item> \<open>CString\<close>, \<open>CNumber\<close>, \<open>COutput\<close>, \<open>Addresses\<close>, \<open>Config\<close>, \<open>ConfigFile\<close>: C strings, the number readers of the C library and output
    streams, the Bluetooth address and USB location readers, the configuration with its environment variables and options, and the
    configuration file: a launch takes a whole valid layer or nothing.
  \<^item> \<open>JsonScan\<close>, \<open>IpcJson\<close>, \<open>IpcAdapter\<close>, \<open>IpcServer\<close>, \<open>IpcRunner\<close>: the IPC chain from bytes to domain operations.
    The scanner is shown to read the members of every JSON object text without escape sequences and with integer numbers only, the decoder to
    implement an abstract reading of the object, the adapter to give a client no more than the lease allows, the
    server to frame lines however the stream is cut, the runner to leave no lease without its connection.
  \<^item> \<open>Process\<close>, \<open>Production\<close>: the daemon process as a transition system whose invariant orders start and stop of all parts, and the
    production runner with its device, session and timer events.
  \<^item> \<open>Shutdown\<close>, \<open>DaemonRun\<close>, \<open>Reconnect\<close>: the shutdown sequence refines an abstract machine of five phases over any
    sequence of run loop events; a request leads to the end of the run loop when the outside works; every exit of
    the main function releases what was started, where the platform appears as the calls of the device port; a learned console address is saved and used by the next start.
  \<^item> \<open>Cli\<close>: the commands, the entry point and \<open>main\<close>. The printed configuration is the one a start would use, and its text suffices to
    start the same daemon.
  \<^item> \<open>JsonSearch\<close>, \<open>DebugClient\<close>, \<open>ClientSession\<close>: the debug client, and its session with the model of the daemon. The client does not
    parse responses but searches them as text, and the search is shown to find only members of the printed object. The link between the two is a
    specification: what was sent is answered at once and the end of the connection reaches the adapter.

  \<^bold>\<open>Conventions.\<close> A pointer that may be NULL is an option. Integers keep their width as words, so that sums
  wrap as in C; the result codes are datatypes. C strings are lists of characters; where the code walks over a
  string or an array, an access outside of it is the value None, and the theorems show that it does not
  happen. A function pointer table is a record that says which members are set; what the functions
  behind it answer is an environment argument of the call, and what was asked of them a trace. Loops of the code are
  recursive functions with a termination proof, so that no bound or fuel is needed.

  \<^bold>\<open>Parameters.\<close> BTstack event numbers and functions, libusb answers, socket calls, the clock, the file system, the reader and
  printer of the TOML library, the memory of a new object, the number of bits of an unsigned long and the version string are
  arguments of the definitions that use them. Hypotheses about them are stated where they are used: \<open>build_ok\<close> (at least 32
  bits, a version of at most 256 characters without quote, backslash and NUL), \<open>raw_text\<close> (no control characters in it), \<open>reader_ok\<close> (the status can be read), and for the liveness theorems that the
  calls of the outside succeed.

  \<^bold>\<open>Not modelled.\<close> BTstack, libusb and the TOML library, whose sources are not in the repository, and the one line wrappers that
  only pass a call on to them (\<open>hid_device_btstack_adapter.c\<close>, parts of \<open>production_btstack_impl.c\<close> and of the timer
  backend); code that is compiled on Windows only (WinUSB lookup, socket library start, console handler, crash
  dump); the text of log lines and of the version; the tables of function and data pointers that wire the parts
  together, which the model expresses by calling the definitions directly.
\<close>

end
